(* ===== verification/Prelude.thy ===== *)
theory Prelude
  imports Complex_Main "HOL-Library.List_Lexorder" "HOL-Library.Char_ord" "HOL-Library.Code_Target_Nat"
begin

text \<open>
  Shared vocabulary of the development: the result type of fallible Go functions with its
  sequencing combinator, byte strings with the parts of Go's \<^verbatim>\<open>strings\<close>,
  \<^verbatim>\<open>unicode/utf8\<close>, \<^verbatim>\<open>math/big\<close> and \<^verbatim>\<open>time\<close> packages the sources use, and the
  generic lemmas the component theories share.  A Go string is the list of its bytes.
\<close>

named_theorems money_simps \<open>exact facts about amounts, quantities and rates\<close>
named_theorems res_simps \<open>unfolding of results and of their sequencing\<close>

section \<open>Results of fallible functions\<close>

text \<open>\<^term>\<open>Inl\<close> carries the Go error, \<^term>\<open>Inr\<close> the value returned next to a nil error.\<close>

definition res_bind :: "'e + 'a \<Rightarrow> ('a \<Rightarrow> 'e + 'b) \<Rightarrow> 'e + 'b" where
  "res_bind m f = (case m of Inl e \<Rightarrow> Inl e | Inr x \<Rightarrow> f x)"

definition map_err :: "('e \<Rightarrow> 'f) \<Rightarrow> 'e + 'a \<Rightarrow> 'f + 'a" where
  "map_err g m = (case m of Inl e \<Rightarrow> Inl (g e) | Inr x \<Rightarrow> Inr x)"

fun opt_traverse :: "('a \<Rightarrow> 'e + 'b) \<Rightarrow> 'a option \<Rightarrow> 'e + 'b option" where
  "opt_traverse f None = Inr None"
| "opt_traverse f (Some x) = res_bind (f x) (\<lambda>y. Inr (Some y))"

lemma res_bind_Inl [simp]: "res_bind (Inl e) f = Inl e"
  by (simp add: res_bind_def)

lemma res_bind_Inr [simp]: "res_bind (Inr x) f = f x"
  by (simp add: res_bind_def)

lemma res_bind_eq_Inr [simp]:
  "res_bind m f = Inr y \<longleftrightarrow> (\<exists>x. m = Inr x \<and> f x = Inr y)"
  by (cases m) simp_all

lemma res_bind_eq_Inl [simp]:
  "res_bind m f = Inl e \<longleftrightarrow> m = Inl e \<or> (\<exists>x. m = Inr x \<and> f x = Inl e)"
  by (cases m) auto

lemma res_bind_assoc: "res_bind (res_bind m f) g = res_bind m (\<lambda>x. res_bind (f x) g)"
  by (cases m) simp_all

lemma res_bind_cong [fundef_cong]:
  "m = m' \<Longrightarrow> (\<And>x. m' = Inr x \<Longrightarrow> f x = f' x) \<Longrightarrow> res_bind m f = res_bind m' f'"
  by (cases m') auto

lemma map_err_simps [simp]:
  "map_err g (Inl e) = Inl (g e)" "map_err g (Inr x) = Inr x"
  by (simp_all add: map_err_def)

lemma map_err_eq_Inr [simp]: "map_err g m = Inr y \<longleftrightarrow> m = Inr y"
  by (cases m) simp_all

lemma map_err_eq_Inl [simp]: "map_err g m = Inl e \<longleftrightarrow> (\<exists>e'. m = Inl e' \<and> e = g e')"
  by (cases m) auto

lemma if_Inl_eq_Inr [simp]: "(if b then Inl e else m) = Inr y \<longleftrightarrow> \<not> b \<and> m = Inr y"
  by simp

text \<open>
  Elimination rules that take a successful run of a sequence of fallible steps apart, one step
  at a time.
\<close>

lemma res_bindE:
  assumes "res_bind m f = Inr y"
  obtains x where "m = Inr x" and "f x = Inr y"
  using assms by auto

lemma if_InlE:
  assumes "(if b then Inl e else m) = Inr y"
  obtains "\<not> b" and "m = Inr y"
  using assms by auto

lemma map_errE:
  assumes "map_err g m = Inr y"
  obtains "m = Inr y"
  using assms by simp

lemmas res_elims = res_bindE if_InlE map_errE

fun is_ok :: "'e + 'a \<Rightarrow> bool" where
  "is_ok (Inl e) = False"
| "is_ok (Inr x) = True"

lemma is_ok_iff: "is_ok m \<longleftrightarrow> (\<exists>x. m = Inr x)"
  by (cases m) auto

lemma res_bind_not_ok: "\<not> is_ok m \<Longrightarrow> \<not> is_ok (res_bind m f)"
  by (cases m) simp_all

section \<open>Decimal digits\<close>

definition is_digit :: "char \<Rightarrow> bool" where
  "is_digit c \<longleftrightarrow> CHR ''0'' \<le> c \<and> c \<le> CHR ''9''"

definition digit_char :: "nat \<Rightarrow> char" where
  "digit_char d = char_of (48 + d)"

definition digit_val :: "char \<Rightarrow> nat" where
  "digit_val c = of_char c - 48"

fun nat_string :: "nat \<Rightarrow> string" where
  "nat_string n = (if n < 10 then [digit_char n] else nat_string (n div 10) @ [digit_char (n mod 10)])"

declare nat_string.simps [simp del]

definition string_nat :: "string \<Rightarrow> nat" where
  "string_nat s = foldl (\<lambda>acc c. acc * 10 + digit_val c) 0 s"

text \<open>\<^verbatim>\<open>(*big.Int).String\<close> of the \<^verbatim>\<open>math/big\<close> package: base ten, no leading zero.\<close>

definition big_string :: "int \<Rightarrow> string" where
  "big_string z = (if z < 0 then CHR ''-'' # nat_string (nat (- z)) else nat_string (nat z))"

lemma is_digit_iff: "is_digit c \<longleftrightarrow> 48 \<le> (of_char c :: nat) \<and> (of_char c :: nat) \<le> 57"
  by (auto simp: is_digit_def less_eq_char_def)

lemma digit_val_char [simp]: "d < 10 \<Longrightarrow> digit_val (digit_char d) = d"
  by (simp add: digit_val_def digit_char_def)

lemma is_digit_char [simp]: "d < 10 \<Longrightarrow> is_digit (digit_char d)"
  by (simp add: is_digit_iff digit_char_def)

lemma digit_char_val: "is_digit c \<Longrightarrow> digit_char (digit_val c) = c"
  by (simp add: is_digit_iff digit_val_def digit_char_def)

lemma digit_val_less: "is_digit c \<Longrightarrow> digit_val c < 10"
  by (auto simp: is_digit_iff digit_val_def)

lemma digit_char_0 [simp]: "digit_char 0 = CHR ''0''"
  by code_simp

lemma digit_char_eq_0: "d < 10 \<Longrightarrow> digit_char d = CHR ''0'' \<longleftrightarrow> d = 0"
  by (metis digit_char_0 digit_val_char zero_less_numeral)

lemma nat_string_neq_Nil [simp]: "nat_string n \<noteq> []"
  by (subst nat_string.simps) simp

lemma nat_string_digits: "list_all is_digit (nat_string n)"
proof (induction n rule: nat_string.induct)
  case (1 n)
  then show ?case by (subst nat_string.simps) auto
qed

lemma string_nat_Nil [simp]: "string_nat [] = 0"
  by (simp add: string_nat_def)

lemma string_nat_snoc [simp]: "string_nat (s @ [c]) = string_nat s * 10 + digit_val c"
  by (simp add: string_nat_def)

lemma string_nat_string [simp]: "string_nat (nat_string n) = n"
proof (induction n rule: nat_string.induct)
  case (1 n)
  show ?case
  proof (cases "n < 10")
    case True
    then show ?thesis by (subst nat_string.simps) (simp add: string_nat_def)
  next
    case False
    with 1 show ?thesis by (subst nat_string.simps) simp
  qed
qed

lemma length_nat_string_pos [simp]: "0 < length (nat_string n)"
  by simp

lemma nat_string_length_le: "0 < k \<Longrightarrow> length (nat_string n) \<le> k \<longleftrightarrow> n < 10 ^ k"
proof (induction n arbitrary: k rule: nat_string.induct)
  case (1 n)
  show ?case
  proof (cases "n < 10")
    case True
    moreover from \<open>0 < k\<close> have "(10::nat) \<le> 10 ^ k"
      by (cases k) simp_all
    ultimately show ?thesis using 1(2) by (subst nat_string.simps) simp
  next
    case False
    show ?thesis
    proof (cases "k = 1")
      case True
      with False show ?thesis by (subst nat_string.simps) simp
    next
      case k: False
      with \<open>0 < k\<close> obtain j where j: "k = Suc j" "0 < j" by (cases k) auto
      have "n < 10 ^ k \<longleftrightarrow> n div 10 < 10 ^ j"
        using j by (auto simp: div_less_iff_less_mult mult.commute)
      with 1(1)[OF False, of j] j False show ?thesis by (subst nat_string.simps) simp
    qed
  qed
qed

text \<open>An evaluation of the digits from the right, with an accumulator.\<close>

function int_digits :: "int \<Rightarrow> string \<Rightarrow> string" where
  "int_digits k acc = (if k < 10 then digit_char (nat k) # acc else int_digits (k div 10) (digit_char (nat (k mod 10)) # acc))"
  by pat_completeness auto
termination by (relation "measure (\<lambda>(k, acc). nat k)") auto

declare int_digits.simps [simp del]

lemma int_digits_nat_string: "int_digits (int n) acc = nat_string n @ acc"
proof (induction n arbitrary: acc rule: nat_string.induct)
  case (1 n)
  show ?case
  proof (cases "n < 10")
    case True
    then show ?thesis by (subst int_digits.simps, subst nat_string.simps) simp
  next
    case False
    with 1 [of "digit_char (n mod 10) # acc"] show ?thesis
      by (subst int_digits.simps, subst nat_string.simps) (simp add: zdiv_int nat_mod_distrib)
  qed
qed

lemma nat_string_code [code]: "nat_string n = int_digits (int n) []"
  by (simp add: int_digits_nat_string)

lemma nat_string_upper: "n < 10 ^ length (nat_string n)"
  using nat_string_length_le [of "length (nat_string n)" n] by simp

lemma nat_string_hd_0: "hd (nat_string n) = CHR ''0'' \<longleftrightarrow> n = 0"
proof (induction n rule: nat_string.induct)
  case (1 n)
  show ?case
  proof (cases "n < 10")
    case True
    then show ?thesis by (subst nat_string.simps) (simp add: digit_char_eq_0)
  next
    case False
    with 1 show ?thesis by (subst nat_string.simps) auto
  qed
qed

lemma nat_string_0: "nat_string 0 = ''0''"
  by (subst nat_string.simps) simp

lemma string_nat_append: "string_nat (s @ t) = string_nat s * 10 ^ length t + string_nat t"
  by (induction t rule: rev_induct) (simp_all add: algebra_simps flip: append_assoc)

lemma string_nat_less: "list_all is_digit s \<Longrightarrow> string_nat s < 10 ^ length s"
proof (induction s rule: rev_induct)
  case (snoc c s)
  then have "string_nat s + 1 \<le> 10 ^ length s" "digit_val c < 10"
    by (auto simp: digit_val_less)
  then have "(string_nat s + 1) * 10 \<le> 10 ^ length s * 10" by simp
  with \<open>digit_val c < 10\<close> show ?case by simp
qed simp

end
