(* ===== verification/GoRuntime.thy ===== *)
theory GoRuntime
  imports Prelude
begin

text \<open>
  What the sources use of Go's standard library on strings, times and dates.  Strings are
  byte lists in UTF-8; the trimming functions match the encodings of Go's white space, the
  rune count follows the decoder of \<^verbatim>\<open>unicode/utf8\<close> (an invalid byte is one rune), and the
  case mappings are exact for every rune whose image is ASCII, which is all their callers
  test for.  A \<^verbatim>\<open>time.Time\<close> is the number of nanoseconds since Go's zero time (midnight UTC of
  1 January of year 1), so that \<^verbatim>\<open>IsZero\<close> is a comparison with 0 and \<^verbatim>\<open>UTC\<close> changes nothing.
\<close>

section \<open>Trimming\<close>

text \<open>\<^verbatim>\<open>strings.TrimFunc\<close> with the set of runes given by their encodings.\<close>

definition starts_with :: "string \<Rightarrow> string \<Rightarrow> bool" where
  "starts_with s w \<longleftrightarrow> take (length w) s = w"

function strip_left :: "string list \<Rightarrow> string \<Rightarrow> string" where
  "strip_left ws s =
     (case find (\<lambda>w. w \<noteq> [] \<and> starts_with s w) ws of
        None \<Rightarrow> s
      | Some w \<Rightarrow> strip_left ws (drop (length w) s))"
  by pat_completeness auto
termination
proof (relation "measure (\<lambda>(ws, s). length s)")
  fix ws :: "string list" and s w :: string
  assume "find (\<lambda>w. w \<noteq> [] \<and> starts_with s w) ws = Some w"
  then have "w \<noteq> []" "take (length w) s = w"
    by (auto simp: find_Some_iff starts_with_def)
  then have "0 < length w" "s \<noteq> []" by auto
  then show "((ws, drop (length w) s), (ws, s)) \<in> measure (\<lambda>(ws, s). length s)"
    by auto
qed simp

declare strip_left.simps [simp del]

lemma strip_left_None:
  "find (\<lambda>w. w \<noteq> [] \<and> starts_with s w) ws = None \<Longrightarrow> strip_left ws s = s"
  by (subst strip_left.simps) simp

lemma strip_left_Some:
  "find (\<lambda>w. w \<noteq> [] \<and> starts_with s w) ws = Some v \<Longrightarrow>
   strip_left ws s = strip_left ws (drop (length v) s)"
  by (subst strip_left.simps) simp

definition strip_both :: "string list \<Rightarrow> string \<Rightarrow> string" where
  "strip_both ws s = rev (strip_left (map rev ws) (rev (strip_left ws s)))"

definition bytes :: "nat list \<Rightarrow> string" where
  "bytes = map char_of"

definition space_encodings :: "string list" where
  "space_encodings =
     map bytes ([[9], [10], [11], [12], [13], [32], [0xC2, 0x85], [0xC2, 0xA0], [0xE1, 0x9A, 0x80]]
       @ map (\<lambda>b. [0xE2, 0x80, b]) ([0x80..<0x8B] @ [0xA8, 0xA9, 0xAF])
       @ [[0xE2, 0x81, 0x9F], [0xE3, 0x80, 0x80]])"

definition trim_space :: "string \<Rightarrow> string" where
  "trim_space = strip_both space_encodings"

lemma strip_left_no_prefix:
  "w \<in> set ws \<Longrightarrow> w \<noteq> [] \<Longrightarrow> \<not> starts_with (strip_left ws s) w"
proof (induction ws s rule: strip_left.induct)
  case (1 ws s)
  show ?case
  proof (cases "find (\<lambda>w. w \<noteq> [] \<and> starts_with s w) ws")
    case None
    from None 1(2,3) show ?thesis
      by (simp only: strip_left_None [OF None]) (auto simp: find_None_iff)
  next
    case (Some v)
    with 1(1)[OF Some 1(2,3)] show ?thesis
      by (simp only: strip_left_Some [OF Some]) simp
  qed
qed

lemma strip_left_id:
  "(\<And>w. w \<in> set ws \<Longrightarrow> w \<noteq> [] \<Longrightarrow> \<not> starts_with s w) \<Longrightarrow> strip_left ws s = s"
  by (subst strip_left.simps) (auto split: option.splits simp: find_Some_iff dest: nth_mem)

lemma strip_left_suffix: "\<exists>p. s = p @ strip_left ws s"
proof (induction ws s rule: strip_left.induct)
  case (1 ws s)
  show ?case
  proof (cases "find (\<lambda>w. w \<noteq> [] \<and> starts_with s w) ws")
    case None
    then show ?thesis by (simp add: strip_left_None)
  next
    case (Some v)
    from 1(1)[OF Some] obtain p where "drop (length v) s = p @ strip_left ws s"
      by (simp only: strip_left_Some [OF Some]) blast
    then have "s = (take (length v) s @ p) @ strip_left ws s"
      by (metis append.assoc append_take_drop_id)
    then show ?thesis by blast
  qed
qed

lemma starts_with_append: "starts_with s w \<Longrightarrow> starts_with (s @ t) w"
  by (auto simp: starts_with_def take_append) (metis append_Nil2 diff_is_0_eq length_take min.cobounded1 take0)

lemma strip_both_idem [simp]: "strip_both ws (strip_both ws s) = strip_both ws s"
proof -
  let ?l = "strip_left ws s" and ?t = "strip_both ws s"
  obtain q where "rev ?l = q @ rev ?t"
    using strip_left_suffix [of "rev ?l" "map rev ws"] by (auto simp: strip_both_def)
  then have l: "?l = ?t @ rev q"
    by (metis rev_append rev_rev_ident)
  have "strip_left ws ?t = ?t"
  proof (rule strip_left_id)
    fix w assume "w \<in> set ws" "w \<noteq> []"
    then show "\<not> starts_with ?t w"
      using strip_left_no_prefix [of w ws s] starts_with_append [of ?t w "rev q"] l by auto
  qed
  moreover have "strip_left (map rev ws) (rev ?t) = rev ?t"
  proof (rule strip_left_id)
    fix w assume "w \<in> set (map rev ws)" "w \<noteq> []"
    then show "\<not> starts_with (rev ?t) w"
      using strip_left_no_prefix [of w "map rev ws" "rev ?l"] by (simp add: strip_both_def)
  qed
  ultimately show ?thesis by (simp add: strip_both_def)
qed

lemma trim_space_idem [simp]: "trim_space (trim_space s) = trim_space s"
  by (simp add: trim_space_def)

lemma strip_both_id:
  assumes "\<And>w. w \<in> set ws \<Longrightarrow> w \<noteq> [] \<Longrightarrow> \<not> starts_with s w \<and> \<not> starts_with (rev s) (rev w)"
  shows "strip_both ws s = s"
proof -
  have "strip_left ws s = s" using assms by (intro strip_left_id) auto
  moreover have "strip_left (map rev ws) (rev s) = rev s"
    using assms by (intro strip_left_id) auto
  ultimately show ?thesis by (simp add: strip_both_def)
qed

text \<open>A string of printable ASCII bytes is not trimmed.\<close>

definition graphic :: "char \<Rightarrow> bool" where
  "graphic c \<longleftrightarrow> 33 \<le> (of_char c :: nat) \<and> (of_char c :: nat) \<le> 126"

lemma space_encodings_head: "w \<in> set space_encodings \<Longrightarrow> w \<noteq> [] \<and> \<not> graphic (hd w) \<and> \<not> graphic (last w)"
  by (auto simp: space_encodings_def bytes_def graphic_def upt_rec[of _ "numeral _"])

lemma starts_with_hd: "starts_with s w \<Longrightarrow> w \<noteq> [] \<Longrightarrow> s \<noteq> [] \<and> hd s = hd w"
  by (cases s; cases w) (auto simp: starts_with_def)

lemma trim_space_graphic: "list_all graphic s \<Longrightarrow> trim_space s = s"
  unfolding trim_space_def
proof (rule strip_both_id)
  fix w assume s: "list_all graphic s" and w: "w \<in> set space_encodings" "w \<noteq> []"
  from w space_encodings_head have h: "\<not> graphic (hd w)" "\<not> graphic (last w)" by auto
  show "\<not> starts_with s w \<and> \<not> starts_with (rev s) (rev w)"
    using s h w starts_with_hd [of s w] starts_with_hd [of "rev s" "rev w"]
    by (auto simp: list_all_iff hd_rev) (metis hd_in_set hd_rev last_in_set rev_is_Nil_conv)+
qed

section \<open>Case mapping and rune counting\<close>

text \<open>\<^verbatim>\<open>strings.ToUpper\<close>: besides a to z, the runes U+0131 and U+017F have an ASCII upper case.\<close>

definition ascii_upper :: "char \<Rightarrow> char" where
  "ascii_upper c = (let n = (of_char c :: nat) in if 97 \<le> n \<and> n \<le> 122 then char_of (n - 32) else c)"

definition ascii_lower :: "char \<Rightarrow> char" where
  "ascii_lower c = (let n = (of_char c :: nat) in if 65 \<le> n \<and> n \<le> 90 then char_of (n + 32) else c)"

fun to_upper :: "string \<Rightarrow> string" where
  "to_upper [] = []"
| "to_upper [c] = [ascii_upper c]"
| "to_upper (c # d # s) =
     (if c = char_of (0xC4::nat) \<and> d = char_of (0xB1::nat) then CHR ''I'' # to_upper s
      else if c = char_of (0xC5::nat) \<and> d = char_of (0xBF::nat) then CHR ''S'' # to_upper s
      else ascii_upper c # to_upper (d # s))"

text \<open>\<^verbatim>\<open>strings.ToLower\<close>: besides A to Z, the runes U+0130 and U+212A have an ASCII lower case.\<close>

fun to_lower :: "string \<Rightarrow> string" where
  "to_lower [] = []"
| "to_lower (c # s) =
     (if starts_with (c # s) (bytes [0xC4, 0xB0]) then CHR ''i'' # to_lower (drop 1 s)
      else if starts_with (c # s) (bytes [0xE2, 0x84, 0xAA]) then CHR ''k'' # to_lower (drop 2 s)
      else ascii_lower c # to_lower s)"

text \<open>The width of the first rune, as \<^verbatim>\<open>utf8.DecodeRuneInString\<close> computes it.\<close>

definition byte_at :: "string \<Rightarrow> nat \<Rightarrow> nat" where
  "byte_at s i = (if i < length s then of_char (s ! i) else 0)"

definition cont_byte :: "nat \<Rightarrow> bool" where
  "cont_byte b \<longleftrightarrow> 0x80 \<le> b \<and> b \<le> 0xBF"

definition rune_width :: "string \<Rightarrow> nat" where
  "rune_width s =
     (let b0 = byte_at s 0; b1 = byte_at s 1; b2 = byte_at s 2; b3 = byte_at s 3 in
      if 0xC2 \<le> b0 \<and> b0 \<le> 0xDF \<and> cont_byte b1 then 2
      else if 0xE0 \<le> b0 \<and> b0 \<le> 0xEF \<and> cont_byte b1 \<and> cont_byte b2
        \<and> (b0 = 0xE0 \<longrightarrow> 0xA0 \<le> b1) \<and> (b0 = 0xED \<longrightarrow> b1 \<le> 0x9F) then 3
      else if 0xF0 \<le> b0 \<and> b0 \<le> 0xF4 \<and> cont_byte b1 \<and> cont_byte b2 \<and> cont_byte b3
        \<and> (b0 = 0xF0 \<longrightarrow> 0x90 \<le> b1) \<and> (b0 = 0xF4 \<longrightarrow> b1 \<le> 0x8F) then 4
      else 1)"

function rune_count :: "string \<Rightarrow> nat" where
  "rune_count s = (if s = [] then 0 else Suc (rune_count (drop (rune_width s) s)))"
  by pat_completeness auto
termination
  by (relation "measure length") (auto simp: rune_width_def Let_def)

declare rune_count.simps [simp del]

lemma rune_count_le: "rune_count s \<le> length s"
proof (induction s rule: rune_count.induct)
  case (1 s)
  have "0 < rune_width s" by (simp add: rune_width_def Let_def)
  with 1 show ?case by (subst rune_count.simps) (cases s; fastforce)
qed

text \<open>\<^verbatim>\<open>strings.Join\<close>.\<close>

fun join :: "string \<Rightarrow> string list \<Rightarrow> string" where
  "join sep [] = []"
| "join sep [x] = x"
| "join sep (x # y # ys) = x @ sep @ join sep (y # ys)"

section \<open>Times and dates\<close>

type_synonym go_time = int

abbreviation "millisecond \<equiv> (1000000::int)"
abbreviation "second \<equiv> (1000000000::int)"
abbreviation "hour \<equiv> (3600000000000::int)"
abbreviation "day_ns \<equiv> (86400000000000::int)"

definition time_is_zero :: "go_time \<Rightarrow> bool" where
  "time_is_zero t \<longleftrightarrow> t = 0"

text \<open>\<^verbatim>\<open>Time.Truncate(time.Millisecond)\<close> rounds down to a multiple since the zero time.\<close>

definition truncate_ms :: "go_time \<Rightarrow> go_time" where
  "truncate_ms t = t - t mod millisecond"

lemma truncate_ms_le: "truncate_ms t \<le> t"
  by (simp add: truncate_ms_def)

lemma truncate_ms_idem [simp]: "truncate_ms (truncate_ms t) = truncate_ms t"
  by (simp add: truncate_ms_def mod_diff_left_eq)

lemma truncate_ms_mono: "s \<le> t \<Longrightarrow> truncate_ms s \<le> truncate_ms t"
proof -
  assume "s \<le> t"
  then have "s div millisecond * millisecond \<le> t div millisecond * millisecond"
    by (simp add: zdiv_mono1)
  then show ?thesis
    by (simp add: truncate_ms_def minus_mod_eq_div_mult)
qed

text \<open>
  The proleptic Gregorian calendar of \<^verbatim>\<open>time.Date\<close>: the number of days from 1 January of
  year 1 to the first day of a year, and of a month within a year.
\<close>

definition leap_year :: "int \<Rightarrow> bool" where
  "leap_year y \<longleftrightarrow> y mod 4 = 0 \<and> (y mod 100 \<noteq> 0 \<or> y mod 400 = 0)"

definition days_before_year :: "int \<Rightarrow> int" where
  "days_before_year y = 365 * (y - 1) + (y - 1) div 4 - (y - 1) div 100 + (y - 1) div 400"

definition days_in_month :: "int \<Rightarrow> int \<Rightarrow> int" where
  "days_in_month y m =
     (if m = 2 then (if leap_year y then 29 else 28)
      else if m = 4 \<or> m = 6 \<or> m = 9 \<or> m = 11 then 30 else 31)"

definition days_before_month :: "int \<Rightarrow> int \<Rightarrow> int" where
  "days_before_month y m = sum_list (map (days_in_month y) [1..m - 1])"

definition date_days :: "int \<Rightarrow> int \<Rightarrow> int \<Rightarrow> int" where
  "date_days y m d = days_before_year y + days_before_month y m + (d - 1)"

text \<open>The inverse, \<^verbatim>\<open>Time.Date\<close>: an estimate of the year, corrected by one.\<close>

definition year_of_days :: "int \<Rightarrow> int" where
  "year_of_days n =
     (let y = n * 400 div 146097 + 1 in
      if n < days_before_year y then y - 1
      else if days_before_year (y + 1) \<le> n then y + 1 else y)"

fun month_of_days :: "int \<Rightarrow> int list \<Rightarrow> int \<Rightarrow> int \<times> int" where
  "month_of_days y [] r = (12, r + 1)"
| "month_of_days y (m # ms) r =
     (if r < days_in_month y m then (m, r + 1) else month_of_days y ms (r - days_in_month y m))"

definition civil_of_days :: "int \<Rightarrow> int \<times> int \<times> int" where
  "civil_of_days n =
     (let y = year_of_days n; (m, d) = month_of_days y [1..12] (n - days_before_year y)
      in (y, m, d))"

text \<open>\<^verbatim>\<open>Format("2006-01-02")\<close>: the year padded to four digits, month and day to two.\<close>

definition pad_int :: "nat \<Rightarrow> int \<Rightarrow> string" where
  "pad_int k z =
     (let s = nat_string (nat \<bar>z\<bar>); p = replicate (k - length s) (CHR ''0'') @ s
      in if z < 0 then CHR ''-'' # p else p)"

definition format_date :: "int \<times> int \<times> int \<Rightarrow> string" where
  "format_date = (\<lambda>(y, m, d). pad_int 4 y @ ''-'' @ pad_int 2 m @ ''-'' @ pad_int 2 d)"

text \<open>\<^verbatim>\<open>time.Parse("2006-01-02", s)\<close>: exactly four, two and two digits, and a date that exists.\<close>

definition parse_date :: "string \<Rightarrow> (int \<times> int \<times> int) option" where
  "parse_date s =
     (if length s = 10 \<and> s ! 4 = CHR ''-'' \<and> s ! 7 = CHR ''-''
         \<and> list_all is_digit (take 4 s @ take 2 (drop 5 s) @ drop 8 s)
      then let y = int (string_nat (take 4 s)); m = int (string_nat (take 2 (drop 5 s)));
               d = int (string_nat (drop 8 s))
           in if 1 \<le> m \<and> m \<le> 12 \<and> 1 \<le> d \<and> d \<le> days_in_month y m then Some (y, m, d) else None
      else None)"

text \<open>A time zone is its offset from UTC in seconds at each instant, as \<^verbatim>\<open>Time.Zone\<close> reports it.\<close>

type_synonym zone = "go_time \<Rightarrow> int"

definition local_date :: "zone \<Rightarrow> go_time \<Rightarrow> string" where
  "local_date z t = format_date (civil_of_days ((t + z t * second) div day_ns))"

end
