(* ===== verification/Rounding.thy ===== *)
theory Rounding
  imports Prelude
begin

text \<open>
  Rounding of exact rational amounts to a number of decimal places: half-even (banker's)
  rounding as the specification of \<^verbatim>\<open>RoundBank\<close>, with the facts that make it a sound
  boundary operation (it is monotone, fixes the grid, moves a value by at most half a step)
  and the criterion under which rounding twice gives the same result as rounding once.
\<close>

section \<open>Half-even rounding to an integer\<close>

definition half_even_int :: "rat \<Rightarrow> int" where
  "half_even_int x =
     (let f = \<lfloor>x\<rfloor>; r = x - of_int f in
      if r < 1/2 then f else if 1/2 < r then f + 1 else if even f then f else f + 1)"

lemma half_even_int_of_int [simp]: "half_even_int (of_int k) = k"
  by (simp add: half_even_int_def Let_def)

lemma half_even_int_error: "\<bar>of_int (half_even_int x) - x\<bar> \<le> 1/2"
proof -
  have "of_int \<lfloor>x\<rfloor> \<le> x" "x < of_int \<lfloor>x\<rfloor> + 1"
    using floor_correct [of x] by auto
  then show ?thesis
    by (auto simp: half_even_int_def Let_def abs_le_iff)
qed

lemma half_even_int_unique: "\<bar>of_int k - x\<bar> < 1/2 \<Longrightarrow> half_even_int x = k"
proof -
  assume "\<bar>of_int k - x\<bar> < 1/2"
  moreover have "\<bar>of_int (half_even_int x) - x\<bar> \<le> 1/2" by (rule half_even_int_error)
  ultimately have "\<bar>of_int (half_even_int x) - of_int k :: rat\<bar> < 1" by linarith
  then have "\<bar>half_even_int x - k\<bar> < 1"
    by (metis of_int_abs of_int_diff of_int_less_1_iff)
  then show ?thesis by simp
qed

lemma half_even_int_tie: "x = of_int k + 1/2 \<Longrightarrow> half_even_int x = (if even k then k else k + 1)"
proof -
  assume x: "x = of_int k + 1/2"
  then have "\<lfloor>x\<rfloor> = k" by (simp add: floor_unique)
  with x show ?thesis by (simp add: half_even_int_def Let_def)
qed

lemma half_even_int_mono: "x \<le> y \<Longrightarrow> half_even_int x \<le> half_even_int y"
proof -
  assume xy: "x \<le> y"
  have f: "\<lfloor>x\<rfloor> \<le> \<lfloor>y\<rfloor>" using xy by (rule floor_mono)
  show ?thesis
  proof (cases "\<lfloor>x\<rfloor> = \<lfloor>y\<rfloor>")
    case True
    with xy show ?thesis by (auto simp: half_even_int_def Let_def)
  next
    case False
    with f show ?thesis by (auto simp: half_even_int_def Let_def)
  qed
qed

lemma half_even_int_ge: "of_int k \<le> x \<Longrightarrow> k \<le> half_even_int x"
  using half_even_int_mono [of "of_int k" x] by simp

lemma half_even_int_le: "x \<le> of_int k \<Longrightarrow> half_even_int x \<le> k"
  using half_even_int_mono [of x "of_int k"] by simp

text \<open>
  Two values that are not separated by a midpoint, and of which neither is one, round alike:
  this is what makes an approximation with enough digits safe before a later rounding.
\<close>

lemma half_even_int_no_midpoint:
  assumes "\<And>k::int. \<bar>y - x\<bar> < \<bar>x - (of_int k + 1/2)\<bar>"
  shows "half_even_int y = half_even_int x"
proof -
  let ?f = "\<lfloor>x\<rfloor>"
  have fx: "of_int ?f \<le> x" "x < of_int ?f + 1" using floor_correct [of x] by auto
  have m: "\<bar>y - x\<bar> < \<bar>x - (of_int ?f + 1/2)\<bar>"
    "\<bar>y - x\<bar> < \<bar>x - (of_int ?f - 1/2)\<bar>" "\<bar>y - x\<bar> < \<bar>x - (of_int ?f + 3/2)\<bar>"
    using assms [of ?f] assms [of "?f - 1"] assms [of "?f + 1"] by (simp_all add: algebra_simps)
  show ?thesis
  proof (cases "x < of_int ?f + 1/2")
    case True
    with fx m have "\<bar>of_int ?f - x\<bar> < 1/2" "\<bar>of_int ?f - y\<bar> < 1/2" by linarith+
    then show ?thesis by (metis half_even_int_unique)
  next
    case False
    with m(1) have "of_int ?f + 1/2 < x" by linarith
    with fx m have "\<bar>of_int (?f + 1) - x\<bar> < 1/2" "\<bar>of_int (?f + 1) - y\<bar> < 1/2"
      unfolding of_int_add of_int_1 by linarith+
    then show ?thesis by (metis half_even_int_unique)
  qed
qed

section \<open>Half-even rounding to decimal places\<close>

definition half_even :: "nat \<Rightarrow> rat \<Rightarrow> rat" where
  "half_even p x = of_int (half_even_int (x * 10 ^ p)) / 10 ^ p"

definition on_grid :: "nat \<Rightarrow> rat \<Rightarrow> bool" where
  "on_grid p x \<longleftrightarrow> (\<exists>k::int. x = of_int k / 10 ^ p)"

lemma on_gridI: "x = of_int k / 10 ^ p \<Longrightarrow> on_grid p x"
  by (auto simp: on_grid_def)

lemma on_gridE:
  assumes "on_grid p x"
  obtains k :: int where "x = of_int k / 10 ^ p"
  using assms by (auto simp: on_grid_def)

lemma on_grid_iff: "on_grid p x \<longleftrightarrow> x * 10 ^ p \<in> \<int>"
proof
  assume "on_grid p x"
  then show "x * 10 ^ p \<in> \<int>" by (auto simp: on_grid_def)
next
  assume "x * 10 ^ p \<in> \<int>"
  then obtain k :: int where "x * 10 ^ p = of_int k" by (auto elim: Ints_cases)
  then have "x = of_int k / 10 ^ p" by (simp add: field_simps)
  then show "on_grid p x" by (rule on_gridI)
qed

lemma on_grid_half_even [simp]: "on_grid p (half_even p x)"
  by (auto simp: on_grid_def half_even_def)

lemma half_even_on_grid: "on_grid p x \<Longrightarrow> half_even p x = x"
  by (erule on_gridE) (simp add: half_even_def)

lemma half_even_idem [simp]: "half_even p (half_even p x) = half_even p x"
  by (simp add: half_even_on_grid)

lemma half_even_mono: "x \<le> y \<Longrightarrow> half_even p x \<le> half_even p y"
  by (simp add: half_even_def divide_right_mono half_even_int_mono)

lemma half_even_ge: "on_grid p a \<Longrightarrow> a \<le> x \<Longrightarrow> a \<le> half_even p x"
  using half_even_mono [of a x p] by (simp add: half_even_on_grid)

lemma half_even_le: "on_grid p a \<Longrightarrow> x \<le> a \<Longrightarrow> half_even p x \<le> a"
  using half_even_mono [of x a p] by (simp add: half_even_on_grid)

lemma half_even_error: "\<bar>half_even p x - x\<bar> \<le> 1 / (2 * 10 ^ p)"
proof -
  have "half_even p x - x = (of_int (half_even_int (x * 10 ^ p)) - x * 10 ^ p) / 10 ^ p"
    by (simp add: half_even_def field_simps)
  then have "\<bar>half_even p x - x\<bar> = \<bar>of_int (half_even_int (x * 10 ^ p)) - x * 10 ^ p\<bar> / 10 ^ p"
    by simp
  also have "\<dots> \<le> (1/2) / 10 ^ p"
    by (intro divide_right_mono half_even_int_error) simp
  finally show ?thesis by simp
qed

lemma on_grid_0 [simp]: "on_grid p 0"
  by (simp add: on_grid_iff)

lemma on_grid_add: "on_grid p x \<Longrightarrow> on_grid p y \<Longrightarrow> on_grid p (x + y)"
  by (auto simp: on_grid_iff algebra_simps)

lemma on_grid_diff: "on_grid p x \<Longrightarrow> on_grid p y \<Longrightarrow> on_grid p (x - y)"
  by (auto simp: on_grid_iff algebra_simps)

lemma on_grid_uminus: "on_grid p x \<Longrightarrow> on_grid p (- x)"
  by (auto simp: on_grid_iff)

lemma on_grid_abs: "on_grid p x \<Longrightarrow> on_grid p \<bar>x\<bar>"
  by (cases "x \<ge> 0") (simp_all add: on_grid_uminus)

lemma on_grid_of_int [simp]: "on_grid p (of_int k)"
  by (simp add: on_grid_iff)

lemma on_grid_mono: "on_grid p x \<Longrightarrow> p \<le> q \<Longrightarrow> on_grid q x"
proof (erule on_gridE)
  fix k :: int assume "p \<le> q" "x = of_int k / 10 ^ p"
  moreover from \<open>p \<le> q\<close> have "(10::rat) ^ q = 10 ^ p * 10 ^ (q - p)"
    by (simp flip: power_add)
  ultimately have "x = of_int (k * 10 ^ (q - p)) / 10 ^ q"
    by simp
  then show ?thesis by (rule on_gridI)
qed

lemma half_even_nonneg: "0 \<le> x \<Longrightarrow> 0 \<le> half_even p x"
  by (rule half_even_ge) simp_all

text \<open>
  Rounding \<^term>\<open>y\<close> instead of \<^term>\<open>x\<close> is safe when \<^term>\<open>x\<close> is \<^term>\<open>n / m\<close> steps and \<^term>\<open>y\<close>
  is closer to it than any midpoint can be, that is closer than half a step divided by \<^term>\<open>m\<close>;
  or when the two are equal.
\<close>

lemma half_even_approx:
  assumes m: "0 < (m::int)" and x: "x * 10 ^ p = of_int n / of_int m"
    and close: "\<bar>y - x\<bar> < 1 / (2 * of_int m * 10 ^ p)"
    and tie: "\<And>k::int. x * 10 ^ p = of_int k + 1/2 \<Longrightarrow> y = x"
  shows "half_even p y = half_even p x"
proof (cases "\<exists>k::int. x * 10 ^ p = of_int k + 1/2")
  case True
  with tie show ?thesis by auto
next
  case False
  have "half_even_int (y * 10 ^ p) = half_even_int (x * 10 ^ p)"
  proof (rule half_even_int_no_midpoint)
    fix k :: int
    let ?d = "x * 10 ^ p - (of_int k + 1/2)"
    from False have "?d \<noteq> 0" by auto
    define t where "t = 2 * n - m * (2 * k + 1)"
    have d: "?d = of_int t / (2 * of_int m)"
      using m by (simp add: x t_def field_simps)
    with \<open>?d \<noteq> 0\<close> have "t \<noteq> 0" by auto
    then have "(1::rat) \<le> \<bar>of_int t\<bar>"
      by (simp flip: of_int_abs)
    then have "1 / (2 * of_int m) \<le> \<bar>of_int t\<bar> / \<bar>2 * of_int m :: rat\<bar>"
      using m by (intro divide_mono) auto
    then have "1 / (2 * of_int m) \<le> \<bar>?d\<bar>"
      unfolding d abs_divide .
    moreover have "\<bar>y * 10 ^ p - x * 10 ^ p\<bar> = \<bar>y - x\<bar> * 10 ^ p"
      by (simp add: abs_mult flip: left_diff_distrib)
    moreover have "\<bar>y - x\<bar> * 10 ^ p < 1 / (2 * of_int m)"
      using close m by (simp add: field_simps)
    ultimately show "\<bar>y * 10 ^ p - x * 10 ^ p\<bar> < \<bar>x * 10 ^ p - (of_int k + 1/2)\<bar>" by linarith
  qed
  then show ?thesis by (simp add: half_even_def)
qed

text \<open>The same rounding on an integer fraction, as an executable function.\<close>

definition half_even_div :: "int \<Rightarrow> int \<Rightarrow> int" where
  "half_even_div n m =
     (let q = n div m; r = n mod m in
      if 2 * r < m then q else if m < 2 * r then q + 1 else if even q then q else q + 1)"

lemma half_even_div_correct:
  assumes "0 < m"
  shows "half_even_div n m = half_even_int (of_int n / of_int m)"
proof -
  have f: "\<lfloor>of_int n / of_int m :: rat\<rfloor> = n div m" by (rule floor_divide_of_int_eq)
  have "of_int n = (of_int m * of_int (n div m) + of_int (n mod m) :: rat)"
    by (simp flip: of_int_mult of_int_add)
  then have r: "of_int n / of_int m - of_int (n div m) = (of_int (n mod m) / of_int m :: rat)"
    using assms by (simp add: field_simps)
  have lt: "of_int (n mod m) / of_int m < (1/2 :: rat) \<longleftrightarrow> 2 * (n mod m) < m"
    and gt: "(1/2 :: rat) < of_int (n mod m) / of_int m \<longleftrightarrow> m < 2 * (n mod m)"
    using assms by (simp_all add: field_simps) linarith+
  show ?thesis
    unfolding half_even_div_def half_even_int_def Let_def f r lt gt by simp
qed

end
