(* ===== verification/DecimalLib.thy ===== *)
theory DecimalLib
  imports Rounding
begin

text \<open>
  The interface of \<^verbatim>\<open>github.com/shopspring/decimal\<close>, the third-party package in which the
  program computes.  Its operations are the fields of a record that every definition of the
  model takes as its first argument; what the program relies on are the assumptions of the
  locales below, one per group of the package's documentation: exact arithmetic and
  comparison (\<open>decimal_arith\<close>), the exponents of results (\<open>decimal_scale\<close>), division and
  rounding (\<open>decimal_round\<close>), reading and printing (\<open>decimal_lib\<close>).  The number a decimal
  stands for is its coefficient times ten to the power of its exponent.
\<close>

record 'd decimal_ops =
  d_zero :: 'd
  d_new :: "int \<Rightarrow> int \<Rightarrow> 'd"
  d_coefficient :: "'d \<Rightarrow> int"
  d_exponent :: "'d \<Rightarrow> int"
  d_add :: "'d \<Rightarrow> 'd \<Rightarrow> 'd"
  d_sub :: "'d \<Rightarrow> 'd \<Rightarrow> 'd"
  d_mul :: "'d \<Rightarrow> 'd \<Rightarrow> 'd"
  d_neg :: "'d \<Rightarrow> 'd"
  d_abs :: "'d \<Rightarrow> 'd"
  d_cmp :: "'d \<Rightarrow> 'd \<Rightarrow> int"
  d_equal :: "'d \<Rightarrow> 'd \<Rightarrow> bool"
  d_less_than :: "'d \<Rightarrow> 'd \<Rightarrow> bool"
  d_greater_than :: "'d \<Rightarrow> 'd \<Rightarrow> bool"
  d_less_than_or_equal :: "'d \<Rightarrow> 'd \<Rightarrow> bool"
  d_greater_than_or_equal :: "'d \<Rightarrow> 'd \<Rightarrow> bool"
  d_is_zero :: "'d \<Rightarrow> bool"
  d_is_negative :: "'d \<Rightarrow> bool"
  d_is_positive :: "'d \<Rightarrow> bool"
  d_min :: "'d \<Rightarrow> 'd \<Rightarrow> 'd"
  d_max :: "'d \<Rightarrow> 'd \<Rightarrow> 'd"
  d_round :: "'d \<Rightarrow> nat \<Rightarrow> 'd"
  d_round_bank :: "'d \<Rightarrow> nat \<Rightarrow> 'd"
  d_truncate :: "'d \<Rightarrow> nat \<Rightarrow> 'd"
  d_div :: "'d \<Rightarrow> 'd \<Rightarrow> 'd"
  d_div_round :: "'d \<Rightarrow> 'd \<Rightarrow> nat \<Rightarrow> 'd"
  d_quo_rem :: "'d \<Rightarrow> 'd \<Rightarrow> nat \<Rightarrow> 'd \<times> 'd"
  d_shift :: "'d \<Rightarrow> int \<Rightarrow> 'd"
  d_big_int :: "'d \<Rightarrow> int"
  d_int_part :: "'d \<Rightarrow> int"
  d_string :: "'d \<Rightarrow> string"
  d_string_fixed :: "'d \<Rightarrow> nat \<Rightarrow> string"
  d_from_string :: "string \<Rightarrow> string + 'd"

abbreviation d_from_int :: "'d decimal_ops \<Rightarrow> int \<Rightarrow> 'd" where
  "d_from_int D n \<equiv> d_new D n 0"

definition d_val :: "'d decimal_ops \<Rightarrow> 'd \<Rightarrow> rat" where
  "d_val D a = of_int (d_coefficient D a) * 10 powi d_exponent D a"

text \<open>
  The texts the program accepts as amounts: an integer part of at most \<^term>\<open>n\<close> digits
  without a leading zero and, after a point, one to \<^term>\<open>m\<close> digits (the source's regular
  expressions, which differ in the two bounds).
\<close>

definition decimal_syntax :: "nat \<Rightarrow> nat \<Rightarrow> string \<Rightarrow> bool" where
  "decimal_syntax n m s =
     (let ip = takeWhile is_digit s; rest = dropWhile is_digit s in
      (ip = ''0'' \<or> (ip \<noteq> [] \<and> hd ip \<noteq> CHR ''0'' \<and> length ip \<le> n))
      \<and> (rest = [] \<or> (hd rest = CHR ''.'' \<and> list_all is_digit (tl rest)
           \<and> 1 \<le> length (tl rest) \<and> length (tl rest) \<le> m)))"

definition syntax_value :: "string \<Rightarrow> rat" where
  "syntax_value s =
     (let ip = takeWhile is_digit s; fp = tl (dropWhile is_digit s)
      in of_nat (string_nat (ip @ fp)) / 10 ^ length fp)"

section \<open>Exact arithmetic\<close>

locale decimal_arith =
  fixes D :: "'d decimal_ops"
  assumes val_zero: "d_val D (d_zero D) = 0"
    and val_new: "d_val D (d_new D c e) = of_int c * 10 powi e"
    and val_add: "d_val D (d_add D a b) = d_val D a + d_val D b"
    and val_sub: "d_val D (d_sub D a b) = d_val D a - d_val D b"
    and val_mul: "d_val D (d_mul D a b) = d_val D a * d_val D b"
    and val_neg: "d_val D (d_neg D a) = - d_val D a"
    and val_abs: "d_val D (d_abs D a) = \<bar>d_val D a\<bar>"
    and cmp: "d_cmp D a b =
      (if d_val D a < d_val D b then -1 else if d_val D a = d_val D b then 0 else 1)"
    and equal_iff: "d_equal D a b \<longleftrightarrow> d_val D a = d_val D b"
    and less_than_iff: "d_less_than D a b \<longleftrightarrow> d_val D a < d_val D b"
    and greater_than_iff: "d_greater_than D a b \<longleftrightarrow> d_val D b < d_val D a"
    and less_than_or_equal_iff: "d_less_than_or_equal D a b \<longleftrightarrow> d_val D a \<le> d_val D b"
    and greater_than_or_equal_iff: "d_greater_than_or_equal D a b \<longleftrightarrow> d_val D b \<le> d_val D a"
    and is_zero_iff: "d_is_zero D a \<longleftrightarrow> d_val D a = 0"
    and is_negative_iff: "d_is_negative D a \<longleftrightarrow> d_val D a < 0"
    and is_positive_iff: "d_is_positive D a \<longleftrightarrow> 0 < d_val D a"
    and min_eq: "d_min D a b = (if d_val D b < d_val D a then b else a)"
    and max_eq: "d_max D a b = (if d_val D a < d_val D b then b else a)"
begin

lemmas exact = val_zero val_new val_add val_sub val_mul val_neg val_abs
  equal_iff less_than_iff greater_than_iff less_than_or_equal_iff greater_than_or_equal_iff is_zero_iff is_negative_iff is_positive_iff

lemma val_from_int: "d_val D (d_from_int D n) = of_int n"
  by (simp add: val_new)

lemma coefficient_0_iff: "d_coefficient D a = 0 \<longleftrightarrow> d_val D a = 0"
  by (simp add: d_val_def)

end

section \<open>Exponents\<close>

locale decimal_scale = decimal_arith +
  assumes exponent_zero: "0 \<le> d_exponent D (d_zero D)"
    and exponent_new: "d_exponent D (d_new D c e) = e"
    and exponent_add: "min (d_exponent D a) (d_exponent D b) \<le> d_exponent D (d_add D a b)"
    and exponent_sub: "min (d_exponent D a) (d_exponent D b) \<le> d_exponent D (d_sub D a b)"
    and exponent_mul: "d_exponent D a + d_exponent D b \<le> d_exponent D (d_mul D a b)"
    and exponent_neg: "d_exponent D (d_neg D a) = d_exponent D a"
    and exponent_abs: "d_exponent D (d_abs D a) = d_exponent D a"
    and coefficient_abs: "d_coefficient D (d_abs D a) = \<bar>d_coefficient D a\<bar>"
begin

lemma val_on_grid: "- int p \<le> d_exponent D a \<Longrightarrow> on_grid p (d_val D a)"
proof -
  assume e: "- int p \<le> d_exponent D a"
  then have "d_val D a * 10 ^ p = of_int (d_coefficient D a * 10 ^ nat (d_exponent D a + int p))"
    by (simp add: d_val_def mult.assoc flip: power_int_of_nat power_int_add)
  then show ?thesis
    unfolding on_grid_iff by (metis Ints_of_int)
qed

end

section \<open>Division and rounding\<close>

text \<open>
  \<^verbatim>\<open>QuoRem\<close> and \<^verbatim>\<open>DivRound\<close> panic on a zero divisor, hence their premises; \<^verbatim>\<open>Div\<close> is
  \<^verbatim>\<open>DivRound\<close> at the package's \<^verbatim>\<open>DivisionPrecision\<close> of 16, which the program never changes.
\<close>

locale decimal_round = decimal_scale +
  assumes val_round_bank: "d_val D (d_round_bank D a p) = half_even p (d_val D a)"
    and exponent_round_bank: "d_exponent D (d_round_bank D a p) = - int p"
    and val_round_exact: "- int p \<le> d_exponent D a \<Longrightarrow> d_val D (d_round D a p) = d_val D a"
    and val_round_near: "\<bar>d_val D (d_round D a p) - d_val D a\<bar> \<le> 1 / (2 * 10 ^ p)"
    and exponent_round: "d_exponent D (d_round D a p) = - int p"
    and val_truncate: "0 \<le> d_val D a \<Longrightarrow>
      d_val D (d_truncate D a p) = of_int \<lfloor>d_val D a * 10 ^ p\<rfloor> / 10 ^ p"
    and val_div_round: "d_val D b \<noteq> 0 \<Longrightarrow>
      \<bar>d_val D (d_div_round D a b p) - d_val D a / d_val D b\<bar> \<le> 1 / (2 * 10 ^ p)"
    and grid_div_round: "d_val D b \<noteq> 0 \<Longrightarrow> - int p \<le> d_exponent D (d_div_round D a b p)"
    and div_def: "d_div D a b = d_div_round D a b 16"
    and quo_rem: "d_val D b \<noteq> 0 \<Longrightarrow> d_quo_rem D a b p = (q, r) \<Longrightarrow>
      d_val D a = d_val D q * d_val D b + d_val D r \<and> - int p \<le> d_exponent D q"
    and quo_rem_nonneg: "d_val D b \<noteq> 0 \<Longrightarrow> d_quo_rem D a b p = (q, r) \<Longrightarrow> 0 \<le> d_val D a \<Longrightarrow>
      0 \<le> d_val D r \<and> d_val D r < \<bar>d_val D b\<bar> / 10 ^ p"
    and val_shift: "d_val D (d_shift D a n) = d_val D a * 10 powi n"
    and big_int: "d_val D a = of_int k \<Longrightarrow> d_big_int D a = k"
    and int_part: "d_val D a = of_int k \<Longrightarrow> d_int_part D a = k"
    and val_round_half_up: "0 \<le> d_val D a \<Longrightarrow> d_val D (d_round D a p) = of_int \<lfloor>d_val D a * 10 ^ p + 1/2\<rfloor> / 10 ^ p"
begin

lemmas rounded = val_round_bank exponent_round_bank exponent_round

lemma div_round_exact:
  assumes "d_val D b \<noteq> 0" and "on_grid p (d_val D a / d_val D b)"
  shows "d_val D (d_div_round D a b p) = d_val D a / d_val D b"
proof -
  let ?q = "d_val D a / d_val D b" and ?v = "d_val D (d_div_round D a b p)"
  from assms(2) obtain k :: int where k: "?q = of_int k / 10 ^ p" by (rule on_gridE)
  from val_on_grid [OF grid_div_round [OF assms(1)]] obtain j :: int
    where j: "?v = of_int j / 10 ^ p" by (rule on_gridE)
  have "\<bar>of_int j / 10 ^ p - of_int k / 10 ^ p :: rat\<bar> \<le> 1 / (2 * 10 ^ p)"
    using val_div_round [OF assms(1), of a p] by (simp only: j k)
  then have "\<bar>of_int j - of_int k :: rat\<bar> \<le> 1/2"
    by (simp add: field_simps flip: diff_divide_distrib)
  then have "j = k" by linarith
  with j k show ?thesis by simp
qed

end

section \<open>Reading and printing\<close>

text \<open>
  \<^verbatim>\<open>NewFromString\<close> keeps every fractional digit of its input, so the exponent it gives is
  minus their number; \<^verbatim>\<open>String\<close> prints plain notation without trailing fractional zeros,
  \<^verbatim>\<open>StringFixed(p)\<close> exactly \<^term>\<open>p\<close> fractional digits.
\<close>

locale decimal_lib = decimal_round +
  assumes from_string: "decimal_syntax n m s \<Longrightarrow>
      \<exists>a. d_from_string D s = Inr a \<and> d_val D a = syntax_value s \<and> - int m \<le> d_exponent D a"
    and from_string_signed: "decimal_syntax n m s \<Longrightarrow>
      \<exists>a. d_from_string D (CHR ''-'' # s) = Inr a \<and> d_val D a = - syntax_value s \<and> - int m \<le> d_exponent D a"
    and string_syntax: "0 \<le> d_val D a \<Longrightarrow> d_val D a < 10 ^ n \<Longrightarrow> 0 < n \<Longrightarrow> - int m \<le> d_exponent D a \<Longrightarrow>
      decimal_syntax n m (d_string D a) \<and> syntax_value (d_string D a) = d_val D a"
    and string_val: "d_val D a = d_val D b \<Longrightarrow> d_string D a = d_string D b"
    and string_zero: "d_val D a = 0 \<Longrightarrow> d_string D a = ''0''"
    and string_fixed_syntax: "0 \<le> d_val D a \<Longrightarrow> d_val D a < 10 ^ n \<Longrightarrow> 0 < n \<Longrightarrow> 0 < m \<Longrightarrow> - int m \<le> d_exponent D a \<Longrightarrow>
      decimal_syntax n m (d_string_fixed D a m) \<and> syntax_value (d_string_fixed D a m) = d_val D a"
begin

lemma from_string_string:
  assumes "0 \<le> d_val D a" and "d_val D a < 10 ^ n" and "0 < n" and "- int m \<le> d_exponent D a"
  shows "\<exists>b. d_from_string D (d_string D a) = Inr b \<and> d_val D b = d_val D a \<and> - int m \<le> d_exponent D b"
  using string_syntax [OF assms] from_string by metis

end

end
