(* ===== verification/DomainBase.thy ===== *)
theory DomainBase
  imports GoRuntime DecimalLib
begin

text \<open>
  The vocabulary of \<^verbatim>\<open>internal/domain/model.go\<close>: error codes and errors, typed identities,
  names, notes, dates and currency codes.  Identities are Go strings; the type synonyms keep
  the source's names.
\<close>

section \<open>Errors\<close>

datatype error_code =
  ErrValidation | ErrNotFound | ErrConflict | ErrUnsupportedDB | ErrMigration | ErrIntegrity
   | ErrUnavailable | ErrDatabaseUpgradeRequired | ErrDatabaseFromNewerVersion
   | ErrDatabaseIntegrityFailed | ErrDatabaseUnavailable | ErrDecimalOverflow
   | ErrProviderUnavailable | ErrProviderAuthentication | ErrProviderRateLimit
   | ErrUnsupportedProviderSymbol | ErrMalformedProviderResponse | ErrMarketDataResponseTooLarge
   | ErrHistoryNotStarted | ErrHistoryTimezoneRequired | ErrInvalidChange | ErrInvalidChangeTime
   | ErrCashBalanceTimeConflict | ErrNoChange | ErrInsufficientBalance | ErrInsufficientQuantity
   | ErrAlreadyUndone | ErrCannotFixChange | ErrTransferMismatch | ErrInvalidTrade
   | ErrHistoryUpdateFailed | ErrCostBasisRequired | ErrBackupInvalidFormat
   | ErrBackupMissingMember | ErrBackupChecksumFailed | ErrBackupSchemaUnsupported
   | ErrBackupIntegrityFailed | ErrBackupBusinessInvariant | ErrBackupRestoreConfirmation
   | ErrBackupRestoreBusy | ErrBackupRestoreSwapFailed | ErrBackupRestoreRollbackFailed
   | ErrStalePreview | ErrRevisionConflict | ErrManagedPosition | ErrUnsupportedPartialOperation
   | ErrUnresolvedReservationRelease | ErrReceiptPending | ErrUnsafeUndo

text \<open>
  \<^term>\<open>DomainError\<close> is the source's \<^verbatim>\<open>*Error\<close>; \<^term>\<open>ForeignError\<close> an error value of another
  package that a function passes on.
\<close>

datatype err =
    DomainError (err_code: error_code) (err_field: string) (err_message: string)
  | ForeignError string

type_synonym 'a res = "err + 'a"

definition Error_Error :: "err \<Rightarrow> string" where
  "Error_Error e =
     (case e of
        DomainError c field message \<Rightarrow> if field = [] then message else field @ '': '' @ message
      | ForeignError message \<Rightarrow> message)"

definition validation :: "string \<Rightarrow> string \<Rightarrow> err" where
  "validation field message = DomainError ErrValidation field message"

section \<open>Identities\<close>

type_synonym HouseholdID = string
type_synonym MemberID = string
type_synonym InstitutionID = string
type_synonym GroupID = string
type_synonym AccountID = string
type_synonym AccountValueID = string
type_synonym InstrumentID = string
type_synonym HoldingID = string
type_synonym FXQuoteID = string

text \<open>The regular expression \<^verbatim>\<open>uuidPattern\<close> as one predicate per position.\<close>

definition hex_lower :: "char \<Rightarrow> bool" where
  "hex_lower c \<longleftrightarrow> is_digit c \<or> (CHR ''a'' \<le> c \<and> c \<le> CHR ''f'')"

definition uuidPattern :: "(char \<Rightarrow> bool) list" where
  "uuidPattern =
     replicate 8 hex_lower @ (\<lambda>c. c = CHR ''-'') # replicate 4 hex_lower
     @ (\<lambda>c. c = CHR ''-'') # (\<lambda>c. CHR ''1'' \<le> c \<and> c \<le> CHR ''8'') # replicate 3 hex_lower
     @ (\<lambda>c. c = CHR ''-'') # (\<lambda>c. (CHR ''8'' \<le> c \<and> c \<le> CHR ''9'') \<or> (CHR ''a'' \<le> c \<and> c \<le> CHR ''b'')) # replicate 3 hex_lower
     @ (\<lambda>c. c = CHR ''-'') # replicate 12 hex_lower"

definition validID :: "string \<Rightarrow> bool" where
  "validID s = list_all2 (\<lambda>p c. p c) uuidPattern (to_lower s)"

definition parseID :: "string \<Rightarrow> string \<Rightarrow> string res" where
  "parseID value field =
     (let v = to_lower (trim_space value) in
      if \<not> validID v then Inl (validation field ''must be a lowercase UUID'') else Inr v)"

definition ParseHouseholdID :: "string \<Rightarrow> HouseholdID res" where
  "ParseHouseholdID value = parseID value ''householdId''"

definition ParseHoldingID :: "string \<Rightarrow> HoldingID res" where
  "ParseHoldingID value = parseID value ''holdingId''"

definition ParseMemberID :: "string \<Rightarrow> MemberID res" where
  "ParseMemberID value = parseID value ''memberId''"

definition ParseAccountID :: "string \<Rightarrow> AccountID res" where
  "ParseAccountID value = parseID value ''accountId''"

definition ParseInstrumentID :: "string \<Rightarrow> InstrumentID res" where
  "ParseInstrumentID value = parseID value ''instrumentId''"

section \<open>Names, notes, dates\<close>

definition normalizeTime :: "go_time \<Rightarrow> go_time" where
  "normalizeTime t = truncate_ms t"

definition validateName :: "string \<Rightarrow> string \<Rightarrow> string res" where
  "validateName field value =
     (let v = trim_space value in
      if v = [] then Inl (validation field ''must not be empty'')
      else if 120 < rune_count v then Inl (validation field ''must be 120 characters or fewer'')
      else Inr v)"

definition validateNote :: "string \<Rightarrow> string option \<Rightarrow> string option res" where
  "validateNote field value =
     (case value of
        None \<Rightarrow> Inr None
      | Some s \<Rightarrow>
          let trimmed = trim_space s in
          if trimmed = [] then Inr None
          else if 2000 < rune_count trimmed then Inl (validation field ''must be 2000 characters or fewer'')
          else Inr (Some trimmed))"

definition normalizeDate :: "string \<Rightarrow> string option \<Rightarrow> string option res" where
  "normalizeDate field value =
     (case value of
        None \<Rightarrow> Inr None
      | Some s \<Rightarrow>
          (case parse_date (trim_space s) of
             None \<Rightarrow> Inl (validation field ''must use YYYY-MM-DD'')
           | Some parsed \<Rightarrow> Inr (Some (format_date parsed))))"

section \<open>Currencies\<close>

type_synonym CurrencyCode = string

definition upper_letter :: "char \<Rightarrow> bool" where
  "upper_letter c \<longleftrightarrow> CHR ''A'' \<le> c \<and> c \<le> CHR ''Z''"

text \<open>
  Go ranges over the runes of the text; a rune outside ASCII starts with a byte that is no
  letter, so testing the bytes decides the same.
\<close>

definition ParseCurrency :: "string \<Rightarrow> CurrencyCode res" where
  "ParseCurrency value =
     (let v = to_upper (trim_space value) in
      if length v \<noteq> 3 then Inl (validation ''currency'' ''must contain exactly three uppercase letters'')
      else if \<not> list_all upper_letter v
        then Inl (validation ''currency'' ''must contain exactly three uppercase letters'')
      else Inr v)"

definition SupportedCurrencies :: "CurrencyCode list" where
  "SupportedCurrencies =
     [''AUD'', ''CNY'', ''EUR'', ''GBP'', ''HKD'', ''JPY'', ''SGD'', ''TWD'', ''USD'', ''KRW'', ''CHF'']"

definition currencyFractionDigits :: "CurrencyCode \<rightharpoonup> int" where
  "currencyFractionDigits =
     map_of [(''AUD'', 2), (''CHF'', 2), (''CNY'', 2), (''EUR'', 2), (''GBP'', 2), (''HKD'', 2),
       (''JPY'', 0), (''KRW'', 0), (''SGD'', 2), (''TWD'', 2), (''USD'', 2)]"

definition CurrencyFractionDigits :: "CurrencyCode \<Rightarrow> int" where
  "CurrencyFractionDigits code =
     (case currencyFractionDigits code of Some places \<Rightarrow> places | None \<Rightarrow> 2)"

definition ParseSupportedCurrency :: "string \<Rightarrow> CurrencyCode res" where
  "ParseSupportedCurrency value =
     res_bind (ParseCurrency value) (\<lambda>code.
       if code \<notin> set SupportedCurrencies then Inl (validation ''currency'' ''is not supported'')
       else Inr code)"

section \<open>Canonical texts are fixed points of the parsers\<close>

lemma upper_letter_iff: "upper_letter c \<longleftrightarrow> 65 \<le> (of_char c :: nat) \<and> (of_char c :: nat) \<le> 90"
  by (auto simp: upper_letter_def less_eq_char_def)

lemma ascii_upper_letter: "upper_letter c \<Longrightarrow> ascii_upper c = c"
  by (auto simp: ascii_upper_def upper_letter_iff Let_def)

lemma upper_letter_graphic: "upper_letter c \<Longrightarrow> graphic c"
  by (auto simp: upper_letter_iff graphic_def)

lemma to_upper_letters: "list_all upper_letter s \<Longrightarrow> to_upper s = s"
  by (induction s rule: to_upper.induct) (auto simp: ascii_upper_letter upper_letter_iff)

lemma ParseCurrency_canonical:
  "length c = 3 \<Longrightarrow> list_all upper_letter c \<Longrightarrow> ParseCurrency c = Inr c"
proof -
  assume c: "length c = 3" "list_all upper_letter c"
  then have "trim_space c = c"
    by (intro trim_space_graphic) (auto simp: list_all_iff upper_letter_graphic)
  with c show ?thesis by (simp add: ParseCurrency_def to_upper_letters)
qed

lemma ParseCurrency_Inr: "ParseCurrency v = Inr c \<Longrightarrow> length c = 3 \<and> list_all upper_letter c"
  by (auto simp: ParseCurrency_def Let_def split: if_splits)

lemma ParseCurrency_idem: "ParseCurrency v = Inr c \<Longrightarrow> ParseCurrency c = Inr c"
  by (drule ParseCurrency_Inr) (simp add: ParseCurrency_canonical)

definition valid_currency :: "CurrencyCode \<Rightarrow> bool" where
  "valid_currency c \<longleftrightarrow> length c = 3 \<and> list_all upper_letter c"

lemma ParseCurrency_valid: "valid_currency c \<Longrightarrow> ParseCurrency c = Inr c"
  by (simp add: valid_currency_def ParseCurrency_canonical)

lemma ParseCurrency_is_valid: "ParseCurrency v = Inr c \<Longrightarrow> valid_currency c"
  by (simp add: valid_currency_def ParseCurrency_Inr)

lemma hex_lower_iff:
  "hex_lower c \<longleftrightarrow> (48 \<le> (of_char c :: nat) \<and> (of_char c :: nat) \<le> 57) \<or> (97 \<le> (of_char c :: nat) \<and> (of_char c :: nat) \<le> 102)"
  by (auto simp: hex_lower_def is_digit_iff less_eq_char_def)

definition id_char :: "char \<Rightarrow> bool" where
  "id_char c \<longleftrightarrow> hex_lower c \<or> c = CHR ''-''"

lemma id_char_facts: "id_char c \<Longrightarrow> graphic c \<and> ascii_lower c = c \<and> (of_char c :: nat) < 128"
  by (auto simp: id_char_def hex_lower_iff graphic_def ascii_lower_def Let_def)

lemma to_lower_id_chars: "list_all id_char s \<Longrightarrow> to_lower s = s"
proof (induction s)
  case (Cons c s)
  then have "(of_char c :: nat) < 128" using id_char_facts by simp
  then have "c \<noteq> char_of (0xC4::nat)" "c \<noteq> char_of (0xE2::nat)" by auto
  then show ?case using Cons id_char_facts [of c]
    by (auto simp: starts_with_def bytes_def)
qed simp

lemma uuidPattern_id_char: "\<forall>p \<in> set uuidPattern. \<forall>c. p c \<longrightarrow> id_char c"
  by (auto simp: uuidPattern_def id_char_def hex_lower_iff less_eq_char_def)

lemma uuid_id_chars: "list_all2 (\<lambda>p c. p c) uuidPattern s \<Longrightarrow> list_all id_char s"
  using uuidPattern_id_char
  by (auto simp: list_all_iff list_all2_conv_all_nth in_set_conv_nth) (metis nth_mem)

lemma ascii_lower_idem: "ascii_lower (ascii_lower c) = ascii_lower c"
  by (auto simp: ascii_lower_def Let_def)

lemma to_lower_fixed: "list_all (\<lambda>c. ascii_lower c = c) (to_lower s)"
  by (induction s rule: to_lower.induct) (auto simp: ascii_lower_idem, auto simp: ascii_lower_def)

lemma id_chars_of_to_lower:
  "list_all id_char (to_lower s) \<Longrightarrow> list_all (\<lambda>c. ascii_lower c = c) s \<Longrightarrow> list_all id_char s"
  by (induction s rule: to_lower.induct)
    (auto simp: id_char_def hex_lower_iff split: if_splits)

lemma parseID_Inr:
  assumes "parseID v f = Inr i"
  shows "validID i" and "list_all id_char i" and "parseID i g = Inr i"
proof -
  from assms have i: "validID i" "i = to_lower (trim_space v)"
    by (auto simp: parseID_def Let_def split: if_splits)
  then show "validID i" by simp
  from i have "list_all id_char (to_lower i)" by (auto simp: validID_def dest: uuid_id_chars)
  moreover have "list_all (\<lambda>c. ascii_lower c = c) i" by (simp add: i(2) to_lower_fixed)
  ultimately show c: "list_all id_char i" by (rule id_chars_of_to_lower)
  then have "trim_space i = i" "to_lower i = i"
    by (auto intro: trim_space_graphic to_lower_id_chars simp: list_all_iff id_char_facts)
  with i(1) show "parseID i g = Inr i" by (simp add: parseID_def)
qed

end
