(* ===== verification/DecimalRef.thy ===== *)
theory DecimalRef
  imports DecimalLib
begin

text \<open>
  A reference implementation of the decimal interface: a coefficient and an exponent over
  unbounded integers, with the documented meaning of each operation.  It interprets the
  locale \<^term>\<open>decimal_lib\<close>, which shows that the assumptions about the package are
  consistent, and it is what the concrete examples of the other theories compute with.
\<close>

datatype dec = Dec (coef: int) (expo: int)

definition scale_to :: "int \<Rightarrow> dec \<Rightarrow> int" where
  "scale_to m a = coef a * 10 ^ nat (expo a - m)"

definition dec_add :: "dec \<Rightarrow> dec \<Rightarrow> dec" where
  "dec_add a b = (let m = min (expo a) (expo b) in Dec (scale_to m a + scale_to m b) m)"

definition dec_neg :: "dec \<Rightarrow> dec" where
  "dec_neg a = Dec (- coef a) (expo a)"

definition dec_sub :: "dec \<Rightarrow> dec \<Rightarrow> dec" where
  "dec_sub a b = dec_add a (dec_neg b)"

definition dec_mul :: "dec \<Rightarrow> dec \<Rightarrow> dec" where
  "dec_mul a b = Dec (coef a * coef b) (expo a + expo b)"

definition dec_cmp :: "dec \<Rightarrow> dec \<Rightarrow> int" where
  "dec_cmp a b = sgn (coef (dec_sub a b))"

text \<open>The fraction \<open>a / b\<close> in steps of ten to the power of \<open>- p\<close>, with a positive denominator.\<close>

definition ratio_num :: "dec \<Rightarrow> dec \<Rightarrow> nat \<Rightarrow> int" where
  "ratio_num a b p = coef a * sgn (coef b) * 10 ^ nat (expo a - expo b + int p)"

definition ratio_den :: "dec \<Rightarrow> dec \<Rightarrow> nat \<Rightarrow> int" where
  "ratio_den a b p = \<bar>coef b\<bar> * 10 ^ nat (expo b - expo a - int p)"

definition half_away_div :: "int \<Rightarrow> int \<Rightarrow> int" where
  "half_away_div n m = sgn n * ((2 * \<bar>n\<bar> + m) div (2 * m))"

definition trunc_div :: "int \<Rightarrow> int \<Rightarrow> int" where
  "trunc_div n m = sgn n * (\<bar>n\<bar> div m)"

definition round_with :: "(int \<Rightarrow> int \<Rightarrow> int) \<Rightarrow> dec \<Rightarrow> nat \<Rightarrow> dec" where
  "round_with f a p =
     (if - int p \<le> expo a then Dec (scale_to (- int p) a) (- int p)
      else Dec (f (coef a) (10 ^ nat (- int p - expo a))) (- int p))"

definition dec_div_round :: "dec \<Rightarrow> dec \<Rightarrow> nat \<Rightarrow> dec" where
  "dec_div_round a b p = Dec (half_away_div (ratio_num a b p) (ratio_den a b p)) (- int p)"

definition dec_quo_rem :: "dec \<Rightarrow> dec \<Rightarrow> nat \<Rightarrow> dec \<times> dec" where
  "dec_quo_rem a b p =
     (let q = Dec (trunc_div (ratio_num a b p) (ratio_den a b p)) (- int p)
      in (q, dec_sub a (dec_mul q b)))"

definition dec_big_int :: "dec \<Rightarrow> int" where
  "dec_big_int a = coef (round_with trunc_div a 0)"

definition zero_pad :: "nat \<Rightarrow> string \<Rightarrow> string" where
  "zero_pad k s = replicate (k - length s) (CHR ''0'') @ s"

definition strip_zeros :: "string \<Rightarrow> string" where
  "strip_zeros s = rev (dropWhile (\<lambda>c. c = CHR ''0'') (rev s))"

definition point_string :: "string \<Rightarrow> string \<Rightarrow> string" where
  "point_string ip fp = (if fp = [] then ip else ip @ CHR ''.'' # fp)"

definition dec_frac :: "dec \<Rightarrow> nat \<Rightarrow> string" where
  "dec_frac a k = zero_pad k (if k = 0 then [] else nat_string (nat \<bar>coef a\<bar> * 10 ^ nat (expo a + int k) mod 10 ^ k))"

definition dec_whole :: "dec \<Rightarrow> nat" where
  "dec_whole a = nat \<bar>coef a\<bar> * 10 ^ nat (expo a) div 10 ^ nat (- expo a)"

definition dec_string :: "dec \<Rightarrow> string" where
  "dec_string a =
     (if coef a < 0 then ''-'' else []) @
     point_string (nat_string (dec_whole a)) (strip_zeros (dec_frac a (nat (- expo a))))"

definition dec_string_fixed :: "dec \<Rightarrow> nat \<Rightarrow> string" where
  "dec_string_fixed a p =
     (let r = round_with half_away_div a p in
      (if coef r < 0 then ''-'' else []) @ point_string (nat_string (dec_whole r)) (dec_frac r p))"

definition dec_parse :: "string \<Rightarrow> dec option" where
  "dec_parse s =
     (let ip = takeWhile is_digit s; fp = tl (dropWhile is_digit s) in
      if decimal_syntax (length ip) (length fp) s
      then Some (Dec (int (string_nat (ip @ fp))) (- int (length fp))) else None)"

definition dec_from_string :: "string \<Rightarrow> string + dec" where
  "dec_from_string s =
     (case (if s \<noteq> [] \<and> hd s = CHR ''-'' then map_option dec_neg (dec_parse (tl s)) else dec_parse s) of
        None \<Rightarrow> Inl ''cannot convert to decimal'' | Some a \<Rightarrow> Inr a)"

definition ref_decimal :: "dec decimal_ops" where
  "ref_decimal =
     \<lparr> d_zero = Dec 0 1, d_new = Dec, d_coefficient = coef, d_exponent = expo,
       d_add = dec_add, d_sub = dec_sub, d_mul = dec_mul, d_neg = dec_neg,
       d_abs = (\<lambda>a. Dec \<bar>coef a\<bar> (expo a)), d_cmp = dec_cmp,
       d_equal = (\<lambda>a b. dec_cmp a b = 0), d_less_than = (\<lambda>a b. dec_cmp a b = -1),
       d_greater_than = (\<lambda>a b. dec_cmp a b = 1),
       d_less_than_or_equal = (\<lambda>a b. dec_cmp a b \<noteq> 1), d_greater_than_or_equal = (\<lambda>a b. dec_cmp a b \<noteq> -1),
       d_is_zero = (\<lambda>a. coef a = 0), d_is_negative = (\<lambda>a. coef a < 0),
       d_is_positive = (\<lambda>a. 0 < coef a), d_min = (\<lambda>a b. if dec_cmp b a = -1 then b else a),
       d_max = (\<lambda>a b. if dec_cmp a b = -1 then b else a),
       d_round = round_with half_away_div, d_round_bank = round_with half_even_div,
       d_truncate = (\<lambda>a p. if - int p \<le> expo a then a else round_with trunc_div a p),
       d_div = (\<lambda>a b. dec_div_round a b 16), d_div_round = dec_div_round, d_quo_rem = dec_quo_rem,
       d_shift = (\<lambda>a n. Dec (coef a) (expo a + n)), d_big_int = dec_big_int, d_int_part = dec_big_int,
       d_string = dec_string, d_string_fixed = dec_string_fixed, d_from_string = dec_from_string \<rparr>"

lemma ref_decimal_simps [simp]:
  "d_zero ref_decimal = Dec 0 1" "d_new ref_decimal = Dec"
  "d_coefficient ref_decimal = coef" "d_exponent ref_decimal = expo"
  "d_add ref_decimal = dec_add" "d_sub ref_decimal = dec_sub" "d_mul ref_decimal = dec_mul"
  "d_neg ref_decimal = dec_neg" "d_abs ref_decimal = (\<lambda>a. Dec \<bar>coef a\<bar> (expo a))"
  "d_cmp ref_decimal = dec_cmp" "d_equal ref_decimal = (\<lambda>a b. dec_cmp a b = 0)"
  "d_less_than ref_decimal = (\<lambda>a b. dec_cmp a b = -1)"
  "d_greater_than ref_decimal = (\<lambda>a b. dec_cmp a b = 1)"
  "d_less_than_or_equal ref_decimal = (\<lambda>a b. dec_cmp a b \<noteq> 1)"
  "d_greater_than_or_equal ref_decimal = (\<lambda>a b. dec_cmp a b \<noteq> -1)"
  "d_is_zero ref_decimal = (\<lambda>a. coef a = 0)" "d_is_negative ref_decimal = (\<lambda>a. coef a < 0)"
  "d_is_positive ref_decimal = (\<lambda>a. 0 < coef a)" "d_min ref_decimal = (\<lambda>a b. if dec_cmp b a = -1 then b else a)"
  "d_max ref_decimal = (\<lambda>a b. if dec_cmp a b = -1 then b else a)"
  "d_round ref_decimal = round_with half_away_div"
  "d_round_bank ref_decimal = round_with half_even_div"
  "d_truncate ref_decimal = (\<lambda>a p. if - int p \<le> expo a then a else round_with trunc_div a p)"
  "d_div ref_decimal = (\<lambda>a b. dec_div_round a b 16)" "d_div_round ref_decimal = dec_div_round"
  "d_quo_rem ref_decimal = dec_quo_rem" "d_shift ref_decimal = (\<lambda>a n. Dec (coef a) (expo a + n))"
  "d_big_int ref_decimal = dec_big_int" "d_int_part ref_decimal = dec_big_int"
  "d_string ref_decimal = dec_string" "d_string_fixed ref_decimal = dec_string_fixed"
  "d_from_string ref_decimal = dec_from_string"
  by (simp_all add: ref_decimal_def)

section \<open>Arithmetic\<close>

definition dv :: "dec \<Rightarrow> rat" where
  "dv a = of_int (coef a) * 10 powi expo a"

lemma d_val_ref [simp]: "d_val ref_decimal = dv"
  by (auto simp: d_val_def dv_def)

lemma power_nat_powi: "0 \<le> k \<Longrightarrow> (10::rat) ^ nat k = 10 powi k"
  by (simp flip: power_int_of_nat)

lemma dv_scale: "m \<le> expo a \<Longrightarrow> of_int (scale_to m a) * 10 powi m = dv a"
  by (simp add: scale_to_def dv_def mult.assoc power_nat_powi flip: power_int_add)

lemma dv_Dec: "dv (Dec c e) = of_int c * 10 powi e"
  by (simp add: dv_def)

lemma dv_add: "dv (dec_add a b) = dv a + dv b"
  by (simp add: dec_add_def Let_def dv_Dec distrib_right dv_scale)

lemma dv_neg: "dv (dec_neg a) = - dv a"
  by (simp add: dec_neg_def dv_def)

lemma dv_sub: "dv (dec_sub a b) = dv a - dv b"
  by (simp add: dec_sub_def dv_add dv_neg)

lemma dv_mul: "dv (dec_mul a b) = dv a * dv b"
  by (simp add: dec_mul_def dv_def power_int_add)

lemma pow10_pos [simp]: "0 < (10::rat) powi k"
  by simp

lemma pow10_not_neg [simp]: "\<not> (10::rat) powi k < 0"
  using pow10_pos [of k] by (metis less_asym)

lemma powi_split: "(10::rat) powi k = 10 ^ nat k / 10 ^ nat (- k)"
  by (cases "0 \<le> k") (simp_all add: power_nat_powi power_int_minus divide_inverse)

lemma dv_abs: "dv (Dec \<bar>coef a\<bar> (expo a)) = \<bar>dv a\<bar>"
  by (simp add: dv_def abs_mult)

lemma sgn_dv: "sgn (dv a) = of_int (sgn (coef a))"
  by (simp add: dv_def sgn_mult sgn_pos) (simp add: sgn_if)

lemma dec_cmp_dv:
  "dec_cmp a b = (if dv a < dv b then -1 else if dv a = dv b then 0 else 1)"
proof -
  have "of_int (dec_cmp a b) = sgn (dv a - dv b)"
    by (simp add: dec_cmp_def sgn_dv flip: dv_sub)
  then have "(of_int (dec_cmp a b) :: rat) = of_int (if dv a < dv b then -1 else if dv a = dv b then 0 else 1)"
    by (auto simp: sgn_if)
  then show ?thesis by (simp only: of_int_eq_iff)
qed

lemma dv_eq_0: "dv a = 0 \<longleftrightarrow> coef a = 0"
  by (simp add: dv_def)

lemma dv_less_0: "dv a < 0 \<longleftrightarrow> coef a < 0"
  by (simp add: dv_def mult_less_0_iff)

lemma dv_nonneg: "0 \<le> dv a \<longleftrightarrow> 0 \<le> coef a"
  using dv_less_0 [of a] by linarith

lemma dv_pos: "0 < dv a \<longleftrightarrow> 0 < coef a"
  using dv_less_0 [of a] dv_eq_0 [of a] by linarith

interpretation ref_arith: decimal_arith ref_decimal
  by unfold_locales
    (simp_all add: dv_Dec dv_add dv_neg dv_sub dv_mul dec_cmp_dv dv_eq_0 dv_less_0 dv_pos, simp add: dv_def abs_mult)

interpretation ref_scale: decimal_scale ref_decimal
  by unfold_locales (simp_all add: dec_add_def dec_sub_def dec_mul_def dec_neg_def Let_def)

section \<open>Division and rounding\<close>

lemma dv_round_with_exact: "- int p \<le> expo a \<Longrightarrow> dv (round_with f a p) = dv a"
  by (simp add: round_with_def dv_Dec dv_scale)

lemma expo_round_with [simp]: "expo (round_with f a p) = - int p"
  by (simp add: round_with_def)

lemma dv_Dec_places: "dv (Dec c (- int p)) = of_int c / 10 ^ p"
  by (simp add: dv_Dec power_int_minus field_simps)

lemma dv_scaled:
  assumes "\<not> - int p \<le> expo a"
  shows "dv a * 10 ^ p = of_int (coef a) / of_int (10 ^ nat (- int p - expo a))"
proof -
  have "(10::rat) ^ nat (- int p - expo a) = 10 powi (- int p - expo a)"
    using assms by (intro power_nat_powi) simp
  also have "\<dots> = 1 / (10 powi expo a * 10 ^ p)"
    by (simp add: power_int_diff power_int_minus field_simps)
  finally show ?thesis by (simp add: dv_def)
qed

lemma dv_round_with:
  assumes "\<not> - int p \<le> expo a"
  shows "dv (round_with f a p) = of_int (f (coef a) (10 ^ nat (- int p - expo a))) / 10 ^ p"
  using assms by (simp add: round_with_def dv_Dec_places)

lemma dv_on_grid: "- int p \<le> expo a \<Longrightarrow> on_grid p (dv a)"
  using ref_scale.val_on_grid by simp

lemma dv_round_bank: "dv (round_with half_even_div a p) = half_even p (dv a)"
proof (cases "- int p \<le> expo a")
  case True
  then show ?thesis by (simp add: dv_round_with_exact half_even_on_grid dv_on_grid)
next
  case False
  then show ?thesis
    by (simp add: dv_round_with half_even_def dv_scaled half_even_div_correct)
qed

lemma half_away_error:
  assumes "0 < m"
  shows "\<bar>of_int (half_away_div n m) - of_int n / of_int m\<bar> \<le> (1/2 :: rat)"
proof -
  define q where "q = (2 * \<bar>n\<bar> + m) div (2 * m)"
  define r where "r = (2 * \<bar>n\<bar> + m) mod (2 * m)"
  have "2 * \<bar>n\<bar> + m = 2 * (m * q) + r" "0 \<le> r" "r < 2 * m"
    using assms mult_div_mod_eq [of "2 * m" "2 * \<bar>n\<bar> + m"]
    by (simp_all add: q_def r_def mult.assoc)
  then have "2 * (m * q - \<bar>n\<bar>) = m - r" "- m \<le> m - r" "m - r \<le> m" by simp_all
  then have "\<bar>2 * (m * q - \<bar>n\<bar>)\<bar> \<le> m" by (simp only: abs_le_iff) simp
  then have "2 * \<bar>m * q - \<bar>n\<bar>\<bar> \<le> m" by (simp only: abs_mult abs_numeral)
  then have "of_int (2 * \<bar>m * q - \<bar>n\<bar>\<bar>) \<le> (of_int m :: rat)" by (simp only: of_int_le_iff)
  then have e: "\<bar>of_int q - of_int \<bar>n\<bar> / of_int m\<bar> \<le> (1/2 :: rat)"
    using assms by (simp add: field_simps abs_le_iff)
  have "of_int (half_away_div n m) - of_int n / of_int m
      = of_int (sgn n) * (of_int q - of_int \<bar>n\<bar> / of_int m :: rat)"
    by (simp add: half_away_div_def q_def right_diff_distrib sgn_if)
  then have "\<bar>of_int (half_away_div n m) - of_int n / of_int m\<bar>
      = \<bar>of_int (sgn n)\<bar> * \<bar>of_int q - of_int \<bar>n\<bar> / of_int m :: rat\<bar>"
    by (simp only: abs_mult)
  also have "\<dots> \<le> 1 * \<bar>of_int q - of_int \<bar>n\<bar> / of_int m :: rat\<bar>"
    by (intro mult_right_mono) (simp_all add: sgn_if)
  also have "\<dots> \<le> 1/2" using e by (simp only: mult_1)
  finally show ?thesis .
qed

lemma scaled_error:
  "\<bar>of_int k - x * 10 ^ p\<bar> \<le> 1/2 \<Longrightarrow> \<bar>of_int k / 10 ^ p - x\<bar> \<le> (1 / (2 * 10 ^ p) :: rat)"
  by (simp add: field_simps abs_le_iff)

lemma dv_round_near: "\<bar>dv (round_with half_away_div a p) - dv a\<bar> \<le> 1 / (2 * 10 ^ p)"
proof (cases "- int p \<le> expo a")
  case True
  then show ?thesis by (simp add: dv_round_with_exact)
next
  case False
  then show ?thesis
    unfolding dv_round_with [OF False]
    by (intro scaled_error) (simp only: dv_scaled [OF False] half_away_error zero_less_power zero_less_numeral)
qed

lemma ratio_den_pos: "coef b \<noteq> 0 \<Longrightarrow> 0 < ratio_den a b p"
  by (simp add: ratio_den_def)

lemma dv_ratio:
  assumes "coef b \<noteq> 0"
  shows "dv a / dv b * 10 ^ p = of_int (ratio_num a b p) / of_int (ratio_den a b p)"
proof -
  let ?k = "expo a - expo b + int p"
  have "dv a / dv b * 10 ^ p = of_int (coef a) / of_int (coef b) * 10 powi ?k"
    by (simp add: dv_def power_int_add power_int_diff)
  also have "of_int (coef a) / of_int (coef b) = (of_int (coef a) * of_int (sgn (coef b)) / of_int \<bar>coef b\<bar> :: rat)"
    using assms by (simp add: sgn_if abs_if)
  also have "10 powi ?k = (10 ^ nat ?k / 10 ^ nat (- ?k) :: rat)"
    by (rule powi_split)
  also have "- ?k = expo b - expo a - int p" by simp
  finally show ?thesis
    by (simp add: ratio_num_def ratio_den_def)
qed

lemma dv_trunc_nonneg:
  assumes "0 \<le> n" and "0 < m"
  shows "of_int (trunc_div n m) = (of_int \<lfloor>of_int n / of_int m :: rat\<rfloor> :: rat)"
  using assms by (auto simp: trunc_div_def floor_divide_of_int_eq sgn_if)

lemma quo_rem_ref:
  assumes b: "coef b \<noteq> 0" and q: "dec_quo_rem a b p = (q, r)"
  shows "dv a = dv q * dv b + dv r" and "expo q = - int p"
    and "0 \<le> dv a \<Longrightarrow> 0 \<le> dv r \<and> dv r < \<bar>dv b\<bar> / 10 ^ p"
proof -
  let ?n = "ratio_num a b p" and ?m = "ratio_den a b p"
  from q have qr: "q = Dec (trunc_div ?n ?m) (- int p)" "r = dec_sub a (dec_mul q b)"
    by (auto simp: dec_quo_rem_def Let_def)
  then show e: "dv a = dv q * dv b + dv r" and "expo q = - int p"
    by (simp_all add: dv_sub dv_mul)
  assume "0 \<le> dv a"
  have m: "0 < ?m" using b by (rule ratio_den_pos)
  define t where "t = \<bar>?n\<bar> div ?m"
  have qt: "dv q = of_int (sgn (coef b) * t) / 10 ^ p"
    using \<open>0 \<le> dv a\<close>
    by (simp add: qr(1) dv_Dec_places trunc_div_def t_def dv_nonneg ratio_num_def sgn_mult)
       (auto simp: sgn_if)
  have "t * ?m \<le> \<bar>?n\<bar>" "\<bar>?n\<bar> < (t + 1) * ?m"
  proof -
    have "\<bar>?n\<bar> = t * ?m + \<bar>?n\<bar> mod ?m" by (simp add: t_def)
    then show "t * ?m \<le> \<bar>?n\<bar>" "\<bar>?n\<bar> < (t + 1) * ?m"
      using pos_mod_bound [OF m, of "\<bar>?n\<bar>"] pos_mod_sign [OF m, of "\<bar>?n\<bar>"]
      by (simp_all add: distrib_right)
  qed
  then have "of_int (t * ?m) \<le> (of_int \<bar>?n\<bar> :: rat)" "of_int \<bar>?n\<bar> < (of_int ((t + 1) * ?m) :: rat)"
    by (simp_all only: of_int_le_iff of_int_less_iff)
  then have "of_int t \<le> \<bar>of_int ?n / of_int ?m :: rat\<bar>" "\<bar>of_int ?n / of_int ?m :: rat\<bar> < of_int t + 1"
    using m by (simp_all add: field_simps)
  then have x: "of_int t \<le> \<bar>dv a / dv b * 10 ^ p\<bar>" "\<bar>dv a / dv b * 10 ^ p\<bar> < of_int t + 1"
    by (simp_all only: dv_ratio [OF b])
  have nb: "\<bar>dv b\<bar> > 0" using b by (simp add: dv_eq_0)
  have "dv q * dv b = of_int t * \<bar>dv b\<bar> / 10 ^ p"
    using b by (simp add: qt sgn_dv [symmetric] mult_sgn_abs algebra_simps abs_sgn)
  with e have "dv r = dv a - of_int t * \<bar>dv b\<bar> / 10 ^ p" by simp
  with x nb \<open>0 \<le> dv a\<close> have "0 \<le> dv r * 10 ^ p" "dv r * 10 ^ p < \<bar>dv b\<bar>"
    by (simp_all add: field_simps abs_mult)
  then show "0 \<le> dv r \<and> dv r < \<bar>dv b\<bar> / 10 ^ p"
    using mult_right_le_imp_le [of 0 "10 ^ p" "dv r"] by (simp add: pos_less_divide_eq)
qed

lemma dec_big_int_correct: "dv a = of_int k \<Longrightarrow> dec_big_int a = k"
proof (cases "- int 0 \<le> expo a")
  case True
  assume "dv a = of_int k"
  then have "of_int (coef (round_with trunc_div a 0)) = (of_int k :: rat)"
    using dv_round_with_exact [OF True, of trunc_div] by (simp add: dv_def)
  then show ?thesis by (simp add: dec_big_int_def)
next
  case False
  let ?m = "10 ^ nat (- expo a) :: int"
  assume "dv a = of_int k"
  with dv_scaled [OF False] have "of_int (coef a) = (of_int (k * ?m) :: rat)"
    by (simp add: field_simps)
  then have "coef a = k * ?m" by (simp only: of_int_eq_iff)
  then show ?thesis using False
    by (simp add: dec_big_int_def round_with_def trunc_div_def sgn_mult abs_mult mult_sgn_abs)
qed

lemma half_away_floor:
  assumes "0 < m" and "0 \<le> n"
  shows "half_away_div n m = \<lfloor>of_int n / of_int m + 1/2 :: rat\<rfloor>"
proof -
  have "of_int n / of_int m + 1/2 = (of_int (2 * n + m) / of_int (2 * m) :: rat)" using assms(1) by (simp add: field_simps)
  then have "\<lfloor>of_int n / of_int m + 1/2 :: rat\<rfloor> = (2 * n + m) div (2 * m)" by (simp only: floor_divide_of_int_eq)
  then show ?thesis using assms by (cases "n = 0") (simp_all add: half_away_div_def div_pos_pos_trivial)
qed

lemma dv_round_half_up:
  assumes "0 \<le> dv a"
  shows "dv (round_with half_away_div a p) = of_int \<lfloor>dv a * 10 ^ p + 1/2\<rfloor> / 10 ^ p"
proof (cases "- int p \<le> expo a")
  case True
  obtain k :: int where "dv a = of_int k / 10 ^ p" using dv_on_grid [OF True] by (rule on_gridE)
  moreover have "\<lfloor>of_int k + 1/2 :: rat\<rfloor> = k" by linarith
  ultimately show ?thesis using True by (simp add: dv_round_with_exact)
next
  case False
  have "0 \<le> coef a" using assms by (simp add: dv_nonneg)
  then show ?thesis by (simp add: dv_round_with [OF False] dv_scaled [OF False] half_away_floor)
qed

interpretation ref_round: decimal_round ref_decimal
proof (unfold_locales, goal_cases)
  case (6 a p)
  then show ?case
    by (auto simp: dv_round_with dv_scaled dv_trunc_nonneg dv_nonneg elim!: on_gridE dest!: dv_on_grid [of p a])
next
  case (7 b a p)
  then have "coef b \<noteq> 0" by (simp add: dv_eq_0)
  then show ?case
    using scaled_error [of _ "dv a / dv b" p, unfolded dv_ratio [OF \<open>coef b \<noteq> 0\<close>],
        OF half_away_error [OF ratio_den_pos]] by (simp add: dec_div_round_def dv_Dec_places)
next
  case (10 b a p q r)
  then show ?case using quo_rem_ref [of b a p q r] by (simp add: dv_eq_0)
next
  case (11 b a p q r)
  then show ?case using quo_rem_ref [of b a p q r] by (simp add: dv_eq_0)
next
  case (12 a n)
  then show ?case by (simp add: dv_def power_int_add)
qed (simp_all add: dv_round_bank dv_round_with_exact dv_round_near dec_div_round_def dec_big_int_correct dv_round_half_up)

section \<open>Reading and printing\<close>

lemma takeWhile_digits: "list_all is_digit ip \<Longrightarrow> takeWhile is_digit (ip @ CHR ''.'' # fp) = ip"
  by (induction ip) (auto simp: is_digit_iff)

lemma dropWhile_digits: "list_all is_digit ip \<Longrightarrow> dropWhile is_digit (ip @ CHR ''.'' # fp) = CHR ''.'' # fp"
  by (induction ip) (auto simp: is_digit_iff)

lemma while_all_digits:
  "list_all is_digit ip \<Longrightarrow> takeWhile is_digit ip = ip \<and> dropWhile is_digit ip = []"
  by (simp add: list_all_iff)

lemma point_string_parts:
  assumes "list_all is_digit ip"
  shows "takeWhile is_digit (point_string ip fp) = ip"
    and "tl (dropWhile is_digit (point_string ip fp)) = fp"
    and "dropWhile is_digit (point_string ip fp) = (if fp = [] then [] else CHR ''.'' # fp)"
  using assms by (auto simp: point_string_def takeWhile_digits dropWhile_digits while_all_digits)

lemma decimal_syntax_point_string:
  assumes "list_all is_digit fp" and "length fp \<le> m" and "k < 10 ^ n" and "0 < n"
  shows "decimal_syntax n m (point_string (nat_string k) fp)"
proof -
  have "length (nat_string k) \<le> n" using assms(3,4) by (simp add: nat_string_length_le)
  moreover have "nat_string k = ''0'' \<or> hd (nat_string k) \<noteq> CHR ''0''"
    by (cases "k = 0") (simp_all add: nat_string_0 nat_string_hd_0)
  ultimately show ?thesis
    using assms(1,2)
    by (auto simp: decimal_syntax_def point_string_parts nat_string_digits Suc_le_eq)
qed

lemma syntax_value_point_string:
  "syntax_value (point_string (nat_string k) fp)
     = of_nat k + of_nat (string_nat fp) / 10 ^ length fp"
  by (simp add: syntax_value_def point_string_parts nat_string_digits string_nat_append add_divide_distrib)

lemma string_nat_replicate_0 [simp]: "string_nat (replicate k (CHR ''0'')) = 0"
  by (induction k) (simp_all add: replicate_append_same [symmetric] digit_val_def)

lemma zero_pad_facts:
  assumes "n < 10 ^ k" and "0 < k"
  shows "length (zero_pad k (nat_string n)) = k" "string_nat (zero_pad k (nat_string n)) = n"
    "list_all is_digit (zero_pad k (nat_string n))"
  using assms nat_string_length_le [of k n]
  by (simp_all add: zero_pad_def string_nat_append nat_string_digits list_all_iff is_digit_iff)
    (use nat_string_digits [of n] in \<open>auto simp: list_all_iff is_digit_iff\<close>)

lemma strip_zeros_split: "\<exists>j. s = strip_zeros s @ replicate j (CHR ''0'')"
proof -
  have "rev s = takeWhile (\<lambda>c. c = CHR ''0'') (rev s) @ dropWhile (\<lambda>c. c = CHR ''0'') (rev s)"
    by simp
  moreover have "takeWhile (\<lambda>c. c = CHR ''0'') (rev s)
      = replicate (length (takeWhile (\<lambda>c. c = CHR ''0'') (rev s))) (CHR ''0'')"
    by (rule replicate_eqI [symmetric, THEN sym]) (auto dest: set_takeWhileD)
  ultimately show ?thesis
    unfolding strip_zeros_def by (metis rev_append rev_replicate rev_rev_ident)
qed

lemma strip_zeros_last: "strip_zeros s \<noteq> [] \<Longrightarrow> last (strip_zeros s) \<noteq> CHR ''0''"
  using hd_dropWhile [of "\<lambda>c. c = CHR ''0''" "rev s"] by (simp add: strip_zeros_def last_rev)

lemma strip_zeros_value:
  "of_nat (string_nat (strip_zeros s)) / 10 ^ length (strip_zeros s) = (of_nat (string_nat s) / 10 ^ length s :: rat)"
proof -
  obtain j where "s = strip_zeros s @ replicate j (CHR ''0'')" using strip_zeros_split by blast
  then have "string_nat s = string_nat (strip_zeros s) * 10 ^ j" "length s = length (strip_zeros s) + j"
    by (metis add.right_neutral length_replicate string_nat_append string_nat_replicate_0,
        metis length_append length_replicate)
  then show ?thesis by (simp add: power_add)
qed

lemma strip_zeros_digits: "list_all is_digit s \<Longrightarrow> list_all is_digit (strip_zeros s) \<and> length (strip_zeros s) \<le> length s"
  by (metis le_add1 length_append list_all_append strip_zeros_split)

lemma string_nat_inj:
  "length s = length t \<Longrightarrow> list_all is_digit s \<Longrightarrow> list_all is_digit t \<Longrightarrow> string_nat s = string_nat t \<Longrightarrow> s = t"
proof (induction s arbitrary: t rule: rev_induct)
  case (snoc c s)
  then obtain c' t' where t: "t = t' @ [c']" by (cases t rule: rev_cases) auto
  have v: "digit_val c < 10" "digit_val c' < 10"
    using snoc.prems by (simp_all add: t digit_val_less)
  from snoc.prems(4) have "string_nat s * 10 + digit_val c = string_nat t' * 10 + digit_val c'"
    by (simp add: t)
  with v have e: "string_nat s = string_nat t'" "digit_val c = digit_val c'" by presburger+
  have "s = t'" using snoc e(1) by (simp add: t)
  moreover have "is_digit c" "is_digit c'" using snoc.prems by (simp_all add: t)
  then have "c = c'" using e(2) by (metis digit_char_val)
  ultimately show ?case by (simp add: t)
qed simp

lemma fraction_digits_unique:
  assumes "list_all is_digit f" "list_all is_digit g" and "length f \<le> length g"
    and "g \<noteq> [] \<Longrightarrow> last g \<noteq> CHR ''0''"
    and "of_nat (string_nat f) / 10 ^ length f = (of_nat (string_nat g) / 10 ^ length g :: rat)"
  shows "f = g"
proof -
  define d where "d = length g - length f"
  have len: "length g = length f + d" using assms(3) by (simp add: d_def)
  have "of_nat (string_nat f * 10 ^ d) = (of_nat (string_nat g) :: rat)"
    using assms(5) by (simp add: len power_add field_simps)
  then have "string_nat (f @ replicate d (CHR ''0'')) = string_nat g"
    by (simp only: of_nat_eq_iff) (simp add: string_nat_append)
  then have g: "g = f @ replicate d (CHR ''0'')"
    using assms(1,2) by (intro string_nat_inj [symmetric]) (auto simp: len list_all_iff is_digit_iff)
  then have "d = 0" using assms(4) by (cases "d = 0") auto
  with g show ?thesis by simp
qed

lemma dec_parts:
  assumes "k = nat (- expo a)"
  shows "length (dec_frac a k) = k" and "list_all is_digit (dec_frac a k)"
    and "\<bar>dv a\<bar> = of_nat (dec_whole a) + of_nat (string_nat (dec_frac a k)) / 10 ^ k"
    and "string_nat (dec_frac a k) < 10 ^ k"
proof -
  define M where "M = nat \<bar>coef a\<bar> * 10 ^ nat (expo a)"
  have M: "M = nat \<bar>coef a\<bar> * 10 ^ nat (expo a + int k)" if "k \<noteq> 0"
    using that assms by (simp add: M_def)
  have f: "length (dec_frac a k) = k \<and> list_all is_digit (dec_frac a k) \<and> string_nat (dec_frac a k) = M mod 10 ^ k"
    using zero_pad_facts [of "M mod 10 ^ k" k]
    by (cases "k = 0") (simp_all add: dec_frac_def zero_pad_def flip: M)
  then show "length (dec_frac a k) = k" "list_all is_digit (dec_frac a k)" "string_nat (dec_frac a k) < 10 ^ k"
    by simp_all
  have "\<bar>dv a\<bar> = of_nat (nat \<bar>coef a\<bar>) * (10 ^ nat (expo a) / 10 ^ k)"
    by (simp add: dv_def abs_mult powi_split [of "expo a"] assms)
  then have "\<bar>dv a\<bar> = of_nat M / 10 ^ k" by (simp add: M_def)
  also have "of_nat M = (of_nat (M div 10 ^ k) * 10 ^ k + of_nat (M mod 10 ^ k) :: rat)"
    by (subst div_mult_mod_eq [of M "10 ^ k", symmetric])
      (simp only: of_nat_add of_nat_mult of_nat_power of_nat_numeral)
  finally show "\<bar>dv a\<bar> = of_nat (dec_whole a) + of_nat (string_nat (dec_frac a k)) / 10 ^ k"
    using f by (simp add: dec_whole_def M_def add_divide_distrib assms)
qed

lemma dec_whole_floor: "int (dec_whole a) = \<lfloor>\<bar>dv a\<bar>\<rfloor>"
proof -
  let ?k = "nat (- expo a)"
  have "of_nat (string_nat (dec_frac a ?k)) < (of_nat (10 ^ ?k) :: rat)"
    by (simp only: of_nat_less_iff dec_parts(4) [OF refl])
  then have "of_nat (string_nat (dec_frac a ?k)) / 10 ^ ?k < (1::rat)" by (simp add: field_simps)
  then show ?thesis
    using dec_parts(3) [OF refl, of a] by (intro floor_unique [symmetric]) (simp_all)
qed

lemma dec_whole_less: "\<bar>dv a\<bar> < 10 ^ n \<Longrightarrow> dec_whole a < 10 ^ n"
proof -
  assume "\<bar>dv a\<bar> < 10 ^ n"
  moreover have "of_nat (dec_whole a) \<le> \<bar>dv a\<bar>"
    by (simp add: dec_parts(3) [OF refl])
  ultimately have "of_nat (dec_whole a) < (of_nat (10 ^ n) :: rat)" by (simp del: of_nat_less_iff of_nat_less_of_nat_power_cancel_iff of_nat_less_numeral_power_cancel_iff)
  then show ?thesis by (simp only: of_nat_less_iff)
qed

lemma dec_string_eq:
  assumes "dv a = dv b"
  shows "dec_string a = dec_string b"
proof -
  let ?f = "\<lambda>a. strip_zeros (dec_frac a (nat (- expo a)))"
  have w: "dec_whole a = dec_whole b"
    using dec_whole_floor [of a] dec_whole_floor [of b] assms by simp
  have d: "list_all is_digit (?f x)" "?f x \<noteq> [] \<Longrightarrow> last (?f x) \<noteq> CHR ''0''"
    "of_nat (string_nat (?f x)) / 10 ^ length (?f x) = \<bar>dv x\<bar> - of_nat (dec_whole x)" for x
    using dec_parts(1,2) [OF refl, of x] dec_parts(3) [OF refl, of x]
    by (simp_all add: strip_zeros_digits strip_zeros_last strip_zeros_value)
  have "?f a = ?f b"
  proof (cases "length (?f a) \<le> length (?f b)")
    case True
    show ?thesis
      by (rule fraction_digits_unique [OF d(1) d(1) True d(2)]) (simp_all add: d(3) assms w)
  next
    case False
    have "?f b = ?f a"
      using False by (intro fraction_digits_unique [OF d(1) d(1) _ d(2)]) (simp_all add: d(3) assms w)
    then show ?thesis by simp
  qed
  moreover have "coef a < 0 \<longleftrightarrow> coef b < 0" using assms by (simp flip: dv_less_0)
  ultimately show ?thesis by (simp add: dec_string_def w)
qed

lemma dec_parse_syntax:
  assumes "decimal_syntax n m s"
  obtains a where "dec_parse s = Some a" "dv a = syntax_value s" "- int m \<le> expo a"
    "s \<noteq> []" "hd s \<noteq> CHR ''-''"
proof -
  let ?ip = "takeWhile is_digit s" and ?fp = "tl (dropWhile is_digit s)"
  from assms have "decimal_syntax (length ?ip) (length ?fp) s" "length ?fp \<le> m" "?ip \<noteq> []"
    unfolding decimal_syntax_def Let_def
    by ((elim conjE disjE; simp del: dropWhile_eq_Nil_conv)+)
  moreover from \<open>?ip \<noteq> []\<close> have "s \<noteq> []" "is_digit (hd s)" by (auto simp: takeWhile_eq_Nil_iff)
  ultimately show ?thesis
    by (intro that [of "Dec (int (string_nat (?ip @ ?fp))) (- int (length ?fp))"])
      (auto simp: dec_parse_def Let_def syntax_value_def dv_Dec_places is_digit_iff)
qed

interpretation ref: decimal_lib ref_decimal
proof (unfold_locales, goal_cases)
  case (1 n m s)
  then show ?case
    by (elim dec_parse_syntax) (simp add: dec_from_string_def)
next
  case (2 n m s)
  then show ?case
    by (elim dec_parse_syntax) (simp add: dec_from_string_def, simp add: dec_neg_def dv_def)
next
  case (3 a n m)
  then have p: "\<bar>dv a\<bar> = dv a" "\<not> coef a < 0" by (simp_all add: dv_nonneg)
  let ?f = "dec_frac a (nat (- expo a))"
  have f: "list_all is_digit (strip_zeros ?f)" "length (strip_zeros ?f) \<le> m"
    using 3 strip_zeros_digits [of ?f] dec_parts(1,2) [OF refl, of a] by auto
  have "dec_whole a < 10 ^ n" using 3 dec_whole_less [of a n] p by simp
  moreover have "of_nat (dec_whole a) + of_nat (string_nat ?f) / 10 ^ length ?f = dv a"
    using dec_parts(1,3) [OF refl, of a] p by simp
  ultimately show ?case using f p(2) \<open>0 < n\<close>
    by (simp add: dec_string_def decimal_syntax_point_string syntax_value_point_string strip_zeros_value)
next
  case (4 a b)
  then show ?case using dec_string_eq [of a b] by simp
next
  case (5 a)
  then have "dec_string a = dec_string (Dec 0 0)" by (intro dec_string_eq) (simp add: dv_Dec)
  also have "\<dots> = ''0''" by (simp add: dec_string_def dec_whole_def dec_frac_def zero_pad_def strip_zeros_def point_string_def nat_string_0)
  finally show ?case by simp
next
  case (6 a n m)
  let ?r = "round_with half_away_div a m"
  have r: "dv ?r = dv a" using 6 by (simp add: dv_round_with_exact)
  then have "\<bar>dv ?r\<bar> = dv a" "\<not> coef ?r < 0" "m = nat (- expo ?r)"
    using 6 by (simp_all flip: dv_less_0)
  then show ?case using 6 dec_whole_less [of ?r n] dec_parts [of m ?r]
    by (simp add: dec_string_fixed_def Let_def decimal_syntax_point_string syntax_value_point_string r)
qed

end
