(* ===== verification/Money.thy ===== *)
theory Money
  imports DomainBase DecimalRef
begin

text \<open>
  The exact value types of \<^verbatim>\<open>internal/domain/decimal.go\<close> and \<^verbatim>\<open>model.go\<close>: quantities, unit
  prices, exchange rates, money and signed money, with their parsers and constructors.  Each
  type's constructor keeps an invariant (sign, range, number of fractional digits); the
  lemmas here characterise when a constructor succeeds and what it stores.
\<close>

section \<open>Limits\<close>

text \<open>
  \<^verbatim>\<open>decimal.RequireFromString\<close> panics on a malformed text; the four limits are initialised
  from constant, well-formed texts.
\<close>

definition require_from_string :: "'d decimal_ops \<Rightarrow> string \<Rightarrow> 'd" where
  "require_from_string D s = (case d_from_string D s of Inr a \<Rightarrow> a | Inl e \<Rightarrow> d_zero D)"

definition maxQuantity :: "'d decimal_ops \<Rightarrow> 'd" where
  "maxQuantity D = require_from_string D ''999999999999999999.99999999''"

definition maxUnitPrice :: "'d decimal_ops \<Rightarrow> 'd" where
  "maxUnitPrice D = require_from_string D ''999999999999.99999999''"

definition maxFxRate :: "'d decimal_ops \<Rightarrow> 'd" where
  "maxFxRate D = require_from_string D ''99999999.999999999999''"

definition maxMoney :: "'d decimal_ops \<Rightarrow> 'd" where
  "maxMoney D = require_from_string D ''999999999999.9999''"

definition quantitySyntax :: "string \<Rightarrow> bool" where "quantitySyntax = decimal_syntax 18 8"
definition unitPriceSyntax :: "string \<Rightarrow> bool" where "unitPriceSyntax = decimal_syntax 12 8"
definition fxRateSyntax :: "string \<Rightarrow> bool" where "fxRateSyntax = decimal_syntax 8 12"
definition baseAmountSyntax :: "string \<Rightarrow> bool" where "baseAmountSyntax = decimal_syntax 12 28"
definition nativeAmountSyntax :: "string \<Rightarrow> bool" where "nativeAmountSyntax = decimal_syntax 12 16"
definition moneySyntax :: "string \<Rightarrow> bool" where "moneySyntax = decimal_syntax 12 4"

definition signedMoneySyntax :: "string \<Rightarrow> bool" where
  "signedMoneySyntax s \<longleftrightarrow> decimal_syntax 12 4 (if s \<noteq> [] \<and> hd s = CHR ''-'' then tl s else s)"

section \<open>Bounded decimals\<close>

definition decimalShape :: "'d decimal_ops \<Rightarrow> 'd \<Rightarrow> int \<times> int" where
  "decimalShape D v =
     (if d_is_zero D v then (0, 1)
      else
        let coefficientDigits = int (length (big_string (d_coefficient D (d_abs D v))));
            exponent = d_exponent D v
        in if 0 \<le> exponent then (0, coefficientDigits + exponent)
           else
             let scale = - exponent; integerDigits = coefficientDigits - scale
             in (scale, if integerDigits < 1 then 1 else integerDigits))"

definition validateBoundedDecimal ::
    "'d decimal_ops \<Rightarrow> string \<Rightarrow> 'd \<Rightarrow> 'd \<Rightarrow> int \<Rightarrow> int \<Rightarrow> bool \<Rightarrow> unit res" where
  "validateBoundedDecimal D field v maximum maxIntegerDigits maxScale positive =
     (if d_is_negative D v then Inl (validation field ''must not be negative'')
      else if positive \<and> d_is_zero D v then Inl (validation field ''must be greater than zero'')
      else if d_greater_than D v maximum
        then Inl (DomainError ErrDecimalOverflow field ''value is outside the supported range'')
      else
        let (scale, integerDigits) = decimalShape D v in
        if maxScale < scale \<or> maxIntegerDigits < integerDigits
        then Inl (DomainError ErrDecimalOverflow field ''value is outside the supported range'')
        else Inr ())"

definition canonicalDecimal :: "'d decimal_ops \<Rightarrow> 'd \<Rightarrow> string" where
  "canonicalDecimal D v = (if d_is_zero D v then ''0'' else d_string D v)"

definition overflowAmount :: err where
  "overflowAmount = DomainError ErrDecimalOverflow ''amount'' ''calculation is outside the supported range''"

definition checkedIntermediate :: "'d decimal_ops \<Rightarrow> 'd \<Rightarrow> 'd res" where
  "checkedIntermediate D v =
     (if d_is_negative D v \<or> d_greater_than D v (maxMoney D) then Inl overflowAmount else Inr v)"

text \<open>\<^verbatim>\<open>decimal.NewFromString\<close> after a syntax check, with the caller's message for its error.\<close>

definition parse_decimal :: "'d decimal_ops \<Rightarrow> string \<Rightarrow> err \<Rightarrow> 'd res" where
  "parse_decimal D s e = map_err (\<lambda>_. e) (d_from_string D s)"

section \<open>Quantity\<close>

record 'd quantity =
  q_value :: 'd

definition NewQuantity :: "'d decimal_ops \<Rightarrow> 'd \<Rightarrow> 'd quantity res" where
  "NewQuantity D v =
     res_bind (validateBoundedDecimal D ''quantity'' v (maxQuantity D) 18 8 False)
       (\<lambda>_. Inr \<lparr> q_value = v \<rparr>)"

definition ParseQuantity :: "'d decimal_ops \<Rightarrow> string \<Rightarrow> 'd quantity res" where
  "ParseQuantity D value =
     (if \<not> quantitySyntax value
      then Inl (validation ''quantity'' ''must be a canonical non-negative decimal with up to eight fractional digits'')
      else res_bind (parse_decimal D value (validation ''quantity'' ''is not a valid decimal'')) (NewQuantity D))"

definition Quantity_Canonical :: "'d decimal_ops \<Rightarrow> 'd quantity \<Rightarrow> string" where
  "Quantity_Canonical D q = canonicalDecimal D (q_value q)"

definition Quantity_IsZero :: "'d decimal_ops \<Rightarrow> 'd quantity \<Rightarrow> bool" where
  "Quantity_IsZero D q = d_is_zero D (q_value q)"

section \<open>Unit price\<close>

record 'd unit_price =
  u_value :: 'd

definition NewUnitPrice :: "'d decimal_ops \<Rightarrow> 'd \<Rightarrow> 'd unit_price res" where
  "NewUnitPrice D v =
     res_bind (validateBoundedDecimal D ''unitPrice'' v (maxUnitPrice D) 12 8 False)
       (\<lambda>_. Inr \<lparr> u_value = v \<rparr>)"

definition ParseUnitPrice :: "'d decimal_ops \<Rightarrow> string \<Rightarrow> 'd unit_price res" where
  "ParseUnitPrice D value =
     (if \<not> unitPriceSyntax value
      then Inl (validation ''unitPrice'' ''must be a canonical non-negative decimal with up to eight fractional digits'')
      else res_bind (parse_decimal D value (validation ''unitPrice'' ''is not a valid decimal'')) (NewUnitPrice D))"

definition UnitPrice_Canonical :: "'d decimal_ops \<Rightarrow> 'd unit_price \<Rightarrow> string" where
  "UnitPrice_Canonical D p = canonicalDecimal D (u_value p)"

definition UnitPriceFromExact :: "'d decimal_ops \<Rightarrow> 'd \<Rightarrow> 'd unit_price res" where
  "UnitPriceFromExact D v =
     (let (scale, _) = decimalShape D v in
      NewUnitPrice D (if 8 < scale then d_round_bank D v 8 else v))"

definition MultiplyQuantityAndUnitPrice :: "'d decimal_ops \<Rightarrow> 'd quantity \<Rightarrow> 'd unit_price \<Rightarrow> 'd res" where
  "MultiplyQuantityAndUnitPrice D q p = checkedIntermediate D (d_mul D (q_value q) (u_value p))"

section \<open>Snapshot amounts\<close>

definition ParseNativeAmount :: "'d decimal_ops \<Rightarrow> string \<Rightarrow> string res" where
  "ParseNativeAmount D value =
     (if \<not> nativeAmountSyntax value
      then Inl (validation ''nativeAmount'' ''must be a canonical non-negative decimal with up to sixteen fractional digits'')
      else
        res_bind (parse_decimal D value (validation ''nativeAmount'' ''is not a valid decimal'')) (\<lambda>parsed.
        res_bind (validateBoundedDecimal D ''nativeAmount'' parsed (maxMoney D) 12 16 False) (\<lambda>_.
        Inr (canonicalDecimal D parsed))))"

definition ParseBaseAmountExact :: "'d decimal_ops \<Rightarrow> string \<Rightarrow> string res" where
  "ParseBaseAmountExact D value =
     (if \<not> baseAmountSyntax value
      then Inl (validation ''baseAmountExact'' ''must be a canonical non-negative decimal with up to twenty-eight fractional digits'')
      else
        res_bind (parse_decimal D value (validation ''baseAmountExact'' ''is not a valid decimal'')) (\<lambda>parsed.
        res_bind (validateBoundedDecimal D ''baseAmountExact'' parsed (maxMoney D) 12 28 False) (\<lambda>_.
        Inr (canonicalDecimal D parsed))))"

section \<open>Exchange rate\<close>

record 'd fx_rate =
  r_value :: 'd

definition NewFxRate :: "'d decimal_ops \<Rightarrow> 'd \<Rightarrow> 'd fx_rate res" where
  "NewFxRate D v =
     res_bind (validateBoundedDecimal D ''fxRate'' v (maxFxRate D) 8 12 True)
       (\<lambda>_. Inr \<lparr> r_value = v \<rparr>)"

definition ParseFxRate :: "'d decimal_ops \<Rightarrow> string \<Rightarrow> 'd fx_rate res" where
  "ParseFxRate D value =
     (if \<not> fxRateSyntax value
      then Inl (validation ''fxRate'' ''must be a canonical positive decimal with up to twelve fractional digits'')
      else res_bind (parse_decimal D value (validation ''fxRate'' ''is not a valid decimal'')) (NewFxRate D))"

section \<open>Money\<close>

record 'd money =
  m_amount :: 'd
  m_currency :: CurrencyCode

definition ParseMoney :: "'d decimal_ops \<Rightarrow> string \<Rightarrow> CurrencyCode \<Rightarrow> 'd money res" where
  "ParseMoney D amount currency =
     res_bind (ParseCurrency currency) (\<lambda>canonicalCurrency.
     if \<not> moneySyntax amount
     then Inl (validation ''amount'' ''must be a canonical non-negative decimal with up to four fractional digits'')
     else (case d_from_string D amount of
         Inl e \<Rightarrow> Inl (validation ''amount'' ''is outside the supported range'')
       | Inr v \<Rightarrow>
           if d_is_negative D v \<or> d_greater_than D v (maxMoney D)
           then Inl (validation ''amount'' ''is outside the supported range'')
           else Inr \<lparr> m_amount = v, m_currency = canonicalCurrency \<rparr>))"

definition NewMoney :: "'d decimal_ops \<Rightarrow> 'd \<Rightarrow> CurrencyCode \<Rightarrow> 'd money res" where
  "NewMoney D v currency =
     (if d_is_negative D v \<or> d_greater_than D v (maxMoney D)
      then Inl (DomainError ErrDecimalOverflow ''amount'' ''amount is outside the supported range'')
      else ParseMoney D (d_string_fixed D (d_round_bank D v 4) 4) currency)"

definition Money_CanonicalAmount :: "'d decimal_ops \<Rightarrow> 'd money \<Rightarrow> string" where
  "Money_CanonicalAmount D m = d_string D (m_amount m)"

definition Money_IsZero :: "'d decimal_ops \<Rightarrow> 'd money \<Rightarrow> bool" where
  "Money_IsZero D m = d_is_zero D (m_amount m)"

definition Money_Add :: "'d decimal_ops \<Rightarrow> 'd money \<Rightarrow> 'd money \<Rightarrow> 'd money res" where
  "Money_Add D m other =
     (if m_currency m \<noteq> m_currency other
      then Inl (validation ''currency'' ''money currencies must match'')
      else NewMoney D (d_add D (m_amount m) (m_amount other)) (m_currency m))"

record 'd signed_money =
  s_amount :: 'd
  s_currency :: CurrencyCode

definition ParseSignedMoney :: "'d decimal_ops \<Rightarrow> string \<Rightarrow> CurrencyCode \<Rightarrow> 'd signed_money res" where
  "ParseSignedMoney D amount currency =
     res_bind (ParseCurrency currency) (\<lambda>canonicalCurrency.
     if \<not> signedMoneySyntax amount
     then Inl (validation ''amount'' ''must be a canonical signed decimal with up to four fractional digits'')
     else (case d_from_string D amount of
         Inl e \<Rightarrow> Inl (validation ''amount'' ''is outside the supported range'')
       | Inr v \<Rightarrow>
           if d_greater_than D (d_abs D v) (maxMoney D)
           then Inl (validation ''amount'' ''is outside the supported range'')
           else Inr \<lparr> s_amount = v, s_currency = canonicalCurrency \<rparr>))"

definition NewSignedMoney :: "'d decimal_ops \<Rightarrow> 'd \<Rightarrow> CurrencyCode \<Rightarrow> 'd signed_money res" where
  "NewSignedMoney D v currency =
     res_bind (ParseCurrency currency) (\<lambda>canonicalCurrency.
     if d_greater_than D (d_abs D v) (maxMoney D)
     then Inl (DomainError ErrDecimalOverflow ''amount'' ''amount is outside the supported range'')
     else Inr \<lparr> s_amount = (if - 4 \<le> d_exponent D v then d_round D v 4 else d_round_bank D v 4),
                s_currency = canonicalCurrency \<rparr>)"

section \<open>Facts about limits and shapes\<close>

definition max_money :: rat where "max_money = 9999999999999999 / 10 ^ 4"
definition max_quantity :: rat where "max_quantity = 99999999999999999999999999 / 10 ^ 8"
definition max_unit_price :: rat where "max_unit_price = 99999999999999999999 / 10 ^ 8"
definition max_fx_rate :: rat where "max_fx_rate = 99999999999999999999 / 10 ^ 12"

lemma limit_texts:
  "decimal_syntax 18 8 ''999999999999999999.99999999''"
  "decimal_syntax 12 8 ''999999999999.99999999''"
  "decimal_syntax 8 12 ''99999999.999999999999''"
  "decimal_syntax 12 4 ''999999999999.9999''"
  by code_simp+

lemma limit_values:
  "syntax_value ''999999999999999999.99999999'' = max_quantity"
  "syntax_value ''999999999999.99999999'' = max_unit_price"
  "syntax_value ''99999999.999999999999'' = max_fx_rate"
  "syntax_value ''999999999999.9999'' = max_money"
  by (simp_all add: syntax_value_def is_digit_iff string_nat_def digit_val_def
      max_money_def max_quantity_def max_unit_price_def max_fx_rate_def)

text \<open>No more than \<^term>\<open>k\<close> fractional digits: what a scale check lets through.\<close>

definition scaled :: "'d decimal_ops \<Rightarrow> nat \<Rightarrow> 'd \<Rightarrow> bool" where
  "scaled D k v \<longleftrightarrow> d_val D v = 0 \<or> - int k \<le> d_exponent D v"

text \<open>The invariants of the value types.\<close>

definition valid_quantity :: "'d decimal_ops \<Rightarrow> 'd quantity \<Rightarrow> bool" where
  "valid_quantity D q \<longleftrightarrow> 0 \<le> d_val D (q_value q) \<and> d_val D (q_value q) \<le> max_quantity \<and> scaled D 8 (q_value q)"

definition valid_unit_price :: "'d decimal_ops \<Rightarrow> 'd unit_price \<Rightarrow> bool" where
  "valid_unit_price D p \<longleftrightarrow> 0 \<le> d_val D (u_value p) \<and> d_val D (u_value p) \<le> max_unit_price \<and> scaled D 8 (u_value p)"

definition valid_fx_rate :: "'d decimal_ops \<Rightarrow> 'd fx_rate \<Rightarrow> bool" where
  "valid_fx_rate D r \<longleftrightarrow> 0 < d_val D (r_value r) \<and> d_val D (r_value r) \<le> max_fx_rate \<and> scaled D 12 (r_value r)"

definition valid_money :: "'d decimal_ops \<Rightarrow> 'd money \<Rightarrow> bool" where
  "valid_money D m \<longleftrightarrow> 0 \<le> d_val D (m_amount m) \<and> d_val D (m_amount m) \<le> max_money
     \<and> - 4 \<le> d_exponent D (m_amount m) \<and> valid_currency (m_currency m)"

lemma max_money_bounds: "0 < max_money" "max_money < 10 ^ 12" "on_grid 4 max_money"
  by (simp_all add: max_money_def) (rule on_gridI [of _ 9999999999999999], simp)

context decimal_lib
begin

lemma limit_val:
  "d_val D (maxQuantity D) = max_quantity" "d_val D (maxUnitPrice D) = max_unit_price"
  "d_val D (maxFxRate D) = max_fx_rate" "d_val D (maxMoney D) = max_money"
  using from_string [OF limit_texts(1)] from_string [OF limit_texts(2)]
    from_string [OF limit_texts(3)] from_string [OF limit_texts(4)]
  by (auto simp: maxQuantity_def maxUnitPrice_def maxFxRate_def maxMoney_def
      require_from_string_def limit_values)

lemma scaled_grid: "scaled D k v \<Longrightarrow> on_grid k (d_val D v)"
  by (auto simp: scaled_def intro: val_on_grid)

lemma scale_shape: "fst (decimalShape D v) \<le> int k \<longleftrightarrow> scaled D k v"
  by (auto simp: decimalShape_def scaled_def is_zero_iff Let_def)

lemma coefficient_digits:
  assumes "d_val D v \<noteq> 0" and "\<bar>d_val D v\<bar> < 10 powi k"
  shows "int (length (big_string (d_coefficient D (d_abs D v)))) \<le> k - d_exponent D v"
proof -
  let ?c = "nat \<bar>d_coefficient D v\<bar>" and ?j = "k - d_exponent D v"
  have "d_val D v = of_int (d_coefficient D v) * 10 powi d_exponent D v" by (rule d_val_def)
  then have "\<bar>of_int (d_coefficient D v)\<bar> * 10 powi d_exponent D v < (10 powi k :: rat)"
    using assms(2) by (simp add: abs_mult)
  then have c: "of_nat ?c < (10 powi ?j :: rat)"
    by (simp add: power_int_diff field_simps)
  have nz: "d_coefficient D v \<noteq> 0" using assms(1) by (simp add: coefficient_0_iff)
  have j: "0 < ?j"
  proof (rule ccontr)
    assume "\<not> 0 < ?j"
    then have "(10::rat) powi ?j \<le> 10 powi 0" by (intro power_int_increasing) auto
    with c have "of_nat ?c < (1::rat)" by simp
    with nz show False by simp
  qed
  then have "of_nat ?c < (of_nat (10 ^ nat ?j) :: rat)"
    using c by (simp add: power_nat_powi)
  then have "?c < 10 ^ nat ?j" by (simp only: of_nat_less_iff)
  then have "length (nat_string ?c) \<le> nat ?j" using j by (simp add: nat_string_length_le)
  then show ?thesis using j by (simp add: big_string_def coefficient_abs)
qed

lemma integer_digits:
  assumes "\<bar>d_val D v\<bar> < 10 ^ n" and "0 < n"
  shows "snd (decimalShape D v) \<le> int n"
proof (cases "d_val D v = 0")
  case True
  then show ?thesis using assms(2) by (simp add: decimalShape_def is_zero_iff)
next
  case False
  then show ?thesis
    using coefficient_digits [of v "int n"] assms by (auto simp: decimalShape_def is_zero_iff Let_def)
qed

lemma validateBounded_iff:
  assumes "d_val D maximum < 10 ^ n" and "0 < n"
  shows "validateBoundedDecimal D f v maximum (int n) (int k) positive = Inr () \<longleftrightarrow>
    0 \<le> d_val D v \<and> (positive \<longrightarrow> d_val D v \<noteq> 0) \<and> d_val D v \<le> d_val D maximum \<and> scaled D k v"
proof (cases "0 \<le> d_val D v \<and> d_val D v \<le> d_val D maximum")
  case True
  then have "snd (decimalShape D v) \<le> int n"
    using assms by (intro integer_digits) auto
  moreover have "fst (decimalShape D v) \<le> int k \<longleftrightarrow> scaled D k v" by (rule scale_shape)
  ultimately show ?thesis
    using True by (auto simp: validateBoundedDecimal_def exact split: prod.splits)
next
  case False
  then show ?thesis by (auto simp: validateBoundedDecimal_def exact)
qed

lemma NewQuantity_iff: "NewQuantity D v = Inr q \<longleftrightarrow> q = \<lparr> q_value = v \<rparr> \<and> valid_quantity D q"
  using validateBounded_iff [of "maxQuantity D" 18 "''quantity''" v 8 False]
  by (auto simp: NewQuantity_def valid_quantity_def limit_val max_quantity_def)

lemma NewUnitPrice_iff: "NewUnitPrice D v = Inr p \<longleftrightarrow> p = \<lparr> u_value = v \<rparr> \<and> valid_unit_price D p"
  using validateBounded_iff [of "maxUnitPrice D" 12 "''unitPrice''" v 8 False]
  by (auto simp: NewUnitPrice_def valid_unit_price_def limit_val max_unit_price_def)

lemma NewFxRate_iff: "NewFxRate D v = Inr r \<longleftrightarrow> r = \<lparr> r_value = v \<rparr> \<and> valid_fx_rate D r"
  using validateBounded_iff [of "maxFxRate D" 8 "''fxRate''" v 12 True]
  by (auto simp: NewFxRate_def valid_fx_rate_def limit_val max_fx_rate_def)

lemma checkedIntermediate_iff:
  "checkedIntermediate D v = Inr w \<longleftrightarrow> w = v \<and> 0 \<le> d_val D v \<and> d_val D v \<le> max_money"
  by (auto simp: checkedIntermediate_def exact limit_val not_less)

lemma ParseMoney_Inr:
  assumes "ParseMoney D s c = Inr m"
  shows "valid_money D m" and "ParseCurrency c = Inr (m_currency m)"
    and "decimal_syntax 12 4 s" and "d_val D (m_amount m) = syntax_value s"
proof -
  from assms obtain v where m: "ParseCurrency c = Inr (m_currency m)" "decimal_syntax 12 4 s"
      "d_from_string D s = Inr v" "m_amount m = v" "0 \<le> d_val D v" "d_val D v \<le> max_money"
    by (cases "d_from_string D s") (auto simp: ParseMoney_def moneySyntax_def exact limit_val)
  moreover from from_string [OF m(2)] m(3) have "d_val D v = syntax_value s" "- 4 \<le> d_exponent D v"
    by auto
  ultimately show "valid_money D m" "ParseCurrency c = Inr (m_currency m)"
    "decimal_syntax 12 4 s" "d_val D (m_amount m) = syntax_value s"
    by (auto simp: valid_money_def dest: ParseCurrency_is_valid)
qed

lemma ParseMoney_ok:
  assumes "ParseCurrency c = Inr c'" and "decimal_syntax 12 4 s" and "syntax_value s \<le> max_money"
    and "0 \<le> syntax_value s"
  shows "\<exists>m. ParseMoney D s c = Inr m \<and> d_val D (m_amount m) = syntax_value s \<and> m_currency m = c'"
  using from_string [OF assms(2)] assms
  by (auto simp: ParseMoney_def moneySyntax_def exact limit_val)

lemma NewMoney_Inr:
  assumes "NewMoney D v c = Inr m"
  shows "valid_money D m" and "d_val D (m_amount m) = half_even 4 (d_val D v)"
    and "ParseCurrency c = Inr (m_currency m)" and "0 \<le> d_val D v" and "d_val D v \<le> max_money"
proof -
  let ?r = "d_round_bank D v 4"
  from assms show v: "0 \<le> d_val D v" "d_val D v \<le> max_money"
    by (auto simp: NewMoney_def exact limit_val split: if_splits)
  from assms have p: "ParseMoney D (d_string_fixed D ?r 4) c = Inr m"
    by (auto simp: NewMoney_def split: if_splits)
  have "0 \<le> d_val D ?r" "d_val D ?r < 10 ^ 12"
    using v half_even_le [OF max_money_bounds(3)] max_money_bounds(2)
    by (auto simp: val_round_bank half_even_nonneg intro: le_less_trans)
  then have "syntax_value (d_string_fixed D ?r 4) = d_val D ?r"
    using string_fixed_syntax [of ?r 12 4] by (simp add: exponent_round_bank)
  with ParseMoney_Inr [OF p] show "valid_money D m" "d_val D (m_amount m) = half_even 4 (d_val D v)"
    "ParseCurrency c = Inr (m_currency m)"
    by (simp_all add: val_round_bank)
qed

lemma NewMoney_ok:
  assumes "0 \<le> d_val D v" and "d_val D v \<le> max_money" and "ParseCurrency c = Inr c'"
  shows "\<exists>m. NewMoney D v c = Inr m"
proof -
  let ?r = "d_round_bank D v 4"
  have r: "0 \<le> d_val D ?r" "d_val D ?r \<le> max_money"
    using assms half_even_le [OF max_money_bounds(3)] by (auto simp: val_round_bank half_even_nonneg)
  then have "d_val D ?r < 10 ^ 12" using max_money_bounds(2) by simp
  with r have "decimal_syntax 12 4 (d_string_fixed D ?r 4)" "syntax_value (d_string_fixed D ?r 4) = d_val D ?r"
    using string_fixed_syntax [of ?r 12 4] by (simp_all add: exponent_round_bank)
  with r ParseMoney_ok [OF assms(3)] have "\<exists>m. ParseMoney D (d_string_fixed D ?r 4) c = Inr m" by metis
  then show ?thesis using assms by (simp add: NewMoney_def exact limit_val)
qed

text \<open>On amounts with at most four fractional digits the Money boundary is exact.\<close>

lemma NewMoney_exact:
  assumes "NewMoney D v c = Inr m" and "on_grid 4 (d_val D v)"
  shows "d_val D (m_amount m) = d_val D v"
  using NewMoney_Inr(2) [OF assms(1)] assms(2) by (simp add: half_even_on_grid)

lemma valid_money_grid: "valid_money D m \<Longrightarrow> on_grid 4 (d_val D (m_amount m))"
  by (auto simp: valid_money_def intro!: val_on_grid)

lemma NewSignedMoney_iff:
  "NewSignedMoney D v c = Inr m \<Longrightarrow>
     d_val D (s_amount m) = half_even 4 (d_val D v) \<and> \<bar>d_val D v\<bar> \<le> max_money
     \<and> d_exponent D (s_amount m) = - 4 \<and> ParseCurrency c = Inr (s_currency m)"
  using val_round_exact [of 4 v] exponent_round [of v 4] val_on_grid [of 4 v]
  by (auto simp: NewSignedMoney_def exact limit_val rounded half_even_on_grid)

lemma canonical_Parse:
  assumes "0 \<le> d_val D v" and "d_val D v < 10 ^ n" and "0 < n" and "scaled D k v"
  shows "decimal_syntax n k (canonicalDecimal D v)"
    and "\<exists>b. d_from_string D (canonicalDecimal D v) = Inr b \<and> d_val D b = d_val D v \<and> scaled D k b"
proof -
  have z: "decimal_syntax n k ''0''" "syntax_value ''0'' = 0"
    using assms(3) by (simp_all add: decimal_syntax_def syntax_value_def is_digit_iff string_nat_def digit_val_def)
  show s: "decimal_syntax n k (canonicalDecimal D v)"
    using assms z(1) string_syntax [of v n k] by (auto simp: canonicalDecimal_def exact scaled_def)
  show "\<exists>b. d_from_string D (canonicalDecimal D v) = Inr b \<and> d_val D b = d_val D v \<and> scaled D k b"
    using from_string [OF s] assms z(2) string_syntax [of v n k]
    by (auto simp: canonicalDecimal_def exact scaled_def)
qed

lemma ParseQuantity_Canonical:
  assumes "valid_quantity D q"
  shows "\<exists>q'. ParseQuantity D (Quantity_Canonical D q) = Inr q' \<and> d_val D (q_value q') = d_val D (q_value q)"
proof -
  have "decimal_syntax 18 8 (Quantity_Canonical D q)"
    and "\<exists>b. d_from_string D (Quantity_Canonical D q) = Inr b \<and> d_val D b = d_val D (q_value q) \<and> scaled D 8 b"
    using assms canonical_Parse [of "q_value q" 18 8]
    by (auto simp: valid_quantity_def Quantity_Canonical_def max_quantity_def)
  then show ?thesis
    using assms by (auto simp: ParseQuantity_def quantitySyntax_def parse_decimal_def NewQuantity_iff valid_quantity_def)
qed

lemma ParseUnitPrice_Canonical:
  assumes "valid_unit_price D p"
  shows "\<exists>p'. ParseUnitPrice D (UnitPrice_Canonical D p) = Inr p' \<and> d_val D (u_value p') = d_val D (u_value p)"
proof -
  have "decimal_syntax 12 8 (UnitPrice_Canonical D p)"
    and "\<exists>b. d_from_string D (UnitPrice_Canonical D p) = Inr b \<and> d_val D b = d_val D (u_value p) \<and> scaled D 8 b"
    using assms canonical_Parse [of "u_value p" 12 8]
    by (auto simp: valid_unit_price_def UnitPrice_Canonical_def max_unit_price_def)
  then show ?thesis
    using assms by (auto simp: ParseUnitPrice_def unitPriceSyntax_def parse_decimal_def NewUnitPrice_iff valid_unit_price_def)
qed

lemma ParseMoney_Canonical:
  assumes "valid_money D m"
  shows "\<exists>m'. ParseMoney D (Money_CanonicalAmount D m) (m_currency m) = Inr m'
    \<and> d_val D (m_amount m') = d_val D (m_amount m) \<and> m_currency m' = m_currency m"
proof -
  have v: "0 \<le> d_val D (m_amount m)" "d_val D (m_amount m) < 10 ^ 12" "d_val D (m_amount m) \<le> max_money"
    "- int 4 \<le> d_exponent D (m_amount m)" "valid_currency (m_currency m)"
    using assms max_money_bounds(2) by (auto simp: valid_money_def)
  with string_syntax [of "m_amount m" 12 4] show ?thesis
    using ParseMoney_ok [OF ParseCurrency_valid [OF v(5)]] by (fastforce simp: Money_CanonicalAmount_def)
qed

end

section \<open>Properties of the value types\<close>

text \<open>C36. The Money boundary: \<^verbatim>\<open>NewMoney\<close> succeeds exactly on amounts between zero and the
  maximum with a currency code that parses; what it stores is the amount rounded half to even
  at four places, and it is a valid Money value again.\<close>

theorem NewMoney_correct:
  assumes "decimal_lib D"
  shows "((\<exists>m. NewMoney D v c = Inr m) \<longleftrightarrow>
      0 \<le> d_val D v \<and> d_val D v \<le> max_money \<and> is_ok (ParseCurrency c))
    \<and> (\<forall>m. NewMoney D v c = Inr m \<longrightarrow>
      d_val D (m_amount m) = half_even 4 (d_val D v) \<and> ParseCurrency c = Inr (m_currency m) \<and> valid_money D m)"
  using decimal_lib.NewMoney_Inr [OF assms] decimal_lib.NewMoney_ok [OF assms]
  by (auto simp: is_ok_iff)

theorem NewMoney_correct_witness:
  "NewMoney ref_decimal (Dec 1234565 (- 5)) ''usd'' = Inr \<lparr> m_amount = Dec 123456 (- 4), m_currency = ''USD'' \<rparr>
   \<and> d_val ref_decimal (Dec 123456 (- 4)) = half_even 4 (d_val ref_decimal (Dec 1234565 (- 5)))"
proof
  show n: "NewMoney ref_decimal (Dec 1234565 (- 5)) ''usd'' = Inr \<lparr> m_amount = Dec 123456 (- 4), m_currency = ''USD'' \<rparr>"
    by code_simp
  show "d_val ref_decimal (Dec 123456 (- 4)) = half_even 4 (d_val ref_decimal (Dec 1234565 (- 5)))"
    using NewMoney_correct [OF ref.decimal_lib_axioms, of "Dec 1234565 (- 5)" "''usd''"] n by simp
qed

text \<open>Quantities, unit prices and exchange rates are accepted exactly within their
  documented bounds: sign, magnitude and number of fractional digits (eight, eight, twelve),
  and the accepted decimal is stored unchanged.\<close>

theorem bounded_decimals_accepted:
  assumes "decimal_lib D"
  shows "(NewQuantity D v = Inr \<lparr> q_value = v \<rparr> \<longleftrightarrow> 0 \<le> d_val D v \<and> d_val D v \<le> max_quantity \<and> scaled D 8 v)
    \<and> (NewUnitPrice D v = Inr \<lparr> u_value = v \<rparr> \<longleftrightarrow> 0 \<le> d_val D v \<and> d_val D v \<le> max_unit_price \<and> scaled D 8 v)
    \<and> (NewFxRate D v = Inr \<lparr> r_value = v \<rparr> \<longleftrightarrow> 0 < d_val D v \<and> d_val D v \<le> max_fx_rate \<and> scaled D 12 v)"
  by (simp add: decimal_lib.NewQuantity_iff [OF assms] decimal_lib.NewUnitPrice_iff [OF assms]
      decimal_lib.NewFxRate_iff [OF assms] valid_quantity_def valid_unit_price_def valid_fx_rate_def)

theorem bounded_decimals_accepted_witness:
  "NewQuantity ref_decimal (Dec 12345678 (- 8)) = Inr \<lparr> q_value = Dec 12345678 (- 8) \<rparr>
   \<and> scaled ref_decimal 8 (Dec 12345678 (- 8))
   \<and> \<not> (0 < d_val ref_decimal (Dec 0 0))"
proof (intro conjI)
  show n: "NewQuantity ref_decimal (Dec 12345678 (- 8)) = Inr \<lparr> q_value = Dec 12345678 (- 8) \<rparr>"
    by code_simp
  show "scaled ref_decimal 8 (Dec 12345678 (- 8))"
    using bounded_decimals_accepted [OF ref.decimal_lib_axioms, of "Dec 12345678 (- 8)"] n by simp
  have "NewFxRate ref_decimal (Dec 0 0) \<noteq> Inr \<lparr> r_value = Dec 0 0 \<rparr>" by code_simp
  then show "\<not> (0 < d_val ref_decimal (Dec 0 0))"
    using bounded_decimals_accepted [OF ref.decimal_lib_axioms, of "Dec 0 0"]
    by (simp add: scaled_def dv_Dec)
qed

text \<open>C37. Printing a valid quantity, unit price or amount in its canonical form and parsing the
  text again gives the same value (and the same currency).\<close>

theorem canonical_round_trip:
  assumes "decimal_lib D"
  shows "(valid_quantity D q \<longrightarrow> (\<exists>q'. ParseQuantity D (Quantity_Canonical D q) = Inr q'
        \<and> d_val D (q_value q') = d_val D (q_value q)))
    \<and> (valid_unit_price D p \<longrightarrow> (\<exists>p'. ParseUnitPrice D (UnitPrice_Canonical D p) = Inr p'
        \<and> d_val D (u_value p') = d_val D (u_value p)))
    \<and> (valid_money D m \<longrightarrow> (\<exists>m'. ParseMoney D (Money_CanonicalAmount D m) (m_currency m) = Inr m'
        \<and> d_val D (m_amount m') = d_val D (m_amount m) \<and> m_currency m' = m_currency m))"
  using decimal_lib.ParseQuantity_Canonical [OF assms] decimal_lib.ParseUnitPrice_Canonical [OF assms]
    decimal_lib.ParseMoney_Canonical [OF assms] by blast

theorem canonical_round_trip_witness:
  "\<exists>m'. ParseMoney ref_decimal (Money_CanonicalAmount ref_decimal \<lparr> m_amount = Dec 12340 (- 4), m_currency = ''EUR'' \<rparr>) ''EUR'' = Inr m'
     \<and> dv (m_amount m') = dv (Dec 12340 (- 4)) \<and> m_currency m' = ''EUR''"
proof -
  have "valid_money ref_decimal \<lparr> m_amount = Dec 12340 (- 4), m_currency = ''EUR'' \<rparr>"
    by (simp add: valid_money_def valid_currency_def upper_letter_iff dv_def max_money_def power_int_minus)
  then show ?thesis
    using canonical_round_trip [OF ref.decimal_lib_axioms, of "\<lparr> q_value = Dec 5 0 \<rparr>" "\<lparr> u_value = Dec 5 0 \<rparr>"
      "\<lparr> m_amount = Dec 12340 (- 4), m_currency = ''EUR'' \<rparr>"]
    by simp
qed

end
