(* ===== verification/Ownership.thy ===== *)
theory Ownership
  imports Money
begin

text \<open>
  Ownership of accounts (\<^verbatim>\<open>internal/domain/model.go\<close>): shares in basis points per member.  The
  lemmas characterise the allocations \<^verbatim>\<open>ParseOwnership\<close> accepts and show that splitting
  equally always yields one of them.
\<close>

section \<open>Tracking modes and scopes\<close>

datatype TrackingMode = TrackingBalance | TrackingManualValue | TrackingHoldings | TrackingMode_unknown string

definition TrackingMode_of :: "string \<Rightarrow> TrackingMode" where
  "TrackingMode_of s =
     (if s = ''balance'' then TrackingBalance else if s = ''manual_value'' then TrackingManualValue
      else if s = ''holdings'' then TrackingHoldings else TrackingMode_unknown s)"

definition ParseTrackingMode :: "string \<Rightarrow> TrackingMode res" where
  "ParseTrackingMode value =
     (case TrackingMode_of (trim_space value) of
        TrackingMode_unknown _ \<Rightarrow> Inl (validation ''trackingMode'' ''is not supported'')
      | mode \<Rightarrow> Inr mode)"

definition AllTrackingModes :: "TrackingMode list" where
  "AllTrackingModes = [TrackingBalance, TrackingManualValue, TrackingHoldings]"

datatype OwnershipScope = OwnershipAny | OwnershipSole | OwnershipShared | OwnershipScope_unknown string

definition OwnershipScope_of :: "string \<Rightarrow> OwnershipScope" where
  "OwnershipScope_of s =
     (if s = ''any'' then OwnershipAny else if s = ''sole'' then OwnershipSole
      else if s = ''shared'' then OwnershipShared else OwnershipScope_unknown s)"

definition ParseOwnershipScope :: "string \<Rightarrow> OwnershipScope res" where
  "ParseOwnershipScope value =
     (let scope = trim_space value in
      if scope = [] then Inr OwnershipAny
      else case OwnershipScope_of scope of
          OwnershipScope_unknown _ \<Rightarrow> Inl (validation ''ownershipScope'' ''is not supported'')
        | s \<Rightarrow> Inr s)"

section \<open>Shares\<close>

record OwnershipShare =
  os_member :: MemberID
  os_bps :: int

abbreviation "TotalOwnershipBPS \<equiv> (10000::int)"

record Ownership =
  o_shares :: "OwnershipShare list"

text \<open>
  The loop of \<^verbatim>\<open>ParseOwnership\<close> with its set of members seen, running total and canonical shares.
  A share beyond 10000 ends the loop, so the total stays far below the width of a Go \<^verbatim>\<open>int\<close>.
\<close>

fun ownership_loop ::
    "OwnershipShare list \<Rightarrow> MemberID set \<Rightarrow> int \<Rightarrow> OwnershipShare list \<Rightarrow> (int \<times> OwnershipShare list) res" where
  "ownership_loop [] seen tot canonical = Inr (tot, canonical)"
| "ownership_loop (share # shares) seen tot canonical =
     res_bind (map_err (\<lambda>_. validation ''ownership'' ''owner ID is invalid'') (ParseMemberID (os_member share)))
       (\<lambda>memberID.
          if os_bps share < 1 \<or> TotalOwnershipBPS < os_bps share
          then Inl (validation ''ownership'' ''each share must be between 1 and 10000 basis points'')
          else if memberID \<in> seen then Inl (validation ''ownership'' ''an owner may appear only once'')
          else ownership_loop shares (insert memberID seen) (tot + os_bps share)
                 (canonical @ [\<lparr> os_member = memberID, os_bps = os_bps share \<rparr>]))"

definition ParseOwnership :: "OwnershipShare list \<Rightarrow> Ownership res" where
  "ParseOwnership shares =
     (if shares = [] then Inl (validation ''ownership'' ''at least one owner is required'')
      else
        res_bind (ownership_loop shares {} 0 []) (\<lambda>(tot, canonical).
        if tot \<noteq> TotalOwnershipBPS
        then Inl (validation ''ownership'' ''shares must total exactly 10000 basis points'')
        else Inr \<lparr> o_shares = canonical \<rparr>))"

definition EqualOwnership :: "MemberID list \<Rightarrow> Ownership res" where
  "EqualOwnership memberIDs =
     (if memberIDs = [] then Inl (validation ''members'' ''at least one member is required'')
      else
        let base = TotalOwnershipBPS div int (length memberIDs);
            remainder = TotalOwnershipBPS mod int (length memberIDs)
        in ParseOwnership (map (\<lambda>(index, memberID).
             \<lparr> os_member = memberID, os_bps = (if int index < remainder then base + 1 else base) \<rparr>)
             (enumerate 0 memberIDs)))"

section \<open>Percentages\<close>

definition percentPattern :: "string \<Rightarrow> bool" where
  "percentPattern s \<longleftrightarrow> decimal_syntax 3 2 s
     \<or> (s \<noteq> [] \<and> last s = CHR ''%'' \<and> decimal_syntax 3 2 (butlast s))"

definition strip_percent :: "string \<Rightarrow> string" where
  "strip_percent value =
     (let v = trim_space value in if v \<noteq> [] \<and> last v = CHR ''%'' then butlast v else v)"

definition PercentToBasisPoints :: "'d decimal_ops \<Rightarrow> string \<Rightarrow> int res" where
  "PercentToBasisPoints D value =
     (let v = strip_percent value in
      if \<not> percentPattern v
      then Inl (validation ''ownership'' ''percentage must be between 0 and 100 with at most two decimals'')
      else case d_from_string D v of
          Inl e \<Rightarrow> Inl (validation ''ownership'' ''percentage must be between 0 and 100'')
        | Inr parsed \<Rightarrow>
            if d_is_negative D parsed \<or> d_greater_than D parsed (d_from_int D 100)
            then Inl (validation ''ownership'' ''percentage must be between 0 and 100'')
            else
              let scaled_up = d_mul D parsed (d_from_int D 100); bps = d_int_part D scaled_up in
              if d_cmp D (d_truncate D scaled_up 0) scaled_up \<noteq> 0
              then Inl (validation ''ownership'' ''percentage supports at most two decimals'')
              else Inr bps)"

section \<open>Which allocations are accepted\<close>

definition valid_ownership :: "Ownership \<Rightarrow> bool" where
  "valid_ownership w \<longleftrightarrow>
     o_shares w \<noteq> [] \<and> distinct (map os_member (o_shares w))
     \<and> (\<forall>s \<in> set (o_shares w). 1 \<le> os_bps s \<and> os_bps s \<le> TotalOwnershipBPS \<and> ParseMemberID (os_member s) = Inr (os_member s))
     \<and> sum_list (map os_bps (o_shares w)) = TotalOwnershipBPS"

text \<open>The canonical form of a list of shares: every identity parsed, none repeated or seen before.\<close>

definition canonical_shares :: "OwnershipShare list \<Rightarrow> MemberID set \<Rightarrow> OwnershipShare list \<Rightarrow> bool" where
  "canonical_shares shares seen ys \<longleftrightarrow>
     list_all2 (\<lambda>x y. ParseMemberID (os_member x) = Inr (os_member y) \<and> os_bps y = os_bps x) shares ys
     \<and> distinct (map os_member ys) \<and> set (map os_member ys) \<inter> seen = {}
     \<and> (\<forall>s \<in> set shares. 1 \<le> os_bps s \<and> os_bps s \<le> TotalOwnershipBPS)"

lemma canonical_shares_Cons:
  assumes "ParseMemberID (os_member x) = Inr m"
  shows "canonical_shares (x # shares) seen ys \<longleftrightarrow>
    (\<exists>zs. ys = \<lparr> os_member = m, os_bps = os_bps x \<rparr> # zs \<and> 1 \<le> os_bps x \<and> os_bps x \<le> TotalOwnershipBPS
      \<and> m \<notin> seen \<and> canonical_shares shares (insert m seen) zs)"
proof (cases ys)
  case Nil
  then show ?thesis by (simp add: canonical_shares_def)
next
  case (Cons y zs)
  with assms show ?thesis by (cases y) (auto simp: canonical_shares_def)
qed

lemma ownership_loop_iff:
  "ownership_loop shares seen tot canonical = Inr (t, out) \<longleftrightarrow>
   (\<exists>ys. canonical_shares shares seen ys \<and> t = tot + sum_list (map os_bps shares) \<and> out = canonical @ ys)"
proof (induction shares arbitrary: seen tot canonical)
  case Nil
  then show ?case by (auto simp: canonical_shares_def)
next
  case (Cons x shares)
  show ?case
  proof (cases "ParseMemberID (os_member x)")
    case (Inl e)
    then show ?thesis by (auto simp: canonical_shares_def list_all2_Cons1)
  next
    case (Inr m)
    then show ?thesis by (auto simp: Cons.IH canonical_shares_Cons not_less)
  qed
qed

lemma ParseOwnership_iff:
  "ParseOwnership shares = Inr w \<longleftrightarrow>
     shares \<noteq> [] \<and> canonical_shares shares {} (o_shares w) \<and> sum_list (map os_bps shares) = TotalOwnershipBPS"
  by (cases w) (auto simp: ParseOwnership_def ownership_loop_iff)

lemma canonical_shares_bps: "canonical_shares shares seen ys \<Longrightarrow> map os_bps ys = map os_bps shares"
  by (auto simp: canonical_shares_def list_all2_conv_all_nth intro: nth_equalityI)

lemma ParseMemberID_idem: "ParseMemberID v = Inr m \<Longrightarrow> ParseMemberID m = Inr m"
  using parseID_Inr by (auto simp: ParseMemberID_def)

lemma ParseOwnership_valid:
  assumes "ParseOwnership shares = Inr w"
  shows "valid_ownership w"
proof -
  have c: "shares \<noteq> []" "canonical_shares shares {} (o_shares w)" "sum_list (map os_bps shares) = TotalOwnershipBPS"
    using assms by (auto simp: ParseOwnership_iff)
  have "map os_bps (o_shares w) = map os_bps shares" using c(2) by (rule canonical_shares_bps)
  moreover have "\<forall>s \<in> set (o_shares w). 1 \<le> os_bps s \<and> os_bps s \<le> TotalOwnershipBPS
      \<and> ParseMemberID (os_member s) = Inr (os_member s)"
    using c(2) by (fastforce simp: canonical_shares_def list_all2_conv_all_nth in_set_conv_nth ParseMemberID_idem)
  ultimately show ?thesis
    using c by (auto simp: valid_ownership_def canonical_shares_def)
qed

section \<open>Equal splits\<close>

definition equal_bps :: "nat \<Rightarrow> nat \<Rightarrow> int" where
  "equal_bps n i =
     (if int i < TotalOwnershipBPS mod int n then TotalOwnershipBPS div int n + 1 else TotalOwnershipBPS div int n)"

lemma sum_list_first_larger:
  fixes b r :: int
  assumes "0 \<le> r"
  shows "sum_list (map (\<lambda>i. if int i < r then b + 1 else b) [0..<n]) = int n * b + min (int n) r"
  using assms by (induction n) (auto simp: algebra_simps)

lemma sum_equal_bps: "0 < n \<Longrightarrow> sum_list (map (equal_bps n) [0..<n]) = TotalOwnershipBPS"
  using sum_list_first_larger [of "TotalOwnershipBPS mod int n" "TotalOwnershipBPS div int n" n]
  by (simp add: equal_bps_def [abs_def] min_absorb2 order_less_imp_le)

lemma equal_bps_range:
  assumes "0 < n" and "n \<le> 10000"
  shows "1 \<le> equal_bps n i \<and> equal_bps n i \<le> TotalOwnershipBPS"
proof -
  have "1 \<le> TotalOwnershipBPS div int n" using assms zdiv_mono2 [of 10000 "int n" 10000] by simp
  moreover have "equal_bps n i \<le> TotalOwnershipBPS" if "1 < n"
  proof -
    have "TotalOwnershipBPS div int n \<le> TotalOwnershipBPS div 2" using that by (intro zdiv_mono2) auto
    then show ?thesis by (simp add: equal_bps_def)
  qed
  moreover have "equal_bps 1 i \<le> TotalOwnershipBPS" by (simp add: equal_bps_def)
  ultimately show ?thesis using assms by (cases "n = 1") (auto simp: equal_bps_def)
qed

text \<open>The shares that \<^verbatim>\<open>EqualOwnership\<close> passes on, in terms of positions.\<close>

definition equal_shares :: "MemberID list \<Rightarrow> OwnershipShare list" where
  "equal_shares ids = map (\<lambda>i. \<lparr> os_member = ids ! i, os_bps = equal_bps (length ids) i \<rparr>) [0..<length ids]"

lemma EqualOwnership_eq: "ids \<noteq> [] \<Longrightarrow> EqualOwnership ids = ParseOwnership (equal_shares ids)"
  by (auto simp: EqualOwnership_def equal_shares_def equal_bps_def nth_enumerate_eq Let_def
      intro!: arg_cong [of _ _ ParseOwnership] nth_equalityI)

lemma map_equal_shares:
  "map os_bps (equal_shares ids) = map (equal_bps (length ids)) [0..<length ids]"
  "map os_member (equal_shares ids) = ids" "length (equal_shares ids) = length ids"
  by (simp_all add: equal_shares_def comp_def map_nth)

lemma EqualOwnership_ok:
  assumes "ids \<noteq> []" and "length ids \<le> 10000"
    and "list_all2 (\<lambda>i j. ParseMemberID i = Inr j) ids js" and "distinct js"
  shows "EqualOwnership ids = Inr \<lparr> o_shares = equal_shares js \<rparr>"
proof -
  have l: "length js = length ids" using assms(3) by (simp add: list_all2_lengthD)
  have "list_all2 (\<lambda>x y. ParseMemberID (os_member x) = Inr (os_member y) \<and> os_bps y = os_bps x)
      (equal_shares ids) (equal_shares js)"
    using assms(3) by (simp add: list_all2_conv_all_nth equal_shares_def l)
  moreover have "\<forall>s \<in> set (equal_shares ids). 1 \<le> os_bps s \<and> os_bps s \<le> TotalOwnershipBPS"
    using assms(1,2) equal_bps_range [of "length ids"] by (auto simp: equal_shares_def)
  ultimately have "canonical_shares (equal_shares ids) {} (equal_shares js)"
    using assms(4) by (simp add: canonical_shares_def map_equal_shares)
  then show ?thesis
    using assms(1) by (simp add: EqualOwnership_eq ParseOwnership_iff map_equal_shares sum_equal_bps)
      (metis length_0_conv map_equal_shares(3))
qed

section \<open>Properties of ownership\<close>

text \<open>C39. \<^verbatim>\<open>ParseOwnership\<close> accepts a list of shares exactly when it is not empty, every owner's
  identity parses, no owner appears twice, every share lies between 1 and 10000 basis points
  and the shares total 10000; it keeps the shares in order with canonical identities, and
  parsing its result again changes nothing.\<close>

theorem ParseOwnership_correct:
  "(ParseOwnership shares = Inr w \<longleftrightarrow>
     shares \<noteq> [] \<and> canonical_shares shares {} (o_shares w) \<and> sum_list (map os_bps shares) = 10000)
   \<and> (ParseOwnership shares = Inr w \<longrightarrow> valid_ownership w \<and> ParseOwnership (o_shares w) = Inr w)"
proof -
  have "ParseOwnership (o_shares w) = Inr w" if "valid_ownership w"
    using that by (auto simp: valid_ownership_def ParseOwnership_iff canonical_shares_def list_all2_same)
  then show ?thesis using ParseOwnership_iff [of shares w] ParseOwnership_valid [of shares w] by auto
qed

definition sample_member :: "char \<Rightarrow> MemberID" where
  "sample_member c = c # ''0000000-0000-4000-8000-000000000000''"

theorem ParseOwnership_correct_witness:
  "valid_ownership \<lparr> o_shares = [\<lparr> os_member = sample_member (CHR ''a''), os_bps = 2500 \<rparr>,
     \<lparr> os_member = sample_member (CHR ''b''), os_bps = 7500 \<rparr>] \<rparr>"
proof -
  have "ParseOwnership [\<lparr> os_member = sample_member (CHR ''A''), os_bps = 2500 \<rparr>,
      \<lparr> os_member = sample_member (CHR ''b''), os_bps = 7500 \<rparr>]
    = Inr \<lparr> o_shares = [\<lparr> os_member = sample_member (CHR ''a''), os_bps = 2500 \<rparr>,
      \<lparr> os_member = sample_member (CHR ''b''), os_bps = 7500 \<rparr>] \<rparr>" by code_simp
  then show ?thesis using ParseOwnership_correct by blast
qed

text \<open>An equal split among between 1 and 10000 distinct members succeeds, keeps their order,
  totals 10000 basis points and gives shares that differ by at most one basis point, the larger
  ones first; with more members than basis points it is refused.\<close>

theorem EqualOwnership_correct:
  assumes "list_all2 (\<lambda>i j. ParseMemberID i = Inr j) ids js" and "distinct js" and "ids \<noteq> []"
  shows "(length ids \<le> 10000 \<longrightarrow> (\<exists>w. EqualOwnership ids = Inr w \<and> valid_ownership w \<and> map os_member (o_shares w) = js
      \<and> (\<forall>i < length ids. os_bps (o_shares w ! i) = 10000 div int (length ids) + (if int i < 10000 mod int (length ids) then 1 else 0))))
    \<and> (10000 < length ids \<longrightarrow> \<not> is_ok (EqualOwnership ids))"
proof (intro conjI impI)
  have l: "length js = length ids" using assms(1) by (simp add: list_all2_lengthD)
  assume "length ids \<le> 10000"
  note ok = EqualOwnership_ok [OF assms(3) this assms(1,2)]
  from ParseOwnership_valid [OF ok [unfolded EqualOwnership_eq [OF assms(3)]]] ok
  show "\<exists>w. EqualOwnership ids = Inr w \<and> valid_ownership w \<and> map os_member (o_shares w) = js
      \<and> (\<forall>i < length ids. os_bps (o_shares w ! i) = 10000 div int (length ids) + (if int i < 10000 mod int (length ids) then 1 else 0))"
    by (simp add: map_equal_shares) (simp add: equal_shares_def equal_bps_def l)
next
  assume n: "10000 < length ids"
  then have "equal_bps (length ids) 10000 = 0" by (simp add: equal_bps_def)
  moreover have "equal_shares ids ! 10000 \<in> set (equal_shares ids)" using n by (simp add: map_equal_shares)
  moreover have "os_bps (equal_shares ids ! 10000) = equal_bps (length ids) 10000" using n by (simp add: equal_shares_def)
  ultimately have "\<not> (\<forall>s \<in> set (equal_shares ids). 1 \<le> os_bps s)" by force
  then show "\<not> is_ok (EqualOwnership ids)"
    using assms(3) by (auto simp: is_ok_iff EqualOwnership_eq ParseOwnership_iff canonical_shares_def)
qed

theorem EqualOwnership_correct_witness:
  "\<exists>w. EqualOwnership (map sample_member ''abc'') = Inr w \<and> valid_ownership w \<and> os_bps (o_shares w ! 0) = 3334"
proof -
  have "list_all2 (\<lambda>i j. ParseMemberID i = Inr j) (map sample_member ''abc'') (map sample_member ''abc'')"
    "distinct (map sample_member ''abc'')" by code_simp+
  from EqualOwnership_correct [OF this] show ?thesis by auto
qed

text \<open>A percentage text of at most two fractional digits (with or without a percent sign)
  is converted to basis points exactly, and refused exactly when it exceeds one hundred.\<close>

theorem PercentToBasisPoints_exact:
  assumes "decimal_lib D" and "decimal_syntax 3 2 (strip_percent value)"
  shows "PercentToBasisPoints D value =
    (if syntax_value (strip_percent value) \<le> 100 then Inr \<lfloor>100 * syntax_value (strip_percent value)\<rfloor>
     else Inl (validation ''ownership'' ''percentage must be between 0 and 100''))
    \<and> of_int \<lfloor>100 * syntax_value (strip_percent value)\<rfloor> = 100 * syntax_value (strip_percent value)"
proof -
  let ?v = "strip_percent value" and ?x = "syntax_value (strip_percent value)"
  obtain a where a: "d_from_string D ?v = Inr a" "d_val D a = ?x" "- int 2 \<le> d_exponent D a"
    using decimal_lib.from_string [OF assms] by blast
  note L = decimal_lib.axioms(1) [OF assms(1)]
  note S = decimal_round.axioms(1) [OF L]
  note A = decimal_scale.axioms(1) [OF S]
  have "on_grid 2 ?x" using decimal_scale.val_on_grid [OF S a(3)] a(2) by simp
  then obtain k :: int where k: "?x = of_int k / 10 ^ 2" by (rule on_gridE)
  have "0 \<le> ?x" by (simp add: syntax_value_def Let_def)
  moreover have m: "d_val D (d_mul D a (d_from_int D 100)) = of_int k"
    by (simp add: decimal_arith.exact [OF A] decimal_arith.val_from_int [OF A] a(2) k)
  moreover have "0 \<le> k" using \<open>0 \<le> ?x\<close> k by (simp add: zero_le_divide_iff)
  moreover have x: "100 * ?x = of_int k" using k by simp
  moreover have "d_int_part D (d_mul D a (d_from_int D 100)) = k"
    by (rule decimal_round.int_part [OF L m])
  moreover have "d_val D (d_truncate D (d_mul D a (d_from_int D 100)) 0) = of_int k"
    using decimal_round.val_truncate [OF L, of "d_mul D a (d_from_int D 100)" 0] m \<open>0 \<le> k\<close> by simp
  ultimately show ?thesis
    using assms(2) a(1,2) m
    by (simp add: PercentToBasisPoints_def percentPattern_def Let_def decimal_arith.cmp [OF A]
        decimal_arith.equal_iff [OF A] decimal_arith.greater_than_iff [OF A] decimal_arith.is_negative_iff [OF A]
        decimal_arith.val_from_int [OF A])
qed

theorem PercentToBasisPoints_exact_witness: "PercentToBasisPoints ref_decimal '' 33.25% '' = Inr 3325"
proof -
  have "decimal_syntax 3 2 (strip_percent '' 33.25% '')"
    "syntax_value (strip_percent '' 33.25% '') = 3325 / 100" by code_simp+
  with PercentToBasisPoints_exact [OF ref.decimal_lib_axioms this(1)] show ?thesis by simp
qed

end
