(* ===== verification/Fx.thy ===== *)
theory Fx
  imports Money
begin

text \<open>
  Currency conversion: oriented exchange-rate quotes (\<^verbatim>\<open>internal/domain/portfolio.go\<close>) and the
  conversion arithmetic of \<^verbatim>\<open>internal/domain/decimal.go\<close>, once with bounded decimals and once
  with exact rationals (Go's \<^verbatim>\<open>big.Rat\<close> is \<^typ>\<open>rat\<close>, a nil pointer \<^term>\<open>None\<close>).  The main
  lemmas show that dividing with the precision the code computes cannot change the amount
  that the later rounding to four places produces, so both conversions agree.
\<close>

section \<open>Quotes\<close>

datatype QuoteSourceKind = QuoteSourceManual | QuoteSourceProvider | QuoteSourceAgent | QuoteSourceOther string

definition QuoteSourceKind_of :: "string \<Rightarrow> QuoteSourceKind" where
  "QuoteSourceKind_of s =
     (if s = ''manual'' then QuoteSourceManual else if s = ''provider'' then QuoteSourceProvider
      else if s = ''agent'' then QuoteSourceAgent else QuoteSourceOther s)"

fun QuoteSourceKind_string :: "QuoteSourceKind \<Rightarrow> string" where
  "QuoteSourceKind_string QuoteSourceManual = ''manual''"
| "QuoteSourceKind_string QuoteSourceProvider = ''provider''"
| "QuoteSourceKind_string QuoteSourceAgent = ''agent''"
| "QuoteSourceKind_string (QuoteSourceOther s) = s"

definition ParseQuoteSourceKind :: "string \<Rightarrow> QuoteSourceKind res" where
  "ParseQuoteSourceKind value =
     (case QuoteSourceKind_of (trim_space value) of
        QuoteSourceOther _ \<Rightarrow> Inl (validation ''sourceKind'' ''is not supported'')
      | source \<Rightarrow> Inr source)"

definition normalizeQuoteSource :: "QuoteSourceKind \<Rightarrow> string \<Rightarrow> (QuoteSourceKind \<times> string) res" where
  "normalizeQuoteSource source sourceKey =
     (let source = (if source = QuoteSourceOther [] then QuoteSourceManual else source) in
      res_bind (ParseQuoteSourceKind (QuoteSourceKind_string source)) (\<lambda>parsed.
      let sourceKey = trim_space sourceKey in
      if parsed \<noteq> QuoteSourceManual \<and> sourceKey = []
      then Inl (validation ''sourceKey'' ''is required for non-manual observations'')
      else
        let sourceKey = (if parsed = QuoteSourceManual \<and> sourceKey = [] then ''manual'' else sourceKey) in
        if 64 < rune_count sourceKey then Inl (validation ''sourceKey'' ''must be 64 characters or fewer'')
        else Inr (parsed, sourceKey)))"

record 'd FXQuote =
  fx_id :: FXQuoteID
  fx_household_id :: HouseholdID
  fx_base_currency :: CurrencyCode
  fx_quote_currency :: CurrencyCode
  fx_rate_of :: "'d fx_rate"
  fx_source_kind :: QuoteSourceKind
  fx_source_key :: string
  fx_quoted_at :: go_time
  fx_created_at :: go_time
  fx_delayed :: bool
  fx_observation_kind :: string
  fx_effective_date :: string
  fx_fetched_at :: go_time
  fx_value_effective_at :: go_time
  fx_source_policy_version :: string
  fx_timestamp_basis :: string
  fx_revision :: int
  fx_supersedes_quote_id :: "string option"

record 'd FXQuoteInput =
  fxi_household_id :: HouseholdID
  fxi_base_currency :: CurrencyCode
  fxi_quote_currency :: CurrencyCode
  fxi_rate :: "'d fx_rate"
  fxi_source_kind :: QuoteSourceKind
  fxi_source_key :: string
  fxi_quoted_at :: go_time
  fxi_delayed :: bool

text \<open>The argument \<^term>\<open>newID\<close> is the identity the UUID generator returns for this call.\<close>

definition NewFXQuote :: "FXQuoteID \<Rightarrow> 'd FXQuoteInput \<Rightarrow> go_time \<Rightarrow> 'd FXQuote res" where
  "NewFXQuote newID input createdAt =
     res_bind (map_err (\<lambda>_. validation ''baseCurrency'' ''must be a valid currency'')
       (ParseCurrency (fxi_base_currency input))) (\<lambda>base.
     res_bind (map_err (\<lambda>_. validation ''quoteCurrency'' ''must be a valid currency'')
       (ParseCurrency (fxi_quote_currency input))) (\<lambda>quote.
     if base = quote then Inl (validation ''currencyPair'' ''base and quote currencies must differ'')
     else
       res_bind (normalizeQuoteSource (fxi_source_kind input) (fxi_source_key input)) (\<lambda>(source, sourceKey).
       Inr \<lparr> fx_id = newID, fx_household_id = fxi_household_id input, fx_base_currency = base,
             fx_quote_currency = quote, fx_rate_of = fxi_rate input, fx_source_kind = source,
             fx_source_key = sourceKey, fx_quoted_at = normalizeTime (fxi_quoted_at input),
             fx_created_at = normalizeTime createdAt, fx_delayed = fxi_delayed input,
             fx_observation_kind = [], fx_effective_date = [], fx_fetched_at = 0,
             fx_value_effective_at = 0, fx_source_policy_version = [], fx_timestamp_basis = [],
             fx_revision = 0, fx_supersedes_quote_id = None \<rparr>)))"

definition NormalizeFXPair :: "CurrencyCode \<Rightarrow> CurrencyCode \<Rightarrow> (CurrencyCode \<times> CurrencyCode) res" where
  "NormalizeFXPair currencyA currencyB =
     res_bind (map_err (\<lambda>_. validation ''currencyPair'' ''first currency is invalid'') (ParseCurrency currencyA)) (\<lambda>a.
     res_bind (map_err (\<lambda>_. validation ''currencyPair'' ''second currency is invalid'') (ParseCurrency currencyB)) (\<lambda>b.
     if a = b then Inl (validation ''currencyPair'' ''currencies must differ'')
     else if b < a then Inr (b, a) else Inr (a, b)))"

record FXPreference =
  fxp_household_id :: HouseholdID
  fxp_currency_a :: CurrencyCode
  fxp_currency_b :: CurrencyCode
  fxp_source_kind :: QuoteSourceKind
  fxp_created_at :: go_time
  fxp_updated_at :: go_time
  fxp_observation_id :: "string option"

definition NewFXPreference ::
    "HouseholdID \<Rightarrow> CurrencyCode \<Rightarrow> CurrencyCode \<Rightarrow> QuoteSourceKind \<Rightarrow> go_time \<Rightarrow> FXPreference res" where
  "NewFXPreference householdID currencyA currencyB source now =
     res_bind (NormalizeFXPair currencyA currencyB) (\<lambda>(a, b).
     res_bind (ParseQuoteSourceKind (QuoteSourceKind_string source)) (\<lambda>parsedSource.
     Inr \<lparr> fxp_household_id = householdID, fxp_currency_a = a, fxp_currency_b = b,
           fxp_source_kind = parsedSource, fxp_created_at = normalizeTime now,
           fxp_updated_at = normalizeTime now, fxp_observation_id = None \<rparr>))"

section \<open>Conversion\<close>

abbreviation "moneyAmountFractionDigits \<equiv> (4::int)"
abbreviation "minimumFXDivisionPrecision \<equiv> (16::int)"
abbreviation "maxFXConversionInputFractionDigits \<equiv> (40::int)"
abbreviation "max_int32 \<equiv> (2147483647::int)"

definition fx_zero_rate :: err where
  "fx_zero_rate = validation ''fxRate'' ''must be greater than zero''"

definition fx_mismatch :: err where
  "fx_mismatch = validation ''fxRate'' ''quote currencies do not match the conversion''"

definition fxConversionFactors ::
    "'d decimal_ops \<Rightarrow> CurrencyCode \<Rightarrow> CurrencyCode \<Rightarrow> 'd FXQuote \<Rightarrow> ('d \<times> 'd) res" where
  "fxConversionFactors D from_c to_c quote =
     (let one = d_from_int D 1; rate = r_value (fx_rate_of quote) in
      if d_is_zero D rate then Inl fx_zero_rate
      else if fx_base_currency quote = from_c \<and> fx_quote_currency quote = to_c then Inr (rate, one)
      else if fx_base_currency quote = to_c \<and> fx_quote_currency quote = from_c then Inr (one, rate)
      else Inl fx_mismatch)"

definition divideFXAmountByRate :: "'d decimal_ops \<Rightarrow> 'd \<Rightarrow> 'd \<Rightarrow> 'd res" where
  "divideFXAmountByRate D v rate =
     (if d_is_zero D rate then Inl fx_zero_rate
      else
        let scale = fst (decimalShape D v) in
        if maxFXConversionInputFractionDigits < scale then Inl overflowAmount
        else
          let denominatorScale = max 0 (scale + d_exponent D rate);
              precision = max minimumFXDivisionPrecision
                (int (length (big_string (d_coefficient D rate))) + denominatorScale + moneyAmountFractionDigits)
          in if max_int32 < precision then Inl overflowAmount
             else Inr (d_div_round D v rate (nat precision)))"

definition MultiplyByFxRate :: "'d decimal_ops \<Rightarrow> 'd \<Rightarrow> 'd fx_rate \<Rightarrow> 'd res" where
  "MultiplyByFxRate D v rate = checkedIntermediate D (d_mul D v (r_value rate))"

definition DivideByFxRate :: "'d decimal_ops \<Rightarrow> 'd \<Rightarrow> 'd fx_rate \<Rightarrow> 'd res" where
  "DivideByFxRate D v rate =
     (if d_is_zero D (r_value rate) then Inl fx_zero_rate
      else res_bind (divideFXAmountByRate D v (r_value rate)) (checkedIntermediate D))"

definition ConvertFXAmount ::
    "'d decimal_ops \<Rightarrow> 'd \<Rightarrow> CurrencyCode \<Rightarrow> CurrencyCode \<Rightarrow> 'd FXQuote \<Rightarrow> 'd res" where
  "ConvertFXAmount D v from_c to_c quote =
     (if d_greater_than D (d_abs D v) (maxMoney D) then Inl overflowAmount
      else if from_c = to_c then Inr v
      else
        res_bind (fxConversionFactors D from_c to_c quote) (\<lambda>(multiplier, divisor).
        let converted = d_mul D v multiplier in
        res_bind (if \<not> d_equal D divisor (d_from_int D 1) then divideFXAmountByRate D converted divisor
                  else Inr converted) (\<lambda>converted.
        if d_greater_than D (d_abs D converted) (maxMoney D) then Inl overflowAmount
        else Inr converted)))"

text \<open>\<^verbatim>\<open>(*big.Rat).SetString\<close> on plain decimal texts, the only ones passed to it here.\<close>

definition rat_set_string :: "string \<Rightarrow> rat option" where
  "rat_set_string s = (if decimal_syntax (length s) (length s) s then Some (syntax_value s) else None)"

definition CheckExactMoneyRange :: "'d decimal_ops \<Rightarrow> rat option \<Rightarrow> unit res" where
  "CheckExactMoneyRange D value =
     (case value of
        None \<Rightarrow> Inr ()
      | Some x \<Rightarrow>
          (case rat_set_string (d_string D (maxMoney D)) of
             None \<Rightarrow> Inl (DomainError ErrIntegrity ''amount'' ''money range could not be resolved'')
           | Some limit \<Rightarrow>
               if limit < \<bar>x\<bar>
               then Inl (DomainError ErrDecimalOverflow ''amount'' ''amount is outside the supported range'')
               else Inr ()))"

definition CheckExactUnsignedMoneyRange :: "'d decimal_ops \<Rightarrow> rat option \<Rightarrow> unit res" where
  "CheckExactUnsignedMoneyRange D value =
     (if (case value of None \<Rightarrow> False | Some x \<Rightarrow> x < 0)
      then Inl (DomainError ErrDecimalOverflow ''amount'' ''amount is outside the supported range'')
      else CheckExactMoneyRange D value)"

definition RationalFromDecimal :: "'d decimal_ops \<Rightarrow> 'd \<Rightarrow> rat" where
  "RationalFromDecimal D v =
     (let exponent = d_exponent D v in
      if 0 \<le> exponent then of_int (d_coefficient D v * 10 ^ nat exponent)
      else of_int (d_coefficient D v) / of_int (10 ^ nat (- exponent)))"

definition ConvertFXAmountExact ::
    "'d decimal_ops \<Rightarrow> 'd \<Rightarrow> CurrencyCode \<Rightarrow> CurrencyCode \<Rightarrow> 'd FXQuote \<Rightarrow> rat res" where
  "ConvertFXAmountExact D v from_c to_c quote =
     (if d_greater_than D (d_abs D v) (maxMoney D) then Inl overflowAmount
      else
        let converted = RationalFromDecimal D v in
        if from_c = to_c then res_bind (CheckExactMoneyRange D (Some converted)) (\<lambda>_. Inr converted)
        else
          res_bind (fxConversionFactors D from_c to_c quote) (\<lambda>(multiplier, divisor).
          let converted = converted * RationalFromDecimal D multiplier;
              converted = (if \<not> d_equal D divisor (d_from_int D 1)
                then converted / RationalFromDecimal D divisor else converted)
          in res_bind (map_err (\<lambda>_. overflowAmount) (CheckExactMoneyRange D (Some converted)))
               (\<lambda>_. Inr converted)))"

definition ExactFXIntermediateDecimal :: "'d decimal_ops \<Rightarrow> rat option \<Rightarrow> 'd res" where
  "ExactFXIntermediateDecimal D value =
     (if (case value of None \<Rightarrow> True | Some x \<Rightarrow> x = 0) then Inr (d_zero D)
      else
        res_bind (CheckExactMoneyRange D value) (\<lambda>_.
        let (numerator, denominator) = quotient_of (the value) in
        Inr (d_div_round D (d_from_int D numerator) (d_from_int D denominator)
          (nat maxFXConversionInputFractionDigits))))"

definition ConvertFXAmountViaQuotes ::
    "'d decimal_ops \<Rightarrow> 'd \<Rightarrow> CurrencyCode \<Rightarrow> CurrencyCode \<Rightarrow> CurrencyCode \<Rightarrow> 'd FXQuote \<Rightarrow> 'd FXQuote \<Rightarrow> 'd res" where
  "ConvertFXAmountViaQuotes D v from_c via to_c quote1 quote2 =
     (if d_greater_than D (d_abs D v) (maxMoney D) then Inl overflowAmount
      else if from_c = via \<or> via = to_c then Inl fx_mismatch
      else
        res_bind (fxConversionFactors D from_c via quote1) (\<lambda>(firstMultiplier, firstDivisor).
        res_bind (fxConversionFactors D via to_c quote2) (\<lambda>(secondMultiplier, secondDivisor).
        let multiplier = d_mul D firstMultiplier secondMultiplier;
            divisor = d_mul D firstDivisor secondDivisor;
            converted = d_mul D v multiplier
        in res_bind (if \<not> d_equal D divisor (d_from_int D 1) then divideFXAmountByRate D converted divisor
                     else Inr converted) (\<lambda>converted.
           if d_greater_than D (d_abs D converted) (maxMoney D) then Inl overflowAmount
           else Inr converted))))"

section \<open>The precision of a division is enough\<close>

lemma abs_coefficient_less: "\<bar>c\<bar> < 10 ^ length (big_string c)"
proof -
  have "nat \<bar>c\<bar> < 10 ^ length (nat_string (nat \<bar>c\<bar>))" by (rule nat_string_upper)
  also have "\<dots> \<le> 10 ^ length (big_string c)"
    by (intro power_increasing) (simp_all add: big_string_def)
  finally have "int (nat \<bar>c\<bar>) < int (10 ^ length (big_string c))" by (simp only: of_nat_less_iff)
  then show ?thesis by simp
qed

context decimal_lib
begin

text \<open>
  The quotient of an amount with \<^term>\<open>s\<close> fractional digits and a rate, as a fraction whose
  denominator is bounded by the number of digits of the rate's coefficient.
\<close>

lemma quotient_fraction:
  fixes s :: nat
  assumes r: "d_val D r \<noteq> 0" and v: "on_grid s (d_val D v)"
  obtains n m :: int where "0 < m" and "d_val D v / d_val D r = of_int n / of_int m"
    and "m < 10 ^ (length (big_string (d_coefficient D r)) + nat (int s + d_exponent D r))"
proof -
  let ?C = "d_coefficient D r" and ?k = "int s + d_exponent D r"
  obtain A :: int where A: "d_val D v = of_int A / 10 ^ s" using v by (rule on_gridE)
  have C: "?C \<noteq> 0" using r by (simp add: coefficient_0_iff)
  define n where "n = A * sgn ?C * 10 ^ nat (- ?k)"
  define m where "m = \<bar>?C\<bar> * 10 ^ nat ?k"
  have "d_val D v / d_val D r = of_int A / (of_int ?C * (10 ^ s * 10 powi d_exponent D r))"
    by (simp add: A d_val_def [of D r])
  also have "(10::rat) ^ s * 10 powi d_exponent D r = 10 powi ?k" by (simp add: power_int_add)
  also have "\<dots> = 10 ^ nat ?k / 10 ^ nat (- ?k)" by (rule powi_split)
  also have "of_int A / (of_int ?C * (10 ^ nat ?k / 10 ^ nat (- ?k))) = of_int n / (of_int m :: rat)"
    using C by (simp add: n_def m_def sgn_if field_simps abs_if)
  finally have e: "d_val D v / d_val D r = of_int n / of_int m" .
  have "\<bar>?C\<bar> * 10 ^ nat ?k < 10 ^ length (big_string ?C) * 10 ^ nat ?k"
    using abs_coefficient_less [of ?C] by simp
  then have "m < 10 ^ (length (big_string ?C) + nat ?k)" by (simp add: m_def power_add)
  with C e show ?thesis by (intro that [of m n]) (auto simp: m_def)
qed

lemma divideFX_Inr:
  assumes "divideFXAmountByRate D v r = Inr q"
  obtains s p :: nat where "d_val D r \<noteq> 0" and "on_grid s (d_val D v)" and "16 \<le> p"
    and "length (big_string (d_coefficient D r)) + nat (int s + d_exponent D r) + 4 \<le> p"
    and "q = d_div_round D v r p"
proof -
  define s where "s = nat (fst (decimalShape D v))"
  have s: "fst (decimalShape D v) = int s"
    by (auto simp: s_def decimalShape_def Let_def)
  then have "scaled D s v" using scale_shape [of v s] by simp
  moreover have "d_val D r \<noteq> 0"
    using assms by (auto simp: divideFXAmountByRate_def exact split: if_splits)
  ultimately show ?thesis
    using assms
    by (intro that [of s "nat (max 16 (int (length (big_string (d_coefficient D r))) + max 0 (int s + d_exponent D r) + 4))"])
      (auto simp: divideFXAmountByRate_def exact s Let_def scaled_grid split: if_splits)
qed

text \<open>
  The accuracy of the division: no closer fraction of that denominator exists, and the
  result is exact wherever the quotient has at most sixteen fractional digits.
\<close>

lemma divideFX_accuracy:
  assumes "divideFXAmountByRate D v r = Inr q"
  obtains n m :: int where "0 < m" and "d_val D v / d_val D r = of_int n / of_int m"
    and "\<bar>d_val D q - d_val D v / d_val D r\<bar> < 1 / (2 * of_int m * 10 ^ 4)"
    and "on_grid 16 (d_val D v / d_val D r) \<longrightarrow> d_val D q = d_val D v / d_val D r"
proof -
  from assms obtain s p :: nat where r: "d_val D r \<noteq> 0" and s: "on_grid s (d_val D v)" and p: "16 \<le> p"
    "length (big_string (d_coefficient D r)) + nat (int s + d_exponent D r) + 4 \<le> p"
    and q: "q = d_div_round D v r p" by (rule divideFX_Inr)
  from r s obtain n m :: int where m: "0 < m" "d_val D v / d_val D r = of_int n / of_int m"
    "m < 10 ^ (length (big_string (d_coefficient D r)) + nat (int s + d_exponent D r))"
    by (rule quotient_fraction)
  have "m * 10 ^ 4 < 10 ^ (length (big_string (d_coefficient D r)) + nat (int s + d_exponent D r)) * 10 ^ 4"
    using m(3) by simp
  also have "\<dots> \<le> 10 ^ p" using p(2) by (simp only: flip: power_add) (rule power_increasing, simp_all)
  finally have "of_int (m * 10 ^ 4) < (of_int (10 ^ p) :: rat)" by (simp only: of_int_less_iff)
  then have "1 / (2 * 10 ^ p) < 1 / (2 * of_int m * 10 ^ 4 :: rat)"
    using m(1) by (intro divide_strict_left_mono) simp_all
  with val_div_round [OF r, of v p] q
  have c: "\<bar>d_val D q - d_val D v / d_val D r\<bar> < 1 / (2 * of_int m * 10 ^ 4)" by simp
  have "on_grid 16 (d_val D v / d_val D r) \<longrightarrow> d_val D q = d_val D v / d_val D r"
    using q p(1) by (simp add: div_round_exact [OF r] on_grid_mono)
  with m(1,2) c show ?thesis by (rule that)
qed

lemma divideFX_half_even:
  assumes "divideFXAmountByRate D v r = Inr q"
  shows "half_even 4 (d_val D q) = half_even 4 (d_val D v / d_val D r)"
proof -
  let ?x = "d_val D v / d_val D r"
  from assms obtain n m :: int where m: "0 < m" "?x = of_int n / of_int m"
    "\<bar>d_val D q - ?x\<bar> < 1 / (2 * of_int m * 10 ^ 4)" "on_grid 16 ?x \<longrightarrow> d_val D q = ?x"
    by (rule divideFX_accuracy)
  have "?x * 10 ^ 4 = of_int (n * 10 ^ 4) / of_int m" by (simp add: m(2))
  then show ?thesis
  proof (rule half_even_approx [OF m(1) _ m(3)])
    fix k :: int assume "?x * 10 ^ 4 = of_int k + 1/2"
    moreover have "?x * 10 ^ 5 = 10 * (?x * 10 ^ 4)" by simp
    ultimately have "?x * 10 ^ 5 = of_int (10 * k + 5)" by (simp only:) simp
    then have "on_grid 5 ?x" unfolding on_grid_iff by (metis Ints_of_int)
    then show "d_val D q = ?x" using m(4) on_grid_mono [of _ ?x 16] by force
  qed
qed

text \<open>A quotient beyond a limit of four fractional digits stays beyond it when divided.\<close>

lemma divideFX_limit:
  assumes "divideFXAmountByRate D v r = Inr q"
  shows "\<bar>d_val D q\<bar> \<le> max_money \<longleftrightarrow> \<bar>d_val D v / d_val D r\<bar> \<le> max_money"
proof -
  let ?x = "d_val D v / d_val D r" and ?M = "9999999999999999 :: int"
  from assms obtain n m :: int where m: "0 < m" "?x = of_int n / of_int m"
    "\<bar>d_val D q - ?x\<bar> < 1 / (2 * of_int m * 10 ^ 4)" "on_grid 16 ?x \<longrightarrow> d_val D q = ?x"
    by (rule divideFX_accuracy)
  define t where "t = \<bar>n\<bar> * 10 ^ 4 - ?M * m"
  have t: "\<bar>?x\<bar> - max_money = of_int t / (of_int m * 10 ^ 4)"
    using m(1) by (simp add: m(2) max_money_def t_def abs_divide field_simps)
  have "1 / (2 * of_int m * 10 ^ 4) < (1 / (of_int m * 10 ^ 4) :: rat)"
    using m(1) by (intro divide_strict_left_mono) simp_all
  show ?thesis
  proof (cases "t = 0")
    case True
    with t have "?x = max_money \<or> ?x = - max_money" by (simp only:) auto
    then have "on_grid 4 ?x"
      using max_money_bounds(3) on_grid_uminus [of 4 max_money] by metis
    then have "d_val D q = ?x" using m(4) on_grid_mono [of _ ?x 16] by force
    then show ?thesis by simp
  next
    case False
    then have "(1::rat) \<le> \<bar>of_int t\<bar>" by (simp flip: of_int_abs)
    then have "1 / (of_int m * 10 ^ 4) \<le> \<bar>of_int t\<bar> / (of_int m * 10 ^ 4 :: rat)"
      using m(1) by (intro divide_right_mono) simp_all
    then have "1 / (of_int m * 10 ^ 4) \<le> \<bar>\<bar>?x\<bar> - max_money\<bar>"
      unfolding t using m(1) by (simp add: abs_divide abs_mult)
    with m(3) \<open>1 / (2 * of_int m * 10 ^ 4) < _\<close>
    have "\<bar>d_val D q - ?x\<bar> < \<bar>\<bar>?x\<bar> - max_money\<bar>" by (meson order.strict_trans order.strict_trans1 order.strict_trans2)
    then show ?thesis by linarith
  qed
qed

end

section \<open>Conversion is exact up to the final rounding\<close>

text \<open>
  The bounds that a factor of a conversion meets: a rate or one (eight integer and twelve
  fractional digits), or a product of two of them.
\<close>

definition bounded_factor :: "'d decimal_ops \<Rightarrow> nat \<Rightarrow> nat \<Rightarrow> 'd \<Rightarrow> bool" where
  "bounded_factor D n k a \<longleftrightarrow> 0 < d_val D a \<and> d_val D a < 10 ^ n \<and> - int k \<le> d_exponent D a"

text \<open>The exact factor an oriented quote gives, read in either direction.\<close>

definition exact_factor :: "'d decimal_ops \<Rightarrow> CurrencyCode \<Rightarrow> 'd FXQuote \<Rightarrow> rat" where
  "exact_factor D from_c quote =
     (if fx_base_currency quote = from_c then d_val D (r_value (fx_rate_of quote))
      else 1 / d_val D (r_value (fx_rate_of quote)))"

definition quotes_pair :: "'d FXQuote \<Rightarrow> CurrencyCode \<Rightarrow> CurrencyCode \<Rightarrow> bool" where
  "quotes_pair quote a b \<longleftrightarrow>
     (fx_base_currency quote = a \<and> fx_quote_currency quote = b)
     \<or> (fx_base_currency quote = b \<and> fx_quote_currency quote = a)"

context decimal_lib
begin

lemma RationalFromDecimal_val [simp]: "RationalFromDecimal D v = d_val D v"
  by (simp add: RationalFromDecimal_def d_val_def powi_split Let_def)

lemma CheckExactMoneyRange_Some:
  "CheckExactMoneyRange D (Some x) =
     (if max_money < \<bar>x\<bar> then Inl (DomainError ErrDecimalOverflow ''amount'' ''amount is outside the supported range'')
      else Inr ())"
proof -
  let ?s = "d_string D (maxMoney D)"
  have "- int 4 \<le> d_exponent D (maxMoney D)"
    using from_string [OF limit_texts(4)] by (auto simp: maxMoney_def require_from_string_def)
  then have s: "decimal_syntax 12 4 ?s" "syntax_value ?s = max_money"
    using string_syntax [of "maxMoney D" 12 4] max_money_bounds by (auto simp: limit_val)
  have "length (takeWhile is_digit ?s) \<le> length ?s" "length (tl (dropWhile is_digit ?s)) \<le> length ?s"
    using length_takeWhile_le [of is_digit ?s] length_dropWhile_le [of is_digit ?s] by (auto simp del: length_takeWhile_le length_dropWhile_le)
  with s(1) have "decimal_syntax (length ?s) (length ?s) ?s" by (auto simp: decimal_syntax_def Let_def)
  with s(2) show ?thesis by (simp add: CheckExactMoneyRange_def rat_set_string_def)
qed

lemma bounded_factor_one: "bounded_factor D 8 12 (d_from_int D 1)"
  by (simp add: bounded_factor_def val_new exponent_new)

lemma bounded_factor_rate: "valid_fx_rate D r \<Longrightarrow> bounded_factor D 8 12 (r_value r)"
  by (auto simp: bounded_factor_def valid_fx_rate_def scaled_def max_fx_rate_def)

lemma bounded_factor_mul:
  assumes "bounded_factor D 8 12 a" and "bounded_factor D 8 12 b"
  shows "bounded_factor D 16 24 (d_mul D a b)"
proof -
  have "d_val D a * d_val D b < 10 ^ 8 * 10 ^ 8"
    using assms by (intro mult_strict_mono) (auto simp: bounded_factor_def)
  with assms exponent_mul [of a b] show ?thesis by (auto simp: bounded_factor_def val_mul)
qed

lemma bounded_factor_mono: "bounded_factor D n k a \<Longrightarrow> n \<le> n' \<Longrightarrow> k \<le> k' \<Longrightarrow> bounded_factor D n' k' a"
  using power_increasing [of n n' "10::rat"] by (auto simp: bounded_factor_def intro: order.strict_trans2)

lemma scaled_mul:
  assumes "scaled D k v" and "- int j \<le> d_exponent D a"
  shows "scaled D (k + j) (d_mul D v a)"
  using assms exponent_mul [of v a] by (auto simp: scaled_def val_mul)

text \<open>The division succeeds for every amount and factor that the conversions pass to it.\<close>

lemma divideFX_total:
  assumes "scaled D 40 v" and "bounded_factor D 16 24 r"
  shows "\<exists>q. divideFXAmountByRate D v r = Inr q"
proof -
  have r: "0 < d_val D r" "d_val D r < 10 powi 16" "- 24 \<le> d_exponent D r"
    using assms(2) by (auto simp: bounded_factor_def)
  then have "0 < d_coefficient D r"
    by (simp add: d_val_def zero_less_mult_iff)
  then have "int (length (big_string (d_coefficient D r))) \<le> 16 - d_exponent D r"
    using coefficient_digits [of r 16] r by (simp add: coefficient_abs)
  moreover have "1 \<le> length (big_string (d_coefficient D r))"
    by (simp add: big_string_def Suc_le_eq)
  moreover have "fst (decimalShape D v) \<le> 40" using assms(1) scale_shape [of v 40] by simp
  ultimately show ?thesis
    using r by (auto simp: divideFXAmountByRate_def exact Let_def)
qed

lemma fxConversionFactors_cases:
  assumes "valid_fx_rate D (fx_rate_of quote)"
  shows "fxConversionFactors D a b quote =
    (if fx_base_currency quote = a \<and> fx_quote_currency quote = b then Inr (r_value (fx_rate_of quote), d_from_int D 1)
     else if fx_base_currency quote = b \<and> fx_quote_currency quote = a then Inr (d_from_int D 1, r_value (fx_rate_of quote))
     else Inl fx_mismatch)"
  using assms by (auto simp: fxConversionFactors_def exact valid_fx_rate_def)

lemma fxConversionFactors_Inr:
  assumes "valid_fx_rate D (fx_rate_of quote)" and "a \<noteq> b"
    and "fxConversionFactors D a b quote = Inr (multiplier, divisor)"
  shows "d_val D multiplier / d_val D divisor = exact_factor D a quote"
    and "bounded_factor D 8 12 multiplier" and "bounded_factor D 8 12 divisor"
  using assms bounded_factor_rate [OF assms(1)] bounded_factor_one
  by (auto simp: fxConversionFactors_cases exact_factor_def val_from_int split: if_splits)

lemma fxConversionFactors_pair:
  assumes "valid_fx_rate D (fx_rate_of quote)" and "quotes_pair quote a b"
  obtains m d where "fxConversionFactors D a b quote = Inr (m, d)"
  using assms that by (fastforce simp: fxConversionFactors_cases quotes_pair_def split: if_splits)

text \<open>The tail that both decimal conversions share: divide unless the divisor is one, then check the range.\<close>

lemma converted_tail:
  assumes "scaled D 40 v" and "bounded_factor D 16 24 r" and
    t: "t = res_bind (if \<not> d_equal D r (d_from_int D 1) then divideFXAmountByRate D v r else Inr v) (\<lambda>converted.
           if d_greater_than D (d_abs D converted) (maxMoney D) then Inl overflowAmount else Inr converted)"
  shows "map_sum id (\<lambda>x. half_even 4 (d_val D x)) t =
    (if max_money < \<bar>d_val D v / d_val D r\<bar> then Inl overflowAmount else Inr (half_even 4 (d_val D v / d_val D r)))"
proof (cases "d_val D r = 1")
  case True
  then show ?thesis by (simp add: t exact val_from_int limit_val)
next
  case False
  obtain q where q: "divideFXAmountByRate D v r = Inr q" using divideFX_total [OF assms(1,2)] by blast
  with False divideFX_half_even [OF q] divideFX_limit [OF q] show ?thesis
    by (auto simp: t exact val_from_int limit_val)
qed

lemma ConvertFXAmountExact_val:
  assumes "valid_fx_rate D (fx_rate_of quote)" and "from_c \<noteq> to_c" and "quotes_pair quote from_c to_c"
  shows "ConvertFXAmountExact D v from_c to_c quote =
    (if max_money < \<bar>d_val D v\<bar> \<or> max_money < \<bar>d_val D v * exact_factor D from_c quote\<bar> then Inl overflowAmount
     else Inr (d_val D v * exact_factor D from_c quote))"
proof -
  from assms(3) obtain m d where f: "fxConversionFactors D from_c to_c quote = Inr (m, d)"
    using fxConversionFactors_pair [OF assms(1)] by metis
  note F = fxConversionFactors_Inr [OF assms(1,2) f]
  have "d_val D v * d_val D m / d_val D d = d_val D v * exact_factor D from_c quote"
    by (simp flip: F(1))
  then show ?thesis
    using assms(2) f
    by (auto simp: ConvertFXAmountExact_def CheckExactMoneyRange_Some exact limit_val val_from_int Let_def)
qed

lemma ConvertFXAmount_val:
  assumes "valid_fx_rate D (fx_rate_of quote)" and "from_c \<noteq> to_c" and "quotes_pair quote from_c to_c"
    and "scaled D 40 v"
  shows "map_sum id (\<lambda>x. half_even 4 (d_val D x)) (ConvertFXAmount D v from_c to_c quote) =
    (if max_money < \<bar>d_val D v\<bar> \<or> max_money < \<bar>d_val D v * exact_factor D from_c quote\<bar> then Inl overflowAmount
     else Inr (half_even 4 (d_val D v * exact_factor D from_c quote)))"
proof -
  let ?q = "r_value (fx_rate_of quote)"
  have direct: ?thesis if "fx_base_currency quote = from_c" "fx_quote_currency quote = to_c"
    using assms that by (auto simp: ConvertFXAmount_def fxConversionFactors_cases exact limit_val val_from_int exact_factor_def)
  have "scaled D 40 (d_mul D v (d_from_int D 1))"
    using scaled_mul [OF assms(4), of 0 "d_from_int D 1"] by (simp add: exponent_new)
  moreover have "bounded_factor D 16 24 ?q"
    using bounded_factor_mono [OF bounded_factor_rate [OF assms(1)]] by simp
  ultimately have "?thesis" if "fx_base_currency quote = to_c" "fx_quote_currency quote = from_c"
    using assms(1,2) that converted_tail [of "d_mul D v (d_from_int D 1)" ?q, OF _ _ refl]
    by (auto simp: ConvertFXAmount_def fxConversionFactors_cases exact limit_val val_from_int exact_factor_def Let_def)
  with direct assms(3) show ?thesis by (auto simp: quotes_pair_def)
qed

lemma ConvertFXAmount_exact:
  assumes "valid_fx_rate D (fx_rate_of quote)" and "scaled D 40 v"
  shows "map_sum id (\<lambda>x. half_even 4 (d_val D x)) (ConvertFXAmount D v from_c to_c quote)
    = map_sum id (half_even 4) (ConvertFXAmountExact D v from_c to_c quote)"
proof (cases "from_c \<noteq> to_c \<and> quotes_pair quote from_c to_c")
  case True
  then show ?thesis using assms by (simp add: ConvertFXAmount_val ConvertFXAmountExact_val)
next
  case False
  then have "fxConversionFactors D from_c to_c quote = Inl fx_mismatch" if "from_c \<noteq> to_c"
    using assms(1) that by (auto simp: fxConversionFactors_cases quotes_pair_def)
  then show ?thesis
    by (cases "from_c = to_c")
      (simp_all add: ConvertFXAmount_def ConvertFXAmountExact_def exact limit_val CheckExactMoneyRange_Some)
qed

lemma ConvertFXAmountViaQuotes_val:
  assumes r: "valid_fx_rate D (fx_rate_of quote1)" "valid_fx_rate D (fx_rate_of quote2)"
    and c: "from_c \<noteq> via" "via \<noteq> to_c" and p: "quotes_pair quote1 from_c via" "quotes_pair quote2 via to_c"
    and v: "scaled D 16 v" "\<bar>d_val D v\<bar> \<le> max_money"
  shows "map_sum id (\<lambda>x. half_even 4 (d_val D x)) (ConvertFXAmountViaQuotes D v from_c via to_c quote1 quote2) =
    (let exact = d_val D v * exact_factor D from_c quote1 * exact_factor D via quote2 in
     if max_money < \<bar>exact\<bar> then Inl overflowAmount else Inr (half_even 4 exact))"
proof -
  from p obtain m1 d1 m2 d2 where f: "fxConversionFactors D from_c via quote1 = Inr (m1, d1)"
    "fxConversionFactors D via to_c quote2 = Inr (m2, d2)"
    using fxConversionFactors_pair [OF r(1)] fxConversionFactors_pair [OF r(2)] by metis
  note F1 = fxConversionFactors_Inr [OF r(1) c(1) f(1)] and F2 = fxConversionFactors_Inr [OF r(2) c(2) f(2)]
  have s: "scaled D 40 (d_mul D v (d_mul D m1 m2))"
    using scaled_mul [OF v(1), of 24] bounded_factor_mul [OF F1(2) F2(2)] by (simp add: bounded_factor_def)
  have e: "d_val D v * (d_val D m1 * d_val D m2) / (d_val D d1 * d_val D d2)
      = d_val D v * exact_factor D from_c quote1 * exact_factor D via quote2"
    by (simp flip: F1(1) F2(1))
  show ?thesis
    using converted_tail [OF s bounded_factor_mul [OF F1(3) F2(3)] refl] v(2) c f
    by (simp add: ConvertFXAmountViaQuotes_def Let_def e exact limit_val)
qed

lemma ExactFXIntermediate_error:
  assumes "ExactFXIntermediateDecimal D (Some x) = Inr v"
  shows "\<bar>d_val D v - x\<bar> \<le> 1 / (2 * 10 ^ 40)" and "scaled D 40 v"
proof -
  obtain n d where nd: "quotient_of x = (n, d)" by (cases "quotient_of x")
  then have x: "x = of_int n / of_int d" and d: "0 < d"
    by (auto simp: quotient_of_div quotient_of_denom_pos)
  have "d_val D (d_from_int D d) \<noteq> 0" using d by (simp add: val_from_int)
  note R = val_div_round [OF this, of "d_from_int D n" 40] grid_div_round [OF this, of 40 "d_from_int D n"]
  show "\<bar>d_val D v - x\<bar> \<le> 1 / (2 * 10 ^ 40)" "scaled D 40 v"
    using assms R nd by (auto simp: ExactFXIntermediateDecimal_def exact val_from_int x scaled_def split: if_splits)
qed

end

section \<open>Properties of conversions\<close>

text \<open>C38. Converting with bounded decimals and converting with exact rationals give the same
  outcome: the same error, or amounts that agree once rounded to the four places of Money.
  The precision that \<^verbatim>\<open>divideFXAmountByRate\<close> computes is therefore enough.\<close>

theorem ConvertFXAmount_equiv_Exact:
  assumes "decimal_lib D" and "valid_fx_rate D (fx_rate_of quote)" and "scaled D 40 v"
  shows "map_sum id (\<lambda>x. half_even 4 (d_val D x)) (ConvertFXAmount D v from_c to_c quote)
    = map_sum id (half_even 4) (ConvertFXAmountExact D v from_c to_c quote)"
  by (rule decimal_lib.ConvertFXAmount_exact [OF assms])

definition sample_quote :: "CurrencyCode \<Rightarrow> CurrencyCode \<Rightarrow> dec \<Rightarrow> dec FXQuote" where
  "sample_quote base_c quote_c rate =
     \<lparr> fx_id = ''q'', fx_household_id = ''h'', fx_base_currency = base_c, fx_quote_currency = quote_c,
       fx_rate_of = \<lparr> r_value = rate \<rparr>, fx_source_kind = QuoteSourceManual, fx_source_key = ''manual'',
       fx_quoted_at = 0, fx_created_at = 0, fx_delayed = False, fx_observation_kind = [],
       fx_effective_date = [], fx_fetched_at = 0, fx_value_effective_at = 0,
       fx_source_policy_version = [], fx_timestamp_basis = [], fx_revision = 0, fx_supersedes_quote_id = None \<rparr>"

theorem ConvertFXAmount_equiv_Exact_witness:
  "map_sum id (\<lambda>x. half_even 4 (d_val ref_decimal x))
      (ConvertFXAmount ref_decimal (Dec 100 0) ''JPY'' ''USD'' (sample_quote ''USD'' ''JPY'' (Dec 1503 (- 1))))
    = Inr (6653 / 10 ^ 4)"
proof -
  have "valid_fx_rate ref_decimal (fx_rate_of (sample_quote ''USD'' ''JPY'' (Dec 1503 (- 1))))"
    "scaled ref_decimal 40 (Dec 100 0)"
    by (simp_all add: sample_quote_def valid_fx_rate_def scaled_def dv_def max_fx_rate_def power_int_minus)
  moreover have "map_sum id (half_even 4)
      (ConvertFXAmountExact ref_decimal (Dec 100 0) ''JPY'' ''USD'' (sample_quote ''USD'' ''JPY'' (Dec 1503 (- 1))))
    = Inr (6653 / 10 ^ 4)" by code_simp
  ultimately show ?thesis
    using ConvertFXAmount_equiv_Exact [OF ref.decimal_lib_axioms] by simp
qed

text \<open>A conversion through a pivot currency rounds once: the outcome is that of multiplying
  by both exact factors, in either orientation of the quotes, with one range check, and no
  intermediate amount is rounded.\<close>

theorem ConvertFXAmountViaQuotes_correct:
  assumes "decimal_lib D" and "valid_fx_rate D (fx_rate_of quote1)" and "valid_fx_rate D (fx_rate_of quote2)"
    and "from_c \<noteq> via" and "via \<noteq> to_c" and "quotes_pair quote1 from_c via" and "quotes_pair quote2 via to_c"
    and "scaled D 16 v" and "\<bar>d_val D v\<bar> \<le> max_money"
  shows "map_sum id (\<lambda>x. half_even 4 (d_val D x)) (ConvertFXAmountViaQuotes D v from_c via to_c quote1 quote2) =
    (let exact = d_val D v * exact_factor D from_c quote1 * exact_factor D via quote2 in
     if max_money < \<bar>exact\<bar> then Inl overflowAmount else Inr (half_even 4 exact))"
  by (rule decimal_lib.ConvertFXAmountViaQuotes_val [OF assms])

theorem ConvertFXAmountViaQuotes_correct_witness:
  "map_sum id (\<lambda>x. half_even 4 (d_val ref_decimal x))
      (ConvertFXAmountViaQuotes ref_decimal (Dec 100 0) ''JPY'' ''USD'' ''EUR''
        (sample_quote ''USD'' ''JPY'' (Dec 1503 (- 1))) (sample_quote ''EUR'' ''USD'' (Dec 108 (- 2))))
    = Inr (6161 / 10 ^ 4)"
proof -
  have r: "valid_fx_rate ref_decimal (fx_rate_of (sample_quote ''USD'' ''JPY'' (Dec 1503 (- 1))))"
    "valid_fx_rate ref_decimal (fx_rate_of (sample_quote ''EUR'' ''USD'' (Dec 108 (- 2))))"
    "scaled ref_decimal 16 (Dec 100 0)" "\<bar>d_val ref_decimal (Dec 100 0)\<bar> \<le> max_money"
    "quotes_pair (sample_quote ''USD'' ''JPY'' (Dec 1503 (- 1))) ''JPY'' ''USD''"
    "quotes_pair (sample_quote ''EUR'' ''USD'' (Dec 108 (- 2))) ''USD'' ''EUR''"
    "''JPY'' \<noteq> ''USD''" "''USD'' \<noteq> ''EUR''"
    by (simp_all add: sample_quote_def valid_fx_rate_def scaled_def dv_def max_fx_rate_def
        max_money_def quotes_pair_def power_int_minus)
  have "d_val ref_decimal (Dec 100 0) * exact_factor ref_decimal ''JPY'' (sample_quote ''USD'' ''JPY'' (Dec 1503 (- 1)))
      * exact_factor ref_decimal ''USD'' (sample_quote ''EUR'' ''USD'' (Dec 108 (- 2))) = 100 * (10 / 1503) * (100 / 108)"
    by (simp add: exact_factor_def sample_quote_def dv_def power_int_minus)
  moreover have "half_even 4 (100 * (10 / 1503) * (100 / 108)) = 6161 / 10 ^ 4" by code_simp
  moreover have "\<not> max_money < \<bar>100 * (10 / 1503) * (100 / 108)\<bar>" by (simp add: max_money_def)
  ultimately show ?thesis
    using ConvertFXAmountViaQuotes_correct [OF ref.decimal_lib_axioms r(1,2,7,8,5,6,3,4)]
    by (simp only: Let_def if_False)
qed

text \<open>The decimal that stands for an exact intermediate has at most forty fractional digits,
  is off by at most half a unit of the fortieth, and is refused exactly beyond the money range.\<close>

theorem ExactFXIntermediateDecimal_accuracy:
  assumes "decimal_lib D"
  shows "(is_ok (ExactFXIntermediateDecimal D (Some x)) \<longleftrightarrow> \<bar>x\<bar> \<le> max_money)
    \<and> (\<forall>v. ExactFXIntermediateDecimal D (Some x) = Inr v \<longrightarrow>
        \<bar>d_val D v - x\<bar> \<le> 1 / (2 * 10 ^ 40) \<and> scaled D 40 v)"
  using decimal_lib.ExactFXIntermediate_error [OF assms] decimal_lib.CheckExactMoneyRange_Some [OF assms, of x]
    max_money_bounds(1)
  by (auto simp: ExactFXIntermediateDecimal_def split: prod.splits)

theorem ExactFXIntermediateDecimal_accuracy_witness:
  "is_ok (ExactFXIntermediateDecimal ref_decimal (Some (10 / 1503)))"
  using ExactFXIntermediateDecimal_accuracy [OF ref.decimal_lib_axioms, of "10 / 1503"]
  by (simp add: max_money_def)

text \<open>A currency pair has one normal form: the two orders of a pair give the same result,
  its currencies are valid and in strictly ascending order, and normalising again changes
  nothing.\<close>

theorem NormalizeFXPair_canonical:
  assumes "NormalizeFXPair x y = Inr (a, b)"
  shows "a < b \<and> valid_currency a \<and> valid_currency b \<and> NormalizeFXPair y x = Inr (a, b)
    \<and> NormalizeFXPair a b = Inr (a, b) \<and> NormalizeFXPair b a = Inr (a, b)"
proof -
  obtain p q where pq: "ParseCurrency x = Inr p" "ParseCurrency y = Inr q" "p \<noteq> q"
    using assms by (auto simp: NormalizeFXPair_def split: if_splits)
  then have "(a, b) = (if q < p then (q, p) else (p, q))" using assms by (auto simp: NormalizeFXPair_def)
  with pq ParseCurrency_idem [OF pq(1)] ParseCurrency_idem [OF pq(2)]
    ParseCurrency_is_valid [OF pq(1)] ParseCurrency_is_valid [OF pq(2)]
  show ?thesis by (cases "q < p") (auto simp: NormalizeFXPair_def)
qed

theorem NormalizeFXPair_canonical_witness: "NormalizeFXPair ''EUR'' ''usd'' = Inr (''EUR'', ''USD'')"
proof -
  have "NormalizeFXPair ''usd'' ''EUR'' = Inr (''EUR'', ''USD'')" by code_simp
  from NormalizeFXPair_canonical [OF this] show ?thesis by simp
qed

end
