(* ===== verification/Accounts.thy ===== *)
theory Accounts
  imports Ownership Fx
begin

text \<open>
  Accounts and the reference records around them (\<^verbatim>\<open>internal/domain/account_type.go\<close>,
  \<^verbatim>\<open>institution_type.go\<close>, \<^verbatim>\<open>icons.go\<close> and the account part of \<^verbatim>\<open>model.go\<close>): the closed
  enumerations, the table of legal account combinations, classification into buckets, and the
  constructors with their checks in source order.
\<close>

section \<open>Account and institution types\<close>

datatype AccountType =
    TypeCashOnHand | TypeBankAccount | TypeBrokerage | TypeInvestmentAccount | TypeCryptoExchange
  | TypeDigitalWallet | TypePension | TypeInsurancePolicy | TypeProperty | TypeVehicle
  | TypeCollectible | TypeReceivable | TypeCreditCard | TypeLoan | TypeOther | AccountType_unknown string

definition AllAccountTypes :: "AccountType list" where
  "AllAccountTypes =
     [TypeCashOnHand, TypeBankAccount, TypeBrokerage, TypeInvestmentAccount, TypeCryptoExchange,
      TypeDigitalWallet, TypePension, TypeInsurancePolicy, TypeProperty, TypeVehicle, TypeCollectible,
      TypeReceivable, TypeCreditCard, TypeLoan, TypeOther]"

fun AccountType_String :: "AccountType \<Rightarrow> string" where
  "AccountType_String TypeCashOnHand = ''cash_on_hand''"
| "AccountType_String TypeBankAccount = ''bank_account''"
| "AccountType_String TypeBrokerage = ''brokerage''"
| "AccountType_String TypeInvestmentAccount = ''investment_account''"
| "AccountType_String TypeCryptoExchange = ''crypto_exchange''"
| "AccountType_String TypeDigitalWallet = ''digital_wallet''"
| "AccountType_String TypePension = ''pension''"
| "AccountType_String TypeInsurancePolicy = ''insurance_policy''"
| "AccountType_String TypeProperty = ''property''"
| "AccountType_String TypeVehicle = ''vehicle''"
| "AccountType_String TypeCollectible = ''collectible''"
| "AccountType_String TypeReceivable = ''receivable''"
| "AccountType_String TypeCreditCard = ''credit_card''"
| "AccountType_String TypeLoan = ''loan''"
| "AccountType_String TypeOther = ''other''"
| "AccountType_String (AccountType_unknown s) = s"

definition ParseAccountType :: "string \<Rightarrow> AccountType res" where
  "ParseAccountType value =
     (let parsed = trim_space value in
      case find (\<lambda>candidate. parsed = AccountType_String candidate) AllAccountTypes of
        Some t \<Rightarrow> Inr t
      | None \<Rightarrow> Inl (validation ''accountType'' ''is not supported''))"

datatype BalanceSheetRole = RoleAsset | RoleLiability | BalanceSheetRole_unknown string

fun BalanceSheetRole_String :: "BalanceSheetRole \<Rightarrow> string" where
  "BalanceSheetRole_String RoleAsset = ''asset''"
| "BalanceSheetRole_String RoleLiability = ''liability''"
| "BalanceSheetRole_String (BalanceSheetRole_unknown s) = s"

definition BalanceSheetRole_IsLiability :: "BalanceSheetRole \<Rightarrow> bool" where
  "BalanceSheetRole_IsLiability r \<longleftrightarrow> r = RoleLiability"

definition ParseBalanceSheetRole :: "string \<Rightarrow> BalanceSheetRole res" where
  "ParseBalanceSheetRole value =
     (let parsed = trim_space value in
      if parsed = ''asset'' then Inr RoleAsset
      else if parsed = ''liability'' then Inr RoleLiability
      else Inl (validation ''balanceSheetRole'' ''is not supported''))"

datatype InstitutionType =
    InstitutionBank | InstitutionBrokerage | InstitutionInsurer | InstitutionExchange
  | InstitutionEmployer | InstitutionGovernment | InstitutionOther | InstitutionType_unknown string

definition AllInstitutionTypes :: "InstitutionType list" where
  "AllInstitutionTypes =
     [InstitutionBank, InstitutionBrokerage, InstitutionInsurer, InstitutionExchange,
      InstitutionEmployer, InstitutionGovernment, InstitutionOther]"

fun InstitutionType_string :: "InstitutionType \<Rightarrow> string" where
  "InstitutionType_string InstitutionBank = ''bank''"
| "InstitutionType_string InstitutionBrokerage = ''brokerage''"
| "InstitutionType_string InstitutionInsurer = ''insurer''"
| "InstitutionType_string InstitutionExchange = ''exchange''"
| "InstitutionType_string InstitutionEmployer = ''employer''"
| "InstitutionType_string InstitutionGovernment = ''government''"
| "InstitutionType_string InstitutionOther = ''other''"
| "InstitutionType_string (InstitutionType_unknown s) = s"

definition ParseInstitutionType :: "string \<Rightarrow> InstitutionType res" where
  "ParseInstitutionType value =
     (case find (\<lambda>t. trim_space value = InstitutionType_string t) AllInstitutionTypes of
        Some t \<Rightarrow> Inr t
      | None \<Rightarrow> Inl (validation ''institutionType'' ''is not supported''))"

section \<open>Icons\<close>

definition supportedIconKeys :: "string list" where
  "supportedIconKeys =
     [
      ''bank-logo:standard-chartered'', ''bank-logo:bochk'', ''fund'', ''bond'', ''term-deposit'',
      ''lending'', ''land'', ''commercial-property'', ''collectible'', ''digital-asset'',
      ''crypto-logo:btc'', ''crypto-logo:eth'', ''crypto-logo:sol'', ''crypto-logo:usdc'', ''account'',
      ''armchair'', ''badge-dollar'', ''badge-euro'', ''badge-franc'', ''badge-rupee'',
      ''badge-pound'', ''badge-percent'', ''badge-ruble'', ''badge-yen'', ''bank'', ''bank-branch'',
      ''banknote-down'', ''banknote-up'', ''bitcoin'', ''brokerage'', ''brokerage-cash'', ''building'',
      ''calendar'', ''calendar-clock'', ''car'', ''camera'', ''card'', ''cash'', ''chart'',
      ''circle-check'', ''circle-dollar'', ''circle-percent'', ''coins'', ''computer'',
      ''credit-card'', ''currency'', ''document'', ''dollar'', ''download'', ''euro'', ''file'',
      ''folder'', ''goal'', ''gem'', ''grid'', ''history'', ''home'', ''info'', ''insurance'',
      ''investment'', ''landmark'', ''liability'', ''list'', ''mail'', ''market'', ''money'',
      ''percent'', ''pension'', ''pie-chart'', ''property'', ''receivable'', ''receipt'',
      ''retirement'', ''savings'', ''search'', ''settings'', ''shield'', ''shield-plus'', ''stock'',
      ''storage'', ''trending-up'', ''upload'', ''vault'', ''visibility'', ''wallet'',
      ''wallet-cards'', ''warning'', ''user'', ''yen'']"

text \<open>
  The keys of the generated table of bank logos (\<^verbatim>\<open>bank_logos_generated.go\<close>) are the argument
  \<^term>\<open>bankLogoKeys\<close> of the functions that look them up.
\<close>

definition ValidateIconKey :: "string set \<Rightarrow> string \<Rightarrow> unit res" where
  "ValidateIconKey bankLogoKeys value =
     (let v = trim_space value in
      if v = [] then Inr ()
      else if v \<notin> set supportedIconKeys \<and> v \<notin> bankLogoKeys then Inl (validation ''iconKey'' ''unsupported icon'')
      else Inr ())"

definition normalizedIconKey :: "string set \<Rightarrow> string option \<Rightarrow> string \<Rightarrow> string option res" where
  "normalizedIconKey bankLogoKeys value fallback =
     (case value of
        None \<Rightarrow> Inr (Some fallback)
      | Some s \<Rightarrow>
          if trim_space s = [] then Inr (Some fallback)
          else
            let normalized = trim_space s in
            res_bind (ValidateIconKey bankLogoKeys normalized) (\<lambda>_. Inr (Some normalized)))"

fun DefaultAccountIcon :: "AccountType \<Rightarrow> string" where
  "DefaultAccountIcon TypeCashOnHand = ''cash''"
| "DefaultAccountIcon TypeBankAccount = ''bank''"
| "DefaultAccountIcon TypeBrokerage = ''brokerage''"
| "DefaultAccountIcon TypeInvestmentAccount = ''investment''"
| "DefaultAccountIcon TypeCryptoExchange = ''bitcoin''"
| "DefaultAccountIcon TypeDigitalWallet = ''wallet-cards''"
| "DefaultAccountIcon TypePension = ''pension''"
| "DefaultAccountIcon TypeInsurancePolicy = ''shield-plus''"
| "DefaultAccountIcon TypeProperty = ''home''"
| "DefaultAccountIcon TypeVehicle = ''car''"
| "DefaultAccountIcon TypeCollectible = ''gem''"
| "DefaultAccountIcon TypeReceivable = ''receivable''"
| "DefaultAccountIcon TypeCreditCard = ''credit-card''"
| "DefaultAccountIcon TypeLoan = ''banknote-down''"
| "DefaultAccountIcon TypeOther = ''account''"
| "DefaultAccountIcon (AccountType_unknown s) = []"

fun DefaultIconForInstitutionType :: "InstitutionType \<Rightarrow> string" where
  "DefaultIconForInstitutionType InstitutionBank = ''bank''"
| "DefaultIconForInstitutionType InstitutionBrokerage = ''brokerage''"
| "DefaultIconForInstitutionType InstitutionInsurer = ''shield-plus''"
| "DefaultIconForInstitutionType InstitutionExchange = ''market''"
| "DefaultIconForInstitutionType InstitutionEmployer = ''building''"
| "DefaultIconForInstitutionType InstitutionGovernment = ''landmark''"
| "DefaultIconForInstitutionType InstitutionOther = ''building''"
| "DefaultIconForInstitutionType (InstitutionType_unknown s) = []"

section \<open>Legal combinations\<close>

definition legalAccountCombinations :: "(AccountType \<times> BalanceSheetRole \<times> TrackingMode) list" where
  "legalAccountCombinations =
     [(TypeCashOnHand, RoleAsset, TrackingBalance),
      (TypeCashOnHand, RoleAsset, TrackingHoldings),
      (TypeBankAccount, RoleAsset, TrackingBalance),
      (TypeBankAccount, RoleAsset, TrackingHoldings),
      (TypeBrokerage, RoleAsset, TrackingHoldings),
      (TypeBrokerage, RoleAsset, TrackingManualValue),
      (TypeInvestmentAccount, RoleAsset, TrackingHoldings),
      (TypeInvestmentAccount, RoleAsset, TrackingManualValue),
      (TypeCryptoExchange, RoleAsset, TrackingHoldings),
      (TypeDigitalWallet, RoleAsset, TrackingBalance),
      (TypeDigitalWallet, RoleAsset, TrackingHoldings),
      (TypePension, RoleAsset, TrackingHoldings),
      (TypePension, RoleAsset, TrackingManualValue),
      (TypeInsurancePolicy, RoleAsset, TrackingManualValue),
      (TypeProperty, RoleAsset, TrackingManualValue),
      (TypeVehicle, RoleAsset, TrackingManualValue),
      (TypeCollectible, RoleAsset, TrackingManualValue),
      (TypeReceivable, RoleAsset, TrackingBalance),
      (TypeReceivable, RoleAsset, TrackingManualValue),
      (TypeCreditCard, RoleLiability, TrackingBalance),
      (TypeLoan, RoleLiability, TrackingBalance),
      (TypeOther, RoleAsset, TrackingBalance),
      (TypeOther, RoleAsset, TrackingManualValue),
      (TypeOther, RoleAsset, TrackingHoldings),
      (TypeOther, RoleLiability, TrackingBalance)]"

definition IsValidAccountCombination :: "AccountType \<Rightarrow> BalanceSheetRole \<Rightarrow> TrackingMode \<Rightarrow> bool" where
  "IsValidAccountCombination accountType role tracking \<longleftrightarrow>
     (accountType, role, tracking) \<in> set legalAccountCombinations"

text \<open>The loop of \<^verbatim>\<open>DefaultBalanceSheetRole\<close>; \<^term>\<open>None\<close> as \<^term>\<open>found\<close> is the empty string.\<close>

fun default_role_loop ::
    "AccountType \<Rightarrow> BalanceSheetRole option \<Rightarrow> (AccountType \<times> BalanceSheetRole \<times> TrackingMode) list \<Rightarrow> BalanceSheetRole option" where
  "default_role_loop t found [] = found"
| "default_role_loop t found ((ct, role, mode) # rest) =
     (if ct \<noteq> t then default_role_loop t found rest
      else if found \<noteq> None \<and> found \<noteq> Some role then None
      else default_role_loop t (Some role) rest)"

definition DefaultBalanceSheetRole :: "AccountType \<Rightarrow> BalanceSheetRole option" where
  "DefaultBalanceSheetRole accountType =
     (if accountType = TypeOther then None else default_role_loop accountType None legalAccountCombinations)"

record InclusionDefaults =
  inc_net_worth :: bool
  inc_portfolio :: bool
  inc_liquid_assets :: bool

definition SuggestedInclusion :: "AccountType \<Rightarrow> TrackingMode \<Rightarrow> InclusionDefaults" where
  "SuggestedInclusion accountType tracking =
     \<lparr> inc_net_worth = True,
       inc_portfolio = (accountType \<in> {TypeBrokerage, TypeInvestmentAccount, TypeCryptoExchange, TypePension}),
       inc_liquid_assets = (accountType = TypeCashOnHand
         \<or> (tracking = TrackingBalance \<and> (accountType = TypeBankAccount \<or> accountType = TypeDigitalWallet))) \<rparr>"

section \<open>Classification\<close>

record AssetClass =
  ac_role :: BalanceSheetRole
  ac_bucket :: string
  ac_incomplete :: bool
  ac_missing_instrument :: bool
  ac_basis :: string

definition ClassifySimpleAccount :: "AccountType \<Rightarrow> BalanceSheetRole \<Rightarrow> TrackingMode \<Rightarrow> AssetClass res" where
  "ClassifySimpleAccount accountType role tracking =
     (if \<not> IsValidAccountCombination accountType role tracking
      then Inl (validation ''accountType'' ''is not a valid account combination'')
      else if tracking = TrackingHoldings
      then Inl (validation ''trackingMode'' ''composite accounts must be classified from components'')
      else
        let class = (\<lambda>bucket. Inr \<lparr> ac_role = role, ac_bucket = bucket, ac_incomplete = False,
              ac_missing_instrument = False, ac_basis = ''current-metadata-derived'' \<rparr>)
        in if accountType = TypeCashOnHand \<or> accountType = TypeBankAccount \<or> accountType = TypeDigitalWallet
           then class ''cash''
           else if accountType = TypeBrokerage \<or> accountType = TypeInvestmentAccount
           then class ''unclassified_investment''
           else if accountType = TypePension then class ''pension''
           else if accountType = TypeInsurancePolicy then class ''insurance''
           else if accountType = TypeProperty then class ''property''
           else if accountType = TypeVehicle then class ''vehicle''
           else if accountType = TypeCollectible then class ''collectible''
           else if accountType = TypeReceivable then class ''receivable''
           else if accountType = TypeCreditCard then class ''credit_card''
           else if accountType = TypeLoan then class ''loan''
           else if accountType = TypeOther \<and> role = RoleAsset then class ''other_asset''
           else if accountType = TypeOther \<and> role = RoleLiability then class ''other_liability''
           else Inl (validation ''accountType'' ''is not a valid account combination''))"

section \<open>Reference records\<close>

text \<open>The argument \<^term>\<open>newID\<close> of a constructor is the identity the UUID generator returns.\<close>

record Household =
  hh_id :: HouseholdID
  hh_name :: string
  hh_base_currency :: CurrencyCode
  hh_created_at :: go_time
  hh_updated_at :: go_time

definition NewHousehold :: "HouseholdID \<Rightarrow> string \<Rightarrow> CurrencyCode \<Rightarrow> go_time \<Rightarrow> Household res" where
  "NewHousehold newID name baseCurrency now =
     res_bind (validateName ''name'' name) (\<lambda>name.
     res_bind (ParseCurrency baseCurrency) (\<lambda>canonicalCurrency.
     let now = normalizeTime now in
     Inr \<lparr> hh_id = newID, hh_name = name, hh_base_currency = canonicalCurrency,
           hh_created_at = now, hh_updated_at = now \<rparr>))"

record Member =
  mb_id :: MemberID
  mb_household_id :: HouseholdID
  mb_name :: string
  mb_icon_key :: "string option"
  mb_note :: "string option"
  mb_sort_order :: int
  mb_created_at :: go_time
  mb_updated_at :: go_time
  mb_archived_at :: "go_time option"

definition NewMember :: "MemberID \<Rightarrow> HouseholdID \<Rightarrow> string \<Rightarrow> go_time \<Rightarrow> Member res" where
  "NewMember newID householdID name now =
     res_bind (validateName ''name'' name) (\<lambda>name.
     let now = normalizeTime now in
     Inr \<lparr> mb_id = newID, mb_household_id = householdID, mb_name = name, mb_icon_key = Some ''user'',
           mb_note = None, mb_sort_order = 0, mb_created_at = now, mb_updated_at = now, mb_archived_at = None \<rparr>)"

record Institution =
  in_id :: InstitutionID
  in_household_id :: HouseholdID
  in_name :: string
  in_icon_key :: "string option"
  in_type :: InstitutionType
  in_country_code :: "string option"
  in_website :: "string option"
  in_note :: "string option"
  in_sort_order :: int
  in_created_at :: go_time
  in_updated_at :: go_time
  in_archived_at :: "go_time option"

definition NewInstitution :: "InstitutionID \<Rightarrow> HouseholdID \<Rightarrow> string \<Rightarrow> InstitutionType \<Rightarrow> go_time \<Rightarrow> Institution res" where
  "NewInstitution newID householdID name institutionType now =
     res_bind (validateName ''name'' name) (\<lambda>name.
     res_bind (ParseInstitutionType (InstitutionType_string institutionType)) (\<lambda>institutionType.
     let now = normalizeTime now in
     Inr \<lparr> in_id = newID, in_household_id = householdID, in_name = name,
           in_icon_key = Some (DefaultIconForInstitutionType institutionType), in_type = institutionType,
           in_country_code = None, in_website = None, in_note = None, in_sort_order = 0,
           in_created_at = now, in_updated_at = now, in_archived_at = None \<rparr>))"

record Group =
  gr_id :: GroupID
  gr_household_id :: HouseholdID
  gr_name :: string
  gr_icon_key :: "string option"
  gr_color :: "string option"
  gr_description :: "string option"
  gr_sort_order :: int
  gr_created_at :: go_time
  gr_updated_at :: go_time
  gr_archived_at :: "go_time option"

definition NewGroup :: "GroupID \<Rightarrow> HouseholdID \<Rightarrow> string \<Rightarrow> go_time \<Rightarrow> Group res" where
  "NewGroup newID householdID name now =
     res_bind (validateName ''name'' name) (\<lambda>name.
     let now = normalizeTime now in
     Inr \<lparr> gr_id = newID, gr_household_id = householdID, gr_name = name, gr_icon_key = Some ''folder'',
           gr_color = None, gr_description = None, gr_sort_order = 0,
           gr_created_at = now, gr_updated_at = now, gr_archived_at = None \<rparr>)"

section \<open>Accounts\<close>

record Account =
  a_id :: AccountID
  a_household_id :: HouseholdID
  a_institution_id :: "InstitutionID option"
  a_group_id :: "GroupID option"
  a_name :: string
  a_type :: AccountType
  a_role :: BalanceSheetRole
  a_tracking :: TrackingMode
  a_currency :: CurrencyCode
  a_note :: "string option"
  a_icon_key :: "string option"
  a_in_net_worth :: bool
  a_in_portfolio :: bool
  a_in_liquid_assets :: bool
  a_opened_on :: "string option"
  a_closed_on :: "string option"
  a_sort_order :: int
  a_created_at :: go_time
  a_updated_at :: go_time
  a_archived_at :: "go_time option"

definition Account_IsLiability :: "Account \<Rightarrow> bool" where
  "Account_IsLiability a \<longleftrightarrow> BalanceSheetRole_IsLiability (a_role a)"

text \<open>The fields of \<^verbatim>\<open>AccountInput\<close> that \<^verbatim>\<open>NewAccount\<close> reads (the others steer updates).\<close>

record AccountInput =
  ai_household_id :: HouseholdID
  ai_institution_id :: "InstitutionID option"
  ai_group_id :: "GroupID option"
  ai_name :: string
  ai_type :: AccountType
  ai_role :: BalanceSheetRole
  ai_tracking :: TrackingMode
  ai_currency :: CurrencyCode
  ai_note :: "string option"
  ai_icon_key :: "string option"
  ai_in_net_worth :: bool
  ai_in_portfolio :: bool
  ai_in_liquid_assets :: bool
  ai_opened_on :: "string option"
  ai_closed_on :: "string option"
  ai_sort_order :: int
  ai_ownership :: "OwnershipShare list"
  ai_initial_amount :: string

definition NewAccount ::
    "'d decimal_ops \<Rightarrow> string set \<Rightarrow> AccountID \<Rightarrow> AccountInput \<Rightarrow> go_time \<Rightarrow> (Account \<times> Ownership \<times> 'd money option) res" where
  "NewAccount D bankLogoKeys newID input now =
     res_bind (validateName ''name'' (ai_name input)) (\<lambda>name.
     res_bind (normalizedIconKey bankLogoKeys (ai_icon_key input) []) (\<lambda>iconKey.
     if \<not> IsValidAccountCombination (ai_type input) (ai_role input) (ai_tracking input)
     then Inl (validation ''accountType'' ''is not a valid account combination'')
     else
     res_bind (ParseCurrency (ai_currency input)) (\<lambda>canonicalCurrency.
     res_bind (normalizeDate ''openedOn'' (ai_opened_on input)) (\<lambda>openedOn.
     res_bind (normalizeDate ''closedOn'' (ai_closed_on input)) (\<lambda>closedOn.
     if (case (openedOn, closedOn) of (Some from_d, Some to_d) \<Rightarrow> to_d < from_d | _ \<Rightarrow> False)
     then Inl (validation ''closedOn'' ''cannot be earlier than openedOn'')
     else
     res_bind (ParseOwnership (ai_ownership input)) (\<lambda>ownership.
     res_bind (validateNote ''note'' (ai_note input)) (\<lambda>note.
     res_bind
       (if ai_tracking input = TrackingHoldings then
          if ai_initial_amount input \<noteq> []
          then Inl (validation ''initialAmount'' ''must be empty for Holdings accounts'')
          else Inr None
        else if ai_initial_amount input \<noteq> [] then
          res_bind (ParseMoney D (ai_initial_amount input) canonicalCurrency) (\<lambda>value. Inr (Some value))
        else Inl (validation ''initialAmount'' ''is required for Balance and Manual Value accounts''))
       (\<lambda>initial.
     let now = normalizeTime now in
     Inr (\<lparr> a_id = newID, a_household_id = ai_household_id input, a_institution_id = ai_institution_id input,
            a_group_id = ai_group_id input, a_name = name, a_type = ai_type input, a_role = ai_role input,
            a_tracking = ai_tracking input, a_currency = canonicalCurrency, a_note = note,
            a_icon_key = iconKey, a_in_net_worth = ai_in_net_worth input,
            a_in_portfolio = ai_in_portfolio input, a_in_liquid_assets = ai_in_liquid_assets input,
            a_opened_on = openedOn, a_closed_on = closedOn, a_sort_order = ai_sort_order input,
            a_created_at = now, a_updated_at = now, a_archived_at = None \<rparr>, ownership, initial)))))))))"

record 'd AccountValue =
  av_id :: AccountValueID
  av_account_id :: AccountID
  av_kind :: TrackingMode
  av_amount :: "'d money"
  av_effective_at :: go_time
  av_created_at :: go_time

definition NewAccountValue :: "AccountValueID \<Rightarrow> Account \<Rightarrow> 'd money \<Rightarrow> go_time \<Rightarrow> go_time \<Rightarrow> 'd AccountValue res" where
  "NewAccountValue newID account amount effectiveAt createdAt =
     (if a_tracking account \<noteq> TrackingBalance \<and> a_tracking account \<noteq> TrackingManualValue
      then Inl (validation ''trackingMode'' ''account values are not valid for this tracking mode'')
      else if m_currency amount \<noteq> a_currency account
      then Inl (validation ''amount'' ''currency must match account currency'')
      else Inr \<lparr> av_id = newID, av_account_id = a_id account, av_kind = a_tracking account, av_amount = amount,
             av_effective_at = normalizeTime effectiveAt, av_created_at = normalizeTime createdAt \<rparr>)"

definition AccountEligibleForNetWorth :: "Account \<Rightarrow> bool" where
  "AccountEligibleForNetWorth account \<longleftrightarrow> a_in_net_worth account \<and> a_archived_at account = None"

definition SignedAmount :: "'d decimal_ops \<Rightarrow> Account \<Rightarrow> 'd money \<Rightarrow> 'd res" where
  "SignedAmount D a value =
     (if m_currency value \<noteq> a_currency a then Inl (validation ''amount'' ''currency must match account currency'')
      else if \<not> AccountEligibleForNetWorth a then Inr (d_zero D)
      else if Account_IsLiability a then Inr (d_neg D (m_amount value))
      else Inr (m_amount value))"

section \<open>The table of combinations\<close>

lemma ParseAccountType_String: "t \<in> set AllAccountTypes \<Longrightarrow> ParseAccountType (AccountType_String t) = Inr t"
  unfolding AllAccountTypes_def by (simp, elim disjE; simp) (code_simp+)

lemma IsValid_iff_cases:
  "IsValidAccountCombination t r m \<Longrightarrow> (t, r, m) \<in> set legalAccountCombinations"
  by (simp add: IsValidAccountCombination_def)

lemma default_role_loop_Some:
  "default_role_loop t found xs = Some r \<longleftrightarrow>
     (found = Some r \<or> (found = None \<and> (\<exists>m. (t, r, m) \<in> set xs)))
     \<and> (\<forall>r' m. (t, r', m) \<in> set xs \<longrightarrow> r' = r)"
  by (induction t found xs rule: default_role_loop.induct) auto

definition ordered_dates :: "Account \<Rightarrow> bool" where
  "ordered_dates a \<longleftrightarrow> (\<forall>x y. a_opened_on a = Some x \<longrightarrow> a_closed_on a = Some y \<longrightarrow> x \<le> y)"

lemma NewAccount_Inr:
  assumes "NewAccount D logos i input now = Inr (a, w, initial)"
  shows "IsValidAccountCombination (a_type a) (a_role a) (a_tracking a)" and "valid_currency (a_currency a)"
    and "valid_ownership w" and "ordered_dates a"
    and "a_tracking a = TrackingHoldings \<longleftrightarrow> initial = None"
    and "initial = Some m \<Longrightarrow> ParseMoney D (ai_initial_amount input) (a_currency a) = Inr m"
proof -
  define ini where "ini c =
      (if ai_tracking input = TrackingHoldings then
          if ai_initial_amount input \<noteq> []
          then Inl (validation ''initialAmount'' ''must be empty for Holdings accounts'')
          else Inr None
        else if ai_initial_amount input \<noteq> [] then
          res_bind (ParseMoney D (ai_initial_amount input) c) (\<lambda>value. Inr (Some value))
        else Inl (validation ''initialAmount'' ''is required for Balance and Manual Value accounts''))" for c
  obtain opened closed where f: "IsValidAccountCombination (ai_type input) (ai_role input) (ai_tracking input)"
    "ParseCurrency (ai_currency input) = Inr (a_currency a)" "ParseOwnership (ai_ownership input) = Inr w"
    "\<not> (case (opened, closed) of (Some from_d, Some to_d) \<Rightarrow> to_d < from_d | _ \<Rightarrow> False)"
    "a_type a = ai_type input" "a_role a = ai_role input" "a_tracking a = ai_tracking input"
    "a_opened_on a = opened" "a_closed_on a = closed" "ini (a_currency a) = Inr initial"
    using assms unfolding NewAccount_def Let_def ini_def [symmetric]
    by (elim res_elims) auto
  then show "IsValidAccountCombination (a_type a) (a_role a) (a_tracking a)" "valid_currency (a_currency a)"
    "valid_ownership w"
    using ParseOwnership_valid ParseCurrency_is_valid by simp_all
  show "ordered_dates a" using f(4,8,9) by (auto simp: ordered_dates_def not_less)
  show "a_tracking a = TrackingHoldings \<longleftrightarrow> initial = None"
    "initial = Some m \<Longrightarrow> ParseMoney D (ai_initial_amount input) (a_currency a) = Inr m"
    using f(7,10) by (auto simp: ini_def split: if_splits)
qed

section \<open>Properties of accounts\<close>

text \<open>C40. A created account is well formed: its type, role and tracking mode are a legal
  combination, its currency is canonical, its closing date does not precede its opening date,
  its ownership is a full allocation, and it starts with a valid initial amount in its own
  currency, accepted by \<^verbatim>\<open>NewAccountValue\<close>, exactly unless it is a holdings account.\<close>

theorem NewAccount_well_formed:
  assumes "decimal_lib D" and "NewAccount D logos newID input now = Inr (a, w, initial)"
  shows "IsValidAccountCombination (a_type a) (a_role a) (a_tracking a) \<and> valid_currency (a_currency a)
    \<and> ordered_dates a \<and> valid_ownership w \<and> (initial = None \<longleftrightarrow> a_tracking a = TrackingHoldings)
    \<and> (\<forall>m. initial = Some m \<longrightarrow> valid_money D m \<and> m_currency m = a_currency a
         \<and> is_ok (NewAccountValue valueID a m now now))"
proof -
  note N = NewAccount_Inr [OF assms(2)]
  have "valid_money D m \<and> m_currency m = a_currency a \<and> is_ok (NewAccountValue valueID a m now now)"
    if "initial = Some m" for m
  proof -
    note p = N(6) [OF that]
    have "m_currency m = a_currency a"
      using decimal_lib.ParseMoney_Inr(2) [OF assms(1) p] ParseCurrency_valid [OF N(2)] by simp
    moreover have "a_tracking a = TrackingBalance \<or> a_tracking a = TrackingManualValue"
      using N(1,5) that by (auto simp: IsValidAccountCombination_def legalAccountCombinations_def)
    ultimately show ?thesis
      using decimal_lib.ParseMoney_Inr(1) [OF assms(1) p] by (auto simp: NewAccountValue_def)
  qed
  with N show ?thesis by blast
qed

definition sample_account_input :: AccountInput where
  "sample_account_input =
     \<lparr> ai_household_id = ''h'', ai_institution_id = None, ai_group_id = None, ai_name = '' Savings '',
       ai_type = TypeBankAccount, ai_role = RoleAsset, ai_tracking = TrackingBalance, ai_currency = ''eur'',
       ai_note = None, ai_icon_key = None, ai_in_net_worth = True, ai_in_portfolio = False,
       ai_in_liquid_assets = True, ai_opened_on = Some ''2020-01-31'', ai_closed_on = Some ''2021-02-28'',
       ai_sort_order = 0, ai_ownership = [\<lparr> os_member = sample_member (CHR ''a''), os_bps = 10000 \<rparr>],
       ai_initial_amount = ''12.5'' \<rparr>"

theorem NewAccount_well_formed_witness:
  "(case NewAccount ref_decimal {} ''id'' sample_account_input 0 of
      Inr (a, w, initial) \<Rightarrow> a_currency a = ''EUR'' \<and> ordered_dates a \<and> valid_ownership w
    | Inl e \<Rightarrow> False)"
proof -
  have "map_sum (\<lambda>_. ()) (\<lambda>(a, w, initial). a_currency a) (NewAccount ref_decimal {} ''id'' sample_account_input 0) = Inr ''EUR''"
    by code_simp
  then show ?thesis
    using NewAccount_well_formed [OF ref.decimal_lib_axioms, of "{}" "''id''" sample_account_input 0]
    by (auto split: sum.splits prod.splits)
qed

text \<open>Classification of accounts without components is total and consistent: it succeeds
  exactly on legal combinations not tracked by holdings, keeps the role, and puts liabilities,
  and only them, into the three liability buckets.\<close>

theorem ClassifySimpleAccount_total:
  "(is_ok (ClassifySimpleAccount t r mode) \<longleftrightarrow> IsValidAccountCombination t r mode \<and> mode \<noteq> TrackingHoldings)
   \<and> (\<forall>c. ClassifySimpleAccount t r mode = Inr c \<longrightarrow> ac_role c = r \<and> \<not> ac_incomplete c
       \<and> (r = RoleLiability \<longleftrightarrow> ac_bucket c \<in> {''credit_card'', ''loan'', ''other_liability''}))"
  by (auto simp: ClassifySimpleAccount_def IsValidAccountCombination_def legalAccountCombinations_def is_ok_iff Let_def)

theorem ClassifySimpleAccount_total_witness:
  "is_ok (ClassifySimpleAccount TypeLoan RoleLiability TrackingBalance)"
  using ClassifySimpleAccount_total [of TypeLoan RoleLiability TrackingBalance]
  by (simp add: IsValidAccountCombination_def legalAccountCombinations_def)

text \<open>The default role of an account type is the one role that all its legal combinations
  share, and only the catch-all type has none; every account type has a legal combination with a
  balance or a manual value or holdings, and parsing its text gives it back.\<close>

theorem DefaultBalanceSheetRole_correct:
  "(DefaultBalanceSheetRole t = Some r \<longleftrightarrow>
      t \<noteq> TypeOther \<and> (\<exists>mode. IsValidAccountCombination t r mode)
      \<and> (\<forall>r' mode. IsValidAccountCombination t r' mode \<longrightarrow> r' = r))
   \<and> (\<forall>u \<in> set AllAccountTypes. (DefaultBalanceSheetRole u = None \<longleftrightarrow> u = TypeOther)
        \<and> ParseAccountType (AccountType_String u) = Inr u)"
proof -
  have "\<forall>u \<in> set AllAccountTypes. DefaultBalanceSheetRole u = None \<longleftrightarrow> u = TypeOther" by code_simp
  then show ?thesis
    by (auto simp: DefaultBalanceSheetRole_def IsValidAccountCombination_def default_role_loop_Some ParseAccountType_String)
qed

theorem DefaultBalanceSheetRole_correct_witness:
  "DefaultBalanceSheetRole TypeLoan = Some RoleLiability \<and> ParseAccountType ''loan'' = Inr TypeLoan"
proof
  show "DefaultBalanceSheetRole TypeLoan = Some RoleLiability"
    using DefaultBalanceSheetRole_correct [of TypeLoan RoleLiability]
    by (auto simp: IsValidAccountCombination_def legalAccountCombinations_def)
  show "ParseAccountType ''loan'' = Inr TypeLoan"
    using DefaultBalanceSheetRole_correct [of TypeLoan RoleLiability] by (simp add: AllAccountTypes_def)
qed

end
