(* ===== verification/Portfolio.thy ===== *)
theory Portfolio
  imports Accounts
begin

text \<open>
  Instruments, holdings, instrument quotes and quote filters (\<^verbatim>\<open>internal/domain/portfolio.go\<close>), the
  precious metal rules (\<^verbatim>\<open>precious_metal.go\<close>), grouping of holdings (\<^verbatim>\<open>holding_groups.go\<close>) and the
  classification of account components (\<^verbatim>\<open>account_type.go\<close>).  The Unicode case tables behind
  \<^verbatim>\<open>strings.ToUpper\<close> and \<^verbatim>\<open>strings.ToLower\<close> are the arguments \<^term>\<open>upper\<close> and \<^term>\<open>lower\<close>.
\<close>

section \<open>Enumerations\<close>

datatype InstrumentType =
    InstrumentStock | InstrumentETF | InstrumentMutualFund | InstrumentCrypto | InstrumentBond
  | InstrumentPreciousMetal | InstrumentBankInvestmentProduct | InstrumentOther | InstrumentType_unknown string

fun InstrumentType_string :: "InstrumentType \<Rightarrow> string" where
  "InstrumentType_string InstrumentStock = ''stock''"
| "InstrumentType_string InstrumentETF = ''etf''"
| "InstrumentType_string InstrumentMutualFund = ''mutual_fund''"
| "InstrumentType_string InstrumentCrypto = ''crypto''"
| "InstrumentType_string InstrumentBond = ''bond''"
| "InstrumentType_string InstrumentPreciousMetal = ''precious_metal''"
| "InstrumentType_string InstrumentBankInvestmentProduct = ''bank_investment_product''"
| "InstrumentType_string InstrumentOther = ''other''"
| "InstrumentType_string (InstrumentType_unknown s) = s"

definition AllInstrumentTypes :: "InstrumentType list" where
  "AllInstrumentTypes =
     [InstrumentStock, InstrumentETF, InstrumentMutualFund, InstrumentCrypto, InstrumentBond,
      InstrumentPreciousMetal, InstrumentBankInvestmentProduct, InstrumentOther]"

definition ParseInstrumentType :: "string \<Rightarrow> InstrumentType res" where
  "ParseInstrumentType value =
     (case find (\<lambda>t. trim_space value = InstrumentType_string t) AllInstrumentTypes of
        Some t \<Rightarrow> Inr t
      | None \<Rightarrow> Inl (validation ''instrumentType'' ''is not supported''))"

fun DefaultInstrumentIcon :: "InstrumentType \<Rightarrow> string" where
  "DefaultInstrumentIcon InstrumentStock = ''stock''"
| "DefaultInstrumentIcon InstrumentETF = ''pie-chart''"
| "DefaultInstrumentIcon InstrumentMutualFund = ''chart''"
| "DefaultInstrumentIcon InstrumentCrypto = ''bitcoin''"
| "DefaultInstrumentIcon InstrumentBond = ''document''"
| "DefaultInstrumentIcon InstrumentPreciousMetal = ''gem''"
| "DefaultInstrumentIcon InstrumentBankInvestmentProduct = ''bank''"
| "DefaultInstrumentIcon InstrumentOther = ''investment''"
| "DefaultInstrumentIcon (InstrumentType_unknown s) = []"

datatype QuoteSourceFilter =
    QuoteSourceFilterAll | QuoteSourceFilterManual | QuoteSourceFilterProvider | QuoteSourceFilterAgent
  | QuoteSourceFilter_unknown string

definition ParseQuoteSourceFilter :: "string \<Rightarrow> QuoteSourceFilter res" where
  "ParseQuoteSourceFilter value =
     (let filter_text = trim_space value in
      if filter_text = [] then Inr QuoteSourceFilterAll
      else if filter_text = ''all'' then Inr QuoteSourceFilterAll
      else if filter_text = ''manual'' then Inr QuoteSourceFilterManual
      else if filter_text = ''provider'' then Inr QuoteSourceFilterProvider
      else if filter_text = ''agent'' then Inr QuoteSourceFilterAgent
      else Inl (validation ''sourceFilter'' ''quote source filter is not supported''))"

fun QuoteSourceFilter_SourceKind :: "QuoteSourceFilter \<Rightarrow> QuoteSourceKind option" where
  "QuoteSourceFilter_SourceKind QuoteSourceFilterManual = Some QuoteSourceManual"
| "QuoteSourceFilter_SourceKind QuoteSourceFilterProvider = Some QuoteSourceProvider"
| "QuoteSourceFilter_SourceKind QuoteSourceFilterAgent = Some QuoteSourceAgent"
| "QuoteSourceFilter_SourceKind QuoteSourceFilterAll = None"
| "QuoteSourceFilter_SourceKind (QuoteSourceFilter_unknown s) = None"

datatype HoldingGroupKey =
    HoldingGroupStock | HoldingGroupFund | HoldingGroupBond | HoldingGroupBankWealth
  | HoldingGroupMetal | HoldingGroupCrypto | HoldingGroupCashLike | HoldingGroupOther

definition HoldingGroupOrder :: "HoldingGroupKey list" where
  "HoldingGroupOrder =
     [HoldingGroupStock, HoldingGroupFund, HoldingGroupBond, HoldingGroupBankWealth,
      HoldingGroupMetal, HoldingGroupCrypto, HoldingGroupCashLike, HoldingGroupOther]"

definition HoldingGroupFor :: "InstrumentType \<Rightarrow> bool \<Rightarrow> HoldingGroupKey" where
  "HoldingGroupFor instrumentType managed =
     (if managed then HoldingGroupCashLike
      else case instrumentType of
          InstrumentStock \<Rightarrow> HoldingGroupStock
        | InstrumentETF \<Rightarrow> HoldingGroupFund
        | InstrumentMutualFund \<Rightarrow> HoldingGroupFund
        | InstrumentBond \<Rightarrow> HoldingGroupBond
        | InstrumentBankInvestmentProduct \<Rightarrow> HoldingGroupBankWealth
        | InstrumentPreciousMetal \<Rightarrow> HoldingGroupMetal
        | InstrumentCrypto \<Rightarrow> HoldingGroupCrypto
        | _ \<Rightarrow> HoldingGroupOther)"

section \<open>Labels\<close>

text \<open>Go's white space together with the byte order mark U+FEFF.\<close>

definition trimInstrumentLabel :: "string \<Rightarrow> string" where
  "trimInstrumentLabel = strip_both (space_encodings @ [bytes [0xEF, 0xBB, 0xBF]])"

definition InstrumentDisplayLabel :: "string \<Rightarrow> string \<Rightarrow> string list \<Rightarrow> string" where
  "InstrumentDisplayLabel name symbol shortName =
     (if shortName \<noteq> [] \<and> trimInstrumentLabel (hd shortName) \<noteq> [] then trimInstrumentLabel (hd shortName)
      else if trimInstrumentLabel symbol \<noteq> [] then trimInstrumentLabel symbol
      else trimInstrumentLabel name)"

text \<open>The loop of \<^verbatim>\<open>InstrumentSelectionLabel\<close>: the labels seen so far and the labels collected.\<close>

fun selection_loop :: "string list \<Rightarrow> string set \<Rightarrow> string list \<Rightarrow> string list" where
  "selection_loop [] seen labels = labels"
| "selection_loop (value # vals) seen labels =
     (let v = trimInstrumentLabel value in
      if v \<noteq> [] \<and> v \<notin> seen then selection_loop vals (insert v seen) (labels @ [v])
      else selection_loop vals seen labels)"

definition middle_dot :: string where
  "middle_dot = bytes [0x20, 0xC2, 0xB7, 0x20]"

definition InstrumentSelectionLabel :: "string \<Rightarrow> string \<Rightarrow> string \<Rightarrow> string list \<Rightarrow> string" where
  "InstrumentSelectionLabel name symbol shortName identity =
     join middle_dot
       (selection_loop ([InstrumentDisplayLabel name symbol [shortName], symbol, name] @ identity) {} [])"

definition NormalizeInstrumentShortName :: "string \<Rightarrow> string res" where
  "NormalizeInstrumentShortName value =
     (let v = trimInstrumentLabel value in
      if 120 < rune_count v then Inl (validation ''shortName'' ''must be at most 120 characters'')
      else Inr v)"

section \<open>Instruments\<close>

record Instrument =
  i_id :: InstrumentID
  i_household_id :: HouseholdID
  i_name :: string
  i_short_name :: string
  i_type :: InstrumentType
  i_metal_template :: string
  i_quantity_unit :: string
  i_quote_currency :: CurrencyCode
  i_symbol :: "string option"
  i_market_code :: "string option"
  i_country_code :: "string option"
  i_isin :: "string option"
  i_note :: "string option"
  i_icon_key :: "string option"
  i_sort_order :: int
  i_quote_source :: QuoteSourceKind
  i_provider_key :: "string option"
  i_provider_symbol :: "string option"
  i_binding_revision :: int
  i_preference_observation_id :: "string option"
  i_created_at :: go_time
  i_updated_at :: go_time
  i_archived_at :: "go_time option"

record InstrumentInput =
  ii_metal_template :: string
  ii_quantity_unit :: string
  ii_household_id :: HouseholdID
  ii_name :: string
  ii_short_name :: string
  ii_type :: InstrumentType
  ii_quote_currency :: CurrencyCode
  ii_symbol :: "string option"
  ii_market_code :: "string option"
  ii_country_code :: "string option"
  ii_isin :: "string option"
  ii_note :: "string option"
  ii_icon_key :: "string option"
  ii_sort_order :: int
  ii_quote_source :: QuoteSourceKind
  ii_provider_key :: "string option"
  ii_provider_symbol :: "string option"

definition stringPointerValue :: "string option \<Rightarrow> string" where
  "stringPointerValue value = (case value of None \<Rightarrow> [] | Some s \<Rightarrow> s)"

definition Instrument_DisplayLabel :: "Instrument \<Rightarrow> string" where
  "Instrument_DisplayLabel i =
     InstrumentDisplayLabel (i_name i) (case i_symbol i of None \<Rightarrow> [] | Some s \<Rightarrow> s) [i_short_name i]"

definition Instrument_SelectionLabel :: "Instrument \<Rightarrow> string" where
  "Instrument_SelectionLabel i =
     InstrumentSelectionLabel (i_name i) (stringPointerValue (i_symbol i)) (i_short_name i)
       [stringPointerValue (i_market_code i), i_quote_currency i, stringPointerValue (i_isin i),
        i_quantity_unit i, stringPointerValue (i_provider_key i), stringPointerValue (i_provider_symbol i)]"

abbreviation "CoinGeckoProviderKey \<equiv> ''coingecko''"
abbreviation "YahooFinanceProviderKey \<equiv> ''yahoo_finance''"
abbreviation "MetalFuturesMarket \<equiv> ''COMEX''"

definition MetalProviderSymbol :: "string \<Rightarrow> string" where
  "MetalProviderSymbol template =
     (if template = ''gold'' then ''GC=F'' else if template = ''silver'' then ''SI=F'' else [])"

definition default_text :: "string option \<Rightarrow> string \<Rightarrow> string option" where
  "default_text value d = (if (case value of None \<Rightarrow> True | Some s \<Rightarrow> trim_space s = []) then Some d else value)"

definition applyMetalTemplateDefaults :: "InstrumentInput \<Rightarrow> InstrumentInput" where
  "applyMetalTemplateDefaults input =
     (if MetalProviderSymbol (ii_metal_template input) = [] then input
      else input \<lparr> ii_provider_key := default_text (ii_provider_key input) YahooFinanceProviderKey,
                  ii_provider_symbol := default_text (ii_provider_symbol input) (MetalProviderSymbol (ii_metal_template input)),
                  ii_market_code := default_text (ii_market_code input) MetalFuturesMarket \<rparr>)"

definition ValidateMetalConfiguration :: "InstrumentInput \<Rightarrow> unit res" where
  "ValidateMetalConfiguration input =
     (if ii_metal_template input = [] then
        (if ii_quantity_unit input \<noteq> [] then Inl (validation ''quantityUnit'' ''a metal template is required'')
         else Inr ())
      else if ii_type input \<noteq> InstrumentPreciousMetal \<or> MetalProviderSymbol (ii_metal_template input) = []
      then Inl (validation ''metalTemplate'' ''unsupported precious metal template'')
      else if ii_quantity_unit input \<noteq> ''g'' \<and> ii_quantity_unit input \<noteq> ''troy_oz''
      then Inl (validation ''quantityUnit'' ''select grams or troy ounces'')
      else if ii_market_code input \<noteq> Some MetalFuturesMarket
      then Inl (validation ''marketCode'' ''metal templates use COMEX reference prices'')
      else if ii_provider_key input \<noteq> Some YahooFinanceProviderKey
        \<or> ii_provider_symbol input \<noteq> Some (MetalProviderSymbol (ii_metal_template input))
      then Inl (validation ''providerSymbol'' ''metal templates require their Yahoo futures symbol'')
      else Inr ())"

definition UsesMetalConversion :: "Instrument \<Rightarrow> bool" where
  "UsesMetalConversion i \<longleftrightarrow> i_type i = InstrumentPreciousMetal \<and> MetalProviderSymbol (i_metal_template i) \<noteq> []"

definition ConvertMetalPrice :: "'d decimal_ops \<Rightarrow> 'd unit_price \<Rightarrow> string \<Rightarrow> 'd \<Rightarrow> 'd unit_price res" where
  "ConvertMetalPrice D raw unit_text usdRate =
     (if \<not> d_greater_than D usdRate (d_zero D) then Inl (validation ''fxRate'' ''exchange rate must be positive'')
      else
        let value = d_mul D (u_value raw) usdRate in
        if unit_text = ''g'' then UnitPriceFromExact D (d_div_round D value (require_from_string D ''31.1034768'') 24)
        else if unit_text = ''troy_oz'' then UnitPriceFromExact D value
        else Inl (validation ''quantityUnit'' ''unsupported weight unit''))"

definition normalizePortfolioText ::
    "(string \<Rightarrow> string) \<Rightarrow> string \<Rightarrow> string option \<Rightarrow> nat \<Rightarrow> bool \<Rightarrow> string option res" where
  "normalizePortfolioText upper field value maxRunes up =
     (case value of
        None \<Rightarrow> Inr None
      | Some s \<Rightarrow>
          let trimmed = trim_space s in
          if trimmed = [] then Inr None
          else if maxRunes < rune_count trimmed then Inl (validation field ''is too long'')
          else Inr (Some (if up then upper trimmed else trimmed)))"

definition normalizeCountryCode :: "(string \<Rightarrow> string) \<Rightarrow> string option \<Rightarrow> string option res" where
  "normalizeCountryCode upper value =
     res_bind (normalizePortfolioText upper ''countryCode'' value 2 True) (\<lambda>country.
       case country of
         None \<Rightarrow> Inr None
       | Some c \<Rightarrow>
           if \<not> list_all upper_letter c \<or> length c \<noteq> 2
           then Inl (validation ''countryCode'' ''must contain two uppercase letters'')
           else Inr (Some c))"

text \<open>
  \<^verbatim>\<open>NewInstrument\<close> with its checks in source order.  The provider symbol step is separate: it
  returns the symbol and the market code, which a CoinGecko symbol overrides.
\<close>

definition provider_symbol_step ::
    "(string \<Rightarrow> string) \<Rightarrow> (string \<Rightarrow> string) \<Rightarrow> InstrumentType \<Rightarrow> string option \<Rightarrow> string option \<Rightarrow> string option
     \<Rightarrow> (string option \<times> string option) res" where
  "provider_symbol_step upper lower instrumentType providerKey providerSymbol marketCode =
     (case providerSymbol of
        None \<Rightarrow> Inr (None, marketCode)
      | Some symbol \<Rightarrow>
          if providerKey = Some CoinGeckoProviderKey then
            if instrumentType \<noteq> InstrumentCrypto
            then Inl (validation ''providerKey'' ''CoinGecko only supports cryptocurrencies'')
            else Inr (Some (lower symbol), Some ''CRYPTO'')
          else Inr (Some (upper symbol), marketCode))"

definition NewInstrument ::
    "(string \<Rightarrow> string) \<Rightarrow> (string \<Rightarrow> string) \<Rightarrow> string set \<Rightarrow> InstrumentID \<Rightarrow> InstrumentInput \<Rightarrow> go_time \<Rightarrow> Instrument res" where
  "NewInstrument upper lower bankLogoKeys newID original now =
     res_bind (validateName ''name'' (ii_name original)) (\<lambda>name.
     res_bind (NormalizeInstrumentShortName (ii_short_name original)) (\<lambda>shortName.
     let input = applyMetalTemplateDefaults original in
     res_bind (ValidateMetalConfiguration input) (\<lambda>_.
     res_bind (ParseInstrumentType (InstrumentType_string (ii_type input))) (\<lambda>instrumentType.
     res_bind (normalizedIconKey bankLogoKeys (ii_icon_key input) (DefaultInstrumentIcon instrumentType)) (\<lambda>iconKey.
     res_bind (map_err (\<lambda>_. validation ''quoteCurrency'' ''must be a valid currency'')
       (ParseCurrency (ii_quote_currency input))) (\<lambda>currency.
     res_bind (ParseQuoteSourceKind (QuoteSourceKind_string
       (if ii_quote_source input = QuoteSourceOther [] then QuoteSourceManual else ii_quote_source input))) (\<lambda>quoteSource.
     res_bind (normalizePortfolioText upper ''symbol'' (ii_symbol input) 64 True) (\<lambda>symbol.
     res_bind (normalizePortfolioText upper ''marketCode'' (ii_market_code input) 32 True) (\<lambda>marketText.
     let marketCode = map_option upper marketText in
     res_bind (normalizeCountryCode upper (ii_country_code input)) (\<lambda>countryCode.
     res_bind (normalizePortfolioText upper ''isin'' (ii_isin input) 32 True) (\<lambda>isinText.
     let isin = map_option upper isinText in
     res_bind (validateNote ''note'' (ii_note input)) (\<lambda>note.
     res_bind (normalizePortfolioText upper ''providerKey'' (ii_provider_key input) 64 False) (\<lambda>keyText.
     let providerKey = map_option lower keyText in
     res_bind (normalizePortfolioText upper ''providerSymbol'' (ii_provider_symbol input) 128 True) (\<lambda>symbolText.
     res_bind (provider_symbol_step upper lower instrumentType providerKey symbolText marketCode)
       (\<lambda>(providerSymbol, marketCode).
     if quoteSource = QuoteSourceProvider \<and> (providerKey = None \<or> providerSymbol = None)
     then Inl (validation ''provider'' ''provider key and symbol are required when Provider is selected'')
     else
     let now = normalizeTime now in
     Inr \<lparr> i_id = newID, i_household_id = ii_household_id input, i_name = name, i_short_name = shortName,
           i_type = instrumentType, i_metal_template = ii_metal_template input,
           i_quantity_unit = ii_quantity_unit input, i_quote_currency = currency, i_symbol = symbol,
           i_market_code = marketCode, i_country_code = countryCode, i_isin = isin, i_note = note,
           i_icon_key = iconKey, i_sort_order = ii_sort_order input, i_quote_source = quoteSource,
           i_provider_key = providerKey, i_provider_symbol = providerSymbol, i_binding_revision = 0,
           i_preference_observation_id = None, i_created_at = now, i_updated_at = now, i_archived_at = None \<rparr>)))))))))))))))"

section \<open>Holdings and quotes\<close>

record 'd Holding =
  h_id :: HoldingID
  h_account_id :: AccountID
  h_instrument_id :: InstrumentID
  h_quantity :: "'d quantity"
  h_note :: "string option"
  h_sort_order :: int
  h_created_at :: go_time
  h_updated_at :: go_time
  h_archived_at :: "go_time option"

definition NewHolding ::
    "HoldingID \<Rightarrow> AccountID \<Rightarrow> InstrumentID \<Rightarrow> 'd quantity \<Rightarrow> string option \<Rightarrow> int \<Rightarrow> go_time \<Rightarrow> 'd Holding res" where
  "NewHolding newID accountID instrumentID quantity note sortOrder now =
     res_bind (map_err (\<lambda>_. validation ''accountId'' ''must be a valid account ID'') (ParseAccountID accountID)) (\<lambda>_.
     res_bind (map_err (\<lambda>_. validation ''instrumentId'' ''must be a valid instrument ID'') (ParseInstrumentID instrumentID)) (\<lambda>_.
     res_bind (validateNote ''note'' note) (\<lambda>note.
     let now = normalizeTime now in
     Inr \<lparr> h_id = newID, h_account_id = accountID, h_instrument_id = instrumentID, h_quantity = quantity,
           h_note = note, h_sort_order = sortOrder, h_created_at = now, h_updated_at = now, h_archived_at = None \<rparr>)))"

definition NewHoldingForAccount ::
    "HoldingID \<Rightarrow> Account \<Rightarrow> Instrument \<Rightarrow> 'd quantity \<Rightarrow> string option \<Rightarrow> int \<Rightarrow> go_time \<Rightarrow> 'd Holding res" where
  "NewHoldingForAccount newID account instrument quantity note sortOrder now =
     (if a_tracking account \<noteq> TrackingHoldings
      then Inl (validation ''trackingMode'' ''Holdings must belong to a Holdings account'')
      else if a_type account = TypeCashOnHand
      then Inl (validation ''accountType'' ''Cash on hand accounts can only contain cash balances'')
      else if a_household_id account \<noteq> i_household_id instrument
      then Inl (validation ''householdId'' ''account and instrument must belong to the same Household'')
      else NewHolding newID (a_id account) (i_id instrument) quantity note sortOrder now)"

definition Holding_ReplaceQuantity :: "'d Holding \<Rightarrow> 'd quantity \<Rightarrow> go_time \<Rightarrow> 'd Holding" where
  "Holding_ReplaceQuantity h quantity now = h \<lparr> h_quantity := quantity, h_updated_at := normalizeTime now \<rparr>"

record 'd InstrumentQuote =
  iq_id :: string
  iq_instrument_id :: InstrumentID
  iq_unit_price :: "'d unit_price"
  iq_currency :: CurrencyCode
  iq_source_kind :: QuoteSourceKind
  iq_source_key :: string
  iq_quoted_at :: go_time
  iq_created_at :: go_time
  iq_delayed :: bool

record 'd InstrumentQuoteInput =
  iqi_unit_price :: "'d unit_price"
  iqi_currency :: CurrencyCode
  iqi_source_kind :: QuoteSourceKind
  iqi_source_key :: string
  iqi_quoted_at :: go_time
  iqi_delayed :: bool

text \<open>The remaining fields of an \<^verbatim>\<open>InstrumentQuote\<close> keep their zero values here.\<close>

definition NewInstrumentQuote ::
    "string \<Rightarrow> Instrument \<Rightarrow> 'd InstrumentQuoteInput \<Rightarrow> go_time \<Rightarrow> 'd InstrumentQuote res" where
  "NewInstrumentQuote newID instrument input createdAt =
     res_bind (normalizeQuoteSource (iqi_source_kind input) (iqi_source_key input)) (\<lambda>(source, sourceKey).
     res_bind (if iqi_currency input \<noteq> []
               then map_err (\<lambda>_. validation ''currency'' ''must be a valid currency'') (ParseCurrency (iqi_currency input))
               else Inr (i_quote_currency instrument)) (\<lambda>currency.
     if currency \<noteq> i_quote_currency instrument
     then Inl (validation ''currency'' ''must match instrument quote currency'')
     else Inr \<lparr> iq_id = newID, iq_instrument_id = i_id instrument, iq_unit_price = iqi_unit_price input,
            iq_currency = currency, iq_source_kind = source, iq_source_key = sourceKey,
            iq_quoted_at = normalizeTime (iqi_quoted_at input), iq_created_at = normalizeTime createdAt,
            iq_delayed = iqi_delayed input \<rparr>))"

section \<open>Classification of components\<close>

definition ClassifyCashBalance :: "Account \<Rightarrow> AssetClass" where
  "ClassifyCashBalance account =
     \<lparr> ac_role = a_role account, ac_bucket = ''cash'', ac_incomplete = False, ac_missing_instrument = False, ac_basis = [] \<rparr>"

definition ClassifyHolding :: "Account \<Rightarrow> Instrument option \<Rightarrow> AssetClass" where
  "ClassifyHolding account instrument =
     (case instrument of
        None \<Rightarrow> \<lparr> ac_role = a_role account, ac_bucket = [], ac_incomplete = True, ac_missing_instrument = True, ac_basis = [] \<rparr>
      | Some i \<Rightarrow> \<lparr> ac_role = a_role account, ac_bucket = InstrumentType_string (i_type i),
          ac_incomplete = False, ac_missing_instrument = False, ac_basis = [] \<rparr>)"

definition ClassifyAccountComponent :: "Account \<Rightarrow> Instrument option \<Rightarrow> bool \<Rightarrow> AssetClass res" where
  "ClassifyAccountComponent account instrument cash =
     (if a_tracking account = TrackingHoldings then
        (if cash then Inr (ClassifyCashBalance account) else Inr (ClassifyHolding account instrument))
      else ClassifySimpleAccount (a_type account) (a_role account) (a_tracking account))"

section \<open>Selection labels\<close>

lemma selection_loop_set:
  assumes "distinct labels" and "set labels = seen" and "[] \<notin> seen"
  shows "distinct (selection_loop vals seen labels)
    \<and> set (selection_loop vals seen labels) = seen \<union> (trimInstrumentLabel ` set vals - {[]})"
  using assms
proof (induction vals arbitrary: seen labels)
  case (Cons x vals)
  let ?v = "trimInstrumentLabel x"
  show ?case
  proof (cases "?v \<noteq> [] \<and> ?v \<notin> seen")
    case True
    with Cons.prems Cons.IH [of "labels @ [?v]" "insert ?v seen"] show ?thesis by (auto simp: Let_def)
  next
    case False
    with Cons.prems Cons.IH [of labels seen] show ?thesis by (auto simp: Let_def)
  qed
qed simp

lemma selection_loop_prefix: "\<exists>rest. selection_loop vals seen labels = labels @ rest"
proof (induction vals arbitrary: seen labels)
  case (Cons x vals)
  then show ?case by (auto simp: Let_def) (metis append.assoc)
qed simp

lemma trimInstrumentLabel_idem [simp]: "trimInstrumentLabel (trimInstrumentLabel v) = trimInstrumentLabel v"
  by (simp add: trimInstrumentLabel_def)

lemma InstrumentDisplayLabel_trim [simp]:
  "trimInstrumentLabel (InstrumentDisplayLabel n s ss) = InstrumentDisplayLabel n s ss"
  by (simp add: InstrumentDisplayLabel_def)

section \<open>Metal prices\<close>

lemma troy_ounce_text:
  "decimal_syntax 2 7 ''31.1034768''" "syntax_value ''31.1034768'' = 311034768 / 10 ^ 7"
  by code_simp (simp add: syntax_value_def is_digit_iff string_nat_def digit_val_def)

text \<open>Grams: the quotient by 31.1034768 has no midpoint within the error of its 24 places.\<close>

lemma gram_quotient_rounding:
  assumes v: "on_grid 20 v" and q: "\<bar>q - v / (311034768 / 10 ^ 7)\<bar> \<le> 1 / (2 * 10 ^ 24)"
    and e: "on_grid 24 (v / (311034768 / 10 ^ 7)) \<Longrightarrow> q = v / (311034768 / 10 ^ 7)"
  shows "half_even 8 q = half_even 8 (v / (311034768 / 10 ^ 7))"
proof -
  obtain k :: int where k: "v = of_int k / 10 ^ 20" using v by (rule on_gridE)
  show ?thesis
  proof (rule half_even_approx)
    show "(0::int) < 311034768 * 10 ^ 5" by simp
    show "v / (311034768 / 10 ^ 7) * 10 ^ 8 = of_int k / of_int (311034768 * 10 ^ 5)"
      by (simp add: k)
    show "\<bar>q - v / (311034768 / 10 ^ 7)\<bar> < 1 / (2 * of_int (311034768 * 10 ^ 5) * 10 ^ 8)"
      by (rule le_less_trans [OF q]) simp
  next
    let ?x = "v / (311034768 / 10 ^ 7)"
    fix k :: int assume "?x * 10 ^ 8 = of_int k + 1/2"
    moreover have "?x * 10 ^ 24 = 10 ^ 16 * (?x * 10 ^ 8)" by simp
    ultimately have "?x * 10 ^ 24 = of_int (10 ^ 16 * k + 5 * 10 ^ 15)" by (simp only:) simp
    then show "q = ?x" by (intro e) (metis on_grid_iff Ints_of_int)
  qed
qed

context decimal_lib
begin

lemma UnitPriceFromExact_Inr:
  assumes "UnitPriceFromExact D v = Inr p"
  shows "d_val D (u_value p) = half_even 8 (d_val D v) \<and> valid_unit_price D p"
proof (cases "scaled D 8 v")
  case True
  then have "fst (decimalShape D v) \<le> 8" using scale_shape [of v 8] by simp
  then show ?thesis
    using assms scaled_grid [OF True]
    by (auto simp: UnitPriceFromExact_def NewUnitPrice_iff half_even_on_grid split: prod.splits)
next
  case False
  then have "8 < fst (decimalShape D v)" using scale_shape [of v 8] by simp
  then show ?thesis
    using assms by (auto simp: UnitPriceFromExact_def NewUnitPrice_iff val_round_bank split: prod.splits)
qed

lemma troy_ounce_val: "d_val D (require_from_string D ''31.1034768'') = 311034768 / 10 ^ 7"
  using from_string [OF troy_ounce_text(1)] troy_ounce_text(2) by (auto simp: require_from_string_def)

lemma ConvertMetalPrice_val:
  assumes "valid_unit_price D raw" and "scaled D 12 rate" and "ConvertMetalPrice D raw u rate = Inr p"
  shows "valid_unit_price D p
    \<and> d_val D (u_value p) = half_even 8 (if u = ''g'' then d_val D (u_value raw) * d_val D rate / (311034768 / 10 ^ 7)
        else d_val D (u_value raw) * d_val D rate)"
proof (cases "u = ''g''")
  case False
  with assms(3) have "UnitPriceFromExact D (d_mul D (u_value raw) rate) = Inr p"
    by (auto simp: ConvertMetalPrice_def Let_def split: if_splits)
  from UnitPriceFromExact_Inr [OF this] False show ?thesis by (simp add: val_mul)
next
  case True
  let ?v = "d_mul D (u_value raw) rate" and ?t = "require_from_string D ''31.1034768''"
  have t: "d_val D ?t \<noteq> 0" by (simp add: troy_ounce_val)
  from True assms(3) have "UnitPriceFromExact D (d_div_round D ?v ?t 24) = Inr p"
    by (auto simp: ConvertMetalPrice_def Let_def split: if_splits)
  note u = UnitPriceFromExact_Inr [OF this]
  have "scaled D (8 + 12) ?v"
    using assms(1,2) scaled_mul [of 8 "u_value raw" 12 rate] by (auto simp: valid_unit_price_def scaled_def val_mul)
  then have "on_grid 20 (d_val D ?v)" using scaled_grid [of 20 ?v] by simp
  then have "half_even 8 (d_val D (d_div_round D ?v ?t 24)) = half_even 8 (d_val D ?v / (311034768 / 10 ^ 7))"
    using val_div_round [OF t, of ?v 24] div_round_exact [OF t, of 24 ?v]
    by (intro gram_quotient_rounding) (simp_all only: troy_ounce_val)
  with u True show ?thesis by (simp add: val_mul)
qed

end

section \<open>Properties of instruments\<close>

text \<open>A selection label joins the trimmed display label, symbol, name and identity texts
  without empty or repeated parts, keeps every part that is not empty, and starts with the
  display label.\<close>

theorem InstrumentSelectionLabel_parts:
  shows "\<exists>parts. InstrumentSelectionLabel name symbol shortName identity = join middle_dot parts
    \<and> distinct parts \<and> set parts = trimInstrumentLabel ` set ([shortName, symbol, name] @ identity) - {[]}
    \<and> (InstrumentDisplayLabel name symbol [shortName] \<noteq> [] \<longrightarrow>
         parts \<noteq> [] \<and> hd parts = InstrumentDisplayLabel name symbol [shortName])"
proof -
  let ?d = "InstrumentDisplayLabel name symbol [shortName]" and ?vals = "[symbol, name] @ identity"
  let ?parts = "selection_loop (?d # ?vals) {} []"
  have "distinct ?parts" "set ?parts = trimInstrumentLabel ` set (?d # ?vals) - {[]}"
    using selection_loop_set [of "[]" "{}" "?d # ?vals"] by auto
  moreover have "trimInstrumentLabel ` set (?d # ?vals) - {[]} = trimInstrumentLabel ` set ([shortName] @ ?vals) - {[]}"
    by (auto simp: InstrumentDisplayLabel_def)
  moreover have "?parts \<noteq> [] \<and> hd ?parts = ?d" if "?d \<noteq> []"
    using selection_loop_prefix [of ?vals "{?d}" "[?d]"] that by (auto simp: Let_def simp del: selection_loop.simps(2)) (auto simp: Let_def)
  ultimately show ?thesis
    by (intro exI [of _ ?parts]) (simp add: InstrumentSelectionLabel_def)
qed

theorem InstrumentSelectionLabel_parts_witness:
  "\<exists>parts. InstrumentSelectionLabel ''Apple Inc'' ''AAPL'' ''AAPL'' [''USD''] = join middle_dot parts \<and> hd parts = ''AAPL''"
proof -
  have "InstrumentDisplayLabel ''Apple Inc'' ''AAPL'' [''AAPL''] = ''AAPL''" by code_simp
  with InstrumentSelectionLabel_parts [of "''Apple Inc''" "''AAPL''" "''AAPL''" "[''USD'']"] show ?thesis by auto
qed

text \<open>A converted metal price is the exact price per unit rounded once, half to even at the
  eight places of a unit price: dividing by the grams of a troy ounce at 24 places first never
  changes the result, for exchange rates of up to twelve places.\<close>

theorem ConvertMetalPrice_rounds_once:
  assumes "decimal_lib D" and "valid_unit_price D raw" and "scaled D 12 rate"
    and "ConvertMetalPrice D raw u rate = Inr p"
  shows "valid_unit_price D p
    \<and> d_val D (u_value p) = half_even 8 (if u = ''g'' then d_val D (u_value raw) * d_val D rate / (311034768 / 10 ^ 7)
        else d_val D (u_value raw) * d_val D rate)"
  by (rule decimal_lib.ConvertMetalPrice_val [OF assms])

theorem ConvertMetalPrice_rounds_once_witness:
  "ConvertMetalPrice ref_decimal \<lparr> u_value = Dec 200012345678 (- 8) \<rparr> ''g'' (Dec 7123456789012 (- 12)) =
     Inr \<lparr> u_value = Dec 45807718245 (- 8) \<rparr>
   \<and> dv (Dec 45807718245 (- 8)) = half_even 8 (dv (Dec 200012345678 (- 8)) * dv (Dec 7123456789012 (- 12)) / (311034768 / 10 ^ 7))"
proof
  show p: "ConvertMetalPrice ref_decimal \<lparr> u_value = Dec 200012345678 (- 8) \<rparr> ''g'' (Dec 7123456789012 (- 12)) =
     Inr \<lparr> u_value = Dec 45807718245 (- 8) \<rparr>" by code_simp
  have "valid_unit_price ref_decimal \<lparr> u_value = Dec 200012345678 (- 8) \<rparr>" "scaled ref_decimal 12 (Dec 7123456789012 (- 12))"
    by (simp_all add: valid_unit_price_def scaled_def dv_def max_unit_price_def power_int_minus)
  from ConvertMetalPrice_rounds_once [OF ref.decimal_lib_axioms this p]
  show "dv (Dec 45807718245 (- 8)) = half_even 8 (dv (Dec 200012345678 (- 8)) * dv (Dec 7123456789012 (- 12)) / (311034768 / 10 ^ 7))" by simp
qed

end
