(* ===== verification/CostBasis.thy ===== *)
theory CostBasis
  imports Portfolio
begin

text \<open>
  Average-cost replay (\<^verbatim>\<open>internal/domain/cost_basis.go\<close>): one holding's starting point and its
  ordered immutable events give the current quantity, the average unit cost and the realized
  gains.  The replay is one step function on a record of the loop's variables; the lemmas show
  that every step keeps the loop invariant, that quantities are conserved, that averages are
  rounded once, and that reversed events leave no trace.
\<close>

section \<open>Events and results\<close>

type_synonym ActivityID = string

datatype CostBasisEventKind =
    CostBasisStartingPoint | CostBasisBuy | CostBasisSell | CostBasisTransferIn | CostBasisTransferOut
  | CostBasisAdjustmentIn | CostBasisAdjustmentOut | CostBasisCostAdjustment | CostBasisEventKind_unknown string

record 'd CostBasisEvent =
  cb_activity_id :: ActivityID
  cb_effective_at :: go_time
  cb_created_at :: go_time
  cb_ordering_id :: ActivityID
  cb_sequence :: int
  cb_kind :: CostBasisEventKind
  cb_quantity :: "'d quantity"
  cb_unit_price :: "'d unit_price option"
  cb_unit_cost :: "'d unit_price option"
  cb_source_holding_id :: "HoldingID option"
  cb_gross :: "'d money option"
  cb_fee :: "'d money option"
  cb_currency :: CurrencyCode
  cb_reverses :: "ActivityID option"

record CostBasisBoundary =
  bd_effective_at :: go_time
  bd_created_at :: go_time
  bd_ordering_id :: ActivityID

definition CostBasisEvent_Boundary :: "'d CostBasisEvent \<Rightarrow> CostBasisBoundary" where
  "CostBasisEvent_Boundary e =
     \<lparr> bd_effective_at = cb_effective_at e, bd_created_at = cb_created_at e, bd_ordering_id = cb_ordering_id e \<rparr>"

definition CostBasisEvent_Before :: "'d CostBasisEvent \<Rightarrow> CostBasisBoundary \<Rightarrow> bool" where
  "CostBasisEvent_Before e boundary =
     (if cb_effective_at e \<noteq> bd_effective_at boundary then cb_effective_at e < bd_effective_at boundary
      else if cb_created_at e \<noteq> bd_created_at boundary then cb_created_at e < bd_created_at boundary
      else cb_ordering_id e < bd_ordering_id boundary)"

record 'd CostLot =
  cl_average :: "'d unit_price"
  cl_quantity :: "'d quantity"

record 'd RealizedGainEvent =
  rg_activity_id :: ActivityID
  rg_effective_at :: go_time
  rg_quantity :: "'d quantity"
  rg_unit_cost :: "'d unit_price"
  rg_unit_proceeds :: "'d unit_price"
  rg_fee :: "'d money option"
  rg_gain :: "'d signed_money"

record 'd CostBasisResult =
  cr_current :: "'d CostLot"
  cr_realized :: "'d RealizedGainEvent list"

definition invalidCostBasis :: "string \<Rightarrow> string \<Rightarrow> err" where
  "invalidCostBasis field message = DomainError ErrInvalidChange field message"

definition costBasisRequired :: "string \<Rightarrow> err" where
  "costBasisRequired message = DomainError ErrCostBasisRequired ''unitCost'' message"

section \<open>Unit costs\<close>

definition nonNegativeUnitCostQuotient :: "'d decimal_ops \<Rightarrow> 'd \<Rightarrow> 'd \<Rightarrow> 'd unit_price res" where
  "nonNegativeUnitCostQuotient D total_cost divisor =
     (let (quotient, remainder) = d_quo_rem D total_cost divisor 8;
          step = d_new D 1 (- 8);
          comparison = d_cmp D (d_mul D remainder (d_from_int D 2)) (d_mul D divisor step)
      in NewUnitPrice D
           (if 0 < comparison \<or> (comparison = 0 \<and> odd (d_big_int D (d_shift D quotient 8)))
            then d_add D quotient step else quotient))"

definition buyAcquisitionUnitCostFromGross ::
    "'d decimal_ops \<Rightarrow> 'd quantity \<Rightarrow> 'd \<Rightarrow> 'd money option \<Rightarrow> 'd unit_price res" where
  "buyAcquisitionUnitCostFromGross D quantity gross fee =
     (if Quantity_IsZero D quantity
      then Inl (invalidCostBasis ''quantity'' ''cost-basis event quantity must be greater than zero'')
      else
        let total_cost = (case fee of None \<Rightarrow> gross | Some f \<Rightarrow> d_add D gross (m_amount f))
        in nonNegativeUnitCostQuotient D total_cost (q_value quantity))"

definition BuyAcquisitionUnitCost ::
    "'d decimal_ops \<Rightarrow> 'd quantity \<Rightarrow> 'd unit_price \<Rightarrow> 'd money option \<Rightarrow> 'd unit_price res" where
  "BuyAcquisitionUnitCost D quantity unitPrice fee =
     (if Quantity_IsZero D quantity
      then Inl (invalidCostBasis ''quantity'' ''cost-basis event quantity must be greater than zero'')
      else
        res_bind (MultiplyQuantityAndUnitPrice D quantity unitPrice) (\<lambda>gross.
        buyAcquisitionUnitCostFromGross D quantity gross fee))"

definition eventTradeGross :: "'d decimal_ops \<Rightarrow> 'd CostBasisEvent \<Rightarrow> 'd res" where
  "eventTradeGross D event =
     (case cb_gross event of
        Some gross \<Rightarrow>
          if m_currency gross \<noteq> cb_currency event
          then Inl (invalidCostBasis ''gross'' ''trade gross currency must match settlement currency'')
          else if (case cb_fee event of None \<Rightarrow> False | Some fee \<Rightarrow> m_currency fee \<noteq> m_currency gross)
          then Inl (invalidCostBasis ''fee'' ''trade fee currency must match settlement currency'')
          else Inr (m_amount gross)
      | None \<Rightarrow>
          (case cb_unit_price event of
             None \<Rightarrow> Inl (invalidCostBasis ''unitPrice'' ''trade requires a unit price'')
           | Some price \<Rightarrow> MultiplyQuantityAndUnitPrice D (cb_quantity event) price))"

definition eventUnitCost :: "'d decimal_ops \<Rightarrow> 'd CostBasisEvent \<Rightarrow> 'd unit_price res" where
  "eventUnitCost D event =
     (if cb_kind event = CostBasisBuy then
        (case cb_unit_cost event of
           Some cost \<Rightarrow> Inr cost
         | None \<Rightarrow>
             if cb_unit_price event = None
             then Inl (invalidCostBasis ''unitPrice'' ''Buy requires a unit price'')
             else res_bind (eventTradeGross D event) (\<lambda>gross.
                    buyAcquisitionUnitCostFromGross D (cb_quantity event) gross (cb_fee event)))
      else if cb_kind event = CostBasisTransferIn \<or> cb_kind event = CostBasisAdjustmentIn then
        (case cb_unit_cost event of
           None \<Rightarrow> Inl (costBasisRequired ''an incoming quantity requires a per-unit cost'')
         | Some cost \<Rightarrow> Inr cost)
      else Inl (invalidCostBasis ''kind'' ''event does not provide an incoming cost''))"

section \<open>Lots\<close>

definition blendCost ::
    "'d decimal_ops \<Rightarrow> 'd CostLot \<Rightarrow> 'd unit_price option \<Rightarrow> 'd quantity \<Rightarrow> bool \<Rightarrow> 'd CostLot res" where
  "blendCost D current incoming incomingQuantity hasCost =
     (case incoming of
        None \<Rightarrow> Inl (costBasisRequired ''an incoming quantity requires a per-unit cost'')
      | Some cost \<Rightarrow>
          res_bind (NewQuantity D (d_add D (q_value (cl_quantity current)) (q_value incomingQuantity))) (\<lambda>total_q.
          if Quantity_IsZero D (cl_quantity current) \<or> \<not> hasCost
          then Inr \<lparr> cl_average = cost, cl_quantity = total_q \<rparr>
          else
            res_bind (MultiplyQuantityAndUnitPrice D (cl_quantity current) (cl_average current)) (\<lambda>oldValue.
            res_bind (MultiplyQuantityAndUnitPrice D incomingQuantity cost) (\<lambda>incomingValue.
            res_bind (nonNegativeUnitCostQuotient D (d_add D oldValue incomingValue) (q_value total_q)) (\<lambda>average.
            Inr \<lparr> cl_average = average, cl_quantity = total_q \<rparr>)))))"

definition reduceCost :: "'d decimal_ops \<Rightarrow> 'd CostLot \<Rightarrow> 'd quantity \<Rightarrow> 'd CostLot res" where
  "reduceCost D current quantity =
     (if d_less_than D (q_value (cl_quantity current)) (q_value quantity)
      then Inl (DomainError ErrInsufficientQuantity ''quantity'' ''quantity reduction exceeds the current cost-basis quantity'')
      else
        res_bind (NewQuantity D (d_sub D (q_value (cl_quantity current)) (q_value quantity))) (\<lambda>remaining.
        if Quantity_IsZero D remaining then
          res_bind (ParseUnitPrice D ''0'') (\<lambda>zero. Inr \<lparr> cl_average = zero, cl_quantity = remaining \<rparr>)
        else Inr \<lparr> cl_average = cl_average current, cl_quantity = remaining \<rparr>))"

section \<open>Replay\<close>

definition reversedActivityIDs :: "'d CostBasisEvent list \<Rightarrow> ActivityID set" where
  "reversedActivityIDs events =
     fold (\<lambda>event excluded. case cb_reverses event of
         None \<Rightarrow> excluded
       | Some original \<Rightarrow> insert original (insert (cb_activity_id event) excluded)) events {}"

text \<open>The variables of the loop of \<^verbatim>\<open>ReplayCostBasis\<close>.\<close>

record 'd replay_state =
  rs_current :: "'d CostLot"
  rs_realized :: "'d RealizedGainEvent list"
  rs_started :: bool
  rs_has_cost :: bool

definition starting_step ::
    "'d decimal_ops \<Rightarrow> 'd unit_price option \<Rightarrow> 'd replay_state \<Rightarrow> 'd CostBasisEvent \<Rightarrow> 'd replay_state res" where
  "starting_step D startingCost st event =
     (if rs_started st then Inl (invalidCostBasis ''event'' ''only one Starting Point is allowed'')
      else if Quantity_IsZero D (cb_quantity event) then Inr (st \<lparr> rs_started := True \<rparr>)
      else
        case (case startingCost of None \<Rightarrow> cb_unit_cost event | Some c \<Rightarrow> Some c) of
          None \<Rightarrow> Inl (costBasisRequired ''a per-unit cost is required for a positive Starting Point quantity'')
        | Some cost \<Rightarrow>
            Inr (st \<lparr> rs_started := True, rs_current := \<lparr> cl_average = cost, cl_quantity = cb_quantity event \<rparr>,
                     rs_has_cost := True \<rparr>))"

definition incoming_step :: "'d decimal_ops \<Rightarrow> 'd replay_state \<Rightarrow> 'd CostBasisEvent \<Rightarrow> 'd replay_state res" where
  "incoming_step D st event =
     (if Quantity_IsZero D (cb_quantity event)
      then Inl (invalidCostBasis ''quantity'' ''cost-basis event quantity must be greater than zero'')
      else
        res_bind (eventUnitCost D event) (\<lambda>incoming.
        res_bind (blendCost D (rs_current st) (Some incoming) (cb_quantity event) (rs_has_cost st)) (\<lambda>current.
        Inr (st \<lparr> rs_current := current, rs_has_cost := True \<rparr>))))"

definition reduce_step :: "'d decimal_ops \<Rightarrow> 'd replay_state \<Rightarrow> 'd quantity \<Rightarrow> 'd replay_state res" where
  "reduce_step D st quantity =
     res_bind (reduceCost D (rs_current st) quantity) (\<lambda>current.
     Inr (st \<lparr> rs_current := current, rs_has_cost := \<not> Quantity_IsZero D (cl_quantity current) \<rparr>))"

definition sell_gain_value :: "'d decimal_ops \<Rightarrow> 'd CostLot \<Rightarrow> 'd unit_price \<Rightarrow> 'd CostBasisEvent \<Rightarrow> 'd res" where
  "sell_gain_value D current proceeds event =
     res_bind
       (case cb_gross event of
          None \<Rightarrow> Inr (d_mul D (d_sub D (u_value proceeds) (u_value (cl_average current))) (q_value (cb_quantity event)))
        | Some _ \<Rightarrow>
            res_bind (eventTradeGross D event) (\<lambda>gross.
            Inr (d_sub D gross (d_mul D (u_value (cl_average current)) (q_value (cb_quantity event))))))
       (\<lambda>gainValue. Inr (case cb_fee event of None \<Rightarrow> gainValue | Some fee \<Rightarrow> d_sub D gainValue (m_amount fee)))"

definition sell_step :: "'d decimal_ops \<Rightarrow> 'd replay_state \<Rightarrow> 'd CostBasisEvent \<Rightarrow> 'd replay_state res" where
  "sell_step D st event =
     (if Quantity_IsZero D (cb_quantity event)
      then Inl (invalidCostBasis ''quantity'' ''cost-basis event quantity must be greater than zero'')
      else if \<not> rs_has_cost st \<or> Quantity_IsZero D (cl_quantity (rs_current st))
      then Inl (costBasisRequired ''a Sell requires a resolvable average cost'')
      else if d_less_than D (q_value (cl_quantity (rs_current st))) (q_value (cb_quantity event))
      then Inl (DomainError ErrInsufficientQuantity ''quantity'' ''Sell exceeds the cost-basis quantity'')
      else case cb_unit_price event of
          None \<Rightarrow> Inl (invalidCostBasis ''unitPrice'' ''Sell requires a unit price'')
        | Some proceeds \<Rightarrow>
            res_bind (map_err (\<lambda>_. invalidCostBasis ''currency'' ''Sell requires a settlement currency'')
              (ParseCurrency (cb_currency event))) (\<lambda>currency.
            if (case cb_fee event of None \<Rightarrow> False | Some fee \<Rightarrow> m_currency fee \<noteq> currency)
            then Inl (invalidCostBasis ''fee'' ''Sell fee currency must match settlement currency'')
            else
            res_bind (sell_gain_value D (rs_current st) proceeds event) (\<lambda>gainValue.
            res_bind (NewSignedMoney D gainValue currency) (\<lambda>gain.
            reduce_step D
              (st \<lparr> rs_realized := rs_realized st @
                 [\<lparr> rg_activity_id = cb_activity_id event, rg_effective_at = cb_effective_at event,
                    rg_quantity = cb_quantity event, rg_unit_cost = cl_average (rs_current st),
                    rg_unit_proceeds = proceeds, rg_fee = cb_fee event, rg_gain = gain \<rparr>] \<rparr>)
              (cb_quantity event)))))"

definition outgoing_step :: "'d decimal_ops \<Rightarrow> 'd replay_state \<Rightarrow> 'd CostBasisEvent \<Rightarrow> 'd replay_state res" where
  "outgoing_step D st event =
     (if Quantity_IsZero D (cb_quantity event)
      then Inl (invalidCostBasis ''quantity'' ''quantity-reducing event must be greater than zero'')
      else if \<not> rs_has_cost st \<or> Quantity_IsZero D (cl_quantity (rs_current st))
      then Inl (costBasisRequired ''a quantity reduction requires a resolvable average cost'')
      else reduce_step D st (cb_quantity event))"

definition cost_adjustment_step :: "'d decimal_ops \<Rightarrow> 'd replay_state \<Rightarrow> 'd CostBasisEvent \<Rightarrow> 'd replay_state res" where
  "cost_adjustment_step D st event =
     (if \<not> rs_has_cost st \<or> Quantity_IsZero D (cl_quantity (rs_current st)) \<or> cb_unit_cost event = None
        \<or> \<not> Quantity_IsZero D (cb_quantity event)
      then Inl (invalidCostBasis ''unitCost'' ''cost adjustment requires a positive Holding and target unit cost'')
      else Inr (st \<lparr> rs_current := rs_current st \<lparr> cl_average := the (cb_unit_cost event) \<rparr> \<rparr>))"

definition replay_step ::
    "'d decimal_ops \<Rightarrow> 'd unit_price option \<Rightarrow> 'd replay_state \<Rightarrow> 'd CostBasisEvent \<Rightarrow> 'd replay_state res" where
  "replay_step D startingCost st event =
     (case cb_kind event of
        CostBasisStartingPoint \<Rightarrow> starting_step D startingCost st event
      | CostBasisBuy \<Rightarrow> incoming_step D st event
      | CostBasisTransferIn \<Rightarrow> incoming_step D st event
      | CostBasisAdjustmentIn \<Rightarrow> incoming_step D st event
      | CostBasisSell \<Rightarrow> sell_step D st event
      | CostBasisTransferOut \<Rightarrow> outgoing_step D st event
      | CostBasisAdjustmentOut \<Rightarrow> outgoing_step D st event
      | CostBasisCostAdjustment \<Rightarrow> cost_adjustment_step D st event
      | CostBasisEventKind_unknown _ \<Rightarrow> Inl (invalidCostBasis ''kind'' ''cost-basis event kind is not supported''))"

fun replay_loop ::
    "'d decimal_ops \<Rightarrow> 'd unit_price option \<Rightarrow> ActivityID set \<Rightarrow> 'd replay_state \<Rightarrow> 'd CostBasisEvent list \<Rightarrow> 'd replay_state res" where
  "replay_loop D startingCost excluded st [] = Inr st"
| "replay_loop D startingCost excluded st (event # events) =
     (if cb_activity_id event \<in> excluded then replay_loop D startingCost excluded st events
      else res_bind (replay_step D startingCost st event) (\<lambda>st'. replay_loop D startingCost excluded st' events))"

definition ReplayCostBasis :: "'d decimal_ops \<Rightarrow> 'd unit_price option \<Rightarrow> 'd CostBasisEvent list \<Rightarrow> 'd CostBasisResult res" where
  "ReplayCostBasis D startingCost events =
     res_bind (ParseQuantity D ''0'') (\<lambda>currentQuantity.
     res_bind (ParseUnitPrice D ''0'') (\<lambda>zeroCost.
     let lot = \<lparr> cl_average = zeroCost, cl_quantity = currentQuantity \<rparr> in
     if events = [] then
       if startingCost \<noteq> None
       then Inl (invalidCostBasis ''startingCost'' ''a Starting Point quantity is required'')
       else Inr \<lparr> cr_current = lot, cr_realized = [] \<rparr>
     else
       res_bind (replay_loop D startingCost (reversedActivityIDs events)
         \<lparr> rs_current = lot, rs_realized = [], rs_started = False, rs_has_cost = False \<rparr> events) (\<lambda>st.
       if startingCost \<noteq> None \<and> \<not> rs_started st
       then Inl (invalidCostBasis ''startingCost'' ''startingCost requires a Starting Point event'')
       else Inr \<lparr> cr_current = rs_current st, cr_realized = rs_realized st \<rparr>)))"

section \<open>The quotient is rounded once\<close>

text \<open>Half-even rounding from a truncated quotient on the grid and its exact remainder.\<close>

lemma half_even_quo_rem:
  fixes q r d :: rat
  assumes "0 < d" and "q = of_int k / 10 ^ p" and "0 \<le> r" and "r < d / 10 ^ p"
  shows "half_even p ((q * d + r) / d) =
    (if d / 10 ^ p < 2 * r \<or> (2 * r = d / 10 ^ p \<and> odd k) then q + 1 / 10 ^ p else q)"
proof -
  define f where "f = r * 10 ^ p / d"
  have x: "(q * d + r) / d * 10 ^ p = of_int k + f"
    using assms(1) by (simp add: assms(2) f_def field_simps)
  have f: "0 \<le> f" "f < 1" using assms by (simp_all add: f_def field_simps)
  then have fl: "\<lfloor>of_int k + f\<rfloor> = k" by (simp add: floor_eq_iff)
  have c: "d / 10 ^ p < 2 * r \<longleftrightarrow> 1/2 < f" "2 * r = d / 10 ^ p \<longleftrightarrow> f = 1/2"
    using assms(1) by (auto simp: f_def field_simps)
  have "half_even_int (of_int k + f) = (if 1/2 < f \<or> (f = 1/2 \<and> odd k) then k + 1 else k)"
    by (auto simp: half_even_int_def fl Let_def)
  then show ?thesis
    unfolding half_even_def x c by (auto simp: assms(2) add_divide_distrib)
qed

context decimal_lib
begin

lemma quotient_eq:
  assumes t: "0 \<le> d_val D t" and d: "0 < d_val D b"
  obtains w where "nonNegativeUnitCostQuotient D t b = NewUnitPrice D w"
    and "d_val D w = half_even 8 (d_val D t / d_val D b)" and "scaled D 8 w"
proof -
  obtain q r where qr: "d_quo_rem D t b 8 = (q, r)" by fastforce
  from d have nz: "d_val D b \<noteq> 0" by simp
  have e: "d_val D t = d_val D q * d_val D b + d_val D r" "- 8 \<le> d_exponent D q"
    using quo_rem [OF nz qr] by auto
  have r: "0 \<le> d_val D r" "d_val D r < d_val D b / 10 ^ 8"
    using quo_rem_nonneg [OF nz qr t] d by auto
  obtain k where k: "d_val D q = of_int k / 10 ^ 8"
    using val_on_grid [of 8 q] e(2) by (auto elim: on_gridE)
  have bi: "d_big_int D (d_shift D q 8) = k"
    by (rule big_int) (simp add: val_shift k)
  let ?up = "d_val D b / 10 ^ 8 < 2 * d_val D r \<or> (2 * d_val D r = d_val D b / 10 ^ 8 \<and> odd k)"
  let ?w = "if ?up then d_add D q (d_new D 1 (- 8)) else q"
  have "nonNegativeUnitCostQuotient D t b = NewUnitPrice D ?w"
    by (auto simp: nonNegativeUnitCostQuotient_def qr cmp exact val_from_int bi power_int_minus field_simps Let_def)
  moreover have "d_val D ?w = half_even 8 (d_val D t / d_val D b)"
    unfolding e(1) half_even_quo_rem [OF d k r] by (simp add: exact power_int_minus)
  moreover have "scaled D 8 ?w"
    using e(2) exponent_add [of q "d_new D 1 (- 8)"] by (auto simp: scaled_def exponent_new)
  ultimately show ?thesis by (rule that)
qed

lemma quotient_iff:
  assumes "0 \<le> d_val D t" and "0 < d_val D b"
  shows "is_ok (nonNegativeUnitCostQuotient D t b) \<longleftrightarrow> half_even 8 (d_val D t / d_val D b) \<le> max_unit_price"
    and "nonNegativeUnitCostQuotient D t b = Inr p \<Longrightarrow>
      d_val D (u_value p) = half_even 8 (d_val D t / d_val D b) \<and> valid_unit_price D p"
proof -
  obtain w where w: "nonNegativeUnitCostQuotient D t b = NewUnitPrice D w"
    "d_val D w = half_even 8 (d_val D t / d_val D b)" "scaled D 8 w"
    using quotient_eq [OF assms] by blast
  have "0 \<le> half_even 8 (d_val D t / d_val D b)" using assms by (intro half_even_nonneg) simp
  then show "is_ok (nonNegativeUnitCostQuotient D t b) \<longleftrightarrow> half_even 8 (d_val D t / d_val D b) \<le> max_unit_price"
    "nonNegativeUnitCostQuotient D t b = Inr p \<Longrightarrow>
      d_val D (u_value p) = half_even 8 (d_val D t / d_val D b) \<and> valid_unit_price D p"
    using w by (auto simp: is_ok_iff NewUnitPrice_iff valid_unit_price_def)
qed

end

section \<open>Lots stay valid\<close>

text \<open>The value of a lot: its quantity and average as rationals.\<close>

definition lot_quantity :: "'d decimal_ops \<Rightarrow> 'd CostLot \<Rightarrow> rat" where
  "lot_quantity D l = d_val D (q_value (cl_quantity l))"

definition lot_average :: "'d decimal_ops \<Rightarrow> 'd CostLot \<Rightarrow> rat" where
  "lot_average D l = d_val D (u_value (cl_average l))"

definition valid_lot :: "'d decimal_ops \<Rightarrow> 'd CostLot \<Rightarrow> bool" where
  "valid_lot D l \<longleftrightarrow> valid_quantity D (cl_quantity l) \<and> valid_unit_price D (cl_average l)
     \<and> (lot_quantity D l = 0 \<longrightarrow> lot_average D l = 0)"

lemma zero_texts:
  "quantitySyntax ''0''" "unitPriceSyntax ''0''" "syntax_value ''0'' = 0" "decimal_syntax 18 8 ''0''" "decimal_syntax 12 8 ''0''"
  by (simp_all add: quantitySyntax_def unitPriceSyntax_def decimal_syntax_def syntax_value_def is_digit_iff string_nat_def digit_val_def)

context decimal_lib
begin

lemma ParseQuantity_0: "\<exists>q. ParseQuantity D ''0'' = Inr q \<and> d_val D (q_value q) = 0 \<and> valid_quantity D q"
  using from_string [OF zero_texts(4)]
  by (auto simp: ParseQuantity_def zero_texts parse_decimal_def NewQuantity_iff valid_quantity_def max_quantity_def scaled_def)

lemma ParseUnitPrice_0: "\<exists>p. ParseUnitPrice D ''0'' = Inr p \<and> d_val D (u_value p) = 0 \<and> valid_unit_price D p"
  using from_string [OF zero_texts(5)]
  by (auto simp: ParseUnitPrice_def zero_texts parse_decimal_def NewUnitPrice_iff valid_unit_price_def max_unit_price_def scaled_def)

lemma Multiply_iff:
  "MultiplyQuantityAndUnitPrice D q u = Inr w \<Longrightarrow> d_val D w = d_val D (q_value q) * d_val D (u_value u) \<and> 0 \<le> d_val D w"
  by (auto simp: MultiplyQuantityAndUnitPrice_def checkedIntermediate_iff val_mul)

lemma Multiply_nonneg: "MultiplyQuantityAndUnitPrice D q u = Inr w \<Longrightarrow> 0 \<le> d_val D w"
  using Multiply_iff by blast

lemma valid_average_grid: "valid_unit_price D p \<Longrightarrow> on_grid 8 (d_val D (u_value p))"
  by (auto simp: valid_unit_price_def intro: scaled_grid)

text \<open>Blending: the quantities add up and the average is the rounded weighted mean.\<close>

lemma blendCost_Inr:
  assumes "blendCost D l (Some c) q has = Inr l'" and "valid_lot D l" and "valid_quantity D q" and "valid_unit_price D c"
    and "d_val D (q_value q) \<noteq> 0" and "has \<longleftrightarrow> lot_quantity D l \<noteq> 0"
  shows "lot_quantity D l' = lot_quantity D l + d_val D (q_value q)"
    and "lot_average D l' = half_even 8
      ((lot_quantity D l * lot_average D l + d_val D (q_value q) * d_val D (u_value c)) / lot_quantity D l')"
    and "valid_lot D l'"
proof -
  from assms(1) obtain tq where tq: "NewQuantity D (d_add D (q_value (cl_quantity l)) (q_value q)) = Inr tq"
    "cl_quantity l' = tq" and
    case1: "lot_quantity D l = 0 \<Longrightarrow> cl_average l' = c" and
    case2: "lot_quantity D l \<noteq> 0 \<Longrightarrow> \<exists>oldv new. MultiplyQuantityAndUnitPrice D (cl_quantity l) (cl_average l) = Inr oldv
      \<and> MultiplyQuantityAndUnitPrice D q c = Inr new
      \<and> nonNegativeUnitCostQuotient D (d_add D oldv new) (q_value tq) = Inr (cl_average l')"
    using assms(6) by (auto simp: blendCost_def Quantity_IsZero_def exact lot_quantity_def split: if_splits)
  have q0: "0 \<le> lot_quantity D l" "0 < d_val D (q_value q)"
    using assms(2,3,5) by (auto simp: valid_lot_def valid_quantity_def lot_quantity_def)
  show Q: "lot_quantity D l' = lot_quantity D l + d_val D (q_value q)"
    using tq by (auto simp: lot_quantity_def NewQuantity_iff exact)
  have pos: "0 < d_val D (q_value tq)" using Q tq(2) q0 by (simp add: lot_quantity_def)
  have AV: "lot_average D l' = half_even 8
      ((lot_quantity D l * lot_average D l + d_val D (q_value q) * d_val D (u_value c)) / lot_quantity D l')
    \<and> valid_unit_price D (cl_average l')"
  proof (cases "lot_quantity D l = 0")
    case True
    with case1 Q assms(4,5) show ?thesis
      by (simp add: lot_average_def half_even_on_grid valid_average_grid)
  next
    case False
    with case2 obtain oldv new where m: "MultiplyQuantityAndUnitPrice D (cl_quantity l) (cl_average l) = Inr oldv"
      "MultiplyQuantityAndUnitPrice D q c = Inr new"
      "nonNegativeUnitCostQuotient D (d_add D oldv new) (q_value tq) = Inr (cl_average l')" by blast
    with Multiply_iff [OF m(1)] Multiply_iff [OF m(2)] quotient_iff(2) [OF _ pos m(3)]
    show ?thesis using tq(2) by (simp add: val_add lot_quantity_def lot_average_def)
  qed
  then show "lot_average D l' = half_even 8
      ((lot_quantity D l * lot_average D l + d_val D (q_value q) * d_val D (u_value c)) / lot_quantity D l')" by simp
  from AV have "valid_unit_price D (cl_average l')" by simp
  then show "valid_lot D l'"
    using tq pos by (auto simp: valid_lot_def NewQuantity_iff lot_quantity_def)
qed

lemma reduceCost_Inr:
  assumes "reduceCost D l q = Inr l'" and "valid_lot D l"
  shows "lot_quantity D l' = lot_quantity D l - d_val D (q_value q)"
    and "lot_average D l' = (if lot_quantity D l' = 0 then 0 else lot_average D l)" and "valid_lot D l'"
proof -
  obtain z where z: "ParseUnitPrice D ''0'' = Inr z" "d_val D (u_value z) = 0" "valid_unit_price D z"
    using ParseUnitPrice_0 by blast
  from assms(1) obtain rem where r: "NewQuantity D (d_sub D (q_value (cl_quantity l)) (q_value q)) = Inr rem"
    "cl_quantity l' = rem" "cl_average l' = (if d_val D (q_value rem) = 0 then z else cl_average l)"
    by (auto simp: reduceCost_def z Quantity_IsZero_def exact split: if_splits)
  show "lot_quantity D l' = lot_quantity D l - d_val D (q_value q)"
    using r by (auto simp: lot_quantity_def NewQuantity_iff exact)
  show "lot_average D l' = (if lot_quantity D l' = 0 then 0 else lot_average D l)"
    using r z by (auto simp: lot_quantity_def lot_average_def)
  show "valid_lot D l'"
    using r z assms(2) by (auto simp: valid_lot_def NewQuantity_iff lot_quantity_def lot_average_def)
qed

end

section \<open>The loop invariant\<close>

definition valid_event :: "'d decimal_ops \<Rightarrow> 'd CostBasisEvent \<Rightarrow> bool" where
  "valid_event D e \<longleftrightarrow> valid_quantity D (cb_quantity e)
     \<and> pred_option (valid_unit_price D) (cb_unit_price e) \<and> pred_option (valid_unit_price D) (cb_unit_cost e)
     \<and> pred_option (valid_money D) (cb_gross e) \<and> pred_option (valid_money D) (cb_fee e)"

text \<open>A cost is known exactly while the quantity is positive.\<close>

definition replay_inv :: "'d decimal_ops \<Rightarrow> 'd replay_state \<Rightarrow> bool" where
  "replay_inv D st \<longleftrightarrow> valid_lot D (rs_current st) \<and> (rs_has_cost st \<longleftrightarrow> lot_quantity D (rs_current st) \<noteq> 0)"

text \<open>
  The specification of the replay, in exact rationals and without the code's decimals, errors or
  loop variables.  The gross of a trade is its persisted amount or else price times quantity;
  the fee is zero when there is none.
\<close>

definition trade_gross :: "'d decimal_ops \<Rightarrow> 'd CostBasisEvent \<Rightarrow> rat" where
  "trade_gross D e =
     (case cb_gross e of
        Some g \<Rightarrow> d_val D (m_amount g)
      | None \<Rightarrow> (case cb_unit_price e of Some u \<Rightarrow> d_val D (u_value u) | None \<Rightarrow> 0) * d_val D (q_value (cb_quantity e)))"

definition trade_fee :: "'d decimal_ops \<Rightarrow> 'd CostBasisEvent \<Rightarrow> rat" where
  "trade_fee D e = (case cb_fee e of Some f \<Rightarrow> d_val D (m_amount f) | None \<Rightarrow> 0)"

text \<open>What one acquired unit costs: the cost given with the event, or gross and fee spread over
  the quantity and rounded once.\<close>

definition acquisition_cost :: "'d decimal_ops \<Rightarrow> 'd CostBasisEvent \<Rightarrow> rat" where
  "acquisition_cost D e =
     (case cb_unit_cost e of
        Some c \<Rightarrow> d_val D (u_value c)
      | None \<Rightarrow> half_even 8 ((trade_gross D e + trade_fee D e) / d_val D (q_value (cb_quantity e))))"

text \<open>The quantity held: a sum, restarted by a starting point.\<close>

definition quantity_step :: "'d decimal_ops \<Rightarrow> rat \<Rightarrow> 'd CostBasisEvent \<Rightarrow> rat" where
  "quantity_step D x e =
     (let q = d_val D (q_value (cb_quantity e)) in
      case cb_kind e of
        CostBasisStartingPoint \<Rightarrow> if q = 0 then x else q
      | CostBasisBuy \<Rightarrow> x + q
      | CostBasisTransferIn \<Rightarrow> x + q
      | CostBasisAdjustmentIn \<Rightarrow> x + q
      | CostBasisSell \<Rightarrow> x - q
      | CostBasisTransferOut \<Rightarrow> x - q
      | CostBasisAdjustmentOut \<Rightarrow> x - q
      | _ \<Rightarrow> x)"

text \<open>The average cost held: the weighted mean of what is held and what comes in, rounded once at
  eight places; unchanged by what goes out, and zero when nothing is left; set by a starting
  point with a quantity and by a cost adjustment.\<close>

definition average_step :: "'d decimal_ops \<Rightarrow> 'd unit_price option \<Rightarrow> rat \<Rightarrow> rat \<Rightarrow> 'd CostBasisEvent \<Rightarrow> rat" where
  "average_step D startingCost x a e =
     (let q = d_val D (q_value (cb_quantity e));
          blended = half_even 8 ((x * a + q * acquisition_cost D e) / (x + q));
          kept = (if x - q = 0 then 0 else a);
          target = (\<lambda>cost. case cost of Some c \<Rightarrow> d_val D (u_value c) | None \<Rightarrow> a) in
      case cb_kind e of
        CostBasisStartingPoint \<Rightarrow>
          if q = 0 then a else target (if startingCost = None then cb_unit_cost e else startingCost)
      | CostBasisBuy \<Rightarrow> blended
      | CostBasisTransferIn \<Rightarrow> blended
      | CostBasisAdjustmentIn \<Rightarrow> blended
      | CostBasisSell \<Rightarrow> kept
      | CostBasisTransferOut \<Rightarrow> kept
      | CostBasisAdjustmentOut \<Rightarrow> kept
      | CostBasisCostAdjustment \<Rightarrow> target (cb_unit_cost e)
      | _ \<Rightarrow> a)"

definition position_step :: "'d decimal_ops \<Rightarrow> 'd unit_price option \<Rightarrow> rat \<times> rat \<Rightarrow> 'd CostBasisEvent \<Rightarrow> rat \<times> rat" where
  "position_step D startingCost p e =
     (quantity_step D (fst p) e, average_step D startingCost (fst p) (snd p) e)"

text \<open>The sales of a history, in order, each with the average cost held just before it.\<close>

fun sales_at_cost ::
    "'d decimal_ops \<Rightarrow> 'd unit_price option \<Rightarrow> rat \<times> rat \<Rightarrow> 'd CostBasisEvent list \<Rightarrow> ('d CostBasisEvent \<times> rat) list" where
  "sales_at_cost D startingCost p [] = []"
| "sales_at_cost D startingCost p (e # es) =
     (if cb_kind e = CostBasisSell then [(e, snd p)] else []) @ sales_at_cost D startingCost (position_step D startingCost p e) es"

text \<open>The gain of a sale at a unit cost, before rounding: proceeds less cost less fee; and what a
  realized gain records of its sale.\<close>

definition exact_gain :: "'d decimal_ops \<Rightarrow> rat \<Rightarrow> 'd CostBasisEvent \<Rightarrow> rat" where
  "exact_gain D unit_cost e = trade_gross D e - unit_cost * d_val D (q_value (cb_quantity e)) - trade_fee D e"

definition realizes :: "'d decimal_ops \<Rightarrow> 'd CostBasisEvent \<times> rat \<Rightarrow> 'd RealizedGainEvent \<Rightarrow> bool" where
  "realizes D sale rg \<longleftrightarrow> (case sale of (e, unit_cost) \<Rightarrow>
       rg_activity_id rg = cb_activity_id e \<and> rg_effective_at rg = cb_effective_at e
     \<and> rg_quantity rg = cb_quantity e \<and> Some (rg_unit_proceeds rg) = cb_unit_price e \<and> rg_fee rg = cb_fee e
     \<and> d_val D (u_value (rg_unit_cost rg)) = unit_cost
     \<and> d_val D (s_amount (rg_gain rg)) = half_even 4 (exact_gain D unit_cost e)
     \<and> ParseCurrency (cb_currency e) = Inr (s_currency (rg_gain rg)))"

definition lot_position :: "'d decimal_ops \<Rightarrow> 'd CostLot \<Rightarrow> rat \<times> rat" where
  "lot_position D l = (lot_quantity D l, lot_average D l)"

context decimal_lib
begin

lemma eventTradeGross_Inr:
  assumes "eventTradeGross D e = Inr g" and "valid_event D e"
  shows "d_val D g = trade_gross D e" and "0 \<le> d_val D g"
  using assms
  by (auto simp: eventTradeGross_def trade_gross_def valid_event_def valid_money_def dest!: Multiply_iff
      split: option.splits if_splits)

lemma eventUnitCost_Inr:
  assumes "eventUnitCost D e = Inr c" and "valid_event D e" and "d_val D (q_value (cb_quantity e)) \<noteq> 0"
  shows "valid_unit_price D c" and "d_val D (u_value c) = acquisition_cost D e"
proof -
  have "valid_unit_price D c \<and> d_val D (u_value c) = acquisition_cost D e"
  proof (cases "cb_unit_cost e")
    case (Some u)
    with assms show ?thesis by (auto simp: eventUnitCost_def valid_event_def acquisition_cost_def split: if_splits)
  next
    case None
    with assms(1) obtain g where g: "eventTradeGross D e = Inr g"
      and b: "buyAcquisitionUnitCostFromGross D (cb_quantity e) g (cb_fee e) = Inr c"
      by (auto simp: eventUnitCost_def split: if_splits)
    note G = eventTradeGross_Inr [OF g assms(2)]
    have q: "0 < d_val D (q_value (cb_quantity e))" using assms(2,3) by (auto simp: valid_event_def valid_quantity_def)
    define t where "t = (case cb_fee e of None \<Rightarrow> g | Some f \<Rightarrow> d_add D g (m_amount f))"
    have t: "d_val D t = trade_gross D e + trade_fee D e" "0 \<le> d_val D t"
      using G assms(2) by (auto simp: t_def trade_fee_def valid_event_def valid_money_def val_add split: option.splits)
    have "nonNegativeUnitCostQuotient D t (q_value (cb_quantity e)) = Inr c"
      using b by (auto simp: buyAcquisitionUnitCostFromGross_def t_def split: if_splits)
    from quotient_iff(2) [OF t(2) q this] show ?thesis by (simp add: t(1) None acquisition_cost_def)
  qed
  then show "valid_unit_price D c" "d_val D (u_value c) = acquisition_cost D e" by auto
qed

lemma incoming_step_inv:
  assumes "incoming_step D st e = Inr st'" and "replay_inv D st" and "valid_event D e"
  defines "x \<equiv> lot_quantity D (rs_current st)" and "q \<equiv> d_val D (q_value (cb_quantity e))"
  shows "replay_inv D st' \<and> lot_position D (rs_current st') =
    (x + q, half_even 8 ((x * lot_average D (rs_current st) + q * acquisition_cost D e) / (x + q)))"
proof -
  from assms(1) obtain c l where q: "d_val D (q_value (cb_quantity e)) \<noteq> 0" and c: "eventUnitCost D e = Inr c"
    and l: "blendCost D (rs_current st) (Some c) (cb_quantity e) (rs_has_cost st) = Inr l"
    and st': "st' = st \<lparr> rs_current := l, rs_has_cost := True \<rparr>"
    unfolding incoming_step_def by (elim res_elims) (auto simp: Quantity_IsZero_def exact)
  have vq: "valid_quantity D (cb_quantity e)" using assms(3) by (simp add: valid_event_def)
  have inv: "valid_lot D (rs_current st)" "rs_has_cost st \<longleftrightarrow> lot_quantity D (rs_current st) \<noteq> 0"
    using assms(2) by (auto simp: replay_inv_def)
  note C = eventUnitCost_Inr [OF c assms(3) q]
  note B = blendCost_Inr [OF l inv(1) vq C(1) q inv(2)]
  have "0 \<le> lot_quantity D (rs_current st)" using inv(1) by (simp add: valid_lot_def valid_quantity_def lot_quantity_def)
  moreover have "0 < d_val D (q_value (cb_quantity e))" using vq q by (simp add: valid_quantity_def)
  ultimately have "lot_quantity D l \<noteq> 0" using B(1) by simp
  then show ?thesis using B C(2) by (simp add: st' replay_inv_def lot_position_def x_def q_def)
qed

lemma reduce_step_inv:
  assumes "reduce_step D st q = Inr st'" and "replay_inv D st"
  defines "x \<equiv> lot_quantity D (rs_current st) - d_val D (q_value q)"
  shows "replay_inv D st' \<and> lot_position D (rs_current st') = (x, if x = 0 then 0 else lot_average D (rs_current st))"
proof -
  from assms(1) obtain l where l: "reduceCost D (rs_current st) q = Inr l"
    "st' = st \<lparr> rs_current := l, rs_has_cost := \<not> Quantity_IsZero D (cl_quantity l) \<rparr>"
    by (auto simp: reduce_step_def)
  have "valid_lot D (rs_current st)" using assms(2) by (simp add: replay_inv_def)
  note R = reduceCost_Inr [OF l(1) this]
  have "lot_position D l = (x, if x = 0 then 0 else lot_average D (rs_current st))"
    unfolding lot_position_def R(2) unfolding R(1) x_def ..
  moreover have "\<not> Quantity_IsZero D (cl_quantity l) \<longleftrightarrow> lot_quantity D l \<noteq> 0"
    by (simp add: Quantity_IsZero_def exact lot_quantity_def)
  ultimately show ?thesis using R(3) by (simp add: replay_inv_def l(2))
qed

lemma sell_gain_value_Inr:
  assumes "sell_gain_value D l proceeds e = Inr g" and "cb_unit_price e = Some proceeds"
  shows "d_val D g = exact_gain D (d_val D (u_value (cl_average l))) e"
  using assms
  by (auto simp: sell_gain_value_def exact_gain_def trade_gross_def trade_fee_def eventTradeGross_def exact
      algebra_simps split: option.splits if_splits)

lemma sell_step_Inr:
  assumes "sell_step D st e = Inr st'"
  obtains rg where "reduce_step D (st \<lparr> rs_realized := rs_realized st @ [rg] \<rparr>) (cb_quantity e) = Inr st'"
    and "realizes D (e, lot_average D (rs_current st)) rg"
proof -
  from assms obtain proceeds where p: "cb_unit_price e = Some proceeds"
    by (auto simp: sell_step_def split: if_splits option.splits)
  from assms obtain currency gv gain where
    g: "ParseCurrency (cb_currency e) = Inr currency" "sell_gain_value D (rs_current st) proceeds e = Inr gv"
      "NewSignedMoney D gv currency = Inr gain"
    and r: "reduce_step D
              (st \<lparr> rs_realized := rs_realized st @
                 [\<lparr> rg_activity_id = cb_activity_id e, rg_effective_at = cb_effective_at e,
                    rg_quantity = cb_quantity e, rg_unit_cost = cl_average (rs_current st),
                    rg_unit_proceeds = proceeds, rg_fee = cb_fee e, rg_gain = gain \<rparr>] \<rparr>)
              (cb_quantity e) = Inr st'"
    unfolding sell_step_def p option.case by (elim res_elims) auto
  note G = NewSignedMoney_iff [OF g(3)] sell_gain_value_Inr [OF g(2) p]
  have "ParseCurrency (cb_currency e) = Inr (s_currency gain)"
    using G(1) g(1) ParseCurrency_idem [OF g(1)] by auto
  with G p show ?thesis by (intro that [OF r]) (auto simp: realizes_def lot_average_def)
qed

lemma sell_step_inv:
  assumes "sell_step D st e = Inr st'" and "replay_inv D st"
  defines "x \<equiv> lot_quantity D (rs_current st) - d_val D (q_value (cb_quantity e))"
  shows "replay_inv D st' \<and> lot_position D (rs_current st') = (x, if x = 0 then 0 else lot_average D (rs_current st))"
  using assms(1)
proof (elim sell_step_Inr)
  fix rg
  assume r: "reduce_step D (st\<lparr>rs_realized := rs_realized st @ [rg]\<rparr>) (cb_quantity e) = Inr st'"
  have "replay_inv D (st\<lparr>rs_realized := rs_realized st @ [rg]\<rparr>)" using assms(2) by (simp add: replay_inv_def)
  from reduce_step_inv [OF r this] show ?thesis by (simp add: x_def)
qed

lemma starting_step_inv:
  assumes "starting_step D sc st e = Inr st'" and "replay_inv D st" and "valid_event D e"
    and "pred_option (valid_unit_price D) sc" and "cb_kind e = CostBasisStartingPoint"
  shows "replay_inv D st' \<and> lot_position D (rs_current st') = position_step D sc (lot_position D (rs_current st)) e"
  using assms
  by (auto simp: starting_step_def replay_inv_def position_step_def quantity_step_def average_step_def lot_position_def
      Quantity_IsZero_def exact valid_event_def valid_lot_def lot_quantity_def lot_average_def split: if_splits option.splits)

lemma cost_adjustment_step_inv:
  assumes "cost_adjustment_step D st e = Inr st'" and "replay_inv D st" and "valid_event D e"
    and "cb_kind e = CostBasisCostAdjustment"
  shows "replay_inv D st' \<and> lot_position D (rs_current st') = position_step D sc (lot_position D (rs_current st)) e"
  using assms
  by (auto simp: cost_adjustment_step_def replay_inv_def position_step_def quantity_step_def average_step_def
      lot_position_def Quantity_IsZero_def exact valid_event_def valid_lot_def lot_quantity_def lot_average_def split: if_splits)

text \<open>One step of the code refines one step of the specification.\<close>

lemma replay_step_inv:
  assumes "replay_step D sc st e = Inr st'" and "replay_inv D st" and "valid_event D e"
    and "pred_option (valid_unit_price D) sc"
  shows "replay_inv D st'" and "lot_position D (rs_current st') = position_step D sc (lot_position D (rs_current st)) e"
proof -
  have out: "outgoing_step D st e = Inr st' \<Longrightarrow> reduce_step D st (cb_quantity e) = Inr st'"
    by (auto simp: outgoing_step_def split: if_splits)
  have "replay_inv D st' \<and> lot_position D (rs_current st') = position_step D sc (lot_position D (rs_current st)) e"
    using assms(1) starting_step_inv [OF _ assms(2-4)] cost_adjustment_step_inv [OF _ assms(2,3)]
      reduce_step_inv [OF out assms(2)] incoming_step_inv [OF _ assms(2,3)] sell_step_inv [OF _ assms(2)]
    by (cases "cb_kind e") (simp_all add: replay_step_def position_step_def quantity_step_def average_step_def
        lot_position_def Let_def)
  then show "replay_inv D st'" "lot_position D (rs_current st') = position_step D sc (lot_position D (rs_current st)) e" by auto
qed

lemma replay_step_realized:
  assumes "replay_step D sc st e = Inr st'"
  shows "\<exists>new. rs_realized st' = rs_realized st @ new
    \<and> list_all2 (realizes D) (if cb_kind e = CostBasisSell then [(e, lot_average D (rs_current st))] else []) new"
proof (cases "cb_kind e = CostBasisSell")
  case True
  with assms obtain rg where "reduce_step D (st \<lparr> rs_realized := rs_realized st @ [rg] \<rparr>) (cb_quantity e) = Inr st'"
    "realizes D (e, lot_average D (rs_current st)) rg"
    by (auto simp: replay_step_def elim!: sell_step_Inr)
  with True show ?thesis by (auto simp: reduce_step_def)
next
  case False
  with assms show ?thesis
    by (cases "cb_kind e")
      (auto simp: replay_step_def starting_step_def incoming_step_def outgoing_step_def reduce_step_def
        cost_adjustment_step_def split: if_splits option.splits)
qed

text \<open>The loop refines the fold of the specification over the events it does not skip.\<close>

lemma replay_loop_refines:
  assumes "replay_loop D sc {} st events = Inr st'" and "replay_inv D st"
    and "list_all (valid_event D) events" and "pred_option (valid_unit_price D) sc"
  shows "replay_inv D st' \<and> lot_position D (rs_current st') = foldl (position_step D sc) (lot_position D (rs_current st)) events
    \<and> (\<exists>new. rs_realized st' = rs_realized st @ new
        \<and> list_all2 (realizes D) (sales_at_cost D sc (lot_position D (rs_current st)) events) new)"
  using assms
proof (induction events arbitrary: st)
  case (Cons e events)
  from Cons.prems obtain st1 where s: "replay_step D sc st e = Inr st1" "replay_loop D sc {} st1 events = Inr st'" by auto
  from Cons.prems have v: "valid_event D e" "list_all (valid_event D) events" by auto
  note S = replay_step_inv [OF s(1) Cons.prems(2) v(1) assms(4)]
  obtain new1 where n1: "rs_realized st1 = rs_realized st @ new1"
    "list_all2 (realizes D) (if cb_kind e = CostBasisSell then [(e, lot_average D (rs_current st))] else []) new1"
    using replay_step_realized [OF s(1)] by blast
  from Cons.IH [OF s(2) S(1) v(2) assms(4)] S(2) obtain new2 where IH: "replay_inv D st'"
    "lot_position D (rs_current st') = foldl (position_step D sc) (lot_position D (rs_current st)) (e # events)"
    "rs_realized st' = rs_realized st1 @ new2"
    "list_all2 (realizes D) (sales_at_cost D sc (position_step D sc (lot_position D (rs_current st)) e) events) new2" by auto
  have "list_all2 (realizes D) (sales_at_cost D sc (lot_position D (rs_current st)) (e # events)) (new1 @ new2)"
    using list_all2_appendI [OF n1(2) IH(4)] by (cases "cb_kind e = CostBasisSell") (simp_all add: lot_position_def)
  with IH n1(1) show ?case by auto
qed simp

lemma ReplayCostBasis_Inr:
  assumes "ReplayCostBasis D sc events = Inr r" and "events \<noteq> []"
  obtains st0 st where "replay_loop D sc (reversedActivityIDs events) st0 events = Inr st"
    and "cr_current r = rs_current st" and "cr_realized r = rs_realized st"
    and "replay_inv D st0" and "lot_position D (rs_current st0) = (0, 0)" and "rs_realized st0 = []"
proof -
  obtain q p where z: "ParseQuantity D ''0'' = Inr q" "d_val D (q_value q) = 0" "valid_quantity D q"
    "ParseUnitPrice D ''0'' = Inr p" "d_val D (u_value p) = 0" "valid_unit_price D p"
    using ParseQuantity_0 ParseUnitPrice_0 by blast
  let ?st0 = "\<lparr> rs_current = \<lparr> cl_average = p, cl_quantity = q \<rparr>, rs_realized = [], rs_started = False, rs_has_cost = False \<rparr>"
  from assms z(1,4) obtain st where "replay_loop D sc (reversedActivityIDs events) ?st0 events = Inr st"
    "cr_current r = rs_current st" "cr_realized r = rs_realized st"
    by (auto simp: ReplayCostBasis_def split: if_splits)
  then show ?thesis
    by (rule that) (simp_all add: replay_inv_def valid_lot_def lot_position_def lot_quantity_def lot_average_def z)
qed

lemma ReplayCostBasis_Nil: "ReplayCostBasis D None [] = Inr r \<Longrightarrow>
    valid_lot D (cr_current r) \<and> lot_position D (cr_current r) = (0, 0) \<and> cr_realized r = []"
  using ParseQuantity_0 ParseUnitPrice_0
  by (auto simp: ReplayCostBasis_def valid_lot_def lot_position_def lot_quantity_def lot_average_def)

end

section \<open>Reversed events leave no trace\<close>

lemma reversedActivityIDs_fold:
  "fold (\<lambda>event excluded. case cb_reverses event of
         None \<Rightarrow> excluded
       | Some original \<Rightarrow> insert original (insert (cb_activity_id event) excluded)) events S
   = S \<union> {x. \<exists>e \<in> set events. \<exists>original. cb_reverses e = Some original \<and> (x = original \<or> x = cb_activity_id e)}"
  by (induction events arbitrary: S) (auto split: option.splits)

lemma reversedActivityIDs_iff:
  "x \<in> reversedActivityIDs events \<longleftrightarrow>
     (\<exists>e \<in> set events. \<exists>original. cb_reverses e = Some original \<and> (x = original \<or> x = cb_activity_id e))"
  by (simp add: reversedActivityIDs_def reversedActivityIDs_fold)

text \<open>
  What a history is left with, said directly: an event is withdrawn when its activity reverses
  another one, or when some event of the history reverses its activity.
\<close>

definition withdrawn :: "'d CostBasisEvent list \<Rightarrow> 'd CostBasisEvent \<Rightarrow> bool" where
  "withdrawn events e \<longleftrightarrow>
     (\<exists>r \<in> set events. cb_reverses r = Some (cb_activity_id e)
        \<or> (cb_reverses r \<noteq> None \<and> cb_activity_id r = cb_activity_id e))"

definition surviving :: "'d CostBasisEvent list \<Rightarrow> 'd CostBasisEvent list" where
  "surviving events = filter (\<lambda>e. \<not> withdrawn events e) events"

lemma surviving_eq: "surviving events = filter (\<lambda>e. cb_activity_id e \<notin> reversedActivityIDs events) events"
  unfolding surviving_def by (rule filter_cong [OF refl]) (auto simp: withdrawn_def reversedActivityIDs_iff)

lemma surviving_reversed: "reversedActivityIDs (surviving events) = {}"
  by (force simp: surviving_def withdrawn_def reversedActivityIDs_iff)

text \<open>Recording a reversal withdraws exactly the activity it names.\<close>

lemma surviving_reversal:
  assumes "cb_reverses r = Some original" and "cb_activity_id r \<notin> cb_activity_id ` set events"
  shows "surviving (events @ [r]) = filter (\<lambda>e. cb_activity_id e \<noteq> original) (surviving events)"
  using assms by (auto simp: surviving_def withdrawn_def intro!: filter_cong)

lemma replay_loop_filter:
  "replay_loop D sc excluded st events = replay_loop D sc {} st (filter (\<lambda>e. cb_activity_id e \<notin> excluded) events)"
proof (induction events arbitrary: st)
  case (Cons e events)
  then show ?case by (cases "replay_step D sc st e") auto
qed simp

lemma replay_loop_surviving:
  "replay_loop D sc (reversedActivityIDs events) st events = replay_loop D sc {} st (surviving events)"
  unfolding surviving_eq by (rule replay_loop_filter)

section \<open>Properties of cost basis\<close>

text \<open>A unit cost is the exact quotient of a non-negative cost by a positive quantity, rounded
  once, half to even at eight places; it is refused exactly when that exceeds the largest unit
  price.  The remainder decides near-halves, so no second rounding can change the result.\<close>

theorem nonNegativeUnitCostQuotient_correct:
  assumes "decimal_lib D" and "0 \<le> d_val D cost" and "0 < d_val D quantity"
  shows "(is_ok (nonNegativeUnitCostQuotient D cost quantity) \<longleftrightarrow>
      half_even 8 (d_val D cost / d_val D quantity) \<le> max_unit_price)
    \<and> (\<forall>p. nonNegativeUnitCostQuotient D cost quantity = Inr p \<longrightarrow>
      d_val D (u_value p) = half_even 8 (d_val D cost / d_val D quantity) \<and> valid_unit_price D p)"
  using decimal_lib.quotient_iff [OF assms] by blast

theorem nonNegativeUnitCostQuotient_correct_witness:
  "nonNegativeUnitCostQuotient ref_decimal (Dec 1400 0) (Dec 15 0) = Inr \<lparr> u_value = Dec 9333333333 (- 8) \<rparr>
   \<and> dv (Dec 9333333333 (- 8)) = half_even 8 (1400 / 15)"
proof
  show n: "nonNegativeUnitCostQuotient ref_decimal (Dec 1400 0) (Dec 15 0) = Inr \<lparr> u_value = Dec 9333333333 (- 8) \<rparr>"
    by code_simp
  have "0 \<le> d_val ref_decimal (Dec 1400 0)" "0 < d_val ref_decimal (Dec 15 0)" by (simp_all add: dv_def)
  from nonNegativeUnitCostQuotient_correct [OF ref.decimal_lib_axioms this] n
  show "dv (Dec 9333333333 (- 8)) = half_even 8 (1400 / 15)" by (simp add: dv_def [of "Dec 1400 0"] dv_def [of "Dec 15 0"])
qed

text \<open>C19. Blending an incoming quantity into a lot adds the quantities, gives the rounded
  weighted average of the two costs, which lies between them, and keeps the lot valid.\<close>

theorem blendCost_weighted_average:
  assumes "decimal_lib D" and "blendCost D l (Some c) q hasCost = Inr l'" and "valid_lot D l"
    and "valid_quantity D q" and "valid_unit_price D c" and "d_val D (q_value q) \<noteq> 0"
    and "hasCost \<longleftrightarrow> lot_quantity D l \<noteq> 0"
  shows "valid_lot D l' \<and> lot_quantity D l' = lot_quantity D l + d_val D (q_value q)
    \<and> lot_average D l' = half_even 8
        ((lot_quantity D l * lot_average D l + d_val D (q_value q) * d_val D (u_value c)) / lot_quantity D l')
    \<and> (hasCost \<longrightarrow> min (lot_average D l) (d_val D (u_value c)) \<le> lot_average D l'
        \<and> lot_average D l' \<le> max (lot_average D l) (d_val D (u_value c)))"
proof -
  note B = decimal_lib.blendCost_Inr [OF assms]
  let ?a = "lot_average D l" and ?c = "d_val D (u_value c)" and ?m = "lot_quantity D l" and ?n = "d_val D (q_value q)"
  have pos: "0 \<le> ?m" "0 < ?n"
    using assms(3,4,6) by (auto simp: valid_lot_def valid_quantity_def lot_quantity_def)
  have g: "on_grid 8 ?a" "on_grid 8 ?c"
    using decimal_lib.valid_average_grid [OF assms(1)] assms(3,5) by (auto simp: valid_lot_def lot_average_def)
  have "min ?a ?c * (?m + ?n) \<le> ?m * ?a + ?n * ?c"
    using add_mono [OF mult_left_mono [of "min ?a ?c" ?a ?m] mult_left_mono [of "min ?a ?c" ?c ?n]] pos
    by (simp add: algebra_simps)
  moreover have "?m * ?a + ?n * ?c \<le> max ?a ?c * (?m + ?n)"
    using add_mono [OF mult_left_mono [of ?a "max ?a ?c" ?m] mult_left_mono [of ?c "max ?a ?c" ?n]] pos
    by (simp add: algebra_simps)
  ultimately have "min ?a ?c \<le> (?m * ?a + ?n * ?c) / (?m + ?n)" "(?m * ?a + ?n * ?c) / (?m + ?n) \<le> max ?a ?c"
    using pos by (simp_all add: pos_le_divide_eq pos_divide_le_eq add_nonneg_pos)
  then have "min ?a ?c \<le> lot_average D l'" "lot_average D l' \<le> max ?a ?c"
    unfolding B(1,2) using g half_even_ge [of 8 "min ?a ?c"] half_even_le [of 8 "max ?a ?c"]
    by (auto simp: min_def max_def split: if_splits)
  with B show ?thesis by simp
qed

text \<open>Evaluated steps that the sample histories below are put together from.\<close>

lemma sample_steps:
  "NewQuantity ref_decimal (Dec 15 0) = Inr \<lparr> q_value = Dec 15 0 \<rparr>"
  "NewQuantity ref_decimal (Dec 10 0) = Inr \<lparr> q_value = Dec 10 0 \<rparr>"
  "MultiplyQuantityAndUnitPrice ref_decimal \<lparr> q_value = Dec 10 0 \<rparr> \<lparr> u_value = Dec 100 0 \<rparr> = Inr (Dec 1000 0)"
  "MultiplyQuantityAndUnitPrice ref_decimal \<lparr> q_value = Dec 5 0 \<rparr> \<lparr> u_value = Dec 80 0 \<rparr> = Inr (Dec 400 0)"
  "nonNegativeUnitCostQuotient ref_decimal (Dec 1400 0) (Dec 15 0) = Inr \<lparr> u_value = Dec 9333333333 (- 8) \<rparr>"
  "ParseQuantity ref_decimal ''0'' = Inr \<lparr> q_value = Dec 0 0 \<rparr>"
  "ParseUnitPrice ref_decimal ''0'' = Inr \<lparr> u_value = Dec 0 0 \<rparr>"
  "ParseCurrency ''USD'' = Inr ''USD''"
  by code_simp+

lemmas sample_eval = sample_steps dec_add_def dec_sub_def dec_neg_def dec_mul_def dec_cmp_def scale_to_def Quantity_IsZero_def

definition sample_lot :: "dec CostLot" where
  "sample_lot = \<lparr> cl_average = \<lparr> u_value = Dec 100 0 \<rparr>, cl_quantity = \<lparr> q_value = Dec 10 0 \<rparr> \<rparr>"

theorem blendCost_weighted_average_witness:
  "\<exists>l'. blendCost ref_decimal sample_lot (Some \<lparr> u_value = Dec 80 0 \<rparr>) \<lparr> q_value = Dec 5 0 \<rparr> True = Inr l'
     \<and> lot_quantity ref_decimal l' = 15 \<and> 80 \<le> lot_average ref_decimal l'"
proof -
  have b: "blendCost ref_decimal sample_lot (Some \<lparr> u_value = Dec 80 0 \<rparr>) \<lparr> q_value = Dec 5 0 \<rparr> True =
      Inr \<lparr> cl_average = \<lparr> u_value = Dec 9333333333 (- 8) \<rparr>, cl_quantity = \<lparr> q_value = Dec 15 0 \<rparr> \<rparr>"
    by (simp add: blendCost_def sample_lot_def sample_eval)
  have "valid_lot ref_decimal sample_lot" "valid_quantity ref_decimal \<lparr> q_value = Dec 5 0 \<rparr>"
    "valid_unit_price ref_decimal \<lparr> u_value = Dec 80 0 \<rparr>" "d_val ref_decimal (q_value \<lparr> q_value = Dec 5 0 \<rparr>) \<noteq> 0"
    "True \<longleftrightarrow> lot_quantity ref_decimal sample_lot \<noteq> 0"
    by (simp_all add: valid_lot_def valid_quantity_def valid_unit_price_def sample_lot_def lot_quantity_def
        lot_average_def dv_def max_quantity_def max_unit_price_def scaled_def)
  note w = blendCost_weighted_average [OF ref.decimal_lib_axioms b this]
  have v: "lot_quantity ref_decimal sample_lot = 10" "lot_average ref_decimal sample_lot = 100"
    "dv (Dec 5 0) = 5" "dv (Dec 80 0) = 80"
    by (simp_all add: sample_lot_def lot_quantity_def lot_average_def dv_def)
  let ?l = "\<lparr> cl_average = \<lparr> u_value = Dec 9333333333 (- 8) \<rparr>, cl_quantity = \<lparr> q_value = Dec 15 0 \<rparr> \<rparr>"
  from w have "lot_quantity ref_decimal ?l = lot_quantity ref_decimal sample_lot + dv (Dec 5 0)"
    "min (lot_average ref_decimal sample_lot) (dv (Dec 80 0)) \<le> lot_average ref_decimal ?l"
    unfolding d_val_ref quantity.simps unit_price.simps by blast+
  then have "lot_quantity ref_decimal ?l = 15" "80 \<le> lot_average ref_decimal ?l" unfolding v by simp_all
  with b show ?thesis by blast
qed

definition sample_event :: "string \<Rightarrow> CostBasisEventKind \<Rightarrow> dec \<Rightarrow> dec \<Rightarrow> string option \<Rightarrow> dec CostBasisEvent" where
  "sample_event i kind q price reverses =
     \<lparr> cb_activity_id = i, cb_effective_at = 0, cb_created_at = 0, cb_ordering_id = i, cb_sequence = 1, cb_kind = kind,
       cb_quantity = \<lparr> q_value = q \<rparr>, cb_unit_price = Some \<lparr> u_value = price \<rparr>, cb_unit_cost = Some \<lparr> u_value = price \<rparr>,
       cb_source_holding_id = None, cb_gross = None, cb_fee = None, cb_currency = ''USD'', cb_reverses = reverses \<rparr>"

definition sample_kept :: "dec CostBasisEvent list" where
  "sample_kept =
     [sample_event ''a'' CostBasisBuy (Dec 10 0) (Dec 100 0) None,
      sample_event ''e'' CostBasisSell (Dec 6 0) (Dec 120 0) None]"

definition sample_events :: "dec CostBasisEvent list" where
  "sample_events =
     [sample_event ''a'' CostBasisBuy (Dec 10 0) (Dec 100 0) None,
      sample_event ''b'' CostBasisBuy (Dec 7 0) (Dec 50 0) None,
      sample_event ''d'' CostBasisBuy (Dec 7 0) (Dec 50 0) (Some ''b''),
      sample_event ''e'' CostBasisSell (Dec 6 0) (Dec 120 0) None]"

lemma sample_events_surviving: "surviving sample_events = sample_kept"
  by (simp add: surviving_def withdrawn_def sample_events_def sample_kept_def sample_event_def)

text \<open>C18. Reversed activities leave no trace.  An event is withdrawn when its activity reverses
  another one or is itself reversed by an event of the history.  A history replays to the same
  result or error as the history of the events that are not withdrawn; the one difference is the
  wording of the error when a starting cost is given and every event is withdrawn, since then the
  shorter history is empty.  Recording a reversal under a fresh activity id withdraws exactly the
  activity it names.\<close>

theorem ReplayCostBasis_ignores_reversed:
  assumes "decimal_lib D"
  shows "ReplayCostBasis D startingCost events =
      (if events \<noteq> [] \<and> surviving events = [] \<and> startingCost \<noteq> None
       then Inl (invalidCostBasis ''startingCost'' ''startingCost requires a Starting Point event'')
       else ReplayCostBasis D startingCost (surviving events))
    \<and> (\<forall>r original. cb_reverses r = Some original \<and> cb_activity_id r \<notin> cb_activity_id ` set events \<longrightarrow>
         surviving (events @ [r]) = filter (\<lambda>e. cb_activity_id e \<noteq> original) (surviving events))"
proof -
  obtain q p where z: "ParseQuantity D ''0'' = Inr q" "ParseUnitPrice D ''0'' = Inr p"
    using decimal_lib.ParseQuantity_0 [OF assms] decimal_lib.ParseUnitPrice_0 [OF assms] by blast
  have "surviving [] = []" by (simp add: surviving_def)
  then have "ReplayCostBasis D startingCost events =
      (if events \<noteq> [] \<and> surviving events = [] \<and> startingCost \<noteq> None
       then Inl (invalidCostBasis ''startingCost'' ''startingCost requires a Starting Point event'')
       else ReplayCostBasis D startingCost (surviving events))"
    by (cases "surviving events = []")
      (auto simp: ReplayCostBasis_def surviving_reversed z replay_loop_surviving Let_def)
  with surviving_reversal show ?thesis by blast
qed

definition sample_reversal :: "dec CostBasisEvent" where
  "sample_reversal = sample_event ''f'' CostBasisSell (Dec 6 0) (Dec 120 0) (Some ''e'')"

theorem ReplayCostBasis_ignores_reversed_witness:
  "ReplayCostBasis ref_decimal None sample_events = ReplayCostBasis ref_decimal None sample_kept
   \<and> surviving (sample_events @ [sample_reversal]) = [sample_event ''a'' CostBasisBuy (Dec 10 0) (Dec 100 0) None]"
proof -
  note w = ReplayCostBasis_ignores_reversed [OF ref.decimal_lib_axioms, of None sample_events]
  have "cb_reverses sample_reversal = Some ''e''" "cb_activity_id sample_reversal \<notin> cb_activity_id ` set sample_events"
    by (simp_all add: sample_reversal_def sample_events_def sample_event_def)
  with w have "surviving (sample_events @ [sample_reversal]) = filter (\<lambda>e. cb_activity_id e \<noteq> ''e'') sample_kept"
    unfolding sample_events_surviving by blast
  moreover have "filter (\<lambda>e. cb_activity_id e \<noteq> ''e'') sample_kept = [sample_event ''a'' CostBasisBuy (Dec 10 0) (Dec 100 0) None]"
    by (simp add: sample_kept_def sample_event_def)
  ultimately show ?thesis using w by (simp add: sample_events_surviving)
qed

text \<open>C17. Replay refines the average-cost method computed in exact rationals over the events that
  are not withdrawn, for every history of valid events.  When it succeeds, the current lot is
  valid and holds exactly the quantity and the average cost of that computation: incoming
  quantities blend by the weighted mean rounded once at eight places, outgoing ones keep the
  average, which is zero once nothing is left.  The realized gains are the sales, in order and
  nothing else; each records as its unit cost the average held just before the sale, and as its
  gain the proceeds less that cost of the quantity sold less the fee, rounded half to even at
  four places, in the settlement currency.\<close>

theorem ReplayCostBasis_realized:
  assumes "decimal_lib D" and "ReplayCostBasis D startingCost events = Inr r"
    and "list_all (valid_event D) events" and "pred_option (valid_unit_price D) startingCost"
  shows "valid_lot D (cr_current r)
    \<and> lot_position D (cr_current r) = foldl (position_step D startingCost) (0, 0) (surviving events)
    \<and> list_all2 (realizes D) (sales_at_cost D startingCost (0, 0) (surviving events)) (cr_realized r)"
proof (cases "events = []")
  case True
  with assms(2) have "startingCost = None" by (auto simp: ReplayCostBasis_def)
  with True decimal_lib.ReplayCostBasis_Nil [OF assms(1)] assms(2) show ?thesis by (simp add: surviving_def)
next
  case False
  from decimal_lib.ReplayCostBasis_Inr [OF assms(1,2) False] obtain st0 st where
    s: "replay_loop D startingCost (reversedActivityIDs events) st0 events = Inr st" "cr_current r = rs_current st"
      "cr_realized r = rs_realized st" "replay_inv D st0" "lot_position D (rs_current st0) = (0, 0)" "rs_realized st0 = []" .
  have "replay_loop D startingCost {} st0 (surviving events) = Inr st"
    using s(1) by (simp add: replay_loop_surviving)
  moreover have "list_all (valid_event D) (surviving events)"
    using assms(3) by (auto simp: surviving_def list_all_iff)
  ultimately show ?thesis
    using decimal_lib.replay_loop_refines [OF assms(1) _ s(4) _ assms(4)] s(2,3,5,6) by (auto simp: replay_inv_def)
qed

text \<open>A second purchase at another price before the sale, so that the cost of the sale is a blend:
  ten at 100 and five at 80 average 93.33333333, and six are sold at 120.\<close>

definition blend_events :: "dec CostBasisEvent list" where
  "blend_events =
     [sample_event ''a'' CostBasisBuy (Dec 10 0) (Dec 100 0) None,
      sample_event ''b'' CostBasisBuy (Dec 5 0) (Dec 80 0) None,
      sample_event ''e'' CostBasisSell (Dec 6 0) (Dec 120 0) None]"

definition blend_gain :: "dec RealizedGainEvent" where
  "blend_gain =
     \<lparr> rg_activity_id = ''e'', rg_effective_at = 0, rg_quantity = \<lparr> q_value = Dec 6 0 \<rparr>,
       rg_unit_cost = \<lparr> u_value = Dec 9333333333 (- 8) \<rparr>, rg_unit_proceeds = \<lparr> u_value = Dec 120 0 \<rparr>, rg_fee = None,
       rg_gain = \<lparr> s_amount = Dec 1600000 (- 4), s_currency = ''USD'' \<rparr> \<rparr>"

lemma blend_steps:
  "NewQuantity ref_decimal (Dec 9 0) = Inr \<lparr> q_value = Dec 9 0 \<rparr>"
  "NewSignedMoney ref_decimal (Dec 16000000002 (- 8)) ''USD'' = Inr \<lparr> s_amount = Dec 1600000 (- 4), s_currency = ''USD'' \<rparr>"
  by code_simp+

lemma blend_events_replay:
  "ReplayCostBasis ref_decimal None blend_events =
     Inr \<lparr> cr_current = \<lparr> cl_average = \<lparr> u_value = Dec 9333333333 (- 8) \<rparr>, cl_quantity = \<lparr> q_value = Dec 9 0 \<rparr> \<rparr>,
           cr_realized = [blend_gain] \<rparr>"
  by (simp add: ReplayCostBasis_def sample_eval blend_steps blend_events_def blend_gain_def sample_event_def
      reversedActivityIDs_def replay_step_def incoming_step_def eventUnitCost_def blendCost_def sell_step_def
      sell_gain_value_def reduce_step_def reduceCost_def)

lemma blend_events_valid: "list_all (valid_event ref_decimal) blend_events"
  by (simp add: blend_events_def sample_event_def valid_event_def valid_quantity_def valid_unit_price_def
      dv_def max_quantity_def max_unit_price_def scaled_def)

lemma blend_events_sales:
  "sales_at_cost ref_decimal None (0, 0) (surviving blend_events) =
     [(sample_event ''e'' CostBasisSell (Dec 6 0) (Dec 120 0) None, half_even 8 (1400 / 15))]"
proof -
  have "surviving blend_events = blend_events"
    by (simp add: surviving_def withdrawn_def blend_events_def sample_event_def)
  moreover have "half_even 8 100 = (100 :: rat)" by code_simp
  ultimately show ?thesis
    by (simp add: blend_events_def sample_event_def position_step_def quantity_step_def average_step_def
        acquisition_cost_def dv_def)
qed

theorem ReplayCostBasis_realized_witness:
  "\<exists>r. ReplayCostBasis ref_decimal None blend_events = Inr r \<and> cr_realized r = [blend_gain]
     \<and> realizes ref_decimal (sample_event ''e'' CostBasisSell (Dec 6 0) (Dec 120 0) None, half_even 8 (1400 / 15)) blend_gain"
  using ReplayCostBasis_realized [OF ref.decimal_lib_axioms blend_events_replay blend_events_valid] blend_events_replay
  by (simp add: blend_events_sales)

end
