(* ===== verification/Change.thy ===== *)
theory Change
  imports CostBasis
begin

text \<open>
  The ledger core of \<^verbatim>\<open>internal/domain/change.go\<close>: activities, effects and the in-memory change
  state, the validation of an effect, the application of effects to a state, and the creation
  of activities.  Effects are applied by a step function folded over the list, exactly as the
  loop of \<^verbatim>\<open>ApplyEffects\<close>; Go's maps are partial functions, so cloning a state is the identity.
\<close>

section \<open>Enumerations\<close>

datatype ActivityKind =
    ActivityCashIn | ActivityCashOut | ActivityCashDividend | ActivityCashTransfer | ActivityFXConversion
  | ActivityPositionTransfer | ActivityCostAdjustment | ActivityBuy | ActivitySell | ActivityValueUpdate
  | ActivityDebtDraw | ActivityDebtPayment | ActivityReversal | ActivityKind_unknown string

fun ActivityKind_String :: "ActivityKind \<Rightarrow> string" where
  "ActivityKind_String ActivityCashIn = ''cash_in''"
| "ActivityKind_String ActivityCashOut = ''cash_out''"
| "ActivityKind_String ActivityCashDividend = ''cash_dividend''"
| "ActivityKind_String ActivityCashTransfer = ''cash_transfer''"
| "ActivityKind_String ActivityFXConversion = ''fx_conversion''"
| "ActivityKind_String ActivityPositionTransfer = ''position_transfer''"
| "ActivityKind_String ActivityCostAdjustment = ''cost_adjustment''"
| "ActivityKind_String ActivityBuy = ''buy''"
| "ActivityKind_String ActivitySell = ''sell''"
| "ActivityKind_String ActivityValueUpdate = ''value_update''"
| "ActivityKind_String ActivityDebtDraw = ''debt_draw''"
| "ActivityKind_String ActivityDebtPayment = ''debt_payment''"
| "ActivityKind_String ActivityReversal = ''reversal''"
| "ActivityKind_String (ActivityKind_unknown s) = s"

definition ParseActivityKind :: "string \<Rightarrow> ActivityKind res" where
  "ParseActivityKind value =
     (case find (\<lambda>k. trim_space value = ActivityKind_String k)
        [ActivityCashIn, ActivityCashOut, ActivityCashDividend, ActivityCashTransfer, ActivityFXConversion,
         ActivityPositionTransfer, ActivityCostAdjustment, ActivityBuy, ActivitySell, ActivityValueUpdate,
         ActivityDebtDraw, ActivityDebtPayment, ActivityReversal] of
        Some kind \<Rightarrow> Inr kind
      | None \<Rightarrow> Inl (validation ''kind'' ''is not supported''))"

text \<open>The empty reason, Go's zero value, is \<^term>\<open>ActivityReason_unknown []\<close>.\<close>

datatype ActivityReason =
    ReasonIncome | ReasonContribution | ReasonGift | ReasonOther | ReasonExpense | ReasonCardPurchase
  | ReasonCardRefund | ReasonFee | ReasonTax | ReasonReconciliation | ReasonPrincipal | ReasonInterest
  | ActivityReason_unknown string

abbreviation "ReasonNone \<equiv> ActivityReason_unknown []"

fun ActivityReason_string :: "ActivityReason \<Rightarrow> string" where
  "ActivityReason_string ReasonIncome = ''income''"
| "ActivityReason_string ReasonContribution = ''contribution''"
| "ActivityReason_string ReasonGift = ''gift''"
| "ActivityReason_string ReasonOther = ''other''"
| "ActivityReason_string ReasonExpense = ''expense''"
| "ActivityReason_string ReasonCardPurchase = ''card_purchase''"
| "ActivityReason_string ReasonCardRefund = ''card_refund''"
| "ActivityReason_string ReasonFee = ''fee''"
| "ActivityReason_string ReasonTax = ''tax''"
| "ActivityReason_string ReasonReconciliation = ''reconciliation''"
| "ActivityReason_string ReasonPrincipal = ''principal''"
| "ActivityReason_string ReasonInterest = ''interest''"
| "ActivityReason_string (ActivityReason_unknown s) = s"

definition ParseActivityReason :: "string \<Rightarrow> ActivityReason res" where
  "ParseActivityReason value =
     (let reason = trim_space value in
      if reason = [] then Inr ReasonNone
      else case find (\<lambda>r. reason = ActivityReason_string r)
          [ReasonIncome, ReasonContribution, ReasonGift, ReasonOther, ReasonExpense, ReasonFee, ReasonTax,
           ReasonReconciliation, ReasonPrincipal, ReasonInterest, ReasonCardPurchase, ReasonCardRefund] of
          Some r \<Rightarrow> Inr r
        | None \<Rightarrow> Inl (validation ''reason'' ''is not supported''))"

definition MoneyInReasons :: "ActivityReason list" where
  "MoneyInReasons = [ReasonIncome, ReasonInterest, ReasonContribution, ReasonGift, ReasonOther, ReasonReconciliation]"

definition MoneyOutReasons :: "ActivityReason list" where
  "MoneyOutReasons = [ReasonExpense, ReasonFee, ReasonTax, ReasonInterest, ReasonOther, ReasonReconciliation]"

definition LiabilityIncreaseReasons :: "ActivityReason list" where
  "LiabilityIncreaseReasons = [ReasonCardPurchase, ReasonInterest, ReasonFee, ReasonOther, ReasonReconciliation]"

definition LiabilityDecreaseReasons :: "ActivityReason list" where
  "LiabilityDecreaseReasons = [ReasonCardRefund, ReasonOther, ReasonReconciliation]"

definition ValueUpdateReasons :: "ActivityReason list" where
  "ValueUpdateReasons = [ReasonInterest, ReasonReconciliation, ReasonOther]"

datatype ActivityClassification =
    ClassificationExternalInflow | ClassificationExternalOutflow | ClassificationIncome | ClassificationFee
  | ClassificationInternalTransfer | ClassificationTradePrincipal | ClassificationDebtPrincipal
  | ClassificationRemeasurement | ActivityClassification_unknown string

datatype EffectTarget =
    EffectTargetAccountValue | EffectTargetAccountCash | EffectTargetHoldingQuantity | EffectTargetHoldingCost
  | EffectTarget_unknown string

datatype EffectDirection = EffectAdded | EffectRemoved | EffectDirection_unknown string

datatype EffectRole =
    EffectRoleAmount | EffectRoleTransferFrom | EffectRoleTransferTo | EffectRolePrincipal | EffectRoleFee
  | EffectRoleQuantity | EffectRoleDebt | EffectRoleCost | EffectRole_unknown string

datatype TradeSide = TradeBuy | TradeSell | TradeSide_unknown string

definition ParseTradeSide :: "string \<Rightarrow> TradeSide res" where
  "ParseTradeSide value =
     (let side = trim_space value in
      if side = ''buy'' then Inr TradeBuy
      else if side = ''sell'' then Inr TradeSell
      else Inl (validation ''side'' ''is not supported''))"

section \<open>Activities and effects\<close>

record 'd ActivityEffect =
  e_id :: string
  e_activity_id :: ActivityID
  e_sequence :: int
  e_role :: EffectRole
  e_direction :: EffectDirection
  e_target :: EffectTarget
  e_classification :: ActivityClassification
  e_account :: "AccountID option"
  e_holding :: "HoldingID option"
  e_instrument :: "InstrumentID option"
  e_money :: "'d money option"
  e_quantity :: "'d quantity option"
  e_cost :: "'d unit_price option"

record 'd EndpointView =
  ev_target :: EffectTarget
  ev_account :: "AccountID option"
  ev_holding :: "HoldingID option"
  ev_cost :: "'d unit_price option"
  ev_name :: string
  ev_amount :: string
  ev_quantity :: string
  ev_currency :: CurrencyCode

record 'd TradeDetail =
  td_side :: TradeSide
  td_instrument_id :: InstrumentID
  td_holding_id :: HoldingID
  td_quantity :: "'d quantity"
  td_gross :: "'d money"
  td_unit_price :: "'d unit_price"
  td_fee :: "'d money option"

record 'd DividendDetail =
  dd_holding_id :: HoldingID
  dd_instrument_id :: InstrumentID
  dd_amount :: "'d money"

text \<open>
  An activity without the product context, which only the product layer attaches.  The recorded
  effects are \<^term>\<open>None\<close> while the slice is nil.
\<close>

record 'd Activity =
  act_id :: ActivityID
  act_household_id :: HouseholdID
  act_kind :: ActivityKind
  act_reason :: ActivityReason
  act_effective_at :: go_time
  act_effective_local_date :: string
  act_created_at :: go_time
  act_note :: "string option"
  act_reverses :: "ActivityID option"
  act_correction_group_id :: "string option"
  act_fx_rate :: "'d fx_rate option"
  act_trade_detail :: "'d TradeDetail option"
  act_dividend_detail :: "'d DividendDetail option"
  act_resulting :: "'d EndpointView list"
  act_effects :: "'d ActivityEffect list"
  act_recorded :: "'d ActivityEffect list option"

definition changeError :: "error_code \<Rightarrow> string \<Rightarrow> string \<Rightarrow> err" where
  "changeError code field message = DomainError code field message"

definition ActivityEffect_Validate :: "'d decimal_ops \<Rightarrow> 'd ActivityEffect \<Rightarrow> unit res" where
  "ActivityEffect_Validate D e =
     (let invalid = (\<lambda>message. Inl (changeError ErrInvalidChange ''effect'' message));
          money_zero = (case e_money e of None \<Rightarrow> False | Some m \<Rightarrow> Money_IsZero D m);
          quantity_zero = (case e_quantity e of None \<Rightarrow> False | Some q \<Rightarrow> Quantity_IsZero D q)
      in
      if e_sequence e < 1 \<or> e_activity_id e = [] \<or> e_id e = []
      then invalid ''effect identity and sequence are required''
      else if e_direction e \<noteq> EffectAdded \<and> e_direction e \<noteq> EffectRemoved
      then invalid ''effect direction is invalid''
      else if e_target e = EffectTargetHoldingCost then
        if e_direction e \<noteq> EffectAdded \<or> e_role e \<noteq> EffectRoleCost \<or> e_classification e \<noteq> ClassificationRemeasurement
          \<or> e_holding e = None \<or> e_instrument e = None \<or> e_account e \<noteq> None \<or> e_money e \<noteq> None
          \<or> e_quantity e \<noteq> None \<or> e_cost e = None
        then invalid ''Holding cost effect requires a Holding, Instrument, and target unit cost''
        else Inr ()
      else if e_money e \<noteq> None \<and> e_quantity e \<noteq> None
      then invalid ''effect cannot contain both Money and Quantity''
      else if e_money e = None \<and> e_quantity e = None
      then invalid ''effect magnitude is required''
      else if (money_zero \<and> \<not> (e_target e = EffectTargetAccountValue \<and> e_role e = EffectRoleAmount
                 \<and> e_classification e = ClassificationRemeasurement)) \<or> quantity_zero
      then invalid ''effect magnitude must be greater than zero''
      else if e_cost e \<noteq> None \<and> e_target e \<noteq> EffectTargetHoldingQuantity
      then invalid ''cost unit price is only valid for Holding effects''
      else if e_target e = EffectTargetAccountValue \<or> e_target e = EffectTargetAccountCash then
        if e_account e = None \<or> e_holding e \<noteq> None \<or> e_instrument e \<noteq> None \<or> e_quantity e \<noteq> None \<or> e_money e = None
        then invalid ''Account effects require one Account and Money''
        else Inr ()
      else if e_target e = EffectTargetHoldingQuantity then
        if e_holding e = None \<or> e_instrument e = None \<or> e_account e \<noteq> None \<or> e_quantity e = None \<or> e_money e \<noteq> None
        then invalid ''Holding effects require one Holding, Instrument, and Quantity''
        else Inr ()
      else invalid ''effect target is invalid'')"

section \<open>State\<close>

record 'd ChangeAccountState =
  ca_id :: AccountID
  ca_name :: string
  ca_currency :: CurrencyCode
  ca_mode :: TrackingMode
  ca_liability :: bool
  ca_archived :: bool
  ca_current :: "'d money"

record 'd ChangeHoldingState =
  ch_id :: HoldingID
  ch_account_id :: AccountID
  ch_instrument_id :: InstrumentID
  ch_instrument_name :: string
  ch_instrument_symbol :: string
  ch_instrument_short_name :: string
  ch_instrument_isin :: string
  ch_instrument_market_code :: string
  ch_instrument_quantity_unit :: string
  ch_instrument_provider_key :: string
  ch_instrument_provider_symbol :: string
  ch_currency :: CurrencyCode
  ch_archived :: bool
  ch_current :: "'d quantity"
  ch_cost_basis_available :: bool

definition ChangeHoldingState_DisplayLabel :: "'d ChangeHoldingState \<Rightarrow> string" where
  "ChangeHoldingState_DisplayLabel h =
     InstrumentDisplayLabel (ch_instrument_name h) (ch_instrument_symbol h) [ch_instrument_short_name h]"

definition ChangeHoldingState_SelectionLabel :: "'d ChangeHoldingState \<Rightarrow> string" where
  "ChangeHoldingState_SelectionLabel h =
     InstrumentSelectionLabel (ch_instrument_name h) (ch_instrument_symbol h) (ch_instrument_short_name h)
       [ch_instrument_market_code h, ch_currency h, ch_instrument_isin h, ch_instrument_quantity_unit h,
        ch_instrument_provider_key h, ch_instrument_provider_symbol h]"

record 'd ChangeState =
  cs_household_id :: HouseholdID
  cs_origin_at :: go_time
  cs_timezone :: string
  cs_now :: go_time
  cs_accounts :: "AccountID \<rightharpoonup> 'd ChangeAccountState"
  cs_cash :: "AccountID \<rightharpoonup> (CurrencyCode \<rightharpoonup> 'd money)"
  cs_holdings :: "HoldingID \<rightharpoonup> 'd ChangeHoldingState"
  cs_instruments :: "InstrumentID \<rightharpoonup> Instrument"

record 'd ChangePreview =
  cp_activity :: "'d Activity"
  cp_effects :: "'d ActivityEffect list"
  cp_resulting :: "'d EndpointView list"
  cp_derived_rate :: "'d fx_rate option"
  cp_derived_unit_price :: "'d unit_price option"

text \<open>
  What an operation takes from its surroundings: the identities the UUID generator returns
  (number 0 for the activity, number k for its k-th effect, one more for a new holding), the
  time zone database, and the order in which Go happens to range over the map of holdings.
\<close>

record runtime =
  rt_new_id :: "nat \<Rightarrow> string"
  rt_new_holding_id :: string
  rt_load_location :: "string \<Rightarrow> zone option"
  rt_holding_order :: "HoldingID list"

section \<open>Operations on the state\<close>

definition state_account :: "'d ChangeState \<Rightarrow> AccountID \<Rightarrow> HouseholdID \<Rightarrow> 'd ChangeAccountState res" where
  "state_account state i household =
     (if household \<noteq> cs_household_id state
      then Inl (changeError ErrInvalidChange ''householdId'' ''Household does not match'')
      else case cs_accounts state i of
          None \<Rightarrow> Inl (DomainError ErrNotFound [] ''Account was not found'')
        | Some account \<Rightarrow>
            if ca_archived account then Inl (DomainError ErrConflict ''accountId'' ''Account is archived'')
            else if m_currency (ca_current account) \<noteq> ca_currency account
            then Inl (DomainError ErrIntegrity [] ''Account state currency is invalid'')
            else Inr account)"

definition state_holding :: "'d ChangeState \<Rightarrow> HoldingID \<Rightarrow> HouseholdID \<Rightarrow> 'd ChangeHoldingState res" where
  "state_holding state i household =
     (if household \<noteq> cs_household_id state
      then Inl (changeError ErrInvalidChange ''householdId'' ''Household does not match'')
      else case cs_holdings state i of
          None \<Rightarrow> Inl (DomainError ErrNotFound [] ''Holding was not found'')
        | Some holding \<Rightarrow>
            if ch_archived holding then Inl (DomainError ErrConflict ''holdingId'' ''Holding is archived'')
            else Inr holding)"

definition timezone_required :: err where
  "timezone_required =
     DomainError ErrHistoryTimezoneRequired ''timezone'' ''confirm a Household timezone before recording a change''"

definition newActivity ::
    "runtime \<Rightarrow> 'd ChangeState \<Rightarrow> HouseholdID \<Rightarrow> ActivityKind \<Rightarrow> ActivityReason \<Rightarrow> go_time \<Rightarrow> string option \<Rightarrow> 'd Activity res" where
  "newActivity R state household kind reason effectiveAt note =
     (if household \<noteq> cs_household_id state
      then Inl (changeError ErrInvalidChange ''householdId'' ''Household does not match'')
      else
        let now = cs_now state in
        if time_is_zero now
        then Inl (changeError ErrInvalidChange ''now'' ''change state requires an explicit current time'')
        else
          let effectiveAt = (if time_is_zero effectiveAt then now else effectiveAt);
              timezone = trim_space (cs_timezone state)
          in if timezone = [] then Inl timezone_required
          else case rt_load_location R timezone of
            None \<Rightarrow> Inl timezone_required
          | Some zone \<Rightarrow>
              let effectiveAt = normalizeTime effectiveAt; now = normalizeTime now in
              if now < effectiveAt
              then Inl (DomainError ErrInvalidChangeTime ''effectiveAt'' ''change time cannot be in the future'')
              else if \<not> time_is_zero (cs_origin_at state) \<and> effectiveAt < normalizeTime (cs_origin_at state)
              then Inl (DomainError ErrInvalidChangeTime ''effectiveAt'' ''change time cannot precede the Starting point'')
              else
                res_bind (validateNote ''note'' note) (\<lambda>cleanNote.
                Inr \<lparr> act_id = rt_new_id R 0, act_household_id = household, act_kind = kind, act_reason = reason,
                      act_effective_at = effectiveAt, act_effective_local_date = local_date zone effectiveAt,
                      act_created_at = now, act_note = cleanNote, act_reverses = None,
                      act_correction_group_id = None, act_fx_rate = None, act_trade_detail = None,
                      act_dividend_detail = None, act_resulting = [], act_effects = [], act_recorded = None \<rparr>))"

definition account_view :: "EffectTarget \<Rightarrow> AccountID \<Rightarrow> string \<Rightarrow> 'd decimal_ops \<Rightarrow> 'd money \<Rightarrow> 'd EndpointView" where
  "account_view target i name D m =
     \<lparr> ev_target = target, ev_account = Some i, ev_holding = None, ev_cost = None, ev_name = name,
       ev_amount = Money_CanonicalAmount D m, ev_quantity = [], ev_currency = m_currency m \<rparr>"

definition applyMoney ::
    "'d decimal_ops \<Rightarrow> 'd ChangeAccountState \<Rightarrow> 'd money \<Rightarrow> EffectDirection \<Rightarrow> 'd EndpointView res" where
  "applyMoney D account amount direction =
     (if m_currency amount \<noteq> ca_currency account
      then Inl (DomainError ErrTransferMismatch ''amount'' ''amount currency must match the Account currency'')
      else
        let current = m_amount (ca_current account) in
        res_bind
          (if direction = EffectAdded then Inr (d_add D current (m_amount amount))
           else
             let current = d_sub D current (m_amount amount) in
             if d_is_negative D current
             then Inl (DomainError ErrInsufficientBalance ''amount'' (ca_name account @ '' does not have enough balance''))
             else Inr current) (\<lambda>current.
        res_bind (NewMoney D current (ca_currency account)) (\<lambda>updated.
        Inr (account_view EffectTargetAccountValue (ca_id account) (ca_name account) D updated))))"

definition state_cash_value :: "'d decimal_ops \<Rightarrow> 'd ChangeState \<Rightarrow> AccountID \<Rightarrow> CurrencyCode \<Rightarrow> 'd" where
  "state_cash_value D state accountID currency =
     (case cs_cash state accountID of
        None \<Rightarrow> d_zero D
      | Some byCurrency \<Rightarrow> (case byCurrency currency of None \<Rightarrow> d_zero D | Some existing \<Rightarrow> m_amount existing))"

definition state_cash ::
    "'d decimal_ops \<Rightarrow> 'd ChangeState \<Rightarrow> AccountID \<Rightarrow> 'd money \<Rightarrow> EffectDirection \<Rightarrow> 'd EndpointView res" where
  "state_cash D state accountID amount direction =
     (case cs_accounts state accountID of
        None \<Rightarrow> Inl (DomainError ErrNotFound [] ''Account was not found'')
      | Some account \<Rightarrow>
          let current = state_cash_value D state accountID (m_currency amount) in
          res_bind
            (if direction = EffectAdded then Inr (d_add D current (m_amount amount))
             else
               let current = d_sub D current (m_amount amount) in
               if d_is_negative D current
               then Inl (DomainError ErrInsufficientBalance ''amount'' (ca_name account @ '' does not have enough cash''))
               else Inr current) (\<lambda>current.
          res_bind (NewMoney D current (m_currency amount)) (\<lambda>updated.
          Inr (account_view EffectTargetAccountCash accountID (ca_name account) D updated))))"

definition accountAmount ::
    "'d decimal_ops \<Rightarrow> 'd ChangeState \<Rightarrow> 'd ChangeAccountState \<Rightarrow> 'd money \<Rightarrow> EffectDirection \<Rightarrow> 'd EndpointView res" where
  "accountAmount D state account amount direction =
     (if ca_mode account = TrackingHoldings then state_cash D state (ca_id account) amount direction
      else applyMoney D account amount direction)"

definition accountTarget :: "'d ChangeAccountState \<Rightarrow> EffectTarget" where
  "accountTarget account =
     (if ca_mode account = TrackingHoldings then EffectTargetAccountCash else EffectTargetAccountValue)"

section \<open>Applying effects\<close>

definition same_endpoint_view :: "'d EndpointView \<Rightarrow> 'd EndpointView \<Rightarrow> bool" where
  "same_endpoint_view existing candidate \<longleftrightarrow>
     ev_target existing = ev_target candidate
     \<and> ((ev_account existing \<noteq> None \<and> ev_account existing = ev_account candidate \<and> ev_currency existing = ev_currency candidate)
        \<or> (ev_holding existing \<noteq> None \<and> ev_holding existing = ev_holding candidate))"

fun upsertEndpointView :: "'d EndpointView list \<Rightarrow> 'd EndpointView \<Rightarrow> 'd EndpointView list" where
  "upsertEndpointView [] candidate = [candidate]"
| "upsertEndpointView (existing # views) candidate =
     (if same_endpoint_view existing candidate then candidate # views
      else existing # upsertEndpointView views candidate)"

definition holding_view :: "'d decimal_ops \<Rightarrow> 'd ChangeHoldingState \<Rightarrow> 'd quantity \<Rightarrow> 'd EndpointView" where
  "holding_view D holding quantity =
     \<lparr> ev_target = EffectTargetHoldingQuantity, ev_account = None, ev_holding = Some (ch_id holding), ev_cost = None,
       ev_name = ChangeHoldingState_SelectionLabel holding, ev_amount = [],
       ev_quantity = Quantity_Canonical D quantity, ev_currency = [] \<rparr>"

definition cost_view :: "'d decimal_ops \<Rightarrow> 'd ChangeHoldingState \<Rightarrow> 'd unit_price option \<Rightarrow> 'd EndpointView" where
  "cost_view D holding cost =
     \<lparr> ev_target = EffectTargetHoldingCost, ev_account = None, ev_holding = Some (ch_id holding), ev_cost = cost,
       ev_name = ChangeHoldingState_SelectionLabel holding, ev_amount = [],
       ev_quantity = Quantity_Canonical D (ch_current holding), ev_currency = [] \<rparr>"

definition set_cash :: "'d ChangeState \<Rightarrow> AccountID \<Rightarrow> 'd money \<Rightarrow> 'd ChangeState" where
  "set_cash state i m =
     (let old = (case cs_cash state i of None \<Rightarrow> Map.empty | Some byCurrency \<Rightarrow> byCurrency)
      in state \<lparr> cs_cash := (cs_cash state)(i \<mapsto> old(m_currency m \<mapsto> m)) \<rparr>)"

definition apply_cost_effect :: "'d decimal_ops \<Rightarrow> 'd ChangeState \<Rightarrow> 'd ActivityEffect \<Rightarrow> ('d ChangeState \<times> 'd EndpointView) res" where
  "apply_cost_effect D state effect =
     (case cs_holdings state (the (e_holding effect)) of
        None \<Rightarrow> Inl (changeError ErrInvalidChange ''effect'' ''cost correction requires a positive matching Holding'')
      | Some holding \<Rightarrow>
          if ch_instrument_id holding \<noteq> the (e_instrument effect) \<or> Quantity_IsZero D (ch_current holding)
          then Inl (changeError ErrInvalidChange ''effect'' ''cost correction requires a positive matching Holding'')
          else Inr (state, cost_view D holding (e_cost effect)))"

definition apply_money_effect ::
    "'d decimal_ops \<Rightarrow> 'd ChangeState \<Rightarrow> 'd ActivityEffect \<Rightarrow> 'd money \<Rightarrow> ('d ChangeState \<times> 'd EndpointView) res" where
  "apply_money_effect D state effect m =
     (case e_account effect of
        None \<Rightarrow> Inl (changeError ErrInvalidChange ''effect'' ''money effect requires an Account'')
      | Some accountID \<Rightarrow>
          (case cs_accounts state accountID of
             None \<Rightarrow> Inl (DomainError ErrNotFound [] ''Account was not found'')
           | Some account \<Rightarrow>
               if e_target effect \<noteq> accountTarget account
               then Inl (changeError ErrInvalidChange ''effect'' ''effect target does not match the Account'')
               else
                 res_bind (accountAmount D state account m (e_direction effect)) (\<lambda>view.
                 res_bind (ParseMoney D (ev_amount view) (ev_currency view)) (\<lambda>updated.
                 Inr (if e_target effect = EffectTargetAccountValue
                      then state \<lparr> cs_accounts := (cs_accounts state)(ca_id account \<mapsto> account \<lparr> ca_current := updated \<rparr>) \<rparr>
                      else set_cash state (ca_id account) updated, view)))))"

definition apply_quantity_effect :: "'d decimal_ops \<Rightarrow> 'd ChangeState \<Rightarrow> 'd ActivityEffect \<Rightarrow> ('d ChangeState \<times> 'd EndpointView) res" where
  "apply_quantity_effect D state effect =
     (case (e_holding effect, e_quantity effect) of
        (Some holdingID, Some quantity) \<Rightarrow>
          (case cs_holdings state holdingID of
             None \<Rightarrow> Inl (DomainError ErrNotFound [] ''Holding was not found'')
           | Some holding \<Rightarrow>
               let current = q_value (ch_current holding) in
               res_bind
                 (if e_direction effect = EffectAdded then Inr (d_add D current (q_value quantity))
                  else
                    let current = d_sub D current (q_value quantity) in
                    if d_is_negative D current
                    then Inl (DomainError ErrInsufficientQuantity ''quantity'' ''Holding does not have enough quantity'')
                    else Inr current) (\<lambda>current.
               res_bind (NewQuantity D current) (\<lambda>updated.
               Inr (state \<lparr> cs_holdings := (cs_holdings state)(ch_id holding \<mapsto> holding \<lparr> ch_current := updated \<rparr>) \<rparr>,
                    holding_view D (holding \<lparr> ch_current := updated \<rparr>) updated))))
      | _ \<Rightarrow> Inl (changeError ErrInvalidChange ''effect'' ''quantity effect is incomplete''))"

definition apply_effect :: "'d decimal_ops \<Rightarrow> 'd ChangeState \<Rightarrow> 'd ActivityEffect \<Rightarrow> ('d ChangeState \<times> 'd EndpointView) res" where
  "apply_effect D state effect =
     res_bind (ActivityEffect_Validate D effect) (\<lambda>_.
     if e_target effect = EffectTargetHoldingCost then apply_cost_effect D state effect
     else case e_money effect of
         Some m \<Rightarrow> apply_money_effect D state effect m
       | None \<Rightarrow> apply_quantity_effect D state effect)"

fun apply_effects_loop ::
    "'d decimal_ops \<Rightarrow> 'd ChangeState \<Rightarrow> 'd EndpointView list \<Rightarrow> 'd ActivityEffect list \<Rightarrow> ('d ChangeState \<times> 'd EndpointView list) res" where
  "apply_effects_loop D state views [] = Inr (state, views)"
| "apply_effects_loop D state views (effect # effects) =
     res_bind (apply_effect D state effect) (\<lambda>(state', view).
     apply_effects_loop D state' (upsertEndpointView views view) effects)"

definition ApplyEffects ::
    "'d decimal_ops \<Rightarrow> 'd ChangeState \<Rightarrow> 'd ActivityEffect list \<Rightarrow> ('d ChangeState \<times> 'd EndpointView list) res" where
  "ApplyEffects D state effects = apply_effects_loop D state [] effects"

section \<open>Undo\<close>

definition inverse_direction :: "EffectDirection \<Rightarrow> EffectDirection" where
  "inverse_direction d = (if d = EffectAdded then EffectRemoved else EffectAdded)"

text \<open>The effects in reverse order, renumbered, with new identities and the opposite direction.\<close>

definition inverse_effects :: "runtime \<Rightarrow> ActivityID \<Rightarrow> 'd ActivityEffect list \<Rightarrow> 'd ActivityEffect list" where
  "inverse_effects R activityID effects =
     map (\<lambda>(index, effect). effect \<lparr> e_id := rt_new_id R (index + 1), e_activity_id := activityID,
            e_sequence := int index + 1, e_direction := inverse_direction (e_direction effect) \<rparr>)
       (enumerate 0 (rev effects))"

definition InverseChangeAt ::
    "'d decimal_ops \<Rightarrow> runtime \<Rightarrow> 'd ChangeState \<Rightarrow> 'd Activity \<Rightarrow> 'd ActivityEffect list \<Rightarrow> go_time \<Rightarrow> 'd ChangePreview res" where
  "InverseChangeAt D R state original effects effectiveAt =
     (if act_kind original = ActivityCostAdjustment
      then Inl (DomainError ErrCannotFixChange [] ''reconcile total cost again to correct a cost adjustment'')
      else
        res_bind (newActivity R state (act_household_id original) ActivityReversal ReasonOther effectiveAt None) (\<lambda>activity.
        let activity = activity \<lparr> act_reverses := Some (act_id original) \<rparr>;
            inverse = inverse_effects R (act_id activity) effects
        in res_bind (ApplyEffects D state inverse) (\<lambda>(_, resulting).
           Inr \<lparr> cp_activity = activity \<lparr> act_effects := inverse \<rparr>, cp_effects = inverse, cp_resulting = resulting,
                 cp_derived_rate = None, cp_derived_unit_price = None \<rparr>)))"

definition InverseChange ::
    "'d decimal_ops \<Rightarrow> runtime \<Rightarrow> 'd ChangeState \<Rightarrow> 'd Activity \<Rightarrow> 'd ActivityEffect list \<Rightarrow> 'd ChangePreview res" where
  "InverseChange D R state original effects = InverseChangeAt D R state original effects (cs_now state)"

end
