(* ===== verification/Ledger.thy ===== *)
theory Ledger
  imports Change
begin

text \<open>
  An abstract specification of the change state and the refinement by \<^verbatim>\<open>ApplyEffects\<close>.  The
  abstract ledger gives every endpoint (the value of an account, its cash in one currency, the
  quantity of a holding) a rational number; an effect posts a signed amount to one endpoint.
  Applying effects is shown to be exact posting: no rounding, no negative balance, no other
  endpoint touched.
\<close>

section \<open>The abstract ledger\<close>

datatype endpoint = ValueOf AccountID | CashOf AccountID CurrencyCode | QuantityOf HoldingID

fun ledger :: "'d decimal_ops \<Rightarrow> 'd ChangeState \<Rightarrow> endpoint \<Rightarrow> rat" where
  "ledger D s (ValueOf i) = (case cs_accounts s i of None \<Rightarrow> 0 | Some a \<Rightarrow> d_val D (m_amount (ca_current a)))"
| "ledger D s (CashOf i c) = d_val D (state_cash_value D s i c)"
| "ledger D s (QuantityOf h) = (case cs_holdings s h of None \<Rightarrow> 0 | Some x \<Rightarrow> d_val D (q_value (ch_current x)))"

fun limit :: "endpoint \<Rightarrow> rat" where
  "limit (ValueOf i) = max_money"
| "limit (CashOf i c) = max_money"
| "limit (QuantityOf h) = max_quantity"

definition effect_endpoint :: "'d ActivityEffect \<Rightarrow> endpoint option" where
  "effect_endpoint e =
     (if e_target e = EffectTargetHoldingCost then None
      else case e_money e of
          Some m \<Rightarrow> Some (if e_target e = EffectTargetAccountCash then CashOf (the (e_account e)) (m_currency m)
                          else ValueOf (the (e_account e)))
        | None \<Rightarrow> Some (QuantityOf (the (e_holding e))))"

definition magnitude :: "'d decimal_ops \<Rightarrow> 'd ActivityEffect \<Rightarrow> rat" where
  "magnitude D e =
     (case e_money e of
        Some m \<Rightarrow> d_val D (m_amount m)
      | None \<Rightarrow> (case e_quantity e of Some q \<Rightarrow> d_val D (q_value q) | None \<Rightarrow> 0))"

definition signed :: "EffectDirection \<Rightarrow> rat \<Rightarrow> rat" where
  "signed d x = (if d = EffectAdded then x else - x)"

definition effect_delta :: "'d decimal_ops \<Rightarrow> 'd ActivityEffect \<Rightarrow> rat" where
  "effect_delta D e = signed (e_direction e) (magnitude D e)"

text \<open>What a list of effects posts to an endpoint.\<close>

definition posted :: "'d decimal_ops \<Rightarrow> 'd ActivityEffect list \<Rightarrow> endpoint \<Rightarrow> rat" where
  "posted D es ep = sum_list (map (\<lambda>e. if effect_endpoint e = Some ep then effect_delta D e else 0) es)"

section \<open>Well-formed states and effects\<close>

definition exact_quantity :: "'d decimal_ops \<Rightarrow> 'd quantity \<Rightarrow> bool" where
  "exact_quantity D q \<longleftrightarrow> valid_quantity D q \<and> - 8 \<le> d_exponent D (q_value q)"

definition valid_account_state :: "'d decimal_ops \<Rightarrow> AccountID \<Rightarrow> 'd ChangeAccountState \<Rightarrow> bool" where
  "valid_account_state D i a \<longleftrightarrow>
     ca_id a = i \<and> valid_money D (ca_current a) \<and> m_currency (ca_current a) = ca_currency a"

definition valid_holding_state :: "'d decimal_ops \<Rightarrow> HoldingID \<Rightarrow> 'd ChangeHoldingState \<Rightarrow> bool" where
  "valid_holding_state D i h \<longleftrightarrow> ch_id h = i \<and> exact_quantity D (ch_current h)"

definition valid_state :: "'d decimal_ops \<Rightarrow> 'd ChangeState \<Rightarrow> bool" where
  "valid_state D s \<longleftrightarrow>
     (\<forall>i a. cs_accounts s i = Some a \<longrightarrow> valid_account_state D i a)
     \<and> (\<forall>i by_c c m. cs_cash s i = Some by_c \<longrightarrow> by_c c = Some m \<longrightarrow> valid_money D m \<and> m_currency m = c)
     \<and> (\<forall>i h. cs_holdings s i = Some h \<longrightarrow> valid_holding_state D i h)"

definition valid_effect :: "'d decimal_ops \<Rightarrow> 'd ActivityEffect \<Rightarrow> bool" where
  "valid_effect D e \<longleftrightarrow> pred_option (valid_money D) (e_money e) \<and> pred_option (exact_quantity D) (e_quantity e)"

text \<open>Two states with the same accounts, holdings and settings, up to balances.\<close>

definition same_frame :: "'d ChangeState \<Rightarrow> 'd ChangeState \<Rightarrow> bool" where
  "same_frame s t \<longleftrightarrow>
     (\<forall>i m. map_option (\<lambda>a. a \<lparr> ca_current := m \<rparr>) (cs_accounts s i) = map_option (\<lambda>a. a \<lparr> ca_current := m \<rparr>) (cs_accounts t i))
     \<and> (\<forall>i q. map_option (\<lambda>h. h \<lparr> ch_current := q \<rparr>) (cs_holdings s i) = map_option (\<lambda>h. h \<lparr> ch_current := q \<rparr>) (cs_holdings t i))
     \<and> cs_household_id s = cs_household_id t \<and> cs_origin_at s = cs_origin_at t \<and> cs_timezone s = cs_timezone t
     \<and> cs_now s = cs_now t \<and> cs_instruments s = cs_instruments t"

lemma same_frame_refl [simp]: "same_frame s s"
  by (simp add: same_frame_def)

lemma same_frame_sym: "same_frame s t \<Longrightarrow> same_frame t s"
  by (simp add: same_frame_def)

lemma same_frame_trans: "same_frame s t \<Longrightarrow> same_frame t u \<Longrightarrow> same_frame s u"
  by (simp add: same_frame_def)

lemma same_frame_account:
  assumes "same_frame s t" and "cs_accounts s i = Some a"
  obtains b where "cs_accounts t i = Some b" and "ca_id b = ca_id a" and "ca_mode b = ca_mode a"
    and "ca_currency b = ca_currency a" and "ca_name b = ca_name a"
proof -
  have e: "map_option (\<lambda>a. a \<lparr> ca_current := m \<rparr>) (cs_accounts t i) = Some (a \<lparr> ca_current := m \<rparr>)" for m
    using assms unfolding same_frame_def by (metis option.map(2))
  then obtain b where b: "cs_accounts t i = Some b" by (cases "cs_accounts t i") auto
  have "b \<lparr> ca_current := ca_current a \<rparr> = a \<lparr> ca_current := ca_current a \<rparr>"
    using e [of "ca_current a"] b by simp
  then show ?thesis using b by (intro that [of b]) (metis ChangeAccountState.select_convs ChangeAccountState.surjective ChangeAccountState.update_convs(7))+
qed

lemma same_frame_holding:
  assumes "same_frame s t" and "cs_holdings s i = Some a"
  obtains b where "cs_holdings t i = Some b"
  using assms by (cases "cs_holdings t i") (auto simp: same_frame_def dest: spec [of _ i])

text \<open>
  When an effect can be applied: its validation passes, its endpoint exists and fits, and the
  new balance stays between zero and the limit.
\<close>

definition fits :: "'d ChangeState \<Rightarrow> 'd ActivityEffect \<Rightarrow> bool" where
  "fits s e \<longleftrightarrow>
     (case e_money e of
        Some m \<Rightarrow> (\<exists>i a. e_account e = Some i \<and> cs_accounts s i = Some a \<and> e_target e = accountTarget a
          \<and> (ca_mode a \<noteq> TrackingHoldings \<longrightarrow> m_currency m = ca_currency a))
      | None \<Rightarrow> (\<exists>i h. e_holding e = Some i \<and> cs_holdings s i = Some h))"

section \<open>Single effects\<close>

lemma valid_stateD:
  assumes "valid_state D s"
  shows "cs_accounts s i = Some a \<Longrightarrow> valid_account_state D i a"
    and "cs_cash s i = Some by_c \<Longrightarrow> by_c c = Some m \<Longrightarrow> valid_money D m \<and> m_currency m = c"
    and "cs_holdings s i = Some h \<Longrightarrow> valid_holding_state D i h"
  using assms unfolding valid_state_def by blast+

lemma ledger_set_cash:
  "ledger D (set_cash s i m) = (ledger D s)(CashOf i (m_currency m) := d_val D (m_amount m))"
proof
  fix ep show "ledger D (set_cash s i m) ep = ((ledger D s)(CashOf i (m_currency m) := d_val D (m_amount m))) ep"
    by (cases ep) (auto simp: set_cash_def state_cash_value_def Let_def split: option.splits)
qed

lemma ledger_set_value:
  "ledger D (s \<lparr> cs_accounts := (cs_accounts s)(i \<mapsto> a) \<rparr>) = (ledger D s)(ValueOf i := d_val D (m_amount (ca_current a)))"
proof
  fix ep show "ledger D (s \<lparr> cs_accounts := (cs_accounts s)(i \<mapsto> a) \<rparr>) ep = ((ledger D s)(ValueOf i := d_val D (m_amount (ca_current a)))) ep"
    by (cases ep) (auto simp: state_cash_value_def)
qed

lemma ledger_set_quantity:
  "ledger D (s \<lparr> cs_holdings := (cs_holdings s)(i \<mapsto> h) \<rparr>) = (ledger D s)(QuantityOf i := d_val D (q_value (ch_current h)))"
proof
  fix ep show "ledger D (s \<lparr> cs_holdings := (cs_holdings s)(i \<mapsto> h) \<rparr>) ep = ((ledger D s)(QuantityOf i := d_val D (q_value (ch_current h)))) ep"
    by (cases ep) (auto simp: state_cash_value_def)
qed

lemma same_frame_set_cash [simp]: "same_frame s (set_cash s i m)"
  by (simp add: same_frame_def set_cash_def Let_def)

lemma same_frame_set_value: "cs_accounts s i = Some a \<Longrightarrow> same_frame s (s \<lparr> cs_accounts := (cs_accounts s)(i \<mapsto> a \<lparr> ca_current := m \<rparr>) \<rparr>)"
  by (simp add: same_frame_def)

lemma same_frame_set_quantity: "cs_holdings s i = Some h \<Longrightarrow> same_frame s (s \<lparr> cs_holdings := (cs_holdings s)(i \<mapsto> h \<lparr> ch_current := q \<rparr>) \<rparr>)"
  by (simp add: same_frame_def)

lemma valid_state_set_cash: "valid_state D s \<Longrightarrow> valid_money D m \<Longrightarrow> valid_state D (set_cash s i m)"
  unfolding valid_state_def set_cash_def Let_def by (auto split: option.splits if_splits)

lemma valid_state_set_value:
  "valid_state D s \<Longrightarrow> valid_account_state D i a \<Longrightarrow> valid_state D (s \<lparr> cs_accounts := (cs_accounts s)(i \<mapsto> a) \<rparr>)"
  unfolding valid_state_def by auto

lemma valid_state_set_quantity:
  "valid_state D s \<Longrightarrow> valid_holding_state D i h \<Longrightarrow> valid_state D (s \<lparr> cs_holdings := (cs_holdings s)(i \<mapsto> h) \<rparr>)"
  unfolding valid_state_def by auto

text \<open>
  The outcome of posting \<^term>\<open>x\<close> as the new balance of an endpoint: the state changes there and
  nowhere else, and the view shows the new balance.
\<close>

definition view_shows :: "'d decimal_ops \<Rightarrow> 'd EndpointView \<Rightarrow> endpoint \<Rightarrow> rat \<Rightarrow> bool" where
  "view_shows D v ep x \<longleftrightarrow>
     (case ep of
        ValueOf i \<Rightarrow> ev_target v = EffectTargetAccountValue \<and> ev_account v = Some i \<and> ev_holding v = None
          \<and> (\<exists>a. ev_amount v = d_string D a \<and> d_val D a = x)
      | CashOf i c \<Rightarrow> ev_target v = EffectTargetAccountCash \<and> ev_account v = Some i \<and> ev_holding v = None \<and> ev_currency v = c
          \<and> (\<exists>a. ev_amount v = d_string D a \<and> d_val D a = x)
      | QuantityOf h \<Rightarrow> ev_target v = EffectTargetHoldingQuantity \<and> ev_account v = None \<and> ev_holding v = Some h
          \<and> (\<exists>a. ev_quantity v = canonicalDecimal D a \<and> d_val D a = x))"

definition posts :: "'d decimal_ops \<Rightarrow> 'd ChangeState \<Rightarrow> endpoint \<Rightarrow> rat \<Rightarrow> ('d ChangeState \<times> 'd EndpointView) res \<Rightarrow> bool" where
  "posts D s ep x r \<longleftrightarrow>
     (if 0 \<le> x \<and> x \<le> limit ep
      then (\<exists>s' v. r = Inr (s', v) \<and> valid_state D s' \<and> same_frame s s' \<and> ledger D s' = (ledger D s)(ep := x) \<and> view_shows D v ep x)
      else \<not> is_ok r)"

context decimal_lib
begin

lemma new_money_balance:
  assumes "0 \<le> d_val D cur" and "on_grid 4 (d_val D cur)" and "valid_money D m" and "valid_currency c"
    and "r = res_bind (if d = EffectAdded then Inr (d_add D cur (m_amount m))
          else let w = d_sub D cur (m_amount m) in if d_is_negative D w then Inl e else Inr w) (\<lambda>w. NewMoney D w c)"
  defines "x \<equiv> d_val D cur + signed d (d_val D (m_amount m))"
  shows "0 \<le> x \<Longrightarrow> x \<le> max_money \<Longrightarrow> \<exists>u. r = Inr u \<and> d_val D (m_amount u) = x \<and> m_currency u = c \<and> valid_money D u"
    and "\<not> (0 \<le> x \<and> x \<le> max_money) \<Longrightarrow> \<not> is_ok r"
proof -
  let ?w = "if d = EffectAdded then d_add D cur (m_amount m) else d_sub D cur (m_amount m)"
  have w: "d_val D ?w = x" by (simp add: x_def signed_def exact)
  have g: "on_grid 4 x"
    using assms(2) valid_money_grid [OF assms(3)] by (auto simp: x_def signed_def on_grid_add on_grid_diff)
  have m: "0 \<le> d_val D (m_amount m)" using assms(3) by (simp add: valid_money_def)
  have r: "r = (if x < 0 then Inl e else NewMoney D ?w c)"
    using w m assms(1) by (auto simp: assms(5) exact x_def signed_def Let_def)
  have p: "ParseCurrency c = Inr c" by (rule ParseCurrency_valid [OF assms(4)])
  show "\<exists>u. r = Inr u \<and> d_val D (m_amount u) = x \<and> m_currency u = c \<and> valid_money D u" if x: "0 \<le> x" "x \<le> max_money"
  proof -
    obtain u where u: "NewMoney D ?w c = Inr u" using NewMoney_ok [of ?w c c] x w p by auto
    note U = NewMoney_Inr [OF u]
    have "r = Inr u" using x by (simp only: r u) simp
    moreover have "d_val D (m_amount u) = x" using U(2) g by (simp only: w half_even_on_grid)
    moreover have "m_currency u = c" using U(3) p by simp
    ultimately show ?thesis using U(1) by blast
  qed
  show "\<not> is_ok r" if "\<not> (0 \<le> x \<and> x \<le> max_money)"
    using that NewMoney_Inr(4,5) [of ?w c] w by (auto simp: r is_ok_iff split: if_splits)
qed

lemma new_quantity_balance:
  assumes "exact_quantity D cur" and "exact_quantity D q"
    and "r = res_bind (if d = EffectAdded then Inr (d_add D (q_value cur) (q_value q))
          else let w = d_sub D (q_value cur) (q_value q) in if d_is_negative D w then Inl e else Inr w) (NewQuantity D)"
  defines "x \<equiv> d_val D (q_value cur) + signed d (d_val D (q_value q))"
  shows "0 \<le> x \<Longrightarrow> x \<le> max_quantity \<Longrightarrow> \<exists>u. r = Inr u \<and> d_val D (q_value u) = x \<and> exact_quantity D u"
    and "\<not> (0 \<le> x \<and> x \<le> max_quantity) \<Longrightarrow> \<not> is_ok r"
proof -
  let ?w = "if d = EffectAdded then d_add D (q_value cur) (q_value q) else d_sub D (q_value cur) (q_value q)"
  have w: "d_val D ?w = x" by (simp add: x_def signed_def exact)
  have e: "- 8 \<le> d_exponent D ?w"
    using assms(1,2) exponent_add [of "q_value cur" "q_value q"] exponent_sub [of "q_value cur" "q_value q"]
    by (auto simp: exact_quantity_def)
  have m: "0 \<le> d_val D (q_value q)" "0 \<le> d_val D (q_value cur)"
    using assms(1,2) by (auto simp: exact_quantity_def valid_quantity_def)
  have r: "r = (if x < 0 then Inl e else NewQuantity D ?w)"
    using w m by (auto simp: assms(3) exact x_def signed_def Let_def)
  show "0 \<le> x \<Longrightarrow> x \<le> max_quantity \<Longrightarrow> \<exists>u. r = Inr u \<and> d_val D (q_value u) = x \<and> exact_quantity D u"
    using w e by (auto simp: r NewQuantity_iff valid_quantity_def exact_quantity_def scaled_def)
  show "\<not> (0 \<le> x \<and> x \<le> max_quantity) \<Longrightarrow> \<not> is_ok r"
    using w by (auto simp: r is_ok_iff NewQuantity_iff valid_quantity_def)
qed

text \<open>The amount that a view prints parses back to the balance.\<close>

lemma ParseMoney_view:
  assumes "valid_money D u"
  obtains w where "ParseMoney D (Money_CanonicalAmount D u) (m_currency u) = Inr w"
    and "d_val D (m_amount w) = d_val D (m_amount u)" and "m_currency w = m_currency u" and "valid_money D w"
  using ParseMoney_Canonical [OF assms] ParseMoney_Inr(1) that by blast

lemma cash_value_facts:
  assumes "valid_state D s"
  shows "0 \<le> d_val D (state_cash_value D s i c)" and "on_grid 4 (d_val D (state_cash_value D s i c))"
proof -
  have "state_cash_value D s i c = d_zero D \<or> (\<exists>m. valid_money D m \<and> state_cash_value D s i c = m_amount m)"
    using valid_stateD(2) [OF assms, of i] by (auto simp: state_cash_value_def split: option.splits)
  then show "0 \<le> d_val D (state_cash_value D s i c)" "on_grid 4 (d_val D (state_cash_value D s i c))"
    using valid_money_grid by (auto simp: valid_money_def val_zero)
qed

lemma cash_posts:
  assumes s: "valid_state D s" and a: "cs_accounts s i = Some a" and mode: "ca_mode a = TrackingHoldings"
    and m: "valid_money D m" and e: "e_account e = Some i" "e_target e = EffectTargetAccountCash"
  shows "posts D s (CashOf i (m_currency m))
    (ledger D s (CashOf i (m_currency m)) + signed (e_direction e) (d_val D (m_amount m))) (apply_money_effect D s e m)"
proof -
  let ?c = "m_currency m" and ?cur = "state_cash_value D s i (m_currency m)"
  let ?x = "ledger D s (CashOf i ?c) + signed (e_direction e) (d_val D (m_amount m))"
  let ?r = "res_bind (if e_direction e = EffectAdded then Inr (d_add D ?cur (m_amount m))
          else let w = d_sub D ?cur (m_amount m) in if d_is_negative D w
            then Inl (DomainError ErrInsufficientBalance ''amount'' (ca_name a @ '' does not have enough cash'')) else Inr w)
          (\<lambda>w. NewMoney D w ?c)"
  have ai: "ca_id a = i" using valid_stateD(1) [OF s a] by (simp add: valid_account_state_def)
  have "valid_currency ?c" using m by (simp add: valid_money_def)
  note B = new_money_balance [OF cash_value_facts [OF s, of i ?c] m this refl, where d = "e_direction e"
      and e = "DomainError ErrInsufficientBalance ''amount'' (ca_name a @ '' does not have enough cash'')",
      folded ledger.simps(2)]
  have r: "apply_money_effect D s e m =
      res_bind ?r (\<lambda>u. res_bind (ParseMoney D (Money_CanonicalAmount D u) (m_currency u))
        (\<lambda>w. Inr (set_cash s i w, account_view EffectTargetAccountCash i (ca_name a) D u)))"
    using a ai mode e
    by (simp add: apply_money_effect_def accountTarget_def accountAmount_def state_cash_def res_bind_assoc account_view_def Let_def)
  show ?thesis
  proof (cases "0 \<le> ?x \<and> ?x \<le> max_money")
    case True
    with B(1) obtain u where u: "?r = Inr u" "d_val D (m_amount u) = ?x" "m_currency u = ?c" "valid_money D u" by blast
    from ParseMoney_view [OF u(4)] obtain w where w: "ParseMoney D (Money_CanonicalAmount D u) (m_currency u) = Inr w"
      "d_val D (m_amount w) = ?x" "m_currency w = ?c" "valid_money D w" using u(2,3) by metis
    have "apply_money_effect D s e m = Inr (set_cash s i w, account_view EffectTargetAccountCash i (ca_name a) D u)"
      unfolding r u(1) by (simp add: w(1))
    moreover have "view_shows D (account_view EffectTargetAccountCash i (ca_name a) D u) (CashOf i ?c) ?x"
      using u(2,3) by (auto simp: view_shows_def account_view_def Money_CanonicalAmount_def)
    ultimately show ?thesis
      using True s w by (auto simp: posts_def valid_state_set_cash ledger_set_cash)
  next
    case False
    with B(2) have "\<not> is_ok ?r" by blast
    then have "\<not> is_ok (apply_money_effect D s e m)" unfolding r by (rule res_bind_not_ok)
    with False show ?thesis by (auto simp: posts_def)
  qed
qed

lemma value_posts:
  assumes s: "valid_state D s" and a: "cs_accounts s i = Some a" and mode: "ca_mode a \<noteq> TrackingHoldings"
    and m: "valid_money D m" and c: "m_currency m = ca_currency a"
    and e: "e_account e = Some i" "e_target e = EffectTargetAccountValue"
  shows "posts D s (ValueOf i) (ledger D s (ValueOf i) + signed (e_direction e) (d_val D (m_amount m))) (apply_money_effect D s e m)"
proof -
  let ?cur = "m_amount (ca_current a)"
  let ?x = "ledger D s (ValueOf i) + signed (e_direction e) (d_val D (m_amount m))"
  let ?r = "res_bind (if e_direction e = EffectAdded then Inr (d_add D ?cur (m_amount m))
          else let w = d_sub D ?cur (m_amount m) in if d_is_negative D w
            then Inl (DomainError ErrInsufficientBalance ''amount'' (ca_name a @ '' does not have enough balance'')) else Inr w)
          (\<lambda>w. NewMoney D w (ca_currency a))"
  have va: "valid_account_state D i a" using valid_stateD(1) [OF s a] .
  then have cur: "0 \<le> d_val D ?cur" "on_grid 4 (d_val D ?cur)" and ai: "ca_id a = i" and l: "ledger D s (ValueOf i) = d_val D ?cur"
    using valid_money_grid a by (auto simp: valid_account_state_def valid_money_def)
  have "valid_currency (ca_currency a)" using m c by (simp add: valid_money_def)
  note B = new_money_balance [OF cur m this refl, where d = "e_direction e"
      and e = "DomainError ErrInsufficientBalance ''amount'' (ca_name a @ '' does not have enough balance'')", folded l]
  have r: "apply_money_effect D s e m =
      res_bind ?r (\<lambda>u. res_bind (ParseMoney D (Money_CanonicalAmount D u) (m_currency u))
        (\<lambda>w. Inr (s \<lparr> cs_accounts := (cs_accounts s)(i \<mapsto> a \<lparr> ca_current := w \<rparr>) \<rparr>,
                   account_view EffectTargetAccountValue i (ca_name a) D u)))"
    using a ai mode e c
    by (simp add: apply_money_effect_def accountTarget_def accountAmount_def applyMoney_def res_bind_assoc account_view_def Let_def)
  show ?thesis
  proof (cases "0 \<le> ?x \<and> ?x \<le> max_money")
    case True
    with B(1) obtain u where u: "?r = Inr u" "d_val D (m_amount u) = ?x" "m_currency u = ca_currency a" "valid_money D u"
      by blast
    from ParseMoney_view [OF u(4)] obtain w where w: "ParseMoney D (Money_CanonicalAmount D u) (m_currency u) = Inr w"
      "d_val D (m_amount w) = ?x" "m_currency w = ca_currency a" "valid_money D w" using u(2,3) by metis
    have "apply_money_effect D s e m = Inr (s \<lparr> cs_accounts := (cs_accounts s)(i \<mapsto> a \<lparr> ca_current := w \<rparr>) \<rparr>,
        account_view EffectTargetAccountValue i (ca_name a) D u)"
      unfolding r u(1) by (simp add: w(1))
    moreover have "view_shows D (account_view EffectTargetAccountValue i (ca_name a) D u) (ValueOf i) ?x"
      using u(2) by (auto simp: view_shows_def account_view_def Money_CanonicalAmount_def)
    moreover have "valid_account_state D i (a \<lparr> ca_current := w \<rparr>)" using va w by (simp add: valid_account_state_def)
    ultimately show ?thesis
      using True w s a
      by (auto simp: posts_def valid_state_set_value ledger_set_value same_frame_set_value simp del: ledger.simps)
  next
    case False
    with B(2) have "\<not> is_ok ?r" by blast
    then have "\<not> is_ok (apply_money_effect D s e m)" unfolding r by (rule res_bind_not_ok)
    with False show ?thesis by (auto simp: posts_def)
  qed
qed

lemma quantity_posts:
  assumes s: "valid_state D s" and h: "cs_holdings s i = Some h" and q: "exact_quantity D q"
    and e: "e_holding e = Some i" "e_quantity e = Some q"
  shows "posts D s (QuantityOf i) (ledger D s (QuantityOf i) + signed (e_direction e) (d_val D (q_value q))) (apply_quantity_effect D s e)"
proof -
  let ?x = "ledger D s (QuantityOf i) + signed (e_direction e) (d_val D (q_value q))"
  let ?r = "res_bind (if e_direction e = EffectAdded then Inr (d_add D (q_value (ch_current h)) (q_value q))
          else let w = d_sub D (q_value (ch_current h)) (q_value q) in if d_is_negative D w
            then Inl (DomainError ErrInsufficientQuantity ''quantity'' ''Holding does not have enough quantity'') else Inr w)
          (NewQuantity D)"
  have vh: "ch_id h = i" "exact_quantity D (ch_current h)" using valid_stateD(3) [OF s h] by (auto simp: valid_holding_state_def)
  have l: "ledger D s (QuantityOf i) = d_val D (q_value (ch_current h))" using h by simp
  note B = new_quantity_balance [OF vh(2) q refl, where d = "e_direction e"
      and e = "DomainError ErrInsufficientQuantity ''quantity'' ''Holding does not have enough quantity''", folded l]
  have r: "apply_quantity_effect D s e =
      res_bind ?r (\<lambda>u. Inr (s \<lparr> cs_holdings := (cs_holdings s)(i \<mapsto> h \<lparr> ch_current := u \<rparr>) \<rparr>,
        holding_view D (h \<lparr> ch_current := u \<rparr>) u))"
    using h vh(1) e by (simp add: apply_quantity_effect_def res_bind_assoc Let_def)
  show ?thesis
  proof (cases "0 \<le> ?x \<and> ?x \<le> max_quantity")
    case True
    with B(1) obtain u where u: "?r = Inr u" "d_val D (q_value u) = ?x" "exact_quantity D u" by blast
    have "apply_quantity_effect D s e = Inr (s \<lparr> cs_holdings := (cs_holdings s)(i \<mapsto> h \<lparr> ch_current := u \<rparr>) \<rparr>,
        holding_view D (h \<lparr> ch_current := u \<rparr>) u)"
      unfolding r u(1) by simp
    moreover have "view_shows D (holding_view D (h \<lparr> ch_current := u \<rparr>) u) (QuantityOf i) ?x"
      using u(2) vh(1) by (auto simp: view_shows_def holding_view_def Quantity_Canonical_def)
    moreover have "valid_holding_state D i (h \<lparr> ch_current := u \<rparr>)" using vh u by (simp add: valid_holding_state_def)
    ultimately show ?thesis
      using True u s h
      by (auto simp: posts_def valid_state_set_quantity ledger_set_quantity same_frame_set_quantity simp del: ledger.simps)
  next
    case False
    with B(2) have "\<not> is_ok ?r" by blast
    then have "\<not> is_ok (apply_quantity_effect D s e)" unfolding r by (rule res_bind_not_ok)
    with False show ?thesis by (auto simp: posts_def)
  qed
qed

end

section \<open>Lists of effects\<close>

text \<open>
  The effects that move balances: all but cost corrections, which only show a view.  An effect
  is admissible when its validation passes and its endpoint fits; it then posts its delta.
\<close>

definition admissible :: "'d decimal_ops \<Rightarrow> 'd ChangeState \<Rightarrow> 'd ActivityEffect \<Rightarrow> bool" where
  "admissible D s e \<longleftrightarrow> ActivityEffect_Validate D e = Inr () \<and> e_target e \<noteq> EffectTargetHoldingCost \<and> fits s e \<and> valid_effect D e"

lemma Validate_money:
  assumes "ActivityEffect_Validate D e = Inr ()" and "e_money e = Some m" and "e_target e \<noteq> EffectTargetHoldingCost"
  shows "e_account e \<noteq> None" and "e_target e = EffectTargetAccountValue \<or> e_target e = EffectTargetAccountCash"
  using assms by (auto simp: ActivityEffect_Validate_def Let_def split: if_splits)

lemma Validate_quantity:
  assumes "ActivityEffect_Validate D e = Inr ()" and "e_money e = None" and "e_target e \<noteq> EffectTargetHoldingCost"
  shows "e_holding e \<noteq> None" and "e_quantity e \<noteq> None" and "e_target e = EffectTargetHoldingQuantity"
  using assms by (auto simp: ActivityEffect_Validate_def Let_def split: if_splits)

lemma Validate_direction:
  "ActivityEffect_Validate D e = Inr () \<Longrightarrow> e_direction e = EffectAdded \<or> e_direction e = EffectRemoved"
  by (auto simp: ActivityEffect_Validate_def Let_def split: if_splits)

context decimal_lib
begin

lemma apply_effect_posts:
  assumes "valid_state D s" and "admissible D s e"
  obtains ep where "effect_endpoint e = Some ep" and "posts D s ep (ledger D s ep + effect_delta D e) (apply_effect D s e)"
proof (cases "e_money e")
  case (Some m)
  have v: "ActivityEffect_Validate D e = Inr ()" "e_target e \<noteq> EffectTargetHoldingCost" "valid_money D m"
    using assms(2) Some by (auto simp: admissible_def valid_effect_def)
  obtain i a where a: "e_account e = Some i" "cs_accounts s i = Some a" "e_target e = accountTarget a"
    "ca_mode a \<noteq> TrackingHoldings \<longrightarrow> m_currency m = ca_currency a"
    using assms(2) Some by (auto simp: admissible_def fits_def)
  have r: "apply_effect D s e = apply_money_effect D s e m" using v Some by (simp add: apply_effect_def)
  have dl: "effect_delta D e = signed (e_direction e) (d_val D (m_amount m))"
    using Some by (simp add: effect_delta_def magnitude_def)
  show ?thesis
  proof (cases "ca_mode a = TrackingHoldings")
    case True
    then have t: "e_target e = EffectTargetAccountCash" using a(3) by (simp add: accountTarget_def)
    show ?thesis
      using cash_posts [OF assms(1) a(2) True v(3) a(1) t] Some t a(1)
      by (intro that [of "CashOf i (m_currency m)"]) (simp_all add: effect_endpoint_def r dl)
  next
    case False
    then have t: "e_target e = EffectTargetAccountValue" using a(3) by (simp add: accountTarget_def)
    have c: "m_currency m = ca_currency a" using a(4) False by simp
    show ?thesis
      using value_posts [OF assms(1) a(2) False v(3) c a(1) t] Some t a(1)
      by (intro that [of "ValueOf i"]) (simp_all add: effect_endpoint_def r dl)
  qed
next
  case None
  have v: "ActivityEffect_Validate D e = Inr ()" "e_target e \<noteq> EffectTargetHoldingCost"
    using assms(2) by (auto simp: admissible_def)
  obtain q where q: "e_quantity e = Some q" "exact_quantity D q"
    using Validate_quantity(2) [OF v(1) None v(2)] assms(2) by (auto simp: admissible_def valid_effect_def)
  obtain i h where h: "e_holding e = Some i" "cs_holdings s i = Some h"
    using assms(2) None by (auto simp: admissible_def fits_def)
  have r: "apply_effect D s e = apply_quantity_effect D s e" using v None by (simp add: apply_effect_def)
  show ?thesis
    using quantity_posts [OF assms(1) h(2) q(2) h(1) q(1)] None h(1) v(2) q(1)
    by (intro that [of "QuantityOf i"]) (simp_all add: effect_endpoint_def r effect_delta_def magnitude_def)
qed

text \<open>Conversely, an effect that was applied was admissible.\<close>

lemma apply_effect_admissible:
  assumes "apply_effect D s e = Inr (s', v)" and "valid_effect D e" and "e_target e \<noteq> EffectTargetHoldingCost"
  shows "admissible D s e"
proof -
  have v: "ActivityEffect_Validate D e = Inr ()" using assms(1) by (auto simp: apply_effect_def)
  have "fits s e"
  proof (cases "e_money e")
    case (Some m)
    with assms(1,3) obtain i a where "e_account e = Some i" "cs_accounts s i = Some a" "e_target e = accountTarget a"
      "is_ok (accountAmount D s a m (e_direction e))"
      by (auto simp: apply_effect_def apply_money_effect_def is_ok_iff split: option.splits if_splits)
    with Some show ?thesis
      by (auto simp: fits_def accountAmount_def applyMoney_def split: if_splits)
  next
    case None
    with assms(1,3) show ?thesis
      by (auto simp: fits_def apply_effect_def apply_quantity_effect_def split: option.splits)
  qed
  with v assms show ?thesis by (simp add: admissible_def)
qed

lemma apply_effect_cost:
  assumes "apply_effect D s e = Inr (s', v)" and "e_target e = EffectTargetHoldingCost"
  shows "s' = s"
  using assms by (auto simp: apply_effect_def apply_cost_effect_def split: option.splits if_splits)

lemma apply_effect_step:
  assumes "apply_effect D s e = Inr (s', v)" and "valid_state D s" and "valid_effect D e"
  shows "valid_state D s' \<and> same_frame s s' \<and> ledger D s' = (\<lambda>ep. ledger D s ep + posted D [e] ep)
    \<and> (\<forall>ep. effect_endpoint e = Some ep \<longrightarrow> 0 \<le> ledger D s' ep \<and> ledger D s' ep \<le> limit ep \<and> view_shows D v ep (ledger D s' ep))"
proof (cases "e_target e = EffectTargetHoldingCost")
  case True
  then have "effect_endpoint e = None" by (simp add: effect_endpoint_def)
  with apply_effect_cost [OF assms(1) True] assms(2) show ?thesis by (simp add: posted_def)
next
  case False
  obtain ep where ep: "effect_endpoint e = Some ep" "posts D s ep (ledger D s ep + effect_delta D e) (apply_effect D s e)"
    by (rule apply_effect_posts [OF assms(2) apply_effect_admissible [OF assms(1,3) False]])
  then have "0 \<le> ledger D s ep + effect_delta D e \<and> ledger D s ep + effect_delta D e \<le> limit ep"
    "valid_state D s'" "same_frame s s'" "ledger D s' = (ledger D s)(ep := ledger D s ep + effect_delta D e)"
    "view_shows D v ep (ledger D s ep + effect_delta D e)"
    using assms(1) by (auto simp: posts_def split: if_splits)
  with ep(1) show ?thesis by (auto simp: posted_def)
qed

end

section \<open>The abstract machine\<close>

text \<open>
  Posting an amount to an endpoint succeeds when the new balance stays within bounds.  This is
  the contract of \<^verbatim>\<open>ApplyEffects\<close>; it knows nothing of decimals, currencies or views.
\<close>

definition post :: "(endpoint \<Rightarrow> rat) \<Rightarrow> endpoint \<times> rat \<Rightarrow> (endpoint \<Rightarrow> rat) option" where
  "post L p = (case p of (ep, x) \<Rightarrow> if 0 \<le> L ep + x \<and> L ep + x \<le> limit ep then Some (L(ep := L ep + x)) else None)"

fun post_all :: "(endpoint \<Rightarrow> rat) \<Rightarrow> (endpoint \<times> rat) list \<Rightarrow> (endpoint \<Rightarrow> rat) option" where
  "post_all L [] = Some L"
| "post_all L (p # ps) = Option.bind (post L p) (\<lambda>L'. post_all L' ps)"

definition in_range :: "(endpoint \<Rightarrow> rat) \<Rightarrow> bool" where
  "in_range L \<longleftrightarrow> (\<forall>ep. 0 \<le> L ep \<and> L ep \<le> limit ep)"

definition reverse_posting :: "endpoint \<times> rat \<Rightarrow> endpoint \<times> rat" where
  "reverse_posting p = (fst p, - snd p)"

definition postings :: "'d decimal_ops \<Rightarrow> 'd ActivityEffect list \<Rightarrow> (endpoint \<times> rat) list" where
  "postings D es =
     concat (map (\<lambda>e. case effect_endpoint e of None \<Rightarrow> [] | Some ep \<Rightarrow> [(ep, effect_delta D e)]) es)"

lemma post_in_range: "in_range L \<Longrightarrow> post L p = Some L' \<Longrightarrow> in_range L'"
  by (auto simp: post_def in_range_def split: prod.splits if_splits)

lemma post_all_in_range: "in_range L \<Longrightarrow> post_all L ps = Some L' \<Longrightarrow> in_range L'"
  by (induction ps arbitrary: L) (auto intro: post_in_range split: bind_splits)

lemma post_all_append: "post_all L (ps @ qs) = Option.bind (post_all L ps) (\<lambda>L'. post_all L' qs)"
  by (induction ps arbitrary: L) (auto split: bind_splits)

lemma post_undo: "in_range L \<Longrightarrow> post L p = Some L' \<Longrightarrow> post L' (reverse_posting p) = Some L"
  by (auto simp: post_def in_range_def reverse_posting_def split: prod.splits if_splits)

lemma post_all_undo:
  assumes "in_range L" and "post_all L ps = Some L'"
  shows "post_all L' (rev (map reverse_posting ps)) = Some L"
  using assms
proof (induction ps arbitrary: L)
  case (Cons p ps)
  then obtain M where M: "post L p = Some M" "post_all M ps = Some L'" by (auto split: bind_splits)
  then have "post_all L' (rev (map reverse_posting ps)) = Some M"
    using Cons.IH Cons.prems(1) post_in_range by blast
  then show ?case using post_undo [OF Cons.prems(1) M(1)] by (simp add: post_all_append)
qed simp

lemma post_all_sum:
  "post_all L ps = Some L' \<Longrightarrow> L' ep = L ep + sum_list (map snd (filter (\<lambda>p. fst p = ep) ps))"
  by (induction ps arbitrary: L) (auto simp: post_def split: bind_splits prod.splits if_splits)

lemma posted_postings: "posted D es ep = sum_list (map snd (filter (\<lambda>p. fst p = ep) (postings D es)))"
  by (induction es) (auto simp: posted_def postings_def split: option.splits)

lemma posted_Nil [simp]: "posted D [] ep = 0"
  by (simp add: posted_def)

lemma posted_Cons: "posted D (e # es) ep = posted D [e] ep + posted D es ep"
  by (simp add: posted_def)

section \<open>Refinement\<close>

definition outcome :: "'d decimal_ops \<Rightarrow> ('d ChangeState \<times> 'd EndpointView list) res \<Rightarrow> (endpoint \<Rightarrow> rat) option" where
  "outcome D r = (case r of Inl _ \<Rightarrow> None | Inr (s, _) \<Rightarrow> Some (ledger D s))"

lemma same_frame_fits: "same_frame s t \<Longrightarrow> fits s e \<Longrightarrow> fits t e"
proof (cases "e_money e")
  case (Some m)
  assume "same_frame s t" and "fits s e"
  with Some obtain i a where a: "e_account e = Some i" "cs_accounts s i = Some a" "e_target e = accountTarget a"
    "ca_mode a \<noteq> TrackingHoldings \<longrightarrow> m_currency m = ca_currency a" by (auto simp: fits_def)
  obtain b where "cs_accounts t i = Some b" "ca_mode b = ca_mode a" "ca_currency b = ca_currency a"
    by (rule same_frame_account [OF \<open>same_frame s t\<close> a(2)])
  with Some a show "fits t e" by (simp add: fits_def accountTarget_def)
next
  case None
  assume "same_frame s t" and "fits s e"
  with None show "fits t e" by (auto simp: fits_def elim: same_frame_holding [OF \<open>same_frame s t\<close>])
qed

lemma same_frame_admissible: "same_frame s t \<Longrightarrow> admissible D s e \<Longrightarrow> admissible D t e"
  unfolding admissible_def by (blast intro: same_frame_fits)

text \<open>Views: the last view of an endpoint replaces the earlier one and leaves the others.\<close>

lemma upsertEndpointView_new: "c \<in> set (upsertEndpointView vs c)"
  by (induction vs) auto

lemma upsertEndpointView_keeps: "v \<in> set vs \<Longrightarrow> v \<in> set (upsertEndpointView vs c) \<or> same_endpoint_view v c"
  by (induction vs) auto

lemma upsertEndpointView_from: "v \<in> set (upsertEndpointView vs c) \<Longrightarrow> v = c \<or> v \<in> set vs"
  by (induction vs) (auto split: if_splits)

lemma same_endpoint_view_shows:
  "same_endpoint_view v c \<Longrightarrow> view_shows D v ep x \<Longrightarrow> view_shows D c ep' y \<Longrightarrow> ep = ep'"
  by (auto simp: same_endpoint_view_def view_shows_def split: endpoint.splits)

definition shown :: "'d decimal_ops \<Rightarrow> 'd ChangeState \<Rightarrow> 'd EndpointView list \<Rightarrow> endpoint \<Rightarrow> bool" where
  "shown D s vs ep \<longleftrightarrow> (\<exists>v \<in> set vs. view_shows D v ep (ledger D s ep))"

context decimal_lib
begin

lemma shown_upsert:
  assumes "apply_effect D s e = Inr (s', v)" and "valid_state D s" and "valid_effect D e"
    and "shown D s vs ep \<or> effect_endpoint e = Some ep"
  shows "shown D s' (upsertEndpointView vs v) ep"
proof -
  note S = apply_effect_step [OF assms(1-3)]
  show ?thesis
  proof (cases "effect_endpoint e = Some ep")
    case True
    with S show ?thesis unfolding shown_def using upsertEndpointView_new by metis
  next
    case False
    then obtain u where u: "u \<in> set vs" "view_shows D u ep (ledger D s ep)" using assms(4) by (auto simp: shown_def)
    have l: "ledger D s' ep = ledger D s ep" using S False by (simp add: posted_def)
    have "\<not> same_endpoint_view u v"
    proof (cases "effect_endpoint e")
      case None
      then have "e_target e = EffectTargetHoldingCost" by (auto simp: effect_endpoint_def split: if_splits option.splits)
      with assms(1) have "ev_target v = EffectTargetHoldingCost"
        by (auto simp: apply_effect_def apply_cost_effect_def cost_view_def split: option.splits if_splits)
      with u(2) show ?thesis by (auto simp: same_endpoint_view_def view_shows_def split: endpoint.splits)
    next
      case (Some ep')
      with S False same_endpoint_view_shows u(2) show ?thesis by metis
    qed
    with u l upsertEndpointView_keeps show ?thesis unfolding shown_def by metis
  qed
qed

lemma apply_effects_loop_step:
  assumes "apply_effects_loop D s vs es = Inr (s', vs')" and "valid_state D s" and "\<forall>e \<in> set es. valid_effect D e"
  shows "valid_state D s' \<and> same_frame s s' \<and> ledger D s' = (\<lambda>ep. ledger D s ep + posted D es ep)
    \<and> (\<forall>ep. shown D s vs ep \<or> (\<exists>e \<in> set es. effect_endpoint e = Some ep) \<longrightarrow> shown D s' vs' ep)"
  using assms
proof (induction es arbitrary: s vs)
  case (Cons e es)
  then obtain t v where t: "apply_effect D s e = Inr (t, v)" "apply_effects_loop D t (upsertEndpointView vs v) es = Inr (s', vs')"
    by (auto elim!: res_bindE)
  have e: "valid_effect D e" "\<forall>e \<in> set es. valid_effect D e" using Cons.prems(3) by simp_all
  note S = apply_effect_step [OF t(1) Cons.prems(2) e(1)]
  then have I: "valid_state D s'" "same_frame t s'" "ledger D s' = (\<lambda>ep. ledger D t ep + posted D es ep)"
    "\<And>ep. shown D t (upsertEndpointView vs v) ep \<or> (\<exists>e \<in> set es. effect_endpoint e = Some ep) \<Longrightarrow> shown D s' vs' ep"
    using Cons.IH [OF t(2) _ e(2)] by blast+
  have "same_frame s s'" using S I(2) same_frame_trans by blast
  moreover have "ledger D s' = (\<lambda>ep. ledger D s ep + posted D (e # es) ep)"
    using S by (simp add: I(3) posted_Cons [of D e es] add.assoc)
  moreover have "shown D s' vs' ep" if "shown D s vs ep \<or> (\<exists>e \<in> set (e # es). effect_endpoint e = Some ep)" for ep
    using that shown_upsert [OF t(1) Cons.prems(2) e(1)] I(4) by auto
  ultimately show ?case using I(1) by blast
qed simp

lemma apply_effects_loop_refines:
  assumes "valid_state D s" and "\<forall>e \<in> set es. admissible D s e"
  shows "outcome D (apply_effects_loop D s vs es) = post_all (ledger D s) (postings D es)"
  using assms
proof (induction es arbitrary: s vs)
  case (Cons e es)
  obtain ep where ep: "effect_endpoint e = Some ep" "posts D s ep (ledger D s ep + effect_delta D e) (apply_effect D s e)"
    using apply_effect_posts Cons.prems by (metis list.set_intros(1))
  have ps: "postings D (e # es) = (ep, effect_delta D e) # postings D es" using ep(1) by (simp add: postings_def)
  show ?case
  proof (cases "0 \<le> ledger D s ep + effect_delta D e \<and> ledger D s ep + effect_delta D e \<le> limit ep")
    case True
    with ep(2) obtain t v where t: "apply_effect D s e = Inr (t, v)" "valid_state D t" "same_frame s t"
      "ledger D t = (ledger D s)(ep := ledger D s ep + effect_delta D e)" by (auto simp: posts_def)
    have "\<forall>e \<in> set es. admissible D t e" using Cons.prems(2) by (auto intro: same_frame_admissible [OF t(3)])
    from Cons.IH [OF t(2) this, of "upsertEndpointView vs v"] show ?thesis
      unfolding t(4) by (simp add: ps t(1) post_def True fun_upd_def)
  next
    case False
    then have "\<not> is_ok (apply_effect D s e)" using ep(2) by (simp add: posts_def)
    then obtain x where "apply_effect D s e = Inl x" by (cases "apply_effect D s e") auto
    with False show ?thesis by (auto simp: ps post_def outcome_def)
  qed
qed (simp_all add: outcome_def postings_def)

lemma valid_state_in_range: "valid_state D s \<Longrightarrow> in_range (ledger D s)"
  unfolding in_range_def
proof
  fix ep assume s: "valid_state D s"
  have nn: "0 \<le> max_money" "0 \<le> max_quantity" by (simp_all add: max_money_def max_quantity_def)
  show "0 \<le> ledger D s ep \<and> ledger D s ep \<le> limit ep"
  proof (cases ep)
    case (ValueOf i)
    with valid_stateD(1) [OF s] nn show ?thesis
      by (fastforce simp: valid_account_state_def valid_money_def split: option.splits)
  next
    case (CashOf i c)
    with valid_stateD(2) [OF s] nn show ?thesis
      by (fastforce simp: state_cash_value_def exact valid_money_def split: option.splits)
  next
    case (QuantityOf h)
    with valid_stateD(3) [OF s] nn show ?thesis
      by (fastforce simp: valid_holding_state_def exact_quantity_def valid_quantity_def split: option.splits)
  qed
qed

lemmas ApplyEffects_step = apply_effects_loop_step [where vs = "[]", folded ApplyEffects_def]
lemmas ApplyEffects_outcome = apply_effects_loop_refines [where vs = "[]", folded ApplyEffects_def]

lemma apply_effects_loop_admissible:
  assumes "apply_effects_loop D s vs es = Inr (s', vs')" and "valid_state D s"
    and "\<forall>e \<in> set es. valid_effect D e \<and> e_target e \<noteq> EffectTargetHoldingCost"
  shows "\<forall>e \<in> set es. admissible D s e"
  using assms
proof (induction es arbitrary: s vs)
  case (Cons e es)
  then obtain t v where t: "apply_effect D s e = Inr (t, v)" "apply_effects_loop D t (upsertEndpointView vs v) es = Inr (s', vs')"
    by (auto elim!: res_bindE)
  have e: "valid_effect D e" "e_target e \<noteq> EffectTargetHoldingCost" using Cons.prems(3) by simp_all
  have S: "valid_state D t" "same_frame s t" using apply_effect_step [OF t(1) Cons.prems(2) e(1)] by auto
  have "\<forall>e \<in> set es. admissible D t e" using Cons.IH [OF t(2) S(1)] Cons.prems(3) by simp
  moreover have "admissible D s e" by (rule apply_effect_admissible [OF t(1) e])
  ultimately show ?case using same_frame_admissible [OF same_frame_sym [OF S(2)]] by simp
qed simp

end

section \<open>Undo\<close>

abbreviation inverse_effect :: "string \<Rightarrow> ActivityID \<Rightarrow> int \<Rightarrow> 'd ActivityEffect \<Rightarrow> 'd ActivityEffect" where
  "inverse_effect i a n e \<equiv>
     e \<lparr> e_id := i, e_activity_id := a, e_sequence := n, e_direction := inverse_direction (e_direction e) \<rparr>"

lemma inverse_effects_alt:
  "inverse_effects R a es = map (\<lambda>k. inverse_effect (rt_new_id R (k + 1)) a (int k + 1) (rev es ! k)) [0..<length es]"
  unfolding inverse_effects_def by (rule nth_equalityI) (simp_all add: nth_enumerate_eq)

lemma inverse_effect_posting:
  assumes "e_direction e = EffectAdded \<or> e_direction e = EffectRemoved"
  shows "effect_endpoint (inverse_effect i a n e) = effect_endpoint e"
    and "effect_delta D (inverse_effect i a n e) = - effect_delta D e"
  using assms by (cases "e_money e"; auto simp: effect_endpoint_def effect_delta_def magnitude_def signed_def inverse_direction_def)+

lemma inverse_effect_admissible:
  assumes "admissible D s e" and "i \<noteq> []" and "a \<noteq> []" and "1 \<le> n"
  shows "admissible D s (inverse_effect i a n e)"
  using assms
  by (auto simp: admissible_def fits_def valid_effect_def ActivityEffect_Validate_def Let_def inverse_direction_def
      split: if_splits option.splits)

lemma postings_append: "postings D (es @ fs) = postings D es @ postings D fs"
  by (simp add: postings_def)

lemma postings_inverse_effect:
  assumes "e_direction e = EffectAdded \<or> e_direction e = EffectRemoved"
  shows "postings D [inverse_effect i a n e] = map reverse_posting (postings D [e])"
  by (simp add: postings_def inverse_effect_posting [OF assms] reverse_posting_def split: option.splits)

lemma postings_inverse:
  assumes "\<forall>e \<in> set es. e_direction e = EffectAdded \<or> e_direction e = EffectRemoved"
  shows "postings D (map (\<lambda>k. inverse_effect (f k) a (g k) (es ! k)) [0..<length es]) = map reverse_posting (postings D es)"
  using assms
proof (induction es rule: rev_induct)
  case (snoc e es)
  have m: "map (\<lambda>k. inverse_effect (f k) a (g k) ((es @ [e]) ! k)) [0..<length es]
      = map (\<lambda>k. inverse_effect (f k) a (g k) (es ! k)) [0..<length es]"
    by (intro map_cong) (auto simp: nth_append)
  have "postings D (map (\<lambda>k. inverse_effect (f k) a (g k) ((es @ [e]) ! k)) [0..<length (es @ [e])])
      = postings D (map (\<lambda>k. inverse_effect (f k) a (g k) (es ! k)) [0..<length es])
        @ postings D [inverse_effect (f (length es)) a (g (length es)) e]"
    by (simp only: m length_append list.size upt_Suc_append map_append postings_append One_nat_def add_0 add_0_right add_Suc_right le0 list.map) simp
  with snoc show ?case by (simp add: postings_append postings_inverse_effect)
qed (simp add: postings_def)

lemma postings_rev:
  "postings D (rev es) = rev (postings D es)"
  by (induction es) (auto simp: postings_append, auto simp: postings_def split: option.splits)

lemma postings_inverse_effects:
  assumes "\<forall>e \<in> set es. e_direction e = EffectAdded \<or> e_direction e = EffectRemoved"
  shows "postings D (inverse_effects R a es) = rev (map reverse_posting (postings D es))"
  using postings_inverse [of "rev es", where f = "\<lambda>k. rt_new_id R (k + 1)" and a = a and g = "\<lambda>k. int k + 1" and D = D] assms
  by (simp add: inverse_effects_alt postings_rev rev_map)

lemma inverse_effects_admissible:
  assumes "\<forall>e \<in> set es. admissible D s e" and "\<forall>k. rt_new_id R k \<noteq> []" and "a \<noteq> []"
  shows "\<forall>e \<in> set (inverse_effects R a es). admissible D s e"
proof
  fix x assume "x \<in> set (inverse_effects R a es)"
  then obtain k where k: "k < length es" "x = inverse_effect (rt_new_id R (k + 1)) a (int k + 1) (rev es ! k)"
    by (auto simp: inverse_effects_alt)
  then have "rev es ! k \<in> set es" by (metis length_rev nth_mem set_rev)
  with assms k(2) show "admissible D s x" by (simp add: inverse_effect_admissible)
qed

lemma newActivity_id: "newActivity R s h k r t n = Inr a \<Longrightarrow> act_id a = rt_new_id R 0"
  by (auto simp: newActivity_def Let_def split: if_splits option.splits elim!: res_bindE)

context decimal_lib
begin

lemma undo_effects:
  assumes "valid_state D s" and "\<forall>e \<in> set es. valid_effect D e \<and> e_target e \<noteq> EffectTargetHoldingCost"
    and "ApplyEffects D s es = Inr (s', vs)" and "\<forall>k. rt_new_id R k \<noteq> []" and "a \<noteq> []"
  shows "\<exists>t ws. ApplyEffects D s' (inverse_effects R a es) = Inr (t, ws) \<and> ledger D t = ledger D s
    \<and> same_frame s t \<and> valid_state D t"
proof -
  have A: "\<forall>e \<in> set es. admissible D s e"
    using apply_effects_loop_admissible assms(1-3) unfolding ApplyEffects_def by blast
  have S: "valid_state D s'" "same_frame s s'"
    using ApplyEffects_step [OF assms(3,1)] assms(2) by auto
  have "outcome D (ApplyEffects D s es) = Some (ledger D s')" using assms(3) by (simp add: outcome_def)
  then have P: "post_all (ledger D s) (postings D es) = Some (ledger D s')"
    using ApplyEffects_outcome [OF assms(1) A] by simp
  have dir: "\<forall>e \<in> set es. e_direction e = EffectAdded \<or> e_direction e = EffectRemoved"
    using A Validate_direction by (auto simp: admissible_def)
  have A': "\<forall>e \<in> set (inverse_effects R a es). admissible D s' e"
    using inverse_effects_admissible [of es D s' R a] A same_frame_admissible [OF S(2)] assms(4,5) by blast
  have "outcome D (ApplyEffects D s' (inverse_effects R a es)) = Some (ledger D s)"
    using post_all_undo [OF valid_state_in_range [OF assms(1)] P]
    by (simp add: ApplyEffects_outcome [OF S(1) A'] postings_inverse_effects [OF dir])
  then obtain t ws where t: "ApplyEffects D s' (inverse_effects R a es) = Inr (t, ws)" "ledger D t = ledger D s"
    by (auto simp: outcome_def split: sum.splits)
  moreover have "\<forall>e \<in> set (inverse_effects R a es). valid_effect D e" using A' by (simp add: admissible_def)
  ultimately show ?thesis
    using ApplyEffects_step [OF t(1) S(1)] S(2) same_frame_trans by blast
qed

end

section \<open>Histories\<close>

text \<open>The states a household's books go through: each recorded change is one application.\<close>

inductive history :: "'d decimal_ops \<Rightarrow> 'd ChangeState \<Rightarrow> 'd ActivityEffect list list \<Rightarrow> 'd ChangeState \<Rightarrow> bool"
  for D s0 where
  start: "history D s0 [] s0"
| record_change: "history D s0 ess s \<Longrightarrow> \<forall>e \<in> set es. valid_effect D e \<Longrightarrow> ApplyEffects D s es = Inr (s', vs)
    \<Longrightarrow> history D s0 (ess @ [es]) s'"

inductive_cases history_NilE: "history D s0 [] s"
inductive_simps history_snoc: "history D s0 (ess @ [es]) s"

lemma posted_append: "posted D (es @ fs) ep = posted D es ep + posted D fs ep"
  by (simp add: posted_def)

context decimal_lib
begin

lemma history_ledger:
  "history D s0 ess s \<Longrightarrow> valid_state D s0 \<Longrightarrow>
   valid_state D s \<and> same_frame s0 s \<and> ledger D s = (\<lambda>ep. ledger D s0 ep + posted D (concat ess) ep)"
proof (induction rule: history.induct)
  case (record_change ess s es s' vs)
  then have "valid_state D s'" "same_frame s s'" "ledger D s' = (\<lambda>ep. ledger D s ep + posted D es ep)"
    using ApplyEffects_step [of s es s' vs] by blast+
  with record_change show ?case using same_frame_trans by (fastforce simp: posted_append add.assoc)
qed simp

end

section \<open>Properties\<close>

subsection \<open>A sample state\<close>

definition sample_account :: "dec ChangeAccountState" where
  "sample_account = \<lparr> ca_id = ''a'', ca_name = ''Everyday'', ca_currency = ''USD'', ca_mode = TrackingBalance,
     ca_liability = False, ca_archived = False, ca_current = \<lparr> m_amount = Dec 1000000 (- 4), m_currency = ''USD'' \<rparr> \<rparr>"

definition sample_holding :: "dec ChangeHoldingState" where
  "sample_holding = \<lparr> ch_id = ''h'', ch_account_id = ''b'', ch_instrument_id = ''i'', ch_instrument_name = ''Fund'',
     ch_instrument_symbol = ''FND'', ch_instrument_short_name = [], ch_instrument_isin = [], ch_instrument_market_code = [],
     ch_instrument_quantity_unit = [], ch_instrument_provider_key = [], ch_instrument_provider_symbol = [],
     ch_currency = ''USD'', ch_archived = False, ch_current = \<lparr> q_value = Dec 10 0 \<rparr>, ch_cost_basis_available = True \<rparr>"

definition sample_state :: "dec ChangeState" where
  "sample_state = \<lparr> cs_household_id = ''hh'', cs_origin_at = 0, cs_timezone = ''UTC'', cs_now = 5000000,
     cs_accounts = [''a'' \<mapsto> sample_account], cs_cash = Map.empty, cs_holdings = [''h'' \<mapsto> sample_holding],
     cs_instruments = Map.empty \<rparr>"

definition sample_effects :: "dec ActivityEffect list" where
  "sample_effects =
     [\<lparr> e_id = ''e1'', e_activity_id = ''act'', e_sequence = 1, e_role = EffectRolePrincipal, e_direction = EffectRemoved,
        e_target = EffectTargetAccountValue, e_classification = ClassificationTradePrincipal, e_account = Some ''a'',
        e_holding = None, e_instrument = None, e_money = Some \<lparr> m_amount = Dec 400000 (- 4), m_currency = ''USD'' \<rparr>,
        e_quantity = None, e_cost = None \<rparr>,
      \<lparr> e_id = ''e2'', e_activity_id = ''act'', e_sequence = 2, e_role = EffectRoleQuantity, e_direction = EffectAdded,
        e_target = EffectTargetHoldingQuantity, e_classification = ClassificationTradePrincipal, e_account = None,
        e_holding = Some ''h'', e_instrument = Some ''i'', e_money = None,
        e_quantity = Some \<lparr> q_value = Dec 4 0 \<rparr>, e_cost = None \<rparr>]"

definition sample_runtime :: runtime where
  "sample_runtime = \<lparr> rt_new_id = (\<lambda>k. CHR ''n'' # nat_string k), rt_new_holding_id = ''new'',
     rt_load_location = (\<lambda>name. if name = ''UTC'' then Some (\<lambda>_. 0) else None), rt_holding_order = [''h''] \<rparr>"

lemmas sample_defs = sample_state_def sample_account_def sample_holding_def sample_effects_def

lemma sample_state_valid: "valid_state ref_decimal sample_state"
  by (simp add: valid_state_def sample_defs valid_account_state_def valid_holding_state_def valid_money_def
      exact_quantity_def valid_quantity_def valid_currency_def upper_letter_iff dv_def max_money_def max_quantity_def
      power_int_minus scaled_def)

lemma sample_effects_valid: "\<forall>e \<in> set sample_effects. valid_effect ref_decimal e \<and> e_target e \<noteq> EffectTargetHoldingCost"
  by (simp add: sample_defs valid_effect_def valid_money_def exact_quantity_def valid_quantity_def valid_currency_def
      upper_letter_iff dv_def max_money_def max_quantity_def power_int_minus scaled_def)

lemma sample_effects_admissible: "\<forall>e \<in> set sample_effects. admissible ref_decimal sample_state e"
proof -
  have "\<forall>e \<in> set sample_effects. fits sample_state e"
    by (simp add: fits_def sample_defs accountTarget_def)
  moreover have "\<forall>e \<in> set sample_effects. ActivityEffect_Validate ref_decimal e = Inr ()"
    by (simp add: sample_defs ActivityEffect_Validate_def Money_IsZero_def Quantity_IsZero_def)
  ultimately show ?thesis using sample_effects_valid by (simp add: admissible_def)
qed

lemma sample_postings: "postings ref_decimal sample_effects = [(ValueOf ''a'', - 40), (QuantityOf ''h'', 4)]"
  by (simp add: postings_def sample_defs effect_endpoint_def effect_delta_def magnitude_def signed_def dv_def power_int_minus)

lemma sample_ledger: "ledger ref_decimal sample_state (ValueOf ''a'') = 100" "ledger ref_decimal sample_state (QuantityOf ''h'') = 10"
  by (simp_all add: sample_defs dv_def power_int_minus)

lemma sample_applies:
  obtains s' vs where "ApplyEffects ref_decimal sample_state sample_effects = Inr (s', vs)"
    and "ledger ref_decimal s' (ValueOf ''a'') = 60"
proof -
  have "outcome ref_decimal (ApplyEffects ref_decimal sample_state sample_effects)
      = post_all (ledger ref_decimal sample_state) (postings ref_decimal sample_effects)"
    by (rule ref.ApplyEffects_outcome [OF sample_state_valid sample_effects_admissible])
  also have "\<dots> = Some ((ledger ref_decimal sample_state)(ValueOf ''a'' := 60, QuantityOf ''h'' := 14))"
    by (simp add: sample_postings post_def sample_ledger max_money_def max_quantity_def del: ledger.simps)
  finally obtain s' vs where "ApplyEffects ref_decimal sample_state sample_effects = Inr (s', vs)"
    "ledger ref_decimal s' = (ledger ref_decimal sample_state)(ValueOf ''a'' := 60, QuantityOf ''h'' := 14)"
    by (auto simp: outcome_def split: sum.splits)
  note a = this
  from fun_cong [OF a(2), of "ValueOf ''a''"] have "ledger ref_decimal s' (ValueOf ''a'') = 60" by (simp del: ledger.simps)
  with a(1) show ?thesis by (rule that)
qed

subsection \<open>Theorems\<close>

text \<open>C1. Applying effects refines the abstract ledger: on a well-formed state, effects whose
  validation passes and whose endpoints exist are applied exactly when the abstract machine can
  post every signed magnitude in turn with each balance staying between zero and its limit, and
  the resulting balances are those of the abstract machine.\<close>

theorem ApplyEffects_refines:
  assumes "decimal_lib D" and "valid_state D s" and "\<forall>e \<in> set es. admissible D s e"
  shows "outcome D (ApplyEffects D s es) = post_all (ledger D s) (postings D es)"
  by (rule decimal_lib.ApplyEffects_outcome [OF assms])

theorem ApplyEffects_refines_witness:
  "\<exists>L. outcome ref_decimal (ApplyEffects ref_decimal sample_state sample_effects) = Some L \<and> L (QuantityOf ''h'') = 14"
proof -
  have "post_all (ledger ref_decimal sample_state) (postings ref_decimal sample_effects)
      = Some ((ledger ref_decimal sample_state)(ValueOf ''a'' := 60, QuantityOf ''h'' := 14))"
    by (simp add: sample_postings post_def sample_ledger max_money_def max_quantity_def del: ledger.simps)
  then show ?thesis
    using ApplyEffects_refines [OF ref.decimal_lib_axioms sample_state_valid sample_effects_admissible] by simp
qed

text \<open>C2. A successful application keeps the state well formed, changes nothing but balances, adds
  to every endpoint exactly what the effects post there, leaves no balance negative or above its
  limit, and returns a view of the final balance of every endpoint it touched.\<close>

theorem ApplyEffects_invariant:
  assumes "decimal_lib D" and "valid_state D s" and "\<forall>e \<in> set es. valid_effect D e"
    and "ApplyEffects D s es = Inr (s', vs)"
  shows "valid_state D s' \<and> same_frame s s'
    \<and> (\<forall>ep. ledger D s' ep = ledger D s ep + posted D es ep \<and> 0 \<le> ledger D s' ep \<and> ledger D s' ep \<le> limit ep)
    \<and> (\<forall>ep \<in> {ep. \<exists>e \<in> set es. effect_endpoint e = Some ep}. \<exists>v \<in> set vs. view_shows D v ep (ledger D s' ep))"
proof -
  have S: "valid_state D s'" "same_frame s s'" "ledger D s' = (\<lambda>ep. ledger D s ep + posted D es ep)"
    "\<And>ep e. e \<in> set es \<Longrightarrow> effect_endpoint e = Some ep \<Longrightarrow> shown D s' vs ep"
    using decimal_lib.ApplyEffects_step [OF assms(1,4,2,3)] by blast+
  moreover have "in_range (ledger D s')" by (rule decimal_lib.valid_state_in_range [OF assms(1) S(1)])
  ultimately show ?thesis by (auto simp: in_range_def shown_def)
qed

theorem ApplyEffects_invariant_witness:
  "\<exists>s' vs. ApplyEffects ref_decimal sample_state sample_effects = Inr (s', vs)
     \<and> ledger ref_decimal s' (ValueOf ''a'') = ledger ref_decimal sample_state (ValueOf ''a'') + posted ref_decimal sample_effects (ValueOf ''a'')"
proof -
  obtain s' vs where a: "ApplyEffects ref_decimal sample_state sample_effects = Inr (s', vs)" by (rule sample_applies)
  show ?thesis
    using ApplyEffects_invariant [OF ref.decimal_lib_axioms sample_state_valid _ a] sample_effects_valid a by blast
qed

text \<open>C3. Undo right after a change is exact.  For effects on balances (no effect on a holding's cost),
  valid and just applied, and a generator of non-empty ids: a cost adjustment is refused with the
  error that asks for another reconciliation; otherwise the only failure is that the reversal
  activity itself cannot be created, reported with that error; and when it can, the inversion
  succeeds, names the activity it reverses, and its effects bring every balance back.\<close>

theorem InverseChange_undoes:
  assumes "decimal_lib D" and "valid_state D s"
    and "\<forall>e \<in> set es. valid_effect D e \<and> e_target e \<noteq> EffectTargetHoldingCost"
    and "ApplyEffects D s es = Inr (s', vs)" and "\<forall>k. rt_new_id R k \<noteq> []"
  shows "if act_kind original = ActivityCostAdjustment
    then InverseChange D R s' original es
      = Inl (DomainError ErrCannotFixChange [] ''reconcile total cost again to correct a cost adjustment'')
    else case newActivity R s' (act_household_id original) ActivityReversal ReasonOther (cs_now s') None :: 'd Activity res of
        Inl e \<Rightarrow> InverseChange D R s' original es = Inl e
      | Inr _ \<Rightarrow> \<exists>p t. InverseChange D R s' original es = Inr p \<and> act_reverses (cp_activity p) = Some (act_id original)
          \<and> ApplyEffects D s' (cp_effects p) = Inr (t, cp_resulting p) \<and> ledger D t = ledger D s \<and> same_frame s t"
proof (cases "newActivity R s' (act_household_id original) ActivityReversal ReasonOther (cs_now s') None :: 'd Activity res")
  case (Inl e)
  then show ?thesis by (simp add: InverseChange_def InverseChangeAt_def)
next
  case (Inr a)
  have "act_id a \<noteq> []" using newActivity_id [OF Inr] assms(5) by simp
  from decimal_lib.undo_effects [OF assms(1-5) this] obtain t ws where
    t: "ApplyEffects D s' (inverse_effects R (act_id a) es) = Inr (t, ws)" "ledger D t = ledger D s" "same_frame s t"
    by blast
  then show ?thesis by (simp add: InverseChange_def InverseChangeAt_def Inr Let_def)
qed

definition sample_activity :: "dec Activity" where
  "sample_activity = \<lparr> act_id = ''act'', act_household_id = ''hh'', act_kind = ActivityBuy, act_reason = ReasonNone,
     act_effective_at = 0, act_effective_local_date = [], act_created_at = 0, act_note = None, act_reverses = None,
     act_correction_group_id = None, act_fx_rate = None, act_trade_detail = None, act_dividend_detail = None,
     act_resulting = [], act_effects = [], act_recorded = None \<rparr>"

lemma newActivity_frame: "same_frame s t \<Longrightarrow> newActivity R t = newActivity R s"
proof -
  assume "same_frame s t"
  then have "cs_household_id s = cs_household_id t" "cs_origin_at s = cs_origin_at t" "cs_timezone s = cs_timezone t"
    "cs_now s = cs_now t" by (simp_all add: same_frame_def)
  then show ?thesis by (intro ext) (simp only: newActivity_def)
qed

theorem InverseChange_undoes_witness:
  "\<exists>s' vs p t. ApplyEffects ref_decimal sample_state sample_effects = Inr (s', vs)
     \<and> InverseChange ref_decimal sample_runtime s' sample_activity sample_effects = Inr p
     \<and> ApplyEffects ref_decimal s' (cp_effects p) = Inr (t, cp_resulting p) \<and> ledger ref_decimal t (ValueOf ''a'') = 100"
proof -
  obtain s' vs where a: "ApplyEffects ref_decimal sample_state sample_effects = Inr (s', vs)" by (rule sample_applies)
  have f: "same_frame sample_state s'"
    using ref.ApplyEffects_step [OF a sample_state_valid] sample_effects_valid by blast
  have ids: "\<forall>k. rt_new_id sample_runtime k \<noteq> []" by (simp add: sample_runtime_def)
  have now: "cs_now s' = cs_now sample_state" using f by (simp add: same_frame_def)
  have n: "is_ok (newActivity sample_runtime sample_state ''hh'' ActivityReversal ReasonOther (cs_now sample_state) None :: dec Activity res)"
    by code_simp
  then obtain b :: "dec Activity" where
    "newActivity sample_runtime s' (act_household_id sample_activity) ActivityReversal ReasonOther (cs_now s') None = Inr b"
    by (auto simp: newActivity_frame [OF f] now sample_activity_def is_ok_iff)
  then show ?thesis
    using InverseChange_undoes [OF ref.decimal_lib_axioms sample_state_valid sample_effects_valid a ids, of sample_activity]
      a sample_ledger(1) by (fastforce simp: sample_activity_def simp del: ledger.simps)
qed

text \<open>C4. Over any history of recorded changes the state stays well formed and every balance is the
  starting balance plus all that was posted to it, never negative and never above its limit.\<close>

theorem history_invariant:
  assumes "decimal_lib D" and "valid_state D s0" and "history D s0 ess s"
  shows "valid_state D s \<and> (\<forall>ep. ledger D s ep = ledger D s0 ep + posted D (concat ess) ep
    \<and> 0 \<le> ledger D s ep \<and> ledger D s ep \<le> limit ep)"
  using decimal_lib.history_ledger [OF assms(1,3,2)] decimal_lib.valid_state_in_range [OF assms(1)]
  unfolding in_range_def by metis

theorem history_invariant_witness:
  "\<exists>s. history ref_decimal sample_state [sample_effects] s \<and> 0 \<le> ledger ref_decimal s (ValueOf ''a'')"
proof -
  obtain s' vs where a: "ApplyEffects ref_decimal sample_state sample_effects = Inr (s', vs)" by (rule sample_applies)
  have h: "history ref_decimal sample_state [sample_effects] s'"
    using history.record_change [OF history.start _ a] sample_effects_valid by simp
  show ?thesis
    using history_invariant [OF ref.decimal_lib_axioms sample_state_valid h] h by blast
qed

text \<open>A new activity is recorded exactly when its household matches, the current time is set, the
  time zone is confirmed, the note is valid and its effective time lies between the household's
  starting point and now; it then carries those times truncated to milliseconds and the local date
  of the effective time in that zone.\<close>

theorem newActivity_correct:
  "(newActivity R s household kind reason effectiveAt note = Inr a) \<longleftrightarrow>
   (\<exists>zone clean. household = cs_household_id s \<and> cs_now s \<noteq> 0 \<and> trim_space (cs_timezone s) \<noteq> []
      \<and> rt_load_location R (trim_space (cs_timezone s)) = Some zone \<and> validateNote ''note'' note = Inr clean
      \<and> act_effective_at a = truncate_ms (if effectiveAt = 0 then cs_now s else effectiveAt)
      \<and> act_effective_at a \<le> act_created_at a \<and> act_created_at a = truncate_ms (cs_now s)
      \<and> (cs_origin_at s = 0 \<or> truncate_ms (cs_origin_at s) \<le> act_effective_at a)
      \<and> a = \<lparr> act_id = rt_new_id R 0, act_household_id = household, act_kind = kind, act_reason = reason,
              act_effective_at = act_effective_at a, act_effective_local_date = local_date zone (act_effective_at a),
              act_created_at = act_created_at a, act_note = clean, act_reverses = None, act_correction_group_id = None,
              act_fx_rate = None, act_trade_detail = None, act_dividend_detail = None, act_resulting = [],
              act_effects = [], act_recorded = None \<rparr>)" (is "?l \<longleftrightarrow> ?r")
proof
  assume ?l then show ?r
    by (auto simp: newActivity_def time_is_zero_def normalizeTime_def Let_def split: if_splits option.splits elim!: res_bindE)
next
  assume ?r then show ?l
    by (auto simp: newActivity_def time_is_zero_def normalizeTime_def Let_def timezone_required_def)
qed

end
