(* ===== verification/ChangeBuild.thy ===== *)
theory ChangeBuild
  imports Ledger
begin

text \<open>
  The change builders of \<^verbatim>\<open>internal/domain/change.go\<close>: every command of the user interface is
  validated against the current state and turned into an activity with its effects and a preview
  of the resulting balances (\<^verbatim>\<open>PreviewChange\<close>).  Each builder is one definition with the guards in
  the order of the source.  The previews are related to the application of their effects in
  theory \<open>ChangePreview\<close>.
\<close>

section \<open>Commands\<close>

record 'd CashDividendInput =
  cd_household_id :: HouseholdID
  cd_holding_id :: HoldingID
  cd_amount :: "'d money"
  cd_effective_at :: go_time
  cd_note :: "string option"

record 'd MoneyAddedInput =
  ma_household_id :: HouseholdID
  ma_account_id :: AccountID
  ma_amount :: "'d money"
  ma_reason :: ActivityReason
  ma_effective_at :: go_time
  ma_note :: "string option"

record 'd MoneyRemovedInput =
  mr_household_id :: HouseholdID
  mr_account_id :: AccountID
  mr_holding_id :: "HoldingID option"
  mr_amount :: "'d money"
  mr_reason :: ActivityReason
  mr_effective_at :: go_time
  mr_note :: "string option"

record 'd CashTransferInput =
  ct_household_id :: HouseholdID
  ct_from_account_id :: AccountID
  ct_to_account_id :: AccountID
  ct_sent :: "'d money"
  ct_received :: "'d money"
  ct_fee :: "'d money option"
  ct_effective_at :: go_time
  ct_note :: "string option"

record 'd FXConversionInput =
  fc_household_id :: HouseholdID
  fc_account_id :: AccountID
  fc_sold :: "'d money"
  fc_bought :: "'d money"
  fc_fee :: "'d money option"
  fc_effective_at :: go_time
  fc_note :: "string option"

record 'd PositionTransferInput =
  pt_household_id :: HouseholdID
  pt_from_holding_id :: HoldingID
  pt_to_holding_id :: HoldingID
  pt_to_account_id :: "AccountID option"
  pt_quantity :: "'d quantity"
  pt_effective_at :: go_time
  pt_note :: "string option"

record 'd PositionAdjustmentInput =
  pa_household_id :: HouseholdID
  pa_holding_id :: HoldingID
  pa_quantity :: "'d quantity"
  pa_added :: bool
  pa_unit_cost :: "'d unit_price option"
  pa_effective_at :: go_time
  pa_note :: "string option"

record 'd PositionCostAdjustmentInput =
  pc_household_id :: HouseholdID
  pc_holding_id :: HoldingID
  pc_unit_cost :: "'d unit_price"
  pc_effective_at :: go_time
  pc_note :: "string option"

record 'd TradeInput =
  ti_household_id :: HouseholdID
  ti_side :: TradeSide
  ti_settlement_account_id :: AccountID
  ti_holding_id :: HoldingID
  ti_instrument_id :: InstrumentID
  ti_quantity :: "'d quantity"
  ti_gross :: "'d money"
  ti_fee :: "'d money option"
  ti_effective_at :: go_time
  ti_note :: "string option"

record 'd ValueUpdateInput =
  vu_household_id :: HouseholdID
  vu_account_id :: AccountID
  vu_new_value :: "'d money"
  vu_reason :: ActivityReason
  vu_effective_at :: go_time
  vu_note :: "string option"

record 'd DebtDrawInput =
  dw_household_id :: HouseholdID
  dw_debt_account_id :: AccountID
  dw_cash_account_id :: AccountID
  dw_principal :: "'d money"
  dw_effective_at :: go_time
  dw_note :: "string option"

record 'd DebtPaymentInput =
  dp_household_id :: HouseholdID
  dp_debt_account_id :: AccountID
  dp_cash_account_id :: AccountID
  dp_principal :: "'d money"
  dp_interest_or_fee :: "'d money option"
  dp_effective_at :: go_time
  dp_note :: "string option"

text \<open>The dynamic type switch on the command, with one constructor for any other Go type.\<close>

datatype 'd command =
    MoneyAdded "'d MoneyAddedInput" | MoneyRemoved "'d MoneyRemovedInput" | CashDividend "'d CashDividendInput"
  | CashTransfer "'d CashTransferInput" | FXConversion "'d FXConversionInput" | PositionTransfer "'d PositionTransferInput"
  | PositionAdjustment "'d PositionAdjustmentInput" | PositionCostAdjustment "'d PositionCostAdjustmentInput"
  | Trade "'d TradeInput" | ValueUpdate "'d ValueUpdateInput" | DebtDraw "'d DebtDrawInput"
  | DebtPayment "'d DebtPaymentInput" | OtherCommand

section \<open>Effects and previews\<close>

definition accountEffect ::
    "runtime \<Rightarrow> ActivityID \<Rightarrow> nat \<Rightarrow> EffectRole \<Rightarrow> EffectDirection \<Rightarrow> EffectTarget \<Rightarrow> ActivityClassification
      \<Rightarrow> AccountID \<Rightarrow> 'd money \<Rightarrow> 'd quantity option \<Rightarrow> 'd ActivityEffect" where
  "accountEffect R activityID k role direction target classification accountID amount quantity =
     \<lparr> e_id = rt_new_id R k, e_activity_id = activityID, e_sequence = int k, e_role = role, e_direction = direction,
       e_target = target, e_classification = classification, e_account = Some accountID, e_holding = None,
       e_instrument = None, e_money = Some amount, e_quantity = quantity, e_cost = None \<rparr>"

definition cashEffect ::
    "runtime \<Rightarrow> ActivityID \<Rightarrow> nat \<Rightarrow> EffectRole \<Rightarrow> EffectDirection \<Rightarrow> ActivityClassification \<Rightarrow> AccountID \<Rightarrow> 'd money
      \<Rightarrow> 'd ActivityEffect" where
  "cashEffect R activityID k role direction classification accountID amount =
     \<lparr> e_id = rt_new_id R k, e_activity_id = activityID, e_sequence = int k, e_role = role, e_direction = direction,
       e_target = EffectTargetAccountCash, e_classification = classification, e_account = Some accountID,
       e_holding = None, e_instrument = None, e_money = Some amount, e_quantity = None, e_cost = None \<rparr>"

definition holdingEffect ::
    "runtime \<Rightarrow> ActivityID \<Rightarrow> nat \<Rightarrow> EffectRole \<Rightarrow> EffectDirection \<Rightarrow> ActivityClassification \<Rightarrow> 'd ChangeHoldingState
      \<Rightarrow> 'd quantity \<Rightarrow> 'd ActivityEffect" where
  "holdingEffect R activityID k role direction classification holding quantity =
     \<lparr> e_id = rt_new_id R k, e_activity_id = activityID, e_sequence = int k, e_role = role, e_direction = direction,
       e_target = EffectTargetHoldingQuantity, e_classification = classification, e_account = None,
       e_holding = Some (ch_id holding), e_instrument = Some (ch_instrument_id holding), e_money = None,
       e_quantity = Some quantity, e_cost = None \<rparr>"

definition activityKind :: "bool \<Rightarrow> ActivityKind" where
  "activityKind added = (if added then ActivityCashIn else ActivityCashOut)"

definition classifyMoney :: "ActivityReason \<Rightarrow> bool \<Rightarrow> ActivityClassification" where
  "classifyMoney reason added =
     (if reason = ReasonReconciliation then ClassificationRemeasurement
      else if added \<and> reason = ReasonIncome then ClassificationIncome
      else if \<not> added \<and> (reason = ReasonFee \<or> reason = ReasonTax) then ClassificationFee
      else if added then ClassificationExternalInflow
      else ClassificationExternalOutflow)"

text \<open>The preview of an activity: the effects are also kept in the activity.\<close>

definition preview :: "'d Activity \<Rightarrow> 'd ActivityEffect list \<Rightarrow> 'd EndpointView list \<Rightarrow> 'd ChangePreview" where
  "preview activity effects resulting =
     \<lparr> cp_activity = activity \<lparr> act_effects := effects \<rparr>, cp_effects = effects, cp_resulting = resulting,
       cp_derived_rate = None, cp_derived_unit_price = None \<rparr>"

section \<open>Money in and out\<close>

definition money_reason_error :: "'d ChangeAccountState \<Rightarrow> ActivityReason \<Rightarrow> bool \<Rightarrow> err option" where
  "money_reason_error account reason added =
     (let cardReason = reason = ReasonCardPurchase \<or> reason = ReasonCardRefund in
      if cardReason \<and> (\<not> ca_liability account \<or> ca_mode account \<noteq> TrackingBalance
           \<or> (reason = ReasonCardPurchase) \<noteq> added)
      then Some (changeError ErrInvalidChange ''reason''
             ''purchase increases liability and refund reduces liability; both require a Balance liability Account'')
      else if \<not> cardReason \<and> added \<and> reason \<noteq> ReasonIncome \<and> reason \<noteq> ReasonInterest \<and> reason \<noteq> ReasonContribution
           \<and> reason \<noteq> ReasonGift \<and> reason \<noteq> ReasonOther \<and> reason \<noteq> ReasonReconciliation
           \<and> \<not> (ca_liability account \<and> reason = ReasonFee)
      then Some (changeError ErrInvalidChange ''reason'' ''reason is not allowed for Money added'')
      else if \<not> cardReason \<and> \<not> added \<and> reason \<noteq> ReasonExpense \<and> reason \<noteq> ReasonFee \<and> reason \<noteq> ReasonTax
           \<and> reason \<noteq> ReasonInterest \<and> reason \<noteq> ReasonOther \<and> reason \<noteq> ReasonReconciliation
      then Some (changeError ErrInvalidChange ''reason'' ''reason is not allowed for Money removed'')
      else None)"

definition money_classification :: "'d ChangeAccountState \<Rightarrow> ActivityReason \<Rightarrow> bool \<Rightarrow> ActivityClassification" where
  "money_classification account reason added =
     (if ca_liability account \<and> added \<and> (reason = ReasonInterest \<or> reason = ReasonFee) then ClassificationFee
      else if reason = ReasonCardRefund then ClassificationExternalInflow
      else if reason = ReasonCardPurchase then ClassificationExternalOutflow
      else classifyMoney reason added)"

text \<open>The holding a tax or a fee is associated with, when one is named.\<close>

definition money_holding ::
    "'d ChangeState \<Rightarrow> 'd ChangeAccountState \<Rightarrow> HouseholdID \<Rightarrow> HoldingID option \<Rightarrow> ActivityReason \<Rightarrow> bool
      \<Rightarrow> 'd ChangeHoldingState option res" where
  "money_holding state account household holdingID reason added =
     (case holdingID of
        None \<Rightarrow> Inr None
      | Some i \<Rightarrow>
          if added \<or> (reason \<noteq> ReasonTax \<and> reason \<noteq> ReasonFee)
          then Inl (changeError ErrInvalidChange ''holdingId''
                 ''holding association is only allowed for Money removed tax or fee'')
          else
            res_bind (state_holding state i household) (\<lambda>holding.
            if ca_mode account \<noteq> TrackingHoldings \<or> ch_account_id holding \<noteq> ca_id account
            then Inl (changeError ErrInvalidChange ''holdingId'' ''holding must belong to the cash Account'')
            else Inr (Some holding)))"

definition build_money ::
    "'d decimal_ops \<Rightarrow> runtime \<Rightarrow> 'd ChangeState \<Rightarrow> HouseholdID \<Rightarrow> AccountID \<Rightarrow> 'd money \<Rightarrow> ActivityReason \<Rightarrow> go_time
      \<Rightarrow> string option \<Rightarrow> HoldingID option \<Rightarrow> bool \<Rightarrow> 'd ChangePreview res" where
  "build_money D R state household accountID amount reason effectiveAt note holdingID added =
     (let reason = (if reason = ReasonNone then ReasonOther else reason) in
      res_bind (state_account state accountID household) (\<lambda>account.
      case money_reason_error account reason added of
        Some e \<Rightarrow> Inl e
      | None \<Rightarrow>
      res_bind (money_holding state account household holdingID reason added) (\<lambda>holding.
      if Money_IsZero D amount
      then Inl (changeError ErrInvalidChange ''amount'' ''must be greater than zero'')
      else if ca_mode account \<noteq> TrackingHoldings \<and> m_currency amount \<noteq> ca_currency account
      then Inl (changeError ErrInvalidChange ''amount'' ''currency must match the Account'')
      else
        res_bind (newActivity R state household (activityKind added) reason effectiveAt note) (\<lambda>activity.
        let direction = (if added then EffectAdded else EffectRemoved);
            effect = accountEffect R (act_id activity) 1 EffectRoleAmount direction (accountTarget account)
              (money_classification account reason added) (ca_id account) amount None
        in
        res_bind (accountAmount D state account amount direction) (\<lambda>result.
        let activity = (case holding of
              None \<Rightarrow> activity
            | Some h \<Rightarrow> activity \<lparr> act_dividend_detail := Some \<lparr> dd_holding_id = ch_id h,
                dd_instrument_id = ch_instrument_id h, dd_amount = amount \<rparr> \<rparr>)
        in Inr (preview activity [effect] [result]))))))"

definition buildMoneyChange :: "'d decimal_ops \<Rightarrow> runtime \<Rightarrow> 'd ChangeState \<Rightarrow> 'd command \<Rightarrow> bool \<Rightarrow> 'd ChangePreview res" where
  "buildMoneyChange D R state input added =
     (case input of
        MoneyAdded v \<Rightarrow> build_money D R state (ma_household_id v) (ma_account_id v) (ma_amount v) (ma_reason v)
          (ma_effective_at v) (ma_note v) None added
      | MoneyRemoved v \<Rightarrow> build_money D R state (mr_household_id v) (mr_account_id v) (mr_amount v) (mr_reason v)
          (mr_effective_at v) (mr_note v) (mr_holding_id v) added
      | _ \<Rightarrow> Inl (changeError ErrInvalidChange ''command'' ''money change is not supported''))"

definition buildCashDividend :: "'d decimal_ops \<Rightarrow> runtime \<Rightarrow> 'd ChangeState \<Rightarrow> 'd CashDividendInput \<Rightarrow> 'd ChangePreview res" where
  "buildCashDividend D R state input =
     res_bind (state_holding state (cd_holding_id input) (cd_household_id input)) (\<lambda>holding.
     res_bind (state_account state (ch_account_id holding) (cd_household_id input)) (\<lambda>account.
     if ca_mode account \<noteq> TrackingHoldings
     then Inl (changeError ErrInvalidChange ''holdingId'' ''cash dividends require a Holdings Account'')
     else if Money_IsZero D (cd_amount input)
     then Inl (changeError ErrInvalidChange ''amount'' ''must be greater than zero'')
     else
       res_bind (newActivity R state (cd_household_id input) ActivityCashDividend ReasonIncome (cd_effective_at input)
         (cd_note input)) (\<lambda>activity.
       let effect = cashEffect R (act_id activity) 1 EffectRoleAmount EffectAdded ClassificationIncome (ca_id account) (cd_amount input) in
       res_bind (state_cash D state (ca_id account) (cd_amount input) EffectAdded) (\<lambda>result.
       Inr (preview (activity \<lparr> act_dividend_detail := Some \<lparr> dd_holding_id = ch_id holding,
              dd_instrument_id = ch_instrument_id holding, dd_amount = cd_amount input \<rparr> \<rparr>) [effect] [result])))))"

section \<open>Transfers\<close>

definition with_fee :: "'d decimal_ops \<Rightarrow> 'd money \<Rightarrow> 'd money option \<Rightarrow> 'd money res" where
  "with_fee D amount fee = (case fee of None \<Rightarrow> Inr amount | Some f \<Rightarrow> Money_Add D amount f)"

definition buildCashTransfer :: "'d decimal_ops \<Rightarrow> runtime \<Rightarrow> 'd ChangeState \<Rightarrow> 'd CashTransferInput \<Rightarrow> 'd ChangePreview res" where
  "buildCashTransfer D R state input =
     res_bind (state_account state (ct_from_account_id input) (ct_household_id input)) (\<lambda>source.
     res_bind (state_account state (ct_to_account_id input) (ct_household_id input)) (\<lambda>dest.
     if ca_liability source
     then Inl (changeError ErrInvalidChange ''fromAccountId''
            ''cash transfer source must be a non-liability Account; use a debt draw or payment for debt principal'')
     else if ca_liability dest
     then Inl (changeError ErrInvalidChange ''toAccountId''
            ''cash transfer destination must be a non-liability Account; use a debt draw or payment for debt principal'')
     else if Money_IsZero D (ct_sent input) \<or> Money_IsZero D (ct_received input)
     then Inl (changeError ErrTransferMismatch ''amount'' ''sent and received amounts must be greater than zero'')
     else if ct_from_account_id input = ct_to_account_id input
     then Inl (changeError ErrTransferMismatch ''accountId'' ''source and destination Accounts must differ'')
     else if m_currency (ct_sent input) = m_currency (ct_received input)
          \<and> \<not> d_equal D (m_amount (ct_sent input)) (m_amount (ct_received input))
     then Inl (changeError ErrTransferMismatch ''received'' ''same-currency transfers must conserve their amount'')
     else if (case ct_fee input of None \<Rightarrow> False | Some fee \<Rightarrow> Money_IsZero D fee)
     then Inl (changeError ErrInvalidChange ''fee'' ''fee must be greater than zero'')
     else if (case ct_fee input of None \<Rightarrow> False | Some fee \<Rightarrow> m_currency fee \<noteq> m_currency (ct_sent input))
     then Inl (changeError ErrInvalidChange ''fee'' ''fee currency must match sent currency'')
     else
       res_bind (NewFxRate D (d_round D (d_div D (m_amount (ct_received input)) (m_amount (ct_sent input))) 12)) (\<lambda>rate.
       res_bind (newActivity R state (ct_household_id input) ActivityCashTransfer ReasonOther (ct_effective_at input)
         (ct_note input)) (\<lambda>activity.
       res_bind (with_fee D (ct_sent input) (ct_fee input)) (\<lambda>totalSent.
       res_bind (accountAmount D state source totalSent EffectRemoved) (\<lambda>fromView.
       res_bind (accountAmount D state dest (ct_received input) EffectAdded) (\<lambda>toView.
       let effects =
         [accountEffect R (act_id activity) 1 EffectRoleTransferFrom EffectRemoved (accountTarget source)
            ClassificationInternalTransfer (ca_id source) (ct_sent input) None,
          accountEffect R (act_id activity) 2 EffectRoleTransferTo EffectAdded (accountTarget dest)
            ClassificationInternalTransfer (ca_id dest) (ct_received input) None]
         @ (case ct_fee input of None \<Rightarrow> []
            | Some fee \<Rightarrow> [accountEffect R (act_id activity) 3 EffectRoleFee EffectRemoved (accountTarget source)
                ClassificationFee (ca_id source) fee None])
       in Inr ((preview (activity \<lparr> act_fx_rate := Some rate \<rparr>) effects [fromView, toView])
                 \<lparr> cp_derived_rate := Some rate \<rparr>))))))))"

definition buildFXConversion :: "'d decimal_ops \<Rightarrow> runtime \<Rightarrow> 'd ChangeState \<Rightarrow> 'd FXConversionInput \<Rightarrow> 'd ChangePreview res" where
  "buildFXConversion D R state input =
     res_bind (state_account state (fc_account_id input) (fc_household_id input)) (\<lambda>account.
     if ca_mode account \<noteq> TrackingHoldings
     then Inl (changeError ErrInvalidChange ''accountId'' ''FX conversion requires a multi-currency cash account'')
     else if Money_IsZero D (fc_sold input) \<or> Money_IsZero D (fc_bought input)
     then Inl (changeError ErrInvalidChange ''amount'' ''sold and bought amounts must be greater than zero'')
     else if m_currency (fc_sold input) = m_currency (fc_bought input)
     then Inl (changeError ErrInvalidChange ''currency'' ''sold and bought currencies must differ'')
     else if (case fc_fee input of None \<Rightarrow> False | Some fee \<Rightarrow> Money_IsZero D fee)
     then Inl (changeError ErrInvalidChange ''fee'' ''fee must be greater than zero'')
     else if (case fc_fee input of None \<Rightarrow> False | Some fee \<Rightarrow> m_currency fee \<noteq> m_currency (fc_sold input))
     then Inl (changeError ErrInvalidChange ''fee'' ''fee currency must match sold currency'')
     else
       res_bind (with_fee D (fc_sold input) (fc_fee input)) (\<lambda>totalSold.
       res_bind (accountAmount D state account totalSold EffectRemoved) (\<lambda>fromView.
       res_bind (accountAmount D state account (fc_bought input) EffectAdded) (\<lambda>toView.
       res_bind (NewFxRate D (d_round D (d_div D (m_amount (fc_bought input)) (m_amount (fc_sold input))) 12)) (\<lambda>rate.
       res_bind (newActivity R state (fc_household_id input) ActivityFXConversion ReasonOther (fc_effective_at input)
         (fc_note input)) (\<lambda>activity.
       let effects =
         [cashEffect R (act_id activity) 1 EffectRoleTransferFrom EffectRemoved ClassificationInternalTransfer
            (ca_id account) (fc_sold input),
          cashEffect R (act_id activity) 2 EffectRoleTransferTo EffectAdded ClassificationInternalTransfer
            (ca_id account) (fc_bought input)]
         @ (case fc_fee input of None \<Rightarrow> []
            | Some fee \<Rightarrow> [cashEffect R (act_id activity) 3 EffectRoleFee EffectRemoved ClassificationFee (ca_id account) fee])
       in Inr ((preview (activity \<lparr> act_fx_rate := Some rate \<rparr>) effects [fromView, toView])
                 \<lparr> cp_derived_rate := Some rate \<rparr>)))))))"

section \<open>Positions\<close>

definition buildPositionTransfer ::
    "'d decimal_ops \<Rightarrow> runtime \<Rightarrow> 'd ChangeState \<Rightarrow> 'd PositionTransferInput \<Rightarrow> 'd ChangePreview res" where
  "buildPositionTransfer D R state input =
     (if (pt_to_holding_id input = []) = (pt_to_account_id input = None)
      then Inl (changeError ErrValidation ''toAccountId'' ''provide exactly one of toAccountId or toHoldingId'')
      else if pt_from_holding_id input = pt_to_holding_id input
      then Inl (changeError ErrTransferMismatch ''toHoldingId'' ''destination Holding must differ from source'')
      else
        res_bind (state_holding state (pt_from_holding_id input) (pt_household_id input)) (\<lambda>source.
        res_bind (state_holding state (pt_to_holding_id input) (pt_household_id input)) (\<lambda>dest.
        if ch_account_id source = ch_account_id dest
        then Inl (changeError ErrTransferMismatch ''toHoldingId'' ''position transfer requires a different destination Account'')
        else if pt_to_account_id input \<noteq> None \<and> Some (ch_account_id dest) \<noteq> pt_to_account_id input
        then Inl (changeError ErrTransferMismatch ''toAccountId'' ''destination Account does not match the Holding'')
        else if ch_instrument_id source \<noteq> ch_instrument_id dest
        then Inl (changeError ErrTransferMismatch ''instrumentId'' ''position transfer requires the same Instrument'')
        else if Quantity_IsZero D (pt_quantity input)
        then Inl (changeError ErrTransferMismatch ''quantity'' ''quantity must be greater than zero'')
        else if d_less_than D (q_value (ch_current source)) (q_value (pt_quantity input))
        then Inl (DomainError ErrInsufficientQuantity ''quantity'' ''source Holding does not have enough quantity'')
        else
          res_bind (newActivity R state (pt_household_id input) ActivityPositionTransfer ReasonOther (pt_effective_at input)
            (pt_note input)) (\<lambda>activity.
          res_bind (NewQuantity D (d_sub D (q_value (ch_current source)) (q_value (pt_quantity input)))) (\<lambda>fromQty.
          res_bind (NewQuantity D (d_add D (q_value (ch_current dest)) (q_value (pt_quantity input)))) (\<lambda>toQty.
          let effects =
            [holdingEffect R (act_id activity) 1 EffectRoleTransferFrom EffectRemoved ClassificationInternalTransfer
               source (pt_quantity input),
             holdingEffect R (act_id activity) 2 EffectRoleTransferTo EffectAdded ClassificationInternalTransfer
               dest (pt_quantity input)]
          in Inr (preview activity effects [holding_view D source fromQty, holding_view D dest toQty])))))))"

definition buildPositionAdjustment ::
    "'d decimal_ops \<Rightarrow> runtime \<Rightarrow> 'd ChangeState \<Rightarrow> 'd PositionAdjustmentInput \<Rightarrow> 'd ChangePreview res" where
  "buildPositionAdjustment D R state input =
     res_bind (state_holding state (pa_holding_id input) (pa_household_id input)) (\<lambda>holding.
     if Quantity_IsZero D (pa_quantity input)
     then Inl (changeError ErrInvalidChange ''quantity'' ''quantity must be greater than zero'')
     else if pa_added input \<and> pa_unit_cost input = None \<and> \<not> ch_cost_basis_available holding
     then Inl (DomainError ErrCostBasisRequired ''unitCost''
            ''a per-unit cost is required when added quantity has no existing cost'')
     else
       let current = q_value (ch_current holding);
           direction = (if pa_added input then EffectAdded else EffectRemoved)
       in
       res_bind
         (if \<not> pa_added input
          then let current = d_sub D current (q_value (pa_quantity input)) in
               if d_is_negative D current
               then Inl (DomainError ErrInsufficientQuantity ''quantity'' ''Holding does not have enough quantity'')
               else Inr current
          else Inr (d_add D current (q_value (pa_quantity input)))) (\<lambda>current.
       res_bind (NewQuantity D current) (\<lambda>quantity.
       res_bind (newActivity R state (pa_household_id input) ActivityPositionTransfer ReasonReconciliation
         (pa_effective_at input) (pa_note input)) (\<lambda>activity.
       let cost = (if pa_added input then pa_unit_cost input else None);
           effect = (holdingEffect R (act_id activity) 1 EffectRoleQuantity direction ClassificationRemeasurement
             holding (pa_quantity input)) \<lparr> e_cost := cost \<rparr>
       in Inr ((preview activity [effect] [holding_view D holding quantity]) \<lparr> cp_derived_unit_price := cost \<rparr>)))))"

definition buildPositionCostAdjustment ::
    "'d decimal_ops \<Rightarrow> runtime \<Rightarrow> 'd ChangeState \<Rightarrow> 'd PositionCostAdjustmentInput \<Rightarrow> 'd ChangePreview res" where
  "buildPositionCostAdjustment D R state input =
     res_bind (state_holding state (pc_holding_id input) (pc_household_id input)) (\<lambda>holding.
     if Quantity_IsZero D (ch_current holding)
     then Inl (changeError ErrCostBasisRequired ''holdingId'' ''cost correction requires a positive Holding quantity'')
     else
       res_bind (ParseUnitPrice D (UnitPrice_Canonical D (pc_unit_cost input))) (\<lambda>_.
       res_bind (newActivity R state (pc_household_id input) ActivityCostAdjustment ReasonReconciliation
         (pc_effective_at input) (pc_note input)) (\<lambda>activity.
       let effect = \<lparr> e_id = rt_new_id R 1, e_activity_id = act_id activity, e_sequence = 1, e_role = EffectRoleCost,
             e_direction = EffectAdded, e_target = EffectTargetHoldingCost, e_classification = ClassificationRemeasurement,
             e_account = None, e_holding = Some (ch_id holding), e_instrument = Some (ch_instrument_id holding),
             e_money = None, e_quantity = None, e_cost = Some (pc_unit_cost input) \<rparr>
       in Inr ((preview activity [effect] [cost_view D holding (Some (pc_unit_cost input))])
                 \<lparr> cp_derived_unit_price := Some (pc_unit_cost input) \<rparr>))))"

section \<open>Trades\<close>

text \<open>
  The holding of a trade: the one named, else the first open holding of the account and
  instrument in the order Go ranges over the map, else, for a first purchase, a new one.
\<close>

definition trade_candidate :: "runtime \<Rightarrow> 'd ChangeState \<Rightarrow> AccountID \<Rightarrow> InstrumentID \<Rightarrow> 'd ChangeHoldingState option" where
  "trade_candidate R state accountID instrumentID =
     find (\<lambda>candidate. \<not> ch_archived candidate \<and> ch_account_id candidate = accountID
             \<and> ch_instrument_id candidate = instrumentID)
       (List.map_filter (cs_holdings state) (rt_holding_order R))"

definition first_buy_holding ::
    "'d decimal_ops \<Rightarrow> runtime \<Rightarrow> 'd ChangeState \<Rightarrow> 'd ChangeAccountState \<Rightarrow> InstrumentID \<Rightarrow> 'd ChangeHoldingState res" where
  "first_buy_holding D R state account instrumentID =
     (case cs_instruments state instrumentID of
        None \<Rightarrow> Inl (DomainError ErrNotFound ''instrumentId'' ''Instrument was not found'')
      | Some instrument \<Rightarrow>
          if i_household_id instrument \<noteq> cs_household_id state
          then Inl (changeError ErrInvalidChange ''instrumentId'' ''Instrument does not belong to the Household'')
          else if i_archived_at instrument \<noteq> None
          then Inl (DomainError ErrConflict ''instrumentId'' ''Instrument is archived'')
          else
            res_bind (NewQuantity D (d_zero D)) (\<lambda>zero.
            Inr \<lparr> ch_id = rt_new_holding_id R, ch_account_id = ca_id account, ch_instrument_id = i_id instrument,
                  ch_instrument_name = i_name instrument, ch_instrument_symbol = stringPointerValue (i_symbol instrument),
                  ch_instrument_short_name = i_short_name instrument, ch_instrument_isin = stringPointerValue (i_isin instrument),
                  ch_instrument_market_code = stringPointerValue (i_market_code instrument),
                  ch_instrument_quantity_unit = i_quantity_unit instrument,
                  ch_instrument_provider_key = stringPointerValue (i_provider_key instrument),
                  ch_instrument_provider_symbol = stringPointerValue (i_provider_symbol instrument),
                  ch_currency = i_quote_currency instrument, ch_archived = False, ch_current = zero,
                  ch_cost_basis_available = False \<rparr>))"

definition trade_holding ::
    "'d decimal_ops \<Rightarrow> runtime \<Rightarrow> 'd ChangeState \<Rightarrow> 'd ChangeAccountState \<Rightarrow> 'd TradeInput \<Rightarrow> 'd ChangeHoldingState res" where
  "trade_holding D R state account input =
     (case state_holding state (ti_holding_id input) (ti_household_id input) of
        Inr holding \<Rightarrow> Inr holding
      | Inl e \<Rightarrow>
          (case (if ti_holding_id input = [] \<and> ti_household_id input = cs_household_id state
                 then trade_candidate R state (ca_id account) (ti_instrument_id input) else None) of
             Some holding \<Rightarrow> Inr holding
           | None \<Rightarrow>
               if ti_holding_id input \<noteq> [] \<or> ti_side input \<noteq> TradeBuy then Inl e
               else first_buy_holding D R state account (ti_instrument_id input)))"

definition cashAfter ::
    "'d decimal_ops \<Rightarrow> 'd ChangeState \<Rightarrow> AccountID \<Rightarrow> 'd money \<Rightarrow> EffectDirection \<Rightarrow> 'd money \<Rightarrow> EffectDirection \<Rightarrow> 'd EndpointView res" where
  "cashAfter D state accountID amount direction initial initialDirection =
     res_bind (state_cash D state accountID initial initialDirection) (\<lambda>firstView.
     res_bind (map_err ForeignError (d_from_string D (ev_amount firstView))) (\<lambda>current.
     let current = (if direction = EffectAdded then d_add D current (m_amount amount) else d_sub D current (m_amount amount)) in
     if d_is_negative D current
     then Inl (DomainError ErrInsufficientBalance ''fee'' ''Account does not have enough cash for the trade and fee'')
     else
       res_bind (NewMoney D current (m_currency amount)) (\<lambda>updated.
       Inr (firstView \<lparr> ev_amount := Money_CanonicalAmount D updated, ev_currency := m_currency updated \<rparr>))))"

text \<open>The cash side of a trade: the view and the effects that follow the quantity effect.\<close>

definition trade_cash ::
    "'d decimal_ops \<Rightarrow> runtime \<Rightarrow> 'd ChangeState \<Rightarrow> 'd ChangeAccountState \<Rightarrow> 'd TradeInput \<Rightarrow> ActivityID
      \<Rightarrow> ('d EndpointView \<times> 'd ActivityEffect list) res" where
  "trade_cash D R state account input activityID =
     (let cashDirection = (if ti_side input = TradeSell then EffectAdded else EffectRemoved) in
      res_bind (state_cash D state (ca_id account) (ti_gross input) cashDirection) (\<lambda>cashView.
      let principalEffect = cashEffect R activityID 2 EffectRolePrincipal cashDirection ClassificationTradePrincipal
            (ca_id account) (ti_gross input)
      in case ti_fee input of
           None \<Rightarrow> Inr (cashView, [principalEffect])
         | Some fee \<Rightarrow>
             if Money_IsZero D fee then Inr (cashView, [principalEffect])
             else
               res_bind (cashAfter D state (ca_id account) fee EffectRemoved (ti_gross input) cashDirection) (\<lambda>feeView.
               Inr (feeView, [principalEffect, cashEffect R activityID 3 EffectRoleFee EffectRemoved ClassificationFee
                 (ca_id account) fee]))))"

definition buildTrade :: "'d decimal_ops \<Rightarrow> runtime \<Rightarrow> 'd ChangeState \<Rightarrow> 'd TradeInput \<Rightarrow> 'd ChangePreview res" where
  "buildTrade D R state input =
     (if ti_side input \<noteq> TradeBuy \<and> ti_side input \<noteq> TradeSell
      then Inl (DomainError ErrInvalidTrade ''side'' ''trade side is not supported'')
      else
        res_bind (state_account state (ti_settlement_account_id input) (ti_household_id input)) (\<lambda>account.
        res_bind (trade_holding D R state account input) (\<lambda>holding.
        if ch_account_id holding \<noteq> ca_id account \<or> ch_instrument_id holding \<noteq> ti_instrument_id input
          \<or> Quantity_IsZero D (ti_quantity input) \<or> Money_IsZero D (ti_gross input)
        then Inl (DomainError ErrInvalidTrade ''trade'' ''Holding, Instrument, quantity, and gross total must match'')
        else if ca_mode account \<noteq> TrackingHoldings
        then Inl (DomainError ErrInvalidTrade ''settlementAccountId'' ''trades require a Holdings Account'')
        else if m_currency (ti_gross input) \<noteq> ch_currency holding
        then Inl (DomainError ErrInvalidTrade ''gross'' ''settlement currency must match the Instrument quote currency'')
        else if (case ti_fee input of None \<Rightarrow> False
                 | Some fee \<Rightarrow> m_currency fee \<noteq> m_currency (ti_gross input) \<or> d_is_negative D (m_amount fee))
        then Inl (DomainError ErrInvalidTrade ''fee'' ''fee currency must match the settlement currency'')
        else
          res_bind (UnitPriceFromExact D (d_div D (m_amount (ti_gross input)) (q_value (ti_quantity input)))) (\<lambda>unitPrice.
          res_bind (newActivity R state (ti_household_id input)
            (if ti_side input = TradeSell then ActivitySell else ActivityBuy) ReasonPrincipal (ti_effective_at input)
            (ti_note input)) (\<lambda>activity.
          if ti_side input = TradeSell \<and> d_less_than D (q_value (ch_current holding)) (q_value (ti_quantity input))
          then Inl (DomainError ErrInsufficientQuantity ''quantity'' ''Holding does not have enough quantity'')
          else
            let quantityDirection = (if ti_side input = TradeSell then EffectRemoved else EffectAdded);
                currentQuantity = (if quantityDirection = EffectAdded
                  then d_add D (q_value (ch_current holding)) (q_value (ti_quantity input))
                  else d_sub D (q_value (ch_current holding)) (q_value (ti_quantity input)))
            in
            res_bind (NewQuantity D currentQuantity) (\<lambda>newQuantity.
            res_bind (trade_cash D R state account input (act_id activity)) (\<lambda>(cashView, cashEffects).
            let effects = holdingEffect R (act_id activity) 1 EffectRoleQuantity quantityDirection
                  ClassificationTradePrincipal holding (ti_quantity input) # cashEffects;
                detail = \<lparr> td_side = ti_side input, td_instrument_id = ti_instrument_id input, td_holding_id = ch_id holding,
                  td_quantity = ti_quantity input, td_gross = ti_gross input, td_unit_price = unitPrice, td_fee = ti_fee input \<rparr>
            in Inr ((preview (activity \<lparr> act_trade_detail := Some detail \<rparr>) effects [cashView, holding_view D holding newQuantity])
                      \<lparr> cp_derived_unit_price := Some unitPrice \<rparr>))))))))"

section \<open>Value updates and debts\<close>

definition buildValueUpdateWithZero ::
    "'d decimal_ops \<Rightarrow> runtime \<Rightarrow> 'd ChangeState \<Rightarrow> 'd ValueUpdateInput \<Rightarrow> bool \<Rightarrow> 'd ChangePreview res" where
  "buildValueUpdateWithZero D R state input allowZero =
     res_bind (state_account state (vu_account_id input) (vu_household_id input)) (\<lambda>account.
     if ca_mode account = TrackingHoldings \<or> m_currency (vu_new_value input) \<noteq> ca_currency account
     then Inl (changeError ErrInvalidChange ''newValue'' ''value update requires a matching non-Holdings Account'')
     else
       let reason = (if vu_reason input = ReasonNone then ReasonReconciliation else vu_reason input) in
       if reason \<noteq> ReasonInterest \<and> reason \<noteq> ReasonReconciliation \<and> reason \<noteq> ReasonOther
       then Inl (changeError ErrInvalidChange ''reason'' ''reason is not allowed for a value update'')
       else
         res_bind (newActivity R state (vu_household_id input) ActivityValueUpdate reason (vu_effective_at input)
           (vu_note input)) (\<lambda>activity.
         let delta = d_sub D (m_amount (vu_new_value input)) (m_amount (ca_current account)) in
         if d_is_zero D delta \<and> \<not> allowZero
         then Inl (DomainError ErrNoChange [] ''the new value is unchanged'')
         else
           res_bind (NewMoney D (d_abs D delta) (ca_currency account)) (\<lambda>amount.
           let direction = (if d_is_negative D delta then EffectRemoved else EffectAdded);
               effect = accountEffect R (act_id activity) 1 EffectRoleAmount direction (accountTarget account)
                 ClassificationRemeasurement (ca_id account) amount None
           in
           res_bind (applyMoney D account amount direction) (\<lambda>result.
           Inr (preview activity [effect] [result])))))"

definition buildValueUpdate :: "'d decimal_ops \<Rightarrow> runtime \<Rightarrow> 'd ChangeState \<Rightarrow> 'd ValueUpdateInput \<Rightarrow> 'd ChangePreview res" where
  "buildValueUpdate D R state input = buildValueUpdateWithZero D R state input False"

definition PreviewValueUpdateCorrection ::
    "'d decimal_ops \<Rightarrow> runtime \<Rightarrow> 'd ChangeState \<Rightarrow> 'd ValueUpdateInput \<Rightarrow> 'd ChangePreview res" where
  "PreviewValueUpdateCorrection D R state input = buildValueUpdateWithZero D R state input True"

definition validateDebtEndpoints ::
    "'d decimal_ops \<Rightarrow> 'd ChangeState \<Rightarrow> HouseholdID \<Rightarrow> AccountID \<Rightarrow> AccountID \<Rightarrow> 'd money
      \<Rightarrow> ('d ChangeAccountState \<times> 'd ChangeAccountState) res" where
  "validateDebtEndpoints D state householdID debtID cashID amount =
     res_bind (state_account state debtID householdID) (\<lambda>debt.
     res_bind (state_account state cashID householdID) (\<lambda>cash.
     if ca_id debt = ca_id cash
     then Inl (changeError ErrInvalidChange ''cashAccountId'' ''debt and cash Accounts must differ'')
     else if \<not> ca_liability debt
     then Inl (changeError ErrInvalidChange ''debtAccountId'' ''debt Account must be a liability'')
     else if ca_liability cash \<or> (ca_mode cash \<noteq> TrackingBalance \<and> ca_mode cash \<noteq> TrackingHoldings)
     then Inl (changeError ErrInvalidChange ''cashAccountId'' ''cash Account must be a non-liability Balance or Holdings Account'')
     else if ca_currency cash \<noteq> m_currency amount
     then Inl (changeError ErrTransferMismatch ''principal'' ''principal currency must match the cash Account'')
     else if Money_IsZero D amount
     then Inl (changeError ErrInvalidChange ''principal'' ''principal must be greater than zero'')
     else Inr (debt, cash)))"

definition subtractFromEndpoint :: "'d decimal_ops \<Rightarrow> 'd EndpointView \<Rightarrow> 'd money \<Rightarrow> 'd EndpointView res" where
  "subtractFromEndpoint D view amount =
     (if Money_IsZero D amount \<or> m_currency amount \<noteq> ev_currency view
      then Inl (changeError ErrInvalidChange ''interestOrFee'' ''interest or fee currency must match principal'')
      else
        res_bind (map_err (\<lambda>_. DomainError ErrIntegrity [] ''cash endpoint amount is invalid'') (d_from_string D (ev_amount view)))
          (\<lambda>current.
        let current = d_sub D current (m_amount amount) in
        if d_is_negative D current
        then Inl (DomainError ErrInsufficientBalance ''interestOrFee''
               ''cash Account does not have enough money for principal and fee'')
        else
          res_bind (NewMoney D current (ev_currency view)) (\<lambda>updated.
          Inr (view \<lparr> ev_amount := Money_CanonicalAmount D updated \<rparr>))))"

definition debt_effects ::
    "runtime \<Rightarrow> ActivityID \<Rightarrow> EffectDirection \<Rightarrow> 'd ChangeAccountState \<Rightarrow> 'd ChangeAccountState \<Rightarrow> 'd money \<Rightarrow> 'd ActivityEffect list" where
  "debt_effects R activityID direction debt cash amount =
     [accountEffect R activityID 1 EffectRoleDebt direction EffectTargetAccountValue ClassificationDebtPrincipal
        (ca_id debt) amount None,
      accountEffect R activityID 2 EffectRolePrincipal direction (accountTarget cash) ClassificationDebtPrincipal
        (ca_id cash) amount None]"

definition buildDebtDraw :: "'d decimal_ops \<Rightarrow> runtime \<Rightarrow> 'd ChangeState \<Rightarrow> 'd DebtDrawInput \<Rightarrow> 'd ChangePreview res" where
  "buildDebtDraw D R state input =
     res_bind (validateDebtEndpoints D state (dw_household_id input) (dw_debt_account_id input) (dw_cash_account_id input)
       (dw_principal input)) (\<lambda>(debt, cash).
     res_bind (newActivity R state (dw_household_id input) ActivityDebtDraw ReasonPrincipal (dw_effective_at input)
       (dw_note input)) (\<lambda>activity.
     res_bind (applyMoney D debt (dw_principal input) EffectAdded) (\<lambda>debtView.
     res_bind (accountAmount D state cash (dw_principal input) EffectAdded) (\<lambda>cashView.
     Inr (preview activity (debt_effects R (act_id activity) EffectAdded debt cash (dw_principal input))
       [debtView, cashView])))))"

definition buildDebtPayment :: "'d decimal_ops \<Rightarrow> runtime \<Rightarrow> 'd ChangeState \<Rightarrow> 'd DebtPaymentInput \<Rightarrow> 'd ChangePreview res" where
  "buildDebtPayment D R state input =
     res_bind (validateDebtEndpoints D state (dp_household_id input) (dp_debt_account_id input) (dp_cash_account_id input)
       (dp_principal input)) (\<lambda>(debt, cash).
     res_bind (newActivity R state (dp_household_id input) ActivityDebtPayment ReasonPrincipal (dp_effective_at input)
       (dp_note input)) (\<lambda>activity.
     res_bind (applyMoney D debt (dp_principal input) EffectRemoved) (\<lambda>debtView.
     res_bind (if ca_mode cash = TrackingHoldings then state_cash D state (ca_id cash) (dp_principal input) EffectRemoved
               else accountAmount D state cash (dp_principal input) EffectRemoved) (\<lambda>cashView.
     let effects = debt_effects R (act_id activity) EffectRemoved debt cash (dp_principal input) in
     case dp_interest_or_fee input of
       None \<Rightarrow> Inr (preview activity effects [debtView, cashView])
     | Some fee \<Rightarrow>
         if Money_IsZero D fee then Inr (preview activity effects [debtView, cashView])
         else if m_currency fee \<noteq> m_currency (dp_principal input)
         then Inl (changeError ErrInvalidChange ''interestOrFee'' ''interest or fee currency must match principal'')
         else
           res_bind (subtractFromEndpoint D cashView fee) (\<lambda>feeView.
           Inr (preview activity
             (effects @ [accountEffect R (act_id activity) 3 EffectRoleFee EffectRemoved (accountTarget cash)
                ClassificationFee (ca_id cash) fee None]) [debtView, feeView]))))))"

section \<open>Preview\<close>

definition PreviewChange :: "'d decimal_ops \<Rightarrow> runtime \<Rightarrow> 'd ChangeState \<Rightarrow> 'd command \<Rightarrow> 'd ChangePreview res" where
  "PreviewChange D R state command =
     (case command of
        MoneyAdded _ \<Rightarrow> buildMoneyChange D R state command True
      | MoneyRemoved _ \<Rightarrow> buildMoneyChange D R state command False
      | CashDividend input \<Rightarrow> buildCashDividend D R state input
      | CashTransfer input \<Rightarrow> buildCashTransfer D R state input
      | FXConversion input \<Rightarrow> buildFXConversion D R state input
      | PositionTransfer input \<Rightarrow> buildPositionTransfer D R state input
      | PositionAdjustment input \<Rightarrow> buildPositionAdjustment D R state input
      | PositionCostAdjustment input \<Rightarrow> buildPositionCostAdjustment D R state input
      | Trade input \<Rightarrow> buildTrade D R state input
      | ValueUpdate input \<Rightarrow> buildValueUpdate D R state input
      | DebtDraw input \<Rightarrow> buildDebtDraw D R state input
      | DebtPayment input \<Rightarrow> buildDebtPayment D R state input
      | OtherCommand \<Rightarrow> Inl (changeError ErrInvalidChange ''command'' ''change type is not supported''))"

end
