(* ===== verification/PreviewSound.thy ===== *)
theory PreviewSound
  imports ChangeBuild
begin

text \<open>
  What \<^verbatim>\<open>PreviewChange\<close> promises: the effects of every successful preview can be applied to the
  state they were built from, and the balances the preview shows are the balances that applying
  the effects produces.  Each builder is reduced to the abstract ledger of theory \<open>Ledger\<close>.
\<close>

section \<open>Looking up endpoints\<close>

lemma state_accountD:
  assumes "state_account s i h = Inr a"
  shows "cs_accounts s i = Some a" and "h = cs_household_id s" and "\<not> ca_archived a" and "m_currency (ca_current a) = ca_currency a"
  using assms by (auto simp: state_account_def split: if_splits option.splits)

lemma state_holdingD:
  assumes "state_holding s i h = Inr x"
  shows "cs_holdings s i = Some x" and "h = cs_household_id s" and "\<not> ch_archived x"
  using assms by (auto simp: state_holding_def split: if_splits option.splits)

lemma valid_state_account_id: "valid_state D s \<Longrightarrow> cs_accounts s i = Some a \<Longrightarrow> ca_id a = i"
  using valid_stateD(1) by (fastforce simp: valid_account_state_def)

lemma valid_state_holding_id: "valid_state D s \<Longrightarrow> cs_holdings s i = Some h \<Longrightarrow> ch_id h = i"
  using valid_stateD(3) by (fastforce simp: valid_holding_state_def)

definition money_endpoint :: "'d ChangeAccountState \<Rightarrow> 'd money \<Rightarrow> endpoint" where
  "money_endpoint a m = (if ca_mode a = TrackingHoldings then CashOf (ca_id a) (m_currency m) else ValueOf (ca_id a))"

lemma limit_money_endpoint [simp]: "limit (money_endpoint a m) = max_money"
  by (simp add: money_endpoint_def)

lemma money_endpoint_eq: "money_endpoint a m = money_endpoint b n \<Longrightarrow> ca_id a = ca_id b"
  by (simp add: money_endpoint_def split: if_splits)

lemma money_endpoint_cong: "m_currency m = m_currency n \<Longrightarrow> money_endpoint a m = money_endpoint a n"
  by (simp add: money_endpoint_def)

section \<open>Views\<close>

text \<open>A view of a money endpoint at the value \<^term>\<open>x\<close>, as the builders construct it.\<close>

definition money_view :: "'d decimal_ops \<Rightarrow> 'd EndpointView \<Rightarrow> 'd ChangeAccountState \<Rightarrow> 'd money \<Rightarrow> rat \<Rightarrow> bool" where
  "money_view D v a m x \<longleftrightarrow>
     (\<exists>u. v = account_view (accountTarget a) (ca_id a) (ca_name a) D u \<and> valid_money D u
        \<and> d_val D (m_amount u) = x \<and> m_currency u = m_currency m)"

lemma money_view_shows: "money_view D v a m x \<Longrightarrow> view_shows D v (money_endpoint a m) x"
  by (auto simp: money_view_def view_shows_def money_endpoint_def account_view_def accountTarget_def Money_CanonicalAmount_def)

context decimal_lib
begin

lemma accountAmount_view:
  assumes s: "valid_state D s" and a: "cs_accounts s i = Some a" and m: "valid_money D m"
    and r: "accountAmount D s a m d = Inr v"
  defines "x \<equiv> ledger D s (money_endpoint a m) + signed d (d_val D (m_amount m))"
  shows "0 \<le> x" and "x \<le> max_money" and "money_view D v a m x"
    and "ca_mode a \<noteq> TrackingHoldings \<Longrightarrow> m_currency m = ca_currency a"
proof -
  have ai: "ca_id a = i" by (rule valid_state_account_id [OF s a])
  have c: "ca_mode a \<noteq> TrackingHoldings \<Longrightarrow> m_currency m = ca_currency a"
    using r by (auto simp: accountAmount_def applyMoney_def split: if_splits)
  then show "ca_mode a \<noteq> TrackingHoldings \<Longrightarrow> m_currency m = ca_currency a" .
  define cur where "cur = (if ca_mode a = TrackingHoldings then state_cash_value D s i (m_currency m) else m_amount (ca_current a))"
  have l: "ledger D s (money_endpoint a m) = d_val D cur"
    using a ai by (simp add: money_endpoint_def cur_def)
  have f: "0 \<le> d_val D cur" "on_grid 4 (d_val D cur)"
    using cash_value_facts [OF s] valid_stateD(1) [OF s a] valid_money_grid
    by (auto simp: cur_def valid_account_state_def valid_money_def)
  have vc: "valid_currency (m_currency m)" using m by (simp add: valid_money_def)
  define e where "e = DomainError ErrInsufficientBalance ''amount'' (ca_name a @
    (if ca_mode a = TrackingHoldings then '' does not have enough cash'' else '' does not have enough balance''))"
  have e: "accountAmount D s a m d = res_bind (res_bind (if d = EffectAdded then Inr (d_add D cur (m_amount m))
          else let w = d_sub D cur (m_amount m) in if d_is_negative D w then Inl e else Inr w) (\<lambda>w. NewMoney D w (m_currency m)))
        (\<lambda>u. Inr (account_view (accountTarget a) (ca_id a) (ca_name a) D u))"
    using a ai c by (cases "ca_mode a = TrackingHoldings")
      (simp_all add: accountAmount_def applyMoney_def state_cash_def cur_def e_def accountTarget_def Let_def res_bind_assoc)
  note B = new_money_balance [OF f m vc refl, where d = d and e = e, folded l, folded x_def]
  from r e have ok: "is_ok (res_bind (if d = EffectAdded then Inr (d_add D cur (m_amount m))
          else let w = d_sub D cur (m_amount m) in if d_is_negative D w then Inl e else Inr w) (\<lambda>w. NewMoney D w (m_currency m)))"
    by (metis is_ok.simps(2) res_bind_not_ok)
  with B(2) show x: "0 \<le> x" "x \<le> max_money" by blast+
  from B(1) [OF x] r e show "money_view D v a m x" by (auto simp: money_view_def)
qed

lemma Money_Add_exact:
  assumes "valid_money D m" and "valid_money D f" and "Money_Add D m f = Inr t"
  shows "valid_money D t" and "d_val D (m_amount t) = d_val D (m_amount m) + d_val D (m_amount f)"
    and "m_currency t = m_currency m" and "m_currency f = m_currency m"
proof -
  from assms(3) have n: "m_currency f = m_currency m" "NewMoney D (d_add D (m_amount m) (m_amount f)) (m_currency m) = Inr t"
    by (auto simp: Money_Add_def split: if_splits)
  have "on_grid 4 (d_val D (m_amount m) + d_val D (m_amount f))"
    using valid_money_grid assms(1,2) on_grid_add by blast
  then show "d_val D (m_amount t) = d_val D (m_amount m) + d_val D (m_amount f)"
    using NewMoney_exact [OF n(2)] by (simp add: exact)
  show "valid_money D t" by (rule NewMoney_Inr(1) [OF n(2)])
  show "m_currency t = m_currency m"
    using NewMoney_Inr(3) [OF n(2)] ParseCurrency_valid assms(1) by (simp add: valid_money_def)
  show "m_currency f = m_currency m" by (rule n(1))
qed

end

section \<open>Sound previews\<close>

text \<open>The optional fee of a transfer: what it adds to the amount sent, and its posting.\<close>

definition fee_value :: "'d decimal_ops \<Rightarrow> 'd money option \<Rightarrow> rat" where
  "fee_value D fee = (case fee of None \<Rightarrow> 0 | Some f \<Rightarrow> d_val D (m_amount f))"

definition touched :: "'d decimal_ops \<Rightarrow> 'd ActivityEffect list \<Rightarrow> endpoint set" where
  "touched D es = fst ` set (postings D es)"

text \<open>The views show every touched endpoint, and nothing else, at its balance in \<^term>\<open>L\<close>.\<close>

definition shows_exactly :: "'d decimal_ops \<Rightarrow> 'd EndpointView list \<Rightarrow> endpoint set \<Rightarrow> (endpoint \<Rightarrow> rat) \<Rightarrow> bool" where
  "shows_exactly D vs eps L \<longleftrightarrow>
     (\<forall>ep \<in> eps. \<exists>v \<in> set vs. view_shows D v ep (L ep)) \<and> (\<forall>v \<in> set vs. \<exists>ep \<in> eps. view_shows D v ep (L ep))"

definition sound_preview :: "'d decimal_ops \<Rightarrow> 'd ChangeState \<Rightarrow> 'd ChangePreview \<Rightarrow> bool" where
  "sound_preview D s p \<longleftrightarrow>
     (\<forall>e \<in> set (cp_effects p). admissible D s e)
     \<and> (\<exists>L. post_all (ledger D s) (postings D (cp_effects p)) = Some L
          \<and> shows_exactly D (cp_resulting p) (touched D (cp_effects p)) L)"

lemma preview_simps [simp]:
  "cp_effects (preview a es vs) = es" "cp_resulting (preview a es vs) = vs"
  "act_effects (cp_activity (preview a es vs)) = es"
  by (simp_all add: preview_def)

lemma cashEffect_eq:
  "cashEffect R aid k role d cls i m = accountEffect R aid k role d EffectTargetAccountCash cls i m None"
  by (simp add: cashEffect_def accountEffect_def)

lemma accountTarget_simps:
  "ca_mode a = TrackingHoldings \<Longrightarrow> accountTarget a = EffectTargetAccountCash"
  "ca_mode a \<noteq> TrackingHoldings \<Longrightarrow> accountTarget a = EffectTargetAccountValue"
  by (simp_all add: accountTarget_def)

lemma postings_accountEffect:
  "postings D (accountEffect R aid k role d (accountTarget a) cls (ca_id a) m q # es)
     = (money_endpoint a m, signed d (d_val D (m_amount m))) # postings D es"
  by (simp add: postings_def accountEffect_def effect_endpoint_def effect_delta_def magnitude_def money_endpoint_def
      accountTarget_def)

lemma postings_holdingEffect:
  "postings D (holdingEffect R aid k role d cls h q # es) = (QuantityOf (ch_id h), signed d (d_val D (q_value q))) # postings D es"
  "postings D ((holdingEffect R aid k role d cls h q) \<lparr> e_cost := c \<rparr> # es)
     = (QuantityOf (ch_id h), signed d (d_val D (q_value q))) # postings D es"
  by (simp_all add: postings_def holdingEffect_def effect_endpoint_def effect_delta_def magnitude_def)

lemma postings_Nil [simp]: "postings D [] = []"
  by (simp add: postings_def)

lemmas postings_effects = postings_accountEffect postings_holdingEffect

lemma accountEffect_admissible:
  assumes "cs_accounts s (ca_id a) = Some a" and "valid_money D m" and "\<forall>k. rt_new_id R k \<noteq> []" and "aid \<noteq> []" and "0 < k"
    and "d = EffectAdded \<or> d = EffectRemoved" and "ca_mode a \<noteq> TrackingHoldings \<Longrightarrow> m_currency m = ca_currency a"
    and "\<not> Money_IsZero D m \<or> (ca_mode a \<noteq> TrackingHoldings \<and> role = EffectRoleAmount \<and> cls = ClassificationRemeasurement)"
  shows "admissible D s (accountEffect R aid k role d (accountTarget a) cls (ca_id a) m None)"
  using assms
  by (auto simp: admissible_def ActivityEffect_Validate_def accountEffect_def fits_def valid_effect_def accountTarget_def)

lemma holdingEffect_admissible:
  assumes "cs_holdings s (ch_id h) = Some h" and "exact_quantity D q" and "\<forall>k. rt_new_id R k \<noteq> []" and "aid \<noteq> []" and "0 < k"
    and "d = EffectAdded \<or> d = EffectRemoved" and "\<not> Quantity_IsZero D q"
  shows "admissible D s ((holdingEffect R aid k role d cls h q) \<lparr> e_cost := c \<rparr>)"
    and "admissible D s (holdingEffect R aid k role d cls h q)"
  using assms by (auto simp: admissible_def ActivityEffect_Validate_def holdingEffect_def fits_def valid_effect_def)

lemma sound_single:
  assumes "cp_effects p = [e]" and "cp_resulting p = [v]" and "admissible D s e" and "postings D [e] = [(ep, x)]"
    and "0 \<le> ledger D s ep + x" and "ledger D s ep + x \<le> limit ep" and "view_shows D v ep (ledger D s ep + x)"
  shows "sound_preview D s p"
  using assms by (simp add: sound_preview_def post_def touched_def shows_exactly_def)

text \<open>Two endpoints, the second posting of the first one being an optional fee.\<close>

lemma sound_pair:
  assumes "cp_resulting p = [v, w] \<or> cp_resulting p = [w, v]" and "\<forall>e \<in> set (cp_effects p). admissible D s e"
    and "postings D (cp_effects p) = [(ep, x), (ep', y)] @ (if f = 0 then [] else [(ep, - f)])
      \<or> postings D (cp_effects p) = [(ep', y), (ep, x)] @ (if f = 0 then [] else [(ep, - f)])"
    and "ep \<noteq> ep'" and "0 \<le> f"
    and "0 \<le> ledger D s ep + x" "ledger D s ep + x \<le> limit ep"
    and "0 \<le> ledger D s ep + x - f"
    and "0 \<le> ledger D s ep' + y" "ledger D s ep' + y \<le> limit ep'"
    and "view_shows D v ep (ledger D s ep + x - f)" and "view_shows D w ep' (ledger D s ep' + y)"
  shows "sound_preview D s p"
proof -
  let ?L = "(ledger D s)(ep := ledger D s ep + x - f, ep' := ledger D s ep' + y)"
  have "post_all (ledger D s) (postings D (cp_effects p)) = Some ?L"
    using assms(3-10) by (auto simp: post_def fun_eq_iff simp del: ledger.simps)
  moreover have "touched D (cp_effects p) = {ep, ep'}" using assms(3) by (auto simp: touched_def split: if_splits)
  ultimately show ?thesis
    using assms(1,2,4,11,12) by (auto simp: sound_preview_def shows_exactly_def)
qed

context decimal_lib
begin

lemma holding_shows:
  assumes "NewQuantity D w = Inr q"
  shows "0 \<le> d_val D w" and "d_val D w \<le> max_quantity" and "view_shows D (holding_view D h q) (QuantityOf (ch_id h)) (d_val D w)"
  using assms by (auto simp: NewQuantity_iff valid_quantity_def view_shows_def holding_view_def Quantity_Canonical_def)

lemma ledger_holding: "cs_holdings s i = Some h \<Longrightarrow> ledger D s (QuantityOf i) = d_val D (q_value (ch_current h))"
  by simp

lemma sound_money:
  assumes s: "valid_state D s" and c: "cs_accounts s i = Some a" and m: "valid_money D m" and R: "\<forall>k. rt_new_id R k \<noteq> []"
    and v: "accountAmount D s a m d = Inr v" and d: "d = EffectAdded \<or> d = EffectRemoved"
    and z: "\<not> Money_IsZero D m \<or> (ca_mode a \<noteq> TrackingHoldings \<and> role = EffectRoleAmount \<and> cls = ClassificationRemeasurement)"
    and p: "cp_effects p = [accountEffect R (rt_new_id R 0) 1 role d (accountTarget a) cls (ca_id a) m None]" "cp_resulting p = [v]"
  shows "sound_preview D s p"
proof -
  let ?x = "signed d (d_val D (m_amount m))"
  note V = accountAmount_view [OF s c m v]
  have "admissible D s (accountEffect R (rt_new_id R 0) 1 role d (accountTarget a) cls (ca_id a) m None)"
    using c valid_state_account_id [OF s c] m R z d V(4) by (intro accountEffect_admissible) auto
  then show ?thesis
    using sound_single [OF p, of D s "money_endpoint a m" ?x] V(1,2) money_view_shows [OF V(3)]
    by (simp add: postings_accountEffect)
qed

lemma build_money_sound:
  assumes s: "valid_state D s" and R: "\<forall>k. rt_new_id R k \<noteq> []" and m: "valid_money D amount"
    and p: "build_money D R s household i amount reason effectiveAt note holdingID added = Inr p"
  shows "sound_preview D s p"
proof -
  define d where "d = (if added then EffectAdded else EffectRemoved)"
  obtain a v cls where a: "state_account s i household = Inr a" and z: "\<not> Money_IsZero D amount"
    and v: "accountAmount D s a amount d = Inr v"
    and q: "cp_effects p = [accountEffect R (rt_new_id R 0) 1 EffectRoleAmount d (accountTarget a) cls (ca_id a) amount None]" "cp_resulting p = [v]"
    using p unfolding build_money_def Let_def d_def [symmetric]
    by (elim res_elims) (auto simp: newActivity_id split: option.splits if_splits elim!: res_elims)
  show ?thesis
    by (rule sound_money [OF s state_accountD(1) [OF a] m R v]) (use z in \<open>auto simp: q d_def\<close>)
qed

lemma buildCashDividend_sound:
  assumes s: "valid_state D s" and R: "\<forall>k. rt_new_id R k \<noteq> []" and m: "valid_money D (cd_amount input)"
    and p: "buildCashDividend D R s input = Inr p"
  shows "sound_preview D s p"
proof -
  obtain i a v where a: "state_account s i (cd_household_id input) = Inr a"
    and z: "\<not> Money_IsZero D (cd_amount input)" and mode: "ca_mode a = TrackingHoldings"
    and v: "state_cash D s (ca_id a) (cd_amount input) EffectAdded = Inr v"
    and q: "cp_effects p = [cashEffect R (rt_new_id R 0) 1 EffectRoleAmount EffectAdded ClassificationIncome (ca_id a) (cd_amount input)]" "cp_resulting p = [v]"
    using p unfolding buildCashDividend_def Let_def by (elim res_elims) (auto simp: newActivity_id intro: that)
  have "accountAmount D s a (cd_amount input) EffectAdded = Inr v" using v mode by (simp add: accountAmount_def)
  from sound_money [OF s state_accountD(1) [OF a] m R this] z mode show ?thesis
    by (simp add: q cashEffect_eq accountTarget_simps)
qed

lemma buildValueUpdateWithZero_Inr:
  assumes "buildValueUpdateWithZero D R s input allowZero = Inr p"
  obtains a m d v where "state_account s (vu_account_id input) (vu_household_id input) = Inr a"
    and "ca_mode a \<noteq> TrackingHoldings" and "m_currency (vu_new_value input) = ca_currency a"
    and "NewMoney D (d_abs D (d_sub D (m_amount (vu_new_value input)) (m_amount (ca_current a)))) (ca_currency a) = Inr m"
    and "d = (if d_val D (m_amount (vu_new_value input)) < d_val D (m_amount (ca_current a)) then EffectRemoved else EffectAdded)"
    and "accountAmount D s a m d = Inr v"
    and "cp_effects p = [accountEffect R (rt_new_id R 0) 1 EffectRoleAmount d (accountTarget a) ClassificationRemeasurement (ca_id a) m None]" "cp_resulting p = [v]"
proof -
  obtain a m v where a: "state_account s (vu_account_id input) (vu_household_id input) = Inr a"
    "ca_mode a \<noteq> TrackingHoldings" "m_currency (vu_new_value input) = ca_currency a"
    "NewMoney D (d_abs D (d_sub D (m_amount (vu_new_value input)) (m_amount (ca_current a)))) (ca_currency a) = Inr m" and
    v: "applyMoney D a m (if d_is_negative D (d_sub D (m_amount (vu_new_value input)) (m_amount (ca_current a))) then EffectRemoved else EffectAdded) = Inr v"
    "cp_effects p = [accountEffect R (rt_new_id R 0) 1 EffectRoleAmount
       (if d_is_negative D (d_sub D (m_amount (vu_new_value input)) (m_amount (ca_current a))) then EffectRemoved else EffectAdded)
       (accountTarget a) ClassificationRemeasurement (ca_id a) m None]" "cp_resulting p = [v]"
    using assms unfolding buildValueUpdateWithZero_def Let_def
    by (elim res_elims) (auto simp: newActivity_id elim!: res_elims)
  let ?d = "if d_is_negative D (d_sub D (m_amount (vu_new_value input)) (m_amount (ca_current a))) then EffectRemoved else EffectAdded"
  have "accountAmount D s a m ?d = Inr v" using a(2) v(1) by (simp add: accountAmount_def)
  with that [OF a, of ?d v] v(2,3) show ?thesis by (simp add: exact)
qed

lemma buildValueUpdateWithZero_sound:
  assumes s: "valid_state D s" and R: "\<forall>k. rt_new_id R k \<noteq> []"
    and p: "buildValueUpdateWithZero D R s input allowZero = Inr p"
  shows "sound_preview D s p"
proof -
  obtain a m d v where a: "state_account s (vu_account_id input) (vu_household_id input) = Inr a" "ca_mode a \<noteq> TrackingHoldings"
    and m: "NewMoney D (d_abs D (d_sub D (m_amount (vu_new_value input)) (m_amount (ca_current a)))) (ca_currency a) = Inr m"
    and d: "d = (if d_val D (m_amount (vu_new_value input)) < d_val D (m_amount (ca_current a)) then EffectRemoved else EffectAdded)"
    and v: "accountAmount D s a m d = Inr v"
    and q: "cp_effects p = [accountEffect R (rt_new_id R 0) 1 EffectRoleAmount d (accountTarget a) ClassificationRemeasurement (ca_id a) m None]" "cp_resulting p = [v]"
    by (rule buildValueUpdateWithZero_Inr [OF p])
  show ?thesis
    by (rule sound_money [OF s state_accountD(1) [OF a(1)] NewMoney_Inr(1) [OF m] R v]) (use a(2) d in \<open>auto simp: q\<close>)
qed

lemma fee_value_nonneg: "pred_option (valid_money D) fee \<Longrightarrow> 0 \<le> fee_value D fee"
  by (auto simp: fee_value_def valid_money_def split: option.splits)

lemma with_fee_exact:
  assumes "valid_money D m" and "pred_option (valid_money D) fee" and "with_fee D m fee = Inr t"
  shows "valid_money D t" and "d_val D (m_amount t) = d_val D (m_amount m) + fee_value D fee" and "m_currency t = m_currency m"
    and "\<And>f. fee = Some f \<Longrightarrow> m_currency f = m_currency m"
proof -
  have "valid_money D t \<and> d_val D (m_amount t) = d_val D (m_amount m) + fee_value D fee \<and> m_currency t = m_currency m
    \<and> (\<forall>f. fee = Some f \<longrightarrow> m_currency f = m_currency m)"
  proof (cases fee)
    case None with assms show ?thesis by (simp add: with_fee_def fee_value_def)
  next
    case (Some f)
    with assms have "valid_money D f" "Money_Add D m f = Inr t" by (simp_all add: with_fee_def)
    from Money_Add_exact [OF assms(1) this] Some show ?thesis by (simp add: fee_value_def)
  qed
  then show "valid_money D t" and "d_val D (m_amount t) = d_val D (m_amount m) + fee_value D fee" and "m_currency t = m_currency m"
    and "\<And>f. fee = Some f \<Longrightarrow> m_currency f = m_currency m" by blast+
qed

lemma sound_transfer:
  assumes s: "valid_state D s" and R: "\<forall>k. rt_new_id R k \<noteq> []"
    and a: "cs_accounts s i = Some a" and b: "cs_accounts s j = Some b" and ne: "money_endpoint a sent \<noteq> money_endpoint b received"
    and m: "valid_money D sent" "valid_money D received" "pred_option (valid_money D) fee"
    and z: "\<not> Money_IsZero D sent" "\<not> Money_IsZero D received" "\<And>f. fee = Some f \<Longrightarrow> \<not> Money_IsZero D f"
    and t: "with_fee D sent fee = Inr total_sent"
    and v: "accountAmount D s a total_sent EffectRemoved = Inr v" and w: "accountAmount D s b received EffectAdded = Inr w"
    and p: "cp_resulting p = [v, w]" "cp_effects p =
      [accountEffect R (rt_new_id R 0) 1 EffectRoleTransferFrom EffectRemoved (accountTarget a) ClassificationInternalTransfer (ca_id a) sent None,
       accountEffect R (rt_new_id R 0) 2 EffectRoleTransferTo EffectAdded (accountTarget b) ClassificationInternalTransfer (ca_id b) received None]
      @ (case fee of None \<Rightarrow> [] | Some f \<Rightarrow> [accountEffect R (rt_new_id R 0) 3 EffectRoleFee EffectRemoved (accountTarget a) ClassificationFee (ca_id a) f None])"
  shows "sound_preview D s p"
proof -
  note T = with_fee_exact [OF m(1,3) t]
  note V = accountAmount_view [OF s a T(1) v] and W = accountAmount_view [OF s b m(2) w]
  have ep: "money_endpoint a total_sent = money_endpoint a sent" by (rule money_endpoint_cong [OF T(3)])
  have epf: "money_endpoint a f = money_endpoint a sent" if "fee = Some f" for f
    by (rule money_endpoint_cong [OF T(4) [OF that]])
  have f0: "fee_value D fee = 0 \<longleftrightarrow> fee = None"
    using z(3) by (auto simp: fee_value_def Money_IsZero_def exact split: option.splits)
  have ps: "postings D (cp_effects p) = [(money_endpoint a sent, - d_val D (m_amount sent)), (money_endpoint b received, d_val D (m_amount received))]
      @ (if fee_value D fee = 0 then [] else [(money_endpoint a sent, - fee_value D fee)])"
  proof (cases fee)
    case None then show ?thesis by (simp add: p(2) postings_effects signed_def fee_value_def)
  next
    case (Some f)
    then have "fee_value D fee \<noteq> 0" using f0 by simp
    with Some epf [OF Some] show ?thesis by (simp add: p(2) postings_effects signed_def fee_value_def)
  qed
  have ai: "ca_id a = i" "ca_id b = j" using valid_state_account_id [OF s] a b by blast+
  have ad: "\<forall>e \<in> set (cp_effects p). admissible D s e"
    unfolding p(2) using a b ai R m z T V(4) W(4)
    by (auto intro!: accountEffect_admissible split: option.splits)
  have r: "0 \<le> ledger D s (money_endpoint a sent)" "ledger D s (money_endpoint a sent) \<le> max_money"
    using valid_state_in_range [OF s] by (auto simp: in_range_def dest: spec [of _ "money_endpoint a sent"])
  have nn: "0 \<le> d_val D (m_amount sent)" "0 \<le> fee_value D fee"
    using m(1) fee_value_nonneg [OF m(3)] by (auto simp: valid_money_def)
  show ?thesis
    by (rule sound_pair [OF disjI1 [OF p(1)] ad disjI1 [OF ps] ne nn(2)])
      (use V W r nn money_view_shows [OF V(3)] money_view_shows [OF W(3)] in \<open>auto simp: signed_def T(2) ep algebra_simps\<close>)
qed

lemma buildCashTransfer_sound:
  assumes s: "valid_state D s" and R: "\<forall>k. rt_new_id R k \<noteq> []" and p: "buildCashTransfer D R s input = Inr p"
    and m: "valid_money D (ct_sent input)" "valid_money D (ct_received input)" "pred_option (valid_money D) (ct_fee input)"
  shows "sound_preview D s p"
proof -
  obtain a b t v w where a: "state_account s (ct_from_account_id input) (ct_household_id input) = Inr a"
    and b: "state_account s (ct_to_account_id input) (ct_household_id input) = Inr b"
    and z: "\<not> Money_IsZero D (ct_sent input)" "\<not> Money_IsZero D (ct_received input)" "\<And>f. ct_fee input = Some f \<Longrightarrow> \<not> Money_IsZero D f"
    and ne: "ct_from_account_id input \<noteq> ct_to_account_id input"
    and t: "with_fee D (ct_sent input) (ct_fee input) = Inr t"
    and v: "accountAmount D s a t EffectRemoved = Inr v" and w: "accountAmount D s b (ct_received input) EffectAdded = Inr w"
    and q: "cp_resulting p = [v, w]" "cp_effects p =
      [accountEffect R (rt_new_id R 0) 1 EffectRoleTransferFrom EffectRemoved (accountTarget a) ClassificationInternalTransfer (ca_id a) (ct_sent input) None,
       accountEffect R (rt_new_id R 0) 2 EffectRoleTransferTo EffectAdded (accountTarget b) ClassificationInternalTransfer (ca_id b) (ct_received input) None]
      @ (case ct_fee input of None \<Rightarrow> [] | Some f \<Rightarrow> [accountEffect R (rt_new_id R 0) 3 EffectRoleFee EffectRemoved (accountTarget a) ClassificationFee (ca_id a) f None])"
    using p unfolding buildCashTransfer_def Let_def
    by (cases "ct_fee input"; elim res_elims) (auto simp: newActivity_id intro: that)
  have c: "cs_accounts s (ct_from_account_id input) = Some a" "cs_accounts s (ct_to_account_id input) = Some b"
    using a b by (auto dest: state_accountD)
  have "money_endpoint a (ct_sent input) \<noteq> money_endpoint b (ct_received input)"
    using ne valid_state_account_id [OF s] c money_endpoint_eq by metis
  then show ?thesis by (rule sound_transfer [OF s R c _ m z t v w q])
qed

lemma buildFXConversion_sound:
  assumes s: "valid_state D s" and R: "\<forall>k. rt_new_id R k \<noteq> []" and p: "buildFXConversion D R s input = Inr p"
    and m: "valid_money D (fc_sold input)" "valid_money D (fc_bought input)" "pred_option (valid_money D) (fc_fee input)"
  shows "sound_preview D s p"
proof -
  obtain a t v w where a: "state_account s (fc_account_id input) (fc_household_id input) = Inr a" and mode: "ca_mode a = TrackingHoldings"
    and z: "\<not> Money_IsZero D (fc_sold input)" "\<not> Money_IsZero D (fc_bought input)" "\<And>f. fc_fee input = Some f \<Longrightarrow> \<not> Money_IsZero D f"
    and ne: "m_currency (fc_sold input) \<noteq> m_currency (fc_bought input)"
    and t: "with_fee D (fc_sold input) (fc_fee input) = Inr t"
    and v: "accountAmount D s a t EffectRemoved = Inr v" and w: "accountAmount D s a (fc_bought input) EffectAdded = Inr w"
    and q: "cp_resulting p = [v, w]" "cp_effects p =
      [cashEffect R (rt_new_id R 0) 1 EffectRoleTransferFrom EffectRemoved ClassificationInternalTransfer (ca_id a) (fc_sold input),
       cashEffect R (rt_new_id R 0) 2 EffectRoleTransferTo EffectAdded ClassificationInternalTransfer (ca_id a) (fc_bought input)]
      @ (case fc_fee input of None \<Rightarrow> [] | Some f \<Rightarrow> [cashEffect R (rt_new_id R 0) 3 EffectRoleFee EffectRemoved ClassificationFee (ca_id a) f])"
    using p unfolding buildFXConversion_def Let_def
    by (cases "fc_fee input"; elim res_elims) (auto simp: newActivity_id intro: that)
  have c: "cs_accounts s (fc_account_id input) = Some a" using a by (rule state_accountD)
  have "money_endpoint a (fc_sold input) \<noteq> money_endpoint a (fc_bought input)" using ne mode by (simp add: money_endpoint_def)
  from sound_transfer [OF s R c c this m z t v w q(1)] q(2) mode show ?thesis
    by (simp add: cashEffect_eq [abs_def] accountTarget_simps cong: option.case_cong)
qed

subsection \<open>Positions\<close>

lemma buildPositionTransfer_sound:
  assumes s: "valid_state D s" and R: "\<forall>k. rt_new_id R k \<noteq> []" and p: "buildPositionTransfer D R s input = Inr p"
    and q: "exact_quantity D (pt_quantity input)"
  shows "sound_preview D s p"
proof -
  let ?q = "q_value (pt_quantity input)"
  obtain h k x y where h: "state_holding s (pt_from_holding_id input) (pt_household_id input) = Inr h"
    and k: "state_holding s (pt_to_holding_id input) (pt_household_id input) = Inr k"
    and ne: "pt_from_holding_id input \<noteq> pt_to_holding_id input" and z: "\<not> Quantity_IsZero D (pt_quantity input)"
    and x: "NewQuantity D (d_sub D (q_value (ch_current h)) ?q) = Inr x" and y: "NewQuantity D (d_add D (q_value (ch_current k)) ?q) = Inr y"
    and e: "cp_resulting p = [holding_view D h x, holding_view D k y]"
      "cp_effects p = [holdingEffect R (rt_new_id R 0) 1 EffectRoleTransferFrom EffectRemoved ClassificationInternalTransfer h (pt_quantity input),
        holdingEffect R (rt_new_id R 0) 2 EffectRoleTransferTo EffectAdded ClassificationInternalTransfer k (pt_quantity input)]"
    using p unfolding buildPositionTransfer_def Let_def by (elim res_elims) (auto simp: newActivity_id intro: that)
  note H = state_holdingD(1) [OF h] and K = state_holdingD(1) [OF k]
  have i: "ch_id h = pt_from_holding_id input" "ch_id k = pt_to_holding_id input"
    using valid_state_holding_id [OF s] H K by blast+
  have ad: "\<forall>e \<in> set (cp_effects p). admissible D s e"
    using H K i q R z by (auto simp: e(2) intro!: holdingEffect_admissible)
  note X = holding_shows(1,2) [OF x] holding_shows(3) [OF x, of h] and Y = holding_shows(1,2) [OF y] holding_shows(3) [OF y, of k]
  show ?thesis
    by (rule sound_pair [where f = 0 and ep = "QuantityOf (ch_id h)" and ep' = "QuantityOf (ch_id k)" and x = "- d_val D ?q"
          and y = "d_val D ?q", OF disjI1 [OF e(1)] ad])
      (use X Y H K i ne in \<open>auto simp: e(2) postings_effects signed_def exact\<close>)
qed

lemma buildPositionAdjustment_sound:
  assumes s: "valid_state D s" and R: "\<forall>k. rt_new_id R k \<noteq> []" and p: "buildPositionAdjustment D R s input = Inr p"
    and q: "exact_quantity D (pa_quantity input)"
  shows "sound_preview D s p"
proof -
  let ?d = "if pa_added input then EffectAdded else EffectRemoved"
  obtain h c x where h: "state_holding s (pa_holding_id input) (pa_household_id input) = Inr h"
    and z: "\<not> Quantity_IsZero D (pa_quantity input)"
    and x: "NewQuantity D (if pa_added input then d_add D (q_value (ch_current h)) (q_value (pa_quantity input))
        else d_sub D (q_value (ch_current h)) (q_value (pa_quantity input))) = Inr x"
    and e: "cp_resulting p = [holding_view D h x]"
      "cp_effects p = [(holdingEffect R (rt_new_id R 0) 1 EffectRoleQuantity ?d ClassificationRemeasurement h (pa_quantity input)) \<lparr> e_cost := c \<rparr>]"
    using p unfolding buildPositionAdjustment_def Let_def
    by (cases "pa_added input"; elim res_elims) (auto simp: newActivity_id intro: that elim!: res_elims)
  note H = state_holdingD(1) [OF h]
  have i: "ch_id h = pa_holding_id input" using valid_state_holding_id [OF s] H by blast
  have ad: "admissible D s ((holdingEffect R (rt_new_id R 0) 1 EffectRoleQuantity ?d ClassificationRemeasurement h (pa_quantity input)) \<lparr> e_cost := c \<rparr>)"
    using H i q R z by (intro holdingEffect_admissible) auto
  note X = holding_shows(1,2) [OF x] holding_shows(3) [OF x, of h]
  show ?thesis
    by (rule sound_single [OF e(2,1) ad, where ep = "QuantityOf (ch_id h)" and x = "signed ?d (d_val D (q_value (pa_quantity input)))"])
      (use X H i in \<open>auto simp: postings_effects signed_def exact split: if_splits\<close>)
qed

text \<open>A cost correction posts nothing; its effect shows the view of the preview.\<close>

lemma buildPositionCostAdjustment_applies:
  assumes s: "valid_state D s" and R: "\<forall>k. rt_new_id R k \<noteq> []" and p: "buildPositionCostAdjustment D R s input = Inr p"
  shows "ApplyEffects D s (cp_effects p) = Inr (s, cp_resulting p)" and "postings D (cp_effects p) = []"
    and "\<forall>v \<in> set (cp_resulting p). ev_target v = EffectTargetHoldingCost"
proof -
  obtain h where h: "state_holding s (pc_holding_id input) (pc_household_id input) = Inr h"
    and z: "\<not> Quantity_IsZero D (ch_current h)"
    and e: "cp_resulting p = [cost_view D h (Some (pc_unit_cost input))]"
      "cp_effects p = [\<lparr> e_id = rt_new_id R 1, e_activity_id = rt_new_id R 0, e_sequence = 1, e_role = EffectRoleCost,
             e_direction = EffectAdded, e_target = EffectTargetHoldingCost, e_classification = ClassificationRemeasurement,
             e_account = None, e_holding = Some (ch_id h), e_instrument = Some (ch_instrument_id h),
             e_money = None, e_quantity = None, e_cost = Some (pc_unit_cost input) \<rparr>]"
    using p unfolding buildPositionCostAdjustment_def Let_def by (elim res_elims) (auto simp: newActivity_id intro: that)
  note H = state_holdingD(1) [OF h]
  have i: "ch_id h = pc_holding_id input" using valid_state_holding_id [OF s] H by blast
  show "ApplyEffects D s (cp_effects p) = Inr (s, cp_resulting p)"
    using H i z R by (simp add: e ApplyEffects_def apply_effect_def ActivityEffect_Validate_def apply_cost_effect_def)
  show "postings D (cp_effects p) = []" by (simp add: e postings_def effect_endpoint_def)
  show "\<forall>v \<in> set (cp_resulting p). ev_target v = EffectTargetHoldingCost" by (simp add: e cost_view_def)
qed

subsection \<open>Debts and trades\<close>

lemma money_view_subtract:
  assumes v: "money_view D v a m x" and f: "valid_money D f" and c: "d_from_string D (ev_amount v) = Inr cur"
    and u: "NewMoney D (d_sub D cur (m_amount f)) (m_currency m) = Inr u"
    and w: "w = v \<lparr> ev_amount := Money_CanonicalAmount D u \<rparr>"
  shows "money_view D w a m (x - d_val D (m_amount f))" and "0 \<le> x - d_val D (m_amount f)"
proof -
  obtain t where t: "v = account_view (accountTarget a) (ca_id a) (ca_name a) D t" "valid_money D t" "d_val D (m_amount t) = x"
    "m_currency t = m_currency m" using v by (auto simp: money_view_def)
  have tb: "0 \<le> d_val D (m_amount t)" "d_val D (m_amount t) < 10 ^ 12" "- int 4 \<le> d_exponent D (m_amount t)" "valid_currency (m_currency m)"
    using t(2,4) max_money_bounds by (auto simp: valid_money_def)
  have cur: "d_val D cur = x"
    using from_string_string [OF tb(1,2) _ tb(3)] c t(1,3) by (auto simp: account_view_def Money_CanonicalAmount_def)
  have g: "on_grid 4 (x - d_val D (m_amount f))" using valid_money_grid t(2,3) f on_grid_diff by blast
  have uv: "d_val D (m_amount u) = x - d_val D (m_amount f)" "valid_money D u" "m_currency u = m_currency m"
    using NewMoney_exact [OF u] NewMoney_Inr [OF u] g cur ParseCurrency_valid [OF tb(4)] by (auto simp: exact)
  then show "money_view D w a m (x - d_val D (m_amount f))" "0 \<le> x - d_val D (m_amount f)"
    using NewMoney_Inr(4) [OF u] cur t by (auto simp: money_view_def w account_view_def exact intro!: exI [of _ u])
qed

lemma subtractFromEndpoint_view:
  assumes "money_view D v a m x" and "valid_money D f" and "subtractFromEndpoint D v f = Inr w"
  shows "money_view D w a m (x - d_val D (m_amount f))" and "0 \<le> x - d_val D (m_amount f)"
proof -
  have ev: "ev_currency v = m_currency m" using assms(1) by (auto simp: money_view_def account_view_def)
  obtain cur u where "d_from_string D (ev_amount v) = Inr cur" "NewMoney D (d_sub D cur (m_amount f)) (m_currency m) = Inr u"
    "w = v \<lparr> ev_amount := Money_CanonicalAmount D u \<rparr>"
    using assms(3) unfolding subtractFromEndpoint_def Let_def ev by (elim res_elims) auto
  from money_view_subtract [OF assms(1,2) this]
  show "money_view D w a m (x - d_val D (m_amount f))" "0 \<le> x - d_val D (m_amount f)" .
qed

lemma cashAfter_view:
  assumes "valid_state D s" and "cs_accounts s i = Some a" and "ca_mode a = TrackingHoldings" and "valid_money D m" and "valid_money D f"
    and "m_currency f = m_currency m" and "cashAfter D s (ca_id a) f EffectRemoved m d = Inr w"
  defines "x \<equiv> ledger D s (money_endpoint a m) + signed d (d_val D (m_amount m))"
  shows "money_view D w a m (x - d_val D (m_amount f))" and "0 \<le> x - d_val D (m_amount f)"
proof -
  obtain v cur u where v: "state_cash D s (ca_id a) m d = Inr v" and u: "d_from_string D (ev_amount v) = Inr cur"
    "NewMoney D (d_sub D cur (m_amount f)) (m_currency m) = Inr u"
    and w: "w = v \<lparr> ev_amount := Money_CanonicalAmount D u, ev_currency := m_currency u \<rparr>"
    using assms(6,7) unfolding cashAfter_def Let_def by (elim res_elims) auto
  have "accountAmount D s a m d = Inr v" using v assms(3) by (simp add: accountAmount_def)
  note V = accountAmount_view(3) [OF assms(1,2,4) this]
  have "m_currency u = m_currency m"
    using NewMoney_Inr(3) [OF u(2)] assms(4) ParseCurrency_valid by (simp add: valid_money_def)
  moreover have "ev_currency v = m_currency m" using V by (auto simp: money_view_def account_view_def)
  ultimately have w': "w = v \<lparr> ev_amount := Money_CanonicalAmount D u \<rparr>" using w by (cases v) simp
  from money_view_subtract [OF V assms(5) u w']
  show "money_view D w a m (x - d_val D (m_amount f))" "0 \<le> x - d_val D (m_amount f)" by (simp_all add: x_def)
qed

text \<open>Debt accounts are never tracked by holdings, so their principal is posted to their value.\<close>

lemma validateDebtEndpoints_Inr:
  assumes "validateDebtEndpoints D s h i j m = Inr (debt, cash)"
  shows "cs_accounts s i = Some debt" "cs_accounts s j = Some cash" "ca_id debt \<noteq> ca_id cash" "ca_liability debt"
    "\<not> ca_liability cash" "m_currency m = ca_currency cash" "\<not> Money_IsZero D m"
  using assms unfolding validateDebtEndpoints_def by (auto elim!: res_elims dest: state_accountD(1))

lemma sound_debt:
  assumes s: "valid_state D s" and R: "\<forall>k. rt_new_id R k \<noteq> []" and debt: "validateDebtEndpoints D s h i j m = Inr (debt, cash)"
    and simple: "ca_mode debt \<noteq> TrackingHoldings" and m: "valid_money D m" "pred_option (valid_money D) fee"
    and d: "d = EffectAdded \<or> d = EffectRemoved" and v: "applyMoney D debt m d = Inr v" and w: "accountAmount D s cash m d = Inr w"
    and u: "case fee of None \<Rightarrow> u = w | Some f \<Rightarrow> m_currency f = m_currency m \<and> \<not> Money_IsZero D f \<and> subtractFromEndpoint D w f = Inr u"
    and p: "cp_resulting p = [v, u]" "cp_effects p = debt_effects R (rt_new_id R 0) d debt cash m
      @ (case fee of None \<Rightarrow> [] | Some f \<Rightarrow> [accountEffect R (rt_new_id R 0) 3 EffectRoleFee EffectRemoved (accountTarget cash) ClassificationFee (ca_id cash) f None])"
  shows "sound_preview D s p"
proof -
  note E = validateDebtEndpoints_Inr [OF debt]
  have tg: "accountTarget debt = EffectTargetAccountValue" using simple by (simp add: accountTarget_def)
  have "accountAmount D s debt m d = Inr v" using v simple by (simp add: accountAmount_def)
  note V = accountAmount_view [OF s E(1) m(1) this] and W = accountAmount_view [OF s E(2) m(1) w]
  let ?y = "signed d (d_val D (m_amount m))"
  have U: "money_view D u cash m (ledger D s (money_endpoint cash m) + ?y - fee_value D fee)"
    "0 \<le> ledger D s (money_endpoint cash m) + ?y - fee_value D fee"
    using u W subtractFromEndpoint_view [OF W(3)] m(2) by (auto simp: fee_value_def split: option.splits)
  have f0: "fee_value D fee = 0 \<longleftrightarrow> fee = None"
    using u by (auto simp: fee_value_def Money_IsZero_def exact split: option.splits)
  have epf: "money_endpoint cash f = money_endpoint cash m" if "fee = Some f" for f
    using u that by (intro money_endpoint_cong) auto
  have ps: "postings D (cp_effects p) = [(money_endpoint debt m, ?y), (money_endpoint cash m, ?y)]
      @ (if fee_value D fee = 0 then [] else [(money_endpoint cash m, - fee_value D fee)])"
  proof (cases fee)
    case None then show ?thesis
      using postings_accountEffect [where a = debt] by (simp add: p(2) debt_effects_def tg postings_effects fee_value_def)
  next
    case (Some f)
    then have "fee_value D fee \<noteq> 0" using f0 by simp
    with Some epf [OF Some] show ?thesis
      using postings_accountEffect [where a = debt] by (simp add: p(2) debt_effects_def tg postings_effects signed_def fee_value_def)
  qed
  have ai: "cs_accounts s (ca_id debt) = Some debt" "cs_accounts s (ca_id cash) = Some cash"
    using valid_state_account_id [OF s] E(1,2) by auto
  have ad1: "admissible D s (accountEffect R (rt_new_id R 0) 1 EffectRoleDebt d EffectTargetAccountValue ClassificationDebtPrincipal (ca_id debt) m None)"
    unfolding tg [symmetric] using ai R m d V(4) E(7) by (intro accountEffect_admissible) auto
  have ad2: "admissible D s (accountEffect R (rt_new_id R 0) 2 EffectRolePrincipal d (accountTarget cash) ClassificationDebtPrincipal (ca_id cash) m None)"
    using ai R m d W(4) E(7) by (intro accountEffect_admissible) auto
  have ad3: "admissible D s (accountEffect R (rt_new_id R 0) 3 EffectRoleFee EffectRemoved (accountTarget cash) ClassificationFee (ca_id cash) f None)"
    if "fee = Some f" for f
    using ai R m u that W(4) by (intro accountEffect_admissible) auto
  have ad: "\<forall>e \<in> set (cp_effects p). admissible D s e"
    using ad1 ad2 ad3 by (auto simp: p(2) debt_effects_def split: option.splits)
  have ne: "money_endpoint cash m \<noteq> money_endpoint debt m" using E(3) money_endpoint_eq by metis
  show ?thesis
    by (rule sound_pair [OF disjI2 [OF p(1)] ad disjI2 [OF ps] ne fee_value_nonneg [OF m(2)]])
      (use V W U money_view_shows in auto)
qed

lemma buildDebtDraw_sound:
  assumes s: "valid_state D s" and R: "\<forall>k. rt_new_id R k \<noteq> []" and p: "buildDebtDraw D R s input = Inr p"
    and simple: "\<And>i a. cs_accounts s i = Some a \<Longrightarrow> ca_liability a \<Longrightarrow> ca_mode a \<noteq> TrackingHoldings" and m: "valid_money D (dw_principal input)"
  shows "sound_preview D s p"
proof -
  obtain debt cash v w where debt: "validateDebtEndpoints D s (dw_household_id input) (dw_debt_account_id input) (dw_cash_account_id input) (dw_principal input) = Inr (debt, cash)"
    and v: "applyMoney D debt (dw_principal input) EffectAdded = Inr v" and w: "accountAmount D s cash (dw_principal input) EffectAdded = Inr w"
    and q: "cp_resulting p = [v, w]" "cp_effects p = debt_effects R (rt_new_id R 0) EffectAdded debt cash (dw_principal input)"
    using p unfolding buildDebtDraw_def by (elim res_elims) (auto simp: newActivity_id intro: that elim!: res_elims)
  show ?thesis
    by (rule sound_debt [OF s R debt _ m _ _ v w, where fee = None])
      (use simple validateDebtEndpoints_Inr [OF debt] q in auto)
qed

lemma buildDebtPayment_sound:
  assumes s: "valid_state D s" and R: "\<forall>k. rt_new_id R k \<noteq> []" and p: "buildDebtPayment D R s input = Inr p"
    and simple: "\<And>i a. cs_accounts s i = Some a \<Longrightarrow> ca_liability a \<Longrightarrow> ca_mode a \<noteq> TrackingHoldings"
    and m: "valid_money D (dp_principal input)" "pred_option (valid_money D) (dp_interest_or_fee input)"
  shows "sound_preview D s p"
proof -
  define fee where "fee = (case dp_interest_or_fee input of None \<Rightarrow> None | Some f \<Rightarrow> if Money_IsZero D f then None else Some f)"
  let ?es = "\<lambda>aid debt cash. debt_effects R aid EffectRemoved debt cash (dp_principal input)"
  let ?fee = "\<lambda>aid cash f. accountEffect R aid 3 EffectRoleFee EffectRemoved (accountTarget cash) ClassificationFee (ca_id cash) f None"
  have acc: "(if ca_mode c = TrackingHoldings then state_cash D s (ca_id c) x d else accountAmount D s c x d) = accountAmount D s c x d" for c x d
    by (simp add: accountAmount_def)
  obtain debt cash act v w where debt: "validateDebtEndpoints D s (dp_household_id input) (dp_debt_account_id input) (dp_cash_account_id input) (dp_principal input) = Inr (debt, cash)"
    and v: "applyMoney D debt (dp_principal input) EffectRemoved = Inr v" and w: "accountAmount D s cash (dp_principal input) EffectRemoved = Inr w"
    and aid: "act_id act = rt_new_id R 0" and r: "(case dp_interest_or_fee input of
       None \<Rightarrow> Inr (preview act (?es (act_id act) debt cash) [v, w])
     | Some fee \<Rightarrow>
         if Money_IsZero D fee then Inr (preview act (?es (act_id act) debt cash) [v, w])
         else if m_currency fee \<noteq> m_currency (dp_principal input)
         then Inl (changeError ErrInvalidChange ''interestOrFee'' ''interest or fee currency must match principal'')
         else res_bind (subtractFromEndpoint D w fee) (\<lambda>feeView. Inr (preview act (?es (act_id act) debt cash @ [?fee (act_id act) cash fee]) [v, feeView]))) = Inr p"
    using p unfolding buildDebtPayment_def acc Let_def
    by (elim res_elims) (auto intro: that newActivity_id elim!: res_bindE)
  obtain u where u: "case fee of None \<Rightarrow> u = w | Some f \<Rightarrow> m_currency f = m_currency (dp_principal input) \<and> \<not> Money_IsZero D f \<and> subtractFromEndpoint D w f = Inr u"
    and q: "cp_resulting p = [v, u]" "cp_effects p = ?es (rt_new_id R 0) debt cash @ (case fee of None \<Rightarrow> [] | Some f \<Rightarrow> [?fee (rt_new_id R 0) cash f])"
    using r unfolding aid by (auto simp: fee_def split: option.splits if_splits elim!: res_elims)
  have "pred_option (valid_money D) fee" using m(2) by (auto simp: fee_def split: option.splits)
  with simple validateDebtEndpoints_Inr [OF debt] show ?thesis
    by (intro sound_debt [OF s R debt _ m(1) _ _ v w u q]) auto
qed

end

text \<open>The state a trade is applied to: a first purchase opens its holding.\<close>

definition trade_state :: "'d ChangeState \<Rightarrow> 'd ChangeHoldingState \<Rightarrow> 'd ChangeState" where
  "trade_state s h = s \<lparr> cs_holdings := (cs_holdings s)(ch_id h \<mapsto> h) \<rparr>"

lemma trade_state_simps [simp]:
  "cs_accounts (trade_state s h) = cs_accounts s" "cs_cash (trade_state s h) = cs_cash s"
  "cs_holdings (trade_state s h) (ch_id h) = Some h"
  by (simp_all add: trade_state_def)

definition trade_fee :: "'d decimal_ops \<Rightarrow> 'd TradeInput \<Rightarrow> 'd money option" where
  "trade_fee D input = (case ti_fee input of None \<Rightarrow> None | Some f \<Rightarrow> if Money_IsZero D f then None else Some f)"

lemma trade_candidate_Some:
  assumes "trade_candidate R s i j = Some h"
  shows "\<exists>k. cs_holdings s k = Some h"
proof -
  have "h \<in> set (List.map_filter (cs_holdings s) (rt_holding_order R))"
    using assms by (auto simp: trade_candidate_def find_Some_iff)
  then show ?thesis by (auto simp: List.map_filter_def)
qed

lemma trade_holding_origin:
  assumes "trade_holding D R s a input = Inr h"
  shows "(\<exists>k. cs_holdings s k = Some h) \<or> first_buy_holding D R s a (ti_instrument_id input) = Inr h"
proof (cases "state_holding s (ti_holding_id input) (ti_household_id input)")
  case (Inl e)
  with assms trade_candidate_Some show ?thesis
    by (auto simp: trade_holding_def split: option.splits if_splits)
next
  case (Inr h')
  with assms have "h' = h" by (simp add: trade_holding_def)
  with Inr show ?thesis using state_holdingD(1) by blast
qed

lemma first_buy_holding_Inr:
  assumes "first_buy_holding D R s a i = Inr h"
  shows "ch_id h = rt_new_holding_id R" and "NewQuantity D (d_zero D) = Inr (ch_current h)"
  using assms by (auto simp: first_buy_holding_def split: option.splits if_splits elim!: res_bindE)

context decimal_lib
begin

lemma trade_holding_Inr:
  assumes "valid_state D s" and "trade_holding D R s a input = Inr h"
  shows "cs_holdings s (ch_id h) = Some h \<or> (ch_id h = rt_new_holding_id R \<and> d_val D (q_value (ch_current h)) = 0)"
    and "exact_quantity D (ch_current h)"
proof -
  consider "cs_holdings s (ch_id h) = Some h" | "ch_id h = rt_new_holding_id R" "NewQuantity D (d_zero D) = Inr (ch_current h)"
    using trade_holding_origin [OF assms(2)] valid_state_holding_id [OF assms(1)] first_buy_holding_Inr by metis
  then have "(cs_holdings s (ch_id h) = Some h \<or> (ch_id h = rt_new_holding_id R \<and> d_val D (q_value (ch_current h)) = 0))
    \<and> exact_quantity D (ch_current h)"
  proof cases
    case 1 with valid_stateD(3) [OF assms(1) 1] show ?thesis by (simp add: valid_holding_state_def)
  next
    case 2 with exponent_zero show ?thesis by (auto simp: NewQuantity_iff exact exact_quantity_def)
  qed
  then show "cs_holdings s (ch_id h) = Some h \<or> (ch_id h = rt_new_holding_id R \<and> d_val D (q_value (ch_current h)) = 0)"
    and "exact_quantity D (ch_current h)" by blast+
qed

lemma trade_state_valid:
  assumes s: "valid_state D s" and h: "trade_holding D R s a input = Inr h" and fresh: "cs_holdings s (rt_new_holding_id R) = None"
  shows "valid_state D (trade_state s h)" and "ledger D (trade_state s h) = ledger D s"
proof -
  note H = trade_holding_Inr [OF s h]
  show "valid_state D (trade_state s h)"
    unfolding trade_state_def by (rule valid_state_set_quantity [OF s]) (simp add: valid_holding_state_def H)
  have "ledger D s (QuantityOf (ch_id h)) = d_val D (q_value (ch_current h))" using H(1) fresh by auto
  then show "ledger D (trade_state s h) = ledger D s"
    unfolding trade_state_def ledger_set_quantity by (rule fun_upd_idem)
qed

lemma trade_cash_Inr:
  assumes s: "valid_state D s" and a: "cs_accounts s i = Some a" "ca_mode a = TrackingHoldings"
    and m: "valid_money D (ti_gross input)" "pred_option (valid_money D) (ti_fee input)"
    and c: "\<And>f. ti_fee input = Some f \<Longrightarrow> m_currency f = m_currency (ti_gross input)"
    and t: "trade_cash D R s a input aid = Inr (v, es)"
  defines "d \<equiv> if ti_side input = TradeSell then EffectAdded else EffectRemoved"
  defines "x \<equiv> ledger D s (money_endpoint a (ti_gross input)) + signed d (d_val D (m_amount (ti_gross input)))"
  shows "0 \<le> x" and "x \<le> max_money" and "0 \<le> x - fee_value D (trade_fee D input)"
    and "money_view D v a (ti_gross input) (x - fee_value D (trade_fee D input))"
    and "es = cashEffect R aid 2 EffectRolePrincipal d ClassificationTradePrincipal (ca_id a) (ti_gross input)
      # (case trade_fee D input of None \<Rightarrow> [] | Some f \<Rightarrow> [cashEffect R aid 3 EffectRoleFee EffectRemoved ClassificationFee (ca_id a) f])"
proof -
  from t obtain w where w: "state_cash D s (ca_id a) (ti_gross input) d = Inr w"
    unfolding trade_cash_def Let_def d_def by (auto elim!: res_bindE)
  have "accountAmount D s a (ti_gross input) d = Inr w" using w a(2) by (simp add: accountAmount_def)
  note W = accountAmount_view [OF s a(1) m(1) this, folded x_def]
  show "0 \<le> x" "x \<le> max_money" by (rule W(1), rule W(2))
  show "0 \<le> x - fee_value D (trade_fee D input)" "money_view D v a (ti_gross input) (x - fee_value D (trade_fee D input))"
    "es = cashEffect R aid 2 EffectRolePrincipal d ClassificationTradePrincipal (ca_id a) (ti_gross input)
      # (case trade_fee D input of None \<Rightarrow> [] | Some f \<Rightarrow> [cashEffect R aid 3 EffectRoleFee EffectRemoved ClassificationFee (ca_id a) f])"
    using t W cashAfter_view [OF s a m(1) _ c, where d = d, folded x_def] m(2) w
    by (auto simp: trade_cash_def Let_def trade_fee_def fee_value_def d_def [symmetric] split: option.splits if_splits elim!: res_elims)
qed

lemma buildTrade_Inr:
  assumes "buildTrade D R s input = Inr p"
  obtains a h q v es where "state_account s (ti_settlement_account_id input) (ti_household_id input) = Inr a"
    and "trade_holding D R s a input = Inr h" and "ca_mode a = TrackingHoldings"
    and "\<not> Quantity_IsZero D (ti_quantity input)" and "\<not> Money_IsZero D (ti_gross input)"
    and "\<forall>f. ti_fee input = Some f \<longrightarrow> m_currency f = m_currency (ti_gross input)"
    and "NewQuantity D (if ti_side input = TradeSell then d_sub D (q_value (ch_current h)) (q_value (ti_quantity input))
        else d_add D (q_value (ch_current h)) (q_value (ti_quantity input))) = Inr q"
    and "trade_cash D R s a input (rt_new_id R 0) = Inr (v, es)"
    and "cp_resulting p = [v, holding_view D h q]"
    and "cp_effects p = holdingEffect R (rt_new_id R 0) 1 EffectRoleQuantity (if ti_side input = TradeSell then EffectRemoved else EffectAdded)
        ClassificationTradePrincipal h (ti_quantity input) # es"
proof -
  have "ti_side input = TradeSell \<or> ti_side input \<noteq> TradeSell" by blast
  then show ?thesis
  proof
    assume sell: "ti_side input = TradeSell"
    show ?thesis
      using assms unfolding buildTrade_def Let_def
      by (elim res_elims) (auto simp: newActivity_id sell split: option.splits elim!: res_elims intro: that)
  next
    assume buy: "ti_side input \<noteq> TradeSell"
    show ?thesis
      using assms unfolding buildTrade_def Let_def
      by (elim res_elims) (auto simp: newActivity_id buy split: option.splits elim!: res_elims intro: that)
  qed
qed

lemma buildTrade_sound:
  assumes s: "valid_state D s" and R: "\<forall>k. rt_new_id R k \<noteq> []" and fresh: "cs_holdings s (rt_new_holding_id R) = None"
    and m: "valid_money D (ti_gross input)" "pred_option (valid_money D) (ti_fee input)" and qty: "exact_quantity D (ti_quantity input)"
    and p: "buildTrade D R s input = Inr p"
  obtains a h where "state_account s (ti_settlement_account_id input) (ti_household_id input) = Inr a"
    and "trade_holding D R s a input = Inr h" and "sound_preview D (trade_state s h) p"
proof -
  obtain a h q v es where a: "state_account s (ti_settlement_account_id input) (ti_household_id input) = Inr a"
    and h: "trade_holding D R s a input = Inr h" and mode: "ca_mode a = TrackingHoldings"
    and z: "\<not> Quantity_IsZero D (ti_quantity input)" "\<not> Money_IsZero D (ti_gross input)"
    and c: "\<forall>f. ti_fee input = Some f \<longrightarrow> m_currency f = m_currency (ti_gross input)"
    and q: "NewQuantity D (if ti_side input = TradeSell then d_sub D (q_value (ch_current h)) (q_value (ti_quantity input))
        else d_add D (q_value (ch_current h)) (q_value (ti_quantity input))) = Inr q"
    and t: "trade_cash D R s a input (rt_new_id R 0) = Inr (v, es)"
    and e: "cp_resulting p = [v, holding_view D h q]"
      "cp_effects p = holdingEffect R (rt_new_id R 0) 1 EffectRoleQuantity (if ti_side input = TradeSell then EffectRemoved else EffectAdded)
        ClassificationTradePrincipal h (ti_quantity input) # es"
    by (rule buildTrade_Inr [OF p])
  let ?s = "trade_state s h" and ?g = "ti_gross input"
  let ?d = "if ti_side input = TradeSell then EffectAdded else EffectRemoved"
  let ?qd = "if ti_side input = TradeSell then EffectRemoved else EffectAdded"
  let ?x = "signed ?d (d_val D (m_amount ?g))" and ?y = "signed ?qd (d_val D (q_value (ti_quantity input)))"
  note A = state_accountD(1) [OF a]
  note S = trade_state_valid [OF s h fresh]
  have ai: "cs_accounts s (ca_id a) = Some a" using valid_state_account_id [OF s A] A by simp
  note T = trade_cash_Inr [OF s A mode m c [rule_format] t]
  have fee: "m_currency f = m_currency ?g" "valid_money D f" "\<not> Money_IsZero D f" if "trade_fee D input = Some f" for f
    using that c m(2) by (auto simp: trade_fee_def split: option.splits if_splits)
  have f0: "fee_value D (trade_fee D input) = 0 \<longleftrightarrow> trade_fee D input = None"
    using fee(3) by (auto simp: fee_value_def Money_IsZero_def exact split: option.splits)
  have tg: "accountTarget a = EffectTargetAccountCash" using mode by (simp add: accountTarget_def)
  note pe = postings_accountEffect [where a = a, unfolded tg]
  have ps: "postings D (cp_effects p) = [(QuantityOf (ch_id h), ?y), (money_endpoint a ?g, ?x)]
      @ (if fee_value D (trade_fee D input) = 0 then [] else [(money_endpoint a ?g, - fee_value D (trade_fee D input))])"
  proof (cases "trade_fee D input")
    case None then show ?thesis by (simp add: e(2) T(5) postings_effects pe cashEffect_eq fee_value_def)
  next
    case (Some f)
    then have "fee_value D (trade_fee D input) \<noteq> 0" using f0 by simp
    with Some money_endpoint_cong [OF fee(1) [OF Some], of a] show ?thesis
      by (simp add: e(2) T(5) postings_effects pe cashEffect_eq fee_value_def signed_def)
  qed
  have ad: "\<forall>x \<in> set (cp_effects p). admissible D ?s x"
    using accountEffect_admissible [where a = a and s = ?s and D = D and R = R, unfolded tg] ai R m(1) z mode qty fee
    by (auto simp: e(2) T(5) cashEffect_eq intro!: holdingEffect_admissible split: option.splits)
  have ne: "money_endpoint a ?g \<noteq> QuantityOf (ch_id h)" by (simp add: money_endpoint_def)
  have lq: "ledger D ?s (QuantityOf (ch_id h)) = d_val D (q_value (ch_current h))" by simp
  have fv: "0 \<le> fee_value D (trade_fee D input)" using fee(2) by (auto simp: fee_value_def valid_money_def split: option.splits)
  have "sound_preview D ?s p"
    by (rule sound_pair [OF disjI1 [OF e(1)] ad disjI2 [OF ps] ne fv])
      (use T(1-4) money_view_shows [OF T(4)] holding_shows [OF q] lq S(2) in
        \<open>auto simp: exact signed_def simp del: ledger.simps split: if_splits\<close>)
  with a h show ?thesis by (rule that)
qed

end

section \<open>Commands\<close>

text \<open>The amounts and quantities of a command are values the parsers accept.\<close>

fun valid_command :: "'d decimal_ops \<Rightarrow> 'd command \<Rightarrow> bool" where
  "valid_command D (MoneyAdded v) = valid_money D (ma_amount v)"
| "valid_command D (MoneyRemoved v) = valid_money D (mr_amount v)"
| "valid_command D (CashDividend v) = valid_money D (cd_amount v)"
| "valid_command D (CashTransfer v) =
     (valid_money D (ct_sent v) \<and> valid_money D (ct_received v) \<and> pred_option (valid_money D) (ct_fee v))"
| "valid_command D (FXConversion v) =
     (valid_money D (fc_sold v) \<and> valid_money D (fc_bought v) \<and> pred_option (valid_money D) (fc_fee v))"
| "valid_command D (PositionTransfer v) = exact_quantity D (pt_quantity v)"
| "valid_command D (PositionAdjustment v) = exact_quantity D (pa_quantity v)"
| "valid_command D (Trade v) =
     (valid_money D (ti_gross v) \<and> pred_option (valid_money D) (ti_fee v) \<and> exact_quantity D (ti_quantity v))"
| "valid_command D (DebtDraw v) = valid_money D (dw_principal v)"
| "valid_command D (DebtPayment v) = (valid_money D (dp_principal v) \<and> pred_option (valid_money D) (dp_interest_or_fee v))"
| "valid_command D _ = True"

text \<open>The state in which the effects are recorded: that of the preview, with the holding of a first purchase.\<close>

definition prepared :: "'d decimal_ops \<Rightarrow> runtime \<Rightarrow> 'd ChangeState \<Rightarrow> 'd command \<Rightarrow> 'd ChangeState" where
  "prepared D R s command =
     (case command of
        Trade input \<Rightarrow>
          (case res_bind (state_account s (ti_settlement_account_id input) (ti_household_id input))
             (\<lambda>account. trade_holding D R s account input) of
             Inl _ \<Rightarrow> s
           | Inr h \<Rightarrow> trade_state s h)
      | _ \<Rightarrow> s)"

end
