(* ===== verification/PreviewProps.thy ===== *)
theory PreviewProps
  imports PreviewSound
begin

text \<open>
  The properties of \<^verbatim>\<open>PreviewChange\<close>: previews are sound, transfers and debts leave the net worth
  alone up to fees, trades post their quantity and cash exactly, a value update sets the value,
  and overdrafts are refused.
\<close>

section \<open>Applying a preview\<close>

context decimal_lib
begin

lemma sound_applies:
  assumes "valid_state D s" and "sound_preview D s p"
  shows "\<exists>s' vs. ApplyEffects D s (cp_effects p) = Inr (s', vs) \<and> valid_state D s'
    \<and> shows_exactly D (cp_resulting p) (touched D (cp_effects p)) (ledger D s')
    \<and> post_all (ledger D s) (postings D (cp_effects p)) = Some (ledger D s')"
proof -
  from assms(2) obtain L where ad: "\<forall>e \<in> set (cp_effects p). admissible D s e"
    and L: "post_all (ledger D s) (postings D (cp_effects p)) = Some L"
      "shows_exactly D (cp_resulting p) (touched D (cp_effects p)) L"
    by (auto simp: sound_preview_def)
  from ApplyEffects_outcome [OF assms(1) ad] L(1) obtain s' vs where
    s': "ApplyEffects D s (cp_effects p) = Inr (s', vs)" "ledger D s' = L"
    by (auto simp: outcome_def split: sum.splits)
  have "valid_state D s'" using ApplyEffects_step [OF s'(1) assms(1)] ad by (auto simp: admissible_def)
  with s' L show ?thesis by auto
qed

lemma cost_view_shows: "ev_target v = EffectTargetHoldingCost \<Longrightarrow> \<not> view_shows D v ep x"
  by (auto simp: view_shows_def split: endpoint.splits)

end

definition simple_liabilities :: "'d ChangeState \<Rightarrow> bool" where
  "simple_liabilities s \<longleftrightarrow> (\<forall>i a. cs_accounts s i = Some a \<longrightarrow> ca_liability a \<longrightarrow> ca_mode a \<noteq> TrackingHoldings)"

definition fresh_ids :: "runtime \<Rightarrow> 'd ChangeState \<Rightarrow> bool" where
  "fresh_ids R s \<longleftrightarrow> (\<forall>k. rt_new_id R k \<noteq> []) \<and> cs_holdings s (rt_new_holding_id R) = None"

lemma fresh_idsD: "fresh_ids R s \<Longrightarrow> \<forall>k. rt_new_id R k \<noteq> []" "fresh_ids R s \<Longrightarrow> cs_holdings s (rt_new_holding_id R) = None"
  by (simp_all add: fresh_ids_def)

context decimal_lib
begin

lemma PreviewChange_sound_state:
  assumes s: "valid_state D s" and l: "simple_liabilities s" and R: "fresh_ids R s" and c: "valid_command D command"
    and p: "PreviewChange D R s command = Inr p" and k: "\<And>i. command \<noteq> PositionCostAdjustment i"
  shows "valid_state D (prepared D R s command) \<and> sound_preview D (prepared D R s command) p"
proof (cases command)
  case (Trade input)
  then have t: "buildTrade D R s input = Inr p" using p by (simp add: PreviewChange_def)
  from c Trade have m: "valid_money D (ti_gross input)" "pred_option (valid_money D) (ti_fee input)" "exact_quantity D (ti_quantity input)"
    by simp_all
  obtain a h where "state_account s (ti_settlement_account_id input) (ti_household_id input) = Inr a"
    and h: "trade_holding D R s a input = Inr h" and "sound_preview D (trade_state s h) p"
    by (rule buildTrade_sound [OF s fresh_idsD [OF R] m t])
  then show ?thesis using trade_state_valid(1) [OF s h fresh_idsD(2) [OF R]] by (simp add: prepared_def Trade)
next
  case (DebtDraw input)
  then show ?thesis
    using buildDebtDraw_sound [OF s fresh_idsD(1) [OF R]] p c l s
    by (auto simp: PreviewChange_def prepared_def simple_liabilities_def)
next
  case (DebtPayment input)
  then show ?thesis
    using buildDebtPayment_sound [OF s fresh_idsD(1) [OF R]] p c l s
    by (auto simp: PreviewChange_def prepared_def simple_liabilities_def)
qed (use s c p k fresh_idsD(1) [OF R] in \<open>simp_all add: PreviewChange_def prepared_def buildMoneyChange_def buildValueUpdate_def
      build_money_sound buildCashDividend_sound buildCashTransfer_sound buildFXConversion_sound buildPositionTransfer_sound
      buildPositionAdjustment_sound buildValueUpdateWithZero_sound\<close>)

end

section \<open>Net worth\<close>

text \<open>
  What effects add to assets minus liabilities: the value of a liability account counts
  negatively.
\<close>

definition liability_endpoint :: "'d ChangeState \<Rightarrow> endpoint \<Rightarrow> bool" where
  "liability_endpoint s ep = (case ep of ValueOf i \<Rightarrow> (case cs_accounts s i of None \<Rightarrow> False | Some a \<Rightarrow> ca_liability a) | _ \<Rightarrow> False)"

definition net_effect :: "'d decimal_ops \<Rightarrow> 'd ChangeState \<Rightarrow> 'd ActivityEffect list \<Rightarrow> rat" where
  "net_effect D s es = sum_list (map (\<lambda>(ep, x). if liability_endpoint s ep then - x else x) (postings D es))"

lemma liability_money_endpoint:
  assumes "cs_accounts s (ca_id a) = Some a"
  shows "liability_endpoint s (money_endpoint a m) \<longleftrightarrow> ca_liability a \<and> ca_mode a \<noteq> TrackingHoldings"
  using assms by (simp add: liability_endpoint_def money_endpoint_def)

context decimal_lib
begin

lemma buildCashTransfer_postings:
  assumes s: "valid_state D s" and p: "buildCashTransfer D R s input = Inr p"
  shows "\<exists>a b. cs_accounts s (ca_id a) = Some a \<and> cs_accounts s (ca_id b) = Some b \<and> \<not> ca_liability a \<and> \<not> ca_liability b
    \<and> postings D (cp_effects p) = (money_endpoint a (ct_sent input), - d_val D (m_amount (ct_sent input)))
        # (money_endpoint b (ct_received input), d_val D (m_amount (ct_received input)))
        # (case ct_fee input of None \<Rightarrow> [] | Some f \<Rightarrow> [(money_endpoint a f, - d_val D (m_amount f))])
    \<and> (m_currency (ct_sent input) = m_currency (ct_received input) \<longrightarrow> d_val D (m_amount (ct_sent input)) = d_val D (m_amount (ct_received input)))"
proof -
  obtain a b where a: "state_account s (ct_from_account_id input) (ct_household_id input) = Inr a"
    and b: "state_account s (ct_to_account_id input) (ct_household_id input) = Inr b"
    and l: "\<not> ca_liability a" "\<not> ca_liability b"
    and eq: "m_currency (ct_sent input) = m_currency (ct_received input) \<longrightarrow> d_val D (m_amount (ct_sent input)) = d_val D (m_amount (ct_received input))"
    and q: "cp_effects p =
      [accountEffect R (rt_new_id R 0) 1 EffectRoleTransferFrom EffectRemoved (accountTarget a) ClassificationInternalTransfer (ca_id a) (ct_sent input) None,
       accountEffect R (rt_new_id R 0) 2 EffectRoleTransferTo EffectAdded (accountTarget b) ClassificationInternalTransfer (ca_id b) (ct_received input) None]
      @ (case ct_fee input of None \<Rightarrow> [] | Some f \<Rightarrow> [accountEffect R (rt_new_id R 0) 3 EffectRoleFee EffectRemoved (accountTarget a) ClassificationFee (ca_id a) f None])"
    using p unfolding buildCashTransfer_def Let_def
    by (cases "ct_fee input"; elim res_elims) (auto simp: newActivity_id exact intro: that)
  have ids: "cs_accounts s (ca_id a) = Some a" "cs_accounts s (ca_id b) = Some b"
    using valid_state_account_id [OF s] state_accountD(1) [OF a] state_accountD(1) [OF b] by auto
  have "postings D (cp_effects p) = (money_endpoint a (ct_sent input), - d_val D (m_amount (ct_sent input)))
        # (money_endpoint b (ct_received input), d_val D (m_amount (ct_received input)))
        # (case ct_fee input of None \<Rightarrow> [] | Some f \<Rightarrow> [(money_endpoint a f, - d_val D (m_amount f))])"
    by (cases "ct_fee input") (simp_all add: q postings_effects signed_def)
  with ids l eq show ?thesis by blast
qed

lemma debt_net_effect:
  assumes s: "valid_state D s" and l: "simple_liabilities s"
    and debt: "validateDebtEndpoints D s h i j m = Inr (debt, cash)"
  shows "net_effect D s (debt_effects R aid d debt cash m
      @ (case fee of None \<Rightarrow> [] | Some f \<Rightarrow> [accountEffect R aid 3 EffectRoleFee EffectRemoved (accountTarget cash) ClassificationFee (ca_id cash) f None]))
    = - fee_value D fee"
proof -
  note E = validateDebtEndpoints_Inr [OF debt]
  have mode: "ca_mode debt \<noteq> TrackingHoldings" using l E(1,4) by (auto simp: simple_liabilities_def)
  then have tg: "accountTarget debt = EffectTargetAccountValue" by (simp add: accountTarget_def)
  have ids: "cs_accounts s (ca_id debt) = Some debt" "cs_accounts s (ca_id cash) = Some cash"
    using valid_state_account_id [OF s] E(1,2) by auto
  show ?thesis
    using postings_accountEffect [where a = debt, unfolded tg] E mode
    by (cases fee) (simp_all add: net_effect_def debt_effects_def postings_effects liability_money_endpoint ids signed_def fee_value_def)
qed

lemma buildDebtDraw_net:
  assumes "valid_state D s" and "simple_liabilities s" and p: "buildDebtDraw D R s input = Inr p"
  shows "net_effect D s (cp_effects p) = 0"
proof -
  obtain debt cash where debt: "validateDebtEndpoints D s (dw_household_id input) (dw_debt_account_id input) (dw_cash_account_id input) (dw_principal input) = Inr (debt, cash)"
    and q: "cp_effects p = debt_effects R (rt_new_id R 0) EffectAdded debt cash (dw_principal input)"
    using p unfolding buildDebtDraw_def by (elim res_elims) (auto simp: newActivity_id intro: that elim!: res_elims)
  show ?thesis using debt_net_effect [OF assms(1,2) debt, where fee = None] by (simp add: q fee_value_def)
qed

lemma buildDebtPayment_net:
  assumes "valid_state D s" and "simple_liabilities s" and p: "buildDebtPayment D R s input = Inr p"
  shows "net_effect D s (cp_effects p) = - fee_value D (dp_interest_or_fee input)"
proof -
  obtain debt cash aid fee where debt: "validateDebtEndpoints D s (dp_household_id input) (dp_debt_account_id input) (dp_cash_account_id input) (dp_principal input) = Inr (debt, cash)"
    and q: "cp_effects p = debt_effects R aid EffectRemoved debt cash (dp_principal input)
      @ (case fee of None \<Rightarrow> [] | Some f \<Rightarrow> [accountEffect R aid 3 EffectRoleFee EffectRemoved (accountTarget cash) ClassificationFee (ca_id cash) f None])"
    and fee: "fee_value D fee = fee_value D (dp_interest_or_fee input)"
  proof -
    obtain debt cash act v w where debt: "validateDebtEndpoints D s (dp_household_id input) (dp_debt_account_id input) (dp_cash_account_id input) (dp_principal input) = Inr (debt, cash)"
      and r: "(case dp_interest_or_fee input of
         None \<Rightarrow> Inr (preview act (debt_effects R (act_id act) EffectRemoved debt cash (dp_principal input)) [v, w])
       | Some fee \<Rightarrow>
           if Money_IsZero D fee then Inr (preview act (debt_effects R (act_id act) EffectRemoved debt cash (dp_principal input)) [v, w])
           else if m_currency fee \<noteq> m_currency (dp_principal input)
           then Inl (changeError ErrInvalidChange ''interestOrFee'' ''interest or fee currency must match principal'')
           else res_bind (subtractFromEndpoint D w fee) (\<lambda>feeView.
             Inr (preview act (debt_effects R (act_id act) EffectRemoved debt cash (dp_principal input)
               @ [accountEffect R (act_id act) 3 EffectRoleFee EffectRemoved (accountTarget cash) ClassificationFee (ca_id cash) fee None])
               [v, feeView]))) = Inr p"
      using p unfolding buildDebtPayment_def Let_def by (elim res_elims) (auto intro: that elim!: res_bindE)
    define fee where "fee = (case dp_interest_or_fee input of None \<Rightarrow> None | Some f \<Rightarrow> if Money_IsZero D f then None else Some f)"
    have "fee_value D fee = fee_value D (dp_interest_or_fee input)"
      by (auto simp: fee_def fee_value_def Money_IsZero_def exact split: option.splits)
    moreover have "cp_effects p = debt_effects R (act_id act) EffectRemoved debt cash (dp_principal input)
      @ (case fee of None \<Rightarrow> [] | Some f \<Rightarrow> [accountEffect R (act_id act) 3 EffectRoleFee EffectRemoved (accountTarget cash) ClassificationFee (ca_id cash) f None])"
      using r by (auto simp: fee_def split: option.splits if_splits elim!: res_elims)
    ultimately show ?thesis using debt that by blast
  qed
  show ?thesis using debt_net_effect [OF assms(1,2) debt] fee by (simp add: q)
qed

lemma buildCashTransfer_net:
  assumes s: "valid_state D s" and p: "buildCashTransfer D R s input = Inr p"
    and c: "m_currency (ct_sent input) = m_currency (ct_received input)"
  shows "net_effect D s (cp_effects p) = - fee_value D (ct_fee input)"
proof -
  from buildCashTransfer_postings [OF s p] c obtain a b where
    ids: "cs_accounts s (ca_id a) = Some a" "cs_accounts s (ca_id b) = Some b" "\<not> ca_liability a" "\<not> ca_liability b"
    and ps: "postings D (cp_effects p) = (money_endpoint a (ct_sent input), - d_val D (m_amount (ct_sent input)))
        # (money_endpoint b (ct_received input), d_val D (m_amount (ct_received input)))
        # (case ct_fee input of None \<Rightarrow> [] | Some f \<Rightarrow> [(money_endpoint a f, - d_val D (m_amount f))])"
    and eq: "d_val D (m_amount (ct_sent input)) = d_val D (m_amount (ct_received input))"
    by blast
  show ?thesis
    unfolding net_effect_def ps using ids eq
    by (cases "ct_fee input") (simp_all add: liability_money_endpoint fee_value_def)
qed

section \<open>Exact effects\<close>

lemma buildTrade_postings:
  assumes s: "valid_state D s" and R: "fresh_ids R s" and m: "valid_money D (ti_gross input)" "pred_option (valid_money D) (ti_fee input)"
    and p: "buildTrade D R s input = Inr p"
  shows "\<exists>a h. state_account s (ti_settlement_account_id input) (ti_household_id input) = Inr a \<and> trade_holding D R s a input = Inr h
    \<and> (\<forall>ep. posted D (cp_effects p) ep =
        (if ep = QuantityOf (ch_id h) then (if ti_side input = TradeSell then - 1 else 1) * d_val D (q_value (ti_quantity input))
         else if ep = CashOf (ti_settlement_account_id input) (m_currency (ti_gross input))
         then (if ti_side input = TradeSell then 1 else - 1) * d_val D (m_amount (ti_gross input)) - fee_value D (ti_fee input)
         else 0))"
proof -
  obtain a h q v es where a: "state_account s (ti_settlement_account_id input) (ti_household_id input) = Inr a"
    and h: "trade_holding D R s a input = Inr h" and mode: "ca_mode a = TrackingHoldings"
    and c: "\<forall>f. ti_fee input = Some f \<longrightarrow> m_currency f = m_currency (ti_gross input)"
    and t: "trade_cash D R s a input (rt_new_id R 0) = Inr (v, es)"
    and e: "cp_effects p = holdingEffect R (rt_new_id R 0) 1 EffectRoleQuantity (if ti_side input = TradeSell then EffectRemoved else EffectAdded)
        ClassificationTradePrincipal h (ti_quantity input) # es"
    by (rule buildTrade_Inr [OF p])
  note A = state_accountD(1) [OF a]
  have ai: "ca_id a = ti_settlement_account_id input" by (rule valid_state_account_id [OF s A])
  note T = trade_cash_Inr(5) [OF s A mode m c [rule_format] t]
  have tg: "accountTarget a = EffectTargetAccountCash" using mode by (simp add: accountTarget_def)
  note pe = postings_accountEffect [where a = a, unfolded tg]
  have ep: "money_endpoint a x = CashOf (ti_settlement_account_id input) (m_currency x)" for x :: "'a money"
    using mode ai by (simp add: money_endpoint_def)
  have f: "fee_value D (trade_fee D input) = fee_value D (ti_fee input)"
    by (auto simp: trade_fee_def fee_value_def Money_IsZero_def exact split: option.splits)
  have fc: "trade_fee D input = Some x \<Longrightarrow> m_currency x = m_currency (ti_gross input)" for x
    using c by (auto simp: trade_fee_def split: option.splits if_splits)
  have "posted D (cp_effects p) ep' =
        (if ep' = QuantityOf (ch_id h) then (if ti_side input = TradeSell then - 1 else 1) * d_val D (q_value (ti_quantity input))
         else if ep' = CashOf (ti_settlement_account_id input) (m_currency (ti_gross input))
         then (if ti_side input = TradeSell then 1 else - 1) * d_val D (m_amount (ti_gross input)) - fee_value D (ti_fee input)
         else 0)" for ep'
    unfolding posted_postings e f [symmetric] using fc
    by (cases "trade_fee D input") (simp_all add: T postings_effects pe cashEffect_eq ep signed_def fee_value_def)
  with a h show ?thesis by blast
qed

lemma buildValueUpdate_sets:
  assumes s: "valid_state D s" and R: "\<forall>k. rt_new_id R k \<noteq> []" and n: "valid_money D (vu_new_value input)"
    and p: "buildValueUpdateWithZero D R s input allowZero = Inr p"
  shows "\<exists>s' vs. ApplyEffects D s (cp_effects p) = Inr (s', vs)
    \<and> ledger D s' = (ledger D s)(ValueOf (vu_account_id input) := d_val D (m_amount (vu_new_value input)))"
proof -
  obtain a m d v where a: "state_account s (vu_account_id input) (vu_household_id input) = Inr a" "ca_mode a \<noteq> TrackingHoldings"
    and m: "NewMoney D (d_abs D (d_sub D (m_amount (vu_new_value input)) (m_amount (ca_current a)))) (ca_currency a) = Inr m"
    and d: "d = (if d_val D (m_amount (vu_new_value input)) < d_val D (m_amount (ca_current a)) then EffectRemoved else EffectAdded)"
    and q: "cp_effects p = [accountEffect R (rt_new_id R 0) 1 EffectRoleAmount d (accountTarget a) ClassificationRemeasurement (ca_id a) m None]"
    by (rule buildValueUpdateWithZero_Inr [OF p])
  note A = state_accountD(1) [OF a(1)]
  have ai: "ca_id a = vu_account_id input" by (rule valid_state_account_id [OF s A])
  have ep: "money_endpoint a m = ValueOf (vu_account_id input)" using a(2) ai by (simp add: money_endpoint_def)
  have g: "on_grid 4 (d_val D (m_amount (vu_new_value input)) - d_val D (m_amount (ca_current a)))"
    using valid_money_grid n valid_stateD(1) [OF s A] on_grid_diff by (auto simp: valid_account_state_def)
  have mv: "d_val D (m_amount m) = \<bar>d_val D (m_amount (vu_new_value input)) - d_val D (m_amount (ca_current a))\<bar>"
    using NewMoney_exact [OF m] on_grid_abs [OF g] by (simp add: exact)
  have l: "ledger D s (ValueOf (vu_account_id input)) = d_val D (m_amount (ca_current a))" using A by simp
  have x: "ledger D s (ValueOf (vu_account_id input)) + signed d (d_val D (m_amount m)) = d_val D (m_amount (vu_new_value input))"
    unfolding l mv d by (simp add: signed_def)
  from sound_applies [OF s buildValueUpdateWithZero_sound [OF s R p]] obtain s' vs where
    s': "ApplyEffects D s (cp_effects p) = Inr (s', vs)" "post_all (ledger D s) (postings D (cp_effects p)) = Some (ledger D s')"
    by blast
  have "ledger D s' = (ledger D s)(ValueOf (vu_account_id input) := d_val D (m_amount (vu_new_value input)))"
    using s'(2) by (simp add: q postings_effects ep post_def x del: ledger.simps split: if_splits)
  with s'(1) show ?thesis by blast
qed

text \<open>Removing money fails with the insufficient-balance error exactly when the balance is too small.\<close>

lemma accountAmount_insufficient:
  assumes s: "valid_state D s" and a: "cs_accounts s i = Some a" and m: "valid_money D m"
    and c: "ca_mode a \<noteq> TrackingHoldings \<longrightarrow> m_currency m = ca_currency a"
  shows "is_ok (accountAmount D s a m EffectRemoved) \<longleftrightarrow> d_val D (m_amount m) \<le> ledger D s (money_endpoint a m)"
    and "d_val D (m_amount m) > ledger D s (money_endpoint a m) \<Longrightarrow>
      \<exists>msg. accountAmount D s a m EffectRemoved = Inl (DomainError ErrInsufficientBalance ''amount'' msg)"
proof -
  have ai: "ca_id a = i" by (rule valid_state_account_id [OF s a])
  have l: "ledger D s (money_endpoint a m) =
      d_val D (if ca_mode a = TrackingHoldings then state_cash_value D s i (m_currency m) else m_amount (ca_current a))"
    using a ai by (simp add: money_endpoint_def)
  show bad: "d_val D (m_amount m) > ledger D s (money_endpoint a m) \<Longrightarrow>
      \<exists>msg. accountAmount D s a m EffectRemoved = Inl (DomainError ErrInsufficientBalance ''amount'' msg)"
    unfolding l using a ai c
    by (cases "ca_mode a = TrackingHoldings") (auto simp: accountAmount_def applyMoney_def state_cash_def exact Let_def)
  have "is_ok (accountAmount D s a m EffectRemoved)" if le: "d_val D (m_amount m) \<le> ledger D s (money_endpoint a m)"
  proof -
    let ?c = "if ca_mode a = TrackingHoldings then state_cash_value D s i (m_currency m) else m_amount (ca_current a)"
    have "in_range (ledger D s)" by (rule valid_state_in_range [OF s])
    then have "ledger D s (money_endpoint a m) \<le> max_money" by (metis in_range_def limit_money_endpoint)
    moreover have "0 \<le> d_val D (m_amount m)" "valid_currency (m_currency m)" using m by (simp_all add: valid_money_def)
    ultimately have "\<exists>u. NewMoney D (d_sub D ?c (m_amount m)) (m_currency m) = Inr u"
      using le NewMoney_ok [of "d_sub D ?c (m_amount m)"] ParseCurrency_valid by (auto simp: l exact)
    then show ?thesis
      using a ai c le unfolding l
      by (cases "ca_mode a = TrackingHoldings")
        (auto simp: accountAmount_def applyMoney_def state_cash_def exact Let_def)
  qed
  with bad show "is_ok (accountAmount D s a m EffectRemoved) \<longleftrightarrow> d_val D (m_amount m) \<le> ledger D s (money_endpoint a m)"
    by (metis is_ok.simps(1) not_less)
qed

end

section \<open>Properties\<close>

subsection \<open>Sample books\<close>

abbreviation usd :: "int \<Rightarrow> dec money" where
  "usd n \<equiv> \<lparr> m_amount = Dec n 0, m_currency = ''USD'' \<rparr>"

definition sample_account_of :: "AccountID \<Rightarrow> TrackingMode \<Rightarrow> bool \<Rightarrow> int \<Rightarrow> dec ChangeAccountState" where
  "sample_account_of i mode liability n = \<lparr> ca_id = i, ca_name = ''Account'', ca_currency = ''USD'', ca_mode = mode,
     ca_liability = liability, ca_archived = False, ca_current = usd n \<rparr>"

definition sample_books :: "dec ChangeState" where
  "sample_books = \<lparr> cs_household_id = ''hh'', cs_origin_at = 0, cs_timezone = ''UTC'', cs_now = 5000000,
     cs_accounts = [''a'' \<mapsto> sample_account_of ''a'' TrackingBalance False 100,
       ''b'' \<mapsto> sample_account_of ''b'' TrackingHoldings False 0, ''l'' \<mapsto> sample_account_of ''l'' TrackingBalance True 50],
     cs_cash = [''b'' \<mapsto> [''USD'' \<mapsto> usd 500]], cs_holdings = [''h'' \<mapsto> sample_holding], cs_instruments = Map.empty \<rparr>"

definition sample_sell :: "dec TradeInput" where
  "sample_sell = \<lparr> ti_household_id = ''hh'', ti_side = TradeSell, ti_settlement_account_id = ''b'', ti_holding_id = [],
     ti_instrument_id = ''i'', ti_quantity = \<lparr> q_value = Dec 4 0 \<rparr>, ti_gross = usd 48, ti_fee = Some (usd 1),
     ti_effective_at = 0, ti_note = None \<rparr>"

definition sample_transfer :: "dec CashTransferInput" where
  "sample_transfer = \<lparr> ct_household_id = ''hh'', ct_from_account_id = ''b'', ct_to_account_id = ''a'', ct_sent = usd 20,
     ct_received = usd 20, ct_fee = Some (usd 2), ct_effective_at = 0, ct_note = None \<rparr>"

definition sample_payment :: "dec DebtPaymentInput" where
  "sample_payment = \<lparr> dp_household_id = ''hh'', dp_debt_account_id = ''l'', dp_cash_account_id = ''a'', dp_principal = usd 30,
     dp_interest_or_fee = Some (usd 3), dp_effective_at = 0, dp_note = None \<rparr>"

definition sample_draw :: "dec DebtDrawInput" where
  "sample_draw = \<lparr> dw_household_id = ''hh'', dw_debt_account_id = ''l'', dw_cash_account_id = ''a'', dw_principal = usd 30,
     dw_effective_at = 0, dw_note = None \<rparr>"

definition sample_update :: "dec ValueUpdateInput" where
  "sample_update = \<lparr> vu_household_id = ''hh'', vu_account_id = ''a'', vu_new_value = usd 80, vu_reason = ReasonNone,
     vu_effective_at = 0, vu_note = None \<rparr>"

lemma usd_valid [simp]: "0 \<le> n \<Longrightarrow> n < 1000000 \<Longrightarrow> valid_money ref_decimal (usd n)"
  by (simp add: valid_money_def valid_currency_def upper_letter_iff dv_def max_money_def)

lemma whole_quantity [simp]: "0 \<le> n \<Longrightarrow> n < 1000000 \<Longrightarrow> exact_quantity ref_decimal \<lparr> q_value = Dec n 0 \<rparr>"
  by (simp add: exact_quantity_def valid_quantity_def dv_def max_quantity_def scaled_def)

lemma sample_books_valid: "valid_state ref_decimal sample_books" "simple_liabilities sample_books" "fresh_ids sample_runtime sample_books"
  by (simp_all add: valid_state_def sample_books_def sample_account_of_def valid_account_state_def valid_holding_state_def
      sample_holding_def simple_liabilities_def fresh_ids_def sample_runtime_def)

lemma sample_previews:
  "is_ok (buildCashTransfer ref_decimal sample_runtime sample_books sample_transfer)"
  "is_ok (buildDebtDraw ref_decimal sample_runtime sample_books sample_draw)"
  "is_ok (buildDebtPayment ref_decimal sample_runtime sample_books sample_payment)"
  "is_ok (buildValueUpdateWithZero ref_decimal sample_runtime sample_books sample_update False)"
  by code_simp+

lemma sample_sell_steps:
  "state_account sample_books ''b'' ''hh'' = Inr (sample_account_of ''b'' TrackingHoldings False 0)"
  "trade_holding ref_decimal sample_runtime sample_books (sample_account_of ''b'' TrackingHoldings False 0) sample_sell = Inr sample_holding"
  "UnitPriceFromExact ref_decimal (dec_div_round (Dec 48 0) (Dec 4 0) 16) = Inr \<lparr> u_value = Dec 1200000000 (- 8) \<rparr>"
  "dec_sub (Dec 10 0) (Dec 4 0) = Dec 6 0" "NewQuantity ref_decimal (Dec 6 0) = Inr \<lparr> q_value = Dec 6 0 \<rparr>"
  "is_ok (newActivity sample_runtime sample_books ''hh'' ActivitySell ReasonPrincipal 0 None :: dec Activity res)"
  "is_ok (trade_cash ref_decimal sample_runtime sample_books (sample_account_of ''b'' TrackingHoldings False 0) sample_sell i)"
  by code_simp+

lemma sample_sell_ok: "is_ok (buildTrade ref_decimal sample_runtime sample_books sample_sell)"
proof -
  obtain act :: "dec Activity" where "newActivity sample_runtime sample_books ''hh'' ActivitySell ReasonPrincipal 0 None = Inr act"
    using sample_sell_steps(6) by (auto simp: is_ok_iff)
  moreover obtain v es where "trade_cash ref_decimal sample_runtime sample_books (sample_account_of ''b'' TrackingHoldings False 0) sample_sell (act_id act) = Inr (v, es)"
    using sample_sell_steps(7) [of "act_id act"] by (auto simp: is_ok_iff)
  ultimately show ?thesis
    using sample_sell_steps(1-5)
    by (simp add: buildTrade_def sample_sell_def sample_account_of_def sample_holding_def Quantity_IsZero_def Money_IsZero_def
        dec_cmp_def scale_to_def Let_def)
qed

subsection \<open>Theorems\<close>

text \<open>C5. Previews are sound: the effects of a successful preview of any command can be applied to
  the state it was made for (with the holding that a first purchase opens), and the balances the
  preview shows are, one for one, the balances of the endpoints those effects touch after they are
  applied; nothing goes negative or above its limit.\<close>

theorem PreviewChange_sound:
  assumes "decimal_lib D" and "valid_state D s" and "simple_liabilities s" and "fresh_ids R s" and "valid_command D command"
    and "PreviewChange D R s command = Inr p"
  shows "\<exists>s' vs. ApplyEffects D (prepared D R s command) (cp_effects p) = Inr (s', vs) \<and> valid_state D s' \<and> in_range (ledger D s')
    \<and> (\<forall>ep. ep \<in> touched D (cp_effects p) \<longrightarrow> (\<exists>v \<in> set (cp_resulting p). view_shows D v ep (ledger D s' ep)))
    \<and> (\<forall>v \<in> set (cp_resulting p). ev_target v = EffectTargetHoldingCost
         \<or> (\<exists>ep. ep \<in> touched D (cp_effects p) \<and> view_shows D v ep (ledger D s' ep)))"
proof (cases "\<exists>i. command = PositionCostAdjustment i")
  case True
  then obtain i where i: "command = PositionCostAdjustment i" by blast
  then have p: "buildPositionCostAdjustment D R s i = Inr p" using assms(6) by (simp add: PreviewChange_def)
  note C = decimal_lib.buildPositionCostAdjustment_applies [OF assms(1,2) fresh_idsD(1) [OF assms(4)] p]
  with decimal_lib.valid_state_in_range [OF assms(1,2)] assms(2) show ?thesis by (simp add: i prepared_def touched_def)
next
  case False
  then have "valid_state D (prepared D R s command)" "sound_preview D (prepared D R s command) p"
    using decimal_lib.PreviewChange_sound_state [OF assms] by blast+
  from decimal_lib.sound_applies [OF assms(1) this] decimal_lib.valid_state_in_range [OF assms(1)] show ?thesis
    unfolding shows_exactly_def by blast
qed

theorem PreviewChange_sound_witness:
  "\<exists>p s' vs. PreviewChange ref_decimal sample_runtime sample_books (Trade sample_sell) = Inr p
     \<and> ApplyEffects ref_decimal (prepared ref_decimal sample_runtime sample_books (Trade sample_sell)) (cp_effects p) = Inr (s', vs)"
proof -
  obtain p where p: "PreviewChange ref_decimal sample_runtime sample_books (Trade sample_sell) = Inr p"
    using sample_sell_ok by (auto simp: PreviewChange_def is_ok_iff)
  have "valid_command ref_decimal (Trade sample_sell)" by (simp add: sample_sell_def)
  from PreviewChange_sound [OF ref.decimal_lib_axioms sample_books_valid this p] p show ?thesis by blast
qed

text \<open>C6. Moving money of one currency inside the household does not change its net worth.  In a
  well-formed state whose liabilities are tracked by balance or value, a cash transfer whose sent
  and received amounts have the same currency changes assets minus liabilities by exactly minus
  its fee, a debt payment by exactly minus its interest or fee, and a debt draw not at all.
  Transfers between two currencies are outside this statement.\<close>

theorem internal_changes_neutral:
  assumes "decimal_lib D" and "valid_state D s" and "simple_liabilities s"
  shows "(buildCashTransfer D R s transfer = Inr p \<longrightarrow> m_currency (ct_sent transfer) = m_currency (ct_received transfer)
      \<longrightarrow> net_effect D s (cp_effects p) = - fee_value D (ct_fee transfer))
    \<and> (buildDebtDraw D R s draw = Inr q \<longrightarrow> net_effect D s (cp_effects q) = 0)
    \<and> (buildDebtPayment D R s payment = Inr r \<longrightarrow> net_effect D s (cp_effects r) = - fee_value D (dp_interest_or_fee payment))"
  using decimal_lib.buildCashTransfer_net [OF assms(1,2)] decimal_lib.buildDebtDraw_net [OF assms]
    decimal_lib.buildDebtPayment_net [OF assms] by blast

theorem internal_changes_neutral_witness:
  "(\<exists>p. buildCashTransfer ref_decimal sample_runtime sample_books sample_transfer = Inr p \<and> net_effect ref_decimal sample_books (cp_effects p) = - 2)
   \<and> (\<exists>q. buildDebtDraw ref_decimal sample_runtime sample_books sample_draw = Inr q \<and> net_effect ref_decimal sample_books (cp_effects q) = 0)
   \<and> (\<exists>r. buildDebtPayment ref_decimal sample_runtime sample_books sample_payment = Inr r \<and> net_effect ref_decimal sample_books (cp_effects r) = - 3)"
proof -
  obtain p q r where "buildCashTransfer ref_decimal sample_runtime sample_books sample_transfer = Inr p"
    "buildDebtDraw ref_decimal sample_runtime sample_books sample_draw = Inr q"
    "buildDebtPayment ref_decimal sample_runtime sample_books sample_payment = Inr r"
    using sample_previews by (auto simp: is_ok_iff)
  moreover have "fee_value ref_decimal (ct_fee sample_transfer) = 2" "fee_value ref_decimal (dp_interest_or_fee sample_payment) = 3"
    "m_currency (ct_sent sample_transfer) = m_currency (ct_received sample_transfer)"
    by (simp_all add: fee_value_def sample_transfer_def sample_payment_def dv_def)
  ultimately show ?thesis
    using internal_changes_neutral [OF ref.decimal_lib_axioms sample_books_valid(1,2)] by metis
qed

text \<open>C7. A trade posts exactly its quantity to one holding and its gross amount less the fee (sale)
  or plus the fee (purchase) to the account's cash in the settlement currency, and nothing else.\<close>

theorem buildTrade_exact:
  assumes "decimal_lib D" and "valid_state D s" and "fresh_ids R s" and "valid_command D (Trade input)"
    and "buildTrade D R s input = Inr p"
  shows "\<exists>a h. state_account s (ti_settlement_account_id input) (ti_household_id input) = Inr a \<and> trade_holding D R s a input = Inr h
    \<and> (\<forall>ep. posted D (cp_effects p) ep =
        (if ep = QuantityOf (ch_id h) then (if ti_side input = TradeSell then - 1 else 1) * d_val D (q_value (ti_quantity input))
         else if ep = CashOf (ti_settlement_account_id input) (m_currency (ti_gross input))
         then (if ti_side input = TradeSell then 1 else - 1) * d_val D (m_amount (ti_gross input)) - fee_value D (ti_fee input)
         else 0))"
  using decimal_lib.buildTrade_postings [OF assms(1-3) _ _ assms(5)] assms(4) by simp

theorem buildTrade_exact_witness:
  "\<exists>p. buildTrade ref_decimal sample_runtime sample_books sample_sell = Inr p
     \<and> posted ref_decimal (cp_effects p) (QuantityOf ''h'') = - 4 \<and> posted ref_decimal (cp_effects p) (CashOf ''b'' ''USD'') = 47"
proof -
  obtain p where p: "buildTrade ref_decimal sample_runtime sample_books sample_sell = Inr p"
    using sample_sell_ok by (auto simp: is_ok_iff)
  have c: "valid_command ref_decimal (Trade sample_sell)" by (simp add: sample_sell_def)
  have k: "ti_settlement_account_id sample_sell = ''b''" "ti_household_id sample_sell = ''hh''" "ti_side sample_sell = TradeSell"
    "m_currency (ti_gross sample_sell) = ''USD''" "dv (q_value (ti_quantity sample_sell)) = 4" "dv (m_amount (ti_gross sample_sell)) = 48"
    "fee_value ref_decimal (ti_fee sample_sell) = 1"
    by (simp_all add: sample_sell_def fee_value_def dv_def)
  have h: "ch_id sample_holding = ''h''" by (simp add: sample_holding_def)
  from buildTrade_exact [OF ref.decimal_lib_axioms sample_books_valid(1,3) c p] p show ?thesis
    unfolding k sample_sell_steps(1) by (auto simp: sample_sell_steps(2) h k)
qed

text \<open>A value update, and its correction, set the account to the new value exactly, whatever its
  value was, and change no other balance.\<close>

theorem value_update_sets:
  assumes "decimal_lib D" and "valid_state D s" and "fresh_ids R s" and "valid_money D (vu_new_value input)"
    and "buildValueUpdate D R s input = Inr p \<or> PreviewValueUpdateCorrection D R s input = Inr p"
  shows "\<exists>s' vs. ApplyEffects D s (cp_effects p) = Inr (s', vs)
    \<and> ledger D s' = (ledger D s)(ValueOf (vu_account_id input) := d_val D (m_amount (vu_new_value input)))"
  using decimal_lib.buildValueUpdate_sets [OF assms(1,2) fresh_idsD(1) [OF assms(3)] assms(4)] assms(5)
  unfolding buildValueUpdate_def PreviewValueUpdateCorrection_def by blast

theorem value_update_sets_witness:
  "\<exists>p s' vs. buildValueUpdate ref_decimal sample_runtime sample_books sample_update = Inr p
     \<and> ApplyEffects ref_decimal sample_books (cp_effects p) = Inr (s', vs) \<and> ledger ref_decimal s' (ValueOf ''a'') = 80"
proof -
  obtain p where p: "buildValueUpdate ref_decimal sample_runtime sample_books sample_update = Inr p"
    using sample_previews(4) by (auto simp: buildValueUpdate_def is_ok_iff)
  have "valid_money ref_decimal (vu_new_value sample_update)" "vu_account_id sample_update = ''a''"
    "dv (m_amount (vu_new_value sample_update)) = 80"
    by (simp_all add: sample_update_def dv_def)
  with value_update_sets [OF ref.decimal_lib_axioms sample_books_valid(1,3), of sample_update p] p show ?thesis
    by (fastforce simp del: ledger.simps)
qed

text \<open>C8. Money can be removed from an account exactly when its balance (its value, or its cash in that
  currency) suffices; otherwise the insufficient-balance error is reported.\<close>

theorem accountAmount_overdraft:
  assumes "decimal_lib D" and "valid_state D s" and "cs_accounts s i = Some a" and "valid_money D m"
    and "ca_mode a \<noteq> TrackingHoldings \<longrightarrow> m_currency m = ca_currency a"
  shows "if d_val D (m_amount m) \<le> ledger D s (money_endpoint a m) then is_ok (accountAmount D s a m EffectRemoved)
    else \<exists>msg. accountAmount D s a m EffectRemoved = Inl (DomainError ErrInsufficientBalance ''amount'' msg)"
  using decimal_lib.accountAmount_insufficient [OF assms] by (simp add: not_le)

theorem accountAmount_overdraft_witness:
  "(\<exists>msg. accountAmount ref_decimal sample_books (sample_account_of ''a'' TrackingBalance False 100) (usd 101) EffectRemoved
      = Inl (DomainError ErrInsufficientBalance ''amount'' msg))
   \<and> is_ok (accountAmount ref_decimal sample_books (sample_account_of ''a'' TrackingBalance False 100) (usd 100) EffectRemoved)"
proof -
  let ?a = "sample_account_of ''a'' TrackingBalance False 100"
  have a: "cs_accounts sample_books ''a'' = Some ?a" by (simp add: sample_books_def)
  have l: "ledger ref_decimal sample_books (money_endpoint ?a (usd n)) = 100" for n
    by (simp add: sample_books_def sample_account_of_def money_endpoint_def dv_def)
  have c: "ca_mode ?a \<noteq> TrackingHoldings \<longrightarrow> m_currency (usd n) = ca_currency ?a" for n by (simp add: sample_account_of_def)
  show ?thesis
    using accountAmount_overdraft [OF ref.decimal_lib_axioms sample_books_valid(1) a usd_valid c, of 101]
      accountAmount_overdraft [OF ref.decimal_lib_axioms sample_books_valid(1) a usd_valid c, of 100]
    by (simp add: l dv_def del: ledger.simps)
qed

end
