(* ===== verification/Calendar.thy ===== *)
theory Calendar
  imports GoRuntime
begin

text \<open>
  Facts about the calendar of Go's \<^verbatim>\<open>time\<close> package as \<open>GoRuntime\<close> models it: padded numbers are
  read back, a day number has one civil date and one date text, and a date text that parses is the
  text of its date.
\<close>

section \<open>Padded numbers\<close>

lemma digit_val_inj: "is_digit c \<Longrightarrow> is_digit d \<Longrightarrow> digit_val c = digit_val d \<Longrightarrow> c = d"
proof -
  assume a: "is_digit c" "is_digit d" "digit_val c = digit_val d"
  then have "(of_char c :: nat) - 48 = of_char d - 48" "48 \<le> (of_char c :: nat)" "48 \<le> (of_char d :: nat)"
    by (simp_all add: is_digit_iff digit_val_def)
  then have "(of_char c :: nat) = of_char d" by (metis eq_diff_iff)
  then show "c = d" by (simp only: of_char_eq_iff)
qed

lemma digit_text_inj:
  "length s = length t \<Longrightarrow> list_all is_digit s \<Longrightarrow> list_all is_digit t \<Longrightarrow> string_nat s = string_nat t \<Longrightarrow> s = t"
proof (induction s arbitrary: t rule: rev_induct)
  case (snoc c s)
  then obtain d u where t: "t = u @ [d]" by (metis length_append_singleton length_0_conv nat.distinct(1) rev_exhaust)
  have "digit_val c < 10" "digit_val d < 10" using snoc.prems(2,3) by (auto simp: t is_digit_iff digit_val_def)
  with snoc.prems(4) have "string_nat s = string_nat u" "digit_val c = digit_val d" by (simp_all add: t) arith+
  with snoc t show ?case by (auto intro: digit_val_inj)
qed simp

lemma string_nat_zeros: "string_nat (replicate k (CHR ''0'') @ s) = string_nat s"
proof -
  have "string_nat (replicate k (CHR ''0'')) = 0"
    by (induction k) (simp_all add: digit_val_def flip: replicate_append_same)
  then show ?thesis by (simp add: string_nat_append)
qed

lemma zeros_digits: "list_all is_digit (replicate k (CHR ''0''))"
  by (induction k) (simp_all add: is_digit_iff)

lemma pad_int_nonneg: "0 \<le> z \<Longrightarrow> string_nat (pad_int k z) = nat z" "0 \<le> z \<Longrightarrow> list_all is_digit (pad_int k z)"
  by (simp_all add: pad_int_def Let_def string_nat_zeros nat_string_digits zeros_digits)

lemma pad_int_length: "0 \<le> z \<Longrightarrow> z < 10 ^ k \<Longrightarrow> 0 < k \<Longrightarrow> length (pad_int k z) = k"
proof -
  assume "0 \<le> z" "z < 10 ^ k" "0 < k"
  then have "length (nat_string (nat z)) \<le> k" by (simp add: nat_string_length_le nat_less_iff)
  with \<open>0 \<le> z\<close> show ?thesis by (simp add: pad_int_def Let_def)
qed

lemma pad_int_inj: "pad_int k a = pad_int k b \<Longrightarrow> a = b"
proof -
  have neg: "hd (pad_int k z) = CHR ''-'' \<and> string_nat (tl (pad_int k z)) = nat (- z)" if "z < 0" for z
    using that by (simp add: pad_int_def Let_def string_nat_zeros)
  have pos: "hd (pad_int k z) \<noteq> CHR ''-''" if "0 \<le> z" for z
  proof -
    have "pad_int k z \<noteq> []" using that by (simp add: pad_int_def Let_def)
    then have "is_digit (hd (pad_int k z))" using pad_int_nonneg(2) [OF that, of k] by (cases "pad_int k z") auto
    then show ?thesis by (auto simp: is_digit_iff)
  qed
  assume e: "pad_int k a = pad_int k b"
  show "a = b"
  proof (cases "a < 0")
    case True
    then have "b < 0" using e neg [of a] pos [of b] by force
    with True e neg [of a] neg [of b] show ?thesis by simp
  next
    case False
    then have "0 \<le> b" using e neg [of b] pos [of a] by force
    with False e pad_int_nonneg(1) [of a k] pad_int_nonneg(1) [of b k] show ?thesis by simp
  qed
qed

lemma pad_int_read:
  assumes "list_all is_digit s" and "length s = k" and "0 < k"
  shows "pad_int k (int (string_nat s)) = s"
proof (rule digit_text_inj)
  have "string_nat s < 10 ^ length s"
    using assms(1) by (induction s rule: rev_induct) (auto simp: is_digit_iff digit_val_def)
  then have "int (string_nat s) < 10 ^ k" using assms(2) by (metis of_nat_less_iff of_nat_numeral of_nat_power)
  then show "length (pad_int k (int (string_nat s))) = length s"
    using pad_int_length [of "int (string_nat s)" k] assms(2,3) by simp
qed (use assms in \<open>simp_all add: pad_int_nonneg\<close>)

section \<open>Dates\<close>

lemma days_before_year_bounds:
  "400 * days_before_year y \<le> 146097 * (y - 1) + 396" "146097 * (y - 1) \<le> 400 * days_before_year y + 699"
proof -
  have d: "k * ((y - 1) div k) \<le> y - 1 \<and> y - 1 \<le> k * ((y - 1) div k) + (k - 1)" if "0 < k" for k
  proof -
    have "y - 1 = k * ((y - 1) div k) + (y - 1) mod k" by simp
    moreover have "0 \<le> (y - 1) mod k" "(y - 1) mod k < k" using that by simp_all
    ultimately show ?thesis by linarith
  qed
  from d [of 4] d [of 100] d [of 400] show "400 * days_before_year y \<le> 146097 * (y - 1) + 396"
    "146097 * (y - 1) \<le> 400 * days_before_year y + 699"
    unfolding days_before_year_def by simp_all
qed

lemma year_of_days_bounds: "days_before_year (year_of_days n) \<le> n" "n < days_before_year (year_of_days n + 1)"
proof -
  define q where "q = n * 400 div 146097"
  let ?y = "q + 1"
  have "n * 400 = 146097 * q + n * 400 mod 146097" by (simp add: q_def)
  moreover have "0 \<le> n * 400 mod 146097" "n * 400 mod 146097 < 146097" by simp_all
  ultimately have y: "146097 * q \<le> n * 400" "n * 400 < 146097 * q + 146097" by linarith+
  have "days_before_year (?y - 1) \<le> n" using y days_before_year_bounds(1) [of q] by simp
  moreover have "n < days_before_year (?y + 2)" using y days_before_year_bounds(2) [of "q + 3"] by (simp add: algebra_simps)
  ultimately show "days_before_year (year_of_days n) \<le> n" "n < days_before_year (year_of_days n + 1)"
    by (auto simp: year_of_days_def Let_def add.commute simp flip: q_def)
qed

lemma month_of_days_correct:
  assumes "0 \<le> r" and "r < sum_list (map (days_in_month y) (ms::int list))" and "month_of_days y ms r = (m, d)"
  shows "\<exists>as bs. ms = as @ m # bs \<and> r = sum_list (map (days_in_month y) as) + (d - 1) \<and> 1 \<le> d \<and> d \<le> days_in_month y m"
  using assms
proof (induction ms arbitrary: r)
  case (Cons x ms)
  show ?case
  proof (cases "r < days_in_month y x")
    case True
    with Cons.prems show ?thesis by (intro exI [of _ "[]"] exI [of _ ms]) auto
  next
    case False
    with Cons.prems Cons.IH [of "r - days_in_month y x"] obtain as bs where "ms = as @ m # bs"
        "r - days_in_month y x = sum_list (map (days_in_month y) as) + (d - 1)" "1 \<le> d" "d \<le> days_in_month y m" by auto
    then show ?thesis by (intro exI [of _ "x # as"] exI [of _ bs]) auto
  qed
qed simp

lemma div_step:
  fixes y k :: int
  assumes "0 < k"
  shows "y div k - (y - 1) div k = (if y mod k = 0 then 1 else 0)"
proof (cases "y mod k = 0")
  case True
  then have "y - 1 = k * (y div k - 1) + (k - 1)" using mult_div_mod_eq [of k y] by (simp add: right_diff_distrib)
  then show ?thesis using True assms int_div_pos_eq [of "y - 1" k "y div k - 1" "k - 1"] by simp
next
  case False
  have "y - 1 = k * (y div k) + (y mod k - 1)" by simp
  moreover have "0 \<le> y mod k - 1" "y mod k - 1 < k"
    using False pos_mod_sign [OF assms, of y] pos_mod_bound [OF assms, of y] by linarith+
  ultimately show ?thesis using False int_div_pos_eq [of "y - 1" k "y div k" "y mod k - 1"] by simp
qed

lemma leap_days:
  "(c \<longrightarrow> b) \<Longrightarrow> (b \<longrightarrow> a) \<Longrightarrow>
   365 + (if a then 1 else 0) - (if b then 1 else 0) + (if c then 1 else 0) = (if a \<and> (\<not> b \<or> c) then 366 else (365::int))"
  by (cases a; cases b; cases c; simp)

lemma year_months: "sum_list (map (days_in_month y) [1..12]) = days_before_year (y + 1) - days_before_year y"
proof -
  have d: "y mod 400 = 0 \<longrightarrow> y mod 100 = 0" "y mod 100 = 0 \<longrightarrow> y mod 4 = 0"
    unfolding dvd_eq_mod_eq_0 [symmetric] using dvd_trans [of 100 400 y] dvd_trans [of 4 100 y] by simp_all
  have "days_before_year (y + 1) - days_before_year y
      = 365 + (y div 4 - (y - 1) div 4) - (y div 100 - (y - 1) div 100) + (y div 400 - (y - 1) div 400)"
    by (simp add: days_before_year_def)
  also have "\<dots> = 365 + (if y mod 4 = 0 then 1 else 0) - (if y mod 100 = 0 then 1 else 0) + (if y mod 400 = 0 then 1 else 0)"
    by (simp only: div_step zero_less_numeral)
  also have "\<dots> = (if leap_year y then 366 else 365)" unfolding leap_year_def by (rule leap_days [OF d])
  finally have y: "days_before_year (y + 1) - days_before_year y = (if leap_year y then 366 else 365)" .
  have "[1..12::int] = [1, 2, 3, 4, 5, 6, 7, 8, 9, 10, 11, 12]" by code_simp
  then have "sum_list (map (days_in_month y) [1..12]) = (if leap_year y then 366 else 365)"
    by (simp add: days_in_month_def)
  with y show ?thesis by simp
qed

lemma upto_prefix: "[a..b] = as @ m # bs \<Longrightarrow> as = [a..m - 1] \<and> a \<le> m \<and> m \<le> b"
proof (induction as arbitrary: a)
  case Nil
  then have "a \<le> b" "m = a" by (auto simp: upto.simps split: if_splits)
  then show ?case by simp
next
  case (Cons x as)
  then have "a \<le> b" "x = a" "[a + 1..b] = as @ m # bs" by (auto simp: upto.simps [of a b] split: if_splits)
  with Cons.IH [of "a + 1"] show ?case by (auto simp: upto.simps [of a "m - 1"])
qed

text \<open>The civil date of a day number is in range and stands for that day.\<close>

lemma civil_of_days_correct:
  assumes "civil_of_days n = (y, m, d)"
  shows "date_days y m d = n" and "1 \<le> m" and "m \<le> 12" and "1 \<le> d" and "d \<le> days_in_month y m"
proof -
  from assms have y: "y = year_of_days n" "month_of_days y [1..12] (n - days_before_year y) = (m, d)"
    by (auto simp: civil_of_days_def Let_def split: prod.splits)
  have "\<exists>as bs. [1..12] = as @ m # bs \<and> n - days_before_year y = sum_list (map (days_in_month y) as) + (d - 1)
      \<and> 1 \<le> d \<and> d \<le> days_in_month y m"
    using year_of_days_bounds [of n] year_months [of y] y by (intro month_of_days_correct) simp_all
  then show "date_days y m d = n" "1 \<le> m" "m \<le> 12" "1 \<le> d" "d \<le> days_in_month y m"
    by (auto simp: date_days_def days_before_month_def dest!: upto_prefix)
qed

text \<open>Conversely a valid date is the civil date of its day number.\<close>

definition valid_date :: "int \<Rightarrow> int \<Rightarrow> int \<Rightarrow> bool" where
  "valid_date y m d \<longleftrightarrow> 1 \<le> m \<and> m \<le> 12 \<and> 1 \<le> d \<and> d \<le> days_in_month y m"

lemma days_in_month_pos: "0 < days_in_month y m"
  by (simp add: days_in_month_def)

lemma mono_steps:
  fixes f :: "int \<Rightarrow> int"
  assumes "\<And>x. a \<le> x \<Longrightarrow> f x \<le> f (x + 1)" and "a \<le> x" and "x \<le> y"
  shows "f x \<le> f y"
proof -
  have "f x \<le> f (x + int k)" for k
  proof (induction k)
    case (Suc k)
    with assms(1) [of "x + int k"] assms(2) show ?case by (simp add: add.commute add.left_commute)
  qed simp
  from this [of "nat (y - x)"] assms(3) show ?thesis by simp
qed

lemma days_before_month_step: "1 \<le> m \<Longrightarrow> days_before_month y (m + 1) = days_before_month y m + days_in_month y m"
  by (simp add: days_before_month_def upto_rec2)

lemma days_before_month_mono: "1 \<le> m \<Longrightarrow> m \<le> m' \<Longrightarrow> days_before_month y m \<le> days_before_month y m'"
  by (rule mono_steps [of 1 "days_before_month y"]) (auto simp: days_before_month_step days_in_month_pos less_imp_le)

lemma days_before_year_mono: "y \<le> y' \<Longrightarrow> days_before_year y \<le> days_before_year y'"
proof (rule mono_steps [of y days_before_year])
  fix x :: int
  assume "y \<le> x"
  have "0 \<le> sum_list (map (days_in_month x) [1..12])"
    using days_in_month_pos [of x] by (intro sum_list_nonneg) (auto simp: less_imp_le)
  then show "days_before_year x \<le> days_before_year (x + 1)" using year_months [of x] by simp
qed simp_all

lemma valid_date_bounds:
  assumes "valid_date y m d"
  shows "days_before_year y \<le> date_days y m d" and "date_days y m d < days_before_year (y + 1)"
    and "days_before_month y m \<le> date_days y m d - days_before_year y"
    and "date_days y m d - days_before_year y < days_before_month y (m + 1)"
proof -
  have d: "1 \<le> m" "m \<le> 12" "1 \<le> d" "d \<le> days_in_month y m" using assms by (simp_all add: valid_date_def)
  then show m: "days_before_month y m \<le> date_days y m d - days_before_year y"
    "date_days y m d - days_before_year y < days_before_month y (m + 1)"
    by (simp_all add: date_days_def days_before_month_step)
  have "days_before_month y 1 = 0" "days_before_month y 13 = days_before_year (y + 1) - days_before_year y"
    using year_months [of y] by (simp_all add: days_before_month_def)
  with m d days_before_month_mono [of 1 m y] days_before_month_mono [of "m + 1" 13 y]
  show "days_before_year y \<le> date_days y m d" "date_days y m d < days_before_year (y + 1)" by simp_all
qed

lemma date_days_inj:
  assumes "valid_date y m d" and "valid_date y' m' d'" and "date_days y m d = date_days y' m' d'"
  shows "(y, m, d) = (y', m', d')"
proof -
  have "\<not> y < y'" "\<not> y' < y"
    using valid_date_bounds(1,2) [OF assms(1)] valid_date_bounds(1,2) [OF assms(2)] assms(3)
      days_before_year_mono [of "y + 1" y'] days_before_year_mono [of "y' + 1" y] by auto
  then have y: "y' = y" by simp
  have "\<not> m < m'" "\<not> m' < m"
    using valid_date_bounds(3,4) [OF assms(1)] valid_date_bounds(3,4) [OF assms(2)] assms days_before_month_mono [of "m + 1" m' y]
      days_before_month_mono [of "m' + 1" m y] by (auto simp: y valid_date_def)
  then have "m' = m" by simp
  with y assms(3) show ?thesis by (simp add: date_days_def)
qed

lemma civil_of_date_days: "valid_date y m d \<Longrightarrow> civil_of_days (date_days y m d) = (y, m, d)"
proof -
  assume v: "valid_date y m d"
  obtain y' m' d' where c: "civil_of_days (date_days y m d) = (y', m', d')" by (metis surj_pair)
  note k = civil_of_days_correct [OF c]
  then have "valid_date y' m' d'" by (simp add: valid_date_def)
  from date_days_inj [OF this v] k(1) c show ?thesis by simp
qed

lemma days_in_month_le: "days_in_month y m \<le> 31"
  by (simp add: days_in_month_def)

lemma format_date_inj:
  assumes "format_date (y, m, d) = format_date (y', m', d')"
    and "1 \<le> m" "m \<le> 12" "1 \<le> d" "d \<le> 31" "1 \<le> m'" "m' \<le> 12" "1 \<le> d'" "d' \<le> 31"
  shows "(y, m, d) = (y', m', d')"
proof -
  have "length (pad_int 2 m) = 2" "length (pad_int 2 d) = 2" "length (pad_int 2 m') = 2" "length (pad_int 2 d') = 2"
    using assms by (simp_all add: pad_int_length)
  with assms(1) have "pad_int 4 y = pad_int 4 y'" "pad_int 2 m = pad_int 2 m'" "pad_int 2 d = pad_int 2 d'"
    by (auto simp: format_date_def)
  then show ?thesis by (auto dest: pad_int_inj)
qed

lemma day_text_inj: "format_date (civil_of_days n) = format_date (civil_of_days k) \<longleftrightarrow> n = k"
proof
  obtain y m d y' m' d' where c: "civil_of_days n = (y, m, d)" "civil_of_days k = (y', m', d')" by (metis surj_pair)
  note n = civil_of_days_correct [OF c(1)] and k = civil_of_days_correct [OF c(2)]
  assume "format_date (civil_of_days n) = format_date (civil_of_days k)"
  then have "(y, m, d) = (y', m', d')"
    using n(2-5) k(2-5) days_in_month_le [of y m] days_in_month_le [of y' m'] unfolding c by (intro format_date_inj) simp_all
  with n(1) k(1) show "n = k" by simp
qed simp

lemma parse_date_text:
  assumes "parse_date s = Some (y, m, d)"
  shows "format_date (y, m, d) = s" and "1 \<le> m" and "m \<le> 12" and "1 \<le> d" and "d \<le> days_in_month y m" and "0 \<le> y"
proof -
  have l: "length s = 10" and c: "s ! 4 = CHR ''-''" "s ! 7 = CHR ''-''"
    and digits: "list_all is_digit (take 4 s)" "list_all is_digit (take 2 (drop 5 s))" "list_all is_digit (drop 8 s)"
    and p: "y = int (string_nat (take 4 s))" "m = int (string_nat (take 2 (drop 5 s)))" "d = int (string_nat (drop 8 s))"
    and r: "1 \<le> m" "m \<le> 12" "1 \<le> d" "d \<le> days_in_month y m"
    using assms by (auto simp: parse_date_def Let_def split: if_splits)
  have "pad_int 4 y = take 4 s" "pad_int 2 m = take 2 (drop 5 s)" "pad_int 2 d = drop 8 s"
    unfolding p using digits l by (auto intro!: pad_int_read)
  moreover have "s = take 4 s @ s ! 4 # take 2 (drop 5 s) @ s ! 7 # drop 8 s"
  proof -
    have "drop 4 s = s ! 4 # drop 5 s" "drop 7 s = s ! 7 # drop 8 s"
      using l Cons_nth_drop_Suc [of 4 s] Cons_nth_drop_Suc [of 7 s] by simp_all
    moreover have "drop 5 s = take 2 (drop 5 s) @ drop 7 s" using append_take_drop_id [of 2 "drop 5 s"] by simp
    ultimately show ?thesis by (metis append_take_drop_id)
  qed
  ultimately show "format_date (y, m, d) = s" by (simp add: format_date_def c)
qed (use assms in \<open>auto simp: parse_date_def Let_def split: if_splits\<close>)

end
