(* ===== verification/CivilDate.thy ===== *)
theory CivilDate
  imports DomainBase
begin

text \<open>
  The bounds of a civil date in a time zone: \<^verbatim>\<open>internal/domain/civil_date.go\<close>.  A date is a UTC
  label (its midnight as an instant); the zone is what Go's \<^verbatim>\<open>Location\<close> reports at an instant, its
  offset in seconds and the end of the current constant-offset interval, with the zero time for
  "no end".  The loop is a recursive function that is total for every location, even one whose
  intervals do not advance, which it reports as the error of the source.
\<close>

section \<open>The model\<close>

record location =
  loc_offset :: "go_time \<Rightarrow> int"
  loc_zone_end :: "go_time \<Rightarrow> go_time"

definition interval_stuck :: err where
  "interval_stuck = DomainError ErrInvalidChangeTime ''timezone''
     ''cannot resolve the day boundary: timezone interval did not advance''"

definition date_missing :: err where
  "date_missing = DomainError ErrInvalidChangeTime ''localDate''
     ''the selected civil date does not exist in the household timezone''"

text \<open>The end of the constant-offset interval at the cursor, cut at the window.\<close>

definition interval_end :: "location \<Rightarrow> go_time \<Rightarrow> go_time \<Rightarrow> go_time" where
  "interval_end loc windowEnd cursor =
     (let zoneEnd = loc_zone_end loc cursor in
      if time_is_zero zoneEnd \<or> windowEnd < zoneEnd then windowEnd else zoneEnd)"

text \<open>One iteration: the bounds found so far, extended by the part of the date in this interval.\<close>

definition widen_bounds :: "location \<Rightarrow> go_time \<Rightarrow> go_time \<Rightarrow> go_time \<Rightarrow> go_time \<Rightarrow> go_time \<times> go_time \<Rightarrow> go_time \<times> go_time" where
  "widen_bounds loc day nextDay cursor zoneEnd bounds =
     (let (firstStart, lastEnd) = bounds;
          offset = loc_offset loc cursor;
          start = max (day - offset * second) cursor;
          finish = min (nextDay - offset * second) zoneEnd
      in if start < finish
         then (if time_is_zero firstStart \<or> start < firstStart then start else firstStart, max finish lastEnd)
         else (firstStart, lastEnd))"

function civil_loop :: "location \<Rightarrow> go_time \<Rightarrow> go_time \<Rightarrow> go_time \<Rightarrow> go_time \<Rightarrow> go_time \<times> go_time \<Rightarrow> (go_time \<times> go_time) res" where
  "civil_loop loc day nextDay windowEnd cursor bounds =
     (if cursor < windowEnd
      then
        let zoneEnd = interval_end loc windowEnd cursor in
        if \<not> cursor < zoneEnd then Inl interval_stuck
        else civil_loop loc day nextDay windowEnd zoneEnd (widen_bounds loc day nextDay cursor zoneEnd bounds)
      else Inr bounds)"
  by pat_completeness auto

termination
  by (relation "measure (\<lambda>(loc, day, nextDay, windowEnd, cursor, bounds). nat (windowEnd - cursor))") auto

declare civil_loop.simps [simp del]

definition resolveCivilDateBounds :: "go_time \<Rightarrow> location \<Rightarrow> (go_time \<times> go_time) res" where
  "resolveCivilDateBounds day loc =
     (let nextDay = day + day_ns; windowEnd = nextDay + 48 * hour in
      res_bind (civil_loop loc day nextDay windowEnd (day - 48 * hour) (0, 0)) (\<lambda>(firstStart, lastEnd).
      if time_is_zero lastEnd then Inl date_missing else Inr (firstStart, lastEnd)))"

definition ResolveCivilDateCutoff :: "go_time \<Rightarrow> location \<Rightarrow> go_time res" where
  "ResolveCivilDateCutoff day loc =
     res_bind (resolveCivilDateBounds day loc) (\<lambda>(_, finish). Inr (finish - millisecond))"

definition ResolveCivilDateStart :: "go_time \<Rightarrow> location \<Rightarrow> go_time res" where
  "ResolveCivilDateStart day loc = res_bind (resolveCivilDateBounds day loc) (\<lambda>(start, _). Inr start)"

section \<open>Correctness\<close>

text \<open>The instants whose local date is the day.\<close>

definition on_date :: "location \<Rightarrow> go_time \<Rightarrow> go_time \<Rightarrow> bool" where
  "on_date loc day t \<longleftrightarrow> day \<le> t + loc_offset loc t * second \<and> t + loc_offset loc t * second < day + day_ns"

definition dated :: "location \<Rightarrow> go_time \<Rightarrow> go_time \<Rightarrow> go_time \<Rightarrow> go_time set" where
  "dated loc day a b = {t. a \<le> t \<and> t < b \<and> on_date loc day t}"

text \<open>The bounds are exact for a set of instants: its least element and the end of its last interval.\<close>

definition exact_bounds :: "go_time set \<Rightarrow> go_time \<times> go_time \<Rightarrow> bool" where
  "exact_bounds S bounds \<longleftrightarrow>
     (if S = {} then bounds = (0, 0)
      else 0 < fst bounds \<and> fst bounds \<in> S \<and> (\<forall>t \<in> S. fst bounds \<le> t \<and> t < snd bounds) \<and> snd bounds - 1 \<in> S)"

text \<open>
  The instants at which the reported intervals begin, from a first one on.  Some versions of the
  zone data report an interval that ends where it begins or earlier; a walk that reaches such an
  interval before the end of the window is stuck.
\<close>

inductive zone_boundary :: "location \<Rightarrow> go_time \<Rightarrow> go_time \<Rightarrow> bool" for loc where
  here: "zone_boundary loc t t"
| later: "t < loc_zone_end loc t \<Longrightarrow> zone_boundary loc (loc_zone_end loc t) u \<Longrightarrow> zone_boundary loc t u"

inductive_simps zone_boundary_iff: "zone_boundary loc t u"

definition stuck_before :: "location \<Rightarrow> go_time \<Rightarrow> go_time \<Rightarrow> bool" where
  "stuck_before loc windowEnd start \<longleftrightarrow>
     (\<exists>t. zone_boundary loc start t \<and> t < windowEnd \<and> loc_zone_end loc t \<noteq> 0 \<and> loc_zone_end loc t \<le> t)"

text \<open>The intervals from two days before the date to two days after it.\<close>

definition zone_stuck :: "location \<Rightarrow> go_time \<Rightarrow> bool" where
  "zone_stuck loc day = stuck_before loc (day + day_ns + 48 * hour) (day - 48 * hour)"

lemma zone_boundary_le: "zone_boundary loc t u \<Longrightarrow> t \<le> u"
  by (induction rule: zone_boundary.induct) auto

lemma stuck_before_late: "windowEnd \<le> t \<Longrightarrow> \<not> stuck_before loc windowEnd t"
  by (auto simp: stuck_before_def dest: zone_boundary_le)

lemma stuck_before_step:
  fixes loc :: location
  assumes "0 < cursor" and "cursor < windowEnd"
  defines "e \<equiv> interval_end loc windowEnd cursor"
  shows "stuck_before loc windowEnd cursor \<longleftrightarrow> \<not> cursor < e \<or> stuck_before loc windowEnd e"
proof -
  let ?z = "loc_zone_end loc cursor"
  have step: "stuck_before loc windowEnd cursor \<longleftrightarrow> (?z \<noteq> 0 \<and> ?z \<le> cursor) \<or> (cursor < ?z \<and> stuck_before loc windowEnd ?z)"
    using assms(2) unfolding stuck_before_def zone_boundary_iff [of loc cursor] by blast
  show ?thesis
  proof (cases "?z = 0 \<or> windowEnd < ?z")
    case True
    then have "e = windowEnd" by (auto simp: e_def interval_end_def time_is_zero_def)
    with True assms(1,2) show ?thesis
      using stuck_before_late [of windowEnd windowEnd loc] stuck_before_late [of windowEnd ?z loc] by (auto simp: step)
  next
    case False
    then have "e = ?z" by (auto simp: e_def interval_end_def time_is_zero_def)
    with False show ?thesis by (auto simp: step)
  qed
qed

text \<open>
  What the resolution of the bounds relies on: the offset is constant inside an interval that
  \<^verbatim>\<open>Time.ZoneBounds\<close> reports, and offsets are less than 48 hours.  An interval need not advance.
\<close>

locale zone_offsets =
  fixes loc :: location
  assumes same_offset: "t \<le> u \<Longrightarrow> loc_zone_end loc t = 0 \<or> u < loc_zone_end loc t \<Longrightarrow> loc_offset loc u = loc_offset loc t"
    and bounded: "\<bar>loc_offset loc t\<bar> * second < 48 * hour"
begin

lemma interval_end_facts:
  assumes "cursor < windowEnd"
  shows "interval_end loc windowEnd cursor \<le> windowEnd"
    and "cursor \<le> u \<Longrightarrow> u < interval_end loc windowEnd cursor \<Longrightarrow> loc_offset loc u = loc_offset loc cursor"
  using assms same_offset [of cursor u]
  by (auto simp: interval_end_def time_is_zero_def Let_def split: if_splits)

lemma dated_interval:
  assumes "cursor < windowEnd"
  defines "e \<equiv> interval_end loc windowEnd cursor"
  shows "dated loc day cursor e =
    {t. max (day - loc_offset loc cursor * second) cursor \<le> t \<and> t < min (day + day_ns - loc_offset loc cursor * second) e}"
proof -
  have "t \<in> dated loc day cursor e \<longleftrightarrow> max (day - loc_offset loc cursor * second) cursor \<le> t
      \<and> t < min (day + day_ns - loc_offset loc cursor * second) e" for t
  proof (cases "cursor \<le> t \<and> t < e")
    case True
    then have "loc_offset loc t = loc_offset loc cursor"
      unfolding e_def by (intro interval_end_facts(2) [OF assms(1)]) auto
    then have "t \<in> dated loc day cursor e \<longleftrightarrow> day \<le> t + loc_offset loc cursor * second \<and> t + loc_offset loc cursor * second < day + day_ns"
      using True by (simp add: dated_def on_date_def)
    with True show ?thesis by (simp only: max.bounded_iff min_less_iff_conj diff_le_eq less_diff_eq) simp
  next
    case False then show ?thesis by (auto simp: dated_def)
  qed
  then show ?thesis by blast
qed

lemma widen_exact:
  assumes c: "cursor < windowEnd" "0 < cursor" and b: "exact_bounds (dated loc day first cursor) bounds" and f: "first \<le> cursor"
  defines "e \<equiv> interval_end loc windowEnd cursor"
  assumes ce: "cursor < e"
  shows "exact_bounds (dated loc day first e) (widen_bounds loc day (day + day_ns) cursor e bounds)"
proof -
  define lo where "lo = max (day - loc_offset loc cursor * second) cursor"
  define hi where "hi = min (day + day_ns - loc_offset loc cursor * second) e"
  have I: "dated loc day cursor e = {t. lo \<le> t \<and> t < hi}" unfolding e_def lo_def hi_def by (rule dated_interval [OF c(1)])
  have S: "dated loc day first e = dated loc day first cursor \<union> dated loc day cursor e"
    using f ce by (auto simp: dated_def)
  obtain p q where pq: "bounds = (p, q)" by fastforce
  have W: "widen_bounds loc day (day + day_ns) cursor e bounds =
      (if lo < hi then (if p = 0 \<or> lo < p then lo else p, max hi q) else (p, q))"
    by (simp only: widen_bounds_def pq Let_def prod.case lo_def hi_def time_is_zero_def)
  show ?thesis
  proof (cases "lo < hi")
    case False
    then have "dated loc day cursor e = {}" using I by auto
    with b False show ?thesis unfolding W by (simp add: S pq)
  next
    case True
    have w: "widen_bounds loc day (day + day_ns) cursor e bounds =
        (if p = 0 \<or> lo < p then lo else p, max hi q)"
      using True unfolding W by simp
    show ?thesis
    proof (cases "dated loc day first cursor = {}")
      case e: True
      with b have "p = 0" "q = 0" by (simp_all add: exact_bounds_def pq)
      moreover have "0 < lo" using c(2) by (simp add: lo_def)
      ultimately show ?thesis unfolding w S e I using True by (auto simp: exact_bounds_def)
    next
      case e: False
      with b have P: "0 < p" "p \<in> dated loc day first cursor" "\<forall>t \<in> dated loc day first cursor. p \<le> t \<and> t < q" "q - 1 \<in> dated loc day first cursor"
        by (simp_all add: exact_bounds_def pq)
      have "p < cursor" "q \<le> cursor" using P(2,4) by (auto simp: dated_def)
      moreover have "cursor \<le> lo" by (simp add: lo_def)
      ultimately have w': "widen_bounds loc day (day + day_ns) cursor e bounds = (p, hi)"
        using P(1) True unfolding w by auto
      have "hi - 1 \<in> dated loc day cursor e" unfolding I using True by auto
      moreover have "\<forall>t \<in> dated loc day cursor e. p \<le> t \<and> t < hi" unfolding I using \<open>p < cursor\<close> \<open>cursor \<le> lo\<close> by auto
      moreover have "\<forall>t \<in> dated loc day first cursor. t < hi" using P(3) \<open>q \<le> cursor\<close> \<open>cursor \<le> lo\<close> True by fastforce
      ultimately show ?thesis unfolding w' S using P by (auto simp: exact_bounds_def)
    qed
  qed
qed

lemma civil_loop_exact:
  assumes "0 < cursor" and "first \<le> cursor" and "cursor \<le> windowEnd" and "exact_bounds (dated loc day first cursor) bounds"
  shows "case civil_loop loc day (day + day_ns) windowEnd cursor bounds of
      Inl e \<Rightarrow> e = interval_stuck \<and> stuck_before loc windowEnd cursor
    | Inr r \<Rightarrow> exact_bounds (dated loc day first windowEnd) r \<and> \<not> stuck_before loc windowEnd cursor"
  using assms
proof (induction "nat (windowEnd - cursor)" arbitrary: cursor bounds rule: less_induct)
  case less
  let ?e = "interval_end loc windowEnd cursor"
  note loop = civil_loop.simps [of loc day _ windowEnd cursor]
  show ?case
  proof (cases "cursor < windowEnd")
    case True
    note step = stuck_before_step [OF less.prems(1) True, of loc]
    show ?thesis
    proof (cases "cursor < ?e")
      case adv: True
      have "exact_bounds (dated loc day first ?e) (widen_bounds loc day (day + day_ns) cursor ?e bounds)"
        by (rule widen_exact [OF True less.prems(1,4,2) adv])
      with less.hyps [of ?e "widen_bounds loc day (day + day_ns) cursor ?e bounds"] less.prems adv True
        interval_end_facts(1) [OF True]
      show ?thesis by (auto simp: loop step Let_def split: sum.splits)
    next
      case False
      with True show ?thesis by (simp add: loop step Let_def)
    qed
  next
    case False
    with less.prems show ?thesis by (simp add: civil_loop.simps stuck_before_late)
  qed
qed

text \<open>Every instant of the date lies in the window, since offsets are less than 48 hours.\<close>

lemma on_date_window: "on_date loc day t \<Longrightarrow> t \<in> dated loc day (day - 48 * hour) (day + day_ns + 48 * hour)"
  using bounded [of t] by (auto simp: dated_def on_date_def abs_if split: if_splits)

lemma resolve_bounds:
  assumes "48 * hour < day"
  shows "(case resolveCivilDateBounds day loc of
      Inl e \<Rightarrow> if zone_stuck loc day then e = interval_stuck else e = date_missing \<and> (\<forall>t. \<not> on_date loc day t)
    | Inr (start, finish) \<Rightarrow> \<not> zone_stuck loc day \<and> 0 < start \<and> on_date loc day start \<and> on_date loc day (finish - 1)
        \<and> (\<forall>t. on_date loc day t \<longrightarrow> start \<le> t \<and> t < finish))"
proof -
  let ?a = "day - 48 * hour" and ?b = "day + day_ns + 48 * hour"
  have e: "exact_bounds (dated loc day ?a ?a) (0, 0)" by (simp add: exact_bounds_def dated_def)
  have L: "case civil_loop loc day (day + day_ns) ?b ?a (0, 0) of
      Inl e \<Rightarrow> e = interval_stuck \<and> zone_stuck loc day
    | Inr r \<Rightarrow> exact_bounds (dated loc day ?a ?b) r \<and> \<not> zone_stuck loc day"
    unfolding zone_stuck_def by (rule civil_loop_exact [OF _ _ _ e]) (use assms in simp_all)
  show ?thesis
  proof (cases "civil_loop loc day (day + day_ns) ?b ?a (0, 0)")
    case (Inl e)
    with L show ?thesis by (simp add: resolveCivilDateBounds_def Let_def)
  next
    case (Inr r)
    obtain p q where pq: "r = (p, q)" by fastforce
    have "dated loc day ?a ?b = {t. on_date loc day t}" using on_date_window by (auto simp: dated_def)
    then have r: "exact_bounds {t. on_date loc day t} (p, q)" "\<not> zone_stuck loc day" using L Inr pq by simp_all
    then show ?thesis
    proof (cases "{t. on_date loc day t} = {}")
      case True
      then have "p = 0" "q = 0" using r(1) by (simp_all add: exact_bounds_def)
      with Inr pq r(2) True show ?thesis by (simp add: resolveCivilDateBounds_def Let_def time_is_zero_def)
    next
      case False
      then have "0 < p" "on_date loc day p" "\<forall>t. on_date loc day t \<longrightarrow> p \<le> t \<and> t < q" "on_date loc day (q - 1)"
        using r(1) unfolding exact_bounds_def if_not_P [OF False] by simp_all
      moreover then have "q \<noteq> 0" by force
      ultimately show ?thesis using Inr pq r(2) by (simp add: resolveCivilDateBounds_def Let_def time_is_zero_def)
    qed
  qed
qed

end

text \<open>
  The usual zones, whose intervals end after they begin: such a zone is never stuck, so the only
  error is that the date does not exist.
\<close>

locale zone_intervals = zone_offsets +
  assumes advances: "loc_zone_end loc t \<noteq> 0 \<Longrightarrow> t < loc_zone_end loc t"
begin

lemma not_stuck: "\<not> zone_stuck loc day"
  using advances by (auto simp: zone_stuck_def stuck_before_def not_less [symmetric])

lemma resolve_exact:
  assumes "48 * hour < day"
  shows "(case resolveCivilDateBounds day loc of
      Inl e \<Rightarrow> e = date_missing \<and> (\<forall>t. \<not> on_date loc day t)
    | Inr (start, finish) \<Rightarrow> 0 < start \<and> on_date loc day start \<and> on_date loc day (finish - 1)
        \<and> (\<forall>t. on_date loc day t \<longrightarrow> start \<le> t \<and> t < finish))"
  using resolve_bounds [OF assms] by (simp add: not_stuck split: sum.splits prod.splits)

end

text \<open>
  When clocks change only on whole seconds, the last millisecond before the end of the date
  still belongs to it.
\<close>

lemma second_between: "(x::int) mod second = 0 \<Longrightarrow> y mod second = 0 \<Longrightarrow> x < y \<Longrightarrow> x + second \<le> y"
proof -
  assume a: "x mod second = 0" "y mod second = 0" "x < y"
  then have "second dvd y - x" by (simp add: dvd_eq_mod_eq_0 mod_diff_eq [symmetric])
  then have "second \<le> y - x" using a(3) by (intro zdvd_imp_le) auto
  then show ?thesis by simp
qed

lemma second_min_max:
  assumes "(x::int) mod second = 0" and "y mod second = 0"
  shows "min x y mod second = 0" and "max x y mod second = 0"
  using assms by (simp_all add: min_def max_def)

lemma interval_end_second:
  assumes "\<forall>t. loc_zone_end loc t mod second = 0" and "windowEnd mod second = 0"
  shows "interval_end loc windowEnd cursor mod second = 0"
  using assms by (simp add: interval_end_def Let_def)

lemma widen_bounds_second:
  assumes "(day + day_ns) mod second = 0" and "e mod second = 0" and "snd bounds mod second = 0"
  shows "snd (widen_bounds loc day (day + day_ns) cursor e bounds) mod second = 0"
proof -
  obtain p q where pq: "bounds = (p, q)" by fastforce
  have "(day + day_ns - loc_offset loc cursor * second) mod second = 0"
    using assms(1) by (metis mod_diff_eq mod_mult_self2_is_0 diff_zero mod_0)
  then have "max (min (day + day_ns - loc_offset loc cursor * second) e) q mod second = 0"
    using assms(2,3) by (intro second_min_max) (simp_all add: pq)
  with assms(3) show ?thesis by (simp only: widen_bounds_def pq Let_def prod.case) (simp only: fst_conv snd_conv split: if_splits, simp)
qed

lemma civil_loop_second:
  assumes "\<forall>t. loc_zone_end loc t mod second = 0" and "windowEnd mod second = 0" and "(day + day_ns) mod second = 0"
  shows "civil_loop loc day (day + day_ns) windowEnd cursor bounds = Inr r \<Longrightarrow> snd bounds mod second = 0 \<Longrightarrow> snd r mod second = 0"
proof (induction "nat (windowEnd - cursor)" arbitrary: cursor bounds rule: less_induct)
  case less
  let ?e = "interval_end loc windowEnd cursor"
  show ?case
  proof (cases "cursor < windowEnd")
    case True
    then have l: "cursor < ?e" "civil_loop loc day (day + day_ns) windowEnd ?e (widen_bounds loc day (day + day_ns) cursor ?e bounds) = Inr r"
      using less.prems(1) by (auto simp: civil_loop.simps [of loc day _ windowEnd cursor] Let_def split: if_splits)
    show ?thesis
      by (rule less.hyps [OF _ l(2)])
        (use True l(1) widen_bounds_second [OF assms(3) interval_end_second [OF assms(1,2)] less.prems(2)] in auto)
  next
    case False
    with less.prems show ?thesis by (simp add: civil_loop.simps)
  qed
qed

context zone_intervals
begin

lemma cutoff_on_date:
  assumes day: "day mod second = 0" "48 * hour < day" and whole: "\<forall>t. loc_zone_end loc t mod second = 0"
    and r: "resolveCivilDateBounds day loc = Inr (start, finish)"
  shows "on_date loc day (finish - millisecond)"
proof -
  have dn: "(day + day_ns) mod second = 0" "(day + day_ns + 48 * hour) mod second = 0" 
    using day(1) by (auto simp flip: dvd_eq_mod_eq_0)
  have f: "finish mod second = 0"
    using r civil_loop_second [OF whole dn(2,1), where bounds = "(0, 0)"]
    by (auto simp: resolveCivilDateBounds_def Let_def split: if_splits elim!: res_bindE)
  have t: "on_date loc day (finish - 1)" using resolve_exact [OF day(2)] by (simp add: r)
  have "loc_zone_end loc (finish - millisecond) = 0 \<or> finish - 1 < loc_zone_end loc (finish - millisecond)"
    using advances [of "finish - millisecond"] whole [rule_format, of "finish - millisecond"] f
      second_between [of "loc_zone_end loc (finish - millisecond)" finish] by linarith
  then have same: "loc_offset loc (finish - 1) = loc_offset loc (finish - millisecond)"
    by (intro same_offset) auto
  have "(finish + loc_offset loc (finish - millisecond) * second) mod second = 0" using f by simp
  then have "day + second \<le> finish + loc_offset loc (finish - millisecond) * second"
    using t day(1) by (intro second_between) (auto simp: on_date_def same)
  with t show ?thesis by (simp add: on_date_def same)
qed

end

section \<open>Transition tables\<close>

text \<open>
  Go's locations are tables of transitions: the offset before the first transition and, at each
  transition, the time and the new offset.  Any table of non-zero times and bounded offsets has
  the interval laws.
\<close>

fun table_offset :: "int \<Rightarrow> (go_time \<times> int) list \<Rightarrow> go_time \<Rightarrow> int" where
  "table_offset base [] t = base"
| "table_offset base ((x, offset) # table) t = (if t < x then base else table_offset offset table t)"

fun table_end :: "(go_time \<times> int) list \<Rightarrow> go_time \<Rightarrow> go_time" where
  "table_end [] t = 0"
| "table_end ((x, offset) # table) t = (if t < x then x else table_end table t)"

definition table_location :: "int \<Rightarrow> (go_time \<times> int) list \<Rightarrow> location" where
  "table_location base table = \<lparr> loc_offset = table_offset base table, loc_zone_end = table_end table \<rparr>"

lemma table_end_advances: "table_end table t \<noteq> 0 \<Longrightarrow> t < table_end table t"
  by (induction table t rule: table_end.induct) (auto split: if_splits)

lemma table_same_offset:
  "\<forall>(x, _) \<in> set table. x \<noteq> 0 \<Longrightarrow> t \<le> u \<Longrightarrow> table_end table t = 0 \<or> u < table_end table t \<Longrightarrow>
   table_offset base table u = table_offset base table t"
  by (induction base table t rule: table_offset.induct) (auto split: if_splits)

lemma table_offset_in: "table_offset base table t \<in> insert base (snd ` set table)"
  by (induction base table t rule: table_offset.induct) auto

locale transition_table =
  fixes base :: int and table :: "(go_time \<times> int) list"
  assumes times: "\<forall>(x, _) \<in> set table. x \<noteq> 0"
    and offsets: "\<forall>offset \<in> insert base (snd ` set table). \<bar>offset\<bar> * second < 48 * hour"

sublocale transition_table \<subseteq> zone_intervals "table_location base table"
proof
  fix t u
  show "loc_zone_end (table_location base table) t \<noteq> 0 \<Longrightarrow> t < loc_zone_end (table_location base table) t"
    using table_end_advances by (simp add: table_location_def)
  show "t \<le> u \<Longrightarrow> loc_zone_end (table_location base table) t = 0 \<or> u < loc_zone_end (table_location base table) t \<Longrightarrow>
      loc_offset (table_location base table) u = loc_offset (table_location base table) t"
    using table_same_offset [OF times] by (simp add: table_location_def)
  show "\<bar>loc_offset (table_location base table) t\<bar> * second < 48 * hour"
    unfolding table_location_def using bspec [OF offsets table_offset_in] by simp
qed

text \<open>A zone west of Greenwich whose clocks go forward by an hour at local midnight.\<close>

definition midnight_table :: "(go_time \<times> int) list" where
  "midnight_table = [(1000 * day_ns + 3 * hour, - 7200)]"

interpretation midnight: transition_table "- 10800" midnight_table
  by unfold_locales (simp_all add: midnight_table_def)

text \<open>A zone whose data stop at an instant: every interval it reports from there on ends there.\<close>

definition halting_location :: "go_time \<Rightarrow> location" where
  "halting_location stop = \<lparr> loc_offset = (\<lambda>_. 0), loc_zone_end = (\<lambda>_. stop) \<rparr>"

interpretation halting: zone_offsets "halting_location stop" for stop
  by unfold_locales (simp_all add: halting_location_def)

section \<open>Properties\<close>

text \<open>C33. The bounds of a civil date are exact, for every date from 0001-01-04 on (48 hours and more
  after the zero time) and every zone whose offset is constant inside the intervals it reports and
  less than 48 hours.  The loop always ends.  It reports that an interval did not advance exactly
  when the walk over the intervals around the date reaches one that does not; otherwise it reports
  that the date does not exist exactly when no instant has that date, and in every other case the
  start is the first instant of the date and the end the instant after its last one.\<close>

theorem resolveCivilDateBounds_exact:
  assumes "zone_offsets loc" and "48 * hour < day"
  shows "(case resolveCivilDateBounds day loc of
      Inl e \<Rightarrow> if zone_stuck loc day then e = interval_stuck else e = date_missing \<and> (\<forall>t. \<not> on_date loc day t)
    | Inr (start, finish) \<Rightarrow> \<not> zone_stuck loc day \<and> 0 < start \<and> on_date loc day start \<and> on_date loc day (finish - 1)
        \<and> (\<forall>t. on_date loc day t \<longrightarrow> start \<le> t \<and> t < finish))"
  by (rule zone_offsets.resolve_bounds [OF assms])

theorem resolveCivilDateBounds_exact_witness:
  "(\<exists>start finish. resolveCivilDateBounds (1000 * day_ns) (table_location (- 10800) midnight_table) = Inr (start, finish)
     \<and> on_date (table_location (- 10800) midnight_table) (1000 * day_ns) start \<and> start = 1000 * day_ns + 3 * hour)
   \<and> resolveCivilDateBounds (1000 * day_ns) (halting_location (1001 * day_ns)) = Inl interval_stuck
   \<and> zone_stuck (halting_location (1001 * day_ns)) (1000 * day_ns)"
proof -
  have r: "resolveCivilDateBounds (1000 * day_ns) (table_location (- 10800) midnight_table)
      = Inr (1000 * day_ns + 3 * hour, 1001 * day_ns + 2 * hour)"
    by code_simp
  have h: "resolveCivilDateBounds (1000 * day_ns) (halting_location (1001 * day_ns)) = Inl interval_stuck"
    by code_simp
  have "interval_stuck \<noteq> date_missing" by (simp add: interval_stuck_def date_missing_def)
  then show ?thesis
    using resolveCivilDateBounds_exact [OF midnight.zone_offsets_axioms, of "1000 * day_ns"] r
      resolveCivilDateBounds_exact [OF halting.zone_offsets_axioms, of "1000 * day_ns" "1001 * day_ns"] h
    by (simp split: if_splits)
qed

text \<open>The cutoff of a date belongs to it: where clocks change on whole seconds, the instant one
  millisecond before the end of the date is still on the date, and no later instant on a whole
  millisecond is.\<close>

theorem ResolveCivilDateCutoff_last:
  assumes "zone_intervals loc" and "day mod second = 0" and "48 * hour < day" and "\<forall>t. loc_zone_end loc t mod second = 0"
    and "ResolveCivilDateCutoff day loc = Inr cutoff"
  shows "on_date loc day cutoff \<and> (\<forall>t. on_date loc day t \<longrightarrow> t < cutoff + millisecond)"
proof -
  obtain start finish where r: "resolveCivilDateBounds day loc = Inr (start, finish)" "cutoff = finish - millisecond"
    using assms(5) by (auto simp: ResolveCivilDateCutoff_def elim!: res_bindE)
  have "on_date loc day cutoff"
    unfolding r(2) by (rule zone_intervals.cutoff_on_date [OF assms(1-4) r(1)])
  with zone_intervals.resolve_exact [OF assms(1,3)] show ?thesis by (auto simp: r)
qed

lemma midnight_seconds: "\<forall>t. loc_zone_end (table_location (- 10800) midnight_table) t mod second = 0"
  by (simp add: table_location_def midnight_table_def)

theorem ResolveCivilDateCutoff_last_witness:
  "\<exists>cutoff. ResolveCivilDateCutoff (1000 * day_ns) (table_location (- 10800) midnight_table) = Inr cutoff
     \<and> on_date (table_location (- 10800) midnight_table) (1000 * day_ns) cutoff"
proof -
  have r: "ResolveCivilDateCutoff (1000 * day_ns) (table_location (- 10800) midnight_table)
      = Inr (1001 * day_ns + 2 * hour - millisecond)"
    by code_simp
  show ?thesis
    using ResolveCivilDateCutoff_last [OF midnight.zone_intervals_axioms _ _ midnight_seconds r] r by simp
qed

end
