(* ===== verification/LocalTime.thy ===== *)
theory LocalTime
  imports Calendar CivilDate Change
begin

text \<open>
  Wall-clock times: \<^verbatim>\<open>ResolveLocalDateTime\<close> at the end of \<^verbatim>\<open>internal/domain/change.go\<close>, with the
  parts of Go's \<^verbatim>\<open>time\<close> package it uses (\<^verbatim>\<open>time.Date\<close> in a location, \<^verbatim>\<open>Parse("15:04")\<close>,
  \<^verbatim>\<open>Format\<close>).  A zone is its offset in seconds at every instant.
\<close>

section \<open>The time package\<close>

abbreviation "minute_ns \<equiv> (60000000000::int)"

text \<open>
  \<^verbatim>\<open>time.Date\<close>: the wall clock read as UTC, corrected by the offset at the instant that the offset
  at the uncorrected instant leads to.
\<close>

definition go_date :: "zone \<Rightarrow> go_time \<Rightarrow> go_time" where
  "go_date z w = (let offset = z w in if offset \<noteq> 0 then w - z (w - offset * second) * second else w)"

text \<open>\<^verbatim>\<open>Parse("15:04")\<close>: one or two digits of hour, two of minute.\<close>

definition parse_clock :: "string \<Rightarrow> (int \<times> int) option" where
  "parse_clock s =
     (let hh = takeWhile is_digit s; rest = dropWhile is_digit s in
      if hh \<noteq> [] \<and> length hh \<le> 2 \<and> length rest = 3 \<and> hd rest = CHR '':'' \<and> list_all is_digit (tl rest)
         \<and> string_nat hh < 24 \<and> string_nat (tl rest) < 60
      then Some (int (string_nat hh), int (string_nat (tl rest))) else None)"

text \<open>The local wall clock of an instant, as a UTC instant, and its text.\<close>

definition local_wall :: "zone \<Rightarrow> go_time \<Rightarrow> go_time" where
  "local_wall z t = t + z t * second"

definition wall_text :: "go_time \<Rightarrow> string" where
  "wall_text l = format_date (civil_of_days (l div day_ns)) @ '' '' @ pad_int 2 (l mod day_ns div hour) @ '':''
     @ pad_int 2 (l mod hour div minute_ns)"

definition wall_parts :: "zone \<Rightarrow> go_time \<Rightarrow> string" where
  "wall_parts z t = wall_text (local_wall z t)"

section \<open>Resolution\<close>

definition scan_offsets :: "zone \<Rightarrow> go_time \<Rightarrow> int list" where
  "scan_offsets z wall = remdups (map (\<lambda>k. z (wall + k * 15 * minute_ns)) [- 144..144])"

definition candidate_times :: "zone \<Rightarrow> go_time \<Rightarrow> string \<Rightarrow> go_time list" where
  "candidate_times z wall text =
     (let label = local_wall z wall - local_wall z wall mod minute_ns in
      filter (\<lambda>candidate. wall_parts z candidate = text) (map (\<lambda>offset. label - offset * second) (scan_offsets z wall)))"

text \<open>The day label and the wall clock that the date and clock texts stand for.\<close>

definition parsed_wall :: "zone \<Rightarrow> int \<times> int \<times> int \<Rightarrow> int \<times> int \<Rightarrow> go_time" where
  "parsed_wall z date clock =
     (let (y, m, d) = date; parsedDate = go_date z (date_days y m d * day_ns);
          (y', m', d') = civil_of_days (local_wall z parsedDate div day_ns); (hh, mm) = clock
      in go_date z (date_days y' m' d' * day_ns + hh * hour + mm * minute_ns))"

definition ResolveLocalDateTime :: "(string \<Rightarrow> zone option) \<Rightarrow> string \<Rightarrow> string \<Rightarrow> string \<Rightarrow> go_time res" where
  "ResolveLocalDateTime load_location date clock timezone =
     (if trim_space timezone = [] then Inl timezone_required
      else case load_location (trim_space timezone) of
        None \<Rightarrow> Inl (changeError ErrInvalidChangeTime ''timezone'' ''timezone must be a valid IANA timezone'')
      | Some z \<Rightarrow>
          (case parse_date (trim_space date) of
             None \<Rightarrow> Inl (changeError ErrInvalidChangeTime ''date'' ''date must use YYYY-MM-DD'')
           | Some parsedDate \<Rightarrow>
               (case parse_clock (trim_space clock) of
                  None \<Rightarrow> Inl (changeError ErrInvalidChangeTime ''time'' ''time must use HH:MM'')
                | Some parsedClock \<Rightarrow>
                    (case candidate_times z (parsed_wall z parsedDate parsedClock) (trim_space date @ '' '' @ trim_space clock) of
                       [] \<Rightarrow> Inl (changeError ErrInvalidChangeTime ''time'' ''local time does not exist in the selected timezone'')
                     | [candidate] \<Rightarrow> Inr (normalizeTime candidate)
                     | _ \<Rightarrow> Inl (changeError ErrInvalidChangeTime ''time'' ''local time is ambiguous in the selected timezone'')))))"

section \<open>Texts of wall clocks\<close>

lemma minute_split:
  assumes "(l::int) mod minute_ns = 0"
  shows "l = l div day_ns * day_ns + l mod day_ns div hour * hour + l mod hour div minute_ns * minute_ns"
proof -
  have d: "hour dvd day_ns" "minute_ns dvd hour" by simp_all
  have "l = l div day_ns * day_ns + l mod day_ns" by simp
  also have "l mod day_ns = l mod day_ns div hour * hour + l mod day_ns mod hour" by simp
  also have "l mod day_ns mod hour = l mod hour" using d(1) by (rule mod_mod_cancel)
  also have "l mod hour = l mod hour div minute_ns * minute_ns + l mod hour mod minute_ns" by simp
  also have "l mod hour mod minute_ns = 0" using mod_mod_cancel [OF d(2), of l] assms by simp
  finally show ?thesis by simp
qed

lemma wall_text_inj:
  assumes "l mod minute_ns = 0" and "k mod minute_ns = 0"
  shows "wall_text l = wall_text k \<longleftrightarrow> l = k"
proof
  have r: "0 \<le> x mod day_ns div hour" "x mod day_ns div hour < 10 ^ 2" "0 \<le> x mod hour div minute_ns" "x mod hour div minute_ns < 10 ^ 2"
    for x :: int
  proof -
    have "x mod day_ns < 24 * hour" "x mod hour < 60 * minute_ns" using pos_mod_bound [of day_ns x] pos_mod_bound [of hour x] by simp_all
    then have "x mod day_ns div hour < 24" "x mod hour div minute_ns < 60" by (simp_all add: div_less_iff_less_mult)
    then show "x mod day_ns div hour < 10 ^ 2" "x mod hour div minute_ns < 10 ^ 2" by simp_all
  qed (simp_all add: pos_imp_zdiv_nonneg_iff)
  have l: "length (pad_int 2 (x mod day_ns div hour)) = 2" "length (pad_int 2 (x mod hour div minute_ns)) = 2" for x :: int
    using r by (simp_all add: pad_int_length)
  assume "wall_text l = wall_text k"
  then have "format_date (civil_of_days (l div day_ns)) = format_date (civil_of_days (k div day_ns))"
    "pad_int 2 (l mod day_ns div hour) = pad_int 2 (k mod day_ns div hour)"
    "pad_int 2 (l mod hour div minute_ns) = pad_int 2 (k mod hour div minute_ns)"
    using l by (auto simp: wall_text_def)
  then have "l div day_ns = k div day_ns" "l mod day_ns div hour = k mod day_ns div hour" "l mod hour div minute_ns = k mod hour div minute_ns"
    by (simp_all add: day_text_inj) (auto dest: pad_int_inj)
  then show "l = k" using minute_split [OF assms(1)] minute_split [OF assms(2)] by metis
qed simp

text \<open>The wall clock a date and a clock stand for, and the text it has.\<close>

definition wall_of :: "int \<times> int \<times> int \<Rightarrow> int \<times> int \<Rightarrow> go_time" where
  "wall_of date clock = (let (y, m, d) = date; (hh, mm) = clock in date_days y m d * day_ns + hh * hour + mm * minute_ns)"

lemma wall_of_mod: "wall_of date clock mod minute_ns = 0"
proof -
  have "minute_ns dvd wall_of date clock" by (auto simp: wall_of_def intro!: dvd_add split: prod.splits)
  then show ?thesis by simp
qed

lemma parse_clock_text:
  assumes "parse_clock s = Some (hh, mm)" and "length s = 5"
  shows "s = pad_int 2 hh @ '':'' @ pad_int 2 mm" and "0 \<le> hh" and "hh < 24" and "0 \<le> mm" and "mm < 60"
proof -
  let ?h = "takeWhile is_digit s" and ?r = "dropWhile is_digit s"
  have p: "length ?h \<le> 2" "length ?r = 3" "hd ?r = CHR '':''" "list_all is_digit (tl ?r)"
    "hh = int (string_nat ?h)" "mm = int (string_nat (tl ?r))" "string_nat ?h < 24" "string_nat (tl ?r) < 60"
    using assms(1) by (auto simp: parse_clock_def Let_def split: if_splits)
  have "length ?h + length ?r = 5" using assms(2) by (metis length_append takeWhile_dropWhile_id)
  then have "length ?h = 2" using p(2) by simp
  then have "pad_int 2 hh = ?h" unfolding p(5) by (intro pad_int_read) (auto simp: list_all_iff dest: set_takeWhileD)
  moreover have "pad_int 2 mm = tl ?r" unfolding p(6) using p(2,4) by (intro pad_int_read) simp_all
  moreover have "?r = CHR '':'' # tl ?r" using p(2,3) by (cases ?r) auto
  ultimately show "s = pad_int 2 hh @ '':'' @ pad_int 2 mm" by (metis append_Cons append_Nil takeWhile_dropWhile_id)
qed (use assms in \<open>auto simp: parse_clock_def Let_def split: if_splits\<close>)

lemma wall_text_of:
  assumes "valid_date y m d" and "0 \<le> hh" "hh < 24" "0 \<le> mm" "mm < 60"
  shows "wall_text (wall_of (y, m, d) (hh, mm)) = format_date (y, m, d) @ '' '' @ pad_int 2 hh @ '':'' @ pad_int 2 mm"
proof -
  let ?w = "wall_of (y, m, d) (hh, mm)"
  have w: "?w = day_ns * date_days y m d + (hh * hour + mm * minute_ns)" by (simp add: wall_of_def)
  have b: "0 \<le> hh * hour + mm * minute_ns" "hh * hour + mm * minute_ns < day_ns" "mm * minute_ns < hour" using assms by auto
  then have d: "?w div day_ns = date_days y m d" "?w mod day_ns = hh * hour + mm * minute_ns"
    unfolding w by (simp_all add: int_div_pos_eq int_mod_pos_eq)
  then have "?w mod day_ns div hour = hh" using assms b(3) by (auto intro!: int_div_pos_eq)
  moreover have "?w mod hour = mm * minute_ns"
  proof (rule int_mod_pos_eq)
    show "?w = hour * (24 * date_days y m d + hh) + mm * minute_ns" by (simp add: w algebra_simps)
  qed (use assms b(3) in auto)
  ultimately show ?thesis by (simp add: wall_text_def d(1) civil_of_date_days [OF assms(1)])
qed

section \<open>Zones with one change nearby\<close>

text \<open>
  Around the wall clock in question the zone changes its offset at most once, from \<open>a\<close> to \<open>b\<close> at
  \<open>change\<close>; offsets are whole minutes and at most eighteen hours, as those in use are.  A zone
  without a change is the case \<open>a = b\<close>.
\<close>

lemma scan_offsets_set: "set (scan_offsets z start) = (\<lambda>k. z (start + k * 15 * minute_ns)) ` {- 144..144}"
  by (simp only: scan_offsets_def set_remdups set_map set_upto)

lemma scan_offsets_distinct: "distinct (scan_offsets z start)"
  by (simp only: scan_offsets_def distinct_remdups)

lemma change_arith:
  fixes u w change a b zu o' p r :: int
  assumes "u = w - zu * second" and "zu = (if u < change then a else b)" and "o' = (if w < change then a else b)"
    and "p = (if w - o' * second < change then a else b)" and "r = (if w - p * second < change then a else b)"
  shows "r = p"
  using assms by (auto split: if_splits)

locale single_change =
  fixes z :: zone and wall change :: go_time and a b :: int
  assumes near: "\<bar>t - wall\<bar> \<le> 96 * hour \<Longrightarrow> z t = (if t < change then a else b)"
    and bounded: "\<bar>z t\<bar> \<le> 64800"
    and minutes: "z t mod 60 = 0"
begin

lemma offset_bounds: "\<bar>z t * second\<bar> \<le> 18 * hour"
  using bounded [of t] by (simp add: abs_mult)

lemma offset_minutes: "z t * second mod minute_ns = 0"
proof -
  have "60 dvd z t" using minutes by (simp add: dvd_eq_mod_eq_0)
  then have "60 * second dvd z t * second" by (rule mult_dvd_mono) simp
  then show ?thesis by simp
qed

lemma near_wall:
  assumes "local_wall z u = w" and "\<bar>w - wall\<bar> \<le> 24 * hour"
  shows "u = w - z u * second" and "\<bar>u - wall\<bar> \<le> 42 * hour"
  using assms offset_bounds [of u] by (auto simp: local_wall_def)

text \<open>\<^verbatim>\<open>time.Date\<close> finds an instant with the wall clock when there is one.\<close>

lemma go_date_exists:
  assumes "\<exists>u. local_wall z u = w" and w: "\<bar>w - wall\<bar> \<le> 24 * hour"
  shows "local_wall z (go_date z w) = w"
proof -
  obtain u where u: "local_wall z u = w" using assms(1) by blast
  have n: "z t = (if t < change then a else b)" if "\<bar>t - w\<bar> \<le> 18 * hour" for t
    using that w by (intro near) auto
  have q: "u = w - z u * second" by (rule near_wall(1) [OF u w])
  then have "\<bar>u - w\<bar> = \<bar>z u * second\<bar>" by linarith
  then have "\<bar>u - w\<bar> \<le> 18 * hour" using offset_bounds [of u] by simp
  moreover have "\<bar>w - z x * second - w\<bar> \<le> 18 * hour" for x using offset_bounds [of x] by simp
  ultimately have "z w = (if w < change then a else b)" "z u = (if u < change then a else b)"
    "z (w - z w * second) = (if w - z w * second < change then a else b)"
    "z (w - z (w - z w * second) * second) = (if w - z (w - z w * second) * second < change then a else b)"
    by - (rule n; simp)+
  from change_arith [OF q this(2,1,3,4)] show ?thesis by (auto simp: go_date_def local_wall_def Let_def)
qed

text \<open>Every instant with the wall clock has an offset that the scan meets.\<close>

lemma scan_complete:
  assumes "local_wall z u = wall" and "\<bar>start - wall\<bar> \<le> 18 * hour"
  shows "z u \<in> set (scan_offsets z start)"
proof -
  have u: "\<bar>u - wall\<bar> \<le> 18 * hour"
  proof -
    have "u = wall - z u * second" using assms(1) by (auto simp: local_wall_def)
    then have "\<bar>u - wall\<bar> = \<bar>z u * second\<bar>" by linarith
    then show ?thesis using offset_bounds [of u] by simp
  qed
  have s: "z (start + k * 15 * minute_ns) \<in> set (scan_offsets z start)" if "- 144 \<le> k" "k \<le> 144" for k
    using that unfolding scan_offsets_set by (intro imageI) simp
  have n: "z t = (if t < change then a else b)" if "\<bar>t - wall\<bar> \<le> 54 * hour" for t
    using that by (intro near) auto
  show ?thesis
  proof (cases "u < change")
    case True
    then have "z (start + - 144 * 15 * minute_ns) = z u"
      using u assms(2) n [of u] n [of "start + - 144 * 15 * minute_ns"] by auto
    with s [of "- 144"] show ?thesis by simp
  next
    case False
    then have "z (start + 144 * 15 * minute_ns) = z u"
      using u assms(2) n [of u] n [of "start + 144 * 15 * minute_ns"] by auto
    with s [of 144] show ?thesis by simp
  qed
qed

lemma wall_parts_iff:
  assumes "c mod minute_ns = 0" and "wall mod minute_ns = 0"
  shows "wall_parts z c = wall_text wall \<longleftrightarrow> local_wall z c = wall"
proof -
  have "(c + z c * second) mod minute_ns = 0" using assms(1) offset_minutes [of c] by (simp add: mod_add_eq [symmetric])
  then show ?thesis unfolding wall_parts_def local_wall_def by (intro wall_text_inj assms(2))
qed

text \<open>The candidates are exactly the instants with the wall clock, each once.\<close>

lemma candidates_exact:
  assumes "wall mod minute_ns = 0"
  shows "set (candidate_times z (go_date z wall) (wall_text wall)) = {u. local_wall z u = wall}"
    and "distinct (candidate_times z (go_date z wall) (wall_text wall))"
proof -
  let ?start = "go_date z wall"
  define label where "label = local_wall z ?start - local_wall z ?start mod minute_ns"
  have label: "label mod minute_ns = 0" by (simp add: label_def mod_diff_left_eq [symmetric])
  have c: "candidate_times z ?start (wall_text wall)
      = filter (\<lambda>c. wall_parts z c = wall_text wall) (map (\<lambda>offset. label - offset * second) (scan_offsets z ?start))"
    by (simp add: candidate_times_def Let_def label_def)
  have in_c: "u \<in> set (candidate_times z ?start (wall_text wall)) \<longleftrightarrow> (\<exists>t. u = label - z t * second \<and> z t \<in> set (scan_offsets z ?start) \<and> local_wall z u = wall)" for u
  proof -
    have "(label - z t * second) mod minute_ns = 0" for t
      using label offset_minutes [of t] by (simp add: mod_diff_eq [symmetric])
    moreover have "\<exists>t. offset = z t" if "offset \<in> set (scan_offsets z ?start)" for offset
      using that unfolding scan_offsets_set by blast
    ultimately show ?thesis unfolding c using wall_parts_iff [OF _ assms] by (auto, metis+)
  qed
  show "set (candidate_times z ?start (wall_text wall)) = {u. local_wall z u = wall}"
  proof (intro set_eqI iffI)
    fix u
    assume "u \<in> {u. local_wall z u = wall}"
    then have u: "local_wall z u = wall" by simp
    then have e: "local_wall z ?start = wall" by (intro go_date_exists) auto
    then have "label = wall" using assms by (simp add: label_def)
    moreover have "\<bar>?start - wall\<bar> \<le> 18 * hour" using e offset_bounds [of ?start] by (auto simp: local_wall_def)
    ultimately show "u \<in> set (candidate_times z ?start (wall_text wall))"
      using u scan_complete [OF u] unfolding in_c by (intro exI [of _ u]) (auto simp: local_wall_def)
  qed (auto simp: in_c)
  note scan_offsets_distinct [of z ?start]
  then show "distinct (candidate_times z ?start (wall_text wall))"
    unfolding c by (intro distinct_filter) (auto simp: distinct_map inj_on_def)
qed

text \<open>The wall clock parsed from texts, where the midnight of the date exists in the zone.\<close>

lemma parsed_wall_of:
  assumes "valid_date y m d" and "\<exists>u. local_wall z u = date_days y m d * day_ns" and "0 \<le> hh" "hh < 24" "0 \<le> mm" "mm < 60"
    and "wall = wall_of (y, m, d) (hh, mm)"
  shows "parsed_wall z (y, m, d) (hh, mm) = go_date z wall"
proof -
  have "local_wall z (go_date z (date_days y m d * day_ns)) = date_days y m d * day_ns"
    using assms by (intro go_date_exists) (auto simp: wall_of_def)
  then show ?thesis
    by (simp add: parsed_wall_def Let_def civil_of_date_days [OF assms(1)] assms(7) wall_of_def)
qed

lemma normalize_candidate:
  assumes "wall mod minute_ns = 0" and "local_wall z u = wall"
  shows "normalizeTime u = u"
proof -
  have "u = wall - z u * second" using assms(2) by (auto simp: local_wall_def)
  then have "u mod minute_ns = 0" using assms(1) offset_minutes [of u] by (metis diff_0_right mod_0 mod_diff_eq)
  then have "millisecond dvd u" using dvd_trans [of millisecond minute_ns u] by (simp add: dvd_eq_mod_eq_0)
  then show ?thesis by (simp add: normalizeTime_def truncate_ms_def)
qed

end

definition time_missing :: err where
  "time_missing = changeError ErrInvalidChangeTime ''time'' ''local time does not exist in the selected timezone''"

definition time_ambiguous :: err where
  "time_ambiguous = changeError ErrInvalidChangeTime ''time'' ''local time is ambiguous in the selected timezone''"

section \<open>Properties\<close>

text \<open>A zone three hours west of Greenwich whose clocks go forward at local midnight of
  0003-09-28, and two days around the change.\<close>

abbreviation midnight_zone :: zone where
  "midnight_zone \<equiv> table_offset (- 10800) midnight_table"

interpretation after_change: single_change midnight_zone "1001 * day_ns + 12 * hour" "1000 * day_ns + 3 * hour" "- 10800" "- 7200"
  by unfold_locales (simp_all add: midnight_table_def)

text \<open>C34. Wall-clock resolution is exact under these conditions: the zone loads and its offsets are whole
  minutes of at most eighteen hours; it changes its offset at most once within 96 hours of the
  requested time; the date parses and its midnight is shown by some instant of the zone; and the
  clock parses and is written with two-digit hours and minutes (five characters).  Then the result
  is the one instant that shows the requested wall clock; a wall clock that no instant shows, or
  that two show, is refused with the error that says which.\<close>

theorem ResolveLocalDateTime_exact:
  assumes "single_change z (wall_of (y, m, d) (hh, mm)) change a b"
    and "trim_space timezone \<noteq> []" and "load_location (trim_space timezone) = Some z"
    and "parse_date (trim_space date) = Some (y, m, d)" and "parse_clock (trim_space clock) = Some (hh, mm)"
    and "length (trim_space clock) = 5" and "\<exists>u. local_wall z u = date_days y m d * day_ns"
  shows "(case ResolveLocalDateTime load_location date clock timezone of
      Inr t \<Rightarrow> {u. local_wall z u = wall_of (y, m, d) (hh, mm)} = {t}
    | Inl e \<Rightarrow> (if \<exists>u. local_wall z u = wall_of (y, m, d) (hh, mm)
        then e = time_ambiguous \<and> (\<exists>t u. t \<noteq> u \<and> local_wall z t = wall_of (y, m, d) (hh, mm) \<and> local_wall z u = wall_of (y, m, d) (hh, mm))
        else e = time_missing))"
proof -
  let ?w = "wall_of (y, m, d) (hh, mm)"
  note date = parse_date_text [OF assms(4)] and clock = parse_clock_text [OF assms(5,6)]
  have v: "valid_date y m d" using date by (simp add: valid_date_def)
  have shown: "trim_space date @ '' '' @ trim_space clock = wall_text ?w"
    using date(1) clock(1) wall_text_of [OF v clock(2-5)] by simp
  define cs where "cs = candidate_times z (go_date z ?w) (wall_text ?w)"
  note c = single_change.candidates_exact [OF assms(1) wall_of_mod, folded cs_def]
  have r: "ResolveLocalDateTime load_location date clock timezone =
      (case cs of [] \<Rightarrow> Inl time_missing | [t] \<Rightarrow> Inr (normalizeTime t) | _ \<Rightarrow> Inl time_ambiguous)"
    unfolding ResolveLocalDateTime_def cs_def
    using assms(2-5) single_change.parsed_wall_of [OF assms(1) v assms(7) clock(2-5) refl] shown
    by (simp add: time_missing_def time_ambiguous_def split: list.splits)
  show ?thesis
  proof (cases cs)
    case Nil
    then have "\<not> (\<exists>u. local_wall z u = ?w)" using c(1) by auto
    then show ?thesis by (simp add: r Nil)
  next
    case (Cons t ts)
    then have t: "local_wall z t = ?w" using c(1) by auto
    show ?thesis
    proof (cases ts)
      case Nil
      with Cons c(1) show ?thesis
        by (simp add: r single_change.normalize_candidate [OF assms(1) wall_of_mod t])
    next
      case (Cons u us)
      with \<open>cs = t # ts\<close> c have "t \<noteq> u" "local_wall z u = ?w" by auto
      with t have "\<exists>t u. t \<noteq> u \<and> local_wall z t = ?w \<and> local_wall z u = ?w" by blast
      with t Cons \<open>cs = t # ts\<close> show ?thesis by (auto simp: r)
    qed
  qed
qed

theorem ResolveLocalDateTime_exact_witness:
  "ResolveLocalDateTime (\<lambda>_. Some midnight_zone) ''0003-09-29'' ''12:00'' ''X'' = Inr (1001 * day_ns + 14 * hour)"
proof -
  have w: "wall_of (3, 9, 29) (12, 0) = 1001 * day_ns + 12 * hour" "date_days 3 9 29 * day_ns = 1001 * day_ns"
    "trim_space ''X'' = ''X''" "parse_date (trim_space ''0003-09-29'') = Some (3, 9, 29)"
    "parse_clock (trim_space ''12:00'') = Some (12, 0)" "length (trim_space ''12:00'') = 5"
    by code_simp+
  have u: "local_wall midnight_zone u = 86529600000000000 \<longleftrightarrow> u = 86536800000000000" for u
    by (auto simp: local_wall_def midnight_table_def)
  have "\<exists>u. local_wall midnight_zone u = 1001 * day_ns"
    by (rule exI [of _ "1001 * day_ns + 2 * hour"]) (simp add: local_wall_def midnight_table_def)
  then show ?thesis
    using ResolveLocalDateTime_exact [of midnight_zone 3 9 29 12 0 "1000 * day_ns + 3 * hour" "- 10800" "- 7200" "''X''"
        "\<lambda>_. Some midnight_zone" "''0003-09-29''" "''12:00''"] after_change.single_change_axioms
    by (simp add: w u split: sum.splits)
qed

text \<open>The midnight of the date matters: in a zone whose clocks go forward at local midnight the
  date parses to 23:00 of the day before, and noon of that date, an ordinary time that an instant
  shows, is refused as a time that does not exist.\<close>

theorem ResolveLocalDateTime_midnight_gap:
  "ResolveLocalDateTime (\<lambda>_. Some midnight_zone) ''0003-09-28'' ''12:00'' ''X'' = Inl time_missing
   \<and> wall_parts midnight_zone (1000 * day_ns + 14 * hour) = ''0003-09-28 12:00''"
proof
  let ?start = "999 * day_ns + 15 * hour"
  have w: "parsed_wall midnight_zone (3, 9, 28) (12, 0) = ?start" "trim_space ''X'' = ''X''"
    "parse_date (trim_space ''0003-09-28'') = Some (3, 9, 28)" "parse_clock (trim_space ''12:00'') = Some (12, 0)"
    "trim_space ''0003-09-28'' @ '' '' @ trim_space ''12:00'' = ''0003-09-28 12:00''"
    by code_simp+
  have "set (scan_offsets midnight_zone ?start) \<subseteq> {- 10800, - 7200}"
    unfolding scan_offsets_set using table_offset_in [of "- 10800" midnight_table] by (auto simp: midnight_table_def)
  moreover have "wall_parts midnight_zone (999 * day_ns + 12 * hour - offset * second) \<noteq> ''0003-09-28 12:00''"
    if "offset \<in> {- 10800, - 7200}" for offset
  proof -
    have "wall_parts midnight_zone (999 * day_ns + 12 * hour - - 10800 * second) \<noteq> ''0003-09-28 12:00''"
      "wall_parts midnight_zone (999 * day_ns + 12 * hour - - 7200 * second) \<noteq> ''0003-09-28 12:00''"
      by code_simp+
    with that show ?thesis by auto
  qed
  moreover have "local_wall midnight_zone ?start - local_wall midnight_zone ?start mod minute_ns = 999 * day_ns + 12 * hour"
    by code_simp
  ultimately have "candidate_times midnight_zone ?start ''0003-09-28 12:00'' = []"
    unfolding candidate_times_def Let_def by (auto simp: filter_empty_conv)
  with w show "ResolveLocalDateTime (\<lambda>_. Some midnight_zone) ''0003-09-28'' ''12:00'' ''X'' = Inl time_missing"
    by (simp add: ResolveLocalDateTime_def time_missing_def)
  show "wall_parts midnight_zone (1000 * day_ns + 14 * hour) = ''0003-09-28 12:00''" by code_simp
qed

end
