(* ===== verification/History.thy ===== *)
theory History
  imports Change
begin

text \<open>
  The starting point of a household's history: origins, their components and trend ranges of
  \<^verbatim>\<open>internal/domain/history.go\<close>.  The snapshot and trend records of that file are plain data
  that other layers fill; the checks they carry on their texts are modelled here.
\<close>

section \<open>Origins\<close>

type_synonym HistoryOriginID = string
type_synonym HistoryOriginComponentID = string

record HistoryOrigin =
  ho_id :: HistoryOriginID
  ho_household_id :: HouseholdID
  ho_timezone :: string
  ho_started_at :: go_time
  ho_created_at :: go_time

text \<open>The new identity is number 0 of the runtime's generator.\<close>

definition NewHistoryOrigin :: "runtime \<Rightarrow> HouseholdID \<Rightarrow> string \<Rightarrow> go_time \<Rightarrow> go_time \<Rightarrow> HistoryOrigin res" where
  "NewHistoryOrigin R householdID timezone startedAt createdAt =
     res_bind (map_err (\<lambda>_. DomainError ErrValidation ''householdId'' ''must be a valid Household ID'') (ParseHouseholdID householdID)) (\<lambda>_.
     let timezone = trim_space timezone in
     if timezone = []
     then Inl (DomainError ErrHistoryTimezoneRequired ''timezone'' ''confirm a Household timezone before starting history'')
     else case rt_load_location R timezone of
       None \<Rightarrow> Inl (DomainError ErrHistoryTimezoneRequired ''timezone'' ''timezone must be a valid IANA timezone'')
     | Some _ \<Rightarrow>
         if time_is_zero startedAt then Inl (DomainError ErrValidation ''startedAt'' ''start time is required'')
         else Inr \<lparr> ho_id = rt_new_id R 0, ho_household_id = householdID, ho_timezone = timezone,
                ho_started_at = normalizeTime startedAt,
                ho_created_at = normalizeTime (if time_is_zero createdAt then startedAt else createdAt) \<rparr>)"

datatype HistoryOriginComponentKind =
    HistoryOriginAccountValue | HistoryOriginAccountCash | HistoryOriginHoldingQuantity
  | HistoryOriginComponentKind_unknown string

record 'd HistoryOriginComponent =
  hc_id :: HistoryOriginComponentID
  hc_origin_id :: HistoryOriginID
  hc_kind :: HistoryOriginComponentKind
  hc_account :: "AccountID option"
  hc_holding :: "HoldingID option"
  hc_instrument :: "InstrumentID option"
  hc_amount :: "'d money option"
  hc_quantity :: "'d quantity option"
  hc_unit_cost :: "'d unit_price option"
  hc_created_at :: go_time

definition HistoryOriginComponent_Validate :: "'d decimal_ops \<Rightarrow> 'd HistoryOriginComponent \<Rightarrow> unit res" where
  "HistoryOriginComponent_Validate D c =
     (if hc_id c = [] \<or> hc_origin_id c = [] \<or> time_is_zero (hc_created_at c)
      then Inl (DomainError ErrValidation ''component'' ''component identity and creation time are required'')
      else case hc_kind c of
        HistoryOriginHoldingQuantity \<Rightarrow>
          (if hc_account c = None \<or> hc_holding c = None \<or> hc_instrument c = None \<or> hc_amount c \<noteq> None
           then Inl (DomainError ErrValidation ''component'' ''Holding component requires Account, Holding, Instrument, and Quantity'')
           else case hc_quantity c of
             None \<Rightarrow> Inl (DomainError ErrValidation ''component'' ''Holding component requires Account, Holding, Instrument, and Quantity'')
           | Some quantity \<Rightarrow>
               if Quantity_IsZero D quantity then Inr ()
               else if hc_unit_cost c = None
               then Inl (DomainError ErrCostBasisRequired ''unitCost''
                      ''a per-unit cost is required when a Holding starts with a positive quantity'')
               else Inr ())
      | HistoryOriginComponentKind_unknown _ \<Rightarrow>
          Inl (DomainError ErrValidation ''componentKind'' ''component kind is not supported'')
      | _ \<Rightarrow>
          (if hc_account c = None \<or> hc_amount c = None \<or> hc_holding c \<noteq> None \<or> hc_instrument c \<noteq> None
             \<or> hc_quantity c \<noteq> None \<or> hc_unit_cost c \<noteq> None
           then Inl (DomainError ErrValidation ''component'' ''Account component requires Account and Money'')
           else Inr ()))"

section \<open>Trend ranges\<close>

text \<open>A range is its text, as in the source: a named range or two dates joined by a colon.\<close>

type_synonym TrendRange = string

definition AllTrendRanges :: "TrendRange list" where
  "AllTrendRanges = [''30d'', ''ytd'', ''1y'', ''all'']"

text \<open>\<^verbatim>\<open>strings.Split(s, ":")\<close>.\<close>

fun split_colon :: "string \<Rightarrow> string \<Rightarrow> string list" where
  "split_colon acc [] = [rev acc]"
| "split_colon acc (c # s) = (if c = CHR '':'' then rev acc # split_colon [] s else split_colon (c # acc) s)"

definition TrendRange_DateBounds :: "TrendRange \<Rightarrow> (string \<times> string) option" where
  "TrendRange_DateBounds r =
     (case split_colon [] r of
        [a, b] \<Rightarrow>
          (case (parse_date a, parse_date b) of
             (Some (y, m, d), Some (y', m', d')) \<Rightarrow>
               if date_days y' m' d' < date_days y m d \<or> y < 1 then None else Some (a, b)
           | _ \<Rightarrow> None)
      | _ \<Rightarrow> None)"

definition ParseTrendRange :: "string \<Rightarrow> TrendRange res" where
  "ParseTrendRange value =
     (let trendRange = trim_space value in
      if trendRange \<in> set AllTrendRanges \<or> TrendRange_DateBounds trendRange \<noteq> None then Inr trendRange
      else Inl (validation ''range'' ''trend range is not supported''))"

end
