(* ===== verification/ActivityReplay.thy ===== *)
theory ActivityReplay
  imports History
begin

text \<open>
  The replay of money effects, \<^verbatim>\<open>internal/domain/activity_replay.go\<close>.  When an earlier fact of a
  history changes, absolute balance observations (value updates) keep their recorded value and
  only their delta is computed again; undo records follow the deltas they invert.  The running
  balances are Go's map from texts to decimals, with the decimal zero for a missing key, and the
  context is a parameter: the error, if any, that its n-th poll returns.
\<close>

section \<open>The model\<close>

type_synonym go_context = "nat \<Rightarrow> err option"

definition background :: go_context where
  "background n = None"

definition ctx_poll :: "go_context \<Rightarrow> nat \<Rightarrow> unit res" where
  "ctx_poll ctx n = (case ctx n of None \<Rightarrow> Inr () | Some e \<Rightarrow> Inl e)"

fun EffectTarget_string :: "EffectTarget \<Rightarrow> string" where
  "EffectTarget_string EffectTargetAccountValue = ''account_value''"
| "EffectTarget_string EffectTargetAccountCash = ''account_cash''"
| "EffectTarget_string EffectTargetHoldingQuantity = ''holding_quantity''"
| "EffectTarget_string EffectTargetHoldingCost = ''holding_cost''"
| "EffectTarget_string (EffectTarget_unknown s) = s"

definition replayMoneyKey :: "EffectTarget \<Rightarrow> AccountID \<Rightarrow> CurrencyCode \<Rightarrow> string" where
  "replayMoneyKey target account currency = EffectTarget_string target @ '':'' @ account @ '':'' @ currency"

definition sameReplayEndpoint :: "'d ActivityEffect \<Rightarrow> 'd ActivityEffect \<Rightarrow> bool" where
  "sameReplayEndpoint a b \<longleftrightarrow>
     (if e_target a \<noteq> e_target b \<or> e_role a \<noteq> e_role b then False
      else case (e_holding a, e_holding b) of
        (Some h, Some k) \<Rightarrow> h = k
      | _ \<Rightarrow> e_account a \<noteq> None \<and> e_account b \<noteq> None \<and> e_account a = e_account b
          \<and> (case (e_money a, e_money b) of (Some m, Some n) \<Rightarrow> m_currency m = m_currency n | _ \<Rightarrow> False))"

type_synonym 'd balances = "string \<rightharpoonup> 'd"

definition balance :: "'d decimal_ops \<Rightarrow> 'd balances \<Rightarrow> string \<Rightarrow> 'd" where
  "balance D balances key = (case balances key of None \<Rightarrow> d_zero D | Some v \<Rightarrow> v)"

text \<open>The balances of the components; the number of polls made is threaded through.\<close>

fun component_balances ::
    "go_context \<Rightarrow> nat \<Rightarrow> 'd balances \<Rightarrow> 'd HistoryOriginComponent list \<Rightarrow> (nat \<times> 'd balances) res" where
  "component_balances ctx n balances [] = Inr (n, balances)"
| "component_balances ctx n balances (c # cs) =
     res_bind (ctx_poll ctx n) (\<lambda>_.
     component_balances ctx (n + 1)
       (case (hc_account c, hc_amount c) of
          (Some account, Some amount) \<Rightarrow>
            let target = (if hc_kind c = HistoryOriginAccountCash then EffectTargetAccountCash else EffectTargetAccountValue)
            in balances(replayMoneyKey target account (m_currency amount) \<mapsto> m_amount amount)
        | _ \<Rightarrow> balances) cs)"

text \<open>An undo record takes the magnitudes of the effects it undoes, with the direction turned.\<close>

definition reversed_effect :: "'d ActivityEffect list \<Rightarrow> 'd ActivityEffect \<Rightarrow> 'd ActivityEffect" where
  "reversed_effect original a =
     (case find (sameReplayEndpoint a) original of
        None \<Rightarrow> a
      | Some e \<Rightarrow> a \<lparr> e_money := e_money e, e_quantity := e_quantity e,
          e_direction := (if e_direction e = EffectAdded then EffectRemoved else EffectAdded) \<rparr>)"

definition recorded_effects :: "'d Activity \<Rightarrow> 'd ActivityEffect list" where
  "recorded_effects a = (case act_recorded a of None \<Rightarrow> act_effects a | Some effects \<Rightarrow> effects)"

definition effects_to_replay :: "(ActivityID \<rightharpoonup> 'd ActivityEffect list) \<Rightarrow> 'd Activity \<Rightarrow> 'd ActivityEffect list" where
  "effects_to_replay prior a =
     (case act_reverses a of
        None \<Rightarrow> recorded_effects a
      | Some i \<Rightarrow>
          (case prior i of
             None \<Rightarrow> recorded_effects a
           | Some original \<Rightarrow> if original = [] then [] else map (reversed_effect original) (recorded_effects a)))"

text \<open>A value update is measured again: from the running balance to the value it observed.\<close>

definition observation_of :: "'d EndpointView list \<Rightarrow> 'd ActivityEffect \<Rightarrow> AccountID \<Rightarrow> 'd money \<Rightarrow> 'd EndpointView option" where
  "observation_of resulting e account money =
     find (\<lambda>v. ev_account v = Some account \<and> ev_target v = e_target e \<and> ev_currency v = m_currency money) resulting"

definition observed_effect :: "'d decimal_ops \<Rightarrow> 'd \<Rightarrow> 'd EndpointView \<Rightarrow> 'd ActivityEffect \<Rightarrow> ('d ActivityEffect \<times> 'd money) res" where
  "observed_effect D current v e =
     res_bind (map_err ForeignError (d_from_string D (ev_amount v))) (\<lambda>target.
     let delta = d_sub D target current in
     res_bind (NewMoney D (d_abs D delta) (ev_currency v)) (\<lambda>money.
     Inr (e \<lparr> e_money := Some money,
            e_direction := (if d_is_negative D delta then EffectRemoved else EffectAdded) \<rparr>, money)))"

definition replayed_effect ::
    "'d decimal_ops \<Rightarrow> ActivityKind \<Rightarrow> 'd EndpointView list \<Rightarrow> 'd \<Rightarrow> 'd ActivityEffect \<Rightarrow> AccountID \<Rightarrow> 'd money
     \<Rightarrow> ('d ActivityEffect \<times> 'd money) res" where
  "replayed_effect D kind resulting current e account money =
     (if kind = ActivityValueUpdate
      then case observation_of resulting e account money of
          None \<Rightarrow> Inr (e, money)
        | Some v \<Rightarrow> observed_effect D current v e
      else Inr (e, money))"

fun replay_effects ::
    "go_context \<Rightarrow> 'd decimal_ops \<Rightarrow> ActivityKind \<Rightarrow> 'd EndpointView list \<Rightarrow> nat \<Rightarrow> 'd balances \<Rightarrow> 'd ActivityEffect list
     \<Rightarrow> (nat \<times> 'd balances \<times> 'd ActivityEffect list) res" where
  "replay_effects ctx D kind resulting n balances [] = Inr (n, balances, [])"
| "replay_effects ctx D kind resulting n balances (e # es) =
     res_bind (ctx_poll ctx n) (\<lambda>_.
     case (e_money e, e_account e) of
       (Some money, Some account) \<Rightarrow>
         let key = replayMoneyKey (e_target e) account (m_currency money) in
         res_bind (replayed_effect D kind resulting (balance D balances key) e account money) (\<lambda>(e, money).
         if Money_IsZero D money then replay_effects ctx D kind resulting (n + 1) balances es
         else
           let delta = (if e_direction e = EffectRemoved then d_neg D (m_amount money) else m_amount money) in
           res_bind (replay_effects ctx D kind resulting (n + 1)
               (balances(key \<mapsto> d_add D (balance D balances key) delta)) es) (\<lambda>(n, balances, effects).
           Inr (n, balances, e # effects)))
     | _ \<Rightarrow>
         res_bind (replay_effects ctx D kind resulting (n + 1) balances es) (\<lambda>(n, balances, effects).
         Inr (n, balances, e # effects)))"

fun replay_activities ::
    "go_context \<Rightarrow> 'd decimal_ops \<Rightarrow> nat \<Rightarrow> 'd balances \<Rightarrow> (ActivityID \<rightharpoonup> 'd ActivityEffect list) \<Rightarrow> 'd Activity list
     \<Rightarrow> 'd Activity list res" where
  "replay_activities ctx D n balances prior [] = Inr []"
| "replay_activities ctx D n balances prior (a # as) =
     res_bind (ctx_poll ctx n) (\<lambda>_.
     res_bind (replay_effects ctx D (act_kind a) (act_resulting a) (n + 1) balances (effects_to_replay prior a))
       (\<lambda>(n, balances, effects).
     res_bind (replay_activities ctx D n balances (prior(act_id a \<mapsto> effects)) as) (\<lambda>result.
     Inr (a \<lparr> act_recorded := Some (recorded_effects a), act_effects := effects \<rparr> # result))))"

definition ReplayMoneyEffectsContext ::
    "go_context \<Rightarrow> 'd decimal_ops \<Rightarrow> 'd Activity list \<Rightarrow> 'd HistoryOriginComponent list \<Rightarrow> 'd Activity list res" where
  "ReplayMoneyEffectsContext ctx D activities components =
     res_bind (component_balances ctx 0 Map.empty components) (\<lambda>(n, balances).
     replay_activities ctx D n balances Map.empty activities)"

definition ReplayMoneyEffects :: "'d decimal_ops \<Rightarrow> 'd Activity list \<Rightarrow> 'd HistoryOriginComponent list \<Rightarrow> 'd Activity list res" where
  "ReplayMoneyEffects D activities components = ReplayMoneyEffectsContext background D activities components"

section \<open>Replay is idempotent\<close>

lemma recorded_effects_replayed [simp]:
  "recorded_effects (a \<lparr> act_recorded := Some (recorded_effects a), act_effects := es \<rparr>) = recorded_effects a"
  by (simp add: recorded_effects_def)

lemma effects_to_replay_replayed [simp]:
  "effects_to_replay prior (a \<lparr> act_recorded := Some (recorded_effects a), act_effects := es \<rparr>) = effects_to_replay prior a"
  by (simp add: effects_to_replay_def split: option.splits)

lemma replay_activities_again:
  "replay_activities ctx D n balances prior as = Inr r \<Longrightarrow> replay_activities ctx D n balances prior r = Inr r"
  by (induction ctx D n balances prior as arbitrary: r rule: replay_activities.induct) auto

section \<open>Balances over a history\<close>

text \<open>What one effect, a list of effects and a list of activities move at a key of the balances.\<close>

definition effect_key :: "'d ActivityEffect \<Rightarrow> string option" where
  "effect_key e =
     (case (e_money e, e_account e) of
        (Some money, Some account) \<Rightarrow> Some (replayMoneyKey (e_target e) account (m_currency money))
      | _ \<Rightarrow> None)"

definition moved :: "'d decimal_ops \<Rightarrow> string \<Rightarrow> 'd ActivityEffect \<Rightarrow> rat" where
  "moved D key e =
     (if effect_key e = Some key
      then (if e_direction e = EffectRemoved then - 1 else 1) * d_val D (m_amount (the (e_money e))) else 0)"

definition moved_by :: "'d decimal_ops \<Rightarrow> string \<Rightarrow> 'd ActivityEffect list \<Rightarrow> rat" where
  "moved_by D key es = sum_list (map (moved D key) es)"

definition moved_in :: "'d decimal_ops \<Rightarrow> string \<Rightarrow> 'd Activity list \<Rightarrow> rat" where
  "moved_in D key as = sum_list (map (\<lambda>a. moved_by D key (act_effects a)) as)"

text \<open>The balance a history starts from: the last component for the key.\<close>

definition component_key :: "'d HistoryOriginComponent \<Rightarrow> string option" where
  "component_key c =
     (case (hc_account c, hc_amount c) of
        (Some account, Some amount) \<Rightarrow>
          Some (replayMoneyKey (if hc_kind c = HistoryOriginAccountCash then EffectTargetAccountCash else EffectTargetAccountValue)
            account (m_currency amount))
      | _ \<Rightarrow> None)"

definition starting_balance :: "'d decimal_ops \<Rightarrow> 'd HistoryOriginComponent list \<Rightarrow> string \<Rightarrow> rat" where
  "starting_balance D cs key =
     (case find (\<lambda>c. component_key c = Some key) (rev cs) of
        None \<Rightarrow> 0
      | Some c \<Rightarrow> d_val D (m_amount (the (hc_amount c))))"

lemma find_SomeD: "find P xs = Some x \<Longrightarrow> P x \<and> x \<in> set xs"
  by (induction xs) (auto split: if_splits)

lemma find_append: "find P (xs @ ys) = (case find P xs of None \<Rightarrow> find P ys | Some x \<Rightarrow> Some x)"
  by (induction xs) auto

lemma moved_by_simps [simp]:
  "moved_by D key [] = 0" "moved_by D key (e # es) = moved D key e + moved_by D key es"
  "moved_by D key (xs @ ys) = moved_by D key xs + moved_by D key ys"
  by (simp_all add: moved_by_def)

lemma moved_in_simps [simp]:
  "moved_in D key [] = 0" "moved_in D key (a # as) = moved_by D key (act_effects a) + moved_in D key as"
  "moved_in D key (xs @ ys) = moved_in D key xs + moved_in D key ys"
  by (simp_all add: moved_in_def)

text \<open>What identifies the endpoint of an effect.\<close>

definition replay_identity :: "'d ActivityEffect \<Rightarrow> EffectTarget \<times> EffectRole \<times> HoldingID option \<times> AccountID option \<times> CurrencyCode option" where
  "replay_identity e = (e_target e, e_role e, e_holding e, e_account e, map_option m_currency (e_money e))"

definition sound_effect :: "'d decimal_ops \<Rightarrow> 'd ActivityEffect \<Rightarrow> bool" where
  "sound_effect D e \<longleftrightarrow> pred_option (valid_money D) (e_money e) \<and> e_direction e \<in> {EffectAdded, EffectRemoved}"

text \<open>A history whose amounts are Money: recorded effects, observations and starting components.\<close>

definition sound_activity :: "'d decimal_ops \<Rightarrow> 'd Activity \<Rightarrow> bool" where
  "sound_activity D a \<longleftrightarrow> list_all (sound_effect D) (recorded_effects a)
     \<and> (\<forall>v \<in> set (act_resulting a). \<forall>target. d_from_string D (ev_amount v) = Inr target \<longrightarrow> on_grid 4 (d_val D target))"

definition sound_prior :: "'d decimal_ops \<Rightarrow> (ActivityID \<rightharpoonup> 'd ActivityEffect list) \<Rightarrow> bool" where
  "sound_prior D prior \<longleftrightarrow> (\<forall>i es. prior i = Some es \<longrightarrow> list_all (sound_effect D) es)"

definition prior_after :: "(ActivityID \<rightharpoonup> 'd ActivityEffect list) \<Rightarrow> 'd Activity list \<Rightarrow> ActivityID \<rightharpoonup> 'd ActivityEffect list" where
  "prior_after prior as = fold (\<lambda>a prior. prior(act_id a \<mapsto> act_effects a)) as prior"

text \<open>
  The shape of recorded effects: a holding, or an account with an amount; each endpoint once; a
  value update has one effect and any other activity moves something with each of its effects.
\<close>

definition identified :: "'d ActivityEffect \<Rightarrow> bool" where
  "identified e \<longleftrightarrow> (if e_holding e = None then e_account e \<noteq> None \<and> e_money e \<noteq> None else e_account e = None \<and> e_money e = None)"

definition undoable :: "'d decimal_ops \<Rightarrow> 'd Activity \<Rightarrow> bool" where
  "undoable D a \<longleftrightarrow> list_all identified (recorded_effects a) \<and> distinct (map replay_identity (recorded_effects a))
     \<and> (if act_kind a = ActivityValueUpdate then length (recorded_effects a) \<le> 1
        else list_all (\<lambda>e. pred_option (\<lambda>m. \<not> Money_IsZero D m) (e_money e)) (recorded_effects a))"

context decimal_lib
begin

lemma component_balances_value:
  "component_balances ctx n balances cs = Inr (n', balances') \<Longrightarrow>
   d_val D (balance D balances' key) =
     (if \<exists>c \<in> set cs. component_key c = Some key then starting_balance D cs key else d_val D (balance D balances key))"
proof (induction cs arbitrary: n balances)
  case (Cons c cs)
  show ?case
  proof (cases "\<exists>c \<in> set cs. component_key c = Some key")
    case True
    then have "find (\<lambda>c. component_key c = Some key) (rev cs) \<noteq> None" by (auto simp: find_None_iff)
    then have "starting_balance D (c # cs) key = starting_balance D cs key"
      by (auto simp: starting_balance_def find_append)
    with True Cons show ?thesis by auto
  next
    case False
    then have "find (\<lambda>c. component_key c = Some key) (rev cs) = None" by (auto simp: find_None_iff)
    with False Cons.IH Cons.prems show ?thesis
      by (auto simp: starting_balance_def find_append component_key_def balance_def Let_def split: option.splits)
  qed
qed simp

text \<open>A measured value update keeps the endpoint and moves the balance to the observed value.\<close>

lemma observed_effect_facts:
  assumes "observed_effect D current v e = Inr (e', money')" and "ev_currency v = m_currency money" and "valid_money D money"
  shows "e_money e' = Some money'" and "e_account e' = e_account e" and "e_target e' = e_target e" and "e_role e' = e_role e"
    and "e_holding e' = e_holding e" and "m_currency money' = m_currency money" and "valid_money D money'"
    and "e_direction e' \<in> {EffectAdded, EffectRemoved}"
proof -
  obtain target where m: "NewMoney D (d_abs D (d_sub D target current)) (ev_currency v) = Inr money'"
      "e' = e \<lparr> e_money := Some money',
         e_direction := (if d_is_negative D (d_sub D target current) then EffectRemoved else EffectAdded) \<rparr>"
    using assms(1) by (auto simp: observed_effect_def Let_def)
  show "m_currency money' = m_currency money"
    using NewMoney_Inr(3) [OF m(1)] assms(2,3) ParseCurrency_valid by (simp add: valid_money_def)
  show "valid_money D money'" by (rule NewMoney_Inr(1) [OF m(1)])
qed (use assms(1) in \<open>auto simp: observed_effect_def Let_def\<close>)

lemma observed_effect_target:
  assumes "observed_effect D current v e = Inr (e', money')" and "on_grid 4 (d_val D current)"
    and "\<And>target. d_from_string D (ev_amount v) = Inr target \<Longrightarrow> on_grid 4 (d_val D target)"
  shows "\<exists>target. d_from_string D (ev_amount v) = Inr target
    \<and> d_val D current + (if e_direction e' = EffectRemoved then - 1 else 1) * d_val D (m_amount money') = d_val D target"
proof -
  obtain target where t: "d_from_string D (ev_amount v) = Inr target"
      "NewMoney D (d_abs D (d_sub D target current)) (ev_currency v) = Inr money'"
      "e_direction e' = (if d_is_negative D (d_sub D target current) then EffectRemoved else EffectAdded)"
    using assms(1) by (auto simp: observed_effect_def Let_def)
  have "d_val D (m_amount money') = \<bar>d_val D target - d_val D current\<bar>"
    using NewMoney_exact [OF t(2)] assms(2,3) t(1) by (simp add: exact on_grid_abs on_grid_diff)
  with t show ?thesis by (auto simp: exact)
qed

lemma observation_currency: "observation_of resulting e account money = Some v \<Longrightarrow> ev_currency v = m_currency money"
  by (auto simp: observation_of_def find_Some_iff)

lemma replayed_effect_facts:
  assumes "replayed_effect D kind resulting current e account money = Inr (e', money')"
    and "e_money e = Some money" and "e_account e = Some account" and "sound_effect D e"
  shows "e_money e' = Some money'" and "replay_identity e' = replay_identity e" and "sound_effect D e'"
    and "effect_key e' = effect_key e"
proof -
  have v: "valid_money D money" using assms(2,4) by (simp add: sound_effect_def)
  have "e_money e' = Some money' \<and> replay_identity e' = replay_identity e \<and> sound_effect D e'"
  proof (cases "e' = e \<and> money' = money")
    case False
    then obtain x where x: "observed_effect D current x e = Inr (e', money')" "ev_currency x = m_currency money"
      using assms(1) by (auto simp: replayed_effect_def dest: observation_currency split: if_splits option.splits)
    from observed_effect_facts [OF this v] assms(2) show ?thesis
      by (simp add: replay_identity_def sound_effect_def)
  qed (use assms(2,4) in simp)
  then show "e_money e' = Some money'" "replay_identity e' = replay_identity e" "sound_effect D e'" by simp_all
  then show "effect_key e' = effect_key e"
    using assms(2,3) by (auto simp: replay_identity_def effect_key_def)
qed

lemma replay_effects_ConsE:
  assumes "replay_effects ctx D kind resulting n balances (e # es) = Inr (n', balances', es')" and "sound_effect D e"
  obtains e1 balances1 es1 where "replay_effects ctx D kind resulting (n + 1) balances1 es = Inr (n', balances', es1)"
    and "\<forall>key. d_val D (balance D balances1 key) = d_val D (balance D balances key) + moved D key e1"
    and "es' = (if effect_key e1 \<noteq> None \<and> Money_IsZero D (the (e_money e1)) then es1 else e1 # es1)"
    and "sound_effect D e1" and "replay_identity e1 = replay_identity e" and "effect_key e1 = effect_key e"
    and "\<forall>money account. e_money e = Some money \<longrightarrow> e_account e = Some account \<longrightarrow>
      replayed_effect D kind resulting (balance D balances (the (effect_key e))) e account money = Inr (e1, the (e_money e1))"
    and "effect_key e = None \<longrightarrow> e1 = e"
proof (cases "effect_key e")
  case None
  with assms show ?thesis
    by (intro that [of balances "tl es'" e]) (auto simp: effect_key_def moved_def split: option.splits)
next
  case (Some key)
  then obtain money account where ma: "e_money e = Some money" "e_account e = Some account"
      "key = replayMoneyKey (e_target e) account (m_currency money)"
    by (auto simp: effect_key_def split: option.splits)
  then obtain e1 money1 where e1: "replayed_effect D kind resulting (balance D balances key) e account money = Inr (e1, money1)"
    using assms(1) by (auto simp: Let_def)
  note f = replayed_effect_facts [OF e1 ma(1,2) assms(2)]
  let ?delta = "if e_direction e1 = EffectRemoved then d_neg D (m_amount money1) else m_amount money1"
  let ?b = "if Money_IsZero D money1 then balances else balances(key \<mapsto> d_add D (balance D balances key) ?delta)"
  obtain es1 where "replay_effects ctx D kind resulting (n + 1) ?b es = Inr (n', balances', es1)"
      "es' = (if Money_IsZero D money1 then es1 else e1 # es1)"
    using assms(1) e1 by (auto simp: ma Let_def split: if_splits)
  then show ?thesis
    using f e1 Some by (intro that [of ?b es1 e1]) (auto simp: ma balance_def moved_def exact Money_IsZero_def)
qed

declare replay_effects.simps(2) [simp del]

text \<open>The running balances: what they were plus what the replayed effects move, on the money grid.\<close>

lemma replay_effects_balances:
  assumes "replay_effects ctx D kind resulting n balances es = Inr (n', balances', es')" and "list_all (sound_effect D) es"
  shows "d_val D (balance D balances' key) = d_val D (balance D balances key) + moved_by D key es'"
    and "list_all (sound_effect D) es'"
  using assms
proof (induction es arbitrary: n balances es')
  case (Cons e es)
  {
    case 1
    from 1 show ?case
      by (auto elim!: replay_effects_ConsE dest!: Cons.IH(1) simp: moved_def exact Money_IsZero_def)
  next
    case 2
    from 2 show ?case by (auto elim!: replay_effects_ConsE dest!: Cons.IH(2))
  }
qed simp_all

lemma moved_grid: "sound_effect D e \<Longrightarrow> on_grid 4 (moved D key e)"
  by (auto simp: moved_def sound_effect_def effect_key_def split: option.splits intro!: valid_money_grid on_grid_uminus)

lemma moved_by_grid: "list_all (sound_effect D) es \<Longrightarrow> on_grid 4 (moved_by D key es)"
  by (induction es) (auto intro: on_grid_add moved_grid)

lemma replay_effects_other_key:
  assumes "replay_effects ctx D kind resulting n balances es = Inr (n', balances', es')" and "list_all (sound_effect D) es"
    and "\<forall>e \<in> set es. effect_key e \<noteq> Some key"
  shows "moved_by D key es' = 0"
  using assms
proof (induction es arbitrary: n balances es')
  case (Cons e es)
  then show ?case by (auto elim!: replay_effects_ConsE dest!: Cons.IH simp: moved_def)
qed simp

lemma replay_effects_observes:
  assumes "replay_effects ctx D ActivityValueUpdate resulting n balances es = Inr (n', balances', es')"
    and "list_all (sound_effect D) es" and "\<forall>key. on_grid 4 (d_val D (balance D balances key))"
    and "\<forall>v \<in> set resulting. \<forall>target. d_from_string D (ev_amount v) = Inr target \<longrightarrow> on_grid 4 (d_val D target)"
    and "distinct (map effect_key es)" and "e \<in> set es" and "e_money e = Some money" and "e_account e = Some account"
    and "observation_of resulting e account money = Some v"
  shows "\<exists>target. d_from_string D (ev_amount v) = Inr target
    \<and> d_val D (balance D balances' (the (effect_key e))) = d_val D target"
  using assms
proof (induction es arbitrary: n balances es')
  case (Cons x es)
  obtain e1 b1 es1 where step: "replay_effects ctx D ActivityValueUpdate resulting (n + 1) b1 es = Inr (n', balances', es1)"
      "\<forall>key. d_val D (balance D b1 key) = d_val D (balance D balances key) + moved D key e1" "sound_effect D e1"
      "effect_key e1 = effect_key x"
      "\<forall>money account. e_money x = Some money \<longrightarrow> e_account x = Some account \<longrightarrow>
        replayed_effect D ActivityValueUpdate resulting (balance D balances (the (effect_key x))) x account money = Inr (e1, the (e_money e1))"
  proof -
    have "sound_effect D x" using Cons.prems(2) by simp
    then show thesis by (rule replay_effects_ConsE [OF Cons.prems(1)]) (rule that; assumption)
  qed
  show ?case
  proof (cases "e = x")
    case True
    let ?key = "the (effect_key e)"
    have k: "effect_key e = Some ?key" using Cons.prems(7,8) by (simp add: effect_key_def)
    have o: "observed_effect D (balance D balances ?key) v e = Inr (e1, the (e_money e1))"
      using step(5) Cons.prems(7-9) by (simp add: True replayed_effect_def)
    have "v \<in> set resulting" using Cons.prems(9) by (auto simp: observation_of_def find_Some_iff)
    with Cons.prems(3,4) observed_effect_target [OF o] obtain target where t: "d_from_string D (ev_amount v) = Inr target"
        "d_val D (balance D balances ?key) + moved D ?key e1 = d_val D target"
      using k step(4) by (auto simp: moved_def True)
    have "moved_by D ?key es1 = 0"
      using Cons.prems(2,5) k by (intro replay_effects_other_key [OF step(1)]) (auto simp: True image_iff)
    with replay_effects_balances(1) [OF step(1)] Cons.prems(2) t step(2) show ?thesis by auto
  next
    case False
    with Cons.prems step show ?thesis
      by (intro Cons.IH [OF step(1)]) (auto intro: on_grid_add moved_grid)
  qed
qed simp

lemma effects_to_replay_sound:
  assumes "sound_activity D a" and "sound_prior D prior"
  shows "list_all (sound_effect D) (effects_to_replay prior a)"
proof -
  have "sound_effect D (reversed_effect original e)" if "sound_effect D e" "list_all (sound_effect D) original" for original e
    using that unfolding reversed_effect_def
    by (auto simp: sound_effect_def find_Some_iff list_all_length split: option.splits)
  with assms show ?thesis
    by (auto simp: sound_activity_def sound_prior_def effects_to_replay_def list_all_iff split: option.splits)
qed

lemma replay_activities_append:
  assumes "replay_activities ctx D n balances prior (xs @ ys) = Inr r" and "list_all (sound_activity D) xs" and "sound_prior D prior"
  shows "\<exists>n' balances' r1 r2. r = r1 @ r2 \<and> length r1 = length xs \<and> map act_id r1 = map act_id xs
    \<and> replay_activities ctx D n' balances' (prior_after prior r1) ys = Inr r2 \<and> sound_prior D (prior_after prior r1)
    \<and> (\<forall>key. d_val D (balance D balances' key) = d_val D (balance D balances key) + moved_in D key r1
         \<and> on_grid 4 (moved_in D key r1))"
  using assms
proof (induction xs arbitrary: n balances prior r)
  case Nil
  then show ?case by (intro exI [of _ n] exI [of _ balances] exI [of _ "[]"] exI [of _ r]) (simp add: prior_after_def)
next
  case (Cons a xs)
  obtain n1 b1 es rest where step: "replay_effects ctx D (act_kind a) (act_resulting a) (n + 1) balances (effects_to_replay prior a) = Inr (n1, b1, es)"
      "replay_activities ctx D n1 b1 (prior(act_id a \<mapsto> es)) (xs @ ys) = Inr rest"
      "r = a \<lparr> act_recorded := Some (recorded_effects a), act_effects := es \<rparr> # rest"
    using Cons.prems(1) by auto
  have s: "list_all (sound_effect D) (effects_to_replay prior a)"
    using Cons.prems(2,3) by (simp add: effects_to_replay_sound)
  note e = replay_effects_balances [OF step(1) s]
  have "sound_prior D (prior(act_id a \<mapsto> es))" using Cons.prems(3) e(2) by (simp add: sound_prior_def)
  from Cons.IH [OF step(2) _ this] Cons.prems(2) obtain n' b' r1 r2 where
    "rest = r1 @ r2 \<and> length r1 = length xs \<and> map act_id r1 = map act_id xs
     \<and> replay_activities ctx D n' b' (prior_after (prior(act_id a \<mapsto> es)) r1) ys = Inr r2
     \<and> sound_prior D (prior_after (prior(act_id a \<mapsto> es)) r1)
     \<and> (\<forall>key. d_val D (balance D b' key) = d_val D (balance D b1 key) + moved_in D key r1 \<and> on_grid 4 (moved_in D key r1))"
    by (auto simp del: fun_upd_apply)
  with e step(3) moved_by_grid [OF e(2)] show ?case
    by (intro exI [of _ n'] exI [of _ b'] exI [of _ "hd r # r1"] exI [of _ r2]) (auto simp: prior_after_def on_grid_add)
qed

lemma starting_balance_grid:
  assumes "\<forall>c \<in> set cs. pred_option (valid_money D) (hc_amount c)"
  shows "on_grid 4 (starting_balance D cs key)"
proof (cases "find (\<lambda>c. component_key c = Some key) (rev cs)")
  case (Some c)
  then have "component_key c = Some key" "c \<in> set cs" by (auto dest: find_SomeD)
  with Some assms show ?thesis
    by (auto simp: starting_balance_def component_key_def split: option.splits intro!: valid_money_grid)
qed (simp add: starting_balance_def)

lemma component_balances_start:
  assumes "component_balances ctx n Map.empty cs = Inr (n', balances)"
  shows "d_val D (balance D balances key) = starting_balance D cs key"
proof -
  have "find (\<lambda>c. component_key c = Some key) (rev cs) = None" if "\<not> (\<exists>c \<in> set cs. component_key c = Some key)"
    using that by (auto simp: find_None_iff)
  with component_balances_value [OF assms, of key] show ?thesis
    by (auto simp: balance_def starting_balance_def exact)
qed

subsection \<open>Undo records\<close>

lemma same_endpoint_iff:
  "identified a \<Longrightarrow> identified b \<Longrightarrow> sameReplayEndpoint a b \<longleftrightarrow> replay_identity a = replay_identity b"
  by (auto simp: identified_def sameReplayEndpoint_def replay_identity_def split: option.splits if_splits)

lemma identified_identity: "replay_identity a = replay_identity b \<Longrightarrow> identified a = identified b"
  by (cases "e_money a"; cases "e_money b") (auto simp: identified_def replay_identity_def)

lemma identified_map:
  "map replay_identity xs = map replay_identity ys \<Longrightarrow> list_all identified ys \<Longrightarrow> list_all identified xs"
  by (induction xs arbitrary: ys) (auto dest: identified_identity)

lemma replayed_unchanged:
  assumes "\<forall>money account. e_money e = Some money \<longrightarrow> e_account e = Some account \<longrightarrow>
      replayed_effect D kind resulting (balance D balances (the (effect_key e))) e account money = Inr (e1, the (e_money e1))"
    and "effect_key e = None \<longrightarrow> e1 = e" and "kind \<noteq> ActivityValueUpdate"
  shows "e1 = e"
proof (cases "effect_key e")
  case (Some key)
  then obtain money account where "e_money e = Some money" "e_account e = Some account"
    by (auto simp: effect_key_def split: option.splits)
  with assms(1,3) show ?thesis by (auto simp: replayed_effect_def)
qed (use assms(2) in simp)

lemma replay_effects_unchangedE:
  assumes "replay_effects ctx D kind resulting n balances (e # es) = Inr (n', balances', es')" and "sound_effect D e"
    and "kind \<noteq> ActivityValueUpdate"
  obtains balances1 es1 where "replay_effects ctx D kind resulting (n + 1) balances1 es = Inr (n', balances', es1)"
    and "es' = (if effect_key e \<noteq> None \<and> Money_IsZero D (the (e_money e)) then es1 else e # es1)"
proof (rule replay_effects_ConsE [OF assms(1,2)])
  fix e1 b1 es1
  assume s: "replay_effects ctx D kind resulting (n + 1) b1 es = Inr (n', balances', es1)"
    "es' = (if effect_key e1 \<noteq> None \<and> Money_IsZero D (the (e_money e1)) then es1 else e1 # es1)"
    "\<forall>money account. e_money e = Some money \<longrightarrow> e_account e = Some account \<longrightarrow>
      replayed_effect D kind resulting (balance D balances (the (effect_key e))) e account money = Inr (e1, the (e_money e1))"
    "effect_key e = None \<longrightarrow> e1 = e"
  from replayed_unchanged [OF s(3,4) assms(3)] s(1,2) show thesis by (intro that [of b1 es1]) simp_all
qed

lemma replay_effects_moved:
  assumes "replay_effects ctx D kind resulting n balances es = Inr (n', balances', es')" and "list_all (sound_effect D) es"
    and "kind \<noteq> ActivityValueUpdate"
  shows "moved_by D key es' = moved_by D key es"
  using assms
proof (induction es arbitrary: n balances es')
  case (Cons e es)
  then have e: "sound_effect D e" by simp
  obtain b1 es1 where s: "replay_effects ctx D kind resulting (n + 1) b1 es = Inr (n', balances', es1)"
      "es' = (if effect_key e \<noteq> None \<and> Money_IsZero D (the (e_money e)) then es1 else e # es1)"
    by (rule replay_effects_unchangedE [OF Cons.prems(1) e Cons.prems(3)])
  have "moved_by D key es1 = moved_by D key es" using Cons.IH [OF s(1)] Cons.prems(2,3) by simp
  then show ?case by (simp add: s(2) moved_def Money_IsZero_def exact)
qed simp

lemma replay_effects_keeps:
  assumes "replay_effects ctx D kind resulting n balances es = Inr (n', balances', es')" and "list_all (sound_effect D) es"
    and "kind \<noteq> ActivityValueUpdate" and "list_all (\<lambda>e. pred_option (\<lambda>m. \<not> Money_IsZero D m) (e_money e)) es"
  shows "es' = es"
  using assms
proof (induction es arbitrary: n balances es')
  case (Cons e es)
  then have e: "sound_effect D e" by simp
  obtain b1 es1 where s: "replay_effects ctx D kind resulting (n + 1) b1 es = Inr (n', balances', es1)"
      "es' = (if effect_key e \<noteq> None \<and> Money_IsZero D (the (e_money e)) then es1 else e # es1)"
    by (rule replay_effects_unchangedE [OF Cons.prems(1) e Cons.prems(3)])
  have "es1 = es" using Cons.IH [OF s(1)] Cons.prems(2-4) by simp
  with s(2) Cons.prems(4) show ?case by (auto simp: effect_key_def split: option.splits)
qed simp

lemma replay_effects_single:
  assumes "replay_effects ctx D kind resulting n balances es = Inr (n', balances', es')" and "list_all (sound_effect D) es"
    and "length es \<le> 1"
  shows "es' = [] \<or> map replay_identity es' = map replay_identity es"
proof (cases es)
  case (Cons e rest)
  then have e: "sound_effect D e" "rest = []" using assms(2,3) by simp_all
  show ?thesis
  proof (rule replay_effects_ConsE [OF assms(1) [unfolded Cons] e(1)])
    fix e1 b1 es1
    assume s: "replay_effects ctx D kind resulting (n + 1) b1 rest = Inr (n', balances', es1)"
      "es' = (if effect_key e1 \<noteq> None \<and> Money_IsZero D (the (e_money e1)) then es1 else e1 # es1)"
      "replay_identity e1 = replay_identity e"
    from s(1) have "es1 = []" by (simp add: e(2))
    with s(2,3) show ?thesis by (simp add: Cons e(2))
  qed
qed (use assms in simp)

lemma undoable_replayed:
  assumes "replay_effects ctx D (act_kind a) resulting n balances (recorded_effects a) = Inr (n', balances', es)"
    and "list_all (sound_effect D) (recorded_effects a)" and "undoable D a"
  shows "es = [] \<or> map replay_identity es = map replay_identity (recorded_effects a)"
proof (cases "act_kind a = ActivityValueUpdate")
  case True
  with assms(3) show ?thesis by (intro replay_effects_single [OF assms(1,2)]) (simp add: undoable_def)
next
  case False
  with assms(3) have "es = recorded_effects a" by (intro replay_effects_keeps [OF assms(1,2)]) (simp_all add: undoable_def)
  then show ?thesis by simp
qed

text \<open>The undo of replayed effects moves back exactly what they moved.\<close>

lemma find_identity:
  "distinct (map replay_identity es) \<Longrightarrow> e \<in> set es \<Longrightarrow> find (\<lambda>x. replay_identity x = replay_identity e) es = Some e"
  by (induction es) auto

lemma reversed_effect_moves:
  assumes "list_all identified es" and "distinct (map replay_identity es)" and "list_all (sound_effect D) es"
    and "e \<in> set es" and "replay_identity r = replay_identity e"
  shows "moved D key (reversed_effect es r) = - moved D key e"
proof -
  have "identified r" using identified_identity [OF assms(5)] assms(1,4) by (simp add: list_all_iff)
  then have "find (sameReplayEndpoint r) es = find (\<lambda>x. replay_identity x = replay_identity e) es"
    using assms(1,5) by (intro find_cong) (auto simp: same_endpoint_iff list_all_iff)
  then have f: "find (sameReplayEndpoint r) es = Some e" using find_identity [OF assms(2,4)] by simp
  have "e_target r = e_target e" "e_account r = e_account e" using assms(5) by (simp_all add: replay_identity_def)
  then have "effect_key (reversed_effect es r) = effect_key e"
    by (simp add: reversed_effect_def f effect_key_def split: option.splits)
  moreover have "e_direction e \<in> {EffectAdded, EffectRemoved}" using assms(3,4) by (simp add: list_all_iff sound_effect_def)
  ultimately show ?thesis by (auto simp: moved_def reversed_effect_def f)
qed

lemma inverse_identities:
  "map replay_identity (inverse_effects R i es) = rev (map replay_identity es)"
proof -
  have "map replay_identity (inverse_effects R i es) = map (\<lambda>p. replay_identity (snd p)) (enumerate 0 (rev es))"
    by (auto simp: inverse_effects_def replay_identity_def)
  also have "\<dots> = map replay_identity (map snd (enumerate 0 (rev es)))" by (simp only: map_map o_def)
  finally show ?thesis by (simp add: rev_map)
qed

lemma undo_moves_back:
  assumes "list_all identified es" and "distinct (map replay_identity es)" and "list_all (sound_effect D) es"
    and "map replay_identity rs = rev (map replay_identity es)"
  shows "moved_by D key (map (reversed_effect es) rs) = - moved_by D key es"
proof -
  let ?g = "\<lambda>i. - moved D key (the (find (\<lambda>x. replay_identity x = i) es))"
  have g: "moved D key (reversed_effect es r) = ?g (replay_identity r)" if "r \<in> set rs" for r
  proof -
    have "replay_identity r \<in> set (map replay_identity es)" using that assms(4) by (metis imageI list.set_map set_rev)
    then obtain e where e: "e \<in> set es" "replay_identity r = replay_identity e" by auto
    with reversed_effect_moves [OF assms(1-3) e] show ?thesis by (simp add: find_identity [OF assms(2)])
  qed
  have "moved_by D key (map (reversed_effect es) rs) = sum_list (map ?g (map replay_identity rs))"
    by (simp add: moved_by_def g cong: map_cong)
  also have "\<dots> = sum_list (map ?g (map replay_identity es))"
    unfolding assms(4) by (simp only: rev_map [symmetric] sum_list_rev)
  also have "\<dots> = sum_list (map (\<lambda>e. - moved D key e) es)"
    by (intro arg_cong [where f = sum_list]) (simp add: find_identity [OF assms(2)] cong: map_cong)
  also have "\<dots> = - moved_by D key es" by (simp add: moved_by_def uminus_sum_list_map o_def)
  finally show ?thesis .
qed

subsection \<open>One activity of a replayed history\<close>

lemma prior_after_last: "act_id a \<notin> act_id ` set ys \<Longrightarrow> prior_after prior (xs @ a # ys) (act_id a) = Some (act_effects a)"
proof -
  have "prior_after prior ys i = prior i" if "i \<notin> act_id ` set ys" for prior i
    using that by (induction ys arbitrary: prior) (auto simp: prior_after_def)
  moreover have "prior_after prior (xs @ a # ys) = prior_after ((prior_after prior xs)(act_id a \<mapsto> act_effects a)) ys"
    by (simp add: prior_after_def)
  ultimately show "act_id a \<notin> act_id ` set ys \<Longrightarrow> prior_after prior (xs @ a # ys) (act_id a) = Some (act_effects a)" by simp
qed

lemma replay_at:
  assumes "ReplayMoneyEffectsContext ctx D as components = Inr r" and "list_all (sound_activity D) as"
    and "\<forall>c \<in> set components. pred_option (valid_money D) (hc_amount c)" and "i < length as"
  obtains n balances n' balances' where
    "replay_effects ctx D (act_kind (as ! i)) (act_resulting (as ! i)) n balances
       (effects_to_replay (prior_after Map.empty (take i r)) (as ! i)) = Inr (n', balances', act_effects (r ! i))"
    and "sound_prior D (prior_after Map.empty (take i r))"
    and "\<forall>key. d_val D (balance D balances key) = starting_balance D components key + moved_in D key (take i r)"
    and "\<forall>key. on_grid 4 (d_val D (balance D balances key))" and "length r = length as" and "map act_id r = map act_id as"
proof -
  obtain n0 b0 where start: "component_balances ctx 0 Map.empty components = Inr (n0, b0)"
      "replay_activities ctx D n0 b0 Map.empty as = Inr r"
    using assms(1) by (auto simp: ReplayMoneyEffectsContext_def)
  have e: "sound_prior D Map.empty" by (simp add: sound_prior_def)
  from replay_activities_append [of ctx n0 b0 Map.empty as "[]" r] start(2) assms(2) e
  have l: "length r = length as \<and> map act_id r = map act_id as" by fastforce
  have "replay_activities ctx D n0 b0 Map.empty (take i as @ as ! i # drop (Suc i) as) = Inr r"
    using start(2) assms(4) by (simp add: id_take_nth_drop [symmetric])
  moreover have "list_all (sound_activity D) (take i as)"
    using assms(2) by (auto simp: list_all_iff dest: in_set_takeD)
  ultimately obtain n1 b1 r1 r2 where split: "r = r1 @ r2" "length r1 = i"
      "replay_activities ctx D n1 b1 (prior_after Map.empty r1) (as ! i # drop (Suc i) as) = Inr r2"
      "sound_prior D (prior_after Map.empty r1)"
      "\<forall>key. d_val D (balance D b1 key) = d_val D (balance D b0 key) + moved_in D key r1 \<and> on_grid 4 (moved_in D key r1)"
    using replay_activities_append [OF _ _ e] assms(4) by (metis (no_types, lifting) length_take less_imp_le_nat min_absorb2)
  then have "take i r = r1" "r ! i = hd r2" by (auto simp: nth_append hd_conv_nth)
  moreover obtain n2 b2 where "replay_effects ctx D (act_kind (as ! i)) (act_resulting (as ! i)) (n1 + 1) b1
      (effects_to_replay (prior_after Map.empty r1) (as ! i)) = Inr (n2, b2, act_effects (hd r2))"
    using split(3) by auto
  moreover have "d_val D (balance D b1 key) = starting_balance D components key + moved_in D key r1"
    and "on_grid 4 (d_val D (balance D b1 key))" for key
    using split(5) component_balances_start [OF start(1)] starting_balance_grid [OF assms(3)] by (simp_all add: on_grid_add)
  ultimately show thesis using split(4) l by (intro that [of "n1 + 1" b1 n2 b2]) simp_all
qed

lemma keeps_observations:
  assumes "ReplayMoneyEffectsContext ctx D as components = Inr r" and "list_all (sound_activity D) as"
    and "\<forall>c \<in> set components. pred_option (valid_money D) (hc_amount c)" and "i < length as"
    and "act_kind (as ! i) = ActivityValueUpdate" and "act_reverses (as ! i) = None"
    and "distinct (map effect_key (recorded_effects (as ! i)))" and "e \<in> set (recorded_effects (as ! i))"
    and "e_money e = Some money" and "e_account e = Some account"
    and "observation_of (act_resulting (as ! i)) e account money = Some v"
  shows "\<exists>target. d_from_string D (ev_amount v) = Inr target
    \<and> starting_balance D components (the (effect_key e)) + moved_in D (the (effect_key e)) (take (Suc i) r) = d_val D target"
proof (rule replay_at [OF assms(1-4)])
  fix n balances n' balances'
  assume "replay_effects ctx D (act_kind (as ! i)) (act_resulting (as ! i)) n balances
      (effects_to_replay (prior_after Map.empty (take i r)) (as ! i)) = Inr (n', balances', act_effects (r ! i))"
    and b: "\<forall>key. d_val D (balance D balances key) = starting_balance D components key + moved_in D key (take i r)"
      "\<forall>key. on_grid 4 (d_val D (balance D balances key))" "length r = length as"
  then have step: "replay_effects ctx D ActivityValueUpdate (act_resulting (as ! i)) n balances (recorded_effects (as ! i))
      = Inr (n', balances', act_effects (r ! i))"
    using assms(5,6) by (simp add: effects_to_replay_def)
  have s: "sound_activity D (as ! i)" using assms(2,4) by (simp add: list_all_length)
  then have r: "list_all (sound_effect D) (recorded_effects (as ! i))" by (simp add: sound_activity_def)
  from replay_effects_observes [OF step r b(2) _ assms(7-11)] s obtain target where
    "d_from_string D (ev_amount v) = Inr target" "d_val D (balance D balances' (the (effect_key e))) = d_val D target"
    by (auto simp: sound_activity_def)
  with replay_effects_balances(1) [OF step r] b(1,3) assms(4) show ?thesis by (simp add: take_Suc_conv_app_nth)
qed

lemma inverts_undo:
  assumes "ReplayMoneyEffectsContext ctx D as components = Inr r" and "list_all (sound_activity D) as"
    and "\<forall>c \<in> set components. pred_option (valid_money D) (hc_amount c)" and "i < j" and "j < length as"
    and "act_reverses (as ! i) = None" and "undoable D (as ! i)"
    and "act_reverses (as ! j) = Some (act_id (as ! i))" and "act_kind (as ! j) \<noteq> ActivityValueUpdate"
    and "recorded_effects (as ! j) = inverse_effects R k (recorded_effects (as ! i))"
    and "\<forall>m. i < m \<longrightarrow> m < j \<longrightarrow> act_id (as ! m) \<noteq> act_id (as ! i)"
  shows "moved_by D key (act_effects (r ! j)) = - moved_by D key (act_effects (r ! i))"
proof -
  have ij: "i < length as" using assms(4,5) by simp
  let ?es = "act_effects (r ! i)"
  have rec: "list_all (sound_effect D) (recorded_effects (as ! i))"
    using assms(2) ij by (simp add: list_all_length sound_activity_def)
  obtain n1 b1 n2 b2 where si: "replay_effects ctx D (act_kind (as ! i)) (act_resulting (as ! i)) n1 b1 (recorded_effects (as ! i)) = Inr (n2, b2, ?es)"
      and l: "length r = length as" "map act_id r = map act_id as"
    by (rule replay_at [OF assms(1-3) ij]) (simp add: effects_to_replay_def assms(6))
  obtain n3 b3 n4 b4 where sj: "replay_effects ctx D (act_kind (as ! j)) (act_resulting (as ! j)) n3 b3
      (effects_to_replay (prior_after Map.empty (take j r)) (as ! j)) = Inr (n4, b4, act_effects (r ! j))"
      and p: "sound_prior D (prior_after Map.empty (take j r))"
    by (rule replay_at [OF assms(1-3,5)])
  have ids: "act_id (r ! m) = act_id (as ! m)" if "m < length as" for m using that l by (metis nth_map)
  have "take j r = take i (take j r) @ take j r ! i # drop (Suc i) (take j r)"
    by (rule id_take_nth_drop) (use assms(4,5) l(1) in simp)
  then have "take j r = take i r @ r ! i # drop (Suc i) (take j r)" using assms(4) by (simp add: min_def)
  moreover have "act_id (r ! i) \<notin> act_id ` set (drop (Suc i) (take j r))"
  proof
    assume "act_id (r ! i) \<in> act_id ` set (drop (Suc i) (take j r))"
    then obtain m where "m < j - Suc i" and e: "act_id (r ! i) = act_id (r ! (Suc i + m))"
      using l(1) assms(5) by (auto simp: in_set_conv_nth)
    then have m: "Suc i + m < j" by simp
    with e assms(5) have "act_id (as ! (Suc i + m)) = act_id (as ! i)" by (simp add: ids ij)
    with assms(11) m(1) show False by auto
  qed
  ultimately have "prior_after Map.empty (take j r) (act_id (r ! i)) = Some ?es"
    using prior_after_last [of "r ! i"] by metis
  then have e: "effects_to_replay (prior_after Map.empty (take j r)) (as ! j)
      = (if ?es = [] then [] else map (reversed_effect ?es) (recorded_effects (as ! j)))"
    by (simp add: effects_to_replay_def assms(8) ids [OF ij])
  have "moved_by D key (act_effects (r ! j)) = moved_by D key (effects_to_replay (prior_after Map.empty (take j r)) (as ! j))"
    using assms(2,5) p by (intro replay_effects_moved [OF sj _ assms(9)] effects_to_replay_sound) (simp_all add: list_all_length)
  moreover have "moved_by D key (map (reversed_effect ?es) (recorded_effects (as ! j))) = - moved_by D key ?es" if "?es \<noteq> []"
  proof -
    have m: "map replay_identity ?es = map replay_identity (recorded_effects (as ! i))"
      using undoable_replayed [OF si rec assms(7)] that by simp
    then have "list_all identified ?es"
      using assms(7) identified_map by (auto simp: undoable_def)
    with m assms(7,10) replay_effects_balances(2) [OF si rec] show ?thesis
      by (intro undo_moves_back) (simp_all add: inverse_identities undoable_def)
  qed
  ultimately show ?thesis by (simp add: e)
qed

end

section \<open>Properties\<close>

text \<open>A sample history: a later deposit of 30 is inserted before an observation of 150 on a start of
  100, which had been recorded as a gain of 50 and was then undone.\<close>

definition sample_move :: "EffectDirection \<Rightarrow> int \<Rightarrow> dec ActivityEffect" where
  "sample_move direction n =
     \<lparr> e_id = ''e'', e_activity_id = ''x'', e_sequence = 1, e_role = EffectRoleAmount, e_direction = direction,
        e_target = EffectTargetAccountValue, e_classification = ClassificationRemeasurement, e_account = Some ''a'',
        e_holding = None, e_instrument = None, e_money = Some \<lparr> m_amount = Dec n 0, m_currency = ''USD'' \<rparr>,
        e_quantity = None, e_cost = None \<rparr>"

definition sample_view :: "dec EndpointView" where
  "sample_view = \<lparr> ev_target = EffectTargetAccountValue, ev_account = Some ''a'', ev_holding = None, ev_cost = None,
     ev_name = ''A'', ev_amount = ''150'', ev_quantity = [], ev_currency = ''USD'' \<rparr>"

definition sample_step :: "ActivityID \<Rightarrow> ActivityKind \<Rightarrow> ActivityID option \<Rightarrow> dec EndpointView list \<Rightarrow> dec ActivityEffect list \<Rightarrow> dec Activity" where
  "sample_step i kind reverses views effects = \<lparr> act_id = i, act_household_id = ''hh'', act_kind = kind, act_reason = ReasonNone,
     act_effective_at = 0, act_effective_local_date = [], act_created_at = 0, act_note = None, act_reverses = reverses,
     act_correction_group_id = None, act_fx_rate = None, act_trade_detail = None, act_dividend_detail = None,
     act_resulting = views, act_effects = effects, act_recorded = None \<rparr>"

definition sample_ids :: runtime where
  "sample_ids = \<lparr> rt_new_id = (\<lambda>_. ''e''), rt_new_holding_id = ''new'', rt_load_location = (\<lambda>_. None), rt_holding_order = [] \<rparr>"

definition sample_history :: "dec Activity list" where
  "sample_history =
     [sample_step ''1'' ActivityCashIn None [] [sample_move EffectAdded 30],
      sample_step ''2'' ActivityValueUpdate None [sample_view] [sample_move EffectAdded 50],
      sample_step ''3'' ActivityReversal (Some ''2'') [] (inverse_effects sample_ids ''x'' [sample_move EffectAdded 50])]"

definition sample_components :: "dec HistoryOriginComponent list" where
  "sample_components = [\<lparr> hc_id = ''c'', hc_origin_id = ''o'', hc_kind = HistoryOriginAccountValue, hc_account = Some ''a'',
     hc_holding = None, hc_instrument = None, hc_amount = Some \<lparr> m_amount = Dec 100 0, m_currency = ''USD'' \<rparr>,
     hc_quantity = None, hc_unit_cost = None, hc_created_at = 1 \<rparr>]"

lemma sample_delta:
  "NewMoney ref_decimal (d_abs ref_decimal (d_sub ref_decimal (Dec 150 0) (Dec 130 0))) ''USD''
     = Inr \<lparr> m_amount = Dec 200000 (- 4), m_currency = ''USD'' \<rparr>"
  "d_from_string ref_decimal ''150'' = Inr (Dec 150 0)" "d_add ref_decimal (Dec 100 0) (Dec 30 0) = Dec 130 0"
  by code_simp+

lemma sample_observed:
  "observed_effect ref_decimal (Dec 130 0) sample_view (sample_move EffectAdded 50)
     = Inr ((sample_move EffectAdded 50) \<lparr> e_money := Some \<lparr> m_amount = Dec 200000 (- 4), m_currency = ''USD'' \<rparr> \<rparr>,
         \<lparr> m_amount = Dec 200000 (- 4), m_currency = ''USD'' \<rparr>)"
proof -
  have "\<not> d_is_negative ref_decimal (d_sub ref_decimal (Dec 150 0) (Dec 130 0))" by code_simp
  with sample_delta show ?thesis
    by (simp add: observed_effect_def sample_view_def sample_move_def Let_def del: ref_decimal_simps)
qed

lemma sample_step_fields [simp]:
  "act_id (sample_step i kind reverses views effects) = i" "act_kind (sample_step i kind reverses views effects) = kind"
  "act_reverses (sample_step i kind reverses views effects) = reverses" "act_resulting (sample_step i kind reverses views effects) = views"
  "recorded_effects (sample_step i kind reverses views effects) = effects"
  by (simp_all add: sample_step_def recorded_effects_def)

lemma sample_move_fields [simp]:
  "e_target (sample_move d n) = EffectTargetAccountValue" "e_account (sample_move d n) = Some ''a''"
  "e_money (sample_move d n) = Some \<lparr> m_amount = Dec n 0, m_currency = ''USD'' \<rparr>" "e_direction (sample_move d n) = d"
  "e_role (sample_move d n) = EffectRoleAmount" "e_holding (sample_move d n) = None"
  by (simp_all add: sample_move_def)

lemma sample_inverse: "inverse_effects sample_ids ''x'' [sample_move EffectAdded n] = [sample_move EffectRemoved n]"
  by (simp add: inverse_effects_def inverse_direction_def sample_ids_def sample_move_def enumerate_eq_zip)

lemma sample_observation:
  "observation_of [sample_view] (sample_move d n) ''a'' \<lparr> m_amount = v, m_currency = ''USD'' \<rparr> = Some sample_view"
  by (simp add: observation_of_def sample_view_def)

lemma sample_nonzero: "Money_IsZero ref_decimal \<lparr> m_amount = Dec n k, m_currency = c \<rparr> \<longleftrightarrow> n = 0"
  by (simp add: Money_IsZero_def)

lemma sample_replayed: "is_ok (ReplayMoneyEffects ref_decimal sample_history sample_components)"
  by (simp add: ReplayMoneyEffects_def ReplayMoneyEffectsContext_def sample_components_def sample_history_def ctx_poll_def
      background_def effects_to_replay_def replay_effects.simps(2) replayed_effect_def balance_def sample_observation
      sample_delta(3) sample_observed sample_nonzero sample_inverse reversed_effect_def sameReplayEndpoint_def Let_def
      del: ref_decimal_simps)

lemma sample_sound:
  "list_all (sound_activity ref_decimal) sample_history"
  "\<forall>c \<in> set sample_components. pred_option (valid_money ref_decimal) (hc_amount c)"
proof -
  have "sound_effect ref_decimal (sample_move d n)" if "d = EffectAdded \<or> d = EffectRemoved" "0 \<le> n" "n \<le> 100" for d n
    using that by (auto simp: sound_effect_def valid_money_def valid_currency_def upper_letter_def dv_def max_money_def)
  moreover have "on_grid 4 (dv (Dec 150 0))" by (rule on_gridI [of _ "1500000"]) (simp add: dv_def)
  then have "\<forall>target. d_from_string ref_decimal (ev_amount sample_view) = Inr target \<longrightarrow> on_grid 4 (d_val ref_decimal target)"
    using sample_delta(2) by (simp add: sample_view_def)
  ultimately show "list_all (sound_activity ref_decimal) sample_history"
    by (simp add: sample_history_def sound_activity_def sample_inverse del: ref_decimal_simps)
  show "\<forall>c \<in> set sample_components. pred_option (valid_money ref_decimal) (hc_amount c)"
    by (simp add: sample_components_def valid_money_def valid_currency_def upper_letter_def dv_def max_money_def)
qed

text \<open>C16. Observations are kept: after a replay, the starting balance of an account plus everything the
  replayed activities move up to and including a value update is exactly the value that update
  recorded, whatever was inserted or changed before it.\<close>

theorem ReplayMoneyEffects_keeps_observations:
  assumes "decimal_lib D" and "ReplayMoneyEffects D as components = Inr r" and "list_all (sound_activity D) as"
    and "\<forall>c \<in> set components. pred_option (valid_money D) (hc_amount c)" and "i < length as"
    and "act_kind (as ! i) = ActivityValueUpdate" and "act_reverses (as ! i) = None"
    and "distinct (map effect_key (recorded_effects (as ! i)))" and "e \<in> set (recorded_effects (as ! i))"
    and "e_money e = Some money" and "e_account e = Some account"
    and "observation_of (act_resulting (as ! i)) e account money = Some v"
  shows "\<exists>target. d_from_string D (ev_amount v) = Inr target
    \<and> starting_balance D components (replayMoneyKey (e_target e) account (m_currency money))
       + moved_in D (replayMoneyKey (e_target e) account (m_currency money)) (take (Suc i) r) = d_val D target"
proof -
  have "the (effect_key e) = replayMoneyKey (e_target e) account (m_currency money)"
    by (simp add: effect_key_def assms(10,11))
  with decimal_lib.keeps_observations [OF assms(1) assms(2) [unfolded ReplayMoneyEffects_def] assms(3-)] show ?thesis by simp
qed

theorem ReplayMoneyEffects_keeps_observations_witness:
  "\<exists>r. ReplayMoneyEffects ref_decimal sample_history sample_components = Inr r
     \<and> starting_balance ref_decimal sample_components (replayMoneyKey EffectTargetAccountValue ''a'' ''USD'')
        + moved_in ref_decimal (replayMoneyKey EffectTargetAccountValue ''a'' ''USD'') (take 2 r) = 150"
proof -
  obtain r where r: "ReplayMoneyEffects ref_decimal sample_history sample_components = Inr r"
    using sample_replayed by (auto simp: is_ok_iff)
  have a: "sample_history ! Suc 0 = sample_step ''2'' ActivityValueUpdate None [sample_view] [sample_move EffectAdded 50]"
    "Suc 0 < length sample_history"
    by (simp_all add: sample_history_def)
  have "ev_amount sample_view = ''150''" by (simp add: sample_view_def)
  with ReplayMoneyEffects_keeps_observations [OF ref.decimal_lib_axioms r sample_sound a(2), of "sample_move EffectAdded 50" "\<lparr> m_amount = Dec 50 0, m_currency = ''USD'' \<rparr>" "''a''" sample_view]
    r sample_delta(2) show ?thesis
    by (simp add: a sample_observation dv_def numeral_2_eq_2)
qed

text \<open>Undo records follow: a replayed undo moves back at every account exactly what the replayed
  activity it undoes now moves, also when that differs from what was recorded.\<close>

theorem ReplayMoneyEffects_inverts_undo:
  assumes "decimal_lib D" and "ReplayMoneyEffects D as components = Inr r" and "list_all (sound_activity D) as"
    and "\<forall>c \<in> set components. pred_option (valid_money D) (hc_amount c)" and "i < j" and "j < length as"
    and "act_reverses (as ! i) = None" and "undoable D (as ! i)"
    and "act_reverses (as ! j) = Some (act_id (as ! i))" and "act_kind (as ! j) = ActivityReversal"
    and "recorded_effects (as ! j) = inverse_effects R k (recorded_effects (as ! i))"
    and "\<forall>m. i < m \<longrightarrow> m < j \<longrightarrow> act_id (as ! m) \<noteq> act_id (as ! i)"
  shows "moved_by D key (act_effects (r ! j)) = - moved_by D key (act_effects (r ! i))"
  using decimal_lib.inverts_undo [OF assms(1) assms(2) [unfolded ReplayMoneyEffects_def] assms(3-9) _ assms(11,12)] assms(10)
  by simp

theorem ReplayMoneyEffects_inverts_undo_witness:
  "\<exists>r. ReplayMoneyEffects ref_decimal sample_history sample_components = Inr r
     \<and> (\<forall>key. moved_by ref_decimal key (act_effects (r ! 2)) = - moved_by ref_decimal key (act_effects (r ! 1)))"
proof -
  obtain r where r: "ReplayMoneyEffects ref_decimal sample_history sample_components = Inr r"
    using sample_replayed by (auto simp: is_ok_iff)
  have a: "sample_history ! Suc 0 = sample_step ''2'' ActivityValueUpdate None [sample_view] [sample_move EffectAdded 50]"
    "sample_history ! 2 = sample_step ''3'' ActivityReversal (Some ''2'') [] (inverse_effects sample_ids ''x'' [sample_move EffectAdded 50])"
    "2 < length sample_history"
    by (simp_all add: sample_history_def numeral_2_eq_2)
  have "undoable ref_decimal (sample_history ! Suc 0)" by (simp add: a undoable_def identified_def)
  with ReplayMoneyEffects_inverts_undo [OF ref.decimal_lib_axioms r sample_sound _ a(3), of "Suc 0" sample_ids "''x''"] r show ?thesis
    by (simp add: a)
qed

text \<open>Replaying a replayed history changes nothing, under any context: the recorded effects are
  kept beside the computed ones, and the computation starts from them.\<close>

theorem ReplayMoneyEffects_idempotent:
  "(case ReplayMoneyEffectsContext ctx D as components of
      Inl e \<Rightarrow> True
    | Inr r \<Rightarrow> ReplayMoneyEffectsContext ctx D r components = Inr r
        \<and> map recorded_effects r = map recorded_effects as \<and> map act_id r = map act_id as)"
proof -
  have "map recorded_effects r = map recorded_effects as \<and> map act_id r = map act_id as"
    if "replay_activities ctx D n balances prior as = Inr r" for n balances prior r
    using that by (induction ctx D n balances prior as arbitrary: r rule: replay_activities.induct) auto
  then show ?thesis
    by (auto simp: ReplayMoneyEffectsContext_def intro: replay_activities_again split: sum.splits)
qed

end
