(* ===== verification/LiquidityCalendar.thy ===== *)
theory LiquidityCalendar
  imports Calendar DomainBase
begin

text \<open>
  Civil dates as texts: \<^verbatim>\<open>internal/domain/liquidity_calendar.go\<close>.  Dates are compared as texts and
  computed with as day numbers; the weekday loop is a terminating recursive function.  Go's
  durations saturate at the largest 64-bit number of nanoseconds, which the count of days between
  two dates passes through.
\<close>

section \<open>The model\<close>

definition maxLiquidityHorizonYears :: int where
  "maxLiquidityHorizonYears = 10"

definition ParseCivilDate :: "string \<Rightarrow> string \<Rightarrow> string res" where
  "ParseCivilDate field value =
     (let trimmed = trim_space value in
      if trimmed = [] then Inl (validation field ''must use YYYY-MM-DD'')
      else
        res_bind (normalizeDate field (Some trimmed)) (\<lambda>canonical.
        case canonical of
          None \<Rightarrow> Inl (validation field ''must use YYYY-MM-DD'')
        | Some date \<Rightarrow> Inr date))"

text \<open>The parsed time is the midnight of a day, kept as its day number.\<close>

definition parseCivilTime :: "string \<Rightarrow> string \<Rightarrow> int res" where
  "parseCivilTime field value =
     res_bind (ParseCivilDate field value) (\<lambda>canonical.
     case parse_date canonical of
       None \<Rightarrow> Inl (validation field ''must use YYYY-MM-DD'')
     | Some (y, m, d) \<Rightarrow> Inr (date_days y m d))"

definition day_text :: "int \<Rightarrow> string" where
  "day_text n = format_date (civil_of_days n)"

definition compareCivilDates :: "string \<Rightarrow> string \<Rightarrow> int" where
  "compareCivilDates left right = (if left < right then - 1 else if right < left then 1 else 0)"

definition max_duration :: int where
  "max_duration = 2 ^ 63 - 1"

definition CivilDaysBetween :: "string \<Rightarrow> string \<Rightarrow> int res" where
  "CivilDaysBetween start finish =
     res_bind (parseCivilTime ''startOn'' start) (\<lambda>startTime.
     res_bind (parseCivilTime ''endOn'' finish) (\<lambda>endTime.
     if endTime < startTime then Inl (validation ''endOn'' ''must not precede startOn'')
     else Inr (min ((endTime - startTime) * day_ns) max_duration div hour div 24)))"

definition AddCalendarDays :: "string \<Rightarrow> int \<Rightarrow> string res" where
  "AddCalendarDays date days = res_bind (parseCivilTime ''date'' date) (\<lambda>parsed. Inr (day_text (parsed + days)))"

text \<open>\<^verbatim>\<open>Time.Weekday\<close>: day 0 of the calendar is a Monday; 0 is Sunday, 6 is Saturday.\<close>

definition weekday :: "int \<Rightarrow> int" where
  "weekday n = (n + 1) mod 7"

definition working_day :: "int \<Rightarrow> bool" where
  "working_day n \<longleftrightarrow> weekday n \<noteq> 6 \<and> weekday n \<noteq> 0"

text \<open>The days left until the next working day bound the iterations that do not count.\<close>

definition weekend_ahead :: "int \<Rightarrow> nat" where
  "weekend_ahead n = (if weekday (n + 1) = 6 then 2 else if weekday (n + 1) = 0 then 1 else 0)"

function weekday_loop :: "int \<Rightarrow> int \<Rightarrow> int" where
  "weekday_loop remaining parsed =
     (if 0 < remaining
      then weekday_loop (if working_day (parsed + 1) then remaining - 1 else remaining) (parsed + 1)
      else parsed)"
  by pat_completeness auto

termination
proof (relation "measure (\<lambda>(remaining, n). 3 * nat remaining + weekend_ahead n)", goal_cases)
  case (2 remaining parsed)
  have "weekday (parsed + 1) = 6 \<Longrightarrow> weekday (parsed + 2) = 0" "weekday (parsed + 1) = 0 \<Longrightarrow> weekday (parsed + 2) = 1"
    unfolding weekday_def by presburger+
  with 2 show ?case by (auto simp: weekend_ahead_def working_day_def add.commute)
qed simp

declare weekday_loop.simps [simp del]

definition AddWeekdays :: "string \<Rightarrow> int \<Rightarrow> string res" where
  "AddWeekdays date days =
     (if days < 0 then Inl (validation ''settlementDays'' ''must not be negative'')
      else res_bind (parseCivilTime ''date'' date) (\<lambda>parsed. Inr (day_text (weekday_loop days parsed))))"

datatype DayBasis = DayBasisCalendar | DayBasisWeekdays | DayBasis_unknown string

definition SettlementReceiptOn :: "string \<Rightarrow> int \<Rightarrow> DayBasis \<Rightarrow> string res" where
  "SettlementReceiptOn eligibleOn days basis =
     (if days < 0 \<or> 365 < days then Inl (validation ''settlementDays'' ''must be between 0 and 365'')
      else if days = 0 then ParseCivilDate ''eligibleOn'' eligibleOn
      else case basis of
        DayBasisCalendar \<Rightarrow> AddCalendarDays eligibleOn days
      | DayBasisWeekdays \<Rightarrow> AddWeekdays eligibleOn days
      | DayBasis_unknown _ \<Rightarrow> Inl (validation ''dayBasis'' ''must be calendar or weekdays''))"

definition LocalCivilDate :: "(string \<Rightarrow> zone option) \<Rightarrow> go_time \<Rightarrow> string \<Rightarrow> (string \<times> string) res" where
  "LocalCivilDate load_location asOf timezone =
     (let zone = trim_space timezone in
      if zone = [] then Inr (local_date (\<lambda>_. 0) asOf, ''UTC'')
      else case load_location zone of
        None \<Rightarrow> Inl (validation ''timezone'' ''must be a valid IANA timezone'')
      | Some location \<Rightarrow> Inr (local_date location asOf, zone))"

definition horizon_limit :: "string \<Rightarrow> string res" where
  "horizon_limit today =
     res_bind (ParseCivilDate ''today'' today) (\<lambda>canonical.
     case parse_date canonical of
       None \<Rightarrow> Inl (validation ''today'' ''must use YYYY-MM-DD'')
     | Some (y, m, d) \<Rightarrow> Inr (day_text (date_days (y + maxLiquidityHorizonYears) m d)))"

definition LiquidityHorizons :: "string \<Rightarrow> string option \<Rightarrow> string list res" where
  "LiquidityHorizons today custom =
     res_bind (ParseCivilDate ''today'' today) (\<lambda>today.
     res_bind (AddCalendarDays today 7) (\<lambda>plus7.
     res_bind (AddCalendarDays today 30) (\<lambda>plus30.
     let horizons = [today, plus7, plus30] in
     case custom of
       None \<Rightarrow> Inr horizons
     | Some c \<Rightarrow>
         res_bind (ParseCivilDate ''customHorizonOn'' c) (\<lambda>customOn.
         if compareCivilDates customOn today < 0 then Inl (validation ''customHorizonOn'' ''must be today or later'')
         else
           res_bind (horizon_limit today) (\<lambda>limit.
           if 0 < compareCivilDates customOn limit
           then Inl (validation ''customHorizonOn'' (''must be at most '' @ big_string maxLiquidityHorizonYears @ '' calendar years ahead''))
           else if customOn \<in> set horizons then Inr horizons
           else Inr (horizons @ [customOn]))))))"

section \<open>Order and texts\<close>

lemma append_less:
  fixes a b s t :: string
  shows "length a = length b \<Longrightarrow> a @ s < b @ t \<longleftrightarrow> a < b \<or> (a = b \<and> s < t)"
  by (induction a b rule: list_induct2) auto

lemma digit_less: "is_digit c \<Longrightarrow> is_digit d \<Longrightarrow> c < d \<longleftrightarrow> digit_val c < digit_val d"
  by (auto simp: is_digit_iff digit_val_def less_char_def)

lemma string_nat_Cons: "string_nat (c # s) = digit_val c * 10 ^ length s + string_nat s"
  using string_nat_append [of "[c]" s] by (simp add: string_nat_def)

lemma string_nat_bound: "list_all is_digit s \<Longrightarrow> string_nat s < 10 ^ length s"
  by (induction s rule: rev_induct) (auto simp: is_digit_iff digit_val_def)

lemma digits_less:
  "length s = length t \<Longrightarrow> list_all is_digit s \<Longrightarrow> list_all is_digit t \<Longrightarrow> s < t \<longleftrightarrow> string_nat s < string_nat t"
proof (induction s t rule: list_induct2)
  case (Cons c s d t)
  have b: "string_nat s < 10 ^ length s" "string_nat t < 10 ^ length s"
    using Cons string_nat_bound [of s] string_nat_bound [of t] by simp_all
  have "string_nat (c # s) < string_nat (d # t) \<longleftrightarrow> digit_val c < digit_val d \<or> (digit_val c = digit_val d \<and> string_nat s < string_nat t)"
  proof -
    have "digit_val c * 10 ^ length s + string_nat s < digit_val d * 10 ^ length s + string_nat t"
      if "digit_val c < digit_val d"
    proof -
      have "(digit_val c + 1) * 10 ^ length s \<le> digit_val d * 10 ^ length s" using that by (intro mult_right_mono) simp_all
      with b show ?thesis by (simp add: algebra_simps)
    qed
    moreover have "digit_val d * 10 ^ length s + string_nat t < digit_val c * 10 ^ length s + string_nat s"
      if "digit_val d < digit_val c"
    proof -
      have "(digit_val d + 1) * 10 ^ length s \<le> digit_val c * 10 ^ length s" using that by (intro mult_right_mono) simp_all
      with b show ?thesis by (simp add: algebra_simps)
    qed
    ultimately show ?thesis using Cons(1)
      by (cases "digit_val c" "digit_val d" rule: linorder_cases) (auto simp: string_nat_Cons)
  qed
  with Cons show ?case by (auto simp: digit_less dest: digit_val_inj)
qed simp

lemma pad_int_less:
  assumes "0 \<le> a" "a < 10 ^ k" "0 \<le> b" "b < 10 ^ k" "0 < k"
  shows "pad_int k a < pad_int k b \<longleftrightarrow> a < b"
  using assms by (auto simp: digits_less pad_int_length pad_int_nonneg)

text \<open>The days whose year has four digits.\<close>

definition plain_day :: "int \<Rightarrow> bool" where
  "plain_day n \<longleftrightarrow> - 366 \<le> n \<and> n < 3652059"

lemma plain_day_year:
  assumes "civil_of_days n = (y, m, d)" and "plain_day n"
  shows "0 \<le> y" and "y \<le> 9999"
proof -
  have y: "y = year_of_days n" using assms(1) by (auto simp: civil_of_days_def Let_def split: prod.splits)
  have "days_before_year 0 = - 366" "days_before_year 10000 = 3652059" by code_simp+
  with year_of_days_bounds [of n] assms(2) days_before_year_mono [of "y + 1" 0] days_before_year_mono [of 10000 y]
  show "0 \<le> y" "y \<le> 9999" unfolding y plain_day_def by linarith+
qed

lemma format_date_less:
  assumes "valid_date y m d" and "valid_date y' m' d'" and "0 \<le> y" "y \<le> 9999" "0 \<le> y'" "y' \<le> 9999"
  shows "format_date (y, m, d) < format_date (y', m', d') \<longleftrightarrow> y < y' \<or> y = y' \<and> (m < m' \<or> m = m' \<and> d < d')"
proof -
  have v: "1 \<le> m" "m \<le> 12" "1 \<le> d" "d \<le> 31" "1 \<le> m'" "m' \<le> 12" "1 \<le> d'" "d' \<le> 31"
    using assms(1,2) days_in_month_le [of y m] days_in_month_le [of y' m'] by (auto simp: valid_date_def)
  then have "length (pad_int 4 y) = length (pad_int 4 y')" "length (pad_int 2 m) = length (pad_int 2 m')"
    using assms by (simp_all add: pad_int_length)
  moreover have "pad_int 4 y = pad_int 4 y' \<longleftrightarrow> y = y'" "pad_int 2 m = pad_int 2 m' \<longleftrightarrow> m = m'" by (auto dest: pad_int_inj)
  ultimately show ?thesis using v assms(3-6) by (simp add: format_date_def append_less pad_int_less)
qed

lemma date_days_less:
  assumes "valid_date y m d" and "valid_date y' m' d'"
  shows "date_days y m d < date_days y' m' d' \<longleftrightarrow> y < y' \<or> y = y' \<and> (m < m' \<or> m = m' \<and> d < d')"
proof -
  note b = valid_date_bounds [OF assms(1)] and b' = valid_date_bounds [OF assms(2)]
  consider "y < y'" | "y' < y" | "y = y'" "m < m'" | "y = y'" "m' < m" | "y = y'" "m = m'" by linarith
  then show ?thesis
  proof cases
    case 1
    with b(2) b'(1) days_before_year_mono [of "y + 1" y'] show ?thesis by simp
  next
    case 2
    with b(1) b'(2) days_before_year_mono [of "y' + 1" y] show ?thesis by simp
  next
    case 3
    with b(4) b'(3) assms days_before_month_mono [of "m + 1" m' y] show ?thesis by (simp add: valid_date_def)
  next
    case 4
    with b(3) b'(4) assms days_before_month_mono [of "m' + 1" m y] show ?thesis by (simp add: valid_date_def)
  qed (simp add: date_days_def)
qed

lemma day_text_less:
  assumes "plain_day a" and "plain_day b"
  shows "day_text a < day_text b \<longleftrightarrow> a < b"
proof -
  obtain y m d y' m' d' where c: "civil_of_days a = (y, m, d)" "civil_of_days b = (y', m', d')" by (metis surj_pair)
  note a = civil_of_days_correct [OF c(1)] and b = civil_of_days_correct [OF c(2)]
  have v: "valid_date y m d" "valid_date y' m' d'" using a b by (simp_all add: valid_date_def)
  show ?thesis
    using format_date_less [OF v] date_days_less [OF v] plain_day_year [OF c(1) assms(1)] plain_day_year [OF c(2) assms(2)]
    by (simp add: day_text_def c a(1) b(1))
qed

lemma parse_date_format:
  assumes "valid_date y m d" and "0 \<le> y" "y \<le> 9999"
  shows "parse_date (format_date (y, m, d)) = Some (y, m, d)" and "list_all graphic (format_date (y, m, d))"
proof -
  have v: "1 \<le> m" "m \<le> 12" "1 \<le> d" "d \<le> days_in_month y m" "d \<le> 31"
    using assms(1) days_in_month_le [of y m] by (auto simp: valid_date_def)
  then have l: "length (pad_int 4 y) = 4" "length (pad_int 2 m) = 2" "length (pad_int 2 d) = 2"
    using assms(2,3) by (simp_all add: pad_int_length)
  have n: "string_nat (pad_int 4 y) = nat y" "string_nat (pad_int 2 m) = nat m" "string_nat (pad_int 2 d) = nat d"
    and g: "list_all is_digit (pad_int 4 y)" "list_all is_digit (pad_int 2 m)" "list_all is_digit (pad_int 2 d)"
    using v assms(2) by (simp_all add: pad_int_nonneg)
  show "parse_date (format_date (y, m, d)) = Some (y, m, d)"
    using l n g v assms(2) by (simp add: parse_date_def format_date_def Let_def nth_append nth_Cons' drop_Cons')
  have "is_digit c \<Longrightarrow> graphic c" for c by (simp add: is_digit_iff graphic_def)
  then show "list_all graphic (format_date (y, m, d))"
    using g by (auto simp: format_date_def list_all_iff graphic_def)
qed

lemma ParseCivilDate_Inr:
  assumes "ParseCivilDate field s = Inr c"
  obtains y m d where "c = trim_space s" and "c = format_date (y, m, d)" and "valid_date y m d" and "0 \<le> y" and "y \<le> 9999"
proof -
  obtain p where p: "parse_date (trim_space s) = Some p" "c = format_date p"
    using assms by (auto simp: ParseCivilDate_def normalizeDate_def Let_def split: if_splits option.splits)
  obtain y m d where e: "p = (y, m, d)" by (cases p)
  note t = parse_date_text [OF p(1) [unfolded e]]
  have "string_nat (take 4 (trim_space s)) < 10 ^ 4" "y = int (string_nat (take 4 (trim_space s)))"
    using p(1) string_nat_bound [of "take 4 (trim_space s)"] by (auto simp: parse_date_def Let_def e split: if_splits)
  then have "y \<le> 9999" by simp
  with t p(2) e show thesis by (intro that [of y m d]) (auto simp: valid_date_def)
qed

lemma ParseCivilDate_text:
  assumes "valid_date y m d" and "0 \<le> y" "y \<le> 9999"
  shows "ParseCivilDate field (format_date (y, m, d)) = Inr (format_date (y, m, d))"
proof -
  note p = parse_date_format [OF assms]
  have "format_date (y, m, d) \<noteq> []" by (simp add: format_date_def)
  then show ?thesis by (simp add: ParseCivilDate_def normalizeDate_def trim_space_graphic [OF p(2)] p(1) Let_def)
qed

text \<open>A parsed day, its text, and the day that its text parses to.\<close>

lemma parseCivilTime_Inr:
  assumes "parseCivilTime field s = Inr n"
  shows "plain_day n" and "day_text n = trim_space s"
proof -
  obtain c where c: "ParseCivilDate field s = Inr c" "(case parse_date c of None \<Rightarrow> Inl (validation field ''must use YYYY-MM-DD'')
       | Some (y, m, d) \<Rightarrow> Inr (date_days y m d)) = Inr n"
    using assms by (auto simp: parseCivilTime_def)
  obtain y m d where e: "c = trim_space s" "c = format_date (y, m, d)" "valid_date y m d" "0 \<le> y" "y \<le> 9999"
    by (rule ParseCivilDate_Inr [OF c(1)])
  have n: "n = date_days y m d" using c(2) parse_date_format(1) [OF e(3-5)] by (simp add: e(2))
  have "days_before_year 0 = - 366" "days_before_year 10000 = 3652059" by code_simp+
  with valid_date_bounds(1,2) [OF e(3)] days_before_year_mono [OF e(4)] days_before_year_mono [of "y + 1" 10000] e(5)
  show "plain_day n" by (simp add: n plain_day_def)
  show "day_text n = trim_space s" using e(1,2) by (simp add: n day_text_def civil_of_date_days [OF e(3)])
qed

lemma parseCivilTime_day_text: "plain_day n \<Longrightarrow> parseCivilTime field (day_text n) = Inr n"
proof -
  assume p: "plain_day n"
  obtain y m d where c: "civil_of_days n = (y, m, d)" by (metis surj_pair)
  note k = civil_of_days_correct [OF c] and y = plain_day_year [OF c p]
  have v: "valid_date y m d" using k by (simp add: valid_date_def)
  show ?thesis
    using ParseCivilDate_text [OF v y] parse_date_format(1) [OF v y] k(1) by (simp add: parseCivilTime_def day_text_def c)
qed

section \<open>Weekdays\<close>

lemma weekday_loop_correct:
  assumes "0 \<le> remaining"
  shows "parsed \<le> weekday_loop remaining parsed"
    and "int (card {n. parsed < n \<and> n \<le> weekday_loop remaining parsed \<and> working_day n}) = remaining"
    and "0 < remaining \<Longrightarrow> working_day (weekday_loop remaining parsed)"
  using assms
proof (induction remaining parsed rule: weekday_loop.induct)
  case (1 remaining parsed)
  let ?r = "if working_day (parsed + 1) then remaining - 1 else remaining"
  let ?k = "weekday_loop ?r (parsed + 1)"
  note step = weekday_loop.simps [of remaining parsed]
  have ih: "0 < remaining \<Longrightarrow> parsed + 1 \<le> ?k"
    "0 < remaining \<Longrightarrow> int (card {n. parsed + 1 < n \<and> n \<le> ?k \<and> working_day n}) = ?r"
    "0 < remaining \<Longrightarrow> 0 < ?r \<Longrightarrow> working_day ?k"
    using 1(1) [of] 1(2) [of] 1(3) [of] by auto
  {
    case 1
    show ?case using ih(1) by (cases "0 < remaining") (simp_all add: step)
  next
    case 2
    show ?case
    proof (cases "0 < remaining")
      case True
      let ?S = "{n. parsed + 1 < n \<and> n \<le> ?k \<and> working_day n}"
      have f: "finite ?S" by (rule finite_subset [of _ "{parsed..?k}"]) auto
      have "{n. parsed < n \<and> n \<le> ?k \<and> working_day n} = (if working_day (parsed + 1) then insert (parsed + 1) ?S else ?S)"
        using ih(1) [OF True] by (auto simp: less_le)
      with f ih(2) [OF True] True show ?thesis by (auto simp: step split: if_splits)
    next
      case False
      then have "weekday_loop remaining parsed = parsed" by (simp add: step)
      then have "{n. parsed < n \<and> n \<le> weekday_loop remaining parsed \<and> working_day n} = {}" by auto
      with False 2 show ?thesis by (simp only: card.empty)
    qed
  next
    case 3
    have "?r = 0 \<Longrightarrow> ?k = parsed + 1" by (simp add: weekday_loop.simps)
    with 3 ih(3) show ?case by (cases "?r = 0") (auto simp: step split: if_splits)
  }
qed

section \<open>Properties\<close>

text \<open>C35. Adding weekdays counts them: the result is the day on which exactly the given number of
  Mondays to Fridays after the start have passed, and it is one of them; the loop ends for every
  start and every count.\<close>

theorem AddWeekdays_counts:
  assumes "parseCivilTime ''date'' date = Inr start" and "0 \<le> days"
  shows "\<exists>k. AddWeekdays date days = Inr (day_text k) \<and> start \<le> k \<and> (0 < days \<longrightarrow> working_day k)
    \<and> int (card {n. start < n \<and> n \<le> k \<and> working_day n}) = days"
  using assms weekday_loop_correct [OF assms(2), of start] by (auto simp: AddWeekdays_def)

theorem AddWeekdays_counts_witness:
  "AddWeekdays ''2026-07-31'' 3 = Inr ''2026-08-05''
   \<and> (\<exists>k. int (card {n. 739827 < n \<and> n \<le> k \<and> working_day n}) = 3 \<and> day_text k = ''2026-08-05'')"
proof -
  have p: "parseCivilTime ''date'' ''2026-07-31'' = Inr 739827" and r: "AddWeekdays ''2026-07-31'' 3 = Inr ''2026-08-05''"
    by code_simp+
  from AddWeekdays_counts [OF p, of 3] r show ?thesis by fastforce
qed

text \<open>Dates survive arithmetic: adding days and counting them back gives the number added,
  subtracting them gives the date back, and the order of date texts is the order of the days.\<close>

theorem civil_round_trip:
  assumes "parseCivilTime ''date'' date = Inr start" and "0 \<le> days" "days \<le> 106751" and "plain_day (start + days)"
  shows "\<exists>later. AddCalendarDays date days = Inr later \<and> CivilDaysBetween date later = Inr days
    \<and> AddCalendarDays later (- days) = Inr (trim_space date)
    \<and> compareCivilDates (trim_space date) later = (if days = 0 then 0 else - 1)"
proof -
  note s = parseCivilTime_Inr [OF assms(1)]
  have d: "parseCivilTime f date = Inr start" for f
  proof -
    have "parse_date (trim_space date) \<noteq> None" "trim_space date \<noteq> []"
      using assms(1) by (auto simp: parseCivilTime_def ParseCivilDate_def normalizeDate_def Let_def split: option.splits if_splits)
    with assms(1) show ?thesis
      by (auto simp: parseCivilTime_def ParseCivilDate_def normalizeDate_def Let_def split: option.splits if_splits)
  qed
  have l: "parseCivilTime f (day_text (start + days)) = Inr (start + days)" for f
    by (rule parseCivilTime_day_text [OF assms(4)])
  have "days * day_ns \<le> max_duration" using assms(3) by (simp add: max_duration_def)
  then have "min (days * day_ns) max_duration div hour div 24 = days" by (simp add: zdiv_zmult2_eq [symmetric])
  then have "CivilDaysBetween date (day_text (start + days)) = Inr days"
    using assms(2) by (simp add: CivilDaysBetween_def d l)
  moreover have "compareCivilDates (trim_space date) (day_text (start + days)) = (if days = 0 then 0 else - 1)"
    unfolding s(2) [symmetric] compareCivilDates_def
    using assms(2) by (simp add: day_text_less [OF s(1) assms(4)] day_text_less [OF assms(4) s(1)])
  ultimately show ?thesis by (simp add: AddCalendarDays_def d l s(2))
qed

theorem civil_round_trip_witness:
  "\<exists>later. AddCalendarDays ''2024-02-28'' 2 = Inr later \<and> CivilDaysBetween ''2024-02-28'' later = Inr 2"
proof -
  have p: "parseCivilTime ''date'' ''2024-02-28'' = Inr 738943" by code_simp
  show ?thesis using civil_round_trip [OF p, of 2] by (auto simp: plain_day_def)
qed

end
