(* ===== verification/ProductContract.thy ===== *)
theory ProductContract
  imports LiquidityCalendar Portfolio
begin

text \<open>
  Managed products: \<^verbatim>\<open>internal/domain/product_contract.go\<close>.  Contracts for term deposits and locked
  products, their validation, their stored form and the interest forecast.  The stored form is the
  payload record; turning it into bytes and back is the JSON codec's work and is not modelled.
\<close>

section \<open>Vocabulary\<close>

type_synonym ProductContractID = string
type_synonym LiquidityPolicyID = string
type_synonym LiquidityReservationID = string
type_synonym ProductOperationID = string

definition ParseProductContractID :: "string \<Rightarrow> ProductContractID res" where
  "ParseProductContractID value = parseID value ''productId''"

definition ParseProductOperationID :: "string \<Rightarrow> ProductOperationID res" where
  "ParseProductOperationID value = parseID value ''operationId''"

datatype ProductKind = ProductTermDeposit | ProductLockedProduct | ProductKind_unknown string

fun ProductKind_string :: "ProductKind \<Rightarrow> string" where
  "ProductKind_string ProductTermDeposit = ''term_deposit''"
| "ProductKind_string ProductLockedProduct = ''locked_product''"
| "ProductKind_string (ProductKind_unknown s) = s"

definition AllProductKinds :: "ProductKind list" where
  "AllProductKinds = [ProductTermDeposit, ProductLockedProduct]"

text \<open>Each parser trims its text and looks it up among the texts of the known values.\<close>

definition parse_enum :: "('k \<Rightarrow> string) \<Rightarrow> 'k list \<Rightarrow> err \<Rightarrow> string \<Rightarrow> 'k res" where
  "parse_enum show_k known e value =
     (case find (\<lambda>k. trim_space value = show_k k) known of Some k \<Rightarrow> Inr k | None \<Rightarrow> Inl e)"

definition ParseProductKind :: "string \<Rightarrow> ProductKind res" where
  "ParseProductKind value =
     parse_enum ProductKind_string AllProductKinds (validation ''kind'' ''must be term_deposit or locked_product'') value"

datatype ProductContractState =
    ProductStateOpen | ProductStateSettled | ProductStateCancelled | ProductContractState_unknown string

fun ProductContractState_string :: "ProductContractState \<Rightarrow> string" where
  "ProductContractState_string ProductStateOpen = ''open''"
| "ProductContractState_string ProductStateSettled = ''settled''"
| "ProductContractState_string ProductStateCancelled = ''cancelled''"
| "ProductContractState_string (ProductContractState_unknown s) = s"

definition ParseProductContractState :: "string \<Rightarrow> ProductContractState res" where
  "ParseProductContractState value =
     parse_enum ProductContractState_string [ProductStateOpen, ProductStateSettled, ProductStateCancelled]
       (validation ''state'' ''must be open, settled, or cancelled'') value"

datatype InterestMode =
    InterestNone | InterestManualMaturityAmount | InterestSimpleAct365 | InterestSimpleAct360 | InterestMode_unknown string

fun InterestMode_string :: "InterestMode \<Rightarrow> string" where
  "InterestMode_string InterestNone = ''none''"
| "InterestMode_string InterestManualMaturityAmount = ''manual_maturity_amount''"
| "InterestMode_string InterestSimpleAct365 = ''simple_act_365''"
| "InterestMode_string InterestSimpleAct360 = ''simple_act_360''"
| "InterestMode_string (InterestMode_unknown s) = s"

definition AllInterestModes :: "InterestMode list" where
  "AllInterestModes = [InterestNone, InterestManualMaturityAmount, InterestSimpleAct365, InterestSimpleAct360]"

definition ParseInterestMode :: "string \<Rightarrow> InterestMode res" where
  "ParseInterestMode value =
     parse_enum InterestMode_string AllInterestModes (validation ''interestMode'' ''is not supported'') value"

datatype ProductDisplayState =
    ProductDisplayNone | ProductDisplayNeedsInfo | ProductDisplayLocked | ProductDisplayRedeemable
  | ProductDisplayDueUnconfirmed | ProductDisplaySettled | ProductDisplayCancelled

section \<open>Annual rates\<close>

record 'd AnnualRate =
  ar_value :: 'd

definition NewAnnualRate :: "'d decimal_ops \<Rightarrow> 'd \<Rightarrow> 'd AnnualRate res" where
  "NewAnnualRate D v =
     (if d_is_negative D v \<or> d_greater_than D v (d_from_int D 1)
      then Inl (validation ''annualRate'' ''must be a ratio between 0 and 1'')
      else
        res_bind (parse_decimal D (canonicalDecimal D v) (validation ''annualRate'' ''must be a canonical decimal ratio'')) (\<lambda>canonical.
        let (scale, integerDigits) = decimalShape D canonical in
        if 1 < integerDigits \<or> 8 < scale
        then Inl (DomainError ErrDecimalOverflow ''annualRate'' ''must have at most eight fractional digits'')
        else Inr \<lparr> ar_value = canonical \<rparr>))"

definition ParseAnnualRateRatio :: "'d decimal_ops \<Rightarrow> string \<Rightarrow> 'd AnnualRate res" where
  "ParseAnnualRateRatio D value =
     res_bind (parse_decimal D (trim_space value) (validation ''annualRate'' ''must be a canonical decimal ratio'')) (NewAnnualRate D)"

definition ParseAnnualRatePercent :: "'d decimal_ops \<Rightarrow> string \<Rightarrow> 'd AnnualRate res" where
  "ParseAnnualRatePercent D value =
     res_bind (parse_decimal D (strip_percent value) (validation ''annualRate'' ''must be a percent between 0 and 100'')) (\<lambda>parsed.
     if d_is_negative D parsed \<or> d_greater_than D parsed (d_from_int D 100)
     then Inl (validation ''annualRate'' ''must be a percent between 0 and 100'')
     else NewAnnualRate D (d_div D parsed (d_from_int D 100)))"

definition AnnualRate_Canonical :: "'d decimal_ops \<Rightarrow> 'd AnnualRate \<Rightarrow> string" where
  "AnnualRate_Canonical D r = (if d_is_zero D (ar_value r) then ''0'' else d_string D (ar_value r))"

section \<open>Contracts\<close>

record 'd ProductContract =
  pc_id :: ProductContractID
  pc_household_id :: HouseholdID
  pc_account_id :: AccountID
  pc_holding_id :: HoldingID
  pc_instrument_id :: InstrumentID
  pc_kind :: ProductKind
  pc_short_name :: string
  pc_name :: string
  pc_note :: "string option"
  pc_currency :: CurrencyCode
  pc_principal :: "'d money"
  pc_start_on :: string
  pc_maturity_on :: "string option"
  pc_interest_mode :: InterestMode
  pc_annual_rate :: "'d AnnualRate option"
  pc_maturity_interest :: "'d money option"
  pc_interest_paid_through_on :: "string option"
  pc_renewed_from_id :: "ProductContractID option"
  pc_state :: ProductContractState
  pc_opened_operation_id :: ProductOperationID
  pc_closed_operation_id :: "ProductOperationID option"
  pc_revision :: int
  pc_created_at :: go_time
  pc_updated_at :: go_time

definition optionalCivilDate :: "string \<Rightarrow> string option \<Rightarrow> string option res" where
  "optionalCivilDate field value = opt_traverse (ParseCivilDate field) value"

definition NormalizeCivilDates :: "'d ProductContract \<Rightarrow> 'd ProductContract res" where
  "NormalizeCivilDates c =
     res_bind (ParseCivilDate ''startOn'' (pc_start_on c)) (\<lambda>startOn.
     res_bind (optionalCivilDate ''maturityOn'' (pc_maturity_on c)) (\<lambda>maturityOn.
     res_bind (optionalCivilDate ''interestPaidThroughOn'' (pc_interest_paid_through_on c)) (\<lambda>paidThroughOn.
     Inr (c \<lparr> pc_start_on := startOn, pc_maturity_on := maturityOn, pc_interest_paid_through_on := paidThroughOn \<rparr>))))"

definition validateInterestFields ::
    "ProductKind \<Rightarrow> InterestMode \<Rightarrow> 'd AnnualRate option \<Rightarrow> 'd money option \<Rightarrow> string option \<Rightarrow> string \<Rightarrow> string option \<Rightarrow> CurrencyCode \<Rightarrow> unit res" where
  "validateInterestFields kind mode rate maturityInterest paidThrough startOn maturity currency =
     (case mode of
        InterestNone \<Rightarrow>
          if rate \<noteq> None then Inl (validation ''annualRate'' ''must be empty when interest mode is none'')
          else if maturityInterest \<noteq> None then Inl (validation ''maturityInterest'' ''must be empty when interest mode is none'')
          else if paidThrough \<noteq> None then Inl (validation ''interestPaidThroughOn'' ''must be empty when interest mode is none'')
          else Inr ()
      | InterestManualMaturityAmount \<Rightarrow>
          if rate \<noteq> None then Inl (validation ''annualRate'' ''must be empty for a manual maturity-interest amount'')
          else (case maturityInterest of
              None \<Rightarrow> Inl (validation ''maturityInterest'' ''is required for a manual maturity-interest amount'')
            | Some interest \<Rightarrow>
                if m_currency interest \<noteq> currency then Inl (validation ''maturityInterest'' ''must use the contract currency'')
                else if paidThrough \<noteq> None
                then Inl (validation ''interestPaidThroughOn'' ''must be empty for a manual maturity-interest amount'')
                else Inr ())
      | InterestMode_unknown _ \<Rightarrow> Inr ()
      | _ \<Rightarrow>
          if kind \<noteq> ProductTermDeposit then Inl (validation ''interestMode'' ''simple interest is only supported for term deposits'')
          else if rate = None then Inl (validation ''annualRate'' ''is required for simple interest'')
          else if maturityInterest \<noteq> None then Inl (validation ''maturityInterest'' ''must be empty for simple interest'')
          else (case paidThrough of
              None \<Rightarrow> Inl (validation ''interestPaidThroughOn'' ''is required for simple interest'')
            | Some p \<Rightarrow>
                res_bind (ParseCivilDate ''interestPaidThroughOn'' p) (\<lambda>paid.
                case maturity of
                  None \<Rightarrow> Inl (validation ''maturityOn'' ''is required for simple interest'')
                | Some m \<Rightarrow>
                    if compareCivilDates paid startOn < 0 \<or> 0 < compareCivilDates paid m
                    then Inl (validation ''interestPaidThroughOn'' ''must fall on or between startOn and maturityOn'')
                    else Inr ())))"

definition uuid_check :: "string \<Rightarrow> 'a res \<Rightarrow> 'a res" where
  "uuid_check field r = map_err (\<lambda>_. validation field ''must be a lowercase UUID'') r"

definition contract_dates :: "ProductKind \<Rightarrow> string \<Rightarrow> string option \<Rightarrow> unit res" where
  "contract_dates kind startOn maturity =
     (case maturity of
        None \<Rightarrow> if kind = ProductTermDeposit then Inl (validation ''maturityOn'' ''is required for a term deposit'') else Inr ()
      | Some m \<Rightarrow>
          if 0 \<le> compareCivilDates startOn m then Inl (validation ''maturityOn'' ''must be after startOn'') else Inr ())"

definition ProductContract_Validate :: "'d decimal_ops \<Rightarrow> 'd ProductContract \<Rightarrow> unit res" where
  "ProductContract_Validate D c =
     res_bind (NormalizeInstrumentShortName (pc_short_name c)) (\<lambda>_.
     res_bind (uuid_check ''householdId'' (ParseHouseholdID (pc_household_id c))) (\<lambda>_.
     res_bind (uuid_check ''accountId'' (ParseAccountID (pc_account_id c))) (\<lambda>_.
     res_bind (uuid_check ''holdingId'' (ParseHoldingID (pc_holding_id c))) (\<lambda>_.
     res_bind (uuid_check ''instrumentId'' (ParseInstrumentID (pc_instrument_id c))) (\<lambda>_.
     res_bind (ParseProductKind (ProductKind_string (pc_kind c))) (\<lambda>kind.
     res_bind (validateName ''name'' (pc_name c)) (\<lambda>_.
     res_bind (validateNote ''note'' (pc_note c)) (\<lambda>_.
     if Money_IsZero D (pc_principal c) then Inl (validation ''principal'' ''must be greater than zero'')
     else if m_currency (pc_principal c) \<noteq> pc_currency c then Inl (validation ''principal'' ''must use the contract currency'')
     else
       res_bind (ParseCivilDate ''startOn'' (pc_start_on c)) (\<lambda>startOn.
       res_bind (optionalCivilDate ''maturityOn'' (pc_maturity_on c)) (\<lambda>maturity.
       res_bind (contract_dates kind startOn maturity) (\<lambda>_.
       res_bind (ParseInterestMode (InterestMode_string (pc_interest_mode c))) (\<lambda>mode.
       res_bind (validateInterestFields kind mode (pc_annual_rate c) (pc_maturity_interest c) (pc_interest_paid_through_on c)
           startOn maturity (pc_currency c)) (\<lambda>_.
       res_bind (ParseProductContractState (ProductContractState_string (pc_state c))) (\<lambda>_.
       if pc_revision c < 1 then Inl (validation ''revision'' ''must be a positive integer'')
       else
         res_bind (uuid_check ''openedOperationId'' (ParseProductOperationID (pc_opened_operation_id c))) (\<lambda>_.
         res_bind (opt_traverse (\<lambda>i. uuid_check ''closedOperationId'' (ParseProductOperationID i)) (pc_closed_operation_id c)) (\<lambda>_.
         res_bind (opt_traverse (\<lambda>i. uuid_check ''renewedFromId'' (ParseProductContractID i)) (pc_renewed_from_id c)) (\<lambda>_.
         if pc_renewed_from_id c = Some (pc_id c) then Inl (validation ''renewedFromId'' ''must not reference the same contract'')
         else if pc_state c = ProductStateOpen \<and> pc_closed_operation_id c \<noteq> None
         then Inl (validation ''closedOperationId'' ''must be empty while the contract is open'')
         else if (pc_state c = ProductStateSettled \<or> pc_state c = ProductStateCancelled) \<and> pc_closed_operation_id c = None
         then Inl (validation ''closedOperationId'' ''is required after settlement or cancellation'')
         else Inr ())))))))))))))))))"

record 'd ProductContractInput =
  pi_household_id :: HouseholdID
  pi_account_id :: AccountID
  pi_holding_id :: HoldingID
  pi_instrument_id :: InstrumentID
  pi_kind :: ProductKind
  pi_short_name :: string
  pi_name :: string
  pi_note :: "string option"
  pi_currency :: CurrencyCode
  pi_principal :: "'d money"
  pi_start_on :: string
  pi_maturity_on :: "string option"
  pi_interest_mode :: InterestMode
  pi_annual_rate :: "'d AnnualRate option"
  pi_maturity_interest :: "'d money option"
  pi_interest_paid_through_on :: "string option"
  pi_renewed_from_id :: "ProductContractID option"
  pi_state :: ProductContractState
  pi_opened_operation_id :: ProductOperationID
  pi_closed_operation_id :: "ProductOperationID option"
  pi_revision :: int

definition NewProductContract :: "'d decimal_ops \<Rightarrow> ProductContractID \<Rightarrow> 'd ProductContractInput \<Rightarrow> go_time \<Rightarrow> 'd ProductContract res" where
  "NewProductContract D newID input now =
     (let contract =
        \<lparr> pc_id = newID, pc_household_id = pi_household_id input, pc_account_id = pi_account_id input,
          pc_holding_id = pi_holding_id input, pc_instrument_id = pi_instrument_id input, pc_kind = pi_kind input,
          pc_short_name = trimInstrumentLabel (pi_short_name input), pc_name = pi_name input, pc_note = pi_note input,
          pc_currency = pi_currency input, pc_principal = pi_principal input, pc_start_on = pi_start_on input,
          pc_maturity_on = pi_maturity_on input, pc_interest_mode = pi_interest_mode input,
          pc_annual_rate = pi_annual_rate input, pc_maturity_interest = pi_maturity_interest input,
          pc_interest_paid_through_on = pi_interest_paid_through_on input, pc_renewed_from_id = pi_renewed_from_id input,
          pc_state = (if pi_state input = ProductContractState_unknown [] then ProductStateOpen else pi_state input),
          pc_opened_operation_id = pi_opened_operation_id input, pc_closed_operation_id = pi_closed_operation_id input,
          pc_revision = (if pi_revision input = 0 then 1 else pi_revision input),
          pc_created_at = normalizeTime now, pc_updated_at = normalizeTime now \<rparr>
      in
      res_bind (NormalizeCivilDates contract) (\<lambda>contract.
      res_bind (ProductContract_Validate D contract) (\<lambda>_.
      Inr contract)))"

section \<open>The stored form\<close>

record productContractJSON =
  pj_id :: string
  pj_household_id :: string
  pj_account_id :: string
  pj_holding_id :: string
  pj_instrument_id :: string
  pj_kind :: string
  pj_short_name :: string
  pj_name :: string
  pj_note :: "string option"
  pj_currency :: string
  pj_principal :: string
  pj_start_on :: string
  pj_maturity_on :: "string option"
  pj_interest_mode :: string
  pj_annual_rate :: "string option"
  pj_maturity_interest :: "string option"
  pj_interest_paid_through_on :: "string option"
  pj_renewed_from_id :: "string option"
  pj_state :: string
  pj_opened_operation_id :: string
  pj_closed_operation_id :: "string option"
  pj_revision :: int
  pj_created_at :: go_time
  pj_updated_at :: go_time

definition MarshalJSON :: "'d decimal_ops \<Rightarrow> 'd ProductContract \<Rightarrow> productContractJSON" where
  "MarshalJSON D c =
     \<lparr> pj_id = pc_id c, pj_household_id = pc_household_id c, pj_account_id = pc_account_id c,
       pj_holding_id = pc_holding_id c, pj_instrument_id = pc_instrument_id c, pj_kind = ProductKind_string (pc_kind c),
       pj_short_name = pc_short_name c, pj_name = pc_name c, pj_note = pc_note c, pj_currency = pc_currency c,
       pj_principal = Money_CanonicalAmount D (pc_principal c), pj_start_on = pc_start_on c,
       pj_maturity_on = pc_maturity_on c, pj_interest_mode = InterestMode_string (pc_interest_mode c),
       pj_annual_rate = map_option (AnnualRate_Canonical D) (pc_annual_rate c),
       pj_maturity_interest = map_option (Money_CanonicalAmount D) (pc_maturity_interest c),
       pj_interest_paid_through_on = pc_interest_paid_through_on c, pj_renewed_from_id = pc_renewed_from_id c,
       pj_state = ProductContractState_string (pc_state c), pj_opened_operation_id = pc_opened_operation_id c,
       pj_closed_operation_id = pc_closed_operation_id c, pj_revision = pc_revision c,
       pj_created_at = pc_created_at c, pj_updated_at = pc_updated_at c \<rparr>"

definition UnmarshalJSON :: "'d decimal_ops \<Rightarrow> productContractJSON \<Rightarrow> 'd ProductContract res" where
  "UnmarshalJSON D payload =
     res_bind (ParseProductContractID (pj_id payload)) (\<lambda>i.
     res_bind (ParseHouseholdID (pj_household_id payload)) (\<lambda>householdID.
     res_bind (ParseAccountID (pj_account_id payload)) (\<lambda>accountID.
     res_bind (ParseHoldingID (pj_holding_id payload)) (\<lambda>holdingID.
     res_bind (ParseInstrumentID (pj_instrument_id payload)) (\<lambda>instrumentID.
     res_bind (ParseProductKind (pj_kind payload)) (\<lambda>kind.
     res_bind (ParseCurrency (pj_currency payload)) (\<lambda>currency.
     res_bind (ParseMoney D (pj_principal payload) currency) (\<lambda>principal.
     res_bind (ParseInterestMode (pj_interest_mode payload)) (\<lambda>mode.
     res_bind (ParseProductContractState (pj_state payload)) (\<lambda>state.
     res_bind (ParseProductOperationID (pj_opened_operation_id payload)) (\<lambda>openedID.
     res_bind (opt_traverse (ParseAnnualRateRatio D) (pj_annual_rate payload)) (\<lambda>rate.
     res_bind (opt_traverse (\<lambda>s. ParseMoney D s currency) (pj_maturity_interest payload)) (\<lambda>interest.
     res_bind (opt_traverse ParseProductContractID (pj_renewed_from_id payload)) (\<lambda>renewed.
     res_bind (opt_traverse ParseProductOperationID (pj_closed_operation_id payload)) (\<lambda>closed.
     Inr \<lparr> pc_id = i, pc_household_id = householdID, pc_account_id = accountID, pc_holding_id = holdingID,
       pc_instrument_id = instrumentID, pc_kind = kind, pc_short_name = pj_short_name payload, pc_name = pj_name payload,
       pc_note = pj_note payload, pc_currency = currency, pc_principal = principal, pc_start_on = pj_start_on payload,
       pc_maturity_on = pj_maturity_on payload, pc_interest_mode = mode, pc_annual_rate = rate,
       pc_maturity_interest = interest, pc_interest_paid_through_on = pj_interest_paid_through_on payload,
       pc_renewed_from_id = renewed, pc_state = state, pc_opened_operation_id = openedID, pc_closed_operation_id = closed,
       pc_revision = pj_revision payload, pc_created_at = pj_created_at payload, pc_updated_at = pj_updated_at payload \<rparr>)))))))))))))))"

section \<open>Interest\<close>

definition SimpleInterest :: "'d decimal_ops \<Rightarrow> 'd money \<Rightarrow> 'd AnnualRate \<Rightarrow> int \<Rightarrow> int \<Rightarrow> 'd money res" where
  "SimpleInterest D principal_amount rate days basis =
     (if days < 0 then Inl (validation ''days'' ''must not be negative'')
      else if basis \<noteq> 360 \<and> basis \<noteq> 365 then Inl (validation ''dayBasis'' ''must be 360 or 365'')
      else if days = 0 \<or> d_is_zero D (ar_value rate) \<or> Money_IsZero D principal_amount
      then NewMoney D (d_zero D) (m_currency principal_amount)
      else
        let raw = d_div D (d_mul D (d_mul D (m_amount principal_amount) (ar_value rate)) (d_from_int D days)) (d_from_int D basis);
            rounded = d_round D raw 4
        in if d_is_negative D rounded \<or> d_greater_than D rounded (maxMoney D)
           then Inl (DomainError ErrDecimalOverflow ''interest'' ''interest is outside the supported range'')
           else ParseMoney D (canonicalDecimal D rounded) (m_currency principal_amount))"

definition EstimatedUnpaidMaturityInterest :: "'d decimal_ops \<Rightarrow> 'd ProductContract \<Rightarrow> 'd money res" where
  "EstimatedUnpaidMaturityInterest D c =
     (let simple = (\<lambda>basis.
        case (pc_annual_rate c, pc_interest_paid_through_on c, pc_maturity_on c) of
          (Some rate, Some paid, Some maturity) \<Rightarrow>
            res_bind (CivilDaysBetween paid maturity) (\<lambda>days. SimpleInterest D (pc_principal c) rate days basis)
        | _ \<Rightarrow> Inl (validation ''interestMode'' ''simple interest is missing required fields''))
      in
      case pc_interest_mode c of
        InterestNone \<Rightarrow> NewMoney D (d_zero D) (pc_currency c)
      | InterestManualMaturityAmount \<Rightarrow>
          (case pc_maturity_interest c of
             None \<Rightarrow> Inl (validation ''maturityInterest'' ''is required'')
           | Some interest \<Rightarrow> Inr interest)
      | InterestSimpleAct365 \<Rightarrow> simple 365
      | InterestSimpleAct360 \<Rightarrow> simple 360
      | InterestMode_unknown _ \<Rightarrow> Inl (validation ''interestMode'' ''is not supported''))"

definition ForecastGrossProceeds :: "'d decimal_ops \<Rightarrow> 'd ProductContract \<Rightarrow> 'd money option res" where
  "ForecastGrossProceeds D c =
     (if pc_kind c = ProductLockedProduct then Inr None
      else
        res_bind (EstimatedUnpaidMaturityInterest D c) (\<lambda>interest.
        res_bind (Money_Add D (pc_principal c) interest) (\<lambda>total_amount. Inr (Some total_amount))))"

definition ProductAccountEligible :: "Account \<Rightarrow> unit res" where
  "ProductAccountEligible account =
     (if a_archived_at account \<noteq> None then Inl (DomainError ErrConflict ''accountId'' ''account is archived'')
      else if Account_IsLiability account then Inl (validation ''accountId'' ''products require an asset-side account'')
      else if a_tracking account \<noteq> TrackingHoldings then Inl (validation ''accountId'' ''product details require a Holdings Account'')
      else if a_type account = TypeCashOnHand then Inl (validation ''accountId'' ''cash on hand cannot hold products'')
      else Inr ())"

definition ManagedPositionConflict :: "string \<Rightarrow> string \<Rightarrow> err" where
  "ManagedPositionConflict field message =
     DomainError ErrManagedPosition field (if message = [] then ''this position is managed by a product contract'' else message)"

section \<open>Interest is rounded once\<close>

definition valid_rate :: "'d decimal_ops \<Rightarrow> 'd AnnualRate \<Rightarrow> bool" where
  "valid_rate D r \<longleftrightarrow> 0 \<le> d_val D (ar_value r) \<and> d_val D (ar_value r) \<le> 1 \<and> scaled D 8 (ar_value r)"

text \<open>Rounding half up at four places, which for amounts is half away from zero.\<close>

definition half_up4 :: "rat \<Rightarrow> rat" where
  "half_up4 x = of_int \<lfloor>x * 10 ^ 4 + 1/2\<rfloor> / 10 ^ 4"

text \<open>
  A multiple of \<open>1/n\<close> that is not an integer keeps a distance of \<open>1/n\<close> from the integers, so a
  smaller error does not change its floor.
\<close>

lemma floor_stable:
  fixes y e :: rat and n k :: int
  assumes "0 < n" and "y * of_int n = of_int k" and "\<bar>e\<bar> * of_int n < 1" and "y \<in> \<int> \<longrightarrow> e = 0"
  shows "\<lfloor>y + e\<rfloor> = \<lfloor>y\<rfloor>"
proof (cases "y \<in> \<int>")
  case False
  let ?f = "\<lfloor>y\<rfloor>"
  have y: "of_int ?f < y" "y < of_int ?f + 1"
    using False floor_correct [of y] by (auto simp: less_le)
  have "of_int (?f * n) < (of_int k :: rat)" "(of_int k :: rat) < of_int ((?f + 1) * n)"
    using y assms(1,2) by (simp_all flip: assms(2))
  then have "?f * n < k" "k < (?f + 1) * n" by (simp_all only: of_int_less_iff)
  then have "?f * n + 1 \<le> k" "k + 1 \<le> (?f + 1) * n" by simp_all
  then have "of_int (?f * n + 1) \<le> (of_int k :: rat)" "of_int (k + 1) \<le> (of_int ((?f + 1) * n) :: rat)"
    by (simp_all only: of_int_le_iff)
  then have "of_int (?f * n + 1) \<le> y * of_int n" "y * of_int n + 1 \<le> of_int ((?f + 1) * n)"
    unfolding assms(2) by simp_all
  moreover have "- 1 < e * of_int n" "e * of_int n < 1"
  proof -
    have "\<bar>e * of_int n\<bar> < 1" using assms(1,3) by (simp add: abs_mult)
    then show "- 1 < e * of_int n" "e * of_int n < 1" by linarith+
  qed
  ultimately have "of_int ?f * of_int n < (y + e) * of_int n" "(y + e) * of_int n < (of_int ?f + 1) * of_int n"
    by (simp_all add: algebra_simps)
  then have "of_int ?f < y + e" "y + e < of_int ?f + 1" using assms(1) by simp_all
  then show ?thesis by (simp add: floor_eq_iff)
qed (use assms(4) in simp)

context decimal_lib
begin

lemma exact_interest_multiple:
  assumes "valid_money D p" and "valid_rate D r"
  shows "\<exists>k::int. d_val D (m_amount p) * d_val D (ar_value r) * of_int days = of_int k / 10 ^ 12"
proof -
  obtain a b :: int where "d_val D (m_amount p) = of_int a / 10 ^ 4" "d_val D (ar_value r) = of_int b / 10 ^ 8"
    using valid_money_grid [OF assms(1)] scaled_grid [of 8 "ar_value r"] assms(2) by (auto simp: valid_rate_def elim!: on_gridE)
  then have "d_val D (m_amount p) * d_val D (ar_value r) * of_int days = of_int (a * b * days) / 10 ^ 12"
    by (simp only: of_int_mult) simp
  then show ?thesis by blast
qed

lemma double_rounding:
  fixes x :: rat and k basis :: int
  assumes "basis = 360 \<or> basis = 365" and "x = of_int k / 10 ^ 12 / of_int basis" and "0 \<le> x"
    and "\<bar>q - x\<bar> \<le> 1 / (2 * 10 ^ 16)" and "on_grid 16 x \<longrightarrow> q = x"
  shows "half_up4 q = half_up4 x"
proof -
  let ?y = "x * 10 ^ 4 + 1/2" and ?e = "(q - x) * 10 ^ 4" and ?n = "2 * 10 ^ 8 * basis"
  have mult: "?y * of_int ?n = of_int (2 * k + 10 ^ 8 * basis)" using assms(1,2) by auto
  have small: "\<bar>?e\<bar> * of_int ?n < 1"
  proof -
    have "\<bar>?e\<bar> = \<bar>q - x\<bar> * 10 ^ 4" by (simp only: abs_mult power_abs abs_numeral)
    also have "\<dots> \<le> 1 / (2 * 10 ^ 16) * 10 ^ 4" using assms(4) by (intro mult_right_mono) simp_all
    finally show ?thesis using assms(1) by auto
  qed
  have "?e = 0" if "?y \<in> \<int>"
  proof -
    from that obtain j where "?y = of_int j" by (rule Ints_cases)
    then have "x = of_int ((2 * j - 1) * (5 * 10 ^ 11)) / 10 ^ 16" by simp
    then have "on_grid 16 x" by (rule on_gridI)
    with assms(5) show ?thesis by simp
  qed
  then have "?y \<in> \<int> \<longrightarrow> ?e = 0" by blast
  moreover have "0 < ?n" using assms(1) by auto
  ultimately have "\<lfloor>?y + ?e\<rfloor> = \<lfloor>?y\<rfloor>" using mult small by - (rule floor_stable)
  moreover have "?y + ?e = q * 10 ^ 4 + 1/2" by (simp add: algebra_simps)
  ultimately show ?thesis unfolding half_up4_def by (simp only:)
qed

lemma SimpleInterest_value:
  assumes "valid_money D p" and "valid_rate D r" and "0 \<le> days" and "basis = 360 \<or> basis = 365"
  defines "exact_interest \<equiv> d_val D (m_amount p) * d_val D (ar_value r) * of_int days / of_int basis"
  shows "if half_up4 exact_interest \<le> max_money
    then \<exists>m. SimpleInterest D p r days basis = Inr m \<and> d_val D (m_amount m) = half_up4 exact_interest \<and> valid_money D m
      \<and> m_currency m = m_currency p
    else SimpleInterest D p r days basis = Inl (DomainError ErrDecimalOverflow ''interest'' ''interest is outside the supported range'')"
proof (cases "days = 0 \<or> d_is_zero D (ar_value r) \<or> Money_IsZero D p")
  case True
  then have z: "exact_interest = 0" by (auto simp: exact_interest_def exact Money_IsZero_def)
  have c: "ParseCurrency (m_currency p) = Inr (m_currency p)" using assms(1) ParseCurrency_valid by (simp add: valid_money_def)
  obtain m where m: "NewMoney D (d_zero D) (m_currency p) = Inr m"
    using NewMoney_ok [of "d_zero D" "m_currency p" "m_currency p"] c max_money_bounds(1) by (auto simp: exact)
  have "SimpleInterest D p r days basis = Inr m"
    using True assms(3,4) m by (auto simp: SimpleInterest_def)
  moreover have "half_up4 0 = 0" by (simp add: half_up4_def floor_eq_iff)
  ultimately show ?thesis
    using NewMoney_Inr [OF m] c max_money_bounds(1) by (simp add: z exact half_even_on_grid)
next
  case False
  let ?a = "d_mul D (d_mul D (m_amount p) (ar_value r)) (d_from_int D days)" and ?b = "d_from_int D basis"
  let ?raw = "d_div D ?a ?b"
  let ?rounded = "d_round D ?raw 4"
  have b: "d_val D ?b = of_int basis" "d_val D ?b \<noteq> 0" using assms(4) by (auto simp: val_from_int)
  have a: "d_val D ?a / d_val D ?b = exact_interest" by (simp add: exact val_from_int exact_interest_def)
  have nonneg: "0 \<le> exact_interest"
    using assms(1-4) by (auto simp: exact_interest_def valid_money_def valid_rate_def)
  obtain k :: int where "d_val D (m_amount p) * d_val D (ar_value r) * of_int days = of_int k / 10 ^ 12"
    using exact_interest_multiple [OF assms(1,2)] by blast
  then have k: "exact_interest = of_int k / 10 ^ 12 / of_int basis" unfolding exact_interest_def by (simp only:)
  have near: "\<bar>d_val D ?raw - exact_interest\<bar> \<le> 1 / (2 * 10 ^ 16)"
    using val_div_round [OF b(2), of ?a 16] by (simp only: a div_def)
  have r: "half_up4 (d_val D ?raw) = half_up4 exact_interest"
    using div_round_exact [OF b(2), of 16 ?a] unfolding a div_def [symmetric]
    by (intro double_rounding [OF assms(4) k nonneg near]) blast
  have "0 \<le> d_val D ?raw"
  proof (rule ccontr)
    assume "\<not> 0 \<le> d_val D ?raw"
    moreover obtain j :: int where j: "d_val D ?raw = of_int j / 10 ^ 16"
      using val_on_grid [OF grid_div_round [OF b(2)], of 16 ?a] by (auto simp: div_def elim: on_gridE)
    ultimately have "j < 0" by simp
    then have "j \<le> - 1" by simp
    then have "of_int j \<le> (- 1 :: rat)" by (metis of_int_le_iff of_int_minus of_int_1)
    then have "d_val D ?raw \<le> - 1 / 10 ^ 16" unfolding j by (intro divide_right_mono) simp_all
    with near nonneg show False by simp
  qed
  then have v: "d_val D ?rounded = half_up4 exact_interest" using r val_round_half_up [of ?raw 4] by (simp add: half_up4_def)
  have pos: "0 \<le> half_up4 exact_interest" using nonneg by (simp add: half_up4_def)
  have e: "SimpleInterest D p r days basis =
      (if d_greater_than D ?rounded (maxMoney D)
       then Inl (DomainError ErrDecimalOverflow ''interest'' ''interest is outside the supported range'')
       else ParseMoney D (canonicalDecimal D ?rounded) (m_currency p))"
    using False assms(3,4) pos v by (auto simp: SimpleInterest_def Let_def exact)
  show ?thesis
  proof (cases "half_up4 exact_interest \<le> max_money")
    case True
    have x: "0 \<le> d_val D ?rounded" "d_val D ?rounded < 10 ^ 12" "scaled D 4 ?rounded"
      using pos v True max_money_bounds(2) by (auto simp: scaled_def exponent_round)
    have c: "ParseCurrency (m_currency p) = Inr (m_currency p)" using assms(1) ParseCurrency_valid by (simp add: valid_money_def)
    note s = canonical_Parse [OF x(1,2) _ x(3), simplified]
    then obtain w where w: "d_from_string D (canonicalDecimal D ?rounded) = Inr w" "d_val D w = half_up4 exact_interest"
      using v by auto
    with s(1) c pos True have pm: "ParseMoney D (canonicalDecimal D ?rounded) (m_currency p) = Inr \<lparr> m_amount = w, m_currency = m_currency p \<rparr>"
      by (simp add: ParseMoney_def moneySyntax_def exact limit_val)
    then show ?thesis using True w ParseMoney_Inr(1) [OF pm] by (simp add: e exact limit_val v)
  next
    case False
    then show ?thesis by (simp add: e exact limit_val v)
  qed
qed

end

section \<open>Forecasts of validated contracts\<close>

definition civil_day :: "string \<Rightarrow> int" where
  "civil_day s = (case parse_date (trim_space s) of Some (y, m, d) \<Rightarrow> date_days y m d | None \<Rightarrow> 0)"

text \<open>
  What the forecast promises: the interest of the mode, on the days between the two dates.  The
  count of days stops at 106751, the days in the largest duration.
\<close>

definition simple_interest :: "'d decimal_ops \<Rightarrow> 'd ProductContract \<Rightarrow> int \<Rightarrow> rat" where
  "simple_interest D c basis =
     (case (pc_annual_rate c, pc_interest_paid_through_on c, pc_maturity_on c) of
        (Some rate, Some paid, Some maturity) \<Rightarrow>
          half_up4 (d_val D (m_amount (pc_principal c)) * d_val D (ar_value rate)
            * of_int (min (civil_day maturity - civil_day paid) 106751) / of_int basis)
      | _ \<Rightarrow> 0)"

definition forecast_interest :: "'d decimal_ops \<Rightarrow> 'd ProductContract \<Rightarrow> rat" where
  "forecast_interest D c =
     (case pc_interest_mode c of
        InterestManualMaturityAmount \<Rightarrow> (case pc_maturity_interest c of Some m \<Rightarrow> d_val D (m_amount m) | None \<Rightarrow> 0)
      | InterestSimpleAct365 \<Rightarrow> simple_interest D c 365
      | InterestSimpleAct360 \<Rightarrow> simple_interest D c 360
      | _ \<Rightarrow> 0)"

definition valid_contract_amounts :: "'d decimal_ops \<Rightarrow> 'd ProductContract \<Rightarrow> bool" where
  "valid_contract_amounts D c \<longleftrightarrow> valid_money D (pc_principal c) \<and> pred_option (valid_money D) (pc_maturity_interest c)
     \<and> pred_option (valid_rate D) (pc_annual_rate c)"

lemma parseCivilTime_civil_day: "parseCivilTime field s = Inr n \<Longrightarrow> civil_day s = n"
  by (auto simp: parseCivilTime_def civil_day_def split: option.splits elim!: ParseCivilDate_Inr)

lemma ParseCivilDate_time:
  assumes "ParseCivilDate field s = Inr c"
  obtains n where "\<forall>f. parseCivilTime f s = Inr n" and "plain_day n" and "c = day_text n"
proof -
  obtain y m d where e: "c = trim_space s" "c = format_date (y, m, d)" "valid_date y m d" "0 \<le> y" "y \<le> 9999"
    by (rule ParseCivilDate_Inr [OF assms])
  have "ParseCivilDate f s = Inr c" for f
    using ParseCivilDate_text [OF e(3-5), of f] unfolding e(2) [symmetric] by (simp add: ParseCivilDate_def e(1))
  then have t: "parseCivilTime f s = Inr (date_days y m d)" for f
    using parse_date_format(1) [OF e(3-5)] by (simp add: parseCivilTime_def e(2))
  then have "\<forall>f. parseCivilTime f s = Inr (date_days y m d)" by simp
  then show thesis by (rule that) (use parseCivilTime_Inr [OF t] e(1) in simp_all)
qed

lemma div_min: "0 < h \<Longrightarrow> min a b div h = min (a div h) (b div h)" for a b h :: int
  by (cases "a \<le> b") (simp_all add: min_absorb1 min_absorb2 zdiv_mono1)

lemma CivilDaysBetween_days:
  assumes "parseCivilTime ''startOn'' s = Inr a" and "parseCivilTime ''endOn'' e = Inr b" and "a \<le> b"
  shows "CivilDaysBetween s e = Inr (min (b - a) 106751)"
proof -
  have "(b - a) * day_ns div hour div 24 = b - a" by (simp add: zdiv_zmult2_eq [symmetric])
  moreover have "max_duration div hour div 24 = 106751" by (simp add: max_duration_def)
  ultimately show ?thesis using assms by (simp add: CivilDaysBetween_def div_min)
qed

lemma parse_enum_known: "parse_enum show_k known e s = Inr k \<Longrightarrow> k \<in> set known"
  by (auto simp: parse_enum_def find_Some_iff split: option.splits)

lemma ParseInterestMode_known: "m \<in> set AllInterestModes \<Longrightarrow> ParseInterestMode (InterestMode_string m) = Inr m"
proof -
  have "ParseInterestMode (InterestMode_string InterestNone) = Inr InterestNone"
    "ParseInterestMode (InterestMode_string InterestManualMaturityAmount) = Inr InterestManualMaturityAmount"
    "ParseInterestMode (InterestMode_string InterestSimpleAct365) = Inr InterestSimpleAct365"
    "ParseInterestMode (InterestMode_string InterestSimpleAct360) = Inr InterestSimpleAct360"
    by code_simp+
  then show "m \<in> set AllInterestModes \<Longrightarrow> ParseInterestMode (InterestMode_string m) = Inr m"
    by (auto simp: AllInterestModes_def)
qed

lemma ProductContract_Validate_parts:
  assumes "ProductContract_Validate D c = Inr ()" and "pc_interest_mode c \<in> set AllInterestModes"
  obtains startOn maturity kind where "m_currency (pc_principal c) = pc_currency c"
    and "ParseCivilDate ''startOn'' (pc_start_on c) = Inr startOn"
    and "optionalCivilDate ''maturityOn'' (pc_maturity_on c) = Inr maturity"
    and "validateInterestFields kind (pc_interest_mode c) (pc_annual_rate c) (pc_maturity_interest c)
      (pc_interest_paid_through_on c) startOn maturity (pc_currency c) = Inr ()"
  using assms(1) unfolding ProductContract_Validate_def
  by (auto elim!: res_elims simp: ParseInterestMode_known [OF assms(2)])

lemma decimal_syntax_graphic: "decimal_syntax n m s \<Longrightarrow> list_all graphic s"
proof -
  assume s: "decimal_syntax n m s"
  have "is_digit c \<Longrightarrow> graphic c" for c by (simp add: is_digit_iff graphic_def)
  moreover have "graphic CHR ''.''" by (simp add: graphic_def)
  moreover have "list_all is_digit (takeWhile is_digit s)" by (auto simp: list_all_iff dest: set_takeWhileD)
  ultimately have "list_all graphic (takeWhile is_digit s @ dropWhile is_digit s)"
    using s by (cases "dropWhile is_digit s") (auto simp: decimal_syntax_def Let_def list_all_iff)
  then show ?thesis by simp
qed

lemma reparse_enums:
  "ParseProductKind s = Inr k \<Longrightarrow> ParseProductKind (ProductKind_string k) = Inr k"
  "ParseInterestMode s = Inr m \<Longrightarrow> ParseInterestMode (InterestMode_string m) = Inr m"
  "ParseProductContractState s = Inr t \<Longrightarrow> ParseProductContractState (ProductContractState_string t) = Inr t"
proof -
  have kinds: "ParseProductKind (ProductKind_string ProductTermDeposit) = Inr ProductTermDeposit"
    "ParseProductKind (ProductKind_string ProductLockedProduct) = Inr ProductLockedProduct"
    and states: "ParseProductContractState (ProductContractState_string ProductStateOpen) = Inr ProductStateOpen"
    "ParseProductContractState (ProductContractState_string ProductStateSettled) = Inr ProductStateSettled"
    "ParseProductContractState (ProductContractState_string ProductStateCancelled) = Inr ProductStateCancelled"
    by code_simp+
  show "ParseProductKind s = Inr k \<Longrightarrow> ParseProductKind (ProductKind_string k) = Inr k"
    using kinds by (auto simp: ParseProductKind_def [of s] AllProductKinds_def dest!: parse_enum_known)
  show "ParseInterestMode s = Inr m \<Longrightarrow> ParseInterestMode (InterestMode_string m) = Inr m"
    by (auto simp: ParseInterestMode_def [of s] intro: ParseInterestMode_known dest!: parse_enum_known)
  show "ParseProductContractState s = Inr t \<Longrightarrow> ParseProductContractState (ProductContractState_string t) = Inr t"
    using states by (auto simp: ParseProductContractState_def [of s] dest!: parse_enum_known)
qed

text \<open>Parsing the text of a parsed optional value again.\<close>

lemma opt_traverse_reparse:
  assumes "opt_traverse f x = Inr y" and "\<And>s v. f s = Inr v \<Longrightarrow> \<exists>v'. g (h v) = Inr v' \<and> h v' = h v"
  shows "\<exists>y'. opt_traverse g (map_option h y) = Inr y' \<and> map_option h y' = map_option h y"
  using assms by (cases x) fastforce+

lemma UnmarshalJSON_Inr:
  assumes "UnmarshalJSON D payload = Inr c"
  shows "ParseProductContractID (pj_id payload) = Inr (pc_id c)" "ParseHouseholdID (pj_household_id payload) = Inr (pc_household_id c)"
    "ParseAccountID (pj_account_id payload) = Inr (pc_account_id c)" "ParseHoldingID (pj_holding_id payload) = Inr (pc_holding_id c)"
    "ParseInstrumentID (pj_instrument_id payload) = Inr (pc_instrument_id c)"
    "ParseProductOperationID (pj_opened_operation_id payload) = Inr (pc_opened_operation_id c)"
    "ParseProductKind (pj_kind payload) = Inr (pc_kind c)" "ParseInterestMode (pj_interest_mode payload) = Inr (pc_interest_mode c)"
    "ParseProductContractState (pj_state payload) = Inr (pc_state c)" "ParseCurrency (pj_currency payload) = Inr (pc_currency c)"
    "opt_traverse ParseProductContractID (pj_renewed_from_id payload) = Inr (pc_renewed_from_id c)"
    "opt_traverse ParseProductOperationID (pj_closed_operation_id payload) = Inr (pc_closed_operation_id c)"
    "ParseMoney D (pj_principal payload) (pc_currency c) = Inr (pc_principal c)"
    "opt_traverse (ParseAnnualRateRatio D) (pj_annual_rate payload) = Inr (pc_annual_rate c)"
    "opt_traverse (\<lambda>s. ParseMoney D s (pc_currency c)) (pj_maturity_interest payload) = Inr (pc_maturity_interest c)"
  using assms unfolding UnmarshalJSON_def
  by - (elim res_bindE; drule sum.inject(2) [THEN iffD1]; hypsubst; simp)+

context decimal_lib
begin

lemma simple_interest_value:
  assumes "ParseCivilDate ''interestPaidThroughOn'' paid = Inr p" and "ParseCivilDate ''maturityOn'' maturity = Inr m"
    and "\<not> 0 < compareCivilDates p m" and "valid_contract_amounts D c" and "pc_annual_rate c = Some rate"
    and "pc_interest_paid_through_on c = Some paid" and "pc_maturity_on c = Some maturity" and "basis = 360 \<or> basis = 365"
  shows "if simple_interest D c basis \<le> max_money
    then \<exists>i. res_bind (CivilDaysBetween paid maturity) (\<lambda>days. SimpleInterest D (pc_principal c) rate days basis) = Inr i
      \<and> d_val D (m_amount i) = simple_interest D c basis \<and> valid_money D i \<and> m_currency i = m_currency (pc_principal c)
    else \<exists>f t. res_bind (CivilDaysBetween paid maturity) (\<lambda>days. SimpleInterest D (pc_principal c) rate days basis)
      = Inl (DomainError ErrDecimalOverflow f t)"
proof -
  obtain a where a: "\<forall>f. parseCivilTime f paid = Inr a" "plain_day a" "p = day_text a" by (rule ParseCivilDate_time [OF assms(1)])
  obtain b where b: "\<forall>f. parseCivilTime f maturity = Inr b" "plain_day b" "m = day_text b" by (rule ParseCivilDate_time [OF assms(2)])
  have ab: "a \<le> b"
    using assms(3) day_text_less [OF b(2) a(2)] day_text_less [OF a(2) b(2)]
    by (auto simp: compareCivilDates_def a(3) b(3) split: if_splits)
  have d: "CivilDaysBetween paid maturity = Inr (min (b - a) 106751)" using a(1) b(1) ab by (intro CivilDaysBetween_days) simp_all
  have s: "simple_interest D c basis = half_up4 (d_val D (m_amount (pc_principal c)) * d_val D (ar_value rate)
      * of_int (min (b - a) 106751) / of_int basis)"
    using parseCivilTime_civil_day [OF a(1) [rule_format]] parseCivilTime_civil_day [OF b(1) [rule_format]] assms(5-7)
    by (simp add: simple_interest_def)
  have v: "valid_money D (pc_principal c)" "valid_rate D rate" "0 \<le> min (b - a) 106751"
    using assms(4,5) ab by (auto simp: valid_contract_amounts_def)
  show ?thesis using SimpleInterest_value [OF v assms(8)] unfolding d s by (auto split: if_splits)
qed

lemma EstimatedUnpaidMaturityInterest_value:
  assumes "ProductContract_Validate D c = Inr ()" and "pc_interest_mode c \<in> set AllInterestModes" and "valid_contract_amounts D c"
  shows "if forecast_interest D c \<le> max_money
    then \<exists>i. EstimatedUnpaidMaturityInterest D c = Inr i \<and> d_val D (m_amount i) = forecast_interest D c \<and> valid_money D i
      \<and> m_currency i = m_currency (pc_principal c)
    else \<exists>f t. EstimatedUnpaidMaturityInterest D c = Inl (DomainError ErrDecimalOverflow f t)"
proof -
  obtain startOn maturity kind where p: "m_currency (pc_principal c) = pc_currency c"
      "optionalCivilDate ''maturityOn'' (pc_maturity_on c) = Inr maturity"
      "validateInterestFields kind (pc_interest_mode c) (pc_annual_rate c) (pc_maturity_interest c)
        (pc_interest_paid_through_on c) startOn maturity (pc_currency c) = Inr ()"
    by (rule ProductContract_Validate_parts [OF assms(1,2)])
  have cur: "ParseCurrency (pc_currency c) = Inr (pc_currency c)"
    using assms(3) ParseCurrency_valid by (simp add: valid_contract_amounts_def valid_money_def flip: p(1))
  have simple: ?thesis if "pc_interest_mode c = (if basis = 365 then InterestSimpleAct365 else InterestSimpleAct360)"
    "basis = 360 \<or> basis = (365::int)" for basis
  proof -
    from that obtain rate paid q m where f: "pc_annual_rate c = Some rate" "pc_interest_paid_through_on c = Some paid"
        "ParseCivilDate ''interestPaidThroughOn'' paid = Inr q" "maturity = Some m" "\<not> 0 < compareCivilDates q m"
      using p(3) by (auto simp: validateInterestFields_def elim!: res_elims split: option.splits if_splits)
    then obtain mt where m: "pc_maturity_on c = Some mt" "ParseCivilDate ''maturityOn'' mt = Inr m"
      using p(2) by (cases "pc_maturity_on c") (auto simp: optionalCivilDate_def)
    have e: "EstimatedUnpaidMaturityInterest D c =
        res_bind (CivilDaysBetween paid mt) (\<lambda>days. SimpleInterest D (pc_principal c) rate days basis)"
      using that f m by (auto simp: EstimatedUnpaidMaturityInterest_def Let_def)
    have "forecast_interest D c = simple_interest D c basis" using that by (auto simp: forecast_interest_def)
    then show ?thesis
      unfolding e using simple_interest_value [OF f(3) m(2) f(5) assms(3) f(1,2) m(1) that(2)] by (simp only:)
  qed
  consider "pc_interest_mode c = InterestNone" | "pc_interest_mode c = InterestManualMaturityAmount"
    | "pc_interest_mode c = InterestSimpleAct365" | "pc_interest_mode c = InterestSimpleAct360"
    using assms(2) by (auto simp: AllInterestModes_def)
  then show ?thesis
  proof cases
    case 1
    obtain m where m: "NewMoney D (d_zero D) (pc_currency c) = Inr m"
      using NewMoney_ok [of "d_zero D" "pc_currency c" "pc_currency c"] cur max_money_bounds(1) by (auto simp: exact)
    then show ?thesis
      using NewMoney_Inr [OF m] cur max_money_bounds(1) p(1) 1
      by (simp add: EstimatedUnpaidMaturityInterest_def forecast_interest_def exact half_even_on_grid Let_def)
  next
    case 2
    then obtain i where "pc_maturity_interest c = Some i" "m_currency i = pc_currency c" "valid_money D i"
      using p(3) assms(3) by (auto simp: validateInterestFields_def valid_contract_amounts_def split: option.splits)
    then show ?thesis using 2 p(1)
      by (simp add: EstimatedUnpaidMaturityInterest_def forecast_interest_def Let_def valid_money_def)
  next
    case 3
    then show ?thesis using simple [of 365] by simp
  next
    case 4
    then show ?thesis using simple [of 360] by simp
  qed
qed

lemma ForecastGrossProceeds_value:
  assumes "ProductContract_Validate D c = Inr ()" and "pc_interest_mode c \<in> set AllInterestModes"
    and "valid_contract_amounts D c" and "pc_kind c = ProductTermDeposit"
  defines "gross \<equiv> d_val D (m_amount (pc_principal c)) + forecast_interest D c"
  shows "if gross \<le> max_money
    then \<exists>m. ForecastGrossProceeds D c = Inr (Some m) \<and> d_val D (m_amount m) = gross \<and> m_currency m = pc_currency c \<and> valid_money D m
    else \<exists>f t. ForecastGrossProceeds D c = Inl (DomainError ErrDecimalOverflow f t)"
proof -
  note i = EstimatedUnpaidMaturityInterest_value [OF assms(1-3)]
  have cur: "m_currency (pc_principal c) = pc_currency c" by (rule ProductContract_Validate_parts [OF assms(1,2)])
  have p: "valid_money D (pc_principal c)" "0 \<le> d_val D (m_amount (pc_principal c))"
    using assms(3) by (simp_all add: valid_contract_amounts_def valid_money_def)
  show ?thesis
  proof (cases "forecast_interest D c \<le> max_money")
    case False
    moreover have "\<not> gross \<le> max_money" using False p(2) by (simp add: gross_def)
    ultimately show ?thesis using i assms(4) by (auto simp: ForecastGrossProceeds_def)
  next
    case True
    then obtain m where m: "EstimatedUnpaidMaturityInterest D c = Inr m" "d_val D (m_amount m) = forecast_interest D c"
        "valid_money D m" "m_currency m = m_currency (pc_principal c)"
      using i by auto
    have f: "ForecastGrossProceeds D c =
        res_bind (NewMoney D (d_add D (m_amount (pc_principal c)) (m_amount m)) (pc_currency c)) (\<lambda>x. Inr (Some x))"
      using m assms(4) cur by (simp add: ForecastGrossProceeds_def Money_Add_def)
    have g: "d_val D (d_add D (m_amount (pc_principal c)) (m_amount m)) = gross" by (simp add: exact m(2) gross_def)
    have gn: "0 \<le> gross" "on_grid 4 gross"
      using p m(2,3) valid_money_grid [OF p(1)] valid_money_grid [OF m(3)]
      by (auto simp: gross_def valid_money_def intro!: on_grid_add)
    have cc: "ParseCurrency (pc_currency c) = Inr (pc_currency c)"
      using p(1) ParseCurrency_valid by (simp add: valid_money_def flip: cur)
    show ?thesis
    proof (cases "gross \<le> max_money")
      case True
      then obtain x where x: "NewMoney D (d_add D (m_amount (pc_principal c)) (m_amount m)) (pc_currency c) = Inr x"
        using NewMoney_ok [OF _ _ cc] g gn by metis
      show ?thesis using True x NewMoney_Inr(1,3) [OF x] NewMoney_exact [OF x] cc gn(2) by (simp add: f g)
    next
      case False
      then show ?thesis by (simp add: f NewMoney_def exact limit_val flip: g)
    qed
  qed
qed

lemma NewAnnualRate_Inr:
  assumes "NewAnnualRate D v = Inr r"
  shows "valid_rate D r" and "d_val D (ar_value r) = d_val D v"
proof -
  have b: "0 \<le> d_val D v" "d_val D v \<le> 1" using assms by (auto simp: NewAnnualRate_def exact val_from_int)
  have s: "scaled D (nat (- d_exponent D v)) v" by (simp add: scaled_def)
  then obtain w where w: "d_from_string D (canonicalDecimal D v) = Inr w" "d_val D w = d_val D v"
    using canonical_Parse(2) [of v 1, OF b(1) _ _ s] b(2) by fastforce
  then have "r = \<lparr> ar_value = w \<rparr>" "fst (decimalShape D w) \<le> int 8"
    using assms by (auto simp: NewAnnualRate_def parse_decimal_def Let_def split: prod.splits if_splits)
  with w b show "valid_rate D r" "d_val D (ar_value r) = d_val D v"
    unfolding scale_shape by (simp_all add: valid_rate_def)
qed

lemma ParseAnnualRateRatio_Canonical:
  assumes "valid_rate D r"
  shows "\<exists>r'. ParseAnnualRateRatio D (AnnualRate_Canonical D r) = Inr r' \<and> d_val D (ar_value r') = d_val D (ar_value r)"
proof -
  have b: "0 \<le> d_val D (ar_value r)" "d_val D (ar_value r) \<le> 1" "d_val D (ar_value r) < 10 ^ 1" "scaled D 8 (ar_value r)"
    using assms by (simp_all add: valid_rate_def)
  have e: "AnnualRate_Canonical D r = canonicalDecimal D (ar_value r)"
    by (simp add: AnnualRate_Canonical_def canonicalDecimal_def)
  note c = canonical_Parse [OF b(1,3) zero_less_one b(4)]
  have t: "trim_space (canonicalDecimal D (ar_value r)) = canonicalDecimal D (ar_value r)"
    by (rule trim_space_graphic [OF decimal_syntax_graphic [OF c(1)]])
  obtain w where w: "d_from_string D (canonicalDecimal D (ar_value r)) = Inr w" "d_val D w = d_val D (ar_value r)" "scaled D 8 w"
    using c(2) by blast
  obtain x where x: "d_from_string D (canonicalDecimal D w) = Inr x" "d_val D x = d_val D w" "scaled D 8 x"
    using canonical_Parse(2) [of w 1 8] b(1,3) w(2,3) by auto
  have "fst (decimalShape D x) \<le> 8" "snd (decimalShape D x) \<le> 1"
    using x(2,3) w(2) b(1,3) scale_shape [of x 8] integer_digits [of x 1] by simp_all
  then have "NewAnnualRate D w = Inr \<lparr> ar_value = x \<rparr>"
    using x(1) b(1,2) w(2) by (auto simp: NewAnnualRate_def parse_decimal_def exact val_from_int Let_def split: prod.splits)
  then show ?thesis using w x by (simp add: ParseAnnualRateRatio_def t e parse_decimal_def)
qed

lemma money_reparse:
  assumes "ParseMoney D s c = Inr m"
  shows "\<exists>m'. ParseMoney D (Money_CanonicalAmount D m) (m_currency m) = Inr m' \<and> Money_CanonicalAmount D m' = Money_CanonicalAmount D m"
  using ParseMoney_Canonical [OF ParseMoney_Inr(1) [OF assms]] string_val by (metis Money_CanonicalAmount_def)

lemma rate_reparse:
  assumes "ParseAnnualRateRatio D s = Inr r"
  shows "\<exists>r'. ParseAnnualRateRatio D (AnnualRate_Canonical D r) = Inr r' \<and> AnnualRate_Canonical D r' = AnnualRate_Canonical D r"
proof -
  from assms have "valid_rate D r" by (auto simp: ParseAnnualRateRatio_def dest: NewAnnualRate_Inr(1))
  from ParseAnnualRateRatio_Canonical [OF this] obtain r'
    where r': "ParseAnnualRateRatio D (AnnualRate_Canonical D r) = Inr r'" "d_val D (ar_value r') = d_val D (ar_value r)" by blast
  have "AnnualRate_Canonical D r' = AnnualRate_Canonical D r"
    using string_val [OF r'(2)] r'(2) by (simp add: AnnualRate_Canonical_def is_zero_iff)
  with r'(1) show ?thesis by blast
qed

lemma UnmarshalJSON_stable:
  assumes "UnmarshalJSON D payload = Inr c"
  shows "\<exists>c'. UnmarshalJSON D (MarshalJSON D c) = Inr c' \<and> MarshalJSON D c' = MarshalJSON D c"
proof -
  let ?money = "\<lambda>s. ParseMoney D s (pc_currency c)"
  note unparsed = UnmarshalJSON_Inr [OF assms]
  have ids: "ParseProductContractID (pc_id c) = Inr (pc_id c)" "ParseHouseholdID (pc_household_id c) = Inr (pc_household_id c)"
      "ParseAccountID (pc_account_id c) = Inr (pc_account_id c)" "ParseHoldingID (pc_holding_id c) = Inr (pc_holding_id c)"
      "ParseInstrumentID (pc_instrument_id c) = Inr (pc_instrument_id c)"
      "ParseProductOperationID (pc_opened_operation_id c) = Inr (pc_opened_operation_id c)"
    using unparsed(1-6) unfolding ParseProductContractID_def ParseHouseholdID_def ParseAccountID_def ParseHoldingID_def
        ParseInstrumentID_def ParseProductOperationID_def by (simp_all only: parseID_Inr(3))
  note enums = reparse_enums(1) [OF unparsed(7)] reparse_enums(2) [OF unparsed(8)] reparse_enums(3) [OF unparsed(9)]
    ParseCurrency_idem [OF unparsed(10)]
  have cur: "m_currency (pc_principal c) = pc_currency c" using ParseMoney_Inr(2) [OF unparsed(13)] enums(4) by simp
  have opt: "opt_traverse ParseProductContractID (pc_renewed_from_id c) = Inr (pc_renewed_from_id c)"
      "opt_traverse ParseProductOperationID (pc_closed_operation_id c) = Inr (pc_closed_operation_id c)"
    using opt_traverse_reparse [OF unparsed(11), of ParseProductContractID id] opt_traverse_reparse [OF unparsed(12), of ParseProductOperationID id]
    by (auto simp: ParseProductContractID_def ParseProductOperationID_def option.map_id dest: parseID_Inr(3))
  obtain p where p: "?money (Money_CanonicalAmount D (pc_principal c)) = Inr p"
      "Money_CanonicalAmount D p = Money_CanonicalAmount D (pc_principal c)"
    using money_reparse [OF unparsed(13)] cur by auto
  have step: "\<exists>m'. ?money (Money_CanonicalAmount D m) = Inr m' \<and> Money_CanonicalAmount D m' = Money_CanonicalAmount D m"
    if "?money s = Inr m" for s m
    using money_reparse [OF that] ParseMoney_Inr(2) [OF that] enums(4) by simp
  obtain i
    where i: "opt_traverse ?money (map_option (Money_CanonicalAmount D) (pc_maturity_interest c)) = Inr i"
      "map_option (Money_CanonicalAmount D) i = map_option (Money_CanonicalAmount D) (pc_maturity_interest c)"
    using opt_traverse_reparse [OF unparsed(15), of ?money "Money_CanonicalAmount D"] step by blast
  obtain r
    where r: "opt_traverse (ParseAnnualRateRatio D) (map_option (AnnualRate_Canonical D) (pc_annual_rate c)) = Inr r"
      "map_option (AnnualRate_Canonical D) r = map_option (AnnualRate_Canonical D) (pc_annual_rate c)"
    using opt_traverse_reparse [OF unparsed(14), of "ParseAnnualRateRatio D" "AnnualRate_Canonical D"] rate_reparse by blast
  show ?thesis
    by (simp add: UnmarshalJSON_def MarshalJSON_def ids enums opt p r i)
qed

end

section \<open>Properties\<close>

text \<open>C25. Simple interest is rounded once: although the code first divides at sixteen places and
  then rounds to four, the result is the exact quotient principal times rate times days over
  basis rounded half up at four places, or the overflow error when that passes the maximum.\<close>

theorem SimpleInterest_rounds_once:
  assumes "decimal_lib D" and "valid_money D p" and "valid_rate D r" and "0 \<le> days" and "basis = 360 \<or> basis = 365"
  shows "let interest = half_up4 (d_val D (m_amount p) * d_val D (ar_value r) * of_int days / of_int basis) in
    if interest \<le> max_money
    then \<exists>m. SimpleInterest D p r days basis = Inr m \<and> d_val D (m_amount m) = interest \<and> valid_money D m \<and> m_currency m = m_currency p
    else SimpleInterest D p r days basis = Inl (DomainError ErrDecimalOverflow ''interest'' ''interest is outside the supported range'')"
  using decimal_lib.SimpleInterest_value [OF assms] by (simp only: Let_def)

theorem SimpleInterest_rounds_once_witness:
  "SimpleInterest ref_decimal \<lparr> m_amount = Dec 1000000 (- 2), m_currency = ''USD'' \<rparr> \<lparr> ar_value = Dec 5 (- 2) \<rparr> 92 365
     = Inr \<lparr> m_amount = Dec 1260274 (- 4), m_currency = ''USD'' \<rparr>
   \<and> half_up4 (10000 * (5 / 100) * 92 / 365) = 1260274 / 10000"
proof -
  let ?p = "\<lparr> m_amount = Dec 1000000 (- 2), m_currency = ''USD'' \<rparr>" and ?r = "\<lparr> ar_value = Dec 5 (- 2) \<rparr>"
  have s: "SimpleInterest ref_decimal ?p ?r 92 365 = Inr \<lparr> m_amount = Dec 1260274 (- 4), m_currency = ''USD'' \<rparr>" by code_simp
  have v: "valid_money ref_decimal ?p" "valid_rate ref_decimal ?r"
    by (simp_all add: valid_money_def valid_rate_def scaled_def dv_Dec power_int_minus max_money_def valid_currency_def upper_letter_iff)
  from SimpleInterest_rounds_once [OF ref.decimal_lib_axioms v, of 92 365] s
  show ?thesis by (auto simp: Let_def dv_Dec power_int_minus split: if_splits)
qed

text \<open>The forecast of a validated deposit always has an answer: principal plus the interest of
  its mode, or the overflow error exactly when that sum passes the maximum; no missing field and
  no malformed date is left for the forecast to find.\<close>

theorem ForecastGrossProceeds_validated:
  assumes "decimal_lib D" and "ProductContract_Validate D c = Inr ()" and "pc_interest_mode c \<in> set AllInterestModes"
    and "valid_contract_amounts D c" and "pc_kind c = ProductTermDeposit"
  shows "let gross = d_val D (m_amount (pc_principal c)) + forecast_interest D c in
    if gross \<le> max_money
    then \<exists>m. ForecastGrossProceeds D c = Inr (Some m) \<and> d_val D (m_amount m) = gross \<and> m_currency m = pc_currency c \<and> valid_money D m
    else \<exists>f t. ForecastGrossProceeds D c = Inl (DomainError ErrDecimalOverflow f t)"
  using decimal_lib.ForecastGrossProceeds_value [OF assms] by (simp only: Let_def)

definition sample_contract :: "dec ProductContract" where
  "sample_contract =
     \<lparr> pc_id = ''00000000-0000-4000-8000-000000000001'', pc_household_id = ''00000000-0000-4000-8000-000000000002'',
       pc_account_id = ''00000000-0000-4000-8000-000000000003'', pc_holding_id = ''00000000-0000-4000-8000-000000000004'',
       pc_instrument_id = ''00000000-0000-4000-8000-000000000005'', pc_kind = ProductTermDeposit, pc_short_name = ''TD'',
       pc_name = ''Deposit'', pc_note = None, pc_currency = ''USD'',
       pc_principal = \<lparr> m_amount = Dec 1000000 (- 2), m_currency = ''USD'' \<rparr>, pc_start_on = ''2026-01-01'',
       pc_maturity_on = Some ''2026-04-03'', pc_interest_mode = InterestSimpleAct365,
       pc_annual_rate = Some \<lparr> ar_value = Dec 5 (- 2) \<rparr>, pc_maturity_interest = None,
       pc_interest_paid_through_on = Some ''2026-01-01'', pc_renewed_from_id = None, pc_state = ProductStateOpen,
       pc_opened_operation_id = ''00000000-0000-4000-8000-000000000006'', pc_closed_operation_id = None, pc_revision = 1,
       pc_created_at = 0, pc_updated_at = 0 \<rparr>"

theorem ForecastGrossProceeds_validated_witness:
  "\<exists>m. ForecastGrossProceeds ref_decimal sample_contract = Inr (Some m) \<and> d_val ref_decimal (m_amount m) = 101260274 / 10000"
proof -
  have v: "ProductContract_Validate ref_decimal sample_contract = Inr ()" by code_simp
  have a: "valid_contract_amounts ref_decimal sample_contract"
    by (simp add: sample_contract_def valid_contract_amounts_def valid_money_def valid_rate_def scaled_def dv_Dec power_int_minus
        max_money_def valid_currency_def upper_letter_iff)
  have "civil_day ''2026-04-03'' = 739708" "civil_day ''2026-01-01'' = 739616" by code_simp+
  then have "forecast_interest ref_decimal sample_contract = half_up4 (10000 * (5 / 100) * 92 / 365)"
    by (simp add: forecast_interest_def simple_interest_def sample_contract_def dv_Dec power_int_minus)
  also have "\<dots> = 1260274 / 10000" by (simp add: half_up4_def floor_eq_iff)
  finally have f: "forecast_interest ref_decimal sample_contract = 1260274 / 10000" .
  have k: "pc_interest_mode sample_contract \<in> set AllInterestModes" "pc_kind sample_contract = ProductTermDeposit"
    and p: "d_val ref_decimal (m_amount (pc_principal sample_contract)) = 10000"
    by (simp_all add: AllInterestModes_def sample_contract_def dv_Dec power_int_minus)
  show ?thesis
    using ForecastGrossProceeds_validated [OF ref.decimal_lib_axioms v k(1) a k(2)]
    by (auto simp: Let_def max_money_def f p simp del: d_val_ref)
qed

text \<open>The stored form is stable: a contract that was read back is written to the same stored
  form as the contract it was read from, so reading and writing again changes nothing.\<close>

theorem UnmarshalJSON_MarshalJSON:
  assumes "decimal_lib D" and "UnmarshalJSON D payload = Inr c"
  shows "\<exists>c'. UnmarshalJSON D (MarshalJSON D c) = Inr c' \<and> MarshalJSON D c' = MarshalJSON D c"
  by (rule decimal_lib.UnmarshalJSON_stable [OF assms])

theorem UnmarshalJSON_MarshalJSON_witness:
  "\<exists>c'. UnmarshalJSON ref_decimal (MarshalJSON ref_decimal sample_contract) = Inr c'
     \<and> (\<exists>c''. UnmarshalJSON ref_decimal (MarshalJSON ref_decimal c') = Inr c''
       \<and> MarshalJSON ref_decimal c'' = MarshalJSON ref_decimal c')"
proof -
  have "is_ok (UnmarshalJSON ref_decimal (MarshalJSON ref_decimal sample_contract))" by code_simp
  then obtain c' where c: "UnmarshalJSON ref_decimal (MarshalJSON ref_decimal sample_contract) = Inr c'" by (auto simp: is_ok_iff)
  from UnmarshalJSON_MarshalJSON [OF ref.decimal_lib_axioms c] c show ?thesis by blast
qed

end
