(* ===== verification/Valuation.thy ===== *)
theory Valuation
  imports Portfolio
begin

text \<open>
  Quote freshness: \<^verbatim>\<open>internal/domain/valuation.go\<close>.  How an observation is labelled by its age, and
  the evidence record that valuations carry.
\<close>

section \<open>The model\<close>

datatype Freshness = FreshnessFresh | FreshnessDelayed | FreshnessStale | FreshnessManual | FreshnessUnavailable

definition QuoteClockSkewTolerance :: int where
  "QuoteClockSkewTolerance = 5 * 60 * second"

definition ProviderObservationEarliest :: go_time where
  "ProviderObservationEarliest = date_days 2000 1 1 * day_ns"

text \<open>\<^verbatim>\<open>Time.Sub\<close> saturates at the smallest and largest duration.\<close>

definition time_sub :: "go_time \<Rightarrow> go_time \<Rightarrow> int" where
  "time_sub t u = max (- (2 ^ 63)) (min (2 ^ 63 - 1) (t - u))"

definition QuoteFreshness :: "QuoteSourceKind \<Rightarrow> bool \<Rightarrow> go_time \<Rightarrow> go_time \<Rightarrow> int \<Rightarrow> Freshness" where
  "QuoteFreshness source delayed quotedAt now ttl =
     (if source = QuoteSourceManual then FreshnessManual
      else if time_is_zero quotedAt \<or> time_is_zero now \<or> quotedAt < ProviderObservationEarliest then FreshnessUnavailable
      else
        let age = time_sub now quotedAt in
        if now + QuoteClockSkewTolerance < quotedAt then FreshnessUnavailable
        else
          let ttl = (if ttl \<le> 0 then 12 * hour else ttl) in
          if ttl \<le> age then FreshnessStale
          else if delayed then FreshnessDelayed
          else FreshnessFresh)"

record QuoteEvidenceView =
  qe_effective_date :: string
  qe_value_effective_at :: go_time
  qe_fetched_at :: go_time
  qe_closed_carry :: bool
  qe_carried :: bool
  qe_observation_id :: string
  qe_source :: QuoteSourceKind
  qe_source_key :: string
  qe_quoted_at :: go_time
  qe_freshness :: Freshness
  qe_delayed :: bool

section \<open>Ageing\<close>

text \<open>How much a label promises, from a usable fresh value to a stale one.\<close>

fun staleness :: "Freshness \<Rightarrow> nat" where
  "staleness FreshnessManual = 0"
| "staleness FreshnessFresh = 1"
| "staleness FreshnessDelayed = 1"
| "staleness FreshnessStale = 2"
| "staleness FreshnessUnavailable = 3"

text \<open>An observation that is not ahead of the clock only ages: its label never improves as time passes.\<close>

lemma QuoteFreshness_ages:
  assumes "now \<le> later" and "0 < now" and "quotedAt \<le> now + QuoteClockSkewTolerance"
  shows "staleness (QuoteFreshness source delayed quotedAt now ttl) \<le> staleness (QuoteFreshness source delayed quotedAt later ttl)"
proof -
  have "time_sub now quotedAt \<le> time_sub later quotedAt" using assms(1) by (simp add: time_sub_def)
  with assms show ?thesis by (auto simp: QuoteFreshness_def Let_def time_is_zero_def)
qed

end
