(* ===== verification/LiquidityPolicy.thy ===== *)
theory LiquidityPolicy
  imports ProductContract Valuation
begin

text \<open>
  Access policies: \<^verbatim>\<open>internal/domain/liquidity.go\<close>.  The sources of available money, the policy that
  says when and at what cost a source can be turned into cash, reservations, the default policies
  of account types, and the dates a policy allows.
\<close>

section \<open>Sources\<close>

datatype LiquiditySourceKind = SourceAccountValue | SourceAccountCash | SourceHolding | LiquiditySourceKind_unknown string

fun LiquiditySourceKind_string :: "LiquiditySourceKind \<Rightarrow> string" where
  "LiquiditySourceKind_string SourceAccountValue = ''account_value''"
| "LiquiditySourceKind_string SourceAccountCash = ''account_cash''"
| "LiquiditySourceKind_string SourceHolding = ''holding''"
| "LiquiditySourceKind_string (LiquiditySourceKind_unknown s) = s"

definition ParseLiquiditySourceKind :: "string \<Rightarrow> LiquiditySourceKind res" where
  "ParseLiquiditySourceKind value =
     parse_enum LiquiditySourceKind_string [SourceAccountValue, SourceAccountCash, SourceHolding]
       (validation ''sourceKind'' ''must be account_value, account_cash, or holding'') value"

record LiquiditySourceRef =
  sr_kind :: LiquiditySourceKind
  sr_account_id :: AccountID
  sr_holding_id :: "HoldingID option"
  sr_currency :: "CurrencyCode option"

definition LiquiditySourceRef_Key :: "LiquiditySourceRef \<Rightarrow> string" where
  "LiquiditySourceRef_Key r =
     (case sr_kind r of
        SourceAccountValue \<Rightarrow> ''account_value:'' @ sr_account_id r
      | SourceAccountCash \<Rightarrow>
          ''account_cash:'' @ sr_account_id r @ '':'' @ (case sr_currency r of Some currency \<Rightarrow> currency | None \<Rightarrow> [])
      | SourceHolding \<Rightarrow> ''holding:'' @ (case sr_holding_id r of Some holding \<Rightarrow> holding | None \<Rightarrow> [])
      | LiquiditySourceKind_unknown s \<Rightarrow> s)"

definition LiquiditySourceRef_Validate :: "LiquiditySourceRef \<Rightarrow> unit res" where
  "LiquiditySourceRef_Validate r =
     res_bind (ParseLiquiditySourceKind (LiquiditySourceKind_string (sr_kind r))) (\<lambda>kind.
     res_bind (uuid_check ''accountId'' (ParseAccountID (sr_account_id r))) (\<lambda>_.
     case kind of
       SourceAccountValue \<Rightarrow>
         if sr_holding_id r \<noteq> None then Inl (validation ''holdingId'' ''must be empty for an account_value source'')
         else if sr_currency r \<noteq> None then Inl (validation ''currency'' ''must be empty for an account_value source'')
         else Inr ()
     | SourceAccountCash \<Rightarrow>
         if sr_holding_id r \<noteq> None then Inl (validation ''holdingId'' ''must be empty for an account_cash source'')
         else (case sr_currency r of
             None \<Rightarrow> Inl (validation ''currency'' ''is required for an account_cash source'')
           | Some currency \<Rightarrow> res_bind (ParseCurrency currency) (\<lambda>_. Inr ()))
     | SourceHolding \<Rightarrow>
         (case sr_holding_id r of
            None \<Rightarrow> Inl (validation ''holdingId'' ''is required for a holding source'')
          | Some holding \<Rightarrow> res_bind (ParseHoldingID holding) (\<lambda>_. Inr ()))
     | LiquiditySourceKind_unknown _ \<Rightarrow> Inr ()))"

definition AccountValueSourceRef :: "AccountID \<Rightarrow> LiquiditySourceRef" where
  "AccountValueSourceRef accountID =
     \<lparr> sr_kind = SourceAccountValue, sr_account_id = accountID, sr_holding_id = None, sr_currency = None \<rparr>"

definition AccountCashSourceRef :: "AccountID \<Rightarrow> CurrencyCode \<Rightarrow> LiquiditySourceRef" where
  "AccountCashSourceRef accountID currency =
     \<lparr> sr_kind = SourceAccountCash, sr_account_id = accountID, sr_holding_id = None, sr_currency = Some currency \<rparr>"

definition HoldingSourceRef :: "AccountID \<Rightarrow> HoldingID \<Rightarrow> LiquiditySourceRef" where
  "HoldingSourceRef accountID holdingID =
     \<lparr> sr_kind = SourceHolding, sr_account_id = accountID, sr_holding_id = Some holdingID, sr_currency = None \<rparr>"

section \<open>Policies\<close>

datatype AccessKind = AccessOnRequest | AccessOnDate | AccessUnknown | AccessExcluded | AccessKind_unknown string

fun AccessKind_string :: "AccessKind \<Rightarrow> string" where
  "AccessKind_string AccessOnRequest = ''on_request''"
| "AccessKind_string AccessOnDate = ''on_date''"
| "AccessKind_string AccessUnknown = ''unknown''"
| "AccessKind_string AccessExcluded = ''excluded''"
| "AccessKind_string (AccessKind_unknown s) = s"

definition ParseAccessKind :: "string \<Rightarrow> AccessKind res" where
  "ParseAccessKind value =
     parse_enum AccessKind_string [AccessOnRequest, AccessOnDate, AccessUnknown, AccessExcluded]
       (validation ''accessKind'' ''is not supported'') value"

fun DayBasis_string :: "DayBasis \<Rightarrow> string" where
  "DayBasis_string DayBasisCalendar = ''calendar''"
| "DayBasis_string DayBasisWeekdays = ''weekdays''"
| "DayBasis_string (DayBasis_unknown s) = s"

definition ParseDayBasis :: "string \<Rightarrow> DayBasis res" where
  "ParseDayBasis value =
     parse_enum DayBasis_string [DayBasisCalendar, DayBasisWeekdays] (validation ''dayBasis'' ''must be calendar or weekdays'') value"

datatype EarlyKind = EarlyNotAllowed | EarlyAllowed | EarlyUnknown | EarlyKind_unknown string

fun EarlyKind_string :: "EarlyKind \<Rightarrow> string" where
  "EarlyKind_string EarlyNotAllowed = ''not_allowed''"
| "EarlyKind_string EarlyAllowed = ''allowed''"
| "EarlyKind_string EarlyUnknown = ''unknown''"
| "EarlyKind_string (EarlyKind_unknown s) = s"

definition ParseEarlyKind :: "string \<Rightarrow> EarlyKind res" where
  "ParseEarlyKind value =
     parse_enum EarlyKind_string [EarlyNotAllowed, EarlyAllowed, EarlyUnknown] (validation ''earlyKind'' ''is not supported'') value"

datatype EarlyAmountMode = EarlyAmountCurrentValue | EarlyAmountFixedGross | EarlyAmountMode_unknown string

fun EarlyAmountMode_string :: "EarlyAmountMode \<Rightarrow> string" where
  "EarlyAmountMode_string EarlyAmountCurrentValue = ''current_value''"
| "EarlyAmountMode_string EarlyAmountFixedGross = ''fixed_gross''"
| "EarlyAmountMode_string (EarlyAmountMode_unknown s) = s"

definition ParseEarlyAmountMode :: "string \<Rightarrow> EarlyAmountMode res" where
  "ParseEarlyAmountMode value =
     parse_enum EarlyAmountMode_string [EarlyAmountCurrentValue, EarlyAmountFixedGross]
       (validation ''earlyAmountMode'' ''is not supported'') value"

text \<open>The empty text, the zero value of these Go string types, has a constructor of its own.\<close>

datatype PolicyOrigin = PolicyOriginNone | PolicyOriginAssumed | PolicyOriginExplicit | PolicyOriginContract

datatype CompletenessStatus = StatusNone | StatusComplete | StatusPartial | StatusUnavailable

datatype RouteKind = RouteNormal | RouteEarly

record 'd LiquidityPolicy =
  lp_id :: LiquidityPolicyID
  lp_household_id :: HouseholdID
  lp_source :: LiquiditySourceRef
  lp_access_kind :: AccessKind
  lp_unlock_on :: "string option"
  lp_settlement_days :: "int option"
  lp_day_basis :: "DayBasis option"
  lp_receipt_on_override :: "string option"
  lp_accessible_amount_cap :: "'d money option"
  lp_normal_exit_fee :: "'d money option"
  lp_early_kind :: EarlyKind
  lp_early_settlement_days :: "int option"
  lp_early_day_basis :: "DayBasis option"
  lp_early_fee :: "'d money option"
  lp_early_amount_mode :: "EarlyAmountMode option"
  lp_early_gross_amount :: "'d money option"
  lp_confirmed_at :: "go_time option"
  lp_note :: "string option"
  lp_revision :: int
  lp_created_at :: go_time
  lp_updated_at :: go_time

text \<open>The settlement fields, and the currency of an optional amount against the source's currency.\<close>

definition check_settlement :: "'d LiquidityPolicy \<Rightarrow> unit res" where
  "check_settlement p =
     (case lp_settlement_days p of
        None \<Rightarrow> Inr ()
      | Some days \<Rightarrow>
          if days < 0 \<or> 365 < days then Inl (validation ''settlementDays'' ''must be between 0 and 365'')
          else (case lp_day_basis p of
              None \<Rightarrow> Inl (validation ''dayBasis'' ''is required when settlementDays is set'')
            | Some basis \<Rightarrow> res_bind (ParseDayBasis (DayBasis_string basis)) (\<lambda>_. Inr ())))"

definition wrong_currency :: "LiquiditySourceRef \<Rightarrow> 'd money option \<Rightarrow> bool" where
  "wrong_currency source amount =
     (case (amount, sr_currency source) of (Some a, Some currency) \<Rightarrow> m_currency a \<noteq> currency | _ \<Rightarrow> False)"

definition check_early :: "'d LiquidityPolicy \<Rightarrow> unit res" where
  "check_early p =
     (case (lp_early_settlement_days p, lp_early_day_basis p, lp_early_fee p, lp_early_amount_mode p) of
        (Some days, Some basis, Some fee, Some mode) \<Rightarrow>
          if days < 0 \<or> 365 < days then Inl (validation ''earlySettlementDays'' ''must be between 0 and 365'')
          else
            res_bind (ParseDayBasis (DayBasis_string basis)) (\<lambda>_.
            res_bind (ParseEarlyAmountMode (EarlyAmountMode_string mode)) (\<lambda>_.
            if mode = EarlyAmountFixedGross \<and> lp_early_gross_amount p = None
            then Inl (validation ''earlyGrossAmount'' ''is required for a fixed-gross early amount'')
            else Inr ()))
      | _ \<Rightarrow> Inl (validation ''earlyKind'' ''allowed early access requires settlement, fee, and amount fields''))"

definition LiquidityPolicy_Validate :: "bool \<Rightarrow> 'd LiquidityPolicy \<Rightarrow> unit res" where
  "LiquidityPolicy_Validate managed p =
     res_bind (uuid_check ''householdId'' (ParseHouseholdID (lp_household_id p))) (\<lambda>_.
     res_bind (LiquiditySourceRef_Validate (lp_source p)) (\<lambda>_.
     res_bind (ParseAccessKind (AccessKind_string (lp_access_kind p))) (\<lambda>access.
     if access = AccessOnDate \<and> lp_unlock_on p = None then Inl (validation ''unlockOn'' ''is required for on_date access'')
     else
       res_bind (opt_traverse (ParseCivilDate ''unlockOn'') (lp_unlock_on p)) (\<lambda>_.
       res_bind (check_settlement p) (\<lambda>_.
       res_bind (opt_traverse (ParseCivilDate ''receiptOnOverride'') (lp_receipt_on_override p)) (\<lambda>_.
       if managed \<and> lp_accessible_amount_cap p \<noteq> None
       then Inl (validation ''accessibleAmountCap'' ''is not accepted for a managed product'')
       else if wrong_currency (lp_source p) (lp_accessible_amount_cap p)
       then Inl (validation ''accessibleAmountCap'' ''must use the source currency'')
       else if wrong_currency (lp_source p) (lp_normal_exit_fee p)
       then Inl (validation ''normalExitFee'' ''must use the source currency'')
       else
         res_bind (ParseEarlyKind (EarlyKind_string (lp_early_kind p))) (\<lambda>early.
         res_bind (if early = EarlyAllowed then check_early p else Inr ()) (\<lambda>_.
         if lp_revision p < 1 then Inl (validation ''revision'' ''must be a positive integer'')
         else res_bind (validateNote ''note'' (lp_note p)) (\<lambda>_. Inr ())))))))))"

section \<open>Reservations\<close>

record 'd LiquidityReservation =
  rs_id :: LiquidityReservationID
  rs_household_id :: HouseholdID
  rs_source :: LiquiditySourceRef
  rs_label :: string
  rs_amount :: "'d money"
  rs_currency :: CurrencyCode
  rs_revision :: int
  rs_created_at :: go_time
  rs_updated_at :: go_time
  rs_released_at :: "go_time option"

definition LiquidityReservation_Validate :: "'d decimal_ops \<Rightarrow> 'd LiquidityReservation \<Rightarrow> unit res" where
  "LiquidityReservation_Validate D r =
     res_bind (uuid_check ''householdId'' (ParseHouseholdID (rs_household_id r))) (\<lambda>_.
     res_bind (LiquiditySourceRef_Validate (rs_source r)) (\<lambda>_.
     res_bind (validateName ''label'' (rs_label r)) (\<lambda>_.
     if Money_IsZero D (rs_amount r) then Inl (validation ''amount'' ''must be greater than zero'')
     else if m_currency (rs_amount r) \<noteq> rs_currency r then Inl (validation ''currency'' ''must match the reservation amount'')
     else if sr_currency (rs_source r) \<noteq> None \<and> sr_currency (rs_source r) \<noteq> Some (rs_currency r)
     then Inl (validation ''currency'' ''must match the source currency'')
     else if rs_revision r < 1 then Inl (validation ''revision'' ''must be a positive integer'')
     else Inr ())))"

definition LiquidityReservation_Active :: "'d LiquidityReservation \<Rightarrow> bool" where
  "LiquidityReservation_Active r \<longleftrightarrow> rs_released_at r = None"

section \<open>Default policies\<close>

datatype LiquidityAssumption =
    AssumptionBankCashToday | AssumptionWeekdaysNoHolidays | AssumptionCurrentPricesAndFX | AssumptionForecastInterest
  | AssumptionExcludedShortTerm | AssumptionDueUnconfirmed | AssumptionFeeExceedsGross | AssumptionMissingFX
  | AssumptionMissingPrice | AssumptionUnknownAccess | AssumptionUnknownFee | AssumptionUnknownTiming
  | AssumptionUnknownEarly | AssumptionRestrictedAccount | AssumptionOutstandingDebtOmitted | AssumptionAssetsOnly

definition zero_ref :: LiquiditySourceRef where
  "zero_ref = \<lparr> sr_kind = LiquiditySourceKind_unknown [], sr_account_id = [], sr_holding_id = None, sr_currency = None \<rparr>"

definition initial_policy :: "'d LiquidityPolicy" where
  "initial_policy =
     \<lparr> lp_id = [], lp_household_id = [], lp_source = zero_ref, lp_access_kind = AccessUnknown, lp_unlock_on = None,
       lp_settlement_days = None, lp_day_basis = None, lp_receipt_on_override = None, lp_accessible_amount_cap = None,
       lp_normal_exit_fee = None, lp_early_kind = EarlyNotAllowed, lp_early_settlement_days = None, lp_early_day_basis = None,
       lp_early_fee = None, lp_early_amount_mode = None, lp_early_gross_amount = None, lp_confirmed_at = None, lp_note = None,
       lp_revision = 1, lp_created_at = 0, lp_updated_at = 0 \<rparr>"

definition restrictedAccountType :: "AccountType \<Rightarrow> bool" where
  "restrictedAccountType t \<longleftrightarrow>
     t \<in> {TypeBrokerage, TypeInvestmentAccount, TypeCryptoExchange, TypeDigitalWallet, TypePension, TypeInsurancePolicy, TypeOther}"

definition DefaultLiquidityPolicy ::
    "AccountType \<Rightarrow> TrackingMode \<Rightarrow> LiquiditySourceKind \<Rightarrow> bool \<Rightarrow> 'd LiquidityPolicy \<times> PolicyOrigin \<times> LiquidityAssumption list" where
  "DefaultLiquidityPolicy accountType tracking sourceKind managed =
     (let policy = initial_policy;
          on_request = policy \<lparr> lp_access_kind := AccessOnRequest, lp_settlement_days := Some 0, lp_day_basis := Some DayBasisCalendar \<rparr>
      in
      if managed then (policy, PolicyOriginContract, [AssumptionUnknownAccess])
      else if accountType = TypeCashOnHand \<and> sourceKind \<noteq> SourceHolding then (on_request, PolicyOriginAssumed, [])
      else if accountType = TypeBankAccount \<and> (sourceKind = SourceAccountValue \<or> sourceKind = SourceAccountCash)
      then (on_request, PolicyOriginAssumed, [AssumptionBankCashToday])
      else if accountType = TypeProperty \<or> accountType = TypeVehicle \<or> accountType = TypeCollectible
      then (policy \<lparr> lp_access_kind := AccessExcluded \<rparr>, PolicyOriginAssumed, [AssumptionExcludedShortTerm])
      else
        (policy \<lparr> lp_early_kind := EarlyUnknown \<rparr>, PolicyOriginAssumed,
         AssumptionUnknownAccess # (if restrictedAccountType accountType then [AssumptionRestrictedAccount] else [])))"

definition attachAssumedZeroExitFee ::
    "'d decimal_ops \<Rightarrow> 'd LiquidityPolicy \<Rightarrow> PolicyOrigin \<Rightarrow> CurrencyCode \<Rightarrow> 'd LiquidityPolicy" where
  "attachAssumedZeroExitFee D policy origin currency =
     (if origin \<noteq> PolicyOriginAssumed \<or> lp_normal_exit_fee policy \<noteq> None then policy
      else if lp_access_kind policy \<noteq> AccessOnRequest \<or> currency = [] then policy
      else case NewMoney D (d_zero D) currency of
        Inl _ \<Rightarrow> policy
      | Inr zero_amount \<Rightarrow> policy \<lparr> lp_normal_exit_fee := Some zero_amount \<rparr>)"

section \<open>Evaluated sources\<close>

text \<open>\<^verbatim>\<open>LiquiditySource\<close> of \<^verbatim>\<open>liquidity_evaluate.go\<close> stands here because policies resolve against it.\<close>

record 'd LiquiditySource =
  ls_ref :: LiquiditySourceRef
  ls_account_id :: AccountID
  ls_product_id :: "ProductContractID option"
  ls_display_name :: string
  ls_native_currency :: CurrencyCode
  ls_current_native_value :: "'d money option"
  ls_current_base_value :: "'d option"
  ls_current_native_amount :: string
  ls_value_as_of :: "go_time option"
  ls_price_evidence :: "QuoteEvidenceView option"
  ls_fx_evidence :: "QuoteEvidenceView option"
  ls_include_in_net_worth :: bool
  ls_archived :: bool
  ls_liability :: bool
  ls_quantity_zero :: bool
  ls_account_type :: AccountType
  ls_tracking_mode :: TrackingMode
  ls_instrument_type :: "InstrumentType option"
  ls_managed :: bool
  ls_contract :: "'d ProductContract option"
  ls_explicit_policy :: "'d LiquidityPolicy option"

text \<open>The origin and the assumptions are returned beside an error too.\<close>

definition ResolveLiquidityPolicy ::
    "'d decimal_ops \<Rightarrow> 'd LiquiditySource \<Rightarrow> PolicyOrigin \<times> LiquidityAssumption list \<times> 'd LiquidityPolicy res" where
  "ResolveLiquidityPolicy D source =
     (if ls_managed source
      then (case ls_explicit_policy source of
          None \<Rightarrow> (PolicyOriginContract, [AssumptionUnknownAccess],
                   Inl (validation ''policy'' ''a managed product requires an explicit contract policy''))
        | Some policy \<Rightarrow> (PolicyOriginContract, [], res_bind (LiquidityPolicy_Validate True policy) (\<lambda>_. Inr policy)))
      else case ls_explicit_policy source of
        Some policy \<Rightarrow>
          (case LiquidityPolicy_Validate False policy of
             Inl e \<Rightarrow> (PolicyOriginExplicit, [], Inl e)
           | Inr _ \<Rightarrow> (PolicyOriginExplicit, [AssumptionRestrictedAccount], Inr policy))
      | None \<Rightarrow>
          let (policy, origin, assumptions) =
                DefaultLiquidityPolicy (ls_account_type source) (ls_tracking_mode source) (sr_kind (ls_ref source)) False;
              (policy, origin, assumptions) =
                (if restrictedAccountType (ls_account_type source) \<and> sr_kind (ls_ref source) = SourceHolding
                 then (policy \<lparr> lp_access_kind := AccessUnknown \<rparr>, PolicyOriginAssumed,
                       [AssumptionUnknownAccess, AssumptionRestrictedAccount])
                 else (policy, origin, assumptions))
          in (origin, assumptions, Inr (attachAssumedZeroExitFee D policy origin (ls_native_currency source))))"

section \<open>Dates\<close>

text \<open>The later of a date and an optional unlock date.\<close>

definition unlocked_on :: "string \<Rightarrow> string option \<Rightarrow> LiquidityAssumption list \<times> string res" where
  "unlocked_on eligible unlock =
     ([], case unlock of
        None \<Rightarrow> Inr eligible
      | Some u \<Rightarrow>
          res_bind (ParseCivilDate ''unlockOn'' u) (\<lambda>u. Inr (if compareCivilDates eligible u < 0 then u else eligible)))"

definition actionEligibleOn ::
    "'d LiquidityPolicy \<Rightarrow> string \<Rightarrow> bool \<Rightarrow> 'd ProductContract option \<Rightarrow> LiquidityAssumption list \<times> string res" where
  "actionEligibleOn p today early contract =
     (if early
      then (if map_option pc_kind contract = Some ProductLockedProduct then unlocked_on today (lp_unlock_on p) else ([], Inr today))
      else case Option.bind contract pc_maturity_on of
        Some m \<Rightarrow>
          ([], res_bind (ParseCivilDate ''maturityOn'' m) (\<lambda>maturity.
               Inr (if 0 < compareCivilDates today maturity then today else maturity)))
      | None \<Rightarrow>
          (case lp_access_kind p of
             AccessOnRequest \<Rightarrow> unlocked_on today (lp_unlock_on p)
           | AccessOnDate \<Rightarrow>
               (case lp_unlock_on p of
                  None \<Rightarrow> ([AssumptionUnknownTiming], Inl (validation ''unlockOn'' ''is required''))
                | Some u \<Rightarrow>
                    ([], res_bind (ParseCivilDate ''unlockOn'' u) (\<lambda>unlock.
                         Inr (if 0 < compareCivilDates today unlock then today else unlock))))
           | _ \<Rightarrow> ([AssumptionUnknownAccess], Inl (ForeignError ''access is not scheduled''))))"

definition ValidateProductDates :: "'d LiquidityPolicy \<Rightarrow> ProductKind \<Rightarrow> string option \<Rightarrow> unit res" where
  "ValidateProductDates p kind maturity =
     (if kind = ProductTermDeposit \<and> (maturity = None \<or> lp_unlock_on p = None \<or> lp_unlock_on p \<noteq> maturity)
      then Inl (validation ''unlockOn'' ''must equal deposit maturity'')
      else if (\<exists>m \<in> set_option maturity. \<exists>u \<in> set_option (lp_unlock_on p). m < u)
      then Inl (validation ''unlockOn'' ''cannot follow maturity'')
      else case lp_receipt_on_override p of
        None \<Rightarrow> Inr ()
      | Some receipt \<Rightarrow>
          if (\<exists>m \<in> set_option maturity. receipt < m) then Inl (validation ''receiptOnOverride'' ''cannot precede maturity'')
          else if (\<exists>u \<in> set_option (lp_unlock_on p). receipt < u) then Inl (validation ''receiptOnOverride'' ''cannot precede unlock'')
          else Inr ())"

definition scheduled_receipt ::
    "'d LiquidityPolicy \<Rightarrow> string \<Rightarrow> 'd ProductContract option \<Rightarrow> LiquidityAssumption list \<times> string res" where
  "scheduled_receipt p receipt contract =
     ([], res_bind (ParseCivilDate ''receiptOnOverride'' receipt) (\<lambda>override.
          let anchor = (case Option.bind contract pc_maturity_on of Some m \<Rightarrow> m | None \<Rightarrow> override) in
          case snd (actionEligibleOn p anchor False contract) of
            Inl _ \<Rightarrow> Inr override
          | Inr eligible \<Rightarrow>
              if compareCivilDates override eligible < 0
              then Inl (validation ''receiptOnOverride'' ''cannot precede action eligibility'')
              else Inr override))"

definition settled_receipt :: "string \<Rightarrow> int \<Rightarrow> DayBasis \<Rightarrow> LiquidityAssumption list \<times> string res" where
  "settled_receipt eligible days basis =
     (case SettlementReceiptOn eligible days basis of
        Inl e \<Rightarrow> ([], Inl e)
      | Inr receipt \<Rightarrow> ((if basis = DayBasisWeekdays then [AssumptionWeekdaysNoHolidays] else []), Inr receipt))"

definition receiptOn ::
    "'d LiquidityPolicy \<Rightarrow> string \<Rightarrow> bool \<Rightarrow> 'd ProductContract option \<Rightarrow> LiquidityAssumption list \<times> string res" where
  "receiptOn p today early contract =
     (let today = (if early then today else case Option.bind contract pc_maturity_on of Some m \<Rightarrow> m | None \<Rightarrow> today) in
      case (early, lp_receipt_on_override p) of
        (False, Some receipt) \<Rightarrow> scheduled_receipt p receipt contract
      | _ \<Rightarrow>
          (case actionEligibleOn p today early contract of
             (assumptions, Inl e) \<Rightarrow> (assumptions, Inl e)
           | (_, Inr eligible) \<Rightarrow>
               if early
               then (case (lp_early_settlement_days p, lp_early_day_basis p) of
                   (Some days, Some basis) \<Rightarrow> settled_receipt eligible days basis
                 | _ \<Rightarrow> ([AssumptionUnknownTiming], Inl (validation ''earlySettlementDays'' ''is required'')))
               else (case lp_settlement_days p of
                   None \<Rightarrow> ([AssumptionUnknownTiming], Inl (validation ''settlementDays'' ''is unknown''))
                 | Some days \<Rightarrow>
                     settled_receipt eligible days (case lp_day_basis p of Some basis \<Rightarrow> basis | None \<Rightarrow> DayBasisCalendar))))"

end
