(* ===== verification/LiquidityEval.thy ===== *)
theory LiquidityEval
  imports LiquidityPolicy "HOL-Library.Product_Lexorder" "HOL-Library.AList"
begin

text \<open>
  Availability of money: \<^verbatim>\<open>internal/domain/liquidity_evaluate.go\<close> and \<^verbatim>\<open>liquidity_precision.go\<close>.  For
  each source the routes by which it turns into cash, the route taken at each horizon, reservations
  against it, and the totals per horizon in each currency and in the base currency.  The conversion
  to the base currency is the caller's function; its absence is \<^term>\<open>None\<close>.
\<close>

section \<open>Results\<close>

text \<open>The zero value of Money, and the value left when the error of a constructor is ignored.\<close>

definition zero_money :: "'d decimal_ops \<Rightarrow> 'd money" where
  "zero_money D = \<lparr> m_amount = d_zero D, m_currency = [] \<rparr>"

definition or_zero :: "'d decimal_ops \<Rightarrow> 'd money res \<Rightarrow> 'd money" where
  "or_zero D r = (case r of Inr m \<Rightarrow> m | Inl _ \<Rightarrow> zero_money D)"

type_synonym 'd ConvertToBase = "'d \<Rightarrow> CurrencyCode \<Rightarrow> ('d option \<times> bool) res"

record LiquidityQuery =
  lq_as_of :: go_time
  lq_timezone :: string
  lq_base_currency :: CurrencyCode
  lq_custom_horizon_on :: "string option"
  lq_include_early_withdrawal :: bool

record 'd LiquidityRoute =
  lr_net_exact :: "'d option"
  lr_kind :: RouteKind
  lr_eligible_on :: "string option"
  lr_receipt_on :: "string option"
  lr_gross_native :: "'d money option"
  lr_fee_native :: "'d money option"
  lr_net_native :: "'d money option"
  lr_status :: CompletenessStatus
  lr_amount_basis :: string
  lr_action_required :: string
  lr_assumptions :: "LiquidityAssumption list"
  lr_missing_reasons :: "string list"

record 'd LiquidityBucketResult =
  br_net_exact :: "'d option"
  br_reserve_exact :: "'d option"
  br_native_status :: CompletenessStatus
  br_horizon_on :: string
  br_selected_route :: "'d LiquidityRoute option"
  br_net_native :: "'d money option"
  br_net_base :: "'d option"
  br_applied_reserve_native :: "'d money option"
  br_unreserved_native :: "'d money option"
  br_reserve_shortfall_native :: "'d money option"
  br_status :: CompletenessStatus
  br_reasons :: "string list"

record 'd LiquiditySourceResult =
  lo_ref :: LiquiditySourceRef
  lo_source_key :: string
  lo_account_id :: AccountID
  lo_product_id :: "ProductContractID option"
  lo_display_name :: string
  lo_native_currency :: CurrencyCode
  lo_current_native_value :: "'d money option"
  lo_value_as_of :: "go_time option"
  lo_price_evidence :: "QuoteEvidenceView option"
  lo_fx_evidence :: "QuoteEvidenceView option"
  lo_policy_origin :: PolicyOrigin
  lo_policy :: "'d LiquidityPolicy option"
  lo_contract_state :: "ProductContractState option"
  lo_display_state :: ProductDisplayState
  lo_reservation_requested :: "'d money"
  lo_normal_route :: "'d LiquidityRoute option"
  lo_early_route :: "'d LiquidityRoute option"
  lo_bucket_results :: "'d LiquidityBucketResult list"
  lo_reasons :: "string list"
  lo_assumptions :: "LiquidityAssumption list"
  lo_excluded :: bool
  lo_due_unconfirmed :: bool

record 'd NativeCurrencyGroup =
  ng_currency :: CurrencyCode
  ng_status :: CompletenessStatus
  ng_full_available :: "'d money option"
  ng_known_available_subtotal :: "'d money option"
  ng_applied_reserve_subtotal :: "'d money option"
  ng_full_unreserved :: "'d money option"
  ng_known_unreserved_subtotal :: "'d money option"

record 'd LiquidityBucket =
  lb_horizon_on :: string
  lb_status :: CompletenessStatus
  lb_full_available :: "'d money option"
  lb_known_available_subtotal :: "'d money option"
  lb_applied_reserve_subtotal :: "'d money option"
  lb_full_unreserved :: "'d money option"
  lb_known_unreserved_subtotal :: "'d money option"
  lb_unknown_source_count :: int
  lb_excluded_source_count :: int
  lb_estimated_source_count :: int
  lb_native_currency_groups :: "'d NativeCurrencyGroup list"
  lb_warnings :: "string list"

record 'd UnresolvedReservation =
  ur_reservation :: "'d LiquidityReservation"
  ur_reason :: string

record 'd LiquidityOverview =
  ov_as_of :: go_time
  ov_local_date :: string
  ov_timezone :: string
  ov_base_currency :: CurrencyCode
  ov_assumptions :: "LiquidityAssumption list"
  ov_buckets :: "'d LiquidityBucket list"
  ov_sources :: "'d LiquiditySourceResult list"
  ov_unresolved_reservations :: "'d UnresolvedReservation list"

definition appendUniqueAssumption :: "LiquidityAssumption list \<Rightarrow> LiquidityAssumption \<Rightarrow> LiquidityAssumption list" where
  "appendUniqueAssumption values_list added = (if added \<in> set values_list then values_list else values_list @ [added])"

section \<open>Exact amounts\<close>

definition liquiditySourcePositiveOrUnknown :: "'d decimal_ops \<Rightarrow> 'd LiquiditySource \<Rightarrow> bool" where
  "liquiditySourcePositiveOrUnknown D source =
     (if ls_current_native_amount source \<noteq> []
      then d_is_positive D (case d_from_string D (ls_current_native_amount source) of Inr v \<Rightarrow> v | Inl _ \<Rightarrow> d_zero D)
      else case ls_current_native_value source of None \<Rightarrow> True | Some m \<Rightarrow> d_is_positive D (m_amount m))"

text \<open>The results of \<^verbatim>\<open>applyLiquidityFee\<close>: net, exact net, fee unknown, fee exceeds gross.\<close>

definition fee_base :: "'d decimal_ops \<Rightarrow> 'd LiquiditySource \<Rightarrow> 'd LiquidityPolicy \<Rightarrow> string \<Rightarrow> 'd money \<Rightarrow> 'd res" where
  "fee_base D source policy basis gross =
     (if basis = ''current_value'' \<and> ls_current_native_amount source \<noteq> []
      then
        res_bind (map_err ForeignError (d_from_string D (ls_current_native_amount source))) (\<lambda>v.
        Inr (case lp_accessible_amount_cap policy of
            Some cap \<Rightarrow> if \<not> ls_managed source then d_min D v (m_amount cap) else v
          | None \<Rightarrow> v))
      else Inr (m_amount gross))"

definition applyLiquidityFee ::
    "'d decimal_ops \<Rightarrow> 'd LiquiditySource \<Rightarrow> 'd LiquidityPolicy \<Rightarrow> string \<Rightarrow> 'd money \<Rightarrow> 'd money option
     \<Rightarrow> ('d money option \<times> 'd option \<times> bool \<times> bool) res" where
  "applyLiquidityFee D source policy basis gross fee =
     res_bind (fee_base D source policy basis gross) (\<lambda>exact_amount.
     case fee of
       None \<Rightarrow> Inr (None, None, True, False)
     | Some f \<Rightarrow>
         if m_currency f \<noteq> m_currency gross then Inr (None, None, True, False)
         else
           let diff = d_sub D exact_amount (m_amount f);
               exceeds = d_is_negative D diff;
               diff = (if exceeds then d_zero D else diff)
           in res_bind (NewMoney D diff (m_currency gross)) (\<lambda>net. Inr (Some net, Some diff, False, exceeds)))"

text \<open>A selected route and a row with an amount always have one; the others never reach these reads.\<close>

definition routeNativeExact :: "'d decimal_ops \<Rightarrow> 'd LiquidityRoute \<Rightarrow> 'd" where
  "routeNativeExact D route =
     (case lr_net_exact route of Some v \<Rightarrow> v | None \<Rightarrow> (case lr_net_native route of Some m \<Rightarrow> m_amount m | None \<Rightarrow> d_zero D))"

definition bucketNativeExact :: "'d decimal_ops \<Rightarrow> 'd LiquidityBucketResult \<Rightarrow> 'd" where
  "bucketNativeExact D row =
     (case br_net_exact row of Some v \<Rightarrow> v | None \<Rightarrow> (case br_net_native row of Some m \<Rightarrow> m_amount m | None \<Rightarrow> d_zero D))"

definition bucketReserveExact :: "'d decimal_ops \<Rightarrow> 'd LiquidityBucketResult \<Rightarrow> 'd" where
  "bucketReserveExact D row =
     (case br_reserve_exact row of
        Some v \<Rightarrow> v
      | None \<Rightarrow> (case br_applied_reserve_native row of Some m \<Rightarrow> m_amount m | None \<Rightarrow> d_zero D))"

text \<open>Applied, unreserved, shortfall and the exact amount applied.\<close>

definition applyLiquidityReservation ::
    "'d decimal_ops \<Rightarrow> 'd \<Rightarrow> CurrencyCode \<Rightarrow> 'd money \<Rightarrow> 'd money \<times> 'd money \<times> 'd money \<times> 'd" where
  "applyLiquidityReservation D net currency requested =
     (let exactApplied = d_min D net (m_amount requested);
          applied = or_zero D (NewMoney D exactApplied currency);
          displayedNet = or_zero D (NewMoney D net currency);
          unreserved = or_zero D (NewMoney D (d_sub D (m_amount displayedNet) (m_amount applied)) currency);
          shortfall = or_zero D (NewMoney D (d_max D (d_sub D (m_amount requested) net) (d_zero D)) currency)
      in (applied, unreserved, shortfall, exactApplied))"

definition convertLiquidityExact :: "'d decimal_ops \<Rightarrow> 'd ConvertToBase \<Rightarrow> 'd \<Rightarrow> CurrencyCode \<Rightarrow> ('d option \<times> bool) res" where
  "convertLiquidityExact D convert amount currency =
     (if d_is_zero D amount then Inr (Some (d_zero D), True) else convert amount currency)"

section \<open>Routes\<close>

definition capped :: "'d decimal_ops \<Rightarrow> 'd money option \<Rightarrow> 'd money \<Rightarrow> 'd money" where
  "capped D cap gross =
     (case cap of Some c \<Rightarrow> if d_less_than D (m_amount c) (m_amount gross) then c else gross | None \<Rightarrow> gross)"

definition managed_deposit :: "'d LiquiditySource \<Rightarrow> bool" where
  "managed_deposit source \<longleftrightarrow> ls_managed source \<and> map_option pc_kind (ls_contract source) = Some ProductTermDeposit"

definition normalGross :: "'d decimal_ops \<Rightarrow> 'd LiquiditySource \<Rightarrow> 'd LiquidityPolicy \<Rightarrow> ('d money option \<times> string) res" where
  "normalGross D source policy =
     (case ls_contract source of
        Some contract \<Rightarrow>
          if managed_deposit source
          then res_bind (ForecastGrossProceeds D contract) (\<lambda>gross. Inr (gross, ''principal_plus_unpaid_interest''))
          else Inr (map_option (capped D (lp_accessible_amount_cap policy)) (ls_current_native_value source), ''current_value'')
      | None \<Rightarrow> Inr (map_option (capped D (lp_accessible_amount_cap policy)) (ls_current_native_value source), ''current_value''))"

definition earlyGross :: "'d decimal_ops \<Rightarrow> 'd LiquiditySource \<Rightarrow> 'd LiquidityPolicy \<Rightarrow> 'd money option \<times> string" where
  "earlyGross D source policy =
     (let cap = (if ls_managed source then None else lp_accessible_amount_cap policy) in
      if lp_early_amount_mode policy = Some EarlyAmountFixedGross
      then (map_option (capped D cap) (lp_early_gross_amount policy), ''fixed_gross'')
      else (map_option (capped D cap) (ls_current_native_value source), ''current_value''))"

definition new_route :: "RouteKind \<Rightarrow> string \<Rightarrow> 'd LiquidityRoute" where
  "new_route kind action =
     \<lparr> lr_net_exact = None, lr_kind = kind, lr_eligible_on = None, lr_receipt_on = None, lr_gross_native = None,
       lr_fee_native = None, lr_net_native = None, lr_status = StatusComplete, lr_amount_basis = ''current_value'',
       lr_action_required = action, lr_assumptions = [], lr_missing_reasons = [] \<rparr>"

text \<open>The end both routes share: the fee is taken from the gross amount, or is unknown.\<close>

definition charge_fee ::
    "'d decimal_ops \<Rightarrow> 'd LiquiditySource \<Rightarrow> 'd LiquidityPolicy \<Rightarrow> 'd money option \<Rightarrow> string \<Rightarrow> string \<Rightarrow> 'd LiquidityRoute \<Rightarrow> 'd money
     \<Rightarrow> 'd LiquidityRoute res" where
  "charge_fee D source policy fee unknown action route gross =
     res_bind (applyLiquidityFee D source policy (lr_amount_basis route) gross fee) (\<lambda>(net, exact_amount, feeUnknown, feeExceeds).
     if feeUnknown
     then Inr (route \<lparr> lr_status := StatusPartial, lr_missing_reasons := lr_missing_reasons route @ [unknown],
                       lr_assumptions := appendUniqueAssumption (lr_assumptions route) AssumptionUnknownFee \<rparr>)
     else
       Inr (route \<lparr> lr_fee_native := fee, lr_net_native := net, lr_net_exact := exact_amount,
                    lr_assumptions :=
                      (if feeExceeds then appendUniqueAssumption (lr_assumptions route) AssumptionFeeExceedsGross
                       else lr_assumptions route),
                    lr_action_required := action \<rparr>))"

definition normal_action :: "'d LiquiditySource \<Rightarrow> string" where
  "normal_action source =
     (if ls_managed source then ''redeem'' else if sr_kind (ls_ref source) = SourceHolding then ''sell'' else ''withdraw'')"

definition buildNormalRoute :: "'d decimal_ops \<Rightarrow> string \<Rightarrow> 'd LiquiditySource \<Rightarrow> 'd LiquidityPolicy \<Rightarrow> 'd LiquidityRoute res" where
  "buildNormalRoute D today source policy =
     (let route = new_route RouteNormal ''none'' in
      if lp_access_kind policy = AccessUnknown
      then Inr (route \<lparr> lr_status := StatusUnavailable, lr_missing_reasons := [''access policy is unknown''],
                        lr_assumptions := [AssumptionUnknownAccess] \<rparr>)
      else case actionEligibleOn policy today False (ls_contract source) of
        (assumptions, Inl _) \<Rightarrow>
          Inr (route \<lparr> lr_status := StatusUnavailable, lr_missing_reasons := [''access timing is unknown''],
                       lr_assumptions := assumptions \<rparr>)
      | (assumptions, Inr eligible) \<Rightarrow>
          let route = route \<lparr> lr_eligible_on := Some eligible, lr_assumptions := assumptions \<rparr> in
          (case receiptOn policy today False (ls_contract source) of
             (receiptAssumptions, Inl _) \<Rightarrow>
               Inr (route \<lparr> lr_status := StatusPartial, lr_missing_reasons := [''receipt timing is unknown''],
                            lr_assumptions := appendUniqueAssumption (assumptions @ receiptAssumptions) AssumptionUnknownTiming \<rparr>)
           | (receiptAssumptions, Inr receipt) \<Rightarrow>
               let route = route \<lparr> lr_receipt_on := Some receipt, lr_assumptions := assumptions @ receiptAssumptions \<rparr> in
               res_bind (normalGross D source policy) (\<lambda>(gross, basis).
               case gross of
                 None \<Rightarrow>
                   Inr (route \<lparr> lr_status := StatusUnavailable, lr_missing_reasons := [''amount is unknown''],
                                lr_assumptions :=
                                  (if ls_current_native_value source = None \<and> ls_price_evidence source = None
                                   then appendUniqueAssumption (lr_assumptions route) AssumptionMissingPrice
                                   else lr_assumptions route) \<rparr>)
               | Some g \<Rightarrow>
                   charge_fee D source policy (lp_normal_exit_fee policy) ''exit fee is unknown'' (normal_action source)
                     (route \<lparr> lr_gross_native := Some g, lr_amount_basis := basis,
                              lr_assumptions :=
                                (if managed_deposit source
                                 then appendUniqueAssumption (lr_assumptions route) AssumptionForecastInterest
                                 else lr_assumptions route) \<rparr>) g)))"

text \<open>Early withdrawal from a deposit ends at its maturity.\<close>

definition past_maturity :: "'d LiquiditySource \<Rightarrow> string \<Rightarrow> bool" where
  "past_maturity source date \<longleftrightarrow> managed_deposit source
     \<and> (\<exists>m \<in> set_option (Option.bind (ls_contract source) pc_maturity_on). 0 \<le> compareCivilDates date m)"

definition buildEarlyRoute ::
    "'d decimal_ops \<Rightarrow> string \<Rightarrow> 'd LiquiditySource \<Rightarrow> 'd LiquidityPolicy \<Rightarrow> 'd LiquidityRoute option res" where
  "buildEarlyRoute D today source policy =
     (if lp_early_kind policy = EarlyNotAllowed \<or> past_maturity source today then Inr None
      else
        let route = new_route RouteEarly ''early_withdrawal'' in
        case actionEligibleOn policy today True (ls_contract source) of
          (assumptions, Inl _) \<Rightarrow> Inr (Some (route \<lparr> lr_status := StatusUnavailable, lr_assumptions := assumptions \<rparr>))
        | (assumptions, Inr eligible) \<Rightarrow>
            if past_maturity source eligible then Inr None
            else
              let route = route \<lparr> lr_eligible_on := Some eligible \<rparr> in
              if lp_early_kind policy = EarlyUnknown
              then Inr (Some (route \<lparr> lr_status := StatusUnavailable, lr_missing_reasons := [''early access is unknown''],
                                      lr_assumptions := [AssumptionUnknownEarly] \<rparr>))
              else
                (case receiptOn policy today True (ls_contract source) of
                   (receiptAssumptions, Inl _) \<Rightarrow>
                     Inr (Some (route \<lparr> lr_status := StatusPartial, lr_missing_reasons := [''early receipt timing is unknown''],
                                        lr_assumptions := assumptions @ receiptAssumptions \<rparr>))
                 | (receiptAssumptions, Inr receipt) \<Rightarrow>
                     let route = route \<lparr> lr_receipt_on := Some receipt, lr_assumptions := receiptAssumptions \<rparr>;
                         (gross, basis) = earlyGross D source policy
                     in
                     (case gross of
                        None \<Rightarrow>
                          Inr (Some (route \<lparr> lr_status := StatusUnavailable, lr_missing_reasons := [''early amount is unknown''] \<rparr>))
                      | Some g \<Rightarrow>
                          res_bind
                            (charge_fee D source policy (lp_early_fee policy) ''early fee is unknown'' ''early_withdrawal''
                              (route \<lparr> lr_gross_native := Some g, lr_amount_basis := basis \<rparr>) g)
                            (\<lambda>r. Inr (Some r)))))"

section \<open>Display states\<close>

definition productReceiptUnconfirmed ::
    "'d ProductContract option \<Rightarrow> 'd LiquidityPolicy \<Rightarrow> string \<Rightarrow> 'd LiquidityRoute option \<Rightarrow> bool" where
  "productReceiptUnconfirmed contract policy today normal \<longleftrightarrow>
     (case contract of
        None \<Rightarrow> False
      | Some c \<Rightarrow>
          pc_state c = ProductStateOpen \<and> (pc_maturity_on c \<noteq> None \<or> lp_receipt_on_override policy \<noteq> None)
          \<and> lp_access_kind policy \<noteq> AccessUnknown \<and> lp_access_kind policy \<noteq> AccessExcluded
          \<and> (\<exists>r \<in> set_option (Option.bind normal lr_receipt_on). compareCivilDates r today \<le> 0))"

definition deriveDisplayState ::
    "'d LiquiditySource \<Rightarrow> 'd LiquidityPolicy \<Rightarrow> string \<Rightarrow> bool \<Rightarrow> 'd LiquidityRoute option \<Rightarrow> ProductDisplayState" where
  "deriveDisplayState source policy today due normal =
     (if map_option pc_state (ls_contract source) = Some ProductStateSettled then ProductDisplaySettled
      else if map_option pc_state (ls_contract source) = Some ProductStateCancelled then ProductDisplayCancelled
      else if due then ProductDisplayDueUnconfirmed
      else if lp_access_kind policy = AccessExcluded then ProductDisplayLocked
      else if (\<exists>e \<in> set_option (Option.bind normal lr_eligible_on). compareCivilDates today e < 0) then ProductDisplayLocked
      else if lp_access_kind policy = AccessUnknown \<or> Option.bind normal lr_receipt_on = None then ProductDisplayNeedsInfo
      else ProductDisplayRedeemable)"

text \<open>The source a product's state is computed from: managed, with its contract and nothing else.\<close>

definition product_source :: "'d ProductContract \<Rightarrow> 'd LiquiditySource" where
  "product_source contract =
     \<lparr> ls_ref = zero_ref, ls_account_id = [], ls_product_id = None, ls_display_name = [], ls_native_currency = [],
       ls_current_native_value = None, ls_current_base_value = None, ls_current_native_amount = [], ls_value_as_of = None,
       ls_price_evidence = None, ls_fx_evidence = None, ls_include_in_net_worth = False, ls_archived = False,
       ls_liability = False, ls_quantity_zero = False, ls_account_type = AccountType_unknown [],
       ls_tracking_mode = TrackingMode_unknown [], ls_instrument_type = None, ls_managed = True,
       ls_contract = Some contract, ls_explicit_policy = None \<rparr>"

definition ProductAvailabilityState ::
    "'d decimal_ops \<Rightarrow> 'd ProductContract \<Rightarrow> 'd LiquidityPolicy \<Rightarrow> string \<Rightarrow> ProductDisplayState res" where
  "ProductAvailabilityState D contract policy today =
     res_bind (buildNormalRoute D today (product_source contract) policy) (\<lambda>normal.
     Inr (deriveDisplayState (product_source contract) policy today
       (productReceiptUnconfirmed (Some contract) policy today (Some normal)) (Some normal)))"

section \<open>The route at a horizon\<close>

definition new_row :: "string \<Rightarrow> CompletenessStatus \<Rightarrow> string list \<Rightarrow> 'd LiquidityBucketResult" where
  "new_row horizon status reasons =
     \<lparr> br_net_exact = None, br_reserve_exact = None, br_native_status = StatusNone, br_horizon_on = horizon,
       br_selected_route = None, br_net_native = None, br_net_base = None, br_applied_reserve_native = None,
       br_unreserved_native = None, br_reserve_shortfall_native = None, br_status = status, br_reasons = reasons \<rparr>"

definition emptyBucketResults :: "string list \<Rightarrow> 'd LiquidityBucketResult list" where
  "emptyBucketResults horizons = map (\<lambda>h. new_row h StatusComplete [''excluded'']) horizons"

definition excludedBucketResults :: "string list \<Rightarrow> 'd LiquidityBucketResult list" where
  "excludedBucketResults horizons = emptyBucketResults horizons"

definition unknownBucketResults :: "string list \<Rightarrow> 'd LiquidityBucketResult list" where
  "unknownBucketResults horizons = map (\<lambda>h. new_row h StatusUnavailable [''unknown'']) horizons"

text \<open>One candidate: passed over, unknown, or compared with the route selected so far.\<close>

definition better_route :: "'d decimal_ops \<Rightarrow> 'd LiquidityRoute \<Rightarrow> 'd LiquidityRoute \<Rightarrow> bool" where
  "better_route D candidate selected \<longleftrightarrow>
     d_greater_than D (routeNativeExact D candidate) (routeNativeExact D selected)
     \<or> d_equal D (routeNativeExact D candidate) (routeNativeExact D selected)
       \<and> (lr_kind candidate = RouteNormal \<and> lr_kind selected \<noteq> RouteNormal
          \<or> (case (lr_receipt_on candidate, lr_receipt_on selected) of
               (Some c, Some s) \<Rightarrow> compareCivilDates c s < 0 \<and> lr_kind candidate = lr_kind selected
             | _ \<Rightarrow> False))"

definition consider_route ::
    "'d decimal_ops \<Rightarrow> string \<Rightarrow> 'd LiquidityRoute \<Rightarrow> 'd LiquidityRoute option \<times> bool \<Rightarrow> 'd LiquidityRoute option \<times> bool" where
  "consider_route D horizon candidate = (\<lambda>(selected, unknownEligible).
     if (\<exists>e \<in> set_option (lr_eligible_on candidate). horizon < e) then (selected, unknownEligible)
     else case lr_receipt_on candidate of
       None \<Rightarrow> (selected, unknownEligible \<or> lr_status candidate \<noteq> StatusComplete)
     | Some receipt \<Rightarrow>
         if 0 < compareCivilDates receipt horizon then (selected, unknownEligible)
         else if lr_net_native candidate = None then (selected, True)
         else case selected of
           None \<Rightarrow> (Some candidate, unknownEligible)
         | Some s \<Rightarrow> ((if better_route D candidate s then Some candidate else selected), unknownEligible))"

definition route_candidates :: "'d LiquiditySourceResult \<Rightarrow> bool \<Rightarrow> 'd LiquidityRoute list" where
  "route_candidates source due =
     (case lo_normal_route source of Some r \<Rightarrow> if due then [] else [r] | None \<Rightarrow> [])
     @ (case lo_early_route source of Some r \<Rightarrow> [r] | None \<Rightarrow> [])"

text \<open>What is reserved of the selected net amount; the source's currency is that of the amount.\<close>

definition with_reservation ::
    "'d decimal_ops \<Rightarrow> 'd \<Rightarrow> 'd money \<Rightarrow> 'd money \<Rightarrow> 'd LiquidityBucketResult \<Rightarrow> 'd LiquidityBucketResult" where
  "with_reservation D exactNet net requestedReserve result =
     (let zero_amount = or_zero D (NewMoney D (d_zero D) (m_currency net)) in
      if m_currency requestedReserve \<noteq> [] \<and> m_currency requestedReserve \<noteq> m_currency net
      then result \<lparr> br_status := StatusPartial,
                    br_reasons := br_reasons result @ [''reservation currency does not match the source''],
                    br_applied_reserve_native := Some zero_amount, br_unreserved_native := Some net,
                    br_reserve_shortfall_native := Some zero_amount \<rparr>
      else if m_currency requestedReserve \<noteq> []
      then
        let (applied, unreserved, shortfall, exactReserve) = applyLiquidityReservation D exactNet (m_currency net) requestedReserve
        in result \<lparr> br_reserve_exact := Some exactReserve, br_applied_reserve_native := Some applied,
                    br_unreserved_native := Some unreserved, br_reserve_shortfall_native := Some shortfall \<rparr>
      else result \<lparr> br_applied_reserve_native := Some zero_amount, br_unreserved_native := Some net,
                    br_reserve_shortfall_native := Some zero_amount \<rparr>)"

definition with_base ::
    "'d decimal_ops \<Rightarrow> 'd ConvertToBase option \<Rightarrow> 'd \<Rightarrow> CurrencyCode \<Rightarrow> 'd LiquidityBucketResult \<Rightarrow> 'd LiquidityBucketResult" where
  "with_base D convert exactNet currency result =
     (case convert of
        None \<Rightarrow> result
      | Some f \<Rightarrow>
          (case convertLiquidityExact D f exactNet currency of
             Inr (converted, True) \<Rightarrow> result \<lparr> br_net_base := converted \<rparr>
           | _ \<Rightarrow> result \<lparr> br_status := StatusPartial, br_reasons := br_reasons result @ [''base FX is missing''] \<rparr>))"

definition selected_row ::
    "'d decimal_ops \<Rightarrow> string \<Rightarrow> 'd LiquidityRoute \<Rightarrow> 'd money \<Rightarrow> bool \<Rightarrow> 'd money \<Rightarrow> 'd ConvertToBase option \<Rightarrow> 'd LiquidityBucketResult" where
  "selected_row D horizon selected net unknownEligible requestedReserve convert =
     (let exactNet = routeNativeExact D selected;
          result = (new_row horizon StatusComplete [])
            \<lparr> br_selected_route := Some selected, br_net_native := Some net, br_net_exact := Some exactNet \<rparr>;
          result = with_reservation D exactNet net requestedReserve result;
          result = (if unknownEligible
                    then result \<lparr> br_status := StatusPartial,
                                  br_reasons := br_reasons result @ [''another eligible alternative has unknown proceeds''] \<rparr>
                    else result);
          result = (if lr_status selected \<noteq> StatusComplete \<and> br_status result = StatusComplete
                    then result \<lparr> br_status := lr_status selected \<rparr> else result);
          result = result \<lparr> br_native_status := br_status result \<rparr>
      in with_base D convert exactNet (m_currency net) result)"

text \<open>A selected route has a net amount: the candidates without one were passed over.\<close>

definition selectRouteForHorizon ::
    "'d decimal_ops \<Rightarrow> string \<Rightarrow> 'd LiquiditySourceResult \<Rightarrow> bool \<Rightarrow> 'd money \<Rightarrow> 'd ConvertToBase option \<Rightarrow> 'd LiquidityBucketResult" where
  "selectRouteForHorizon D horizon source due requestedReserve convert =
     (case fold (consider_route D horizon) (route_candidates source due) (None, False) of
        (None, unknownEligible) \<Rightarrow>
          if unknownEligible then new_row horizon StatusPartial [''an eligible route has unknown proceeds'']
          else new_row horizon StatusComplete []
      | (Some selected, unknownEligible) \<Rightarrow>
          (case lr_net_native selected of
             Some net \<Rightarrow> selected_row D horizon selected net unknownEligible requestedReserve convert
           | None \<Rightarrow> new_row horizon StatusComplete []))"

definition nativeResultComplete :: "'d LiquidityBucketResult \<Rightarrow> bool" where
  "nativeResultComplete row \<longleftrightarrow>
     (if br_native_status row \<noteq> StatusNone then br_native_status row = StatusComplete else br_status row = StatusComplete)"

section \<open>One source\<close>

definition source_result :: "'d LiquiditySource \<Rightarrow> 'd money \<Rightarrow> 'd LiquiditySourceResult" where
  "source_result source requested =
     \<lparr> lo_ref = ls_ref source, lo_source_key = LiquiditySourceRef_Key (ls_ref source), lo_account_id = ls_account_id source,
       lo_product_id = ls_product_id source, lo_display_name = ls_display_name source,
       lo_native_currency = ls_native_currency source, lo_current_native_value = ls_current_native_value source,
       lo_value_as_of = ls_value_as_of source, lo_price_evidence = ls_price_evidence source,
       lo_fx_evidence = ls_fx_evidence source, lo_policy_origin = PolicyOriginNone, lo_policy = None,
       lo_contract_state = None, lo_display_state = ProductDisplayNone, lo_reservation_requested = requested,
       lo_normal_route = None, lo_early_route = None, lo_bucket_results = [], lo_reasons = [], lo_assumptions = [],
       lo_excluded = False, lo_due_unconfirmed = False \<rparr>"

text \<open>The part after the policy is known to schedule the source: routes, due receipts and rows.\<close>

definition evaluate_routes ::
    "'d decimal_ops \<Rightarrow> LiquidityQuery \<Rightarrow> string \<Rightarrow> string list \<Rightarrow> 'd LiquiditySource \<Rightarrow> 'd money \<Rightarrow> 'd ConvertToBase option
     \<Rightarrow> 'd LiquidityPolicy \<Rightarrow> 'd LiquiditySourceResult \<Rightarrow> 'd LiquiditySourceResult res" where
  "evaluate_routes D query today horizons source requestedReserve convert policy result =
     res_bind (buildNormalRoute D today source policy) (\<lambda>normal.
     res_bind (if lq_include_early_withdrawal query then buildEarlyRoute D today source policy else Inr None) (\<lambda>early.
     let due = productReceiptUnconfirmed (ls_contract source) policy today (Some normal);
         result = result \<lparr> lo_normal_route := Some normal, lo_early_route := early, lo_due_unconfirmed := due,
                           lo_display_state := deriveDisplayState source policy today due (Some normal) \<rparr>;
         result = (if due
                   then result \<lparr> lo_assumptions := appendUniqueAssumption (lo_assumptions result) AssumptionDueUnconfirmed,
                                 lo_reasons := lo_reasons result @ [''due '' @ bytes [226, 128, 148] @ '' receipt unconfirmed''] \<rparr>
                   else result)
     in Inr (result \<lparr> lo_bucket_results :=
          map (\<lambda>horizon. selectRouteForHorizon D horizon result due requestedReserve convert) horizons \<rparr>)))"

text \<open>The source of a scheduled policy, of an excluding one, and of a managed product without a valid one.\<close>

definition evaluate_policy ::
    "'d decimal_ops \<Rightarrow> LiquidityQuery \<Rightarrow> string \<Rightarrow> string list \<Rightarrow> 'd LiquiditySource \<Rightarrow> 'd money \<Rightarrow> 'd ConvertToBase option
     \<Rightarrow> 'd LiquiditySourceResult \<Rightarrow> 'd LiquiditySourceResult res" where
  "evaluate_policy D query today horizons source requestedReserve convert result =
     (case ResolveLiquidityPolicy D source of
        (origin, assumptions, Inl e) \<Rightarrow>
          if origin = PolicyOriginContract \<and> ls_managed source
          then Inr (result \<lparr> lo_policy_origin := origin, lo_assumptions := assumptions,
                             lo_reasons := [''managed product policy is missing''],
                             lo_bucket_results := unknownBucketResults horizons \<rparr>)
          else Inl e
      | (origin, assumptions, Inr policy) \<Rightarrow>
          let result = result \<lparr> lo_policy_origin := origin, lo_policy := Some policy, lo_assumptions := assumptions,
                                lo_contract_state := map_option pc_state (ls_contract source) \<rparr>
          in
          if lp_access_kind policy = AccessExcluded
          then Inr (result \<lparr> lo_excluded := True, lo_display_state := ProductDisplayLocked,
                             lo_reasons := [''explicitly excluded from short-term access''],
                             lo_assumptions := appendUniqueAssumption assumptions AssumptionExcludedShortTerm,
                             lo_bucket_results := excludedBucketResults horizons \<rparr>)
          else evaluate_routes D query today horizons source requestedReserve convert policy result)"

definition evaluateSource ::
    "'d decimal_ops \<Rightarrow> LiquidityQuery \<Rightarrow> string \<Rightarrow> string list \<Rightarrow> 'd LiquiditySource \<Rightarrow> 'd money \<Rightarrow> 'd ConvertToBase option
     \<Rightarrow> 'd LiquiditySourceResult res" where
  "evaluateSource D query today horizons source requestedReserve convert =
     res_bind
       (if m_currency requestedReserve = [] \<and> ls_native_currency source \<noteq> []
        then NewMoney D (d_zero D) (ls_native_currency source) else Inr requestedReserve) (\<lambda>requested.
     let result = source_result source requested in
     if ls_archived source \<or> ls_liability source \<or> ls_quantity_zero source
     then Inr (result \<lparr> lo_excluded := True, lo_reasons := [''source is archived, a liability, or has zero quantity''],
                        lo_bucket_results := emptyBucketResults horizons \<rparr>)
     else evaluate_policy D query today horizons source requestedReserve convert result)"

section \<open>Totals at a horizon\<close>

text \<open>A loop over a list that stops at the first error.\<close>

fun res_fold :: "('a \<Rightarrow> 's \<Rightarrow> 's res) \<Rightarrow> 'a list \<Rightarrow> 's \<Rightarrow> 's res" where
  "res_fold f [] s = Inr s"
| "res_fold f (x # xs) s = res_bind (f x s) (res_fold f xs)"

fun res_map :: "('a \<Rightarrow> 'b res) \<Rightarrow> 'a list \<Rightarrow> 'b list res" where
  "res_map f [] = Inr []"
| "res_map f (x # xs) = res_bind (f x) (\<lambda>y. res_bind (res_map f xs) (\<lambda>ys. Inr (y # ys)))"

record 'd nativeAcc =
  na_known_available :: 'd
  na_known_reserve :: 'd
  na_complete :: bool
  na_has_known :: bool
  na_unknown :: bool

text \<open>
  The variables of the first loop; the accumulators of unreserved amounts and the base sums of
  native amounts are written there and never read.  The native accumulators are an association
  list, as the code ranges over their map.
\<close>

record 'd bucket_sums =
  bs_excluded :: int
  bs_unknown_count :: int
  bs_estimated :: int
  bs_native :: "(CurrencyCode \<times> 'd nativeAcc) list"
  bs_complete :: bool
  bs_has_known :: bool
  bs_unknown :: bool
  bs_fx_missing :: bool

definition bucket_row :: "string \<Rightarrow> 'd LiquiditySourceResult \<Rightarrow> 'd LiquidityBucketResult option" where
  "bucket_row horizon source = find (\<lambda>row. br_horizon_on row = horizon) (lo_bucket_results source)"

definition new_acc :: "'d decimal_ops \<Rightarrow> 'd nativeAcc" where
  "new_acc D = \<lparr> na_known_available = d_zero D, na_known_reserve = d_zero D, na_complete = True, na_has_known = False, na_unknown = False \<rparr>"

definition known_row :: "'d decimal_ops \<Rightarrow> 'd LiquidityBucketResult \<Rightarrow> 'd nativeAcc \<Rightarrow> 'd nativeAcc" where
  "known_row D row acc =
     acc \<lparr> na_has_known := True,
           na_known_available := d_add D (na_known_available acc) (bucketNativeExact D row),
           na_known_reserve :=
             (if br_applied_reserve_native row \<noteq> None then d_add D (na_known_reserve acc) (bucketReserveExact D row)
              else na_known_reserve acc),
           na_complete := (na_complete acc \<and> nativeResultComplete row),
           na_unknown := (na_unknown acc
             \<or> \<not> nativeResultComplete row \<and> (br_status row = StatusUnavailable \<or> br_status row = StatusPartial)) \<rparr>"

definition sum_source ::
    "'d decimal_ops \<Rightarrow> string \<Rightarrow> 'd ConvertToBase option \<Rightarrow> 'd LiquiditySourceResult \<Rightarrow> 'd bucket_sums \<Rightarrow> 'd bucket_sums res" where
  "sum_source D horizon convert source s =
     (if lo_excluded source then Inr (s \<lparr> bs_excluded := bs_excluded s + 1 \<rparr>)
      else case bucket_row horizon source of
        None \<Rightarrow> Inr s
      | Some row \<Rightarrow>
          let acc = (case map_of (bs_native s) (lo_native_currency source) of Some acc \<Rightarrow> acc | None \<Rightarrow> new_acc D);
              put = (\<lambda>acc. AList.update (lo_native_currency source) acc (bs_native s));
              s = s \<lparr> bs_estimated := bs_estimated s + (if lo_policy_origin source = PolicyOriginAssumed then 1 else 0) \<rparr>
          in
          (case br_net_native row of
             None \<Rightarrow>
               if br_status row = StatusComplete then Inr (s \<lparr> bs_native := put acc \<rparr>)
               else Inr (s \<lparr> bs_unknown_count := bs_unknown_count s + 1,
                             bs_native := put (acc \<lparr> na_unknown := True, na_complete := False \<rparr>),
                             bs_unknown := True, bs_complete := False \<rparr>)
           | Some net \<Rightarrow>
               let known = s \<lparr> bs_native := put (known_row D row acc), bs_has_known := True,
                               bs_complete := (bs_complete s \<and> nativeResultComplete row),
                               bs_unknown := (bs_unknown s
                                 \<or> \<not> nativeResultComplete row \<and> (br_status row = StatusUnavailable \<or> br_status row = StatusPartial)) \<rparr>
               in
               (case convert of
                  None \<Rightarrow> Inr known
                | Some f \<Rightarrow>
                    res_bind (convertLiquidityExact D f (bucketNativeExact D row) (m_currency net)) (\<lambda>(_, ok).
                    Inr (if ok then known else known \<lparr> bs_fx_missing := True, bs_complete := False \<rparr>)))))"

definition displayMoney :: "'d decimal_ops \<Rightarrow> 'd \<Rightarrow> CurrencyCode \<Rightarrow> 'd money res" where
  "displayMoney D v currency = NewMoney D v currency"

text \<open>Available and reserved amounts with their difference, which is never shown below zero.\<close>

definition display_totals :: "'d decimal_ops \<Rightarrow> 'd \<Rightarrow> 'd \<Rightarrow> CurrencyCode \<Rightarrow> ('d money \<times> 'd money \<times> 'd money) res" where
  "display_totals D availableSum reserveSum currency =
     res_bind (displayMoney D availableSum currency) (\<lambda>available.
     res_bind (displayMoney D reserveSum currency) (\<lambda>reserve.
     let unreservedAmount = d_sub D (m_amount available) (m_amount reserve);
         unreservedAmount = (if d_is_negative D unreservedAmount then d_zero D else unreservedAmount)
     in res_bind (displayMoney D unreservedAmount currency) (\<lambda>unreserved. Inr (available, reserve, unreserved))))"

definition native_group :: "'d decimal_ops \<Rightarrow> CurrencyCode \<times> 'd nativeAcc \<Rightarrow> 'd NativeCurrencyGroup res" where
  "native_group D = (\<lambda>(currency, acc).
     let grp = \<lparr> ng_currency = currency, ng_status = StatusComplete, ng_full_available = None,
                   ng_known_available_subtotal = None, ng_applied_reserve_subtotal = None, ng_full_unreserved = None,
                   ng_known_unreserved_subtotal = None \<rparr>
     in
     if na_has_known acc
     then
       res_bind (display_totals D (na_known_available acc) (na_known_reserve acc) currency) (\<lambda>(available, reserve, unreserved).
       let grp = grp \<lparr> ng_known_available_subtotal := Some available, ng_applied_reserve_subtotal := Some reserve,
                           ng_known_unreserved_subtotal := Some unreserved \<rparr>
       in Inr (if na_complete acc \<and> \<not> na_unknown acc
               then grp \<lparr> ng_full_available := Some available, ng_full_unreserved := Some unreserved \<rparr>
               else grp \<lparr> ng_status := StatusPartial \<rparr>))
     else if na_unknown acc then Inr (grp \<lparr> ng_status := StatusUnavailable \<rparr>)
     else
       res_bind (NewMoney D (d_zero D) currency) (\<lambda>zero_amount.
       Inr (grp \<lparr> ng_full_available := Some zero_amount, ng_known_available_subtotal := Some zero_amount,
                    ng_applied_reserve_subtotal := Some zero_amount, ng_full_unreserved := Some zero_amount,
                    ng_known_unreserved_subtotal := Some zero_amount \<rparr>)))"

record 'd base_sums =
  bt_available :: 'd
  bt_reserve :: 'd
  bt_converted_ok :: bool
  bt_has_converted :: bool

definition sum_base ::
    "'d decimal_ops \<Rightarrow> string \<Rightarrow> 'd ConvertToBase \<Rightarrow> 'd LiquiditySourceResult \<Rightarrow> 'd base_sums \<Rightarrow> 'd base_sums res" where
  "sum_base D horizon convert source t =
     (if lo_excluded source then Inr t
      else case bucket_row horizon source of
        None \<Rightarrow> Inr t
      | Some row \<Rightarrow>
          (case br_net_native row of
             None \<Rightarrow> Inr t
           | Some net \<Rightarrow>
               res_bind (convertLiquidityExact D convert (bucketNativeExact D row) (m_currency net)) (\<lambda>result.
               case result of
                 (Some converted, True) \<Rightarrow>
                   let t = t \<lparr> bt_has_converted := True, bt_available := d_add D (bt_available t) converted \<rparr> in
                   (case br_applied_reserve_native row of
                      None \<Rightarrow> Inr t
                    | Some applied \<Rightarrow>
                        res_bind (convertLiquidityExact D convert (bucketReserveExact D row) (m_currency applied)) (\<lambda>result.
                        case result of
                          (Some convertedReserve, True) \<Rightarrow> Inr (t \<lparr> bt_reserve := d_add D (bt_reserve t) convertedReserve \<rparr>)
                        | _ \<Rightarrow> Inr t))
               | _ \<Rightarrow> Inr (t \<lparr> bt_converted_ok := False \<rparr>))))"

definition zero_totals :: "'d money \<Rightarrow> 'd LiquidityBucket \<Rightarrow> 'd LiquidityBucket" where
  "zero_totals zero_amount bucket =
     bucket \<lparr> lb_full_available := Some zero_amount, lb_known_available_subtotal := Some zero_amount,
              lb_applied_reserve_subtotal := Some zero_amount, lb_full_unreserved := Some zero_amount,
              lb_known_unreserved_subtotal := Some zero_amount \<rparr>"

definition converted_bucket ::
    "'d decimal_ops \<Rightarrow> string \<Rightarrow> CurrencyCode \<Rightarrow> 'd LiquiditySourceResult list \<Rightarrow> 'd ConvertToBase \<Rightarrow> 'd bucket_sums
     \<Rightarrow> 'd LiquidityBucket \<Rightarrow> 'd LiquidityBucket res" where
  "converted_bucket D horizon base sources convert s bucket =
     res_bind
       (res_fold (sum_base D horizon convert) sources
         \<lparr> bt_available = d_zero D, bt_reserve = d_zero D, bt_converted_ok = True, bt_has_converted = False \<rparr>) (\<lambda>t.
     res_bind
       (if bt_has_converted t \<or> \<not> bs_has_known s \<and> \<not> bs_unknown s
        then
          res_bind (display_totals D (bt_available t) (bt_reserve t) base) (\<lambda>(available, reserve, unreserved).
          let bucket = bucket \<lparr> lb_known_available_subtotal := Some available, lb_applied_reserve_subtotal := Some reserve,
                                lb_known_unreserved_subtotal := Some unreserved \<rparr>
          in Inr (if bt_converted_ok t \<and> bs_complete s \<and> \<not> bs_fx_missing s \<and> \<not> bs_unknown s
                  then bucket \<lparr> lb_full_available := Some available, lb_full_unreserved := Some unreserved, lb_status := StatusComplete \<rparr>
                  else if bs_unknown s \<and> \<not> bs_has_known s \<and> \<not> bt_converted_ok t
                  then bucket \<lparr> lb_status := StatusUnavailable \<rparr>
                  else bucket \<lparr> lb_status := StatusPartial \<rparr>))
        else if bs_unknown s \<and> \<not> bs_has_known s then Inr (bucket \<lparr> lb_status := StatusUnavailable \<rparr>)
        else Inr (bucket \<lparr> lb_status := StatusPartial \<rparr>)) (\<lambda>bucket.
     Inr (if bs_fx_missing s
          then bucket \<lparr> lb_warnings := lb_warnings bucket @ [''missing base FX''],
                        lb_status := (if lb_status bucket = StatusComplete then StatusPartial else lb_status bucket) \<rparr>
          else bucket)))"

definition single_currency_bucket ::
    "'d decimal_ops \<Rightarrow> CurrencyCode \<Rightarrow> 'd bucket_sums \<Rightarrow> 'd NativeCurrencyGroup \<Rightarrow> 'd LiquidityBucket \<Rightarrow> 'd LiquidityBucket res" where
  "single_currency_bucket D base s grp bucket =
     (let bucket = bucket \<lparr> lb_known_available_subtotal := ng_known_available_subtotal grp,
                            lb_applied_reserve_subtotal := ng_applied_reserve_subtotal grp,
                            lb_known_unreserved_subtotal := ng_known_unreserved_subtotal grp,
                            lb_full_available := ng_full_available grp, lb_full_unreserved := ng_full_unreserved grp,
                            lb_status := ng_status grp \<rparr>
      in
      res_bind
        (if \<not> bs_has_known s \<and> \<not> bs_unknown s
         then res_bind (NewMoney D (d_zero D) base) (\<lambda>zero_amount. Inr ((zero_totals zero_amount bucket) \<lparr> lb_status := StatusComplete \<rparr>))
         else Inr bucket) (\<lambda>bucket.
      Inr (if bs_unknown s \<and> \<not> bs_has_known s
           then bucket \<lparr> lb_status := StatusUnavailable, lb_full_available := None, lb_full_unreserved := None \<rparr>
           else bucket)))"

text \<open>
  The order in which Go ranges over the native accumulators is a parameter of the totals.  Without
  a conversion the code also marks a missing exchange rate, which nothing reads on that path.
\<close>

definition aggregateBucket ::
    "'d decimal_ops \<Rightarrow> (CurrencyCode list \<Rightarrow> CurrencyCode list) \<Rightarrow> string \<Rightarrow> CurrencyCode \<Rightarrow> 'd LiquiditySourceResult list
     \<Rightarrow> 'd ConvertToBase option \<Rightarrow> 'd LiquidityBucket res" where
  "aggregateBucket D range_order horizon base sources convert =
     res_bind
       (res_fold (sum_source D horizon convert) sources
         \<lparr> bs_excluded = 0, bs_unknown_count = 0, bs_estimated = 0, bs_native = [], bs_complete = True, bs_has_known = False,
           bs_unknown = False, bs_fx_missing = False \<rparr>) (\<lambda>s.
     res_bind
       (res_map (\<lambda>currency. native_group D (currency, the (map_of (bs_native s) currency)))
         (range_order (map fst (bs_native s)))) (\<lambda>groups.
     let groups = sort_key ng_currency groups;
         bucket = \<lparr> lb_horizon_on = horizon, lb_status = StatusComplete, lb_full_available = None,
                    lb_known_available_subtotal = None, lb_applied_reserve_subtotal = None, lb_full_unreserved = None,
                    lb_known_unreserved_subtotal = None, lb_unknown_source_count = bs_unknown_count s,
                    lb_excluded_source_count = bs_excluded s, lb_estimated_source_count = bs_estimated s,
                    lb_native_currency_groups = groups, lb_warnings = [] \<rparr>
     in
     case convert of
       Some f \<Rightarrow> converted_bucket D horizon base sources f s bucket
     | None \<Rightarrow>
         (case groups of
            [g] \<Rightarrow>
              if ng_currency g = base then single_currency_bucket D base s g bucket
              else if bs_has_known s then Inr (bucket \<lparr> lb_status := StatusPartial \<rparr>)
              else if bs_unknown s then Inr (bucket \<lparr> lb_status := StatusUnavailable \<rparr>)
              else res_bind (NewMoney D (d_zero D) base) (\<lambda>zero_amount. Inr (zero_totals zero_amount bucket))
          | _ \<Rightarrow>
              if bs_has_known s then Inr (bucket \<lparr> lb_status := StatusPartial \<rparr>)
              else if bs_unknown s then Inr (bucket \<lparr> lb_status := StatusUnavailable \<rparr>)
              else res_bind (NewMoney D (d_zero D) base) (\<lambda>zero_amount. Inr (zero_totals zero_amount bucket)))))"

section \<open>The overview\<close>

text \<open>The amounts of the last bucket that had them, and the check that amounts do not decrease.\<close>

definition not_below :: "'d decimal_ops \<Rightarrow> string \<Rightarrow> 'd money option \<Rightarrow> 'd option \<Rightarrow> 'd option res" where
  "not_below D message subtotal prev =
     (case subtotal of
        None \<Rightarrow> Inr prev
      | Some m \<Rightarrow>
          if (\<exists>p \<in> set_option prev. d_less_than D (m_amount m) p) then Inl (validation ''availability'' message)
          else Inr (Some (m_amount m)))"

definition assertCumulativeMonotonic :: "'d decimal_ops \<Rightarrow> 'd LiquidityBucket list \<Rightarrow> unit res" where
  "assertCumulativeMonotonic D buckets =
     res_bind
       (res_fold (\<lambda>bucket (prevAvailable, prevUnreserved).
          res_bind (not_below D ''cumulative known available amounts cannot decrease'' (lb_known_available_subtotal bucket) prevAvailable) (\<lambda>a.
          res_bind (not_below D ''cumulative known unreserved amounts cannot decrease'' (lb_known_unreserved_subtotal bucket) prevUnreserved) (\<lambda>u.
          Inr (a, u)))) buckets (None, None)) (\<lambda>_. Inr ())"

definition eligible_keys :: "'d decimal_ops \<Rightarrow> 'd LiquiditySource list \<Rightarrow> string list" where
  "eligible_keys D sources =
     map (\<lambda>source. LiquiditySourceRef_Key (ls_ref source))
       (filter (\<lambda>source. \<not> ls_archived source \<and> \<not> ls_liability source \<and> \<not> ls_quantity_zero source
          \<and> liquiditySourcePositiveOrUnknown D source) sources)"

text \<open>One reservation: refused, released, unresolved, or added to those of its source.\<close>

definition reserve_step ::
    "'d decimal_ops \<Rightarrow> string list \<Rightarrow> 'd LiquidityReservation \<Rightarrow> (string \<rightharpoonup> 'd money) \<times> 'd UnresolvedReservation list
     \<Rightarrow> ((string \<rightharpoonup> 'd money) \<times> 'd UnresolvedReservation list) res" where
  "reserve_step D keys reservation = (\<lambda>(active, unresolved).
     res_bind (LiquidityReservation_Validate D reservation) (\<lambda>_.
     let key = LiquiditySourceRef_Key (rs_source reservation) in
     if \<not> LiquidityReservation_Active reservation then Inr (active, unresolved)
     else if key \<notin> set keys
     then Inr (active, unresolved @ [\<lparr> ur_reservation = reservation, ur_reason = ''source is missing, archived, or no longer positive'' \<rparr>])
     else case active key of
       None \<Rightarrow> Inr (active(key \<mapsto> rs_amount reservation), unresolved)
     | Some current \<Rightarrow> res_bind (Money_Add D current (rs_amount reservation)) (\<lambda>sum_amount. Inr (active(key \<mapsto> sum_amount), unresolved))))"

definition check_native_amount :: "'d decimal_ops \<Rightarrow> 'd LiquiditySource \<Rightarrow> unit res" where
  "check_native_amount D source =
     (if ls_current_native_amount source = [] then Inr ()
      else res_bind (ParseNativeAmount D (ls_current_native_amount source)) (\<lambda>_. Inr ()))"

definition EvaluateLiquidity ::
    "'d decimal_ops \<Rightarrow> (string \<Rightarrow> zone option) \<Rightarrow> (CurrencyCode list \<Rightarrow> CurrencyCode list) \<Rightarrow> LiquidityQuery \<Rightarrow> 'd LiquiditySource list
     \<Rightarrow> 'd LiquidityReservation list \<Rightarrow> 'd ConvertToBase option \<Rightarrow> 'd LiquidityOverview res" where
  "EvaluateLiquidity D load_location range_order query sources reservations convert =
     res_bind (LocalCivilDate load_location (lq_as_of query) (lq_timezone query)) (\<lambda>(localDate, timezone).
     res_bind (LiquidityHorizons localDate (lq_custom_horizon_on query)) (\<lambda>horizons.
     res_bind (res_map (check_native_amount D) sources) (\<lambda>_.
     res_bind (res_fold (reserve_step D (eligible_keys D sources)) reservations (Map.empty, [])) (\<lambda>(active, unresolved).
     res_bind
       (res_map (\<lambda>source.
          res_bind (LiquiditySourceRef_Validate (ls_ref source)) (\<lambda>_.
          evaluateSource D query localDate horizons source
            (case active (LiquiditySourceRef_Key (ls_ref source)) of Some m \<Rightarrow> m | None \<Rightarrow> zero_money D) convert)) sources) (\<lambda>results.
     let results = sort_key (\<lambda>r. (lo_display_name r, lo_source_key r)) results in
     res_bind (res_map (\<lambda>horizon. aggregateBucket D range_order horizon (lq_base_currency query) results convert) horizons) (\<lambda>buckets.
     res_bind (assertCumulativeMonotonic D buckets) (\<lambda>_.
     Inr \<lparr> ov_as_of = lq_as_of query, ov_local_date = localDate, ov_timezone = timezone, ov_base_currency = lq_base_currency query,
           ov_assumptions = [AssumptionCurrentPricesAndFX, AssumptionAssetsOnly, AssumptionOutstandingDebtOmitted],
           ov_buckets = buckets, ov_sources = results, ov_unresolved_reservations = unresolved \<rparr>)))))))"

end
