(* ===== verification/Sha256.thy ===== *)
theory Sha256
  imports GoRuntime "HOL-Library.Word"
begin

text \<open>
  What the code uses of \<^verbatim>\<open>crypto/sha256\<close> and \<^verbatim>\<open>encoding/hex\<close>: the digest of a text and its hexadecimal
  form.  The digest is that of FIPS 180-4: padding to blocks of 64 bytes, the message schedule of a
  block, and 64 rounds on eight words of 32 bits.
\<close>

unbundle bit_operations_syntax

section \<open>Blocks\<close>

definition sha_pad :: "8 word list \<Rightarrow> 8 word list" where
  "sha_pad message =
     message @ [0x80] @ replicate ((119 - length message mod 64) mod 64) 0
     @ map (\<lambda>i. word_of_nat (8 * length message div 256 ^ i)) (rev [0..<8])"

fun word_be :: "8 word list \<Rightarrow> 32 word" where
  "word_be digits = foldl (\<lambda>acc b. push_bit 8 acc OR ucast b) 0 digits"

fun sha_chunks :: "nat \<Rightarrow> 'a list \<Rightarrow> 'a list list" where
  "sha_chunks n xs = (if n = 0 \<or> xs = [] then [] else take n xs # sha_chunks n (drop n xs))"

section \<open>Rounds\<close>

definition rotr :: "nat \<Rightarrow> 32 word \<Rightarrow> 32 word" where
  "rotr n w = drop_bit n w OR push_bit (32 - n) w"

definition sha_constants :: "32 word list" where
  "sha_constants =
  [0x428a2f98, 0x71374491, 0xb5c0fbcf, 0xe9b5dba5, 0x3956c25b, 0x59f111f1, 0x923f82a4, 0xab1c5ed5,
   0xd807aa98, 0x12835b01, 0x243185be, 0x550c7dc3, 0x72be5d74, 0x80deb1fe, 0x9bdc06a7, 0xc19bf174,
   0xe49b69c1, 0xefbe4786, 0x0fc19dc6, 0x240ca1cc, 0x2de92c6f, 0x4a7484aa, 0x5cb0a9dc, 0x76f988da,
   0x983e5152, 0xa831c66d, 0xb00327c8, 0xbf597fc7, 0xc6e00bf3, 0xd5a79147, 0x06ca6351, 0x14292967,
   0x27b70a85, 0x2e1b2138, 0x4d2c6dfc, 0x53380d13, 0x650a7354, 0x766a0abb, 0x81c2c92e, 0x92722c85,
   0xa2bfe8a1, 0xa81a664b, 0xc24b8b70, 0xc76c51a3, 0xd192e819, 0xd6990624, 0xf40e3585, 0x106aa070,
   0x19a4c116, 0x1e376c08, 0x2748774c, 0x34b0bcb5, 0x391c0cb3, 0x4ed8aa4a, 0x5b9cca4f, 0x682e6ff3,
   0x748f82ee, 0x78a5636f, 0x84c87814, 0x8cc70208, 0x90befffa, 0xa4506ceb, 0xbef9a3f7, 0xc67178f2]"

definition sha_initial :: "32 word list" where
  "sha_initial =
  [0x6a09e667, 0xbb67ae85, 0x3c6ef372, 0xa54ff53a, 0x510e527f, 0x9b05688c, 0x1f83d9ab, 0x5be0cd19]"

text \<open>The schedule is kept newest word first.\<close>

definition schedule_step :: "32 word list \<Rightarrow> 32 word list" where
  "schedule_step ws =
     (let w15 = ws ! 14; w2 = ws ! 1;
          s0 = rotr 7 w15 XOR rotr 18 w15 XOR drop_bit 3 w15;
          s1 = rotr 17 w2 XOR rotr 19 w2 XOR drop_bit 10 w2
      in (ws ! 15 + s0 + ws ! 6 + s1) # ws)"

definition sha_schedule :: "32 word list \<Rightarrow> 32 word list" where
  "sha_schedule block = rev ((schedule_step ^^ 48) (rev block))"

fun sha_round :: "32 word \<times> 32 word \<Rightarrow> 32 word list \<Rightarrow> 32 word list" where
  "sha_round (k, w) [a, b, c, d, e, f, g, h] =
     (let s1 = rotr 6 e XOR rotr 11 e XOR rotr 25 e;
          ch = (e AND f) XOR ((NOT e) AND g);
          t1 = h + s1 + ch + k + w;
          s0 = rotr 2 a XOR rotr 13 a XOR rotr 22 a;
          maj = (a AND b) XOR (a AND c) XOR (b AND c)
      in [t1 + (s0 + maj), a, b, c, d + t1, e, f, g])"
| "sha_round kw hs = hs"

definition sha_block :: "8 word list \<Rightarrow> 32 word list \<Rightarrow> 32 word list" where
  "sha_block block hs =
     map2 (+) hs (fold sha_round (zip sha_constants (sha_schedule (map word_be (sha_chunks 4 block)))) hs)"

definition Sum256 :: "string \<Rightarrow> 32 word list" where
  "Sum256 text = fold sha_block (sha_chunks 64 (sha_pad (map of_char text))) sha_initial"

section \<open>Hexadecimal text\<close>

definition hex_digit :: "nat \<Rightarrow> char" where
  "hex_digit n = ''0123456789abcdef'' ! (n mod 16)"

definition hex_word :: "32 word \<Rightarrow> string" where
  "hex_word w = map (\<lambda>i. hex_digit (unat (drop_bit (4 * i) w))) (rev [0..<8])"

definition EncodeToString :: "32 word list \<Rightarrow> string" where
  "EncodeToString digest = concat (map hex_word digest)"

end
