(* ===== verification/Upcoming.thy ===== *)
theory Upcoming
  imports LiquidityEval Sha256
begin

text \<open>
  Upcoming actions: \<^verbatim>\<open>internal/domain/upcoming_actions.go\<close>.  From an evaluated overview, the dates a
  household should look at: scheduled receipts and unlocks, reservations that are not covered, and
  gaps in the data.  Nothing is stored.  The JSON codec is a third-party package: its encodings of
  targets and of lists of texts are the record \<^verbatim>\<open>upcoming_codec\<close>.  The order in which Go ranges over the
  map of checks is an argument.
\<close>

section \<open>Data\<close>

record UpcomingTarget =
  ut_kind :: string
  ut_product_id :: "ProductContractID option"
  ut_source_ref :: "LiquiditySourceRef option"
  ut_reservation_id :: "LiquidityReservationID option"

record upcoming_codec =
  marshal_target :: "UpcomingTarget \<Rightarrow> string"
  marshal_strings :: "string list \<Rightarrow> string"

record UpcomingCounts =
  uc_total :: int
  uc_attention :: int
  uc_receipt_due :: int
  uc_reservation_issues :: int
  uc_scheduled :: int
  uc_eligible :: int
  uc_data_checks :: int
  uc_scope_notes :: int

record 'd UpcomingAction =
  ui_id :: string
  ui_occurrence_key :: string
  ui_kind :: string
  ui_phase :: string
  ui_group :: string
  ui_priority :: int
  ui_sort_on :: "string option"
  ui_account_id :: AccountID
  ui_account_name :: "string option"
  ui_product_id :: "ProductContractID option"
  ui_product_kind :: "ProductKind option"
  ui_source_key :: string
  ui_source_ref :: "LiquiditySourceRef option"
  ui_reservation_ids :: "string list"
  ui_reservation_labels :: "string list"
  ui_display_name :: string
  ui_anchor_kind :: string
  ui_anchor_on :: "string option"
  ui_maturity_on :: "string option"
  ui_eligibility_on :: "string option"
  ui_estimated_receipt_on :: "string option"
  ui_receipt_basis :: string
  ui_reference_on :: "string option"
  ui_amount :: "'d money option"
  ui_requested_reserve :: "'d money option"
  ui_amount_role :: string
  ui_amount_status :: string
  ui_coverage_status :: string
  ui_reason_codes :: "string list"
  ui_assumptions :: "string list"
  ui_primary_target :: UpcomingTarget
  ui_targets :: "UpcomingTarget list"
  ui_days_from_today :: "int option"
  ui_policy_revision :: int

record UpcomingDataCheck =
  uk_id :: string
  uk_source_key :: string
  uk_category :: string
  uk_product_id :: "ProductContractID option"
  uk_display_name :: string
  uk_reason_codes :: "string list"
  uk_related_action_id :: "string option"
  uk_anchor_on :: "string option"
  uk_coverage_status :: string
  uk_target :: UpcomingTarget
  uk_targets :: "UpcomingTarget list"
  uk_reference_on :: "string option"

record 'd UpcomingActions =
  ua_as_of :: go_time
  ua_local_date :: string
  ua_timezone :: string
  ua_window_start_on :: string
  ua_window_end_on :: string
  ua_base_currency :: CurrencyCode
  ua_completeness :: CompletenessStatus
  ua_counts :: UpcomingCounts
  ua_items :: "'d UpcomingAction list"
  ua_data_checks :: "UpcomingDataCheck list"
  ua_scope_warnings :: "string list"

text \<open>The parts of \<^verbatim>\<open>LiquiditySnapshot\<close> that the projection reads.\<close>

record 'd LiquiditySnapshot =
  sn_accounts :: "Account list"
  sn_holdings :: "'d Holding list"
  sn_reservations :: "'d LiquidityReservation list"

text \<open>The zero values of the structs.\<close>

definition no_target :: UpcomingTarget where
  "no_target = \<lparr> ut_kind = [], ut_product_id = None, ut_source_ref = None, ut_reservation_id = None \<rparr>"

definition product_target :: "ProductContractID \<Rightarrow> UpcomingTarget" where
  "product_target i = no_target \<lparr> ut_kind := ''product'', ut_product_id := Some i \<rparr>"

definition source_target :: "string \<Rightarrow> LiquiditySourceRef \<Rightarrow> UpcomingTarget" where
  "source_target kind ref = no_target \<lparr> ut_kind := kind, ut_source_ref := Some ref \<rparr>"

definition zero_action :: "'d UpcomingAction" where
  "zero_action =
     \<lparr> ui_id = [], ui_occurrence_key = [], ui_kind = [], ui_phase = [], ui_group = [], ui_priority = 0, ui_sort_on = None,
       ui_account_id = [], ui_account_name = None, ui_product_id = None, ui_product_kind = None, ui_source_key = [],
       ui_source_ref = None, ui_reservation_ids = [], ui_reservation_labels = [], ui_display_name = [], ui_anchor_kind = [],
       ui_anchor_on = None, ui_maturity_on = None, ui_eligibility_on = None, ui_estimated_receipt_on = None,
       ui_receipt_basis = [], ui_reference_on = None, ui_amount = None, ui_requested_reserve = None, ui_amount_role = [],
       ui_amount_status = [], ui_coverage_status = [], ui_reason_codes = [], ui_assumptions = [],
       ui_primary_target = no_target, ui_targets = [], ui_days_from_today = None, ui_policy_revision = 0 \<rparr>"

definition zero_check :: UpcomingDataCheck where
  "zero_check =
     \<lparr> uk_id = [], uk_source_key = [], uk_category = [], uk_product_id = None, uk_display_name = [], uk_reason_codes = [],
       uk_related_action_id = None, uk_anchor_on = None, uk_coverage_status = [], uk_target = no_target, uk_targets = [],
       uk_reference_on = None \<rparr>"

definition zero_counts :: UpcomingCounts where
  "zero_counts =
     \<lparr> uc_total = 0, uc_attention = 0, uc_receipt_due = 0, uc_reservation_issues = 0, uc_scheduled = 0, uc_eligible = 0,
       uc_data_checks = 0, uc_scope_notes = 0 \<rparr>"

fun LiquidityAssumption_string :: "LiquidityAssumption \<Rightarrow> string" where
  "LiquidityAssumption_string AssumptionBankCashToday = ''assumed_bank_cash_today''"
| "LiquidityAssumption_string AssumptionWeekdaysNoHolidays = ''weekdays_no_holidays''"
| "LiquidityAssumption_string AssumptionCurrentPricesAndFX = ''current_prices_and_fx''"
| "LiquidityAssumption_string AssumptionForecastInterest = ''future_interest_is_forecast''"
| "LiquidityAssumption_string AssumptionExcludedShortTerm = ''excluded_from_short_term''"
| "LiquidityAssumption_string AssumptionDueUnconfirmed = ''due_unconfirmed''"
| "LiquidityAssumption_string AssumptionFeeExceedsGross = ''fee_exceeds_gross''"
| "LiquidityAssumption_string AssumptionMissingFX = ''missing_fx''"
| "LiquidityAssumption_string AssumptionMissingPrice = ''missing_price''"
| "LiquidityAssumption_string AssumptionUnknownAccess = ''unknown_access''"
| "LiquidityAssumption_string AssumptionUnknownFee = ''unknown_fee''"
| "LiquidityAssumption_string AssumptionUnknownTiming = ''unknown_timing''"
| "LiquidityAssumption_string AssumptionUnknownEarly = ''unknown_early_access''"
| "LiquidityAssumption_string AssumptionRestrictedAccount = ''account_restrictions_may_apply''"
| "LiquidityAssumption_string AssumptionOutstandingDebtOmitted = ''outstanding_debt_not_subtracted''"
| "LiquidityAssumption_string AssumptionAssetsOnly = ''based_on_current_assets''"

section \<open>Helpers\<close>

text \<open>A set of texts in order; the order of ranging over the Go map is lost in the sort.\<close>

definition upcomingStrings :: "string list \<Rightarrow> string list" where
  "upcomingStrings v = sort (remdups v)"

definition upcomingDate :: "string option \<Rightarrow> string" where
  "upcomingDate v = (case v of None \<Rightarrow> [] | Some d \<Rightarrow> d)"

definition upcomingHash :: "upcoming_codec \<Rightarrow> string list \<Rightarrow> string" where
  "upcomingHash J v = EncodeToString (Sum256 (marshal_strings J v))"

definition appendUpcomingTarget :: "upcoming_codec \<Rightarrow> UpcomingTarget list \<Rightarrow> UpcomingTarget \<Rightarrow> UpcomingTarget list" where
  "appendUpcomingTarget J targets added =
     (if ut_kind added = [] then targets
      else if marshal_target J added \<in> set (map (marshal_target J) targets) then targets
      else targets @ [added])"

definition sortUpcomingTargets :: "upcoming_codec \<Rightarrow> UpcomingTarget list \<Rightarrow> UpcomingTarget list" where
  "sortUpcomingTargets J targets = sort_key (marshal_target J) targets"

definition upcomingMissing :: "'d decimal_ops \<Rightarrow> 'd LiquiditySourceResult \<Rightarrow> 'd LiquiditySource \<Rightarrow> CurrencyCode \<Rightarrow> string list" where
  "upcomingMissing D s raw base =
     (let p = lo_policy s; n = lo_normal_route s in
      upcomingStrings
        ((case p of
            None \<Rightarrow> [''missing_policy'']
          | Some policy \<Rightarrow> if lp_access_kind policy = AccessUnknown then [''unknown_access''] else [])
         @ (if Option.is_none (Option.bind n lr_receipt_on) then [''unknown_receipt_timing''] else [])
         @ (if Option.is_none (Option.bind n lr_net_native) then [''unknown_amount''] else [])
         @ (case p of
              None \<Rightarrow> []
            | Some policy \<Rightarrow> if Option.is_none (lp_normal_exit_fee policy) then [''unknown_fee''] else [])
         @ (if lo_native_currency s \<noteq> base \<and> Option.is_none (lo_fx_evidence s)
               \<and> (case ls_current_native_value raw of None \<Rightarrow> False | Some m \<Rightarrow> \<not> Money_IsZero D m)
            then [''missing_fx''] else [])))"

section \<open>The schedule of a source\<close>

definition is_managed :: "'d LiquiditySource \<Rightarrow> bool" where
  "is_managed raw \<longleftrightarrow> ls_managed raw \<and> \<not> Option.is_none (ls_contract raw)"

text \<open>The dates a schedule is made of: maturity, unlock and override of the receipt.\<close>

definition maturity_of :: "'d LiquiditySource \<Rightarrow> string option" where
  "maturity_of raw = (if ls_managed raw then Option.bind (ls_contract raw) pc_maturity_on else None)"

definition unlock_of :: "'d LiquiditySourceResult \<Rightarrow> string option" where
  "unlock_of s = Option.bind (lo_policy s) lp_unlock_on"

definition override_of :: "'d LiquiditySourceResult \<Rightarrow> string option" where
  "override_of s = Option.bind (lo_policy s) lp_receipt_on_override"

definition known_access :: "'d LiquiditySourceResult \<Rightarrow> bool" where
  "known_access s \<longleftrightarrow>
     (case lo_policy s of
        None \<Rightarrow> False
      | Some p \<Rightarrow> lp_access_kind p \<noteq> AccessUnknown \<and> lp_access_kind p \<noteq> AccessExcluded)"

definition timing_known :: "'d LiquiditySourceResult \<Rightarrow> bool" where
  "timing_known s \<longleftrightarrow>
     known_access s
     \<and> (case lo_normal_route s of
          None \<Rightarrow> False
        | Some normal \<Rightarrow> \<not> Option.is_none (lr_eligible_on normal) \<and> \<not> Option.is_none (lr_receipt_on normal))"

definition anchor_of :: "'d LiquiditySourceResult \<Rightarrow> 'd LiquiditySource \<Rightarrow> (string \<times> string) option" where
  "anchor_of s raw =
     (case maturity_of raw of
        Some m \<Rightarrow> Some (m, ''maturity'')
      | None \<Rightarrow>
          (case if known_access s \<and> \<not> Option.is_none (ls_explicit_policy raw) then unlock_of s else None of
             Some u \<Rightarrow> Some (u, ''eligibility'')
           | None \<Rightarrow>
               (case if is_managed raw \<and> known_access s then override_of s else None of
                  Some v \<Rightarrow> Some (v, ''scheduled_receipt'')
                | None \<Rightarrow> None)))"

definition receipt_basis :: "'d LiquiditySourceResult \<Rightarrow> 'd LiquiditySource \<Rightarrow> string \<Rightarrow> string" where
  "receipt_basis s raw today =
     (if timing_known s \<and> (is_managed raw \<or> Option.is_none (override_of s))
      then
        if \<not> Option.is_none (maturity_of raw) \<or> is_managed raw \<and> \<not> Option.is_none (override_of s) then ''fixed_schedule''
        else (case unlock_of s of
            Some unlock \<Rightarrow> if today \<le> unlock then ''request_on_eligible_date'' else ''request_today''
          | None \<Rightarrow> ''request_today'')
      else ''unknown'')"

text \<open>The switch over the phases: phase, group, priority and date, or nothing to show.\<close>

definition schedule_phase ::
    "'d LiquiditySourceResult \<Rightarrow> 'd LiquiditySource \<Rightarrow> string \<Rightarrow> string \<Rightarrow> string \<Rightarrow> string
     \<Rightarrow> (string \<times> string \<times> int \<times> string option) option" where
  "schedule_phase s raw anchor anchorKind today end_on =
     (let managed = is_managed raw; maturity = maturity_of raw; unlock = unlock_of s; override = override_of s;
          receipt = Option.bind (lo_normal_route s) lr_receipt_on
      in
      if lo_due_unconfirmed s \<and> managed \<and> \<not> Option.is_none receipt
      then Some (''receipt_due'', ''attention'', 0, receipt)
      else if managed \<and> \<not> Option.is_none maturity \<and> \<not> timing_known s
      then (if end_on < the maturity then None
            else if the maturity \<le> today then Some (''blocked'', ''attention'', 2, maturity)
            else Some (''blocked'', ''scheduled'', 4, maturity))
      else if \<not> known_access s then None
      else if anchor = today then Some (''today'', ''scheduled'', 3, Some anchor)
      else if (case maturity of Some m \<Rightarrow> m < today | None \<Rightarrow> False) \<and> (case receipt of Some r \<Rightarrow> today < r | None \<Rightarrow> False)
      then Some (''awaiting_receipt'', ''scheduled'', 4, receipt)
      else if managed \<and> Option.is_none maturity \<and> timing_known s
        \<and> (case override of
             None \<Rightarrow> False
           | Some v \<Rightarrow> today < v \<and> (case unlock of Some u \<Rightarrow> u < today | None \<Rightarrow> v \<le> end_on))
      then Some (''scheduled_receipt'', ''scheduled'', 4, receipt)
      else if today < anchor \<and> anchor \<le> end_on then Some (''upcoming'', ''scheduled'', 4, Some anchor)
      else if Option.is_none maturity \<and> anchorKind = ''eligibility'' \<and> anchor < today \<and> (\<not> managed \<or> Option.is_none override)
      then Some (''eligible'', ''eligible'', 5, Some anchor)
      else None)"

text \<open>The error of counting days is ignored, which leaves zero.\<close>

definition days_from_today :: "string \<Rightarrow> string \<Rightarrow> int" where
  "days_from_today today date =
     (if today \<le> date then (case CivilDaysBetween today date of Inr days \<Rightarrow> days | Inl _ \<Rightarrow> 0)
      else - (case CivilDaysBetween date today of Inr days \<Rightarrow> days | Inl _ \<Rightarrow> 0))"

definition schedule_item ::
    "upcoming_codec \<Rightarrow> 'd LiquiditySourceResult \<Rightarrow> 'd LiquiditySource \<Rightarrow> string \<Rightarrow> string \<Rightarrow> string \<Rightarrow> 'd UpcomingAction" where
  "schedule_item J s raw today anchor anchorKind =
     (let contract = (if ls_managed raw then ls_contract raw else None);
          normal = lo_normal_route s
      in
      zero_action
        \<lparr> ui_id := (case contract of
              None \<Rightarrow> ''ua1/source/'' @ lo_source_key s @ ''/normal''
            | Some c \<Rightarrow> ''ua1/product/'' @ pc_id c @ ''/normal''),
          ui_occurrence_key := upcomingHash J
            [case contract of None \<Rightarrow> lo_source_key s | Some c \<Rightarrow> pc_id c, anchorKind, upcomingDate (maturity_of raw),
             upcomingDate (unlock_of s), upcomingDate (override_of s)],
          ui_kind := (case contract of None \<Rightarrow> ''source_access'' | Some c \<Rightarrow> ''product_schedule''),
          ui_group := ''scheduled'', ui_priority := 4, ui_account_id := lo_account_id s,
          ui_product_id := (case contract of None \<Rightarrow> lo_product_id s | Some c \<Rightarrow> Some (pc_id c)),
          ui_product_kind := map_option pc_kind contract,
          ui_source_key := lo_source_key s, ui_source_ref := Some (lo_ref s), ui_display_name := lo_display_name s,
          ui_anchor_kind := anchorKind, ui_anchor_on := Some anchor, ui_maturity_on := maturity_of raw,
          ui_eligibility_on := unlock_of s,
          ui_estimated_receipt_on :=
            (if is_managed raw \<or> Option.is_none (override_of s) then Option.bind normal lr_receipt_on else None),
          ui_receipt_basis := receipt_basis s raw today,
          ui_amount := Option.bind normal lr_net_native,
          ui_amount_role := (if Option.is_none normal then ''unknown'' else ''estimated_net_proceeds''),
          ui_amount_status := (if Option.is_none (Option.bind normal lr_net_native) then ''unknown'' else ''known''),
          ui_assumptions := (case normal of None \<Rightarrow> [] | Some n \<Rightarrow> map LiquidityAssumption_string (lr_assumptions n)),
          ui_primary_target := (case contract of
              None \<Rightarrow> source_target ''source_policy'' (lo_ref s)
            | Some c \<Rightarrow> product_target (pc_id c)),
          ui_policy_revision := (case lo_policy s of None \<Rightarrow> 0 | Some p \<Rightarrow> lp_revision p) \<rparr>)"

definition upcomingSchedule ::
    "upcoming_codec \<Rightarrow> 'd LiquiditySourceResult \<Rightarrow> 'd LiquiditySource \<Rightarrow> string \<Rightarrow> string \<Rightarrow> 'd UpcomingAction option" where
  "upcomingSchedule J s raw today end_on =
     (case anchor_of s raw of
        None \<Rightarrow> None
      | Some (anchor, anchorKind) \<Rightarrow>
          (case schedule_phase s raw anchor anchorKind today end_on of
             None \<Rightarrow> None
           | Some (phase, grp, priority, sortOn) \<Rightarrow>
               Some ((schedule_item J s raw today anchor anchorKind)
                 \<lparr> ui_phase := phase, ui_group := grp, ui_priority := priority, ui_sort_on := sortOn,
                   ui_days_from_today := map_option (days_from_today today) sortOn \<rparr>)))"

section \<open>The projection\<close>

text \<open>The variables of the loop over sources: the result so far, the checks by identity, and the item of
  each source.\<close>

record 'd upcoming_state =
  us_items :: "'d UpcomingAction list"
  us_completeness :: CompletenessStatus
  us_scope_warnings :: "string list"
  us_checks :: "(string \<times> UpcomingDataCheck) list"
  us_action_by_source :: "(string \<times> nat) list"

text \<open>What is fixed before the loop; a map built by assignment in a loop keeps the last entry of a key.\<close>

definition last_with :: "('a \<Rightarrow> string) \<Rightarrow> 'a list \<Rightarrow> string \<Rightarrow> 'a option" where
  "last_with key xs k = find (\<lambda>x. key x = k) (rev xs)"

record 'd upcoming_env =
  ue_codec :: upcoming_codec
  ue_today :: string
  ue_end_on :: string
  ue_base_currency :: CurrencyCode
  ue_raw :: "'d LiquiditySource list"
  ue_accounts :: "Account list"
  ue_reservations :: "'d LiquidityReservation list"

definition account_name :: "Account list \<Rightarrow> AccountID \<Rightarrow> string option" where
  "account_name accounts i = map_option a_name (last_with a_id accounts i)"

definition check_id :: "string \<Rightarrow> string \<Rightarrow> string" where
  "check_id key category = ''ua1/check/'' @ key @ ''/'' @ category"

definition updated_check ::
    "'d upcoming_env \<Rightarrow> 'd LiquiditySourceResult \<Rightarrow> string \<Rightarrow> string \<Rightarrow> string list \<Rightarrow> string option \<Rightarrow> UpcomingTarget
     \<Rightarrow> UpcomingDataCheck \<Rightarrow> UpcomingDataCheck" where
  "updated_check E s category coverage reasons anchor added c =
     c \<lparr> uk_id := check_id (lo_source_key s) category, uk_source_key := lo_source_key s, uk_category := category,
         uk_product_id := lo_product_id s, uk_display_name := lo_display_name s,
         uk_target := (if ut_kind (uk_target c) = [] then added else uk_target c),
         uk_targets := appendUpcomingTarget (ue_codec E) (uk_targets c) added,
         uk_reason_codes := upcomingStrings (uk_reason_codes c @ reasons),
         uk_coverage_status := coverage,
         uk_reference_on := (if coverage \<noteq> [] then Some (ue_end_on E) else uk_reference_on c),
         uk_anchor_on := (if Option.is_none anchor then uk_anchor_on c else anchor) \<rparr>"

definition addCheck ::
    "'d upcoming_env \<Rightarrow> 'd LiquiditySourceResult \<Rightarrow> string \<Rightarrow> string \<Rightarrow> string list \<Rightarrow> string option \<Rightarrow> UpcomingTarget
     \<Rightarrow> 'd upcoming_state \<Rightarrow> 'd upcoming_state" where
  "addCheck E s category coverage reasons anchor added st =
     (if reasons = [] then st
      else
        let i = check_id (lo_source_key s) category;
            c = (case map_of (us_checks st) i of Some c \<Rightarrow> c | None \<Rightarrow> zero_check)
        in st \<lparr> us_checks := AList.update i (updated_check E s category coverage reasons anchor added c) (us_checks st),
                us_completeness := (if category = ''data_issue'' then StatusPartial else us_completeness st) \<rparr>)"

text \<open>Reservations whose source cannot be found.\<close>

definition unresolved_reason ::
    "'d decimal_ops \<Rightarrow> Account list \<Rightarrow> 'd LiquiditySource list \<Rightarrow> 'd Holding list \<Rightarrow> LiquiditySourceRef \<Rightarrow> string" where
  "unresolved_reason D accounts sources holdings ref =
     (case last_with a_id accounts (sr_account_id ref) of
        None \<Rightarrow> ''source_missing''
      | Some a \<Rightarrow>
          if \<not> Option.is_none (a_archived_at a) then ''source_archived''
          else if Account_IsLiability a then ''source_liability''
          else (case last_with (\<lambda>s. LiquiditySourceRef_Key (ls_ref s)) sources (LiquiditySourceRef_Key ref) of
              Some s \<Rightarrow>
                if ls_quantity_zero s then ''source_zero_quantity''
                else if \<not> liquiditySourcePositiveOrUnknown D s then ''source_non_positive''
                else ''source_unavailable''
            | None \<Rightarrow>
                (case Option.bind (sr_holding_id ref) (last_with h_id holdings) of
                   None \<Rightarrow> ''source_missing''
                 | Some h \<Rightarrow>
                     if \<not> Option.is_none (h_archived_at h) then ''source_archived''
                     else if Quantity_IsZero D (h_quantity h) then ''source_zero_quantity''
                     else ''source_missing'')))"

definition unresolved_item ::
    "'d decimal_ops \<Rightarrow> upcoming_codec \<Rightarrow> Account list \<Rightarrow> 'd LiquiditySource list \<Rightarrow> 'd Holding list \<Rightarrow> 'd LiquidityReservation
     \<Rightarrow> 'd UpcomingAction" where
  "unresolved_item D J accounts sources holdings r =
     (let ref = rs_source r; i = ''ua1/reservation/'' @ rs_id r @ ''/unresolved'' in
      zero_action
        \<lparr> ui_id := i, ui_kind := ''reservation_unresolved'', ui_phase := ''current_issue'', ui_group := ''attention'',
          ui_priority := 1, ui_account_id := sr_account_id ref, ui_source_key := LiquiditySourceRef_Key ref,
          ui_source_ref := Some ref, ui_display_name := rs_label r, ui_anchor_kind := ''none'', ui_receipt_basis := ''unknown'',
          ui_reservation_ids := [rs_id r], ui_reservation_labels := [rs_label r], ui_amount := Some (rs_amount r),
          ui_amount_role := ''reservation_requested'', ui_amount_status := ''known'', ui_coverage_status := ''source_unresolved'',
          ui_reason_codes := [unresolved_reason D accounts sources holdings ref],
          ui_primary_target := no_target \<lparr> ut_kind := ''reservations'', ut_reservation_id := Some (rs_id r) \<rparr>,
          ui_account_name := account_name accounts (sr_account_id ref),
          ui_occurrence_key := upcomingHash J [i] \<rparr>)"

text \<open>The first half of a source: its schedule, or the note that it is left out.\<close>

definition excluded_anchor :: "'d LiquiditySource \<Rightarrow> 'd LiquidityPolicy \<Rightarrow> string option" where
  "excluded_anchor r policy =
     (let anchor = (if Option.is_none (ls_explicit_policy r) then None else lp_unlock_on policy) in
      if is_managed r
      then if \<not> Option.is_none (maturity_of r) then maturity_of r
           else if Option.is_none anchor then lp_receipt_on_override policy else anchor
      else anchor)"

definition policy_excluded :: "'d LiquiditySourceResult \<Rightarrow> bool" where
  "policy_excluded s \<longleftrightarrow> map_option lp_access_kind (lo_policy s) = Some AccessExcluded"

definition source_link :: "'d LiquiditySourceResult \<Rightarrow> 'd LiquiditySource \<Rightarrow> UpcomingTarget" where
  "source_link s r =
     (case ls_contract r of Some c \<Rightarrow> product_target (pc_id c) | None \<Rightarrow> source_target ''source_policy'' (lo_ref s))"

definition scheduled_item ::
    "'d decimal_ops \<Rightarrow> 'd upcoming_env \<Rightarrow> 'd LiquiditySourceResult \<Rightarrow> string list \<Rightarrow> 'd UpcomingAction \<Rightarrow> 'd UpcomingAction" where
  "scheduled_item D E s reasons item =
     item \<lparr> ui_account_name := account_name (ue_accounts E) (ui_account_id item),
            ui_reason_codes := upcomingStrings reasons,
            ui_amount_status := (if \<not> Option.is_none (ui_amount item) \<and> reasons \<noteq> [] then ''partial'' else ui_amount_status item) \<rparr>"

definition add_item :: "string \<Rightarrow> 'd UpcomingAction \<Rightarrow> 'd upcoming_state \<Rightarrow> 'd upcoming_state" where
  "add_item key item st =
     st \<lparr> us_action_by_source := AList.update key (length (us_items st)) (us_action_by_source st),
          us_items := us_items st @ [item] \<rparr>"

definition mark_partial :: "bool \<Rightarrow> 'd upcoming_state \<Rightarrow> 'd upcoming_state" where
  "mark_partial b st = (if b then st \<lparr> us_completeness := StatusPartial \<rparr> else st)"

definition project_schedule ::
    "'d decimal_ops \<Rightarrow> 'd upcoming_env \<Rightarrow> 'd LiquiditySourceResult \<Rightarrow> 'd LiquiditySource \<Rightarrow> 'd LiquidityReservation list
     \<Rightarrow> 'd upcoming_state \<Rightarrow> 'd upcoming_state" where
  "project_schedule D E s r rs st =
     (if policy_excluded s
      then
        let st = st \<lparr> us_scope_warnings := us_scope_warnings st @ [''excluded_sources_omitted''] \<rparr>;
            anchor = Option.bind (lo_policy s) (excluded_anchor r)
        in if Option.is_none anchor then st
           else addCheck E s ''scope_note'' [] [''schedule_excluded''] anchor (source_link s r) st
      else
        let reasons = upcomingMissing D s r (ue_base_currency E) in
        case upcomingSchedule (ue_codec E) s r (ue_today E) (ue_end_on E) of
          Some item \<Rightarrow> add_item (lo_source_key s) (scheduled_item D E s reasons item) (mark_partial (reasons \<noteq> []) st)
        | None \<Rightarrow>
            if is_managed r \<or> rs \<noteq> [] \<or> (case ls_explicit_policy r of None \<Rightarrow> False | Some p \<Rightarrow> \<not> Option.is_none (lp_unlock_on p))
            then addCheck E s ''data_issue'' [] reasons None (source_link s r) st
            else st)"

text \<open>The second half: whether the reservations of the source are covered at the end of the window.\<close>

definition reservation_coverage ::
    "'d decimal_ops \<Rightarrow> string \<Rightarrow> 'd LiquiditySourceResult \<Rightarrow> 'd LiquidityReservation list \<Rightarrow> string \<times> string \<times> string" where
  "reservation_coverage D end_on s rs =
     (let after = (\<lambda>d. case d of Some d \<Rightarrow> end_on < d | None \<Rightarrow> False) in
      if \<exists>res \<in> set rs. rs_currency res \<noteq> lo_native_currency s \<or> m_currency (rs_amount res) \<noteq> lo_native_currency s
      then (''currency_mismatch'', ''data_issue'', ''currency_mismatch'')
      else if policy_excluded s then (''excluded_source'', ''scope_note'', ''reservation_excluded'')
      else if lo_due_unconfirmed s then (''due_route_suppressed'', ''information'', ''due_route_suppressed'')
      else if (case lo_normal_route s of None \<Rightarrow> False | Some n \<Rightarrow> after (lr_eligible_on n) \<or> after (lr_receipt_on n))
      then (''not_available_by_E'', ''information'', ''not_available_by_E'')
      else
        let unknown_coverage = (''amount_unknown'', ''data_issue'', ''reservation_coverage_unknown'') in
        case bucket_row end_on s of
          None \<Rightarrow> unknown_coverage
        | Some row \<Rightarrow>
            (case (br_selected_route row, br_reserve_shortfall_native row) of
               (Some route, Some shortfall) \<Rightarrow>
                 if lr_kind route = RouteNormal \<and> nativeResultComplete row
                 then (if d_is_positive D (m_amount shortfall) then ''short'' else ''covered'', ''data_issue'', ''reservation_coverage_unknown'')
                 else unknown_coverage
             | _ \<Rightarrow> unknown_coverage))"

definition shortfall_item ::
    "'d upcoming_env \<Rightarrow> 'd LiquiditySourceResult \<Rightarrow> 'd LiquidityReservation list \<Rightarrow> 'd money option \<Rightarrow> bool \<Rightarrow> 'd UpcomingAction" where
  "shortfall_item E s rs shortfall fx_missing =
     (let i = ''ua1/reserve/'' @ lo_source_key s @ ''/'' @ lo_native_currency s in
      zero_action
        \<lparr> ui_id := i, ui_kind := ''reservation_shortfall'', ui_phase := ''current_issue'', ui_group := ''attention'',
          ui_priority := 1, ui_account_id := lo_account_id s, ui_product_id := lo_product_id s, ui_source_key := lo_source_key s,
          ui_source_ref := Some (lo_ref s), ui_display_name := lo_display_name s, ui_anchor_kind := ''none'',
          ui_receipt_basis := ''unknown'', ui_reference_on := Some (ue_end_on E), ui_amount := shortfall,
          ui_requested_reserve := Some (lo_reservation_requested s), ui_amount_role := ''reserve_shortfall'',
          ui_amount_status := (if fx_missing then ''partial'' else ''known''), ui_coverage_status := ''short'',
          ui_reservation_ids := map rs_id rs, ui_reservation_labels := map rs_label rs,
          ui_reason_codes := (if fx_missing then [''missing_fx''] else []),
          ui_primary_target := source_target ''reservations'' (lo_ref s),
          ui_account_name := account_name (ue_accounts E) (lo_account_id s),
          ui_occurrence_key := upcomingHash (ue_codec E) [i] \<rparr>)"

definition project_reserve ::
    "'d decimal_ops \<Rightarrow> 'd upcoming_env \<Rightarrow> 'd LiquiditySourceResult \<Rightarrow> 'd LiquidityReservation list \<Rightarrow> 'd upcoming_state
     \<Rightarrow> 'd upcoming_state" where
  "project_reserve D E s rs st =
     (if rs = [] then st
      else
        let (coverage, category, reason) = reservation_coverage D (ue_end_on E) s rs;
            row = bucket_row (ue_end_on E) s
        in
        if coverage = ''covered'' then st
        else if coverage \<noteq> ''short''
        then addCheck E s category coverage [reason] None (source_target ''reservations'' (lo_ref s)) st
        else
          let fx_missing = (lo_native_currency s \<noteq> ue_base_currency E \<and> Option.is_none (Option.bind row br_net_base));
              item = shortfall_item E s rs (Option.bind row br_reserve_shortfall_native) fx_missing;
              st = mark_partial fx_missing st
          in if lo_source_key s \<in> set (map fst (us_action_by_source st))
             then st \<lparr> us_items := us_items st @ [item] \<rparr>
             else add_item (lo_source_key s) item st)"

definition reservations_of :: "'d upcoming_env \<Rightarrow> string \<Rightarrow> 'd LiquidityReservation list" where
  "reservations_of E key = sort_key rs_id (filter (\<lambda>r. LiquiditySourceRef_Key (rs_source r) = key) (ue_reservations E))"

definition project_source ::
    "'d decimal_ops \<Rightarrow> 'd upcoming_env \<Rightarrow> 'd LiquiditySourceResult \<Rightarrow> 'd upcoming_state \<Rightarrow> 'd upcoming_state" where
  "project_source D E s st =
     (case last_with (\<lambda>s. LiquiditySourceRef_Key (ls_ref s)) (ue_raw E) (lo_source_key s) of
        None \<Rightarrow> st
      | Some r \<Rightarrow>
          let rs = reservations_of E (lo_source_key s) in
          if ls_archived r \<or> ls_liability r \<or> ls_quantity_zero r
          then
            (if ls_quantity_zero r \<and> map_option pc_state (ls_contract r) = Some ProductStateOpen
             then addCheck E s ''data_issue'' [] [''invalid_product_quantity''] None (no_target \<lparr> ut_kind := ''data_health'' \<rparr>) st
             else st)
          else if is_managed r
            \<and> (map_option pc_state (ls_contract r) \<noteq> Some ProductStateOpen
               \<or> map_option pc_kind (ls_contract r) \<noteq> Some ProductTermDeposit
                 \<and> map_option pc_kind (ls_contract r) \<noteq> Some ProductLockedProduct)
          then st
          else project_reserve D E s rs (project_schedule D E s r rs st))"

section \<open>Merging and ordering\<close>

definition merge_into :: "upcoming_codec \<Rightarrow> UpcomingDataCheck \<Rightarrow> 'd UpcomingAction \<Rightarrow> 'd UpcomingAction" where
  "merge_into J c item =
     item \<lparr> ui_reason_codes := upcomingStrings (ui_reason_codes item @ uk_reason_codes c),
            ui_targets := foldl (appendUpcomingTarget J) (ui_targets item) (uk_targets c),
            ui_coverage_status := (if uk_coverage_status c \<noteq> [] then uk_coverage_status c else ui_coverage_status item),
            ui_reference_on := (if uk_coverage_status c \<noteq> [] then uk_reference_on c else ui_reference_on item) \<rparr>"

definition merge_check ::
    "upcoming_codec \<Rightarrow> (string \<times> nat) list \<Rightarrow> UpcomingDataCheck \<Rightarrow> 'd UpcomingAction list \<times> UpcomingDataCheck list
     \<Rightarrow> 'd UpcomingAction list \<times> UpcomingDataCheck list" where
  "merge_check J actions c = (\<lambda>(items, data_checks).
     case if uk_category c = ''data_issue'' then map_of actions (uk_source_key c) else None of
       Some i \<Rightarrow> (items[i := merge_into J c (items ! i)], data_checks)
     | None \<Rightarrow> (items, data_checks @ [c]))"

definition finish_item :: "upcoming_codec \<Rightarrow> 'd UpcomingAction \<Rightarrow> 'd UpcomingAction" where
  "finish_item J item =
     item \<lparr> ui_targets := sortUpcomingTargets J (appendUpcomingTarget J (ui_targets item) (ui_primary_target item)),
            ui_reason_codes := upcomingStrings (ui_reason_codes item),
            ui_amount_status :=
              (if \<not> Option.is_none (ui_amount item) \<and> ui_reason_codes item \<noteq> [] then ''partial'' else ui_amount_status item),
            ui_assumptions := upcomingStrings (ui_assumptions item) \<rparr>"

definition count_item :: "'d UpcomingAction \<Rightarrow> UpcomingCounts \<Rightarrow> UpcomingCounts" where
  "count_item item counts =
     (if ui_group item = ''eligible'' then counts \<lparr> uc_eligible := uc_eligible counts + 1 \<rparr>
      else
        let counts = counts \<lparr> uc_total := uc_total counts + 1 \<rparr>;
            counts = (if ui_group item = ''attention'' then counts \<lparr> uc_attention := uc_attention counts + 1 \<rparr>
                      else counts \<lparr> uc_scheduled := uc_scheduled counts + 1 \<rparr>);
            counts = (if ui_phase item = ''receipt_due'' then counts \<lparr> uc_receipt_due := uc_receipt_due counts + 1 \<rparr> else counts)
        in if ui_kind item = ''reservation_shortfall'' \<or> ui_kind item = ''reservation_unresolved''
           then counts \<lparr> uc_reservation_issues := uc_reservation_issues counts + 1 \<rparr> else counts)"

definition item_warnings :: "'d UpcomingAction \<Rightarrow> string list" where
  "item_warnings item =
     (if ui_group item = ''eligible'' then []
      else map (\<lambda>_. ''weekdays_no_holidays'')
             (filter (\<lambda>a. a = LiquidityAssumption_string AssumptionWeekdaysNoHolidays) (ui_assumptions item)))"

definition count_check :: "UpcomingDataCheck \<Rightarrow> UpcomingCounts \<Rightarrow> UpcomingCounts" where
  "count_check c counts =
     (if uk_category c = ''data_issue'' then counts \<lparr> uc_data_checks := uc_data_checks counts + 1 \<rparr>
      else counts \<lparr> uc_scope_notes := uc_scope_notes counts + 1 \<rparr>)"

definition item_order :: "'d UpcomingAction \<Rightarrow> int \<times> int \<times> string \<times> string" where
  "item_order a = (ui_priority a, if ui_kind a = ''reservation_shortfall'' then 1 else 0, upcomingDate (ui_sort_on a), ui_id a)"

definition check_order :: "UpcomingDataCheck \<Rightarrow> string \<times> string \<times> string" where
  "check_order c = (uk_category c, uk_source_key c, uk_id c)"

definition upcoming_start ::
    "'d decimal_ops \<Rightarrow> upcoming_codec \<Rightarrow> 'd LiquidityOverview \<Rightarrow> 'd LiquiditySource list \<Rightarrow> 'd LiquiditySnapshot
     \<Rightarrow> 'd upcoming_state" where
  "upcoming_start D J overview sources snapshot =
     \<lparr> us_items = map (\<lambda>u. unresolved_item D J (sn_accounts snapshot) sources (sn_holdings snapshot) (ur_reservation u))
                    (ov_unresolved_reservations overview),
       us_completeness = StatusComplete, us_scope_warnings = [''normal_routes_only''], us_checks = [], us_action_by_source = [] \<rparr>"

definition upcoming_env_of ::
    "upcoming_codec \<Rightarrow> string \<Rightarrow> 'd LiquidityOverview \<Rightarrow> 'd LiquiditySource list \<Rightarrow> 'd LiquiditySnapshot \<Rightarrow> 'd upcoming_env" where
  "upcoming_env_of J end_on overview sources snapshot =
     \<lparr> ue_codec = J, ue_today = ov_local_date overview, ue_end_on = end_on, ue_base_currency = ov_base_currency overview,
       ue_raw = sources, ue_accounts = sn_accounts snapshot,
       ue_reservations = filter
         (\<lambda>r. LiquidityReservation_Active r
            \<and> rs_id r \<notin> set (map (\<lambda>u. rs_id (ur_reservation u)) (ov_unresolved_reservations overview)))
         (sn_reservations snapshot) \<rparr>"

definition ProjectUpcomingActions ::
    "'d decimal_ops \<Rightarrow> upcoming_codec \<Rightarrow> (string list \<Rightarrow> string list) \<Rightarrow> 'd LiquidityOverview \<Rightarrow> 'd LiquiditySource list
     \<Rightarrow> 'd LiquiditySnapshot \<Rightarrow> 'd UpcomingActions res" where
  "ProjectUpcomingActions D J range_order overview sources snapshot =
     res_bind (AddCalendarDays (ov_local_date overview) 30) (\<lambda>end_on.
     let E = upcoming_env_of J end_on overview sources snapshot;
         st = fold (project_source D E) (ov_sources overview) (upcoming_start D J overview sources snapshot);
         (items, data_checks) =
           fold (\<lambda>i. merge_check J (us_action_by_source st) (the (map_of (us_checks st) i)))
             (range_order (map fst (us_checks st))) (us_items st, []);
         items = map (finish_item J) items;
         data_checks = map (\<lambda>c. c \<lparr> uk_targets := sortUpcomingTargets J (uk_targets c) \<rparr>) (sort_key check_order data_checks)
     in Inr
       \<lparr> ua_as_of = ov_as_of overview, ua_local_date = ov_local_date overview, ua_timezone = ov_timezone overview,
         ua_window_start_on = ov_local_date overview, ua_window_end_on = end_on, ua_base_currency = ov_base_currency overview,
         ua_completeness = us_completeness st,
         ua_counts = fold count_check data_checks (fold count_item items zero_counts),
         ua_items = sort_key item_order items, ua_data_checks = data_checks,
         ua_scope_warnings = upcomingStrings (us_scope_warnings st @ concat (map item_warnings items)) \<rparr>)"

end
