(* ===== verification/LiquidityProps.thy ===== *)
theory LiquidityProps
  imports LiquidityEval
begin

text \<open>
  What the availability evaluation promises: the route taken at a horizon is the best one that has
  arrived by then, later horizons offer no less, reservations split an amount without loss, and the
  totals of the standard horizons never decrease.
\<close>

section \<open>The best route\<close>

text \<open>A route has arrived by a horizon when its dates are known to be on or before it and its amount is known.\<close>

definition arrived :: "string \<Rightarrow> 'd LiquidityRoute \<Rightarrow> bool" where
  "arrived horizon r \<longleftrightarrow> (\<forall>e \<in> set_option (lr_eligible_on r). e \<le> horizon)
     \<and> (\<exists>d \<in> set_option (lr_receipt_on r). d \<le> horizon) \<and> lr_net_native r \<noteq> None"

definition route_value :: "'d decimal_ops \<Rightarrow> 'd LiquidityRoute \<Rightarrow> rat" where
  "route_value D r = d_val D (routeNativeExact D r)"

lemma arrived_later: "arrived h r \<Longrightarrow> h \<le> h' \<Longrightarrow> arrived h' r"
  by (auto simp: arrived_def intro: order_trans)

lemma compare_pos: "0 < compareCivilDates a b \<longleftrightarrow> b < a"
  by (auto simp: compareCivilDates_def)

lemma consider_arrived:
  "arrived h c \<Longrightarrow> fst (consider_route D h c (sel, u)) =
    (case sel of None \<Rightarrow> Some c | Some s \<Rightarrow> if better_route D c s then Some c else sel)"
  "\<not> arrived h c \<Longrightarrow> fst (consider_route D h c (sel, u)) = sel"
  by (cases "lr_eligible_on c"; cases "lr_receipt_on c";
      auto simp: consider_route_def arrived_def compare_pos not_less split: option.splits)+

definition best_of :: "'d decimal_ops \<Rightarrow> string \<Rightarrow> 'd LiquidityRoute set \<Rightarrow> 'd LiquidityRoute option \<Rightarrow> bool" where
  "best_of D h cs sel \<longleftrightarrow>
     (case sel of
        None \<Rightarrow> \<forall>c \<in> cs. \<not> arrived h c
      | Some s \<Rightarrow> s \<in> cs \<and> arrived h s \<and> (\<forall>c \<in> cs. arrived h c \<longrightarrow> route_value D c \<le> route_value D s))"

context decimal_lib
begin

lemma better_route_value:
  "better_route D c s \<Longrightarrow> route_value D s \<le> route_value D c"
  "\<not> better_route D c s \<Longrightarrow> route_value D c \<le> route_value D s"
  by (auto simp: better_route_def exact route_value_def)

lemma consider_best:
  assumes "best_of D h cs sel"
  shows "best_of D h (insert c cs) (fst (consider_route D h c (sel, u)))"
proof (cases "arrived h c")
  case True
  show ?thesis
  proof (cases sel)
    case None
    with True assms show ?thesis by (auto simp: consider_arrived best_of_def)
  next
    case (Some s)
    then have s: "s \<in> cs" "arrived h s" "\<forall>x \<in> cs. arrived h x \<longrightarrow> route_value D x \<le> route_value D s"
      using assms by (auto simp: best_of_def)
    show ?thesis
    proof (cases "better_route D c s")
      case True
      from better_route_value(1) [OF True] s have "\<forall>x \<in> cs. arrived h x \<longrightarrow> route_value D x \<le> route_value D c"
        by (auto intro: order_trans)
      with True \<open>arrived h c\<close> Some show ?thesis by (simp add: consider_arrived best_of_def)
    next
      case False
      from better_route_value(2) [OF False] s False \<open>arrived h c\<close> Some show ?thesis by (simp add: consider_arrived best_of_def)
    qed
  qed
next
  case False
  with assms show ?thesis by (auto simp: consider_arrived best_of_def split: option.splits)
qed

lemma fold_consider_best:
  "best_of D h cs (fst p) \<Longrightarrow> best_of D h (cs \<union> set rs) (fst (fold (consider_route D h) rs p))"
proof (induction rs arbitrary: cs p)
  case (Cons c rs)
  have "best_of D h (insert c cs) (fst (consider_route D h c (fst p, snd p)))" by (rule consider_best [OF Cons.prems])
  then show ?case using Cons.IH [of "insert c cs" "consider_route D h c p"] by simp
qed simp

lemma selected_best:
  "best_of D h (set (route_candidates src due)) (fst (fold (consider_route D h) (route_candidates src due) (None, False)))"
  using fold_consider_best [of h "{}" "(None, False)" "route_candidates src due"] by (simp add: best_of_def)

end

section \<open>Rows\<close>

lemma with_reservation_keeps [simp]:
  "br_net_exact (with_reservation D e n q row) = br_net_exact row"
  "br_net_native (with_reservation D e n q row) = br_net_native row"
  "br_selected_route (with_reservation D e n q row) = br_selected_route row"
  "br_horizon_on (with_reservation D e n q row) = br_horizon_on row"
  by (simp_all add: with_reservation_def Let_def split: prod.splits)

lemma with_base_keeps [simp]:
  "br_net_exact (with_base D f e cur row) = br_net_exact row"
  "br_net_native (with_base D f e cur row) = br_net_native row"
  "br_selected_route (with_base D f e cur row) = br_selected_route row"
  "br_horizon_on (with_base D f e cur row) = br_horizon_on row"
  "br_applied_reserve_native (with_base D f e cur row) = br_applied_reserve_native row"
  "br_unreserved_native (with_base D f e cur row) = br_unreserved_native row"
  "br_reserve_shortfall_native (with_base D f e cur row) = br_reserve_shortfall_native row"
  by (auto simp: with_base_def split: option.splits sum.splits bool.splits)

lemma selected_row_fields [simp]:
  "br_net_exact (selected_row D h s n u q f) = Some (routeNativeExact D s)"
  "br_net_native (selected_row D h s n u q f) = Some n"
  "br_selected_route (selected_row D h s n u q f) = Some s"
  "br_horizon_on (selected_row D h s n u q f) = h"
  by (simp_all add: selected_row_def Let_def new_row_def)

lemma new_row_fields [simp]:
  "br_net_exact (new_row h st rs) = None" "br_net_native (new_row h st rs) = None"
  "br_selected_route (new_row h st rs) = None" "br_horizon_on (new_row h st rs) = h"
  by (simp_all add: new_row_def)

lemma selectRouteForHorizon_horizon [simp]: "br_horizon_on (selectRouteForHorizon D h src due q f) = h"
  by (auto simp: selectRouteForHorizon_def split: prod.splits option.splits)

context decimal_lib
begin

lemma select_cases:
  fixes h src due q f
  defines "row \<equiv> selectRouteForHorizon D h src due q f" and "cs \<equiv> set (route_candidates src due)"
  obtains (none) "br_selected_route row = None" "br_net_native row = None" "\<forall>c \<in> cs. \<not> arrived h c"
  | (some) s net where "br_selected_route row = Some s" "lr_net_native s = Some net" "br_net_native row = Some net"
      "d_val D (bucketNativeExact D row) = route_value D s" "s \<in> cs" "arrived h s"
      "\<forall>c \<in> cs. arrived h c \<longrightarrow> route_value D c \<le> route_value D s"
proof -
  let ?p = "fold (consider_route D h) (route_candidates src due) (None, False)"
  have b: "best_of D h cs (fst ?p)" unfolding cs_def by (rule selected_best)
  show thesis
  proof (cases "fst ?p")
    case None
    then obtain u where "?p = (None, u)" by (cases ?p) auto
    with b show thesis by (intro none) (auto simp: row_def selectRouteForHorizon_def best_of_def)
  next
    case (Some s)
    then obtain u where p: "?p = (Some s, u)" by (cases ?p) auto
    obtain net where n: "lr_net_native s = Some net" using b by (auto simp: p best_of_def arrived_def)
    with p have r: "row = selected_row D h s net u q f" by (simp add: row_def selectRouteForHorizon_def)
    show thesis
      using b p n by (intro some [of s net]) (auto simp: r best_of_def bucketNativeExact_def route_value_def)
  qed
qed

lemma select_monotone:
  assumes "h \<le> h'" and "br_net_native (selectRouteForHorizon D h src due q f) \<noteq> None"
  shows "br_net_native (selectRouteForHorizon D h' src due q' f') \<noteq> None"
    and "d_val D (bucketNativeExact D (selectRouteForHorizon D h src due q f))
      \<le> d_val D (bucketNativeExact D (selectRouteForHorizon D h' src due q' f'))"
proof -
  note later = select_cases [where h = h' and src = src and due = due and q = q' and f = f']
  have "br_net_native (selectRouteForHorizon D h' src due q' f') \<noteq> None
    \<and> d_val D (bucketNativeExact D (selectRouteForHorizon D h src due q f))
      \<le> d_val D (bucketNativeExact D (selectRouteForHorizon D h' src due q' f'))"
  proof (rule select_cases [where h = h and src = src and due = due and q = q and f = f], goal_cases)
    case 1
    with assms(2) show ?case by simp
  next
    case (2 s net)
    have a: "arrived h' s" using 2(6) assms(1) by (rule arrived_later)
    show ?case
    proof (rule later, goal_cases)
      case 1
      with a 2(5) show ?case by blast
    next
      case (2 s' net')
      with a \<open>s \<in> set (route_candidates src due)\<close> show ?case
        using \<open>d_val D (bucketNativeExact D (selectRouteForHorizon D h src due q f)) = route_value D s\<close> by simp
    qed
  qed
  then show "br_net_native (selectRouteForHorizon D h' src due q' f') \<noteq> None"
    "d_val D (bucketNativeExact D (selectRouteForHorizon D h src due q f))
      \<le> d_val D (bucketNativeExact D (selectRouteForHorizon D h' src due q' f'))"
    by simp_all
qed

end

section \<open>Reservations\<close>

context decimal_lib
begin

lemma or_zero_exact:
  assumes "0 \<le> d_val D v" and "d_val D v \<le> max_money" and "valid_currency c"
  shows "d_val D (m_amount (or_zero D (NewMoney D v c))) = half_even 4 (d_val D v)" and "m_currency (or_zero D (NewMoney D v c)) = c"
proof -
  obtain m where m: "NewMoney D v c = Inr m" using NewMoney_ok [OF assms(1,2) ParseCurrency_valid [OF assms(3)]] by blast
  from NewMoney_Inr [OF m] ParseCurrency_valid [OF assms(3)] m
  show "d_val D (m_amount (or_zero D (NewMoney D v c))) = half_even 4 (d_val D v)" "m_currency (or_zero D (NewMoney D v c)) = c"
    by (simp_all add: or_zero_def)
qed

lemma reservation_split:
  assumes "0 \<le> d_val D net" and "d_val D net \<le> max_money" and "valid_currency c" and "valid_money D requested"
    and "applyLiquidityReservation D net c requested = (applied, unreserved, shortfall, exactApplied)"
  shows "d_val D exactApplied = min (d_val D net) (d_val D (m_amount requested))"
    and "d_val D (m_amount applied) = half_even 4 (min (d_val D net) (d_val D (m_amount requested)))"
    and "d_val D (m_amount unreserved) = half_even 4 (d_val D net) - d_val D (m_amount applied)"
    and "0 \<le> d_val D (m_amount unreserved)"
    and "d_val D (m_amount shortfall) = half_even 4 (max (d_val D (m_amount requested) - d_val D net) 0)"
    and "m_currency applied = c" "m_currency unreserved = c" "m_currency shortfall = c"
proof -
  let ?n = "d_val D net" and ?r = "d_val D (m_amount requested)"
  let ?shown = "or_zero D (NewMoney D net c)"
  have r: "0 \<le> ?r" "?r \<le> max_money" using assms(4) by (simp_all add: valid_money_def)
  have e: "exactApplied = d_min D net (m_amount requested)" "applied = or_zero D (NewMoney D exactApplied c)"
    "unreserved = or_zero D (NewMoney D (d_sub D (m_amount ?shown) (m_amount applied)) c)"
    "shortfall = or_zero D (NewMoney D (d_max D (d_sub D (m_amount requested) net) (d_zero D)) c)"
    using assms(5) by (auto simp: applyLiquidityReservation_def Let_def)
  show x: "d_val D exactApplied = min ?n ?r" by (simp add: e(1) min_eq)
  have xb: "0 \<le> d_val D exactApplied" "d_val D exactApplied \<le> max_money" using x r assms(1,2) by auto
  from or_zero_exact [OF xb assms(3)] x e(2)
  show a: "d_val D (m_amount applied) = half_even 4 (min ?n ?r)" and "m_currency applied = c" by simp_all
  have shown: "d_val D (m_amount ?shown) = half_even 4 ?n" using or_zero_exact [OF assms(1-3)] by simp
  let ?u = "d_sub D (m_amount ?shown) (m_amount applied)"
  have u: "d_val D ?u = half_even 4 ?n - half_even 4 (min ?n ?r)" by (simp add: exact shown a)
  have "half_even 4 (min ?n ?r) \<le> half_even 4 ?n" by (rule half_even_mono) simp
  moreover have "half_even 4 ?n \<le> max_money" by (rule half_even_le [OF max_money_bounds(3) assms(2)])
  moreover have "0 \<le> half_even 4 (min ?n ?r)" using r assms(1) by (intro half_even_nonneg) simp
  ultimately have ub: "0 \<le> d_val D ?u" "d_val D ?u \<le> max_money" unfolding u by linarith+
  have "on_grid 4 (d_val D ?u)" unfolding u by (intro on_grid_diff) simp_all
  with or_zero_exact [OF ub assms(3)] u e(3) a
  show v: "d_val D (m_amount unreserved) = half_even 4 ?n - d_val D (m_amount applied)" and "m_currency unreserved = c"
    by (simp_all add: half_even_on_grid)
  show "0 \<le> d_val D (m_amount unreserved)" using ub(1) u v a by simp
  have s: "d_val D (d_max D (d_sub D (m_amount requested) net) (d_zero D)) = max (?r - ?n) 0" by (simp add: max_eq exact max_def)
  have "0 \<le> max (?r - ?n) 0" "max (?r - ?n) 0 \<le> max_money" using r assms(1) max_money_bounds(1) by auto
  with or_zero_exact [of "d_max D (d_sub D (m_amount requested) net) (d_zero D)" c] assms(3) s e(4)
  show "d_val D (m_amount shortfall) = half_even 4 (max (?r - ?n) 0)" "m_currency shortfall = c" by simp_all
qed

end

section \<open>Cumulative totals\<close>

text \<open>
  A conversion of one snapshot: where an amount converts, a larger amount of the same currency
  converts to no less or is refused with an error, and nothing converts below zero.
\<close>

definition fx_snapshot :: "'d decimal_ops \<Rightarrow> 'd ConvertToBase \<Rightarrow> bool" where
  "fx_snapshot D f \<longleftrightarrow>
     (\<forall>a b currency x. f a currency = Inr (Some x, True) \<longrightarrow> 0 \<le> d_val D a \<longrightarrow> d_val D a \<le> d_val D b \<longrightarrow>
        0 \<le> d_val D x
        \<and> (\<forall>result. f b currency = Inr result \<longrightarrow> (\<exists>y. result = (Some y, True) \<and> d_val D x \<le> d_val D y)))"

text \<open>What a source adds to the total of a horizon.\<close>

definition row_contribution :: "'d decimal_ops \<Rightarrow> 'd ConvertToBase \<Rightarrow> 'd LiquidityBucketResult \<Rightarrow> rat" where
  "row_contribution D f row =
     (case br_net_native row of
        None \<Rightarrow> 0
      | Some net \<Rightarrow>
          (case convertLiquidityExact D f (bucketNativeExact D row) (m_currency net) of
             Inr (Some v, True) \<Rightarrow> d_val D v
           | _ \<Rightarrow> 0))"

definition contribution :: "'d decimal_ops \<Rightarrow> 'd ConvertToBase \<Rightarrow> string \<Rightarrow> 'd LiquiditySourceResult \<Rightarrow> rat" where
  "contribution D f h r =
     (if lo_excluded r then 0 else case bucket_row h r of None \<Rightarrow> 0 | Some row \<Rightarrow> row_contribution D f row)"

text \<open>No row of the source fails to convert at a horizon.\<close>

definition convertible :: "'d decimal_ops \<Rightarrow> 'd ConvertToBase \<Rightarrow> string \<Rightarrow> 'd LiquiditySourceResult \<Rightarrow> bool" where
  "convertible D f h r \<longleftrightarrow>
     lo_excluded r \<or> (\<forall>row \<in> set_option (bucket_row h r). \<forall>net \<in> set_option (br_net_native row).
       is_ok (convertLiquidityExact D f (bucketNativeExact D row) (m_currency net)))"

lemma res_foldE:
  assumes "res_fold f (x # xs) s = Inr t"
  obtains s' where "f x s = Inr s'" and "res_fold f xs s' = Inr t"
  using assms by (auto elim: res_bindE)

lemma res_map_Inr: "res_map f xs = Inr ys \<Longrightarrow> list_all2 (\<lambda>x y. f x = Inr y) xs ys"
  by (induction xs arbitrary: ys) auto

context decimal_lib
begin

lemma sum_base_step:
  assumes "sum_base D h f r t = Inr t'"
  shows "d_val D (bt_available t') = d_val D (bt_available t) + contribution D f h r \<and> convertible D f h r"
proof (cases "lo_excluded r \<or> bucket_row h r = None \<or> br_net_native (the (bucket_row h r)) = None")
  case True
  with assms show ?thesis
    by (auto simp: sum_base_def contribution_def row_contribution_def convertible_def split: option.splits)
next
  case False
  then obtain row net where n: "\<not> lo_excluded r" "bucket_row h r = Some row" "br_net_native row = Some net" by auto
  let ?x = "convertLiquidityExact D f (bucketNativeExact D row) (m_currency net)"
  from assms n obtain v ok where x: "?x = Inr (v, ok)" by (auto simp: sum_base_def elim!: res_bindE)
  have c: "convertible D f h r" using n x by (simp add: convertible_def is_ok_iff)
  show ?thesis
  proof (cases "ok \<and> v \<noteq> None")
    case True
    then obtain w where w: "v = Some w" "ok" by auto
    let ?t = "t \<lparr> bt_has_converted := True, bt_available := d_add D (bt_available t) w \<rparr>"
    have "bt_available t' = bt_available ?t"
    proof (cases "br_applied_reserve_native row")
      case None
      with assms n x w show ?thesis by (auto simp: sum_base_def Let_def)
    next
      case (Some applied)
      let ?y = "convertLiquidityExact D f (bucketReserveExact D row) (m_currency applied)"
      from assms n x w Some obtain rv rok where "?y = Inr (rv, rok)" by (auto simp: sum_base_def Let_def elim!: res_bindE)
      with assms n x w Some show ?thesis by (cases rv; cases rok) (auto simp: sum_base_def Let_def)
    qed
    with n x w c show ?thesis by (simp add: contribution_def row_contribution_def exact)
  next
    case False
    with assms n x c show ?thesis
      by (cases v; cases ok) (auto simp: sum_base_def contribution_def row_contribution_def)
  qed
qed

lemma sum_base_fold:
  "res_fold (sum_base D h f) rs t = Inr t' \<Longrightarrow>
    d_val D (bt_available t') = d_val D (bt_available t) + (\<Sum>r\<leftarrow>rs. contribution D f h r) \<and> (\<forall>r \<in> set rs. convertible D f h r)"
proof (induction rs arbitrary: t)
  case (Cons r rs)
  from Cons.prems obtain s where s: "sum_base D h f r t = Inr s" "res_fold (sum_base D h f) rs s = Inr t'" by (rule res_foldE)
  with Cons.IH [OF s(2)] sum_base_step [OF s(1)] show ?case by simp
qed simp

lemma display_totals_available:
  "display_totals D a b c = Inr (available, reserve, unreserved) \<Longrightarrow> d_val D (m_amount available) = half_even 4 (d_val D a)"
  by (auto simp: display_totals_def displayMoney_def Let_def dest: NewMoney_Inr(2) elim!: res_bindE)

lemma converted_bucket_known:
  assumes "converted_bucket D h base rs f s bucket = Inr b"
    and "res_fold (sum_base D h f) rs
      \<lparr> bt_available = d_zero D, bt_reserve = d_zero D, bt_converted_ok = True, bt_has_converted = False \<rparr> = Inr t"
    and "lb_known_available_subtotal bucket = None"
  shows "lb_known_available_subtotal b = None
    \<or> (\<exists>a r u. display_totals D (bt_available t) (bt_reserve t) base = Inr (a, r, u) \<and> lb_known_available_subtotal b = Some a)"
proof (cases "bt_has_converted t \<or> \<not> bs_has_known s \<and> \<not> bs_unknown s")
  case True
  show ?thesis
  proof (cases "display_totals D (bt_available t) (bt_reserve t) base")
    case (Inl e)
    with True assms(1,2) show ?thesis by (simp add: converted_bucket_def)
  next
    case (Inr p)
    obtain a r u where "p = (a, r, u)" by (cases p)
    with True assms(1,2) Inr show ?thesis by (auto simp: converted_bucket_def Let_def split: if_splits)
  qed
next
  case False
  with assms show ?thesis by (auto simp: converted_bucket_def split: if_splits)
qed

lemma aggregateBucket_available:
  assumes "aggregateBucket D ro h base rs (Some f) = Inr b"
  shows "\<forall>m \<in> set_option (lb_known_available_subtotal b). d_val D (m_amount m) = half_even 4 (\<Sum>r\<leftarrow>rs. contribution D f h r)"
    and "\<forall>r \<in> set rs. convertible D f h r"
proof -
  obtain s bucket where c: "converted_bucket D h base rs f s bucket = Inr b" and n: "lb_known_available_subtotal bucket = None"
    using assms unfolding aggregateBucket_def Let_def option.case by (elim res_bindE) (erule that, simp)
  obtain t where t: "res_fold (sum_base D h f) rs
      \<lparr> bt_available = d_zero D, bt_reserve = d_zero D, bt_converted_ok = True, bt_has_converted = False \<rparr> = Inr t"
    using c unfolding converted_bucket_def by (elim res_bindE) (rule that)
  note sums = sum_base_fold [OF t]
  show "\<forall>r \<in> set rs. convertible D f h r" using sums by simp
  have "d_val D (bt_available t) = (\<Sum>r\<leftarrow>rs. contribution D f h r)" using sums by (simp add: exact)
  with converted_bucket_known [OF c t n]
  show "\<forall>m \<in> set_option (lb_known_available_subtotal b). d_val D (m_amount m) = half_even 4 (\<Sum>r\<leftarrow>rs. contribution D f h r)"
    by (auto dest: display_totals_available)
qed

end

section \<open>Evaluated sources\<close>

definition sound_route :: "'d decimal_ops \<Rightarrow> 'd LiquidityRoute \<Rightarrow> bool" where
  "sound_route D r \<longleftrightarrow> (lr_net_native r \<noteq> None \<longrightarrow> 0 \<le> route_value D r)"

lemma sound_routeI: "lr_net_native r = None \<Longrightarrow> sound_route D r"
  by (simp add: sound_route_def)

lemma new_route_net [simp]: "lr_net_native (new_route k a) = None"
  by (simp add: new_route_def)

lemma find_row:
  assumes "\<And>h. br_horizon_on (g h) = h" and "h \<in> set hs"
  shows "find (\<lambda>row. br_horizon_on row = h) (map g hs) = Some (g h)"
  using assms(2) by (induction hs) (auto simp: assms(1))

context decimal_lib
begin

lemma charge_fee_sound:
  assumes "charge_fee D source policy fee unknown action route gross = Inr r" and "lr_net_native route = None"
  shows "sound_route D r"
proof -
  obtain net ex unk exc where f: "applyLiquidityFee D source policy (lr_amount_basis route) gross fee = Inr (net, ex, unk, exc)"
    using assms(1) by (auto simp: charge_fee_def elim!: res_bindE)
  have "ex \<noteq> None \<and> 0 \<le> d_val D (the ex)" if "\<not> unk"
    using f that by (cases fee) (auto simp: applyLiquidityFee_def exact Let_def split: if_splits)
  with assms f show ?thesis
    by (auto simp: charge_fee_def sound_route_def route_value_def routeNativeExact_def split: if_splits)
qed

lemma buildNormalRoute_sound: "buildNormalRoute D today source policy = Inr r \<Longrightarrow> sound_route D r"
  by (auto simp: buildNormalRoute_def Let_def split: if_splits prod.splits sum.splits option.splits
      intro: sound_routeI charge_fee_sound)

lemma buildEarlyRoute_sound: "buildEarlyRoute D today source policy = Inr (Some r) \<Longrightarrow> sound_route D r"
  by (auto simp: buildEarlyRoute_def Let_def split: if_splits prod.splits sum.splits option.splits
      intro: sound_routeI charge_fee_sound)

lemma evaluate_routes_rows:
  assumes "evaluate_routes D query today horizons source q convert policy result = Inr r"
  obtains src due where "lo_bucket_results r = map (\<lambda>h. selectRouteForHorizon D h src due q convert) horizons"
    and "\<forall>c \<in> set (route_candidates src due). sound_route D c"
    and "lo_native_currency r = lo_native_currency result" and "lo_excluded r = lo_excluded result"
proof -
  from assms obtain normal early where n: "buildNormalRoute D today source policy = Inr normal"
      and e: "(if lq_include_early_withdrawal query then buildEarlyRoute D today source policy else Inr None) = Inr early"
    unfolding evaluate_routes_def by (elim res_bindE) (rule that)
  define due where "due = productReceiptUnconfirmed (ls_contract source) policy today (Some normal)"
  define base where "base = result \<lparr> lo_normal_route := Some normal, lo_early_route := early, lo_due_unconfirmed := due,
    lo_display_state := deriveDisplayState source policy today due (Some normal) \<rparr>"
  define src where "src = (if due
    then base \<lparr> lo_assumptions := appendUniqueAssumption (lo_assumptions base) AssumptionDueUnconfirmed,
      lo_reasons := lo_reasons base @ [''due '' @ bytes [226, 128, 148] @ '' receipt unconfirmed''] \<rparr>
    else base)"
  have r: "r = src \<lparr> lo_bucket_results := map (\<lambda>h. selectRouteForHorizon D h src due q convert) horizons \<rparr>"
    using assms unfolding evaluate_routes_def n e res_bind_Inr Let_def due_def [symmetric] base_def [symmetric] src_def [symmetric]
    by simp
  have s: "lo_normal_route src = Some normal" "lo_early_route src = early" by (simp_all add: src_def base_def)
  have "sound_route D c" if "early = Some c" for c
    using e that buildEarlyRoute_sound [of today source policy c] by (simp split: if_splits)
  then have "\<forall>c \<in> set (route_candidates src due). sound_route D c"
    using buildNormalRoute_sound [OF n] by (auto simp: route_candidates_def s split: option.splits)
  with r show thesis by (intro that [of src due]) (simp_all add: src_def base_def)
qed

lemma evaluate_policy_cases:
  assumes "evaluate_policy D query today horizons source q convert result = Inr r"
  shows "lo_excluded r \<or> lo_bucket_results r = unknownBucketResults horizons
    \<or> (\<exists>policy result'. evaluate_routes D query today horizons source q convert policy result' = Inr r)"
proof -
  obtain origin assumptions p where res: "ResolveLiquidityPolicy D source = (origin, assumptions, p)" by (metis surj_pair)
  show ?thesis
  proof (cases p)
    case (Inl e)
    with assms res show ?thesis by (cases "origin = PolicyOriginContract \<and> ls_managed source") (auto simp: evaluate_policy_def)
  next
    case (Inr policy)
    show ?thesis
    proof (cases "lp_access_kind policy = AccessExcluded")
      case True
      with assms res Inr show ?thesis by (auto simp: evaluate_policy_def Let_def)
    next
      case False
      with assms res Inr have "\<exists>result'. evaluate_routes D query today horizons source q convert policy result' = Inr r"
        unfolding evaluate_policy_def Let_def by (intro exI) simp
      then show ?thesis by blast
    qed
  qed
qed

lemma evaluateSource_rows:
  assumes "evaluateSource D query today horizons source q convert = Inr r"
  obtains (excluded) "lo_excluded r"
  | (unknown) "\<forall>row \<in> set (lo_bucket_results r). br_net_native row = None"
  | (routed) src due where "lo_bucket_results r = map (\<lambda>h. selectRouteForHorizon D h src due q convert) horizons"
      "\<forall>c \<in> set (route_candidates src due). sound_route D c"
proof (cases "ls_archived source \<or> ls_liability source \<or> ls_quantity_zero source")
  case True
  with assms have "lo_excluded r" by (auto simp: evaluateSource_def Let_def)
  then show thesis by (rule excluded)
next
  case False
  with assms obtain result where "evaluate_policy D query today horizons source q convert result = Inr r"
    by (auto simp: evaluateSource_def Let_def elim!: res_bindE)
  then consider "lo_excluded r" | "lo_bucket_results r = unknownBucketResults horizons"
    | policy result' where "evaluate_routes D query today horizons source q convert policy result' = Inr r"
    using evaluate_policy_cases by blast
  then show thesis
  proof cases
    case 1
    then show ?thesis by (rule excluded)
  next
    case 2
    then show ?thesis by (intro unknown) (simp add: unknownBucketResults_def)
  next
    case 3
    then show ?thesis by (rule evaluate_routes_rows) (rule routed)
  qed
qed

lemma convert_nonneg:
  assumes "fx_snapshot D f" and "0 \<le> d_val D a" and "convertLiquidityExact D f a c = Inr (Some v, True)"
  shows "0 \<le> d_val D v"
  using assms unfolding fx_snapshot_def convertLiquidityExact_def by (auto simp: exact split: if_splits)

lemma convert_mono:
  assumes "fx_snapshot D f" and "0 \<le> d_val D a" and "d_val D a \<le> d_val D b"
    and "convertLiquidityExact D f a c = Inr (Some v, True)" and "convertLiquidityExact D f b c = Inr r"
    and "d_val D v \<noteq> 0"
  shows "\<exists>w. r = (Some w, True) \<and> d_val D v \<le> d_val D w"
proof -
  have "d_val D a \<noteq> 0" using assms(4,6) by (auto simp: convertLiquidityExact_def exact)
  with assms have "f a c = Inr (Some v, True)" "f b c = Inr r" by (auto simp: convertLiquidityExact_def exact split: if_splits)
  with assms(1-3) show ?thesis unfolding fx_snapshot_def by blast
qed

lemma contribution_mono:
  assumes "evaluateSource D query today horizons source q (Some f) = Inr r" and "h \<in> set horizons" and "h' \<in> set horizons" and "h \<le> h'"
    and "fx_snapshot D f" and "convertible D f h' r"
    and "\<forall>row \<in> set (lo_bucket_results r). \<forall>n \<in> set_option (br_net_native row). m_currency n = lo_native_currency r"
  shows "contribution D f h r \<le> contribution D f h' r"
proof (cases rule: evaluateSource_rows [OF assms(1)])
  case 1
  then show ?thesis by (simp add: contribution_def)
next
  case 2
  have "br_net_native row = None" if "bucket_row k r = Some row" for k row
    using 2 that by (auto simp: bucket_row_def find_Some_iff)
  then show ?thesis by (auto simp: contribution_def row_contribution_def split: option.splits)
next
  case (3 src due)
  let ?row = "\<lambda>h. selectRouteForHorizon D h src due q (Some f)"
  have row: "bucket_row k r = Some (?row k)" if "k \<in> set horizons" for k
    unfolding bucket_row_def 3(1) by (rule find_row) (simp_all add: that)
  have nonneg: "0 \<le> d_val D (bucketNativeExact D (?row k))" if "br_net_native (?row k) \<noteq> None" for k
    using that 3(2) by (cases rule: select_cases [where h = k and src = src and due = due and q = q and f = "Some f"])
      (auto simp: sound_route_def)
  show ?thesis
  proof (cases "lo_excluded r")
    case False
    have c: "contribution D f h r = row_contribution D f (?row h)" "contribution D f h' r = row_contribution D f (?row h')"
      using False row assms(2,3) by (simp_all add: contribution_def)
    have pos: "0 \<le> row_contribution D f (?row k)" for k
      using convert_nonneg [OF assms(5) nonneg] by (auto simp: row_contribution_def split: option.splits sum.splits prod.splits bool.splits)
    show ?thesis
    proof (cases "row_contribution D f (?row h) = 0")
      case True
      with pos c show ?thesis by simp
    next
      case nonzero: False
      then obtain n v where n: "br_net_native (?row h) = Some n"
          and v: "convertLiquidityExact D f (bucketNativeExact D (?row h)) (m_currency n) = Inr (Some v, True)" "d_val D v \<noteq> 0"
        by (auto simp: row_contribution_def split: option.splits sum.splits prod.splits bool.splits)
      note later = select_monotone [OF assms(4), of src due q "Some f" q "Some f"]
      obtain n' where n': "br_net_native (?row h') = Some n'" using later(1) n by auto
      have cur: "m_currency n = lo_native_currency r" "m_currency n' = lo_native_currency r"
        using assms(2,3,7) n n' unfolding 3(1) by auto
      obtain w where w: "convertLiquidityExact D f (bucketNativeExact D (?row h')) (m_currency n') = Inr w"
        using assms(6) False row [OF assms(3)] n' by (auto simp: convertible_def is_ok_iff)
      obtain y where "w = (Some y, True)" "d_val D v \<le> d_val D y"
        using convert_mono [OF assms(5) nonneg later(2) v(1), of w] n w v(2) cur by auto
      with n n' v w show ?thesis by (simp add: c row_contribution_def)
    qed
  qed (simp add: contribution_def)
qed

text \<open>Buckets whose known amounts do not decrease along a list pass the check on them.\<close>

lemma not_below_ok:
  assumes "\<forall>x \<in> set_option prev. \<forall>m \<in> set_option subtotal. d_val D x \<le> d_val D (m_amount m)"
  shows "\<exists>a. not_below D message subtotal prev = Inr a \<and> set_option a \<subseteq> set_option prev \<union> m_amount ` set_option subtotal"
  using assms by (cases subtotal) (auto simp: not_below_def exact not_less)

lemma assert_available:
  assumes "sorted_wrt (\<lambda>b b'. \<forall>m \<in> set_option (lb_known_available_subtotal b). \<forall>m' \<in> set_option (lb_known_available_subtotal b').
      d_val D (m_amount m) \<le> d_val D (m_amount m')) bs"
  shows "assertCumulativeMonotonic D bs \<noteq> Inl (validation ''availability'' ''cumulative known available amounts cannot decrease'')"
proof -
  let ?step = "\<lambda>bucket (prevAvailable, prevUnreserved).
    res_bind (not_below D ''cumulative known available amounts cannot decrease'' (lb_known_available_subtotal bucket) prevAvailable) (\<lambda>a.
    res_bind (not_below D ''cumulative known unreserved amounts cannot decrease'' (lb_known_unreserved_subtotal bucket) prevUnreserved) (\<lambda>u.
    Inr (a, u)))"
  let ?bad = "validation ''availability'' ''cumulative known available amounts cannot decrease''"
  have "res_fold ?step bs (p, u) \<noteq> Inl ?bad"
    if "\<forall>x \<in> set_option p. \<forall>b \<in> set bs. \<forall>m \<in> set_option (lb_known_available_subtotal b). d_val D x \<le> d_val D (m_amount m)" for p u
    using assms that
  proof (induction bs arbitrary: p u)
    case (Cons b bs)
    obtain a where a: "not_below D ''cumulative known available amounts cannot decrease'' (lb_known_available_subtotal b) p = Inr a"
        "set_option a \<subseteq> set_option p \<union> m_amount ` set_option (lb_known_available_subtotal b)"
      using not_below_ok [of p "lb_known_available_subtotal b"] Cons.prems(2) by fastforce
    have "\<forall>x \<in> set_option a. \<forall>b \<in> set bs. \<forall>m \<in> set_option (lb_known_available_subtotal b). d_val D x \<le> d_val D (m_amount m)"
      using a(2) Cons.prems by fastforce
    from Cons.IH [OF _ this] Cons.prems(1) have ih: "res_fold ?step bs (a, v) \<noteq> Inl ?bad" for v by simp
    show ?case
    proof (cases "not_below D ''cumulative known unreserved amounts cannot decrease'' (lb_known_unreserved_subtotal b) u")
      case (Inl e)
      then have "e = validation ''availability'' ''cumulative known unreserved amounts cannot decrease''"
        by (auto simp: not_below_def split: option.splits if_splits)
      with Inl a(1) show ?thesis by (simp add: validation_def)
    next
      case (Inr v)
      with a(1) ih [of v] show ?thesis by simp
    qed
  qed simp
  from this [of None None] show ?thesis by (auto simp: assertCumulativeMonotonic_def)
qed

lemma buckets_cumulative:
  assumes "fx_snapshot D f" and "sorted horizons"
    and "\<forall>r \<in> set results. \<exists>source q. evaluateSource D query today horizons source q (Some f) = Inr r"
    and "\<forall>r \<in> set results. \<forall>row \<in> set (lo_bucket_results r). \<forall>n \<in> set_option (br_net_native row). m_currency n = lo_native_currency r"
    and "res_map (\<lambda>h. aggregateBucket D ro h base results (Some f)) horizons = Inr buckets"
  shows "sorted_wrt (\<lambda>b b'. \<forall>m \<in> set_option (lb_known_available_subtotal b). \<forall>m' \<in> set_option (lb_known_available_subtotal b').
      d_val D (m_amount m) \<le> d_val D (m_amount m')) buckets"
proof (unfold sorted_wrt_iff_nth_less, intro allI impI ballI, goal_cases)
  case (1 i j m m')
  note agg = res_map_Inr [OF assms(5)]
  then have len: "length buckets = length horizons" by (simp add: list_all2_lengthD)
  let ?h = "horizons ! i" and ?h' = "horizons ! j"
  have "aggregateBucket D ro ?h base results (Some f) = Inr (buckets ! i)"
    and j: "aggregateBucket D ro ?h' base results (Some f) = Inr (buckets ! j)"
    using list_all2_nthD2 [OF agg] 1(1,2) by simp_all
  note ai = aggregateBucket_available [OF this(1)] and aj = aggregateBucket_available [OF j]
  have h: "?h \<in> set horizons" "?h' \<in> set horizons" "?h \<le> ?h'"
    using 1(1,2) len assms(2) by (auto simp: sorted_iff_nth_mono_less)
  have "(\<Sum>r\<leftarrow>results. contribution D f ?h r) \<le> (\<Sum>r\<leftarrow>results. contribution D f ?h' r)"
  proof (rule sum_list_mono)
    fix r assume r: "r \<in> set results"
    with assms(3) obtain source q where "evaluateSource D query today horizons source q (Some f) = Inr r" by blast
    then show "contribution D f ?h r \<le> contribution D f ?h' r"
      using h assms(1,4) aj(2) r by (intro contribution_mono) auto
  qed
  then show ?case using half_even_mono ai(1) aj(1) 1(3,4) by fastforce
qed

end

section \<open>Standard horizons\<close>

text \<open>The horizons are in order exactly when a custom date is one of the standard ones or is not
  before the last of them: today, a week and thirty days ahead come first, the custom date last.\<close>

theorem LiquidityHorizons_sorted:
  assumes "parseCivilTime ''today'' today = Inr n" and "plain_day (n + 30)"
    and "LiquidityHorizons today custom = Inr horizons"
  shows "sorted horizons \<longleftrightarrow>
    (\<forall>c \<in> set_option custom. trim_space c \<in> {day_text n, day_text (n + 7)} \<or> day_text (n + 30) \<le> trim_space c)"
proof -
  have p: "plain_day n" "plain_day (n + 7)" using parseCivilTime_Inr(1) [OF assms(1)] assms(2) by (auto simp: plain_day_def)
  have o: "day_text n \<le> day_text (n + 7)" "day_text (n + 7) \<le> day_text (n + 30)" "day_text n \<le> day_text (n + 30)"
    using day_text_less [OF p] day_text_less [OF p(2) assms(2)] day_text_less [OF p(1) assms(2)] by simp_all
  have t: "ParseCivilDate ''today'' today = Inr (day_text n)"
  proof -
    obtain c where c: "ParseCivilDate ''today'' today = Inr c" using assms(1) by (auto simp: parseCivilTime_def)
    then have "c = trim_space today" by (rule ParseCivilDate_Inr)
    with c parseCivilTime_Inr(2) [OF assms(1)] show ?thesis by simp
  qed
  have a: "AddCalendarDays (day_text n) k = Inr (day_text (n + k))" for k
    by (simp add: AddCalendarDays_def parseCivilTime_day_text [OF p(1)])
  show ?thesis
  proof (cases custom)
    case None
    with assms(3) t a o show ?thesis by (auto simp: LiquidityHorizons_def Let_def)
  next
    case (Some c)
    then obtain d where d: "ParseCivilDate ''customHorizonOn'' c = Inr d" "\<not> compareCivilDates d (day_text n) < 0"
        "horizons = (if d \<in> {day_text n, day_text (n + 7), day_text (n + 30)} then [day_text n, day_text (n + 7), day_text (n + 30)]
          else [day_text n, day_text (n + 7), day_text (n + 30), d])"
      using assms(3) t a by (auto simp: LiquidityHorizons_def Let_def split: if_splits elim!: res_bindE)
    have "d = trim_space c" using d(1) by (rule ParseCivilDate_Inr)
    with d(2,3) o Some show ?thesis by (auto simp: compareCivilDates_def split: if_splits)
  qed
qed

theorem LiquidityHorizons_sorted_witness:
  "LiquidityHorizons ''2026-08-03'' (Some ''2026-08-15'') = Inr [''2026-08-03'', ''2026-08-10'', ''2026-09-02'', ''2026-08-15'']
   \<and> \<not> sorted [''2026-08-03'', ''2026-08-10'', ''2026-09-02'', ''2026-08-15'']"
proof -
  have h: "LiquidityHorizons ''2026-08-03'' (Some ''2026-08-15'') = Inr [''2026-08-03'', ''2026-08-10'', ''2026-09-02'', ''2026-08-15'']"
    and n: "parseCivilTime ''today'' ''2026-08-03'' = Inr 739830"
    and t: "day_text 739830 = ''2026-08-03''" "day_text 739837 = ''2026-08-10''" "day_text 739860 = ''2026-09-02''"
      "trim_space ''2026-08-15'' = ''2026-08-15''"
    by code_simp+
  from LiquidityHorizons_sorted [OF n _ h] h t show ?thesis by (auto simp: plain_day_def)
qed

section \<open>Properties\<close>

definition sample_usd :: "int \<Rightarrow> dec money" where
  "sample_usd n = \<lparr> m_amount = Dec n 0, m_currency = ''USD'' \<rparr>"

text \<open>A hundred dollars in an account that opens on 20 August 2026.\<close>

definition sample_access :: "dec LiquidityPolicy" where
  "sample_access = initial_policy
     \<lparr> lp_household_id := ''00000000-0000-4000-8000-000000000002'',
       lp_source := AccountValueSourceRef ''00000000-0000-4000-8000-000000000003'', lp_access_kind := AccessOnDate,
       lp_unlock_on := Some ''2026-08-20'', lp_settlement_days := Some 0, lp_day_basis := Some DayBasisCalendar,
       lp_normal_exit_fee := Some (sample_usd 0) \<rparr>"

definition sample_source :: "dec LiquiditySource" where
  "sample_source = (product_source sample_contract)
     \<lparr> ls_ref := AccountValueSourceRef ''00000000-0000-4000-8000-000000000003'', ls_managed := False, ls_contract := None,
       ls_native_currency := ''USD'', ls_current_native_value := Some (sample_usd 100), ls_explicit_policy := Some sample_access \<rparr>"

definition sample_query :: "string option \<Rightarrow> LiquidityQuery" where
  "sample_query custom =
     \<lparr> lq_as_of = 739830 * day_ns, lq_timezone = [], lq_base_currency = ''USD'', lq_custom_horizon_on = custom,
       lq_include_early_withdrawal = False \<rparr>"

definition same_currency :: "dec ConvertToBase" where
  "same_currency = (\<lambda>a _. Inr (Some a, True))"

definition sample_route :: "RouteKind \<Rightarrow> int \<Rightarrow> string \<Rightarrow> dec LiquidityRoute" where
  "sample_route kind n date = (new_route kind ''withdraw'')
     \<lparr> lr_eligible_on := Some date, lr_receipt_on := Some date, lr_net_native := Some (sample_usd n), lr_net_exact := Some (Dec n 0) \<rparr>"

definition sample_routes :: "dec LiquiditySourceResult" where
  "sample_routes = (source_result sample_source (sample_usd 0))
     \<lparr> lo_normal_route := Some (sample_route RouteNormal 100 ''2026-09-01''),
       lo_early_route := Some (sample_route RouteEarly 90 ''2026-08-05'') \<rparr>"

text \<open>The evaluation of the sample source: nothing arrives before its date, everything after.\<close>

definition sample_row :: "string \<Rightarrow> dec LiquidityBucketResult" where
  "sample_row h =
     (if h < ''2026-08-20'' then new_row h StatusComplete []
      else (new_row h StatusComplete [])
        \<lparr> br_net_exact := Some (Dec 100 0), br_native_status := StatusComplete,
          br_selected_route := Some ((sample_route RouteNormal 100 ''2026-08-20'')
            \<lparr> lr_gross_native := Some (sample_usd 100), lr_fee_native := Some (sample_usd 0),
              lr_net_native := Some \<lparr> m_amount = Dec 1000000 (- 4), m_currency = ''USD'' \<rparr> \<rparr>),
          br_net_native := Some \<lparr> m_amount = Dec 1000000 (- 4), m_currency = ''USD'' \<rparr>, br_net_base := Some (Dec 100 0),
          br_applied_reserve_native := Some \<lparr> m_amount = Dec 0 (- 4), m_currency = ''USD'' \<rparr>,
          br_unreserved_native := Some \<lparr> m_amount = Dec 1000000 (- 4), m_currency = ''USD'' \<rparr>,
          br_reserve_shortfall_native := Some \<lparr> m_amount = Dec 0 (- 4), m_currency = ''USD'' \<rparr> \<rparr>)"

definition sample_result :: "string list \<Rightarrow> dec LiquiditySourceResult" where
  "sample_result hs = (source_result sample_source \<lparr> m_amount = Dec 0 (- 4), m_currency = ''USD'' \<rparr>)
     \<lparr> lo_policy_origin := PolicyOriginExplicit, lo_policy := Some sample_access, lo_display_state := ProductDisplayLocked,
       lo_normal_route := Some ((sample_route RouteNormal 100 ''2026-08-20'')
         \<lparr> lr_gross_native := Some (sample_usd 100), lr_fee_native := Some (sample_usd 0),
           lr_net_native := Some \<lparr> m_amount = Dec 1000000 (- 4), m_currency = ''USD'' \<rparr> \<rparr>),
       lo_bucket_results := map sample_row hs, lo_assumptions := [AssumptionRestrictedAccount] \<rparr>"

definition sample_horizons :: "string list" where
  "sample_horizons = [''2026-08-03'', ''2026-08-10'', ''2026-09-02'']"

lemma sample_evaluated:
  "evaluateSource ref_decimal (sample_query c) ''2026-08-03'' sample_horizons sample_source (zero_money ref_decimal) (Some same_currency)
     = Inr (sample_result sample_horizons)"
  "evaluateSource ref_decimal (sample_query c) ''2026-08-03'' (sample_horizons @ [''2026-08-15'']) sample_source
     (zero_money ref_decimal) (Some same_currency) = Inr (sample_result (sample_horizons @ [''2026-08-15'']))"
  by code_simp+

definition sample_bucket :: "string \<Rightarrow> dec money \<Rightarrow> dec LiquidityBucket" where
  "sample_bucket h m =
     (let none = \<lparr> m_amount = Dec 0 (- 4), m_currency = ''USD'' \<rparr> in
      \<lparr> lb_horizon_on = h, lb_status = StatusComplete, lb_full_available = Some m, lb_known_available_subtotal = Some m,
        lb_applied_reserve_subtotal = Some none, lb_full_unreserved = Some m, lb_known_unreserved_subtotal = Some m,
        lb_unknown_source_count = 0, lb_excluded_source_count = 0, lb_estimated_source_count = 0,
        lb_native_currency_groups =
          [\<lparr> ng_currency = ''USD'', ng_status = StatusComplete, ng_full_available = Some m, ng_known_available_subtotal = Some m,
             ng_applied_reserve_subtotal = Some none, ng_full_unreserved = Some m, ng_known_unreserved_subtotal = Some m \<rparr>],
        lb_warnings = [] \<rparr>)"

lemma sample_aggregated:
  assumes "h \<in> set hs"
  shows "aggregateBucket ref_decimal id h ''USD'' [sample_result hs] (Some same_currency)
    = Inr (sample_bucket h \<lparr> m_amount = Dec (if h < ''2026-08-20'' then 0 else 1000000) (- 4), m_currency = ''USD'' \<rparr>)"
proof -
  have row: "bucket_row h (sample_result hs) = Some (sample_row h)"
    unfolding bucket_row_def using find_row [of sample_row h hs] assms
    by (simp add: sample_result_def sample_row_def)
  have r: "lo_excluded (sample_result hs) = False" "lo_native_currency (sample_result hs) = ''USD''"
    "lo_policy_origin (sample_result hs) = PolicyOriginExplicit"
    by (simp_all add: sample_result_def source_result_def sample_source_def)
  have shown: "display_totals ref_decimal (d_zero ref_decimal) (d_zero ref_decimal) ''USD''
      = Inr (\<lparr> m_amount = Dec 0 (- 4), m_currency = ''USD'' \<rparr>, \<lparr> m_amount = Dec 0 (- 4), m_currency = ''USD'' \<rparr>, \<lparr> m_amount = Dec 0 (- 4), m_currency = ''USD'' \<rparr>)"
    "display_totals ref_decimal (d_add ref_decimal (d_zero ref_decimal) (Dec 100 0)) (d_add ref_decimal (d_zero ref_decimal) (Dec 0 (- 4))) ''USD''
      = Inr (\<lparr> m_amount = Dec 1000000 (- 4), m_currency = ''USD'' \<rparr>, \<lparr> m_amount = Dec 0 (- 4), m_currency = ''USD'' \<rparr>, \<lparr> m_amount = Dec 1000000 (- 4), m_currency = ''USD'' \<rparr>)"
    "display_totals ref_decimal (d_add ref_decimal (d_zero ref_decimal) (Dec 100 0)) (d_add ref_decimal (d_zero ref_decimal) (d_zero ref_decimal)) ''USD''
      = Inr (\<lparr> m_amount = Dec 1000000 (- 4), m_currency = ''USD'' \<rparr>, \<lparr> m_amount = Dec 0 (- 4), m_currency = ''USD'' \<rparr>, \<lparr> m_amount = Dec 1000000 (- 4), m_currency = ''USD'' \<rparr>)"
    "NewMoney ref_decimal (d_zero ref_decimal) ''USD'' = Inr \<lparr> m_amount = Dec 0 (- 4), m_currency = ''USD'' \<rparr>"
    by code_simp+
  have converted: "convertLiquidityExact ref_decimal same_currency (Dec 100 0) c = Inr (Some (Dec 100 0), True)"
    "convertLiquidityExact ref_decimal same_currency (Dec 0 (- 4)) c = Inr (Some (d_zero ref_decimal), True)" for c
    by code_simp+
  show ?thesis
    by (simp add: aggregateBucket_def sum_source_def converted_bucket_def sum_base_def native_group_def row r Let_def new_acc_def
        known_row_def bucketNativeExact_def bucketReserveExact_def nativeResultComplete_def sample_row_def sample_bucket_def
        shown [simplified] converted [simplified] new_row_def)
qed

lemma sample_checked:
  "assertCumulativeMonotonic ref_decimal [sample_bucket a \<lparr> m_amount = Dec 0 (- 4), m_currency = ''USD'' \<rparr>,
     sample_bucket b \<lparr> m_amount = Dec 0 (- 4), m_currency = ''USD'' \<rparr>,
     sample_bucket c \<lparr> m_amount = Dec 1000000 (- 4), m_currency = ''USD'' \<rparr>] = Inr ()"
  "assertCumulativeMonotonic ref_decimal [sample_bucket a \<lparr> m_amount = Dec 0 (- 4), m_currency = ''USD'' \<rparr>,
     sample_bucket b \<lparr> m_amount = Dec 0 (- 4), m_currency = ''USD'' \<rparr>,
     sample_bucket c \<lparr> m_amount = Dec 1000000 (- 4), m_currency = ''USD'' \<rparr>,
     sample_bucket d \<lparr> m_amount = Dec 0 (- 4), m_currency = ''USD'' \<rparr>]
   = Inl (validation ''availability'' ''cumulative known available amounts cannot decrease'')"
  by code_simp+

lemma sample_buckets:
  "\<exists>buckets. res_map (\<lambda>h. aggregateBucket ref_decimal id h ''USD'' [sample_result sample_horizons] (Some same_currency)) sample_horizons
      = Inr buckets \<and> assertCumulativeMonotonic ref_decimal buckets = Inr ()"
  "\<exists>buckets. res_map (\<lambda>h. aggregateBucket ref_decimal id h ''USD'' [sample_result (sample_horizons @ [''2026-08-15''])] (Some same_currency))
        (sample_horizons @ [''2026-08-15'']) = Inr buckets
      \<and> assertCumulativeMonotonic ref_decimal buckets
        = Inl (validation ''availability'' ''cumulative known available amounts cannot decrease'')"
proof -
  have l: "''2026-08-03'' < ''2026-08-20''" "''2026-08-10'' < ''2026-08-20''" "\<not> ''2026-09-02'' < ''2026-08-20''" "''2026-08-15'' < ''2026-08-20''"
    by code_simp+
  note a = sample_aggregated [of _ "''2026-08-03'' # _"] sample_aggregated [of "''2026-08-10''" "_ # ''2026-08-10'' # _"]
    sample_aggregated [of "''2026-09-02''" "_ # _ # ''2026-09-02'' # _"] sample_aggregated [of "''2026-08-15''" "[_, _, _, ''2026-08-15'']"]
  show "\<exists>buckets. res_map (\<lambda>h. aggregateBucket ref_decimal id h ''USD'' [sample_result sample_horizons] (Some same_currency)) sample_horizons
      = Inr buckets \<and> assertCumulativeMonotonic ref_decimal buckets = Inr ()"
    unfolding sample_horizons_def using sample_checked(1) by (auto simp: a l)
  show "\<exists>buckets. res_map (\<lambda>h. aggregateBucket ref_decimal id h ''USD'' [sample_result (sample_horizons @ [''2026-08-15''])] (Some same_currency))
        (sample_horizons @ [''2026-08-15'']) = Inr buckets
      \<and> assertCumulativeMonotonic ref_decimal buckets
        = Inl (validation ''availability'' ''cumulative known available amounts cannot decrease'')"
    unfolding sample_horizons_def using sample_checked(2) by (auto simp: a l)
qed

text \<open>C21. At each horizon the evaluation takes the best route: one that has arrived by then, with
  the largest net amount among those that have, and none only if none has arrived; at a later
  horizon the amount is never smaller.\<close>

theorem selectRouteForHorizon_best:
  assumes "decimal_lib D"
  shows "(case br_selected_route (selectRouteForHorizon D h source due q f) of
      None \<Rightarrow> br_net_native (selectRouteForHorizon D h source due q f) = None \<and> (\<forall>c \<in> set (route_candidates source due). \<not> arrived h c)
    | Some s \<Rightarrow> s \<in> set (route_candidates source due) \<and> arrived h s
        \<and> br_net_native (selectRouteForHorizon D h source due q f) = lr_net_native s
        \<and> (\<forall>c \<in> set (route_candidates source due). arrived h c \<longrightarrow> route_value D c \<le> route_value D s))
    \<and> (\<forall>h' \<ge> h. br_net_native (selectRouteForHorizon D h source due q f) \<noteq> None \<longrightarrow>
        br_net_native (selectRouteForHorizon D h' source due q f) \<noteq> None
        \<and> d_val D (bucketNativeExact D (selectRouteForHorizon D h source due q f))
          \<le> d_val D (bucketNativeExact D (selectRouteForHorizon D h' source due q f)))"
proof -
  note later = decimal_lib.select_monotone [OF assms, of h _ source due q f q f]
  show ?thesis
    by (rule decimal_lib.select_cases [OF assms, where h = h and src = source and due = due and q = q and f = f])
      (use later in simp_all)
qed

theorem selectRouteForHorizon_best_witness:
  "\<exists>s. br_selected_route (selectRouteForHorizon ref_decimal ''2026-08-10'' sample_routes False (sample_usd 0) None) = Some s
     \<and> s \<in> set (route_candidates sample_routes False) \<and> arrived ''2026-08-10'' s"
proof -
  have "br_selected_route (selectRouteForHorizon ref_decimal ''2026-08-10'' sample_routes False (sample_usd 0) None) \<noteq> None"
    by code_simp
  then show ?thesis
    using selectRouteForHorizon_best [OF ref.decimal_lib_axioms, of "''2026-08-10''" sample_routes False "sample_usd 0" None] by auto
qed

text \<open>A reservation splits the displayed amount without loss: applied and unreserved add up to
  it, the applied part is the smaller of the amount and the reservation, what is missing is the
  shortfall, nothing is negative and all stay in the source's currency.\<close>

theorem applyLiquidityReservation_splits:
  assumes "decimal_lib D" and "0 \<le> d_val D net" and "d_val D net \<le> max_money" and "valid_currency c" and "valid_money D requested"
    and "applyLiquidityReservation D net c requested = (applied, unreserved, shortfall, exactApplied)"
  shows "d_val D (m_amount applied) + d_val D (m_amount unreserved) = half_even 4 (d_val D net)
    \<and> d_val D exactApplied = min (d_val D net) (d_val D (m_amount requested))
    \<and> d_val D (m_amount applied) = half_even 4 (d_val D exactApplied) \<and> 0 \<le> d_val D (m_amount unreserved)
    \<and> d_val D (m_amount shortfall) = half_even 4 (max (d_val D (m_amount requested) - d_val D net) 0)
    \<and> m_currency applied = c \<and> m_currency unreserved = c \<and> m_currency shortfall = c"
  using decimal_lib.reservation_split [OF assms] by simp

theorem applyLiquidityReservation_splits_witness:
  "\<exists>applied unreserved shortfall x.
     applyLiquidityReservation ref_decimal (Dec 100 0) ''USD'' (sample_usd 30) = (applied, unreserved, shortfall, x)
     \<and> dv (m_amount applied) + dv (m_amount unreserved) = half_even 4 100"
proof -
  obtain applied unreserved shortfall x
    where a: "applyLiquidityReservation ref_decimal (Dec 100 0) ''USD'' (sample_usd 30) = (applied, unreserved, shortfall, x)"
    by (metis surj_pair)
  have "valid_currency ''USD''" "valid_money ref_decimal (sample_usd 30)"
    by (simp_all add: sample_usd_def valid_money_def valid_currency_def upper_letter_iff dv_Dec max_money_def)
  from applyLiquidityReservation_splits [OF ref.decimal_lib_axioms _ _ this a, THEN conjunct1] a
  show ?thesis by (simp add: dv_Dec max_money_def)
qed

text \<open>C20. Availability is cumulative: over horizons in order, the known available totals in the base
  currency never decrease, so the evaluation's own check on them cannot fail; rounding included,
  for every set of sources valued in their own currencies and every conversion of one snapshot.\<close>

theorem known_available_cumulative:
  assumes "decimal_lib D" and "fx_snapshot D f" and "sorted horizons"
    and "\<forall>r \<in> set results. \<exists>source q. evaluateSource D query today horizons source q (Some f) = Inr r"
    and "\<forall>r \<in> set results. \<forall>row \<in> set (lo_bucket_results r). \<forall>n \<in> set_option (br_net_native row). m_currency n = lo_native_currency r"
    and "res_map (\<lambda>h. aggregateBucket D range_order h base results (Some f)) horizons = Inr buckets"
  shows "sorted_wrt (\<lambda>b b'. \<forall>m \<in> set_option (lb_known_available_subtotal b). \<forall>m' \<in> set_option (lb_known_available_subtotal b').
      d_val D (m_amount m) \<le> d_val D (m_amount m')) buckets
    \<and> assertCumulativeMonotonic D buckets \<noteq> Inl (validation ''availability'' ''cumulative known available amounts cannot decrease'')"
  using decimal_lib.buckets_cumulative [OF assms] decimal_lib.assert_available [OF assms(1)] by blast

theorem known_available_cumulative_witness:
  "\<exists>buckets. res_map (\<lambda>h. aggregateBucket ref_decimal id h ''USD'' [sample_result sample_horizons] (Some same_currency)) sample_horizons
       = Inr buckets
     \<and> assertCumulativeMonotonic ref_decimal buckets
       \<noteq> Inl (validation ''availability'' ''cumulative known available amounts cannot decrease'')"
proof -
  let ?r = "sample_result sample_horizons"
  obtain buckets where b: "res_map (\<lambda>h. aggregateBucket ref_decimal id h ''USD'' [?r] (Some same_currency)) sample_horizons = Inr buckets"
    using sample_buckets(1) by blast
  have f: "fx_snapshot ref_decimal same_currency" by (auto simp: fx_snapshot_def same_currency_def)
  have s: "sorted sample_horizons" by code_simp
  have e: "\<forall>r' \<in> set [?r]. \<exists>source q.
      evaluateSource ref_decimal (sample_query None) ''2026-08-03'' sample_horizons source q (Some same_currency) = Inr r'"
    using sample_evaluated(1) by auto
  have c: "\<forall>r' \<in> set [?r]. \<forall>row \<in> set (lo_bucket_results r'). \<forall>n \<in> set_option (br_net_native row). m_currency n = lo_native_currency r'"
    by (auto simp: sample_result_def sample_row_def source_result_def sample_source_def split: if_splits)
  from known_available_cumulative [OF ref.decimal_lib_axioms f s e c b] b show ?thesis by blast
qed

text \<open>A custom horizon between the standard ones can make the whole evaluation fail: a hundred
  dollars that become available on 20 August are seen at thirty days but not at a custom 15 August
  placed after it, and the check reports a decrease.  Without the custom date the same query is answered.\<close>

theorem EvaluateLiquidity_custom_horizon_fails:
  "EvaluateLiquidity ref_decimal (\<lambda>_. None) id (sample_query (Some ''2026-08-15'')) [sample_source] [] (Some same_currency)
     = Inl (validation ''availability'' ''cumulative known available amounts cannot decrease'')
   \<and> is_ok (EvaluateLiquidity ref_decimal (\<lambda>_. None) id (sample_query None) [sample_source] [] (Some same_currency))"
proof
  let ?hs = "sample_horizons @ [''2026-08-15'']"
  have date: "LocalCivilDate (\<lambda>_. None) (lq_as_of (sample_query c)) (lq_timezone (sample_query c)) = Inr (''2026-08-03'', ''UTC'')" for c
    by code_simp
  have h: "LiquidityHorizons ''2026-08-03'' (lq_custom_horizon_on (sample_query (Some ''2026-08-15''))) = Inr ?hs"
    "LiquidityHorizons ''2026-08-03'' (lq_custom_horizon_on (sample_query None)) = Inr sample_horizons"
    by code_simp+
  have "check_native_amount ref_decimal sample_source = Inr ()" "LiquiditySourceRef_Validate (ls_ref sample_source) = Inr ()"
    "lq_base_currency (sample_query c) = ''USD''" for c
    by code_simp+
  note eval = EvaluateLiquidity_def date this sample_evaluated Let_def
  show "EvaluateLiquidity ref_decimal (\<lambda>_. None) id (sample_query (Some ''2026-08-15'')) [sample_source] [] (Some same_currency)
     = Inl (validation ''availability'' ''cumulative known available amounts cannot decrease'')"
    using sample_buckets(2) by (auto simp: eval h simp del: append.simps)
  show "is_ok (EvaluateLiquidity ref_decimal (\<lambda>_. None) id (sample_query None) [sample_source] [] (Some same_currency))"
    using sample_buckets(1) by (auto simp: eval h is_ok_iff)
qed

end
