(* ===== verification/UpcomingProps.thy ===== *)
theory UpcomingProps
  imports Upcoming LiquidityProps "HOL-Library.Multiset"
begin

text \<open>
  What the projection of upcoming actions guarantees: it does not depend on the order in which Go
  ranges over the map of checks, it calls itself complete exactly when it reports no gap, its counts
  are those of its lists, and the phase of a schedule agrees with its dates.
\<close>

section \<open>Association lists and sorting\<close>

lemma update_mem:
  "distinct (map fst al) \<Longrightarrow> (i, c) \<in> set (AList.update k v al) \<longleftrightarrow> (i = k \<and> c = v) \<or> (i \<noteq> k \<and> (i, c) \<in> set al)"
  by (induction al) (auto split: if_splits simp: image_iff)

lemma update_values:
  "set (map snd (AList.update k v al)) \<subseteq> insert v (set (map snd al))"
  by (induction al) auto

lemma update_fresh_value:
  "distinct (map snd al) \<Longrightarrow> v \<notin> set (map snd al) \<Longrightarrow> distinct (map snd (AList.update k v al))"
proof (induction al)
  case (Cons a al)
  then show ?case using update_values [of k v al] by (cases a) auto
qed simp

lemma sort_key_permuted:
  assumes "mset xs = mset ys" and "inj_on f (set xs)" and "distinct xs"
  shows "sort_key f xs = sort_key f ys"
proof (rule map_sorted_distinct_set_unique)
  have s: "set ys = set xs" using assms(1) by (metis mset_eq_setD)
  have d: "distinct ys" using assms(1,3) by (metis mset_eq_imp_distinct_iff)
  show "inj_on f (set (sort_key f xs) \<union> set (sort_key f ys))" using assms(2) s by simp
  show "distinct (map f (sort_key f xs))" "distinct (map f (sort_key f ys))"
    using assms d s by (auto simp: distinct_map)
  show "set (sort_key f xs) = set (sort_key f ys)" using s by simp
qed simp_all

lemma length_filter_sort [simp]: "length (filter P (sort_key f xs)) = length (filter P xs)"
  by (metis filter_sort length_sort)

lemma bex_pairs: "(\<exists>(i, c) \<in> A. P i c) \<longleftrightarrow> (\<exists>i c. (i, c) \<in> A \<and> P i c)"
  by auto

section \<open>The state of the projection\<close>

definition check_categories :: "string set" where
  "check_categories = {''data_issue'', ''scope_note'', ''information''}"

lemma check_id_category:
  assumes "check_id k c = check_id k' c'" and "c \<in> check_categories" and "c' \<in> check_categories"
  shows "c = c'"
proof -
  have plain: "takeWhile (\<lambda>x. x \<noteq> CHR ''/'') (rev (check_id k c)) = rev c" if "c \<in> check_categories" for k c
    using that by (auto simp: check_categories_def check_id_def)
  show ?thesis using plain [OF assms(2), of k] plain [OF assms(3), of k'] assms(1) by simp
qed

text \<open>The checks are filed under their identities and give a reason each; the items of distinct sources
  are distinct, and none of them is an unresolved reservation.\<close>

definition filed_check :: "string \<Rightarrow> UpcomingDataCheck \<Rightarrow> bool" where
  "filed_check i c \<longleftrightarrow> uk_id c = i \<and> i = check_id (uk_source_key c) (uk_category c)
     \<and> uk_category c \<in> check_categories \<and> uk_reason_codes c \<noteq> []"

definition upcoming_wf :: "'d upcoming_state \<Rightarrow> bool" where
  "upcoming_wf st \<longleftrightarrow>
     distinct (map fst (us_checks st)) \<and> (\<forall>(i, c) \<in> set (us_checks st). filed_check i c)
     \<and> distinct (map fst (us_action_by_source st)) \<and> distinct (map snd (us_action_by_source st))
     \<and> (\<forall>n \<in> set (map snd (us_action_by_source st)).
          n < length (us_items st) \<and> ui_kind (us_items st ! n) \<noteq> ''reservation_unresolved'')"

definition reports_gap :: "'d upcoming_state \<Rightarrow> bool" where
  "reports_gap st \<longleftrightarrow>
     (\<exists>item \<in> set (us_items st). ui_kind item \<noteq> ''reservation_unresolved'' \<and> ui_reason_codes item \<noteq> [])
     \<or> (\<exists>(i, c) \<in> set (us_checks st). uk_category c = ''data_issue'')"

definition upcoming_inv :: "'d upcoming_state \<Rightarrow> bool" where
  "upcoming_inv st \<longleftrightarrow> upcoming_wf st \<and> us_completeness st = (if reports_gap st then StatusPartial else StatusComplete)"

lemma upcomingStrings_empty [simp]: "upcomingStrings v = [] \<longleftrightarrow> v = []"
  by (metis set_empty set_remdups set_sort upcomingStrings_def)

lemma set_upcomingStrings [simp]: "set (upcomingStrings v) = set v"
  by (simp add: upcomingStrings_def)

lemma upcomingStrings_idem [simp]: "upcomingStrings (upcomingStrings v) = upcomingStrings v"
  by (simp add: upcomingStrings_def sorted_sort_id distinct_remdups_id)

text \<open>Each of the changes a source makes keeps the invariant.\<close>

lemma addCheck_inv:
  assumes "upcoming_inv st" and "category \<in> check_categories"
  shows "upcoming_inv (addCheck E s category coverage reasons anchor added st)"
proof (cases "reasons = []")
  case True
  then show ?thesis using assms(1) by (simp add: addCheck_def)
next
  case False
  let ?i = "check_id (lo_source_key s) category" and ?st = "addCheck E s category coverage reasons anchor added st"
  have wf: "upcoming_wf st" and d: "distinct (map fst (us_checks st))" using assms(1) by (auto simp: upcoming_inv_def upcoming_wf_def)
  define c where "c = updated_check E s category coverage reasons anchor added
    (case map_of (us_checks st) ?i of Some c \<Rightarrow> c | None \<Rightarrow> zero_check)"
  have c: "us_checks ?st = AList.update ?i c (us_checks st)" "filed_check ?i c" "uk_category c = category"
    using False assms(2) by (simp_all add: addCheck_def Let_def filed_check_def c_def updated_check_def)
  have same: "us_items ?st = us_items st" "us_action_by_source ?st = us_action_by_source st"
    "us_completeness ?st = (if category = ''data_issue'' then StatusPartial else us_completeness st)"
    using False by (simp_all add: addCheck_def Let_def)
  have "upcoming_wf ?st"
    using wf c(2) unfolding upcoming_wf_def same c(1) by (auto simp: distinct_update update_mem [OF d])
  moreover have "reports_gap ?st \<longleftrightarrow> reports_gap st \<or> category = ''data_issue''"
  proof -
    have "uk_category c' = category" if "(?i, c') \<in> set (us_checks st)" for c'
      using wf that assms(2) check_id_category [of "uk_source_key c'" "uk_category c'" "lo_source_key s" category]
      by (auto simp: upcoming_wf_def filed_check_def)
    note same_category = this
    have "(\<exists>(i, c) \<in> set (us_checks ?st). uk_category c = ''data_issue'')
        \<longleftrightarrow> category = ''data_issue'' \<or> (\<exists>i c'. i \<noteq> ?i \<and> (i, c') \<in> set (us_checks st) \<and> uk_category c' = ''data_issue'')"
      unfolding c(1) bex_pairs update_mem [OF d] using c(3) by blast
    also have "\<dots> \<longleftrightarrow> category = ''data_issue'' \<or> (\<exists>(i, c) \<in> set (us_checks st). uk_category c = ''data_issue'')"
      unfolding bex_pairs using same_category by metis
    finally have "(\<exists>(i, c) \<in> set (us_checks ?st). uk_category c = ''data_issue'')
        \<longleftrightarrow> category = ''data_issue'' \<or> (\<exists>(i, c) \<in> set (us_checks st). uk_category c = ''data_issue'')" .
    then show ?thesis unfolding reports_gap_def same by blast
  qed
  ultimately show ?thesis using assms(1) same(3) by (simp add: upcoming_inv_def)
qed

lemma append_item_inv:
  assumes "upcoming_inv st" and "ui_kind item \<noteq> ''reservation_unresolved''"
  shows "upcoming_inv ((mark_partial (ui_reason_codes item \<noteq> []) st) \<lparr> us_items := us_items st @ [item] \<rparr>)"
  using assms by (auto simp: upcoming_inv_def upcoming_wf_def reports_gap_def mark_partial_def nth_append)

lemma add_item_inv:
  assumes "upcoming_inv st" and "ui_kind item \<noteq> ''reservation_unresolved''"
  shows "upcoming_inv (add_item key item (mark_partial (ui_reason_codes item \<noteq> []) st))"
proof -
  let ?st = "mark_partial (ui_reason_codes item \<noteq> []) st" and ?n = "length (us_items st)"
  have st: "upcoming_inv (?st \<lparr> us_items := us_items st @ [item] \<rparr>)" by (rule append_item_inv [OF assms])
  have same: "us_items ?st = us_items st" "us_action_by_source ?st = us_action_by_source st" by (simp_all add: mark_partial_def)
  have old: "\<forall>n \<in> set (map snd (us_action_by_source st)). n < ?n" using assms(1) by (simp add: upcoming_inv_def upcoming_wf_def)
  have "distinct (map snd (AList.update key ?n (us_action_by_source st)))"
    using assms(1) old by (intro update_fresh_value) (auto simp: upcoming_inv_def upcoming_wf_def)
  moreover have "\<forall>n \<in> set (map snd (AList.update key ?n (us_action_by_source st))). n < Suc ?n
      \<and> ui_kind ((us_items st @ [item]) ! n) \<noteq> ''reservation_unresolved''"
    using update_values [of key ?n "us_action_by_source st"] assms old
    by (fastforce simp: upcoming_inv_def upcoming_wf_def nth_append)
  ultimately show ?thesis
    using st unfolding add_item_def same by (auto simp: upcoming_inv_def upcoming_wf_def reports_gap_def distinct_update same)
qed

lemma upcomingSchedule_kind:
  "upcomingSchedule J s raw today end_on = Some item \<Longrightarrow> ui_kind item \<noteq> ''reservation_unresolved''"
  by (auto simp: upcomingSchedule_def schedule_item_def Let_def split: option.splits prod.splits)

lemma project_schedule_inv:
  assumes "upcoming_inv st"
  shows "upcoming_inv (project_schedule D E s r rs st)"
proof -
  have warned: "upcoming_inv (st \<lparr> us_scope_warnings := w \<rparr>)" for w
    using assms by (simp add: upcoming_inv_def upcoming_wf_def reports_gap_def)
  have added: "upcoming_inv (add_item key (scheduled_item D E s reasons item) (mark_partial (reasons \<noteq> []) st))"
    if "ui_kind item \<noteq> ''reservation_unresolved''" for key reasons item
    using add_item_inv [OF assms, of "scheduled_item D E s reasons item" key] that by (simp add: scheduled_item_def)
  show ?thesis
    unfolding project_schedule_def Let_def
    by (auto simp: check_categories_def assms warned intro!: addCheck_inv added dest: upcomingSchedule_kind split: option.splits)
qed

lemma reservation_coverage_category:
  "reservation_coverage D end_on s rs = (coverage, category, reason) \<Longrightarrow> category \<in> check_categories"
  by (auto simp: reservation_coverage_def check_categories_def Let_def split: if_splits option.splits)

lemma project_reserve_inv:
  assumes "upcoming_inv st"
  shows "upcoming_inv (project_reserve D E s rs st)"
proof -
  have added: "upcoming_inv (add_item key (shortfall_item E s rs m b) (mark_partial b st))" for key m b
    using add_item_inv [OF assms, of "shortfall_item E s rs m b" key] by (simp add: shortfall_item_def Let_def split: if_splits)
  have appended: "upcoming_inv ((mark_partial b st) \<lparr> us_items := us_items st @ [shortfall_item E s rs m b] \<rparr>)" for m b
    using append_item_inv [OF assms, of "shortfall_item E s rs m b"] by (simp add: shortfall_item_def Let_def split: if_splits)
  have same: "us_items (mark_partial b st) = us_items st" for b by (simp add: mark_partial_def)
  show ?thesis
    unfolding project_reserve_def Let_def same
    by (auto simp: assms added appended intro!: addCheck_inv dest: reservation_coverage_category split: prod.splits)
qed

lemma project_source_inv:
  "upcoming_inv st \<Longrightarrow> upcoming_inv (project_source D E s st)"
  by (auto simp: project_source_def Let_def check_categories_def
      intro!: addCheck_inv project_reserve_inv project_schedule_inv split: option.splits)

lemma upcoming_start_inv: "upcoming_inv (upcoming_start D J overview sources snapshot)"
  by (auto simp: upcoming_start_def upcoming_inv_def upcoming_wf_def reports_gap_def unresolved_item_def Let_def)

definition projected ::
    "'d decimal_ops \<Rightarrow> upcoming_codec \<Rightarrow> string \<Rightarrow> 'd LiquidityOverview \<Rightarrow> 'd LiquiditySource list \<Rightarrow> 'd LiquiditySnapshot
     \<Rightarrow> 'd upcoming_state" where
  "projected D J end_on overview sources snapshot =
     fold (project_source D (upcoming_env_of J end_on overview sources snapshot)) (ov_sources overview)
       (upcoming_start D J overview sources snapshot)"

lemma projected_inv: "upcoming_inv (projected D J end_on overview sources snapshot)"
proof -
  have "upcoming_inv (fold (project_source D E) ss st)" if "upcoming_inv st" for E ss st
    using that by (induction ss arbitrary: st) (simp_all add: project_source_inv)
  then show ?thesis by (simp add: projected_def upcoming_start_inv)
qed

lemmas projected_wf = projected_inv [unfolded upcoming_inv_def, THEN conjunct1]
lemmas projected_completeness = projected_inv [unfolded upcoming_inv_def, THEN conjunct2]

section \<open>Merging checks\<close>

definition merge_target :: "(string \<times> nat) list \<Rightarrow> UpcomingDataCheck \<Rightarrow> nat option" where
  "merge_target actions c = (if uk_category c = ''data_issue'' then map_of actions (uk_source_key c) else None)"

definition merge_item :: "upcoming_codec \<Rightarrow> (string \<times> nat) list \<Rightarrow> UpcomingDataCheck \<Rightarrow> 'd UpcomingAction list \<Rightarrow> 'd UpcomingAction list" where
  "merge_item J actions c items =
     (case merge_target actions c of Some i \<Rightarrow> items[i := merge_into J c (items ! i)] | None \<Rightarrow> items)"

lemma merge_fold:
  "fold (\<lambda>i. merge_check J actions (f i)) ids (items, cs)
   = (fold (\<lambda>i. merge_item J actions (f i)) ids items, cs @ filter (\<lambda>c. merge_target actions c = None) (map f ids))"
  by (induction ids arbitrary: items cs) (auto simp: merge_check_def merge_item_def merge_target_def split: option.splits)

lemma merge_item_commute:
  assumes "merge_target actions c \<noteq> merge_target actions c' \<or> merge_target actions c = None"
  shows "merge_item J actions c (merge_item J actions c' items) = merge_item J actions c' (merge_item J actions c items)"
  using assms by (auto simp: merge_item_def list_update_swap split: option.splits)

lemma map_of_values: "distinct (map snd al) \<Longrightarrow> map_of al k = Some n \<Longrightarrow> map_of al k' = Some n \<Longrightarrow> k = k'"
  by (metis (no_types, lifting) distinct_map inj_onD map_of_SomeD prod.inject snd_conv)

lemma filed:
  assumes "upcoming_wf st" and "i \<in> set (map fst (us_checks st))"
  shows "filed_check i (the (map_of (us_checks st) i))" and "(i, the (map_of (us_checks st) i)) \<in> set (us_checks st)"
  using assms by (auto simp: upcoming_wf_def)

lemma merge_targets_distinct:
  assumes "upcoming_wf st" and "i \<in> set (map fst (us_checks st))" and "j \<in> set (map fst (us_checks st))" and "i \<noteq> j"
  defines "c \<equiv> \<lambda>i. the (map_of (us_checks st) i)"
  shows "merge_target (us_action_by_source st) (c i) \<noteq> merge_target (us_action_by_source st) (c j)
    \<or> merge_target (us_action_by_source st) (c i) = None"
proof (rule disjCI)
  let ?t = "\<lambda>i. merge_target (us_action_by_source st) (c i)"
  assume i: "?t i \<noteq> None"
  have f: "filed_check i (c i)" "filed_check j (c j)" using filed(1) [OF assms(1)] assms(2,3) by (simp_all add: c_def)
  show "?t i \<noteq> ?t j"
  proof
    assume eq: "?t i = ?t j"
    with i have "uk_source_key (c i) = uk_source_key (c j)" "uk_category (c i) = ''data_issue''" "uk_category (c j) = ''data_issue''"
      using assms(1) by (auto simp: merge_target_def upcoming_wf_def dest: map_of_values split: if_splits)
    with f assms(4) show False by (simp add: filed_check_def)
  qed
qed

lemma merge_items_permuted:
  assumes "upcoming_wf st" and "mset ids = mset ids'" and "set ids \<subseteq> set (map fst (us_checks st))"
  shows "fold (\<lambda>i. merge_item J (us_action_by_source st) (the (map_of (us_checks st) i))) ids
    = fold (\<lambda>i. merge_item J (us_action_by_source st) (the (map_of (us_checks st) i))) ids'"
proof (rule fold_multiset_equiv [OF _ assms(2)])
  fix i j
  assume ij: "i \<in> set ids" "j \<in> set ids"
  show "merge_item J (us_action_by_source st) (the (map_of (us_checks st) i))
      \<circ> merge_item J (us_action_by_source st) (the (map_of (us_checks st) j))
    = merge_item J (us_action_by_source st) (the (map_of (us_checks st) j))
      \<circ> merge_item J (us_action_by_source st) (the (map_of (us_checks st) i))"
  proof (cases "i = j")
    case False
    with ij assms(3) show ?thesis
      by (intro ext) (simp add: merge_item_commute [OF merge_targets_distinct [OF assms(1)]] subset_iff)
  qed simp
qed

text \<open>The items after the merge, and the checks that are left.\<close>

definition merged ::
    "upcoming_codec \<Rightarrow> (string list \<Rightarrow> string list) \<Rightarrow> 'd upcoming_state \<Rightarrow> 'd UpcomingAction list \<times> UpcomingDataCheck list" where
  "merged J range_order st =
     (let ids = range_order (map fst (us_checks st)); c = (\<lambda>i. the (map_of (us_checks st) i)) in
      (fold (\<lambda>i. merge_item J (us_action_by_source st) (c i)) ids (us_items st),
       sort_key check_order (filter (\<lambda>c. merge_target (us_action_by_source st) c = None) (map c ids))))"

lemma merged_permuted:
  assumes "upcoming_wf st" and "\<And>xs. mset (range_order xs) = mset xs" and "\<And>xs. mset (range_order' xs) = mset xs"
  shows "merged J range_order st = merged J range_order' st"
proof -
  let ?ids = "range_order (map fst (us_checks st))" and ?ids' = "range_order' (map fst (us_checks st))"
  let ?c = "\<lambda>i. the (map_of (us_checks st) i)"
  have m: "mset ?ids = mset ?ids'" by (simp only: assms)
  have s: "set ?ids = set (map fst (us_checks st))" using assms(2) by (metis mset_eq_setD)
  have uid: "uk_id (?c i) = i" if "i \<in> set ?ids" for i
    using filed(1) [OF assms(1)] that by (simp add: s filed_check_def)
  have "distinct ?ids" using assms(1) mset_eq_imp_distinct_iff [OF assms(2)] by (auto simp: upcoming_wf_def)
  then have d: "distinct (map ?c ?ids)" using uid by (auto simp: distinct_map intro: inj_on_inverseI [of _ uk_id])
  have inj: "inj_on check_order (set (map ?c ?ids))"
  proof (rule inj_onI)
    fix x y
    assume "x \<in> set (map ?c ?ids)" "y \<in> set (map ?c ?ids)" "check_order x = check_order y"
    then obtain i j where "i \<in> set ?ids" "j \<in> set ?ids" "x = ?c i" "y = ?c j" "uk_id x = uk_id y"
      by (auto simp: check_order_def)
    with uid show "x = y" by metis
  qed
  let ?left = "\<lambda>ids. filter (\<lambda>c. merge_target (us_action_by_source st) c = None) (map ?c ids)"
  have "mset (?left ?ids) = mset (?left ?ids')" using m by (simp add: mset_filter)
  then have "sort_key check_order (?left ?ids) = sort_key check_order (?left ?ids')"
    using d inj by (intro sort_key_permuted) (auto simp: inj_on_def)
  then show ?thesis by (simp add: merged_def Let_def merge_items_permuted [OF assms(1) m equalityD1 [OF s]])
qed

definition assemble ::
    "upcoming_codec \<Rightarrow> string \<Rightarrow> 'd LiquidityOverview \<Rightarrow> 'd upcoming_state \<Rightarrow> 'd UpcomingAction list \<times> UpcomingDataCheck list
     \<Rightarrow> 'd UpcomingActions" where
  "assemble J end_on overview st = (\<lambda>(items, data_checks).
     let items = map (finish_item J) items;
         data_checks = map (\<lambda>c. c \<lparr> uk_targets := sortUpcomingTargets J (uk_targets c) \<rparr>) data_checks
     in
       \<lparr> ua_as_of = ov_as_of overview, ua_local_date = ov_local_date overview, ua_timezone = ov_timezone overview,
         ua_window_start_on = ov_local_date overview, ua_window_end_on = end_on, ua_base_currency = ov_base_currency overview,
         ua_completeness = us_completeness st,
         ua_counts = fold count_check data_checks (fold count_item items zero_counts),
         ua_items = sort_key item_order items, ua_data_checks = data_checks,
         ua_scope_warnings = upcomingStrings (us_scope_warnings st @ concat (map item_warnings items)) \<rparr>)"

lemma ProjectUpcomingActions_eq:
  "ProjectUpcomingActions D J range_order overview sources snapshot =
     res_bind (AddCalendarDays (ov_local_date overview) 30) (\<lambda>end_on.
     let st = projected D J end_on overview sources snapshot in Inr (assemble J end_on overview st (merged J range_order st)))"
  unfolding ProjectUpcomingActions_def projected_def merged_def assemble_def Let_def merge_fold prod.case append_Nil ..

section \<open>What the merge keeps\<close>

lemma merge_into_simps [simp]:
  "ui_kind (merge_into J c item) = ui_kind item"
  "ui_reason_codes (merge_into J c item) = upcomingStrings (ui_reason_codes item @ uk_reason_codes c)"
  by (simp_all add: merge_into_def)

lemma length_merge_item [simp]: "length (merge_item J actions c items) = length items"
  by (simp add: merge_item_def split: option.splits)

lemma merge_item_nth:
  "n < length items \<Longrightarrow> merge_item J actions c items ! n
    = (if merge_target actions c = Some n then merge_into J c (items ! n) else items ! n)"
  by (cases "merge_target actions c") (auto simp: merge_item_def nth_list_update_neq)

lemma merge_fold_shape:
  "length (fold (\<lambda>i. merge_item J actions (f i)) ids items) = length items"
  "n < length items \<Longrightarrow> ui_kind (fold (\<lambda>i. merge_item J actions (f i)) ids items ! n) = ui_kind (items ! n)"
  by (induction ids arbitrary: items) (simp_all add: merge_item_nth)

lemma merge_fold_reasons:
  assumes "n < length items"
  shows "ui_reason_codes (fold (\<lambda>i. merge_item J actions (f i)) ids items ! n) \<noteq> []
    \<longleftrightarrow> ui_reason_codes (items ! n) \<noteq> [] \<or> (\<exists>i \<in> set ids. merge_target actions (f i) = Some n \<and> uk_reason_codes (f i) \<noteq> [])"
  using assms
proof (induction ids arbitrary: items)
  case (Cons i ids)
  from Cons.IH [of "merge_item J actions (f i) items"] Cons.prems show ?case by (auto simp: merge_item_nth)
qed simp

text \<open>A gap of the state is still reported by the items or by the checks that are left.\<close>

lemma merged_reports_gap:
  assumes "upcoming_wf st" and "\<And>xs. mset (range_order xs) = mset xs" and "merged J range_order st = (items, data_checks)"
  shows "reports_gap st \<longleftrightarrow>
    (\<exists>item \<in> set items. ui_kind item \<noteq> ''reservation_unresolved'' \<and> ui_reason_codes item \<noteq> [])
    \<or> (\<exists>c \<in> set data_checks. uk_category c = ''data_issue'')"
proof -
  let ?ids = "range_order (map fst (us_checks st))" and ?c = "\<lambda>i. the (map_of (us_checks st) i)"
  let ?t = "merge_target (us_action_by_source st)" and ?n = "length (us_items st)"
  have s: "set ?ids = set (map fst (us_checks st))" using assms(2) by (metis mset_eq_setD)
  have items: "items = fold (\<lambda>i. merge_item J (us_action_by_source st) (?c i)) ?ids (us_items st)"
    and left: "set data_checks = {?c i | i. i \<in> set ?ids \<and> ?t (?c i) = None}"
    using assms(3) by (auto simp: merged_def Let_def)
  have len: "length items = ?n" unfolding items by (rule merge_fold_shape)
  have kind: "ui_kind (items ! n) = ui_kind (us_items st ! n)" if "n < ?n" for n
    unfolding items using that by (rule merge_fold_shape)
  have reasons: "uk_reason_codes (?c i) \<noteq> []" if "i \<in> set ?ids" for i
    using filed(1) [OF assms(1)] that by (simp add: s filed_check_def)
  have gap: "ui_reason_codes (items ! n) \<noteq> [] \<longleftrightarrow> ui_reason_codes (us_items st ! n) \<noteq> [] \<or> (\<exists>i \<in> set ?ids. ?t (?c i) = Some n)"
    if "n < ?n" for n
    unfolding items merge_fold_reasons [OF that] using reasons by blast
  have hit: "n < ?n \<and> ui_kind (us_items st ! n) \<noteq> ''reservation_unresolved'' \<and> uk_category c = ''data_issue''" if "?t c = Some n" for n c
    using that assms(1) by (auto simp: merge_target_def upcoming_wf_def dest!: map_of_SomeD split: if_splits)
  have checks: "(\<exists>(i, c) \<in> set (us_checks st). uk_category c = ''data_issue'') \<longleftrightarrow> (\<exists>i \<in> set ?ids. uk_category (?c i) = ''data_issue'')"
    using assms(1) filed(2) [OF assms(1)] unfolding s by (auto simp: upcoming_wf_def bex_pairs) (metis fst_conv image_eqI map_of_is_SomeI option.sel)
  have item: "(\<exists>item \<in> set xs. P item) \<longleftrightarrow> (\<exists>n < length xs. P (xs ! n))" for xs :: "'a UpcomingAction list" and P
    by (metis in_set_conv_nth)
  have "(\<exists>item \<in> set items. ui_kind item \<noteq> ''reservation_unresolved'' \<and> ui_reason_codes item \<noteq> [])
    \<longleftrightarrow> (\<exists>item \<in> set (us_items st). ui_kind item \<noteq> ''reservation_unresolved'' \<and> ui_reason_codes item \<noteq> [])
      \<or> (\<exists>i \<in> set ?ids. ?t (?c i) \<noteq> None)"
    unfolding item len using kind gap hit by (metis option.exhaust option.simps(3))
  moreover have "(\<exists>i \<in> set ?ids. uk_category (?c i) = ''data_issue'')
    \<longleftrightarrow> (\<exists>i \<in> set ?ids. ?t (?c i) \<noteq> None) \<or> (\<exists>c \<in> set data_checks. uk_category c = ''data_issue'')"
    unfolding left using hit by fastforce
  ultimately show ?thesis unfolding reports_gap_def checks by blast
qed

section \<open>Counts\<close>

lemma count_items:
  fixes items :: "'d UpcomingAction list"
  defines "shown \<equiv> filter (\<lambda>i. ui_group i \<noteq> ''eligible'') items"
  shows "uc_total (fold count_item items c) = uc_total c + int (length shown)"
    "uc_eligible (fold count_item items c) = uc_eligible c + int (length items) - int (length shown)"
    "uc_attention (fold count_item items c) = uc_attention c + int (length (filter (\<lambda>i. ui_group i = ''attention'') shown))"
    "uc_attention (fold count_item items c) + uc_scheduled (fold count_item items c)
      = uc_attention c + uc_scheduled c + int (length shown)"
    "uc_data_checks (fold count_item items c) = uc_data_checks c" "uc_scope_notes (fold count_item items c) = uc_scope_notes c"
  unfolding shown_def by (induction items arbitrary: c) (simp_all add: count_item_def Let_def)

lemma count_checks:
  "uc_data_checks (fold count_check cs c) = uc_data_checks c + int (length (filter (\<lambda>k. uk_category k = ''data_issue'') cs))"
  "uc_data_checks (fold count_check cs c) + uc_scope_notes (fold count_check cs c) = uc_data_checks c + uc_scope_notes c + int (length cs)"
  "uc_total (fold count_check cs c) = uc_total c" "uc_attention (fold count_check cs c) = uc_attention c"
  "uc_scheduled (fold count_check cs c) = uc_scheduled c" "uc_eligible (fold count_check cs c) = uc_eligible c"
  by (induction cs arbitrary: c) (simp_all add: count_check_def)

section \<open>Dates of a schedule\<close>

text \<open>A date as the code stores it.\<close>

definition civil_text :: "string \<Rightarrow> bool" where
  "civil_text d \<longleftrightarrow> (case parseCivilTime ''date'' d of Inr n \<Rightarrow> plain_day n \<and> day_text n = d | Inl _ \<Rightarrow> False)"

lemma civil_textE:
  assumes "civil_text d"
  obtains n where "plain_day n" and "d = day_text n"
  using assms by (auto simp: civil_text_def split: sum.splits)

lemma ParseCivilDate_day_text: "plain_day n \<Longrightarrow> ParseCivilDate field (day_text n) = Inr (day_text n)"
proof -
  assume p: "plain_day n"
  obtain y m d where c: "civil_of_days n = (y, m, d)" by (metis surj_pair)
  note k = civil_of_days_correct [OF c] and y = plain_day_year [OF c p]
  have "valid_date y m d" using k by (simp add: valid_date_def)
  then show ?thesis using ParseCivilDate_text [OF _ y] by (simp add: day_text_def c)
qed

text \<open>What a receipt is due to, from the evaluation of the source.\<close>

lemma charge_fee_receipt:
  "charge_fee D source policy fee reason action route gross = Inr route' \<Longrightarrow> lr_receipt_on route' = lr_receipt_on route"
  unfolding charge_fee_def by (elim res_elims) (auto split: prod.splits if_splits)

lemma buildNormalRoute_receipt:
  assumes "buildNormalRoute D today source policy = Inr normal" and "lr_receipt_on normal = Some r"
  shows "snd (receiptOn policy today False (ls_contract source)) = Inr r"
proof -
  obtain as el where el: "actionEligibleOn policy today False (ls_contract source) = (as, el)" by (metis surj_pair)
  obtain bs rc where rc: "receiptOn policy today False (ls_contract source) = (bs, rc)" by (metis surj_pair)
  show ?thesis
    using assms unfolding buildNormalRoute_def Let_def el rc
    by (auto simp: new_route_def res_bind_eq_Inr dest!: charge_fee_receipt split: if_splits sum.splits option.splits)
qed

lemma evaluateSource_normal:
  assumes "evaluateSource D q today horizons source requested convert = Inr s" and "lo_normal_route s = Some normal"
  obtains policy where "lo_policy s = Some policy" and "buildNormalRoute D today source policy = Inr normal"
    and "lo_due_unconfirmed s = productReceiptUnconfirmed (ls_contract source) policy today (Some normal)"
  using assms
  by (auto simp: evaluateSource_def evaluate_policy_def evaluate_routes_def source_result_def Let_def res_bind_eq_Inr
      split: if_splits prod.splits sum.splits)

lemma evaluateSource_due:
  assumes "evaluateSource D q today horizons source requested convert = Inr s" and "lo_due_unconfirmed s"
    and "Option.bind (lo_normal_route s) lr_receipt_on = Some r"
  shows "r \<le> today"
proof -
  obtain normal where n: "lo_normal_route s = Some normal" "lr_receipt_on normal = Some r" using assms(3) by (cases "lo_normal_route s") auto
  obtain policy where "lo_due_unconfirmed s = productReceiptUnconfirmed (ls_contract source) policy today (Some normal)"
    by (rule evaluateSource_normal [OF assms(1) n(1)])
  then show ?thesis
    using assms(2) n(2) by (auto simp: productReceiptUnconfirmed_def compareCivilDates_def split: option.splits if_splits)
qed

lemma evaluateSource_override:
  assumes "evaluateSource D q today horizons source requested convert = Inr s" and "override_of s = Some v" and "civil_text v"
    and "Option.bind (ls_contract source) pc_maturity_on = None" and "Option.bind (lo_normal_route s) lr_receipt_on = Some r"
  shows "r = v"
proof -
  obtain normal where n: "lo_normal_route s = Some normal" "lr_receipt_on normal = Some r" using assms(5) by (cases "lo_normal_route s") auto
  obtain policy where p: "lo_policy s = Some policy" "buildNormalRoute D today source policy = Inr normal"
    by (rule evaluateSource_normal [OF assms(1) n(1)])
  obtain k where k: "plain_day k" "v = day_text k" using assms(3) by (rule civil_textE)
  have "snd (receiptOn policy today False (ls_contract source)) = Inr r" by (rule buildNormalRoute_receipt [OF p(2) n(2)])
  moreover have "lp_receipt_on_override policy = Some (day_text k)" using assms(2) p(1) k(2) by (simp add: override_of_def)
  ultimately show ?thesis
    by (auto simp: receiptOn_def scheduled_receipt_def assms(4) ParseCivilDate_day_text [OF k(1)] k(2) Let_def split: sum.splits if_splits)
qed

lemma days_from_today_texts:
  assumes "plain_day t" and "plain_day n"
  shows "days_from_today (day_text t) (day_text n) = max (- 106751) (min (n - t) 106751)"
proof (cases "t \<le> n")
  case True
  then have "\<not> day_text n < day_text t" using day_text_less [OF assms(2,1)] by simp
  with True show ?thesis
    using CivilDaysBetween_days [OF parseCivilTime_day_text [OF assms(1)] parseCivilTime_day_text [OF assms(2)] True]
    by (simp add: days_from_today_def not_less)
next
  case False
  then have "day_text n < day_text t" using day_text_less [OF assms(2,1)] by simp
  then have "\<not> day_text t \<le> day_text n" by (simp add: leD)
  with False show ?thesis
    using CivilDaysBetween_days [OF parseCivilTime_day_text [OF assms(2)] parseCivilTime_day_text [OF assms(1)]]
    by (simp add: days_from_today_def min_def max_def)
qed

lemma day_text_order:
  assumes "plain_day x" and "plain_day y"
  shows "day_text x < day_text y \<longleftrightarrow> x < y" "day_text y < day_text x \<longleftrightarrow> y < x" "day_text x \<le> day_text y \<longleftrightarrow> x \<le> y"
    "day_text y \<le> day_text x \<longleftrightarrow> y \<le> x" "day_text x = day_text y \<longleftrightarrow> x = y" "day_text y = day_text x \<longleftrightarrow> y = x"
proof -
  note l = day_text_less [OF assms] day_text_less [OF assms(2,1)]
  show "day_text x < day_text y \<longleftrightarrow> x < y" "day_text y < day_text x \<longleftrightarrow> y < x" by (rule l)+
  show "day_text x \<le> day_text y \<longleftrightarrow> x \<le> y" "day_text y \<le> day_text x \<longleftrightarrow> y \<le> x" using l by (simp_all add: not_less [symmetric])
  show "day_text x = day_text y \<longleftrightarrow> x = y" "day_text y = day_text x \<longleftrightarrow> y = x"
    using l by (metis linorder_neqE order_less_irrefl)+
qed

text \<open>Where the date of an item lies, by its phase.\<close>

definition phase_agrees :: "'d UpcomingAction \<Rightarrow> int \<Rightarrow> int \<Rightarrow> bool" where
  "phase_agrees item t n \<longleftrightarrow>
     (if ui_phase item = ''receipt_due'' then n \<le> t \<and> ui_group item = ''attention'' \<and> ui_priority item = 0
      else if ui_phase item = ''blocked''
      then n \<le> t + 30 \<and> (ui_group item, ui_priority item) = (if n \<le> t then (''attention'', 2) else (''scheduled'', 4))
      else if ui_phase item = ''today'' then n = t \<and> ui_group item = ''scheduled'' \<and> ui_priority item = 3
      else if ui_phase item = ''awaiting_receipt'' \<or> ui_phase item = ''scheduled_receipt''
      then t < n \<and> ui_group item = ''scheduled'' \<and> ui_priority item = 4
      else if ui_phase item = ''upcoming'' then t < n \<and> n \<le> t + 30 \<and> ui_group item = ''scheduled'' \<and> ui_priority item = 4
      else ui_phase item = ''eligible'' \<and> n < t \<and> ui_group item = ''eligible'' \<and> ui_priority item = 5)"

lemma anchor_ofD:
  assumes "anchor_of s raw = Some (anchor, kind)"
  shows "anchor \<in> set_option (maturity_of raw) \<union> set_option (unlock_of s) \<union> set_option (override_of s)"
  using assms by (auto simp: anchor_of_def split: option.splits if_splits)

lemma schedule_phase_cases:
  assumes "schedule_phase s raw anchor kind today end_on = Some res"
  defines "receipt \<equiv> Option.bind (lo_normal_route s) lr_receipt_on"
  shows "(\<exists>r. res = (''receipt_due'', ''attention'', 0, Some r) \<and> lo_due_unconfirmed s \<and> receipt = Some r)
    \<or> (\<exists>m. res = (''blocked'', if m \<le> today then ''attention'' else ''scheduled'', if m \<le> today then 2 else 4, Some m)
         \<and> maturity_of raw = Some m \<and> \<not> end_on < m)
    \<or> res = (''today'', ''scheduled'', 3, Some today)
    \<or> (\<exists>r. res = (''awaiting_receipt'', ''scheduled'', 4, Some r) \<and> today < r \<and> receipt = Some r)
    \<or> (\<exists>v r. res = (''scheduled_receipt'', ''scheduled'', 4, Some r) \<and> is_managed raw \<and> maturity_of raw = None
         \<and> override_of s = Some v \<and> today < v \<and> receipt = Some r)
    \<or> res = (''upcoming'', ''scheduled'', 4, Some anchor) \<and> today < anchor \<and> anchor \<le> end_on
    \<or> res = (''eligible'', ''eligible'', 5, Some anchor) \<and> anchor < today"
proof -
  have timed: "receipt \<noteq> None" if "timing_known s"
    using that by (auto simp: timing_known_def receipt_def Option.is_none_def split: option.splits)
  obtain m where m: "maturity_of raw = m" by blast
  show ?thesis
    using assms(1) timed unfolding schedule_phase_def Let_def m receipt_def [symmetric]
    by (cases m; cases receipt) (auto simp: Option.is_none_def split: if_splits option.splits)
qed

lemma set_option_bind_maturity: "is_managed raw \<Longrightarrow> maturity_of raw = None \<Longrightarrow> Option.bind (ls_contract raw) pc_maturity_on = None"
  by (simp add: is_managed_def maturity_of_def)

section \<open>Properties\<close>

text \<open>C22. The order in which Go ranges over the map of checks has no effect on the projection: for any two
  orders of ranging the results are equal, in every field.\<close>

theorem ProjectUpcomingActions_order_free:
  assumes "\<And>xs. mset (range_order xs) = mset xs" and "\<And>xs. mset (range_order' xs) = mset xs"
  shows "ProjectUpcomingActions D J range_order overview sources snapshot
    = ProjectUpcomingActions D J range_order' overview sources snapshot"
proof -
  have "merged J range_order (projected D J end_on overview sources snapshot)
    = merged J range_order' (projected D J end_on overview sources snapshot)" for end_on
    by (rule merged_permuted [OF projected_wf assms])
  then show ?thesis unfolding ProjectUpcomingActions_eq by simp
qed

definition sample_codec :: upcoming_codec where
  "sample_codec = \<lparr> marshal_target = ut_kind, marshal_strings = concat \<rparr>"

definition sample_overview :: "dec LiquidityOverview" where
  "sample_overview =
     \<lparr> ov_as_of = 0, ov_local_date = ''2026-08-03'', ov_timezone = ''UTC'', ov_base_currency = ''USD'', ov_assumptions = [],
       ov_buckets = [], ov_sources = [sample_result sample_horizons], ov_unresolved_reservations = [] \<rparr>"

definition sample_snapshot :: "dec LiquiditySnapshot" where
  "sample_snapshot = \<lparr> sn_accounts = [], sn_holdings = [], sn_reservations = [] \<rparr>"

theorem ProjectUpcomingActions_order_free_witness:
  "(\<forall>xs :: string list. mset (rev xs) = mset xs)
   \<and> ProjectUpcomingActions ref_decimal sample_codec id sample_overview [sample_source] sample_snapshot
     = ProjectUpcomingActions ref_decimal sample_codec rev sample_overview [sample_source] sample_snapshot"
  using ProjectUpcomingActions_order_free [of id rev ref_decimal sample_codec sample_overview "[sample_source]" sample_snapshot] by simp

text \<open>C23. The projection accounts for every gap: it calls itself partial exactly when it counts a data check
  or one of its items gives a reason, where an item for a reservation whose source cannot be found
  does not count: it carries a reason and leaves the projection complete.  Its counts are those of
  its lists, and the items are in the order of the display.\<close>

theorem ProjectUpcomingActions_accounts:
  assumes "\<And>xs. mset (range_order xs) = mset xs"
    and "ProjectUpcomingActions D J range_order overview sources snapshot = Inr out"
  defines "shown \<equiv> filter (\<lambda>i. ui_group i \<noteq> ''eligible'') (ua_items out)"
  shows "ua_completeness out
      = (if uc_data_checks (ua_counts out) \<noteq> 0
           \<or> (\<exists>item \<in> set (ua_items out). ui_kind item \<noteq> ''reservation_unresolved'' \<and> ui_reason_codes item \<noteq> [])
         then StatusPartial else StatusComplete)
    \<and> uc_total (ua_counts out) = int (length shown)
    \<and> uc_eligible (ua_counts out) = int (length (ua_items out)) - int (length shown)
    \<and> uc_attention (ua_counts out) = int (length (filter (\<lambda>i. ui_group i = ''attention'') shown))
    \<and> uc_attention (ua_counts out) + uc_scheduled (ua_counts out) = uc_total (ua_counts out)
    \<and> uc_data_checks (ua_counts out) + uc_scope_notes (ua_counts out) = int (length (ua_data_checks out))
    \<and> sorted (map item_order (ua_items out))"
proof -
  obtain end_on where o: "out = assemble J end_on overview (projected D J end_on overview sources snapshot)
      (merged J range_order (projected D J end_on overview sources snapshot))"
    using assms(2) unfolding ProjectUpcomingActions_eq by (auto simp: res_bind_eq_Inr Let_def)
  let ?st = "projected D J end_on overview sources snapshot"
  obtain items cs where m: "merged J range_order ?st = (items, cs)" by (metis surj_pair)
  let ?items = "map (finish_item J) items" and ?cs = "map (\<lambda>c. c \<lparr> uk_targets := sortUpcomingTargets J (uk_targets c) \<rparr>) cs"
  let ?counts = "fold count_check ?cs (fold count_item ?items zero_counts)"
  have out: "ua_items out = sort_key item_order ?items" "ua_data_checks out = ?cs" "ua_counts out = ?counts"
    "ua_completeness out = (if reports_gap ?st then StatusPartial else StatusComplete)"
    unfolding o m assemble_def Let_def by (simp_all add: projected_completeness)
  have "reports_gap ?st \<longleftrightarrow>
      (\<exists>item \<in> set (ua_items out). ui_kind item \<noteq> ''reservation_unresolved'' \<and> ui_reason_codes item \<noteq> [])
      \<or> (\<exists>c \<in> set ?cs. uk_category c = ''data_issue'')"
    unfolding merged_reports_gap [OF projected_wf assms(1) m] out by (simp add: finish_item_def)
  moreover have "(\<exists>c \<in> set ?cs. uk_category c = ''data_issue'') \<longleftrightarrow> uc_data_checks ?counts \<noteq> 0"
    by (simp add: count_items count_checks zero_counts_def filter_empty_conv)
  ultimately have "ua_completeness out
      = (if uc_data_checks (ua_counts out) \<noteq> 0
           \<or> (\<exists>item \<in> set (ua_items out). ui_kind item \<noteq> ''reservation_unresolved'' \<and> ui_reason_codes item \<noteq> [])
         then StatusPartial else StatusComplete)"
    unfolding out(4) by (auto simp: out(3))
  moreover have "int (length shown) = int (length (filter (\<lambda>i. ui_group i \<noteq> ''eligible'') ?items))"
    "int (length (filter (\<lambda>i. ui_group i = ''attention'') shown))
      = int (length (filter (\<lambda>i. ui_group i = ''attention'') (filter (\<lambda>i. ui_group i \<noteq> ''eligible'') ?items)))"
    unfolding shown_def out filter_filter length_filter_sort by (rule refl)+
  moreover have "length (ua_items out) = length ?items" "length (ua_data_checks out) = length ?cs" by (simp_all only: out length_sort)
  moreover have "sorted (map item_order (ua_items out))" by (simp add: out)
  ultimately show ?thesis
    using count_items [of ?items zero_counts] count_checks [of ?cs "fold count_item ?items zero_counts"]
    unfolding out(3) by (simp only: zero_counts_def UpcomingCounts.simps add_0 simp_thms)
qed

lemma sample_window: "AddCalendarDays ''2026-08-03'' 30 = Inr ''2026-09-02''"
  by code_simp

theorem ProjectUpcomingActions_accounts_witness:
  "\<exists>out. ProjectUpcomingActions ref_decimal sample_codec rev sample_overview [sample_source] sample_snapshot = Inr out
     \<and> uc_attention (ua_counts out) + uc_scheduled (ua_counts out) = uc_total (ua_counts out)
     \<and> uc_data_checks (ua_counts out) + uc_scope_notes (ua_counts out) = int (length (ua_data_checks out))
     \<and> sorted (map item_order (ua_items out))"
proof -
  obtain out where o: "ProjectUpcomingActions ref_decimal sample_codec rev sample_overview [sample_source] sample_snapshot = Inr out"
    by (simp add: ProjectUpcomingActions_eq sample_overview_def sample_window Let_def)
  with ProjectUpcomingActions_accounts [OF _ o] show ?thesis by simp
qed

text \<open>C24. The schedule of an evaluated source, in a window of 30 days from today with all dates stored as
  civil dates: its item carries a date and the days to it (which the clock's durations limit to
  106751), and its phase, group and priority agree with where the date lies: due receipts are in the
  past, blocked ones within the window, awaited ones ahead, upcoming ones ahead within the window and
  eligible ones behind.\<close>

theorem upcomingSchedule_phases:
  assumes "evaluateSource D q (day_text t) horizons raw requested convert = Inr s"
    and "plain_day t" and "plain_day (t + 30)"
    and "\<forall>d \<in> set_option (maturity_of raw) \<union> set_option (unlock_of s) \<union> set_option (override_of s)
           \<union> set_option (Option.bind (lo_normal_route s) lr_receipt_on). civil_text d"
    and "upcomingSchedule J s raw (day_text t) (day_text (t + 30)) = Some item"
  shows "\<exists>n. ui_sort_on item = Some (day_text n) \<and> phase_agrees item t n
    \<and> ui_days_from_today item = Some (max (- 106751) (min (n - t) 106751))"
proof -
  let ?today = "day_text t" and ?until = "day_text (t + 30)"
  obtain anchor kind where a: "anchor_of s raw = Some (anchor, kind)"
    using assms(5) by (auto simp: upcomingSchedule_def split: option.splits prod.splits)
  obtain phase grp priority sortOn where p: "schedule_phase s raw anchor kind ?today ?until = Some (phase, grp, priority, sortOn)"
    using assms(5) a by (auto simp: upcomingSchedule_def split: option.splits prod.splits)
  have item: "ui_phase item = phase" "ui_group item = grp" "ui_priority item = priority" "ui_sort_on item = sortOn"
    "ui_days_from_today item = map_option (days_from_today ?today) sortOn"
    using assms(5) a p by (auto simp: upcomingSchedule_def)
  have goal: ?thesis if d: "sortOn = Some d" "civil_text d" and agrees: "\<And>n. plain_day n \<Longrightarrow> d = day_text n \<Longrightarrow> phase_agrees item t n" for d
  proof -
    obtain n where n: "plain_day n" "d = day_text n" using d(2) by (rule civil_textE)
    show ?thesis
      by (rule exI [of _ n]) (simp add: item d(1) n(2) agrees [OF n] days_from_today_texts [OF assms(2) n(1)])
  qed
  have today: "civil_text ?today" using assms(2) by (simp add: civil_text_def parseCivilTime_day_text)
  note dates = assms(4) [THEN bspec] anchor_ofD [OF a]
  note texts = day_text_order [OF assms(2)] day_text_order [OF assms(3)]
  from schedule_phase_cases [OF p] show ?thesis
  proof (elim disjE exE conjE)
    fix r
    assume "(phase, grp, priority, sortOn) = (''receipt_due'', ''attention'', 0, Some r)" "lo_due_unconfirmed s"
      and r: "Option.bind (lo_normal_route s) lr_receipt_on = Some r"
    with evaluateSource_due [OF assms(1) _ r] dates(1) [of r] show ?thesis
      by (intro goal [of r]) (auto simp: phase_agrees_def item texts)
  next
    fix m
    assume "(phase, grp, priority, sortOn)
        = (''blocked'', if m \<le> ?today then ''attention'' else ''scheduled'', if m \<le> ?today then 2 else 4, Some m)"
      "maturity_of raw = Some m" "\<not> ?until < m"
    with dates(1) [of m] show ?thesis by (intro goal [of m]) (auto simp: phase_agrees_def item texts)
  next
    assume "(phase, grp, priority, sortOn) = (''today'', ''scheduled'', 3, Some ?today)"
    with today show ?thesis by (intro goal [of ?today]) (auto simp: phase_agrees_def item texts)
  next
    fix r
    assume "(phase, grp, priority, sortOn) = (''awaiting_receipt'', ''scheduled'', 4, Some r)" "?today < r"
      "Option.bind (lo_normal_route s) lr_receipt_on = Some r"
    with dates(1) [of r] show ?thesis by (intro goal [of r]) (auto simp: phase_agrees_def item texts)
  next
    fix v r
    assume v: "(phase, grp, priority, sortOn) = (''scheduled_receipt'', ''scheduled'', 4, Some r)" "is_managed raw"
      "maturity_of raw = None" "override_of s = Some v" "?today < v" "Option.bind (lo_normal_route s) lr_receipt_on = Some r"
    then have "r = v" using evaluateSource_override [OF assms(1) v(4) _ set_option_bind_maturity v(6)] dates(1) [of v] by auto
    with v dates(1) [of v] show ?thesis by (intro goal [of r]) (auto simp: phase_agrees_def item texts)
  next
    assume "(phase, grp, priority, sortOn) = (''upcoming'', ''scheduled'', 4, Some anchor)" "?today < anchor" "anchor \<le> ?until"
    with dates(2) dates(1) [of anchor] show ?thesis by (intro goal [of anchor]) (auto simp: phase_agrees_def item texts)
  next
    assume "(phase, grp, priority, sortOn) = (''eligible'', ''eligible'', 5, Some anchor)" "anchor < ?today"
    with dates(2) dates(1) [of anchor] show ?thesis by (intro goal [of anchor]) (auto simp: phase_agrees_def item texts)
  qed
qed

lemma sample_schedule:
  "day_text 739830 = ''2026-08-03''" "day_text 739860 = ''2026-09-02''" "day_text 739847 = ''2026-08-20''"
  "anchor_of (sample_result sample_horizons) sample_source = Some (''2026-08-20'', ''eligibility'')"
  "schedule_phase (sample_result sample_horizons) sample_source ''2026-08-20'' ''eligibility'' ''2026-08-03'' ''2026-09-02''
     = Some (''upcoming'', ''scheduled'', 4, Some ''2026-08-20'')"
  "days_from_today ''2026-08-03'' ''2026-08-20'' = 17"
  "maturity_of sample_source = None" "unlock_of (sample_result sample_horizons) = Some ''2026-08-20''"
  "override_of (sample_result sample_horizons) = None" "civil_text ''2026-08-20''"
  "Option.bind (lo_normal_route (sample_result sample_horizons)) lr_receipt_on = Some ''2026-08-20''"
  by code_simp+

theorem upcomingSchedule_phases_witness:
  "\<exists>item n. upcomingSchedule sample_codec (sample_result sample_horizons) sample_source ''2026-08-03'' ''2026-09-02'' = Some item
     \<and> ui_phase item = ''upcoming'' \<and> ui_sort_on item = Some (day_text n) \<and> phase_agrees item 739830 n
     \<and> ui_days_from_today item = Some (max (- 106751) (min (n - 739830) 106751))"
proof -
  obtain item where i: "upcomingSchedule sample_codec (sample_result sample_horizons) sample_source ''2026-08-03'' ''2026-09-02'' = Some item"
    "ui_phase item = ''upcoming''"
    by (simp add: upcomingSchedule_def sample_schedule(4,5))
  have "\<exists>n. ui_sort_on item = Some (day_text n) \<and> phase_agrees item 739830 n
    \<and> ui_days_from_today item = Some (max (- 106751) (min (n - 739830) 106751))"
  proof (rule upcomingSchedule_phases)
    show "evaluateSource ref_decimal (sample_query None) (day_text 739830) sample_horizons sample_source (zero_money ref_decimal)
        (Some same_currency) = Inr (sample_result sample_horizons)"
      unfolding sample_schedule by (rule sample_evaluated)
    show "upcomingSchedule sample_codec (sample_result sample_horizons) sample_source (day_text 739830) (day_text (739830 + 30)) = Some item"
      using i(1) by (simp add: sample_schedule(1,2))
    show "\<forall>d \<in> set_option (maturity_of sample_source) \<union> set_option (unlock_of (sample_result sample_horizons))
        \<union> set_option (override_of (sample_result sample_horizons))
        \<union> set_option (Option.bind (lo_normal_route (sample_result sample_horizons)) lr_receipt_on). civil_text d"
      unfolding sample_schedule(7-11) by (simp add: sample_schedule(10))
  qed (simp_all add: plain_day_def)
  with i show ?thesis by blast
qed

end
