(* ===== verification/ReviewRule.thy ===== *)
theory ReviewRule
  imports LiquidityCalendar Valuation CivilDate "HOL-Library.AList"
begin

text \<open>
  Rules of the review component: \<^verbatim>\<open>internal/domain/review_rule_spec.go\<close>, with the trigger policy of
  \<^verbatim>\<open>internal/domain/review_daily_policy.go\<close> and the lookback windows of
  \<^verbatim>\<open>internal/domain/quote_performance.go\<close>.  A rule is a tree of conditions; normalisation checks it
  and brings equal rules to one form.  The JSON encoding by which siblings are sorted is code of a
  third-party package and the argument \<open>marshal\<close>; the time zones of the system are the argument
  \<open>load_location\<close>.  A Go slice that may be nil is an optional list.
\<close>

section \<open>Rules\<close>

type_synonym ReviewRuleID = string

record ReviewRuleTarget =
  rt_kind :: string
  rt_instrument_ids :: "InstrumentID list"

record ReviewRuleSchedule =
  rs_period :: string
  rs_timezone :: string
  rs_cutoff_version :: string

record ReviewRuleDataPolicy =
  dp_missing :: string
  dp_calendar :: string
  dp_quote_carry :: string
  dp_baseline_max_gap_days :: int
  dp_fx_reference_max_age_days :: int
  dp_fx_timestamp_max_age_hours :: int

definition DefaultReviewRuleDataPolicy :: ReviewRuleDataPolicy where
  "DefaultReviewRuleDataPolicy =
     \<lparr> dp_missing = ''unknown'', dp_calendar = ''all_civil_days'', dp_quote_carry = ''forbid_for_daily_signal'',
       dp_baseline_max_gap_days = 7, dp_fx_reference_max_age_days = 7, dp_fx_timestamp_max_age_hours = 12 \<rparr>"

record ReviewRuleLeaf =
  rl_metric :: string
  rl_operator :: string
  rl_value :: string
  rl_currency :: CurrencyCode
  rl_fx_mode :: string
  rl_lookback_days :: int
  rl_instrument_ids :: "InstrumentID list"
  rl_types :: "InstrumentType list"

datatype ReviewPredicateNode =
  ReviewPredicateNode (node_all: "ReviewPredicateNode list option") (node_any: "ReviewPredicateNode list option")
    (node_leaf: "ReviewRuleLeaf option")

record ReviewTriggerPolicy =
  tp_kind :: string
  tp_count :: int
  tp_window_days :: int
  tp_min_hits :: int

record ReviewRuleSpec =
  sp_spec_version :: int
  sp_metric_policy_version :: string
  sp_evaluator :: string
  sp_target :: ReviewRuleTarget
  sp_predicate :: ReviewPredicateNode
  sp_schedule :: ReviewRuleSchedule
  sp_trigger_policy :: ReviewTriggerPolicy
  sp_data_policy :: ReviewRuleDataPolicy

section \<open>The trigger policy\<close>

definition single_policy :: ReviewTriggerPolicy where
  "single_policy = \<lparr> tp_kind = ''single'', tp_count = 0, tp_window_days = 0, tp_min_hits = 0 \<rparr>"

definition en_dash :: string where
  "en_dash = bytes [226, 128, 147]"

definition policy_unsupported :: err where
  "policy_unsupported = validation ''triggerPolicy''
     (''use single, consecutive(1'' @ en_dash @ ''365), or rolling(1'' @ en_dash @ ''365 days, 1'' @ en_dash
       @ ''windowDays hits) without unrelated parameters'')"

definition ReviewTriggerPolicy_Normalize :: "ReviewTriggerPolicy \<Rightarrow> ReviewTriggerPolicy res" where
  "ReviewTriggerPolicy_Normalize p =
     (if tp_kind p = ''single'' then
        if tp_count p = 0 \<and> tp_window_days p = 0 \<and> tp_min_hits p = 0 then Inr p else Inl policy_unsupported
      else if tp_kind p = ''consecutive'' then
        if 1 \<le> tp_count p \<and> tp_count p \<le> 365 \<and> tp_window_days p = 0 \<and> tp_min_hits p = 0
        then if tp_count p = 1 then Inr single_policy else Inr p
        else Inl policy_unsupported
      else if tp_kind p = ''rolling'' then
        if tp_count p = 0 \<and> 1 \<le> tp_window_days p \<and> tp_window_days p \<le> 365 \<and> 1 \<le> tp_min_hits p
           \<and> tp_min_hits p \<le> tp_window_days p
        then if tp_window_days p = 1 then Inr single_policy else Inr p
        else Inl policy_unsupported
      else Inl policy_unsupported)"

section \<open>Conditions\<close>

definition QuotePeriodWindows :: "int list" where
  "QuotePeriodWindows = [7, 30, 90, 180, 365, 0]"

definition ValidQuotePeriodWindow :: "int \<Rightarrow> bool" where
  "ValidQuotePeriodWindow days = list_ex (\<lambda>window. window = days) QuotePeriodWindows"

fun SupportsAnnualizedQuoteReturn :: "InstrumentType \<Rightarrow> bool" where
  "SupportsAnnualizedQuoteReturn t \<longleftrightarrow>
     t = InstrumentBankInvestmentProduct \<or> t = InstrumentMutualFund \<or> t = InstrumentETF"

definition reviewPercentSyntax :: "string \<Rightarrow> bool" where
  "reviewPercentSyntax s =
     decimal_syntax 5 8 (case s of [] \<Rightarrow> [] | c # rest \<Rightarrow> if c = CHR ''-'' then rest else s)"

text \<open>\<^verbatim>\<open>slices.Sort\<close> followed by \<^verbatim>\<open>slices.Compact\<close>, here on texts.\<close>

fun parse_ids :: "InstrumentID list \<Rightarrow> InstrumentID list res" where
  "parse_ids [] = Inr []"
| "parse_ids (i # is) = res_bind (ParseInstrumentID i) (\<lambda>parsed. res_bind (parse_ids is) (\<lambda>rest. Inr (parsed # rest)))"

definition normalizeReviewIDs :: "InstrumentID list \<Rightarrow> InstrumentID list res" where
  "normalizeReviewIDs ids = res_bind (parse_ids ids) (\<lambda>result. Inr (remdups_adj (sort result)))"

fun check_types :: "InstrumentType list \<Rightarrow> unit res" where
  "check_types [] = Inr ()"
| "check_types (kind # kinds) = res_bind (ParseInstrumentType (InstrumentType_string kind)) (\<lambda>_. check_types kinds)"

definition decimal_or_zero :: "'d decimal_ops \<Rightarrow> string \<Rightarrow> 'd" where
  "decimal_or_zero D s = (case d_from_string D s of Inl _ \<Rightarrow> d_zero D | Inr v \<Rightarrow> v)"

definition numeric_operators :: "string list" where
  "numeric_operators = [''>'', ''>='', ''<'', ''<='']"

definition normalize_instrument_leaf :: "ReviewRuleLeaf \<Rightarrow> ReviewRuleLeaf res" where
  "normalize_instrument_leaf leaf =
     (if rl_operator leaf \<noteq> ''in'' \<and> rl_operator leaf \<noteq> ''not_in''
      then Inl (validation ''operator'' ''instrument condition requires in or not_in'')
      else if rl_value leaf \<noteq> [] \<or> rl_currency leaf \<noteq> [] \<or> rl_fx_mode leaf \<noteq> [] \<or> rl_lookback_days leaf \<noteq> 0
        \<or> rl_types leaf \<noteq> [] \<or> rl_instrument_ids leaf = [] \<or> 200 < length (rl_instrument_ids leaf)
      then Inl (validation ''condition'' ''invalid instrument condition fields'')
      else res_bind (normalizeReviewIDs (rl_instrument_ids leaf)) (\<lambda>ids. Inr (leaf\<lparr>rl_instrument_ids := ids\<rparr>)))"

definition normalize_type_leaf :: "ReviewRuleLeaf \<Rightarrow> ReviewRuleLeaf res" where
  "normalize_type_leaf leaf =
     (if rl_operator leaf \<noteq> ''in'' \<or> rl_value leaf \<noteq> [] \<or> rl_currency leaf \<noteq> [] \<or> rl_fx_mode leaf \<noteq> []
        \<or> rl_lookback_days leaf \<noteq> 0 \<or> rl_instrument_ids leaf \<noteq> [] \<or> rl_types leaf = []
        \<or> length AllInstrumentTypes < length (rl_types leaf)
      then Inl (validation ''condition'' ''type condition requires a type set'')
      else res_bind (check_types (rl_types leaf)) (\<lambda>_.
        Inr (leaf\<lparr>rl_types := remdups_adj (sort_key InstrumentType_string (rl_types leaf))\<rparr>)))"

definition normalize_money_leaf :: "'d decimal_ops \<Rightarrow> ReviewRuleLeaf \<Rightarrow> ReviewRuleLeaf res" where
  "normalize_money_leaf D leaf =
     (if rl_lookback_days leaf \<noteq> 0 \<or> (rl_fx_mode leaf \<noteq> ''native'' \<and> rl_fx_mode leaf \<noteq> ''convert_on_day'')
      then Inl (validation ''condition'' ''amount and cost require a currency comparison mode'')
      else
        res_bind (ParseSupportedCurrency (rl_currency leaf)) (\<lambda>currency.
        res_bind (ParseMoney D (rl_value leaf) currency) (\<lambda>value.
        if d_exponent D (m_amount value) < - CurrencyFractionDigits currency
        then Inl (validation ''value'' ''threshold exceeds the currency's minor-unit precision'')
        else Inr (leaf\<lparr>rl_currency := currency, rl_value := Money_CanonicalAmount D value\<rparr>))))"

definition normalize_percent_leaf :: "'d decimal_ops \<Rightarrow> ReviewRuleLeaf \<Rightarrow> ReviewRuleLeaf res" where
  "normalize_percent_leaf D leaf =
     (if rl_currency leaf \<noteq> [] \<or> rl_fx_mode leaf \<noteq> [] \<or> \<not> ValidQuotePeriodWindow (rl_lookback_days leaf)
        \<or> rl_lookback_days leaf = 0 \<or> \<not> reviewPercentSyntax (rl_value leaf)
      then Inl (validation ''condition'' ''invalid performance threshold or lookback'')
      else
        res_bind (parse_decimal D (rl_value leaf) (validation ''value'' ''invalid percentage'')) (\<lambda>value.
        if rl_metric leaf = ''price_change'' \<and> d_less_than D value (d_from_int D (- 100))
        then Inl (validation ''value'' ''price change cannot be below -100%'')
        else if d_greater_than D value (d_from_int D 10000) \<or> d_less_than D value (d_from_int D (- 10000))
        then Inl (validation ''value'' ''percentage is outside the supported range'')
        else Inr (leaf\<lparr>rl_value := canonicalDecimal D value\<rparr>)))"

definition normalizeReviewLeaf :: "'d decimal_ops \<Rightarrow> ReviewRuleLeaf \<Rightarrow> ReviewRuleLeaf res" where
  "normalizeReviewLeaf D leaf =
     (if rl_metric leaf = ''instrument'' then normalize_instrument_leaf leaf
      else if rl_metric leaf = ''type'' then normalize_type_leaf leaf
      else if rl_metric leaf \<in> {''amount'', ''cost'', ''price_change'', ''annualized''} then
        if rl_operator leaf \<notin> set numeric_operators then Inl (validation ''operator'' ''use >, >=, <, or <='')
        else if rl_instrument_ids leaf \<noteq> [] \<or> rl_types leaf \<noteq> []
        then Inl (validation ''condition'' ''numeric condition cannot contain a set'')
        else if rl_metric leaf = ''amount'' \<or> rl_metric leaf = ''cost'' then normalize_money_leaf D leaf
        else normalize_percent_leaf D leaf
      else Inl (validation ''metric'' ''unsupported daily condition''))"

section \<open>Intervals of numeric conditions\<close>

record 'd bound =
  bd_value :: 'd
  bd_strict :: bool
  bd_set :: bool

record 'd interval =
  iv_lower :: "'d bound"
  iv_upper :: "'d bound"

definition no_bound :: "'d decimal_ops \<Rightarrow> 'd bound" where
  "no_bound D = \<lparr> bd_value = d_zero D, bd_strict = False, bd_set = False \<rparr>"

definition numeric_metrics :: "string list" where
  "numeric_metrics = [''amount'', ''cost'', ''price_change'', ''annualized'']"

definition interval_key :: "ReviewRuleLeaf \<Rightarrow> string" where
  "interval_key leaf = rl_metric leaf @ ''/'' @ big_string (rl_lookback_days leaf) @ ''/'' @ rl_currency leaf
     @ ''/'' @ rl_fx_mode leaf"

definition new_bound :: "'d decimal_ops \<Rightarrow> ReviewRuleLeaf \<Rightarrow> 'd bound" where
  "new_bound D leaf = \<lparr> bd_value = decimal_or_zero D (rl_value leaf),
     bd_strict = (rl_operator leaf = ''>'' \<or> rl_operator leaf = ''<''), bd_set = True \<rparr>"

definition narrow_interval :: "'d decimal_ops \<Rightarrow> ReviewRuleLeaf \<Rightarrow> 'd interval \<Rightarrow> 'd interval" where
  "narrow_interval D leaf current =
     (let newBound = new_bound D leaf; value = bd_value newBound; lower = iv_lower current; upper = iv_upper current in
      if rl_operator leaf = ''>'' \<or> rl_operator leaf = ''>='' then
        if \<not> bd_set lower \<or> d_greater_than D value (bd_value lower) \<or> (d_equal D value (bd_value lower) \<and> bd_strict newBound)
        then current\<lparr>iv_lower := newBound\<rparr> else current
      else if \<not> bd_set upper \<or> d_less_than D value (bd_value upper) \<or> (d_equal D value (bd_value upper) \<and> bd_strict newBound)
      then current\<lparr>iv_upper := newBound\<rparr> else current)"

definition key_interval :: "'d decimal_ops \<Rightarrow> (string \<times> 'd interval) list \<Rightarrow> string \<Rightarrow> 'd interval" where
  "key_interval D intervals key =
     (case map_of intervals key of Some i \<Rightarrow> i | None \<Rightarrow> \<lparr> iv_lower = no_bound D, iv_upper = no_bound D \<rparr>)"

fun collect_intervals ::
    "'d decimal_ops \<Rightarrow> ReviewPredicateNode list \<Rightarrow> (string \<times> 'd interval) list \<Rightarrow> (string \<times> 'd interval) list" where
  "collect_intervals D [] intervals = intervals"
| "collect_intervals D (child # rest) intervals =
     (case node_leaf child of
        None \<Rightarrow> collect_intervals D rest intervals
      | Some leaf \<Rightarrow>
          if rl_metric leaf \<notin> set numeric_metrics then collect_intervals D rest intervals
          else collect_intervals D rest
            (AList.update (interval_key leaf) (narrow_interval D leaf (key_interval D intervals (interval_key leaf))) intervals))"

definition impossible_interval :: "'d decimal_ops \<Rightarrow> 'd interval \<Rightarrow> bool" where
  "impossible_interval D i \<longleftrightarrow>
     bd_set (iv_lower i) \<and> bd_set (iv_upper i)
     \<and> (d_greater_than D (bd_value (iv_lower i)) (bd_value (iv_upper i))
        \<or> (d_equal D (bd_value (iv_lower i)) (bd_value (iv_upper i)) \<and> (bd_strict (iv_lower i) \<or> bd_strict (iv_upper i))))"

definition validateReviewNumericIntervals :: "'d decimal_ops \<Rightarrow> ReviewPredicateNode list \<Rightarrow> unit res" where
  "validateReviewNumericIntervals D children =
     (if list_ex (\<lambda>(_, i). impossible_interval D i) (collect_intervals D children [])
      then Inl (validation ''predicate'' ''numeric conditions have an impossible interval'')
      else Inr ())"

section \<open>The predicate\<close>

text \<open>
  \<^verbatim>\<open>sort.Slice\<close> by the encoding of a node, then one copy of neighbours with equal encodings.  The
  number of leaves met so far is threaded through the recursion.
\<close>

fun unique_by :: "('a \<Rightarrow> string) \<Rightarrow> 'a list \<Rightarrow> 'a list" where
  "unique_by marshal (a # b # rest) =
     (if marshal a = marshal b then unique_by marshal (a # rest) else a # unique_by marshal (b # rest))"
| "unique_by marshal nodes = nodes"

definition node_error :: "string \<Rightarrow> err" where
  "node_error message = validation ''predicate'' message"

definition finish_group ::
    "'d decimal_ops \<Rightarrow> (ReviewPredicateNode \<Rightarrow> string) \<Rightarrow> bool \<Rightarrow> ReviewPredicateNode list \<Rightarrow> ReviewPredicateNode res" where
  "finish_group D marshal all normalized =
     (let unique = unique_by marshal (sort_key marshal normalized) in
      if all
      then res_bind (validateReviewNumericIntervals D unique) (\<lambda>_. Inr (ReviewPredicateNode (Some unique) None None))
      else Inr (ReviewPredicateNode None (Some unique) None))"

definition leaf_node ::
    "'d decimal_ops \<Rightarrow> nat \<Rightarrow> nat \<Rightarrow> ReviewRuleLeaf \<Rightarrow> (ReviewPredicateNode \<times> nat) res" where
  "leaf_node D depth leaves leaf =
     (if depth = 0 then Inl (node_error ''root must be an all or any group'')
      else if 20 < Suc leaves then Inl (node_error ''at most 20 conditions are supported'')
      else res_bind (normalizeReviewLeaf D leaf) (\<lambda>l. Inr (ReviewPredicateNode None None (Some l), Suc leaves)))"

definition group_size_ok :: "nat \<Rightarrow> 'a list \<Rightarrow> unit res" where
  "group_size_ok depth children =
     (if 2 \<le> depth then Inl (node_error ''at most two group levels are supported'')
      else if children = [] \<or> 20 < length children
      then Inl (node_error (''a group needs 1'' @ en_dash @ ''20 children'')) else Inr ())"

fun normalizeReviewPredicate ::
      "'d decimal_ops \<Rightarrow> (ReviewPredicateNode \<Rightarrow> string) \<Rightarrow> ReviewPredicateNode \<Rightarrow> nat \<Rightarrow> nat \<Rightarrow> (ReviewPredicateNode \<times> nat) res"
  and normalize_children ::
      "'d decimal_ops \<Rightarrow> (ReviewPredicateNode \<Rightarrow> string) \<Rightarrow> ReviewPredicateNode list \<Rightarrow> nat \<Rightarrow> nat
        \<Rightarrow> (ReviewPredicateNode list \<times> nat) res" where
  "normalizeReviewPredicate D marshal (ReviewPredicateNode None None (Some leaf)) depth leaves = leaf_node D depth leaves leaf"
| "normalizeReviewPredicate D marshal (ReviewPredicateNode (Some children) None None) depth leaves =
     res_bind (group_size_ok depth children) (\<lambda>_.
     res_bind (normalize_children D marshal children (Suc depth) leaves) (\<lambda>(normalized, leaves).
     res_bind (finish_group D marshal True normalized) (\<lambda>node. Inr (node, leaves))))"
| "normalizeReviewPredicate D marshal (ReviewPredicateNode None (Some children) None) depth leaves =
     res_bind (group_size_ok depth children) (\<lambda>_.
     res_bind (normalize_children D marshal children (Suc depth) leaves) (\<lambda>(normalized, leaves).
     res_bind (finish_group D marshal False normalized) (\<lambda>node. Inr (node, leaves))))"
| "normalizeReviewPredicate D marshal node depth leaves =
     Inl (node_error ''each node needs exactly one of all, any, or leaf'')"
| "normalize_children D marshal [] depth leaves = Inr ([], leaves)"
| "normalize_children D marshal (child # rest) depth leaves =
     res_bind (normalizeReviewPredicate D marshal child depth leaves) (\<lambda>(item, leaves).
     res_bind (normalize_children D marshal rest depth leaves) (\<lambda>(items, leaves). Inr (item # items, leaves)))"

definition type_gate :: "ReviewPredicateNode \<Rightarrow> bool" where
  "type_gate child =
     (case node_leaf child of
        None \<Rightarrow> False
      | Some leaf \<Rightarrow> rl_metric leaf = ''type'' \<and> rl_operator leaf = ''in'' \<and> rl_types leaf \<noteq> []
          \<and> list_all SupportsAnnualizedQuoteReturn (rl_types leaf))"

fun reviewAnnualizedScoped :: "ReviewPredicateNode \<Rightarrow> bool \<Rightarrow> bool"
  and children_scoped :: "ReviewPredicateNode list \<Rightarrow> bool \<Rightarrow> bool" where
  "reviewAnnualizedScoped (ReviewPredicateNode all any (Some leaf)) supportedOnly =
     (rl_metric leaf \<noteq> ''annualized'' \<or> supportedOnly)"
| "reviewAnnualizedScoped (ReviewPredicateNode (Some all) None None) supportedOnly =
     children_scoped all (supportedOnly \<or> list_ex type_gate all)"
| "reviewAnnualizedScoped (ReviewPredicateNode (Some all) (Some any) None) supportedOnly =
     children_scoped any (supportedOnly \<or> list_ex type_gate all)"
| "reviewAnnualizedScoped (ReviewPredicateNode None (Some any) None) supportedOnly = children_scoped any supportedOnly"
| "reviewAnnualizedScoped (ReviewPredicateNode None None None) supportedOnly = True"
| "children_scoped [] supportedOnly = True"
| "children_scoped (child # rest) supportedOnly =
     (reviewAnnualizedScoped child supportedOnly \<and> children_scoped rest supportedOnly)"

section \<open>The specification\<close>

definition ReviewSpecVersion :: int where "ReviewSpecVersion = 1"
definition ReviewMetricPolicyVersion :: string where "ReviewMetricPolicyVersion = ''daily_metrics_v1''"
definition ReviewEvaluator :: string where "ReviewEvaluator = ''daily_predicate_v1''"
definition ReviewCutoffVersion :: string where "ReviewCutoffVersion = ''civil_day_end_v1''"

definition normalize_target :: "ReviewRuleTarget \<Rightarrow> ReviewRuleTarget res" where
  "normalize_target target =
     (if rt_kind target = ''all_current'' then
        if rt_instrument_ids target \<noteq> []
        then Inl (validation ''target'' ''all-current target cannot include instrument IDs'') else Inr target
      else if rt_kind target = ''instruments'' then
        if rt_instrument_ids target = [] \<or> 200 < length (rt_instrument_ids target)
        then Inl (validation ''target'' (''select 1'' @ en_dash @ ''200 instrument IDs''))
        else res_bind (normalizeReviewIDs (rt_instrument_ids target)) (\<lambda>ids. Inr (target\<lparr>rt_instrument_ids := ids\<rparr>))
      else Inl (validation ''target'' ''unsupported target kind''))"

definition ReviewRuleSpec_Normalize ::
    "'d decimal_ops \<Rightarrow> (ReviewPredicateNode \<Rightarrow> string) \<Rightarrow> (string \<Rightarrow> location option) \<Rightarrow> ReviewRuleSpec \<Rightarrow> ReviewRuleSpec res" where
  "ReviewRuleSpec_Normalize D marshal load_location s =
     (let schedule = sp_schedule s in
      if sp_spec_version s \<noteq> ReviewSpecVersion \<or> sp_metric_policy_version s \<noteq> ReviewMetricPolicyVersion
         \<or> sp_evaluator s \<noteq> ReviewEvaluator
      then Inl (validation ''specVersion'' ''unsupported daily review rule version'')
      else if rs_period schedule \<noteq> ''calendar_day'' \<or> rs_cutoff_version schedule \<noteq> ReviewCutoffVersion
         \<or> trim_space (rs_timezone schedule) \<noteq> rs_timezone schedule \<or> rs_timezone schedule = []
         \<or> rs_timezone schedule = ''Local''
      then Inl (validation ''schedule'' ''a fixed IANA timezone and civil-day cutoff are required'')
      else if Option.is_none (load_location (rs_timezone schedule))
      then Inl (validation ''timezone'' ''must be an available IANA timezone'')
      else if sp_data_policy s \<noteq> DefaultReviewRuleDataPolicy
      then Inl (validation ''dataPolicy'' ''unsupported daily evidence admission policy'')
      else
        res_bind (ReviewTriggerPolicy_Normalize (sp_trigger_policy s)) (\<lambda>policy.
        res_bind (normalize_target (sp_target s)) (\<lambda>target.
        res_bind (normalizeReviewPredicate D marshal (sp_predicate s) 0 0) (\<lambda>(predicate, _).
        if \<not> reviewAnnualizedScoped predicate False
        then Inl (validation ''predicate''
          ''annualized conditions require explicit supported price/NAV types in the same all group'')
        else Inr (s\<lparr>sp_trigger_policy := policy, sp_target := target, sp_predicate := predicate\<rparr>)))))"

section \<open>Intervals are exact\<close>

text \<open>What a numeric condition says of a number, and the numbers an interval admits.\<close>

definition condition_holds :: "'d decimal_ops \<Rightarrow> ReviewRuleLeaf \<Rightarrow> rat \<Rightarrow> bool" where
  "condition_holds D leaf x =
     (let v = d_val D (decimal_or_zero D (rl_value leaf)) in
      if rl_operator leaf = ''>'' then v < x else if rl_operator leaf = ''>='' then v \<le> x
      else if rl_operator leaf = ''<'' then x < v else x \<le> v)"

definition numeric_leaves :: "ReviewPredicateNode list \<Rightarrow> ReviewRuleLeaf list" where
  "numeric_leaves children = filter (\<lambda>l. rl_metric l \<in> set numeric_metrics) (List.map_filter node_leaf children)"

definition admits :: "'d decimal_ops \<Rightarrow> 'd interval \<Rightarrow> rat \<Rightarrow> bool" where
  "admits D i x \<longleftrightarrow>
     (let l = iv_lower i; u = iv_upper i in
      (bd_set l \<longrightarrow> (if bd_strict l then d_val D (bd_value l) < x else d_val D (bd_value l) \<le> x))
      \<and> (bd_set u \<longrightarrow> (if bd_strict u then x < d_val D (bd_value u) else x \<le> d_val D (bd_value u))))"

lemma key_interval_update:
  "key_interval D (AList.update k i al) key = (if key = k then i else key_interval D al key)"
  by (simp add: key_interval_def update_conv')

lemma collect_distinct: "distinct (map fst al) \<Longrightarrow> distinct (map fst (collect_intervals D children al))"
  by (induction D children al rule: collect_intervals.induct) (auto simp: distinct_update split: option.splits)

lemma collect_found:
  "(\<exists>(k, i) \<in> set (collect_intervals D children []). P i) \<longleftrightarrow>
     (\<exists>k i. map_of (collect_intervals D children []) k = Some i \<and> P i)"
  using collect_distinct [of "[]" D children] by fastforce

context decimal_arith
begin

lemma narrow_admits: "admits D (narrow_interval D leaf i) x \<longleftrightarrow> admits D i x \<and> condition_holds D leaf x"
  by (auto simp: admits_def narrow_interval_def condition_holds_def new_bound_def exact Let_def)

lemma unbounded_admits: "admits D (key_interval D [] key) x"
  by (simp add: admits_def key_interval_def no_bound_def)

lemma impossible_iff: "impossible_interval D i \<longleftrightarrow> \<not> (\<exists>x. admits D i x)"
proof -
  let ?l = "d_val D (bd_value (iv_lower i))" and ?u = "d_val D (bd_value (iv_upper i))"
  let ?m = "if bd_set (iv_lower i) then if bd_set (iv_upper i) then (?l + ?u) / 2 else ?l + 1 else ?u - 1"
  have "\<not> impossible_interval D i \<Longrightarrow> admits D i ?m"
    by (auto simp: impossible_interval_def admits_def exact Let_def field_simps)
  moreover have "admits D i x \<Longrightarrow> \<not> impossible_interval D i" for x
    by (auto simp: impossible_interval_def admits_def exact Let_def split: if_splits)
  ultimately show ?thesis by blast
qed

lemma collect_admits:
  "admits D (key_interval D (collect_intervals D children intervals) key) x \<longleftrightarrow>
     admits D (key_interval D intervals key) x
     \<and> (\<forall>leaf \<in> set (numeric_leaves children). interval_key leaf = key \<longrightarrow> condition_holds D leaf x)"
proof (induction children arbitrary: intervals)
  case (Cons child rest)
  show ?case
  proof (cases "node_leaf child")
    case None
    with Cons show ?thesis by (simp add: numeric_leaves_def List.map_filter_simps)
  next
    case (Some leaf)
    with Cons show ?thesis by (auto simp: numeric_leaves_def List.map_filter_simps key_interval_update narrow_admits)
  qed
qed (simp add: numeric_leaves_def List.map_filter_simps)

lemma validate_iff:
  "validateReviewNumericIntervals D children = Inr () \<longleftrightarrow>
     (\<forall>key. \<exists>x. \<forall>leaf \<in> set (numeric_leaves children). interval_key leaf = key \<longrightarrow> condition_holds D leaf x)"
proof -
  let ?al = "collect_intervals D children []"
  have "validateReviewNumericIntervals D children = Inr () \<longleftrightarrow>
      (\<forall>key i. map_of ?al key = Some i \<longrightarrow> (\<exists>x. admits D i x))"
    using collect_found [of D children "impossible_interval D"]
    by (auto simp: validateReviewNumericIntervals_def list_ex_iff impossible_iff)
  also have "\<dots> \<longleftrightarrow> (\<forall>key. \<exists>x. admits D (key_interval D ?al key) x)"
    using unbounded_admits by (auto simp: key_interval_def split: option.splits)
  finally show ?thesis by (simp add: collect_admits unbounded_admits)
qed

end

section \<open>Normalised predicates\<close>

lemma unique_by_set:
  assumes "sorted (map marshal nodes)"
  shows "sorted_wrt (<) (map marshal (unique_by marshal nodes)) \<and> marshal ` set (unique_by marshal nodes) = marshal ` set nodes
    \<and> set (unique_by marshal nodes) \<subseteq> set nodes \<and> length (unique_by marshal nodes) \<le> length nodes
    \<and> (nodes \<noteq> [] \<longrightarrow> unique_by marshal nodes \<noteq> [] \<and> hd (unique_by marshal nodes) = hd nodes)"
  using assms
proof (induction marshal nodes rule: unique_by.induct)
  case (1 marshal a b rest)
  show ?case
  proof (cases "marshal a = marshal b")
    case True
    with 1 show ?thesis by (auto simp: image_iff)
  next
    case False
    with 1(3) have "\<forall>c \<in> set (b # rest). marshal a < marshal c" by (auto simp: less_le)
    moreover have "marshal ` set (unique_by marshal (b # rest)) = marshal ` set (b # rest)"
      using 1(2) [OF False] 1(3) by auto
    ultimately have "\<forall>x \<in> marshal ` set (unique_by marshal (b # rest)). marshal a < x" by auto
    with False 1(2) [OF False] 1(3) show ?thesis by (auto simp: image_iff)
  qed
qed auto

definition supported_metrics :: "string list" where
  "supported_metrics = [''instrument'', ''type'', ''amount'', ''cost'', ''price_change'', ''annualized'']"

fun normal_node :: "'d decimal_ops \<Rightarrow> (ReviewPredicateNode \<Rightarrow> string) \<Rightarrow> nat \<Rightarrow> ReviewPredicateNode \<Rightarrow> bool" where
  "normal_node D marshal depth (ReviewPredicateNode None None (Some leaf)) \<longleftrightarrow>
     0 < depth \<and> rl_metric leaf \<in> set supported_metrics"
| "normal_node D marshal depth (ReviewPredicateNode (Some children) None None) \<longleftrightarrow>
     depth < 2 \<and> children \<noteq> [] \<and> length children \<le> 20 \<and> sorted_wrt (<) (map marshal children)
     \<and> validateReviewNumericIntervals D children = Inr () \<and> list_all (normal_node D marshal (Suc depth)) children"
| "normal_node D marshal depth (ReviewPredicateNode None (Some children) None) \<longleftrightarrow>
     depth < 2 \<and> children \<noteq> [] \<and> length children \<le> 20 \<and> sorted_wrt (<) (map marshal children)
     \<and> list_all (normal_node D marshal (Suc depth)) children"
| "normal_node D marshal depth node \<longleftrightarrow> False"

fun leaf_count :: "ReviewPredicateNode \<Rightarrow> nat" and leaf_counts :: "ReviewPredicateNode list \<Rightarrow> nat" where
  "leaf_count (ReviewPredicateNode all any (Some leaf)) = 1"
| "leaf_count (ReviewPredicateNode (Some children) any None) = leaf_counts children"
| "leaf_count (ReviewPredicateNode None (Some children) None) = leaf_counts children"
| "leaf_count (ReviewPredicateNode None None None) = 0"
| "leaf_counts [] = 0"
| "leaf_counts (child # rest) = leaf_count child + leaf_counts rest"

lemma normalizeReviewLeaf_metric: "normalizeReviewLeaf D leaf = Inr leaf' \<Longrightarrow> rl_metric leaf' = rl_metric leaf \<and> rl_metric leaf' \<in> set supported_metrics"
  by (auto simp: normalizeReviewLeaf_def normalize_instrument_leaf_def normalize_type_leaf_def normalize_money_leaf_def
      normalize_percent_leaf_def supported_metrics_def split: if_splits)

lemma finish_group_normal:
  assumes "finish_group D marshal all normalized = Inr node" and "list_all (normal_node D marshal (Suc depth)) normalized"
    and "group_size_ok depth children = Inr ()" and "length normalized = length children"
  shows "normal_node D marshal depth node"
proof -
  have g: "normalized \<noteq> []" "length normalized \<le> 20" "depth < 2"
    using assms(3,4) by (auto simp: group_size_ok_def split: if_splits)
  let ?u = "unique_by marshal (sort_key marshal normalized)"
  have "sorted (map marshal (sort_key marshal normalized))" by simp
  note u = unique_by_set [OF this]
  have "?u \<noteq> []" "sorted_wrt (<) (map marshal ?u)" "set ?u \<subseteq> set normalized" using u g(1) by auto
  moreover have "length ?u \<le> 20" using u g(2) by simp
  moreover have "list_all (normal_node D marshal (Suc depth)) ?u"
    using assms(2) calculation(3) unfolding list_all_iff by blast
  ultimately show ?thesis using assms(1) g(3) by (cases all) (auto simp: finish_group_def Let_def)
qed

lemma normalize_normal:
  "normalizeReviewPredicate D marshal node depth leaves = Inr (node', n) \<Longrightarrow>
     normal_node D marshal depth node' \<and> n = leaves + leaf_count node \<and> n \<le> max leaves 20"
  "normalize_children D marshal children depth leaves = Inr (items, n) \<Longrightarrow>
     list_all (normal_node D marshal depth) items \<and> length items = length children \<and> n = leaves + leaf_counts children
     \<and> n \<le> max leaves 20"
proof (induction D marshal node depth leaves and D marshal children depth leaves arbitrary: node' n and items n
    rule: normalizeReviewPredicate_normalize_children.induct)
  case (1 D marshal leaf depth leaves)
  then show ?case by (auto simp: leaf_node_def dest: normalizeReviewLeaf_metric split: if_splits)
next
  case (2 D marshal children depth leaves)
  then obtain items where c: "group_size_ok depth children = Inr ()"
      "normalize_children D marshal children (Suc depth) leaves = Inr (items, n)" "finish_group D marshal True items = Inr node'"
    by (auto split: prod.splits)
  from "2.IH" [OF c(1,2)] finish_group_normal [OF c(3) _ c(1)] show ?case by simp
next
  case (3 D marshal children depth leaves)
  then obtain items where c: "group_size_ok depth children = Inr ()"
      "normalize_children D marshal children (Suc depth) leaves = Inr (items, n)" "finish_group D marshal False items = Inr node'"
    by (auto split: prod.splits)
  from "3.IH" [OF c(1,2)] finish_group_normal [OF c(3) _ c(1)] show ?case by simp
next
  case (6 D marshal child rest depth leaves)
  then show ?case by (fastforce split: prod.splits)
qed simp_all

lemma ReviewTriggerPolicy_Normalize_idem:
  "ReviewTriggerPolicy_Normalize p = Inr q \<Longrightarrow> ReviewTriggerPolicy_Normalize q = Inr q"
  by (auto simp: ReviewTriggerPolicy_Normalize_def single_policy_def split: if_splits)

lemma sorted_compact: "sorted (xs :: 'a::linorder list) \<Longrightarrow> sorted_wrt (<) (remdups_adj xs)"
  by (induction xs rule: remdups_adj.induct) (auto simp: less_le)

lemma normalize_target_ids: "normalize_target t = Inr t' \<Longrightarrow> sorted_wrt (<) (rt_instrument_ids t')"
  by (auto simp: normalize_target_def normalizeReviewIDs_def sorted_compact split: if_splits)

section \<open>Properties\<close>

text \<open>C14. The check of the numeric conditions of an all-group is exact: it passes if and only if, for
  every metric with its lookback, currency and conversion mode, some number satisfies all the
  conditions on it, and it fails with the error of the source otherwise.\<close>

theorem validateReviewNumericIntervals_exact:
  assumes "decimal_lib D"
  shows "validateReviewNumericIntervals D children =
     (if \<forall>key. \<exists>x. \<forall>leaf \<in> set (numeric_leaves children). interval_key leaf = key \<longrightarrow> condition_holds D leaf x
      then Inr () else Inl (validation ''predicate'' ''numeric conditions have an impossible interval''))"
proof -
  have A: "decimal_arith D" using assms by (simp add: decimal_lib_def decimal_round_def decimal_scale_def)
  show ?thesis
    using decimal_arith.validate_iff [OF A, of children] by (auto simp: validateReviewNumericIntervals_def split: if_splits)
qed

definition amount_leaf :: "string \<Rightarrow> string \<Rightarrow> ReviewPredicateNode" where
  "amount_leaf operator bound = ReviewPredicateNode None None
     (Some \<lparr> rl_metric = ''amount'', rl_operator = operator, rl_value = bound, rl_currency = ''EUR'', rl_fx_mode = ''native'',
             rl_lookback_days = 0, rl_instrument_ids = [], rl_types = [] \<rparr>)"

theorem validateReviewNumericIntervals_exact_witness:
  "validateReviewNumericIntervals ref_decimal [amount_leaf ''>'' ''10'', amount_leaf ''<='' ''10'']
     = Inl (validation ''predicate'' ''numeric conditions have an impossible interval'')
   \<and> \<not> (\<forall>key. \<exists>x. \<forall>leaf \<in> set (numeric_leaves [amount_leaf ''>'' ''10'', amount_leaf ''<='' ''10'']).
          interval_key leaf = key \<longrightarrow> condition_holds ref_decimal leaf x)"
proof -
  have "validateReviewNumericIntervals ref_decimal [amount_leaf ''>'' ''10'', amount_leaf ''<='' ''10'']
     = Inl (validation ''predicate'' ''numeric conditions have an impossible interval'')" by code_simp
  with validateReviewNumericIntervals_exact [OF ref.decimal_lib_axioms, of "[amount_leaf ''>'' ''10'', amount_leaf ''<='' ''10'']"]
  show ?thesis by (metis Inl_Inr_False)
qed

text \<open>C15. A rule that normalisation accepts is in normal form: its predicate is a group of at most two
  levels with at most 20 conditions, each group has 1 to 20 children in strictly increasing order of
  their encoding, the numeric conditions of an all-group can hold together, annualised conditions
  are guarded, the target has no repeated instruments, and the trigger policy is a fixed point of
  its normalisation.\<close>

theorem ReviewRuleSpec_Normalize_normal:
  assumes "ReviewRuleSpec_Normalize D marshal load_location s = Inr s'"
  shows "normal_node D marshal 0 (sp_predicate s') \<and> leaf_count (sp_predicate s) \<le> 20
    \<and> reviewAnnualizedScoped (sp_predicate s') False \<and> sorted_wrt (<) (rt_instrument_ids (sp_target s'))
    \<and> ReviewTriggerPolicy_Normalize (sp_trigger_policy s') = Inr (sp_trigger_policy s')
    \<and> load_location (rs_timezone (sp_schedule s')) \<noteq> None"
proof -
  from assms obtain policy target predicate n where
      p: "ReviewTriggerPolicy_Normalize (sp_trigger_policy s) = Inr policy" and t: "normalize_target (sp_target s) = Inr target"
      and n: "normalizeReviewPredicate D marshal (sp_predicate s) 0 0 = Inr (predicate, n)"
      and a: "reviewAnnualizedScoped predicate False" and l: "load_location (rs_timezone (sp_schedule s)) \<noteq> None"
      and s': "s' = s\<lparr>sp_trigger_policy := policy, sp_target := target, sp_predicate := predicate\<rparr>"
    by (auto simp: ReviewRuleSpec_Normalize_def Let_def Option.is_none_def split: if_splits)
  from normalize_normal(1) [OF n] a ReviewTriggerPolicy_Normalize_idem [OF p] normalize_target_ids [OF t] l
  show ?thesis by (simp add: s')
qed

definition sample_in :: ReviewPredicateNode where
  "sample_in = ReviewPredicateNode (Some [amount_leaf ''>='' ''10'', amount_leaf ''<='' ''20'', amount_leaf ''>='' ''10'']) None None"

definition sample_out :: ReviewPredicateNode where
  "sample_out = ReviewPredicateNode (Some [amount_leaf ''<='' ''20'', amount_leaf ''>='' ''10'']) None None"

definition sample_spec :: ReviewRuleSpec where
  "sample_spec =
     \<lparr> sp_spec_version = 1, sp_metric_policy_version = ''daily_metrics_v1'', sp_evaluator = ''daily_predicate_v1'',
       sp_target = \<lparr> rt_kind = ''all_current'', rt_instrument_ids = [] \<rparr>,
       sp_predicate = sample_in,
       sp_schedule = \<lparr> rs_period = ''calendar_day'', rs_timezone = ''UTC'', rs_cutoff_version = ''civil_day_end_v1'' \<rparr>,
       sp_trigger_policy = \<lparr> tp_kind = ''consecutive'', tp_count = 1, tp_window_days = 0, tp_min_hits = 0 \<rparr>,
       sp_data_policy = DefaultReviewRuleDataPolicy \<rparr>"

definition sample_marshal :: "ReviewPredicateNode \<Rightarrow> string" where
  "sample_marshal node = (case node_leaf node of None \<Rightarrow> [] | Some leaf \<Rightarrow> rl_operator leaf @ rl_value leaf)"

definition utc_only :: "string \<Rightarrow> location option" where
  "utc_only name = (if name = ''UTC'' then Some (table_location 0 []) else None)"

definition sample_normal :: ReviewRuleSpec where
  "sample_normal = sample_spec\<lparr>sp_trigger_policy := single_policy, sp_predicate := sample_out\<rparr>"

lemma sample_predicate: "normalizeReviewPredicate ref_decimal sample_marshal sample_in 0 0 = Inr (sample_out, 3)"
  by code_simp

lemma sample_normalizes: "ReviewRuleSpec_Normalize ref_decimal sample_marshal utc_only sample_spec = Inr sample_normal"
proof -
  have "reviewAnnualizedScoped sample_out False" "trim_space ''UTC'' = ''UTC''" by code_simp+
  then show ?thesis
    using sample_predicate
    by (simp add: ReviewRuleSpec_Normalize_def sample_normal_def sample_spec_def Let_def utc_only_def normalize_target_def
        ReviewTriggerPolicy_Normalize_def ReviewSpecVersion_def ReviewMetricPolicyVersion_def ReviewEvaluator_def ReviewCutoffVersion_def)
qed

theorem ReviewRuleSpec_Normalize_normal_witness:
  "ReviewRuleSpec_Normalize ref_decimal sample_marshal utc_only sample_spec = Inr sample_normal
   \<and> normal_node ref_decimal sample_marshal 0 (sp_predicate sample_normal)
   \<and> ReviewTriggerPolicy_Normalize (sp_trigger_policy sample_normal) = Inr (sp_trigger_policy sample_normal)"
  using ReviewRuleSpec_Normalize_normal [OF sample_normalizes] sample_normalizes by blast

end
