(* ===== verification/ReviewDaily.thy ===== *)
theory ReviewDaily
  imports ReviewRule
begin

text \<open>
  The daily evaluation of a review rule: \<^verbatim>\<open>internal/domain/review_daily_evidence.go\<close> with the
  three-valued connectives of \<^verbatim>\<open>internal/domain/review_daily_policy.go\<close> and the exchange-rate mapping
  of \<^verbatim>\<open>internal/domain/marketdata_fx.go\<close>.  Missing evidence is the value \<^verbatim>\<open>ReviewUnknown\<close>, never an
  error and never a vote.
\<close>

section \<open>Truth values\<close>

datatype ReviewTruth = ReviewUnknown | ReviewTrue | ReviewFalse | ReviewTruth_other string

fun ReviewTruth_valid :: "ReviewTruth \<Rightarrow> bool" where
  "ReviewTruth_valid (ReviewTruth_other s) = False"
| "ReviewTruth_valid v = True"

fun all_loop :: "ReviewTruth \<Rightarrow> ReviewTruth list \<Rightarrow> ReviewTruth" where
  "all_loop result [] = result"
| "all_loop result (v # vs) =
     (if v = ReviewFalse then ReviewFalse else all_loop (if v \<noteq> ReviewTrue then ReviewUnknown else result) vs)"

definition ReviewAll :: "ReviewTruth list \<Rightarrow> ReviewTruth" where
  "ReviewAll values = all_loop ReviewTrue values"

fun any_loop :: "ReviewTruth \<Rightarrow> ReviewTruth list \<Rightarrow> ReviewTruth" where
  "any_loop result [] = result"
| "any_loop result (v # vs) =
     (if v = ReviewTrue then ReviewTrue else any_loop (if v \<noteq> ReviewFalse then ReviewUnknown else result) vs)"

definition ReviewAny :: "ReviewTruth list \<Rightarrow> ReviewTruth" where
  "ReviewAny values = any_loop ReviewFalse values"

definition reviewBool :: "bool \<Rightarrow> ReviewTruth" where
  "reviewBool b = (if b then ReviewTrue else ReviewFalse)"

definition reviewCompare :: "'d decimal_ops \<Rightarrow> 'd \<Rightarrow> 'd \<Rightarrow> string \<Rightarrow> bool" where
  "reviewCompare D actual threshold op =
     (if op = ''>'' then d_greater_than D actual threshold
      else if op = ''>='' then d_greater_than_or_equal D actual threshold
      else if op = ''<'' then d_less_than D actual threshold
      else d_less_than_or_equal D actual threshold)"

section \<open>Civil days\<close>

text \<open>\<^verbatim>\<open>time.Parse(time.DateOnly, s)\<close>, the midnight of a day kept as its day number.\<close>

definition parse_day :: "string \<Rightarrow> int option" where
  "parse_day s = map_option (\<lambda>(y, m, d). date_days y m d) (parse_date s)"

definition ReviewNonexistentCivilDate :: "err \<Rightarrow> bool" where
  "ReviewNonexistentCivilDate e =
     (case e of
        DomainError code field message \<Rightarrow> code = ErrInvalidChangeTime \<and> field = ''localDate''
          \<and> message = ''the selected civil date does not exist in the household timezone''
      | ForeignError _ \<Rightarrow> False)"

definition ReviewLatestClosedDay :: "(string \<Rightarrow> location option) \<Rightarrow> go_time \<Rightarrow> string \<Rightarrow> string res" where
  "ReviewLatestClosedDay load_location now timezone =
     (if time_is_zero now then Inl (validation ''now'' ''an evaluation time is required'')
      else case load_location timezone of
        None \<Rightarrow> Inl (validation ''timezone'' ''must be an available IANA timezone'')
      | Some loc \<Rightarrow> Inr (day_text ((now + loc_offset loc now * second) div day_ns - 1)))"

definition ReviewCivilCutoff :: "(string \<Rightarrow> location option) \<Rightarrow> string \<Rightarrow> string \<Rightarrow> go_time res" where
  "ReviewCivilCutoff load_location on timezone =
     (case parse_day on of
        None \<Rightarrow> Inl (validation ''on'' ''must be a valid ISO civil date'')
      | Some day \<Rightarrow>
          case load_location timezone of
            None \<Rightarrow> Inl (validation ''timezone'' ''must be an available IANA timezone'')
          | Some loc \<Rightarrow> res_bind (ResolveCivilDateCutoff (day * day_ns) loc) (\<lambda>last. Inr (last + millisecond)))"

section \<open>Exchange rates\<close>

datatype FXMappingStatus = FXMappingIdentity | FXMappingDirect | FXMappingReciprocal | FXMappingUnsupported | FXMappingNone

record 'd FXMapping =
  fm_status :: FXMappingStatus
  fm_rate :: "'d fx_rate"
  fm_base_currency :: CurrencyCode
  fm_quote_currency :: CurrencyCode
  fm_derived :: bool
  fm_reason :: string

definition InvertFxRateHalfEven :: "'d decimal_ops \<Rightarrow> 'd fx_rate \<Rightarrow> 'd fx_rate res" where
  "InvertFxRateHalfEven D rate =
     (if d_is_zero D (r_value rate) then Inl (validation ''fxRate'' ''must be greater than zero'')
      else
        let shifted = d_round_bank D (d_div D (d_shift D (d_from_int D 1) 24) (r_value rate)) 0;
            intermediate = d_shift D shifted (- 24)
        in NewFxRate D (d_round_bank D intermediate 12))"

definition isSupportedFXCurrency :: "CurrencyCode \<Rightarrow> bool" where
  "isSupportedFXCurrency code = list_ex (\<lambda>supported. supported = code) SupportedCurrencies"

definition unsupported_mapping :: "'d decimal_ops \<Rightarrow> string \<Rightarrow> CurrencyCode \<Rightarrow> CurrencyCode \<Rightarrow> 'd FXMapping" where
  "unsupported_mapping D reason base quote =
     \<lparr> fm_status = FXMappingUnsupported, fm_rate = \<lparr> r_value = d_zero D \<rparr>, fm_base_currency = base, fm_quote_currency = quote,
       fm_derived = False, fm_reason = reason \<rparr>"

definition mapped :: "FXMappingStatus \<Rightarrow> 'd fx_rate \<Rightarrow> CurrencyCode \<Rightarrow> CurrencyCode \<Rightarrow> bool \<Rightarrow> 'd FXMapping" where
  "mapped status rate base quote derived =
     \<lparr> fm_status = status, fm_rate = rate, fm_base_currency = base, fm_quote_currency = quote, fm_derived = derived, fm_reason = [] \<rparr>"

definition MapFXRate ::
    "'d decimal_ops \<Rightarrow> CurrencyCode \<Rightarrow> CurrencyCode \<Rightarrow> CurrencyCode \<Rightarrow> CurrencyCode \<Rightarrow> string \<Rightarrow> 'd FXMapping res" where
  "MapFXRate D base quote storedBase storedQuote storedRate =
     res_bind (ParseCurrency base) (\<lambda>base.
     res_bind (ParseCurrency quote) (\<lambda>quote.
     if base = quote
     then res_bind (ParseFxRate D ''1'') (\<lambda>rate. Inr (mapped FXMappingIdentity rate base quote False))
     else if \<not> isSupportedFXCurrency base \<or> \<not> isSupportedFXCurrency quote
     then Inr (unsupported_mapping D ''unsupported_currency_pair'' base quote)
     else if trim_space storedRate = [] then Inr (unsupported_mapping D ''rate_missing'' base quote)
     else case ParseFxRate D (trim_space storedRate) of
         Inl _ \<Rightarrow> Inr (unsupported_mapping D ''malformed_rate'' base quote)
       | Inr rate \<Rightarrow>
           res_bind (ParseCurrency storedBase) (\<lambda>storedBase.
           res_bind (ParseCurrency storedQuote) (\<lambda>storedQuote.
           if storedBase = base \<and> storedQuote = quote then Inr (mapped FXMappingDirect rate base quote False)
           else if storedBase = quote \<and> storedQuote = base
           then res_bind (InvertFxRateHalfEven D rate) (\<lambda>inverted. Inr (mapped FXMappingReciprocal inverted base quote True))
           else Inr (unsupported_mapping D ''no_application_triangulation'' base quote)))))"

text \<open>A quote selected for a day and the kind of its date, and the decision whether it may be used.\<close>

record 'd ReviewSelectedFX =
  sf_quote :: "'d FXQuote"
  sf_economic_kind :: string

record ReviewFXAdmission =
  fa_known :: bool
  fa_rate :: string
  fa_quote_id :: FXQuoteID
  fa_direction :: FXMappingStatus
  fa_effective_date :: string
  fa_effective_at :: go_time
  fa_age_days :: int
  fa_reason :: string

definition no_admission :: ReviewFXAdmission where
  "no_admission = \<lparr> fa_known = False, fa_rate = [], fa_quote_id = [], fa_direction = FXMappingNone, fa_effective_date = [],
     fa_effective_at = 0, fa_age_days = 0, fa_reason = [] \<rparr>"

text \<open>\<^verbatim>\<open>time.Duration(h) * time.Hour\<close> wraps at 64 bits.\<close>

definition hours_duration :: "int \<Rightarrow> int" where
  "hours_duration h = (h * hour + 2 ^ 63) mod 2 ^ 64 - 2 ^ 63"

text \<open>The check of the date or instant of a quote: a reason to refuse it, or the admission that records it.\<close>

definition admit_age ::
    "'d ReviewSelectedFX \<Rightarrow> string \<Rightarrow> go_time \<Rightarrow> ReviewRuleDataPolicy \<Rightarrow> ReviewFXAdmission \<Rightarrow> string + ReviewFXAdmission" where
  "admit_age selected on cutoff policy result =
     (let q = sf_quote selected in
      if sf_economic_kind selected = ''daily_reference'' then
        if fx_observation_kind q \<noteq> ''close'' \<and> fx_observation_kind q \<noteq> ''daily_reference'' then Inl ''fx_date_untrusted''
        else if parse_day (fx_effective_date q) = None \<or> on < fx_effective_date q then Inl ''fx_date_untrusted''
        else
          (case CivilDaysBetween (fx_effective_date q) on of
             Inl _ \<Rightarrow> Inl ''fx_stale''
           | Inr age \<Rightarrow>
               if age < 0 \<or> dp_fx_reference_max_age_days policy < age then Inl ''fx_stale''
               else Inr (result\<lparr>fa_effective_date := fx_effective_date q, fa_age_days := age\<rparr>))
      else if sf_economic_kind selected = ''timestamped'' then
        if time_is_zero (fx_value_effective_at q) \<or> \<not> fx_value_effective_at q < cutoff then Inl ''fx_time_untrusted''
        else if hours_duration (dp_fx_timestamp_max_age_hours policy) < time_sub cutoff (fx_value_effective_at q) then Inl ''fx_stale''
        else Inr (result\<lparr>fa_effective_at := fx_value_effective_at q\<rparr>)
      else Inl ''fx_date_untrusted'')"

definition AdmitReviewFX ::
    "'d decimal_ops \<Rightarrow> (string \<Rightarrow> location option) \<Rightarrow> CurrencyCode \<Rightarrow> CurrencyCode \<Rightarrow> 'd ReviewSelectedFX option
      \<Rightarrow> string \<Rightarrow> string \<Rightarrow> ReviewRuleDataPolicy \<Rightarrow> ReviewFXAdmission res" where
  "AdmitReviewFX D load_location native comparison selected on timezone policy =
     res_bind (ReviewCivilCutoff load_location on timezone) (\<lambda>cutoff.
     res_bind (ParseSupportedCurrency native) (\<lambda>_.
     res_bind (ParseSupportedCurrency comparison) (\<lambda>_.
     if native = comparison
     then Inr (no_admission\<lparr>fa_known := True, fa_rate := ''1'', fa_direction := FXMappingIdentity\<rparr>)
     else case selected of
         None \<Rightarrow> Inr (no_admission\<lparr>fa_reason := ''fx_missing''\<rparr>)
       | Some s \<Rightarrow>
           let q = sf_quote s; result = no_admission\<lparr>fa_quote_id := fx_id q\<rparr> in
           (case admit_age s on cutoff policy result of
              Inl reason \<Rightarrow> Inr (result\<lparr>fa_reason := reason\<rparr>)
            | Inr result \<Rightarrow>
                res_bind (MapFXRate D native comparison (fx_base_currency q) (fx_quote_currency q)
                  (canonicalDecimal D (r_value (fx_rate_of q)))) (\<lambda>mapping.
                if fm_status mapping = FXMappingUnsupported then Inr (result\<lparr>fa_reason := fm_reason mapping\<rparr>)
                else Inr (result\<lparr>fa_known := True, fa_rate := canonicalDecimal D (r_value (fm_rate mapping)),
                       fa_direction := fm_status mapping\<rparr>))))))"

section \<open>Evaluation of a day\<close>

record QuotePerformance =
  qp_window_days :: int
  qp_baseline_on :: string
  qp_as_of_on :: string
  qp_latest_on :: string
  qp_elapsed_days :: int
  qp_period_percent :: string
  qp_annualized_percent :: "string option"

record 'd ReviewDailyInput =
  di_on :: string
  di_instrument_id :: InstrumentID
  di_fx_provider_key :: string
  di_quantity :: "string option"
  di_instrument_type :: "InstrumentType option"
  di_native_currency :: "CurrencyCode option"
  di_amount_exact :: "string option"
  di_cost_exact :: "string option"
  di_performance :: "int \<rightharpoonup> QuotePerformance"
  di_selected_fx :: "CurrencyCode \<rightharpoonup> 'd ReviewSelectedFX"

record ReviewDailyLeafEvidence =
  le_metric :: string
  le_truth :: ReviewTruth
  le_actual :: string
  le_threshold :: string
  le_currency :: CurrencyCode
  le_reason :: string
  le_effective_on :: string
  le_baseline_on :: string
  le_fx :: "ReviewFXAdmission option"

record ReviewDailyResult =
  dr_predicate :: "ReviewPredicateNode option"
  dr_on :: string
  dr_truth :: ReviewTruth
  dr_leaves :: "ReviewDailyLeafEvidence list"

definition leaf_item :: "ReviewRuleLeaf \<Rightarrow> 'd ReviewDailyInput \<Rightarrow> ReviewDailyLeafEvidence" where
  "leaf_item leaf input =
     \<lparr> le_metric = rl_metric leaf, le_truth = ReviewUnknown, le_actual = [], le_threshold = rl_value leaf,
       le_currency = rl_currency leaf, le_reason = [], le_effective_on = di_on input, le_baseline_on = [], le_fx = None \<rparr>"

definition eval_instrument_leaf :: "ReviewRuleLeaf \<Rightarrow> 'd ReviewDailyInput \<Rightarrow> ReviewDailyLeafEvidence" where
  "eval_instrument_leaf leaf input =
     (let contains = di_instrument_id input \<in> set (rl_instrument_ids leaf) in
      (leaf_item leaf input)\<lparr>le_truth := reviewBool (if rl_operator leaf = ''not_in'' then \<not> contains else contains)\<rparr>)"

definition eval_type_leaf :: "ReviewRuleLeaf \<Rightarrow> 'd ReviewDailyInput \<Rightarrow> ReviewDailyLeafEvidence" where
  "eval_type_leaf leaf input =
     (case di_instrument_type input of
        None \<Rightarrow> (leaf_item leaf input)\<lparr>le_reason := ''historical_type_unknown''\<rparr>
      | Some t \<Rightarrow> (leaf_item leaf input)\<lparr>le_actual := InstrumentType_string t, le_truth := reviewBool (t \<in> set (rl_types leaf))\<rparr>)"

text \<open>The comparison of an amount in the currency of the condition with its threshold.\<close>

definition compare_money ::
    "'d decimal_ops \<Rightarrow> ReviewRuleLeaf \<Rightarrow> ReviewDailyLeafEvidence \<Rightarrow> 'd \<Rightarrow> ReviewDailyLeafEvidence res" where
  "compare_money D leaf item exact =
     (case NewMoney D exact (rl_currency leaf) of
        Inl e \<Rightarrow>
          (case e of
             DomainError code _ _ \<Rightarrow>
               if code = ErrDecimalOverflow then Inr (item\<lparr>le_reason := ''historical_amount_unknown''\<rparr>) else Inl e
           | ForeignError _ \<Rightarrow> Inl e)
      | Inr money \<Rightarrow>
          Inr (item\<lparr>le_actual := d_string_fixed D (m_amount money) 4,
            le_truth := reviewBool (reviewCompare D (m_amount money) (decimal_or_zero D (rl_value leaf)) (rl_operator leaf))\<rparr>))"

definition convert_leaf ::
    "'d decimal_ops \<Rightarrow> (string \<Rightarrow> location option) \<Rightarrow> ReviewRuleLeaf \<Rightarrow> 'd ReviewDailyInput \<Rightarrow> ReviewRuleSpec \<Rightarrow> CurrencyCode
      \<Rightarrow> ReviewDailyLeafEvidence \<Rightarrow> 'd \<Rightarrow> ReviewDailyLeafEvidence res" where
  "convert_leaf D load_location leaf input spec native item exact =
     res_bind (AdmitReviewFX D load_location native (rl_currency leaf) (di_selected_fx input (rl_currency leaf)) (di_on input)
       (rs_timezone (sp_schedule spec)) (sp_data_policy spec)) (\<lambda>fx.
     if \<not> fa_known fx then Inr (item\<lparr>le_fx := Some fx, le_reason := fa_reason fx\<rparr>)
     else compare_money D leaf (item\<lparr>le_fx := Some fx\<rparr>) (d_mul D exact (decimal_or_zero D (fa_rate fx))))"

definition eval_money_leaf ::
    "'d decimal_ops \<Rightarrow> (string \<Rightarrow> location option) \<Rightarrow> ReviewRuleLeaf \<Rightarrow> 'd ReviewDailyInput \<Rightarrow> ReviewRuleSpec
      \<Rightarrow> ReviewDailyLeafEvidence res" where
  "eval_money_leaf D load_location leaf input spec =
     (let item = leaf_item leaf input;
          unknown = item\<lparr>le_reason := ''historical_amount_unknown''\<rparr>
      in case (if rl_metric leaf = ''cost'' then di_cost_exact input else di_amount_exact input) of
           None \<Rightarrow> Inr unknown
         | Some value \<Rightarrow>
             (case di_native_currency input of
                None \<Rightarrow> Inr unknown
              | Some native \<Rightarrow>
                  res_bind (parse_decimal D value (validation (rl_metric leaf) ''historical monetary input is invalid'')) (\<lambda>exact.
                  if d_is_negative D exact then Inl (validation (rl_metric leaf) ''historical monetary input is invalid'')
                  else case ParseNativeAmount D (d_string D exact) of
                      Inl _ \<Rightarrow> Inr unknown
                    | Inr _ \<Rightarrow>
                        if rl_fx_mode leaf = ''native'' then
                          if native \<noteq> rl_currency leaf then Inr (item\<lparr>le_reason := ''currency_mismatch''\<rparr>)
                          else compare_money D leaf item exact
                        else convert_leaf D load_location leaf input spec native item exact)))"

text \<open>The baseline of a performance must lie at most the allowed number of days before the start of the lookback.\<close>

definition baseline_ok :: "ReviewRuleLeaf \<Rightarrow> ReviewRuleSpec \<Rightarrow> int \<Rightarrow> QuotePerformance \<Rightarrow> bool" where
  "baseline_ok leaf spec endpoint performance =
     (case CivilDaysBetween (qp_baseline_on performance) (day_text (endpoint - rl_lookback_days leaf)) of
        Inl _ \<Rightarrow> False
      | Inr gap \<Rightarrow> \<not> (gap < 0 \<or> dp_baseline_max_gap_days (sp_data_policy spec) < gap))"

definition compare_percent ::
    "'d decimal_ops \<Rightarrow> ReviewRuleLeaf \<Rightarrow> QuotePerformance \<Rightarrow> ReviewDailyLeafEvidence \<Rightarrow> ReviewDailyLeafEvidence res" where
  "compare_percent D leaf performance item =
     (case (if rl_metric leaf = ''annualized'' then qp_annualized_percent performance else Some (qp_period_percent performance)) of
        None \<Rightarrow> Inr (item\<lparr>le_reason := ''annualized_unavailable''\<rparr>)
      | Some value \<Rightarrow>
          res_bind (parse_decimal D value (validation (rl_metric leaf) ''invalid performance evidence'')) (\<lambda>actual.
          Inr (item\<lparr>le_actual := d_string D actual,
            le_truth := reviewBool (reviewCompare D actual (decimal_or_zero D (rl_value leaf)) (rl_operator leaf))\<rparr>)))"

definition supports_annualized :: "InstrumentType option \<Rightarrow> bool" where
  "supports_annualized kind = (case kind of None \<Rightarrow> False | Some t \<Rightarrow> SupportsAnnualizedQuoteReturn t)"

text \<open>The error of \<^verbatim>\<open>time.Parse\<close> is passed on; only the beginning of its text is kept.\<close>

definition parse_day_error :: "string \<Rightarrow> err" where
  "parse_day_error s = ForeignError (''parsing time '' @ s)"

definition eval_percent_leaf ::
    "'d decimal_ops \<Rightarrow> ReviewRuleLeaf \<Rightarrow> 'd ReviewDailyInput \<Rightarrow> ReviewRuleSpec \<Rightarrow> ReviewDailyLeafEvidence res" where
  "eval_percent_leaf D leaf input spec =
     (let item = leaf_item leaf input;
          unknown = item\<lparr>le_reason := ''daily_performance_unknown''\<rparr>
      in if rl_metric leaf = ''annualized'' \<and> \<not> supports_annualized (di_instrument_type input)
         then Inr (item\<lparr>le_reason := ''unsupported_instrument''\<rparr>)
         else case di_performance input (rl_lookback_days leaf) of
             None \<Rightarrow> Inr unknown
           | Some p \<Rightarrow>
               if (qp_latest_on p \<noteq> di_on input \<and> qp_as_of_on p \<noteq> di_on input) \<or> qp_window_days p \<noteq> rl_lookback_days leaf
                  \<or> qp_elapsed_days p \<le> 0
               then Inr unknown
               else case parse_day (di_on input) of
                   None \<Rightarrow> Inl (parse_day_error (di_on input))
                 | Some endpoint \<Rightarrow>
                     if \<not> baseline_ok leaf spec endpoint p then Inr (item\<lparr>le_reason := ''baseline_too_old''\<rparr>)
                     else compare_percent D leaf p (item\<lparr>le_baseline_on := qp_baseline_on p\<rparr>))"

definition evaluateReviewLeaf ::
    "'d decimal_ops \<Rightarrow> (string \<Rightarrow> location option) \<Rightarrow> ReviewRuleLeaf \<Rightarrow> 'd ReviewDailyInput \<Rightarrow> ReviewRuleSpec
      \<Rightarrow> ReviewDailyLeafEvidence res" where
  "evaluateReviewLeaf D load_location leaf input spec =
     (if rl_metric leaf = ''instrument'' then Inr (eval_instrument_leaf leaf input)
      else if rl_metric leaf = ''type'' then Inr (eval_type_leaf leaf input)
      else if rl_metric leaf = ''amount'' \<or> rl_metric leaf = ''cost'' then eval_money_leaf D load_location leaf input spec
      else if rl_metric leaf = ''price_change'' \<or> rl_metric leaf = ''annualized'' then eval_percent_leaf D leaf input spec
      else Inr (leaf_item leaf input))"

text \<open>The evidence of the leaves is appended in the order of evaluation.\<close>

fun evaluateReviewNode ::
      "'d decimal_ops \<Rightarrow> (string \<Rightarrow> location option) \<Rightarrow> ReviewPredicateNode \<Rightarrow> 'd ReviewDailyInput \<Rightarrow> ReviewRuleSpec
        \<Rightarrow> ReviewDailyLeafEvidence list \<Rightarrow> (ReviewTruth \<times> ReviewDailyLeafEvidence list) res"
  and evaluate_children ::
      "'d decimal_ops \<Rightarrow> (string \<Rightarrow> location option) \<Rightarrow> ReviewPredicateNode list \<Rightarrow> 'd ReviewDailyInput \<Rightarrow> ReviewRuleSpec
        \<Rightarrow> ReviewDailyLeafEvidence list \<Rightarrow> (ReviewTruth list \<times> ReviewDailyLeafEvidence list) res" where
  "evaluateReviewNode D load_location (ReviewPredicateNode all any (Some leaf)) input spec evidence =
     res_bind (evaluateReviewLeaf D load_location leaf input spec) (\<lambda>item. Inr (le_truth item, evidence @ [item]))"
| "evaluateReviewNode D load_location (ReviewPredicateNode (Some children) any None) input spec evidence =
     res_bind (evaluate_children D load_location children input spec evidence) (\<lambda>(values, evidence). Inr (ReviewAll values, evidence))"
| "evaluateReviewNode D load_location (ReviewPredicateNode None (Some children) None) input spec evidence =
     res_bind (evaluate_children D load_location children input spec evidence) (\<lambda>(values, evidence). Inr (ReviewAny values, evidence))"
| "evaluateReviewNode D load_location (ReviewPredicateNode None None None) input spec evidence = Inr (ReviewAny [], evidence)"
| "evaluate_children D load_location [] input spec evidence = Inr ([], evidence)"
| "evaluate_children D load_location (child # rest) input spec evidence =
     res_bind (evaluateReviewNode D load_location child input spec evidence) (\<lambda>(truth, evidence).
     res_bind (evaluate_children D load_location rest input spec evidence) (\<lambda>(values, evidence). Inr (truth # values, evidence)))"

definition quantity_truth :: "'d decimal_ops \<Rightarrow> string option \<Rightarrow> ReviewTruth res" where
  "quantity_truth D quantity =
     (case quantity of
        None \<Rightarrow> Inr ReviewUnknown
      | Some value \<Rightarrow> res_bind (ParseQuantity D value) (\<lambda>q. Inr (if d_is_positive D (q_value q) then ReviewTrue else ReviewFalse)))"

definition EvaluateReviewDaily ::
    "'d decimal_ops \<Rightarrow> (ReviewPredicateNode \<Rightarrow> string) \<Rightarrow> (string \<Rightarrow> location option) \<Rightarrow> ReviewRuleSpec \<Rightarrow> 'd ReviewDailyInput
      \<Rightarrow> ReviewDailyResult res" where
  "EvaluateReviewDaily D marshal load_location spec input =
     res_bind (ReviewRuleSpec_Normalize D marshal load_location spec) (\<lambda>spec.
     if parse_day (di_on input) = None then Inl (validation ''on'' ''must be a valid ISO civil date'')
     else
       let result = \<lparr> dr_predicate = None, dr_on = di_on input, dr_truth = ReviewUnknown, dr_leaves = [] \<rparr> in
       if rt_kind (sp_target spec) = ''instruments'' \<and> di_instrument_id input \<notin> set (rt_instrument_ids (sp_target spec))
       then Inr (result\<lparr>dr_truth := ReviewFalse\<rparr>)
       else
         res_bind (quantity_truth D (di_quantity input)) (\<lambda>quantity.
         if quantity = ReviewFalse then Inr (result\<lparr>dr_truth := ReviewFalse\<rparr>)
         else
           res_bind (evaluateReviewNode D load_location (sp_predicate spec) input spec []) (\<lambda>(predicate, leaves).
           Inr (result\<lparr>dr_truth := ReviewAll [quantity, predicate], dr_leaves := leaves\<rparr>))))"

section \<open>Unknown never decides\<close>

lemma all_loop_value:
  "all_loop r vs = (if ReviewFalse \<in> set vs then ReviewFalse else if \<forall>v \<in> set vs. v = ReviewTrue then r else ReviewUnknown)"
  by (induction r vs rule: all_loop.induct) auto

lemma any_loop_value:
  "any_loop r vs = (if ReviewTrue \<in> set vs then ReviewTrue else if \<forall>v \<in> set vs. v = ReviewFalse then r else ReviewUnknown)"
  by (induction r vs rule: any_loop.induct) auto

lemma ReviewAll_value:
  "ReviewAll vs = (if ReviewFalse \<in> set vs then ReviewFalse else if \<forall>v \<in> set vs. v = ReviewTrue then ReviewTrue else ReviewUnknown)"
  by (simp add: ReviewAll_def all_loop_value)

lemma ReviewAny_value:
  "ReviewAny vs = (if ReviewTrue \<in> set vs then ReviewTrue else if \<forall>v \<in> set vs. v = ReviewFalse then ReviewFalse else ReviewUnknown)"
  by (simp add: ReviewAny_def any_loop_value)

text \<open>A truth value as evidence for a fact: it may be silent about it, but never wrong.\<close>

definition evidence_for :: "ReviewTruth \<Rightarrow> bool \<Rightarrow> bool" where
  "evidence_for v b \<longleftrightarrow> (v = ReviewTrue \<longrightarrow> b) \<and> (v = ReviewFalse \<longrightarrow> \<not> b)"

lemma ReviewAll_evidence: "list_all2 evidence_for vs bs \<Longrightarrow> evidence_for (ReviewAll vs) (list_all id bs)"
  by (induction rule: list_all2_induct) (auto simp: ReviewAll_value evidence_for_def split: if_splits)

lemma ReviewAny_evidence: "list_all2 evidence_for vs bs \<Longrightarrow> evidence_for (ReviewAny vs) (list_ex id bs)"
  by (induction rule: list_all2_induct) (auto simp: ReviewAny_value evidence_for_def split: if_splits)

text \<open>What a predicate says when every condition is a plain fact, and the conditions it mentions.\<close>

fun node_holds :: "(ReviewRuleLeaf \<Rightarrow> bool) \<Rightarrow> ReviewPredicateNode \<Rightarrow> bool"
  and children_hold :: "(ReviewRuleLeaf \<Rightarrow> bool) \<Rightarrow> ReviewPredicateNode list \<Rightarrow> bool list" where
  "node_holds truly (ReviewPredicateNode all any (Some leaf)) = truly leaf"
| "node_holds truly (ReviewPredicateNode (Some children) any None) = list_all id (children_hold truly children)"
| "node_holds truly (ReviewPredicateNode None (Some children) None) = list_ex id (children_hold truly children)"
| "node_holds truly (ReviewPredicateNode None None None) = False"
| "children_hold truly [] = []"
| "children_hold truly (child # rest) = node_holds truly child # children_hold truly rest"

fun node_leaves :: "ReviewPredicateNode \<Rightarrow> ReviewRuleLeaf list" and children_leaves :: "ReviewPredicateNode list \<Rightarrow> ReviewRuleLeaf list" where
  "node_leaves (ReviewPredicateNode all any (Some leaf)) = [leaf]"
| "node_leaves (ReviewPredicateNode (Some children) any None) = children_leaves children"
| "node_leaves (ReviewPredicateNode None (Some children) None) = children_leaves children"
| "node_leaves (ReviewPredicateNode None None None) = []"
| "children_leaves [] = []"
| "children_leaves (child # rest) = node_leaves child @ children_leaves rest"

definition leaf_evidence ::
    "'d decimal_ops \<Rightarrow> (string \<Rightarrow> location option) \<Rightarrow> 'd ReviewDailyInput \<Rightarrow> ReviewRuleSpec \<Rightarrow> (ReviewRuleLeaf \<Rightarrow> bool) \<Rightarrow> ReviewRuleLeaf \<Rightarrow> bool" where
  "leaf_evidence D load_location input spec truly leaf =
     (case evaluateReviewLeaf D load_location leaf input spec of Inl _ \<Rightarrow> True | Inr item \<Rightarrow> evidence_for (le_truth item) (truly leaf))"

lemma evaluate_evidence:
  "evaluateReviewNode D load_location node input spec evidence = Inr (truth, evidence') \<Longrightarrow>
     list_all (leaf_evidence D load_location input spec truly) (node_leaves node) \<Longrightarrow>
     evidence_for truth (node_holds truly node) \<and> length evidence' = length evidence + length (node_leaves node)"
  "evaluate_children D load_location children input spec evidence = Inr (values, evidence') \<Longrightarrow>
     list_all (leaf_evidence D load_location input spec truly) (children_leaves children) \<Longrightarrow>
     list_all2 evidence_for values (children_hold truly children)
     \<and> length evidence' = length evidence + length (children_leaves children)"
proof (induction D load_location node input spec evidence and D load_location children input spec evidence
    arbitrary: truth evidence' and "values" evidence' rule: evaluateReviewNode_evaluate_children.induct)
  case (1 D load_location all any leaf input spec evidence)
  then show ?case by (auto simp: leaf_evidence_def)
next
  case (2 D load_location children any input spec evidence)
  then show ?case by (auto intro: ReviewAll_evidence split: prod.splits)
next
  case (3 D load_location children input spec evidence)
  then show ?case by (auto intro: ReviewAny_evidence split: prod.splits)
next
  case (6 D load_location child rest input spec evidence)
  from "6.prems"(1) obtain t e vs where
      c: "evaluateReviewNode D load_location child input spec evidence = Inr (t, e)"
         "evaluate_children D load_location rest input spec e = Inr (vs, evidence')" "values = t # vs"
    by (auto split: prod.splits)
  from "6.prems"(2) "6.IH"(1) [OF c(1)] "6.IH"(2) [OF c(1) _ c(2)] c(3) show ?case by simp
qed (simp_all add: evidence_for_def ReviewAny_def)

lemma reviewCompare_condition:
  assumes "decimal_lib D"
  shows "reviewCompare D actual (decimal_or_zero D (rl_value leaf)) (rl_operator leaf) \<longleftrightarrow> condition_holds D leaf (d_val D actual)"
proof -
  have A: "decimal_arith D" using assms by (simp add: decimal_lib_def decimal_round_def decimal_scale_def)
  show ?thesis by (auto simp: reviewCompare_def condition_holds_def decimal_arith.exact [OF A] Let_def)
qed

lemma quantity_truth_evidence:
  assumes "decimal_lib D" and "quantity_truth D quantity = Inr truth"
  shows "evidence_for truth (\<exists>value q. quantity = Some value \<and> ParseQuantity D value = Inr q \<and> 0 < d_val D (q_value q))"
proof -
  have A: "decimal_arith D" using assms(1) by (simp add: decimal_lib_def decimal_round_def decimal_scale_def)
  show ?thesis
    using assms(2) by (auto simp: quantity_truth_def evidence_for_def decimal_arith.is_positive_iff [OF A] split: option.splits if_splits)
qed

section \<open>Properties\<close>

text \<open>C13. The daily verdict of a rule is sound for every way the unknown facts may turn out: whatever
  facts agree with the evidence of the conditions, a day counts as a hit only if the instrument is in
  the target, a positive quantity was held and the predicate holds, and it counts as a miss only if
  one of the three fails.  An any-group cannot bypass the quantity gate.\<close>

theorem EvaluateReviewDaily_sound:
  assumes "decimal_lib D" and "EvaluateReviewDaily D marshal load_location spec input = Inr result"
    and "ReviewRuleSpec_Normalize D marshal load_location spec = Inr normal"
    and "list_all (leaf_evidence D load_location input normal truly) (node_leaves (sp_predicate normal))"
  shows "evidence_for (dr_truth result)
    ((rt_kind (sp_target normal) = ''instruments'' \<longrightarrow> di_instrument_id input \<in> set (rt_instrument_ids (sp_target normal)))
     \<and> (\<exists>value q. di_quantity input = Some value \<and> ParseQuantity D value = Inr q \<and> 0 < d_val D (q_value q))
     \<and> node_holds truly (sp_predicate normal))"
proof -
  note q = quantity_truth_evidence [OF assms(1), of "di_quantity input"]
  note n = evaluate_evidence(1) [OF _ assms(4)]
  have two: "evidence_for a x \<Longrightarrow> evidence_for b y \<Longrightarrow> evidence_for (ReviewAll [a, b]) (x \<and> y)" for a b x y
    using ReviewAll_evidence [of "[a, b]" "[x, y]"] by simp
  show ?thesis
  proof (cases "rt_kind (sp_target normal) = ''instruments'' \<and> di_instrument_id input \<notin> set (rt_instrument_ids (sp_target normal))")
    case True
    then show ?thesis
      using assms(2) by (auto simp: EvaluateReviewDaily_def assms(3) evidence_for_def Let_def split: if_splits)
  next
    case False
    then obtain truth where t: "quantity_truth D (di_quantity input) = Inr truth"
        and r: "truth = ReviewFalse \<Longrightarrow> dr_truth result = ReviewFalse"
          "truth \<noteq> ReviewFalse \<Longrightarrow> \<exists>p leaves. evaluateReviewNode D load_location (sp_predicate normal) input normal [] = Inr (p, leaves)
             \<and> dr_truth result = ReviewAll [truth, p]"
      using assms(2) by (auto simp: EvaluateReviewDaily_def assms(3) Let_def split: if_splits prod.splits)
    show ?thesis
    proof (cases "truth = ReviewFalse")
      case True
      with r(1) q [OF t] show ?thesis by (auto simp: evidence_for_def)
    next
      case truth: False
      from r(2) [OF this] obtain p leaves where
          p: "evaluateReviewNode D load_location (sp_predicate normal) input normal [] = Inr (p, leaves)"
             "dr_truth result = ReviewAll [truth, p]" by blast
      from n [OF p(1)] two [OF q [OF t], of p] False show ?thesis by (auto simp: p(2) evidence_for_def)
    qed
  qed
qed

definition sample_input :: "string option \<Rightarrow> dec ReviewDailyInput" where
  "sample_input amount =
     \<lparr> di_on = ''2026-03-02'', di_instrument_id = ''i'', di_fx_provider_key = [], di_quantity = Some ''2'',
       di_instrument_type = Some InstrumentETF, di_native_currency = Some ''EUR'', di_amount_exact = amount,
       di_cost_exact = None, di_performance = (\<lambda>_. None), di_selected_fx = (\<lambda>_. None) \<rparr>"

definition sample_evidence :: "string \<Rightarrow> ReviewDailyLeafEvidence" where
  "sample_evidence threshold =
     \<lparr> le_metric = ''amount'', le_truth = ReviewTrue, le_actual = ''15.0000'', le_threshold = threshold, le_currency = ''EUR'',
       le_reason = [], le_effective_on = ''2026-03-02'', le_baseline_on = [], le_fx = None \<rparr>"

lemma sample_leaf:
  "evaluateReviewLeaf ref_decimal utc_only (the (node_leaf (amount_leaf ''<='' ''20''))) (sample_input (Some ''15'')) sample_normal
     = Inr (sample_evidence ''20'')"
  "evaluateReviewLeaf ref_decimal utc_only (the (node_leaf (amount_leaf ''>='' ''10''))) (sample_input (Some ''15'')) sample_normal
     = Inr (sample_evidence ''10'')"
  by code_simp+

lemma sample_leaves: "sp_predicate sample_normal = sample_out" "sp_target sample_normal = \<lparr> rt_kind = ''all_current'', rt_instrument_ids = [] \<rparr>"
  by (simp_all add: sample_normal_def sample_spec_def)

lemma amount_leaf_node: "amount_leaf op v = ReviewPredicateNode None None (Some (the (node_leaf (amount_leaf op v))))"
  by (simp add: amount_leaf_def)

lemma sample_out_leaves: "node_leaves sample_out = [the (node_leaf (amount_leaf ''<='' ''20'')), the (node_leaf (amount_leaf ''>='' ''10''))]"
  by (simp add: sample_out_def amount_leaf_def)

lemma sample_node:
  "evaluateReviewNode ref_decimal utc_only sample_out (sample_input (Some ''15'')) sample_normal []
     = Inr (ReviewTrue, [sample_evidence ''20'', sample_evidence ''10''])"
  unfolding sample_out_def using sample_leaf
  by (subst amount_leaf_node, subst (2) amount_leaf_node) (simp add: sample_evidence_def ReviewAll_def)

lemma sample_daily:
  "EvaluateReviewDaily ref_decimal sample_marshal utc_only sample_spec (sample_input (Some ''15''))
     = Inr \<lparr> dr_predicate = None, dr_on = ''2026-03-02'', dr_truth = ReviewTrue, dr_leaves = [sample_evidence ''20'', sample_evidence ''10''] \<rparr>"
proof -
  have "quantity_truth ref_decimal (Some ''2'') = Inr ReviewTrue" "parse_day ''2026-03-02'' = Some 739676" by code_simp+
  then show ?thesis
    using sample_node by (simp add: EvaluateReviewDaily_def sample_normalizes sample_leaves sample_input_def ReviewAll_def Let_def)
qed

theorem EvaluateReviewDaily_sound_witness:
  "EvaluateReviewDaily ref_decimal sample_marshal utc_only sample_spec (sample_input (Some ''15''))
     = Inr \<lparr> dr_predicate = None, dr_on = ''2026-03-02'', dr_truth = ReviewTrue, dr_leaves = [sample_evidence ''20'', sample_evidence ''10''] \<rparr>
   \<and> (\<exists>q. ParseQuantity ref_decimal ''2'' = Inr q \<and> 0 < d_val ref_decimal (q_value q))
   \<and> node_holds (\<lambda>leaf. condition_holds ref_decimal leaf 15) sample_out"
proof -
  have c: "condition_holds ref_decimal (the (node_leaf (amount_leaf ''<='' ''20''))) 15"
    "condition_holds ref_decimal (the (node_leaf (amount_leaf ''>='' ''10''))) 15"
    by code_simp+
  then have "list_all (leaf_evidence ref_decimal utc_only (sample_input (Some ''15'')) sample_normal (\<lambda>leaf. condition_holds ref_decimal leaf 15))
      (node_leaves (sp_predicate sample_normal))"
    using sample_leaf by (simp add: sample_leaves(1) sample_out_leaves leaf_evidence_def sample_evidence_def evidence_for_def)
  from EvaluateReviewDaily_sound [OF ref.decimal_lib_axioms sample_daily sample_normalizes this] sample_daily
  show ?thesis by (simp add: evidence_for_def sample_leaves(1) sample_input_def)
qed

text \<open>A type condition whose name has surrounding blanks passes the check of its name, keeps the
  blanks, and then matches no instrument.\<close>

theorem type_condition_blanks:
  "\<exists>leaf. normalizeReviewLeaf D leaf = Inr leaf \<and> rl_types leaf = [InstrumentType_unknown '' etf'']
     \<and> ParseInstrumentType '' etf'' = Inr InstrumentETF
     \<and> (\<forall>input. di_instrument_type input = Some InstrumentETF \<longrightarrow> le_truth (eval_type_leaf leaf input) = ReviewFalse)"
proof -
  let ?leaf = "\<lparr> rl_metric = ''type'', rl_operator = ''in'', rl_value = [], rl_currency = [], rl_fx_mode = [], rl_lookback_days = 0,
    rl_instrument_ids = [], rl_types = [InstrumentType_unknown '' etf''] \<rparr>"
  have p: "ParseInstrumentType '' etf'' = Inr InstrumentETF" "length AllInstrumentTypes = 8" by code_simp+
  then have "normalizeReviewLeaf D ?leaf = Inr ?leaf" by (simp add: normalizeReviewLeaf_def normalize_type_leaf_def)
  with p show ?thesis by (intro exI [of _ ?leaf]) (simp add: eval_type_leaf_def leaf_item_def reviewBool_def)
qed

end
