(* ===== verification/ReviewPolicy.thy ===== *)
theory ReviewPolicy
  imports ReviewDaily
begin

text \<open>
  The trigger policy over many days: \<^verbatim>\<open>internal/domain/review_daily_policy.go\<close>.  One function looks
  back from a day; the other makes a single chronological pass with a ring buffer.  A date is kept as
  its day number, so the zero time is day 0 (1 January of year 1).
\<close>

section \<open>One window\<close>

record ReviewPolicyWindow =
  pw_truth :: ReviewTruth
  pw_window_start :: string
  pw_window_end :: string
  pw_hit_count :: int
  pw_false_count :: int
  pw_unknown_count :: int
  pw_consecutive_count :: int

definition truth_unsupported :: err where
  "truth_unsupported = validation ''dailyPredicate'' ''contains an unsupported truth value''"

text \<open>Indexing a Go map gives the zero value for an absent key.\<close>

definition truth_on :: "(string \<rightharpoonup> ReviewTruth) \<Rightarrow> string \<Rightarrow> ReviewTruth" where
  "truth_on days on = (case days on of None \<Rightarrow> ReviewUnknown | Some v \<Rightarrow> v)"

definition policy_width :: "ReviewTriggerPolicy \<Rightarrow> int \<times> int" where
  "policy_width p =
     (if tp_kind p = ''consecutive'' then (tp_count p, tp_count p)
      else if tp_kind p = ''rolling'' then (tp_window_days p, tp_min_hits p) else (1, 1))"

text \<open>The loop over the window: the counts so far and whether every day so far was a hit.\<close>

function window_loop ::
    "(string \<rightharpoonup> ReviewTruth) \<Rightarrow> int \<Rightarrow> int \<Rightarrow> int \<Rightarrow> ReviewPolicyWindow \<Rightarrow> bool \<Rightarrow> ReviewPolicyWindow res" where
  "window_loop days finish width offset result suffix =
     (if offset < width then
        let v = truth_on days (day_text (finish - offset)) in
        if \<not> ReviewTruth_valid v then Inl truth_unsupported
        else if v = ReviewTrue
        then window_loop days finish width (offset + 1)
          (result\<lparr>pw_hit_count := pw_hit_count result + 1,
             pw_consecutive_count := (if suffix then pw_consecutive_count result + 1 else pw_consecutive_count result)\<rparr>) suffix
        else if v = ReviewFalse
        then window_loop days finish width (offset + 1) (result\<lparr>pw_false_count := pw_false_count result + 1\<rparr>) False
        else window_loop days finish width (offset + 1) (result\<lparr>pw_unknown_count := pw_unknown_count result + 1\<rparr>) False
      else Inr result)"
  by pat_completeness auto

termination
  by (relation "measure (\<lambda>(days, finish, width, offset, result, suffix). nat (width - offset))") auto

declare window_loop.simps [simp del]

text \<open>The loop that follows the hits before the window; it has no bound of its own.\<close>

partial_function (option) streak_loop ::
    "(string \<rightharpoonup> ReviewTruth) \<Rightarrow> int \<Rightarrow> int \<Rightarrow> int \<Rightarrow> (int res) option" where
  "streak_loop days finish offset count =
     (let v = truth_on days (day_text (finish - offset)) in
      if \<not> ReviewTruth_valid v then Some (Inl truth_unsupported)
      else if v \<noteq> ReviewTrue then Some (Inr count)
      else streak_loop days finish (offset + 1) (count + 1))"

definition policy_truth :: "int \<Rightarrow> int \<Rightarrow> int \<Rightarrow> ReviewTruth" where
  "policy_truth required hits unknown =
     (if required \<le> hits then ReviewTrue else if hits + unknown < required then ReviewFalse else ReviewUnknown)"

definition empty_window :: "int \<Rightarrow> int \<Rightarrow> string \<Rightarrow> ReviewPolicyWindow" where
  "empty_window finish width on =
     \<lparr> pw_truth = ReviewUnknown, pw_window_start = day_text (finish + (1 - width)), pw_window_end = on, pw_hit_count = 0,
       pw_false_count = 0, pw_unknown_count = 0, pw_consecutive_count = 0 \<rparr>"

definition EvaluateReviewPolicy ::
    "ReviewTriggerPolicy \<Rightarrow> string \<Rightarrow> (string \<rightharpoonup> ReviewTruth) \<Rightarrow> (ReviewPolicyWindow res) option" where
  "EvaluateReviewPolicy p latestClosedDay days =
     (case ReviewTriggerPolicy_Normalize p of
        Inl e \<Rightarrow> Some (Inl e)
      | Inr p \<Rightarrow>
          (case parse_day latestClosedDay of
             None \<Rightarrow> Some (Inl (validation ''latestClosedDay'' ''must be a valid ISO civil date''))
           | Some finish \<Rightarrow>
               let (width, required) = policy_width p in
               (case window_loop days finish width 0 (empty_window finish width latestClosedDay) True of
                  Inl e \<Rightarrow> Some (Inl e)
                | Inr result \<Rightarrow>
                    (case (if pw_consecutive_count result = width then streak_loop days finish width (pw_consecutive_count result)
                           else Some (Inr (pw_consecutive_count result))) of
                       None \<Rightarrow> None
                     | Some (Inl e) \<Rightarrow> Some (Inl e)
                     | Some (Inr streak) \<Rightarrow>
                         Some (Inr (result\<lparr>pw_consecutive_count := streak,
                           pw_truth := policy_truth required (pw_hit_count result) (pw_unknown_count result)\<rparr>))))))"

section \<open>The timeline\<close>

record timeline =
  tl_window :: "ReviewTruth list"
  tl_head :: nat
  tl_hit_count :: int
  tl_false_count :: int
  tl_unknown_count :: int
  tl_consecutive :: int

definition drop_old :: "timeline \<Rightarrow> timeline" where
  "drop_old t =
     (let old = tl_window t ! tl_head t in
      if old = ReviewTrue then t\<lparr>tl_hit_count := tl_hit_count t - 1\<rparr>
      else if old = ReviewFalse then t\<lparr>tl_false_count := tl_false_count t - 1\<rparr>
      else t\<lparr>tl_unknown_count := tl_unknown_count t - 1\<rparr>)"

definition count_new :: "ReviewTruth \<Rightarrow> timeline \<Rightarrow> timeline" where
  "count_new truth t =
     (if truth = ReviewTrue then t\<lparr>tl_hit_count := tl_hit_count t + 1, tl_consecutive := tl_consecutive t + 1\<rparr>
      else if truth = ReviewFalse then t\<lparr>tl_false_count := tl_false_count t + 1, tl_consecutive := 0\<rparr>
      else t\<lparr>tl_unknown_count := tl_unknown_count t + 1, tl_consecutive := 0\<rparr>)"

definition process :: "int \<Rightarrow> int \<Rightarrow> string \<Rightarrow> ReviewTruth \<Rightarrow> timeline \<Rightarrow> (ReviewPolicyWindow \<times> timeline) res" where
  "process width required on truth t =
     (if \<not> ReviewTruth_valid truth then Inl truth_unsupported
      else
        let t = count_new truth (drop_old t);
            t = t\<lparr>tl_window := (tl_window t)[tl_head t := truth], tl_head := (tl_head t + 1) mod nat width\<rparr>
        in case parse_day on of
             None \<Rightarrow> Inl (validation ''latestClosedDay'' ''must be a valid ISO civil date'')
           | Some day \<Rightarrow>
               Inr (\<lparr> pw_truth = policy_truth required (tl_hit_count t) (tl_unknown_count t),
                      pw_window_start = day_text (day + (1 - width)), pw_window_end = on, pw_hit_count = tl_hit_count t,
                      pw_false_count = tl_false_count t, pw_unknown_count = tl_unknown_count t,
                      pw_consecutive_count = tl_consecutive t \<rparr>, t))"

text \<open>The days that are missing between two results count as unknown.\<close>

function fill_missing :: "int \<Rightarrow> int \<Rightarrow> int \<Rightarrow> int \<Rightarrow> timeline \<Rightarrow> timeline res" where
  "fill_missing width required missing current t =
     (if missing < current then
        res_bind (process width required (day_text missing) ReviewUnknown t) (\<lambda>(_, t).
        fill_missing width required (missing + 1) current t)
      else Inr t)"
  by pat_completeness auto

termination
  by (relation "measure (\<lambda>(width, required, missing, current, t). nat (current - missing))") auto

declare fill_missing.simps [simp del]

fun timeline_loop ::
    "int \<Rightarrow> int \<Rightarrow> ReviewDailyResult list \<Rightarrow> int \<Rightarrow> timeline \<Rightarrow> (string \<rightharpoonup> ReviewPolicyWindow) \<Rightarrow> (string \<rightharpoonup> ReviewPolicyWindow) res" where
  "timeline_loop width required [] previous t latest = Inr latest"
| "timeline_loop width required (day # days) previous t latest =
     (case parse_day (dr_on day) of
        None \<Rightarrow> Inl (validation ''on'' ''must be a valid ISO civil date'')
      | Some current \<Rightarrow>
          res_bind
            (if time_is_zero previous then Inr t
             else if \<not> previous < current then Inl (validation ''on'' ''timeline dates must be strictly increasing'')
             else fill_missing width required (previous + 1) current t) (\<lambda>t.
          res_bind (process width required (dr_on day) (dr_truth day) t) (\<lambda>(result, t).
          timeline_loop width required days current t (latest(dr_on day \<mapsto> result)))))"

definition new_timeline :: "int \<Rightarrow> timeline" where
  "new_timeline width =
     \<lparr> tl_window = replicate (nat width) ReviewUnknown, tl_head = 0, tl_hit_count = 0, tl_false_count = 0,
       tl_unknown_count = width, tl_consecutive = 0 \<rparr>"

definition EvaluateReviewPolicyTimeline ::
    "ReviewTriggerPolicy \<Rightarrow> ReviewDailyResult list \<Rightarrow> (string \<rightharpoonup> ReviewPolicyWindow) res" where
  "EvaluateReviewPolicyTimeline p days =
     res_bind (ReviewTriggerPolicy_Normalize p) (\<lambda>p.
     let (width, required) = policy_width p in timeline_loop width required days 0 (new_timeline width) (\<lambda>_. None))"

section \<open>Days and their texts\<close>

lemma parse_day_text:
  assumes "parse_day s = Some n"
  shows "plain_day n" and "day_text n = s"
proof -
  obtain y m d where p: "parse_date s = Some (y, m, d)" and n: "n = date_days y m d"
    using assms by (auto simp: parse_day_def)
  note t = parse_date_text [OF p]
  then have v: "valid_date y m d" by (simp add: valid_date_def)
  have "y = int (string_nat (take 4 s))" "length s = 10" "list_all is_digit (take 4 s)"
    using p by (auto simp: parse_date_def Let_def split: if_splits)
  with string_nat_bound [of "take 4 s"] have y: "y \<le> 9999" by simp
  have "days_before_year 0 = - 366" "days_before_year 10000 = 3652059" by code_simp+
  with valid_date_bounds(1,2) [OF v] days_before_year_mono [OF t(6)] days_before_year_mono [of "y + 1" 10000] y
  show "plain_day n" by (simp add: n plain_day_def)
  show "day_text n = s" using t(1) by (simp add: n day_text_def civil_of_date_days [OF v])
qed

lemma parse_day_of_text: "plain_day n \<Longrightarrow> parse_day (day_text n) = Some n"
proof -
  assume p: "plain_day n"
  obtain y m d where c: "civil_of_days n = (y, m, d)" by (metis surj_pair)
  note k = civil_of_days_correct [OF c] and y = plain_day_year [OF c p]
  have v: "valid_date y m d" using k by (simp add: valid_date_def)
  show ?thesis using parse_date_format(1) [OF v y] k(1) by (simp add: parse_day_def day_text_def c)
qed

lemma day_text_eq [simp]: "day_text n = day_text k \<longleftrightarrow> n = k"
  by (simp add: day_text_def day_text_inj)

section \<open>Windows as lists\<close>

text \<open>The truth values of a day and the days before it, latest first, and the length of the hits that end on a day.\<close>

definition recent :: "(int \<Rightarrow> ReviewTruth) \<Rightarrow> nat \<Rightarrow> int \<Rightarrow> ReviewTruth list" where
  "recent f w n = map (\<lambda>i. f (n - int i)) [0..<w]"

definition run_length :: "(int \<Rightarrow> ReviewTruth) \<Rightarrow> int \<Rightarrow> nat \<Rightarrow> bool" where
  "run_length f n k \<longleftrightarrow> (\<forall>i < k. f (n - int i) = ReviewTrue) \<and> f (n - int k) \<noteq> ReviewTrue"

definition window_at :: "(int \<Rightarrow> ReviewTruth) \<Rightarrow> nat \<Rightarrow> int \<Rightarrow> int \<Rightarrow> nat \<Rightarrow> ReviewPolicyWindow" where
  "window_at f w required n k =
     (let vs = recent f w n; hits = int (count_list vs ReviewTrue); unknown = int (count_list vs ReviewUnknown) in
      \<lparr> pw_truth = policy_truth required hits unknown, pw_window_start = day_text (n + (1 - int w)), pw_window_end = day_text n,
        pw_hit_count = hits, pw_false_count = int (count_list vs ReviewFalse), pw_unknown_count = unknown,
        pw_consecutive_count = int k \<rparr>)"

lemma recent_Suc: "0 < w \<Longrightarrow> recent f w (n + 1) = f (n + 1) # butlast (recent f w n)"
proof (cases w)
  case (Suc v)
  have "map (\<lambda>i. f (n + 1 - int i)) [0..<Suc v] = f (n + 1) # map (\<lambda>i. f (n + 1 - int (Suc i))) [0..<v]"
    by (simp add: upt_conv_Cons flip: map_Suc_upt del: upt_Suc)
  then show ?thesis by (simp add: recent_def Suc)
qed simp

lemma recent_length [simp]: "length (recent f w n) = w"
  by (simp add: recent_def)

lemma run_length_step: "run_length f n k \<Longrightarrow> run_length f (n + 1) (if f (n + 1) = ReviewTrue then Suc k else 0)"
  by (auto simp: run_length_def less_Suc_eq_0_disj)

lemma run_length_unique: "run_length f n k \<Longrightarrow> run_length f n l \<Longrightarrow> k = l"
  unfolding run_length_def by (metis linorder_neqE_nat)

lemma run_length_drop: "run_length f n k \<Longrightarrow> w \<le> k \<Longrightarrow> run_length f (n - int w) (k - w)"
  by (auto simp: run_length_def algebra_simps of_nat_diff)
    (metis add.commute less_diff_conv of_nat_add)

lemma run_length_takeWhile: "run_length f n k \<Longrightarrow> length (takeWhile (\<lambda>v. v = ReviewTrue) (recent f w n)) = min k w"
proof (cases "k < w")
  case True
  assume r: "run_length f n k"
  with True have "takeWhile (\<lambda>v. v = ReviewTrue) (recent f w n) = take k (recent f w n)"
    by (intro takeWhile_eq_take_P_nth) (auto simp: recent_def run_length_def)
  with True show ?thesis by simp
next
  case False
  assume r: "run_length f n k"
  with False have "\<forall>v \<in> set (recent f w n). v = ReviewTrue" by (auto simp: recent_def run_length_def)
  then have "takeWhile (\<lambda>v. v = ReviewTrue) (recent f w n) = recent f w n" by simp
  from arg_cong [OF this, of length] False show ?thesis by simp
qed

section \<open>Looking back from a day\<close>

lemma window_loop_value:
  assumes "\<And>i. offset \<le> i \<Longrightarrow> i < width \<Longrightarrow> ReviewTruth_valid (truth_on days (day_text (finish - i)))"
  shows "window_loop days finish width offset r suffix =
    (let vs = map (\<lambda>i. truth_on days (day_text (finish - i))) [offset..width - 1] in
     Inr (r\<lparr>pw_hit_count := pw_hit_count r + int (count_list vs ReviewTrue),
            pw_false_count := pw_false_count r + int (count_list vs ReviewFalse),
            pw_unknown_count := pw_unknown_count r + int (count_list vs ReviewUnknown),
            pw_consecutive_count := pw_consecutive_count r
              + (if suffix then int (length (takeWhile (\<lambda>v. v = ReviewTrue) vs)) else 0)\<rparr>))"
  using assms
proof (induction days finish width offset r suffix rule: window_loop.induct)
  case (1 days finish width offset r suffix)
  let ?v = "truth_on days (day_text (finish - offset))"
  show ?case
  proof (cases "offset < width")
    case True
    then have u: "[offset..width - 1] = offset # [offset + 1..width - 1]" by (simp add: upto_rec1)
    have v: "ReviewTruth_valid ?v" using 1(4) True by simp
    have ok: "\<And>i. offset + 1 \<le> i \<Longrightarrow> i < width \<Longrightarrow> ReviewTruth_valid (truth_on days (day_text (finish - i)))"
      using 1(4) by simp
    note ih = 1(1) [OF True refl _ _ ok] 1(2) [OF True refl _ _ _ ok] 1(3) [OF True refl _ _ _ ok]
    show ?thesis
      using ih v by (subst window_loop.simps) (cases ?v; simp add: u True Let_def)
  next
    case False
    then show ?thesis by (simp add: window_loop.simps)
  qed
qed

lemma streak_loop_value:
  assumes "run_length f (finish - offset) k" and "\<And>n. f n = truth_on days (day_text n)" and "\<And>n. ReviewTruth_valid (f n)"
  shows "streak_loop days finish offset count = Some (Inr (count + int k))"
  using assms(1)
proof (induction k arbitrary: offset count)
  case 0
  then have "truth_on days (day_text (finish - offset)) \<noteq> ReviewTrue" "ReviewTruth_valid (truth_on days (day_text (finish - offset)))"
    using assms(3) [of "finish - offset"] by (simp_all add: run_length_def assms(2))
  then show ?case by (subst streak_loop.simps) simp
next
  case (Suc k)
  have "f (finish - offset) = ReviewTrue" using Suc.prems by (auto simp: run_length_def)
  then have v: "truth_on days (day_text (finish - offset)) = ReviewTrue" by (simp add: assms(2))
  have "run_length f (finish - (offset + 1)) k"
    using run_length_drop [OF Suc.prems, of 1] by (simp add: algebra_simps)
  from Suc.IH [OF this, of "count + 1"] v show ?case by (subst streak_loop.simps) simp
qed

lemma policy_width_normal:
  assumes "ReviewTriggerPolicy_Normalize p = Inr q" and "policy_width q = (width, required)"
  shows "1 \<le> required" and "required \<le> width" and "width \<le> 365"
  using assms by (auto simp: ReviewTriggerPolicy_Normalize_def policy_width_def single_policy_def split: if_splits)

lemma recent_upto: "0 \<le> width \<Longrightarrow> map (\<lambda>i. f (n - i)) [0..width - 1] = recent f (nat width) n"
  by (auto simp: recent_def nth_upto intro!: nth_equalityI)

lemma EvaluateReviewPolicy_value:
  assumes "ReviewTriggerPolicy_Normalize p = Inr q" and "policy_width q = (width, required)" and "plain_day n"
    and f: "\<And>n. f n = truth_on days (day_text n)" and valid: "\<And>n. ReviewTruth_valid (f n)" and run: "run_length f n k"
  shows "EvaluateReviewPolicy p (day_text n) days = Some (Inr (window_at f (nat width) required n k))"
proof -
  let ?w = "nat width" and ?t = "\<lambda>vs. int (length (takeWhile (\<lambda>v. v = ReviewTrue) vs))"
  note b = policy_width_normal [OF assms(1,2)]
  then have w: "0 \<le> width" by simp
  let ?r = "(empty_window n width (day_text n))
    \<lparr>pw_hit_count := int (count_list (recent f ?w n) ReviewTrue), pw_false_count := int (count_list (recent f ?w n) ReviewFalse),
     pw_unknown_count := int (count_list (recent f ?w n) ReviewUnknown), pw_consecutive_count := int (min k ?w)\<rparr>"
  have l: "window_loop days n width 0 (empty_window n width (day_text n)) True = Inr ?r"
    using window_loop_value [of 0 width days n "empty_window n width (day_text n)" True] valid recent_upto [OF w, of f n]
      run_length_takeWhile [OF run, of ?w]
    by (simp add: empty_window_def Let_def flip: f)
  have s: "(if int (min k ?w) = width then streak_loop days n width (int (min k ?w)) else Some (Inr (int (min k ?w)))) = Some (Inr (int k))"
  proof (cases "?w \<le> k")
    case True
    then have "run_length f (n - width) (k - ?w)" using run_length_drop [OF run True] w by simp
    from streak_loop_value [OF this f valid, of width] True w show ?thesis by simp
  qed (use w in auto)
  have "EvaluateReviewPolicy p (day_text n) days = Some (Inr (?r\<lparr>pw_consecutive_count := int k,
      pw_truth := policy_truth required (pw_hit_count ?r) (pw_unknown_count ?r)\<rparr>))"
    using s by (cases "int (min k ?w) = width") (simp_all add: EvaluateReviewPolicy_def assms(1,2) parse_day_of_text [OF assms(3)] l Let_def)
  then show ?thesis using w by (simp add: window_at_def empty_window_def Let_def)
qed

section \<open>The ring buffer holds the window\<close>

lemma ring_push:
  assumes "head < length win"
  shows "win ! head = last (rev (rotate head win))"
    and "rev (rotate (Suc head mod length win) (win[head := x])) = x # butlast (rev (rotate head win))"
proof -
  have r: "rotate head ys = drop head ys @ take head ys" if "length ys = length win" for ys :: "'a list"
    using that assms by (simp add: rotate_drop_take)
  have d: "drop head win = win ! head # drop (Suc head) win" using assms by (simp add: Cons_nth_drop_Suc)
  show "win ! head = last (rev (rotate head win))" by (simp add: r d last_rev)
  have "rotate (Suc head mod length win) (win[head := x]) = rotate1 (rotate head (win[head := x]))"
    using rotate_conv_mod [of "Suc head" "win[head := x]"] by simp
  also have "rotate head (win[head := x]) = x # drop (Suc head) win @ take head win"
    using assms r [of "win[head := x]"] Cons_nth_drop_Suc [of head "win[head := x]"] by simp
  finally show "rev (rotate (Suc head mod length win) (win[head := x])) = x # butlast (rev (rotate head win))"
    by (simp add: r d butlast_append)
qed

definition ring_ok :: "(int \<Rightarrow> ReviewTruth) \<Rightarrow> nat \<Rightarrow> int \<Rightarrow> timeline \<Rightarrow> bool" where
  "ring_ok f w n t \<longleftrightarrow>
     length (tl_window t) = w \<and> tl_head t < w \<and> rev (rotate (tl_head t) (tl_window t)) = recent f w n
     \<and> tl_hit_count t = int (count_list (recent f w n) ReviewTrue) \<and> tl_false_count t = int (count_list (recent f w n) ReviewFalse)
     \<and> tl_unknown_count t = int (count_list (recent f w n) ReviewUnknown)
     \<and> (\<exists>k. tl_consecutive t = int k \<and> run_length f n k)"

lemma count_push: "vs \<noteq> [] \<Longrightarrow> int (count_list (x # butlast vs) v) = int (count_list vs v) - (if last vs = v then 1 else 0) + (if x = v then 1 else 0)"
proof -
  assume "vs \<noteq> []"
  then have "count_list vs v = count_list (butlast vs @ [last vs]) v" by simp
  then show ?thesis by (simp add: count_list_append)
qed

lemma process_ring:
  assumes "ring_ok f w n t" and "0 < w" and "plain_day (n + 1)" and "truth = f (n + 1)" and valid: "\<And>n. ReviewTruth_valid (f n)"
  shows "\<exists>k t'. process (int w) required (day_text (n + 1)) truth t = Inr (window_at f w required (n + 1) k, t')
    \<and> run_length f (n + 1) k \<and> ring_ok f w (n + 1) t'"
proof -
  let ?vs = "recent f w n"
  from assms(1) obtain k where r: "length (tl_window t) = w" "tl_head t < w" "rev (rotate (tl_head t) (tl_window t)) = ?vs"
      and c: "tl_hit_count t = int (count_list ?vs ReviewTrue)" "tl_false_count t = int (count_list ?vs ReviewFalse)"
        "tl_unknown_count t = int (count_list ?vs ReviewUnknown)" "tl_consecutive t = int k" and k: "run_length f n k"
    by (auto simp: ring_ok_def)
  have ne: "?vs \<noteq> []" using assms(2) by (simp flip: length_0_conv)
  have old: "tl_window t ! tl_head t = last ?vs" and
      new: "rev (rotate (Suc (tl_head t) mod w) ((tl_window t)[tl_head t := truth])) = truth # butlast ?vs"
    using ring_push(1) [of "tl_head t" "tl_window t"] ring_push(2) [of "tl_head t" "tl_window t" truth] r by simp_all
  have R: "recent f w (n + 1) = truth # butlast ?vs" using recent_Suc [OF assms(2)] assms(4) by simp
  let ?k = "if truth = ReviewTrue then Suc k else 0"
  define t' where "t' = (let t = count_new truth (drop_old t)
    in t\<lparr>tl_window := (tl_window t)[tl_head t := truth], tl_head := (tl_head t + 1) mod w\<rparr>)"
  have lv: "ReviewTruth_valid (last ?vs)" "ReviewTruth_valid truth"
    using valid assms(2,4) by (simp_all add: recent_def last_map)
  have t': "tl_window t' = (tl_window t)[tl_head t := truth]" "tl_head t' = Suc (tl_head t) mod w"
      "tl_hit_count t' = int (count_list (truth # butlast ?vs) ReviewTrue)"
      "tl_false_count t' = int (count_list (truth # butlast ?vs) ReviewFalse)"
      "tl_unknown_count t' = int (count_list (truth # butlast ?vs) ReviewUnknown)" "tl_consecutive t' = int ?k"
    unfolding count_push [OF ne]
    using lv by (cases "last ?vs"; cases truth; simp add: t'_def count_new_def drop_old_def old c Let_def)+
  have "run_length f (n + 1) ?k" using run_length_step [OF k] assms(4) by simp
  moreover from this have "ring_ok f w (n + 1) t'"
    using t' r(1) new assms(2) by (auto simp: ring_ok_def R)
  moreover have "process (int w) required (day_text (n + 1)) truth t = Inr (window_at f w required (n + 1) ?k, t')"
  proof -
    have "process (int w) required (day_text (n + 1)) truth t =
        Inr (\<lparr> pw_truth = policy_truth required (tl_hit_count t') (tl_unknown_count t'),
               pw_window_start = day_text (n + 1 + (1 - int w)), pw_window_end = day_text (n + 1), pw_hit_count = tl_hit_count t',
               pw_false_count = tl_false_count t', pw_unknown_count = tl_unknown_count t', pw_consecutive_count = tl_consecutive t' \<rparr>, t')"
      using lv(2) by (simp add: process_def parse_day_of_text [OF assms(3)] t'_def Let_def)
    then show ?thesis unfolding t' window_at_def R by (simp add: Let_def)
  qed
  ultimately show ?thesis by blast
qed

lemma fill_ring:
  assumes "ring_ok f w (missing - 1) t" and "0 < w" and "missing \<le> current" and "plain_day missing" "plain_day current"
    and valid: "\<And>n. ReviewTruth_valid (f n)" and "\<And>n. missing \<le> n \<Longrightarrow> n < current \<Longrightarrow> f n = ReviewUnknown"
  shows "\<exists>t'. fill_missing (int w) required missing current t = Inr t' \<and> ring_ok f w (current - 1) t'"
  using assms(1,3-5) assms(7)
proof (induction "nat (current - missing)" arbitrary: missing t)
  case 0
  then show ?case by (subst fill_missing.simps) auto
next
  case (Suc j)
  then have l: "missing < current" by simp
  have u: "ReviewUnknown = f (missing - 1 + 1)" using Suc.prems(5) [of missing] l by simp
  obtain k t' where p: "process (int w) required (day_text missing) ReviewUnknown t = Inr (window_at f w required missing k, t')"
      and r: "ring_ok f w missing t'"
    using process_ring [OF Suc.prems(1) assms(2) _ u valid, of required] Suc.prems(3) by auto
  have "plain_day (missing + 1)" using Suc.prems(3,4) l by (simp add: plain_day_def)
  with Suc.hyps(1) [of "missing + 1" t'] Suc.hyps(2) Suc.prems(4,5) r l
  have "\<exists>t''. fill_missing (int w) required (missing + 1) current t' = Inr t'' \<and> ring_ok f w (current - 1) t''" by simp
  then show ?case using l by (subst fill_missing.simps) (simp add: p)
qed

lemma new_ring:
  assumes "\<And>m. m \<le> n \<Longrightarrow> f m = ReviewUnknown" and "0 < w"
  shows "ring_ok f w n (new_timeline (int w))"
proof -
  have r: "recent f w n = replicate w ReviewUnknown"
    using assms(1) by (intro nth_equalityI) (simp_all add: recent_def)
  have c: "count_list (replicate w ReviewUnknown) v = (if v = ReviewUnknown then w else 0)" for v
    by (induction w) auto
  have "run_length f n 0" using assms(1) [of n] by (simp add: run_length_def)
  then show ?thesis using assms(2) by (auto simp: ring_ok_def new_timeline_def r c)
qed

text \<open>A result of the list that stands for the truth of its day, and the state in which the loop meets the next one.\<close>

definition day_ok :: "(int \<Rightarrow> ReviewTruth) \<Rightarrow> ReviewDailyResult \<Rightarrow> int \<Rightarrow> bool" where
  "day_ok f day n \<longleftrightarrow> parse_day (dr_on day) = Some n \<and> f n = dr_truth day"

definition enter_ok :: "(int \<Rightarrow> ReviewTruth) \<Rightarrow> nat \<Rightarrow> int list \<Rightarrow> int \<Rightarrow> timeline \<Rightarrow> bool" where
  "enter_ok f w nums previous t \<longleftrightarrow>
     (if time_is_zero previous then t = new_timeline (int w) \<and> (\<forall>n. n \<notin> set nums \<longrightarrow> f n = ReviewUnknown)
      else ring_ok f w previous t \<and> plain_day previous \<and> (\<forall>n \<in> set nums. previous < n)
        \<and> (\<forall>n > previous. n \<notin> set nums \<longrightarrow> f n = ReviewUnknown))"

lemma enter_fill:
  assumes "enter_ok f w (n # nums) previous t" and "0 < w" and "plain_day n" and "sorted_wrt (<) (n # nums)"
    and valid: "\<And>n. ReviewTruth_valid (f n)"
  shows "\<exists>t'. (if time_is_zero previous then Inr t else if \<not> previous < n then Inl e
      else fill_missing (int w) required (previous + 1) n t) = Inr t' \<and> ring_ok f w (n - 1) t'"
proof (cases "time_is_zero previous")
  case True
  have "f m = ReviewUnknown" if "m \<le> n - 1" for m
    using that assms(1,4) True by (force simp: enter_ok_def)
  from new_ring [OF this assms(2)] True assms(1) show ?thesis by (simp add: enter_ok_def)
next
  case False
  then have e: "ring_ok f w (previous + 1 - 1) t" "previous < n" "plain_day previous"
      and u: "\<And>m. previous + 1 \<le> m \<Longrightarrow> m < n \<Longrightarrow> f m = ReviewUnknown"
    using assms(1,4) by (force simp: enter_ok_def)+
  have "plain_day (previous + 1)" using e(2,3) assms(3) by (simp add: plain_day_def)
  from fill_ring [OF e(1) assms(2) _ this assms(3) valid u] e(2) False show ?thesis by simp
qed

lemma timeline_loop_ring:
  assumes "list_all2 (day_ok f) days nums" and "sorted_wrt (<) nums" and "0 \<notin> set nums" and "enter_ok f w nums previous t"
    and w: "0 < w" and valid: "\<And>n. ReviewTruth_valid (f n)"
  shows "\<exists>latest'. timeline_loop (int w) required days previous t latest = Inr latest'
    \<and> (\<forall>day \<in> set days. \<exists>n k. parse_day (dr_on day) = Some n \<and> run_length f n k
          \<and> latest' (dr_on day) = Some (window_at f w required n k))
    \<and> (\<forall>on. on \<notin> dr_on ` set days \<longrightarrow> latest' on = latest on)"
  using assms(1-4)
proof (induction days nums arbitrary: previous t latest rule: list_all2_induct)
  case (Cons day days n nums)
  have d: "parse_day (dr_on day) = Some n" "dr_truth day = f (n - 1 + 1)" using Cons.hyps(1) by (simp_all add: day_ok_def)
  note n = parse_day_text [OF d(1)]
  obtain t1 where t1: "(if time_is_zero previous then Inr t else if \<not> previous < n then Inl (validation ''on'' ''timeline dates must be strictly increasing'')
      else fill_missing (int w) required (previous + 1) n t) = Inr t1" and r1: "ring_ok f w (n - 1) t1"
    using enter_fill [OF Cons.prems(3) w n(1) Cons.prems(1) valid] by blast
  obtain k t2 where p: "process (int w) required (dr_on day) (dr_truth day) t1 = Inr (window_at f w required n k, t2)"
      and k: "run_length f n k" and r2: "ring_ok f w n t2"
    using process_ring [OF r1 w _ d(2) valid, of required] n by auto
  have u: "\<forall>m > n. m \<notin> set nums \<longrightarrow> f m = ReviewUnknown"
    using Cons.prems(1,3) by (force simp: enter_ok_def split: if_splits)
  have "enter_ok f w nums n t2" using Cons.prems(1,2) r2 n(1) u by (simp add: enter_ok_def time_is_zero_def)
  then obtain latest' where l: "timeline_loop (int w) required days n t2 (latest(dr_on day \<mapsto> window_at f w required n k)) = Inr latest'"
      "\<forall>day \<in> set days. \<exists>n k. parse_day (dr_on day) = Some n \<and> run_length f n k
          \<and> latest' (dr_on day) = Some (window_at f w required n k)"
      "\<forall>on. on \<notin> dr_on ` set days \<longrightarrow> latest' on = (latest(dr_on day \<mapsto> window_at f w required n k)) on"
    using Cons.IH [of n t2] Cons.prems(1,2) by fastforce
  have "dr_on day \<notin> dr_on ` set days"
  proof
    assume "dr_on day \<in> dr_on ` set days"
    then obtain i where i: "i < length days" "dr_on (days ! i) = dr_on day" by (auto simp: in_set_conv_nth)
    with Cons.hyps(2) have "day_ok f (days ! i) (nums ! i)" "nums ! i \<in> set nums" by (simp_all add: list_all2_conv_all_nth)
    with i(2) d(1) Cons.prems(1) show False by (auto simp: day_ok_def)
  qed
  then have "latest' (dr_on day) = Some (window_at f w required n k)" using l(3) by simp
  with l k d(1) t1 p show ?case by (intro exI [of _ latest']) auto
qed simp

section \<open>Properties\<close>

text \<open>The truth of a day in a list of results: unknown for a day that is not in it.\<close>

definition truths_of :: "ReviewDailyResult list \<Rightarrow> string \<rightharpoonup> ReviewTruth" where
  "truths_of days = map_of (map (\<lambda>day. (dr_on day, dr_truth day)) days)"

lemma run_length_exists:
  assumes "finite (dom days)"
  shows "\<exists>k. run_length (\<lambda>n. truth_on days (day_text n)) n k"
proof -
  let ?f = "\<lambda>n. truth_on days (day_text n)" and ?g = "\<lambda>i. day_text (n - int i)"
  have "inj ?g" by (auto intro!: injI)
  then have "infinite (range ?g)" using finite_imageD infinite_UNIV_nat by blast
  then obtain i where "?g i \<notin> dom days" using assms by (meson finite_subset image_subset_iff)
  then have "?f (n - int i) \<noteq> ReviewTrue" by (simp add: truth_on_def domIff)
  with LeastI [of "\<lambda>i. ?f (n - int i) \<noteq> ReviewTrue" i] not_less_Least [of _ "\<lambda>i. ?f (n - int i) \<noteq> ReviewTrue"]
  have "run_length ?f n (LEAST i. ?f (n - int i) \<noteq> ReviewTrue)" unfolding run_length_def by blast
  then show ?thesis ..
qed

lemma truths_of_valid: "list_all (\<lambda>day. ReviewTruth_valid (dr_truth day)) days \<Longrightarrow> ReviewTruth_valid (truth_on (truths_of days) on)"
  by (auto simp: truth_on_def truths_of_def list_all_iff split: option.splits dest!: map_of_SomeD)

lemma timeline_input:
  assumes "map (\<lambda>day. parse_day (dr_on day)) days = map Some nums" and "sorted_wrt (<) nums"
  shows "list_all2 (day_ok (\<lambda>n. truth_on (truths_of days) (day_text n))) days nums"
    and "\<And>n. n \<notin> set nums \<Longrightarrow> truth_on (truths_of days) (day_text n) = ReviewUnknown"
proof -
  let ?f = "\<lambda>n. truth_on (truths_of days) (day_text n)"
  have len: "length nums = length days" using arg_cong [OF assms(1), of length] by simp
  have at: "parse_day (dr_on (days ! i)) = Some (nums ! i)" if "i < length days" for i
    using that len arg_cong [OF assms(1), of "\<lambda>xs. xs ! i"] by simp
  have dist: "distinct (map dr_on days)"
  proof -
    have "distinct (map parse_day (map dr_on days))" using assms by (simp add: distinct_map strict_sorted_iff comp_def)
    then show ?thesis by (simp only: distinct_map)
  qed
  have on: "truths_of days (dr_on day) = Some (dr_truth day)" if "day \<in> set days" for day
    using that dist unfolding truths_of_def by (intro map_of_is_SomeI) (auto simp: comp_def)
  show "list_all2 (day_ok ?f) days nums"
    unfolding list_all2_conv_all_nth day_ok_def
  proof (intro conjI allI impI)
    fix i assume i: "i < length days"
    show "parse_day (dr_on (days ! i)) = Some (nums ! i)" by (rule at [OF i])
    show "?f (nums ! i) = dr_truth (days ! i)" using on [of "days ! i"] i parse_day_text(2) [OF at [OF i]] by (simp add: truth_on_def)
  qed (simp add: len)
  show "?f n = ReviewUnknown" if "n \<notin> set nums" for n
  proof (cases "truths_of days (day_text n)")
    case (Some v)
    then obtain i where i: "i < length days" "dr_on (days ! i) = day_text n"
      by (auto simp: truths_of_def in_set_conv_nth dest!: map_of_SomeD)
    with parse_day_text(2) [OF at [OF i(1)]] have "n = nums ! i" by simp
    with i(1) len that show ?thesis by simp
  qed (simp add: truth_on_def)
qed

text \<open>C9. The one-pass evaluation with its ring buffer computes, for every day of the list, exactly
  the window that looking back from that day computes: the counts of hits, misses and unknown days
  (days missing from the list included), the length of the streak, the bounds of the window and the
  verdict.  Both functions return a result for every increasing list of valid results.\<close>

theorem EvaluateReviewPolicyTimeline_equivalent:
  assumes "ReviewTriggerPolicy_Normalize p = Inr q" and "map (\<lambda>day. parse_day (dr_on day)) days = map Some nums"
    and "sorted_wrt (<) nums" and "0 \<notin> set nums" and "list_all (\<lambda>day. ReviewTruth_valid (dr_truth day)) days"
  shows "\<exists>windows. EvaluateReviewPolicyTimeline p days = Inr windows \<and> dom windows = dr_on ` set days
    \<and> (\<forall>day \<in> set days. \<exists>w. windows (dr_on day) = Some w \<and> EvaluateReviewPolicy p (dr_on day) (truths_of days) = Some (Inr w))"
proof -
  let ?f = "\<lambda>n. truth_on (truths_of days) (day_text n)"
  obtain width required where wr: "policy_width q = (width, required)" by (metis surj_pair)
  have w: "0 < nat width" "int (nat width) = width" using policy_width_normal [OF assms(1) wr] by simp_all
  note input = timeline_input [OF assms(2,3)]
  have e: "enter_ok ?f (nat width) nums 0 (new_timeline width)"
    using input(2) w(2) by (simp add: enter_ok_def time_is_zero_def)
  note valid = truths_of_valid [OF assms(5)]
  obtain windows where t: "timeline_loop width required days 0 (new_timeline width) (\<lambda>_. None) = Inr windows"
      and at_day: "\<forall>day \<in> set days. \<exists>n k. parse_day (dr_on day) = Some n \<and> run_length ?f n k
        \<and> windows (dr_on day) = Some (window_at ?f (nat width) required n k)"
      and other: "\<forall>on. on \<notin> dr_on ` set days \<longrightarrow> windows on = None"
    using timeline_loop_ring [OF input(1) assms(3,4) e w(1) valid, of required "\<lambda>_. None"] w(2) by auto
  have "EvaluateReviewPolicyTimeline p days = Inr windows" using t by (simp add: EvaluateReviewPolicyTimeline_def assms(1) wr)
  moreover have "\<exists>w. windows (dr_on day) = Some w \<and> EvaluateReviewPolicy p (dr_on day) (truths_of days) = Some (Inr w)"
    if "day \<in> set days" for day
  proof -
    from bspec [OF at_day that] obtain n k where n: "parse_day (dr_on day) = Some n" and k: "run_length ?f n k"
        and win: "windows (dr_on day) = Some (window_at ?f (nat width) required n k)"
      by (elim exE conjE)
    from EvaluateReviewPolicy_value [OF assms(1) wr parse_day_text(1) [OF n] refl valid k] parse_day_text(2) [OF n] win
    show ?thesis by simp
  qed
  moreover have "dom windows = dr_on ` set days"
  proof
    show "dom windows \<subseteq> dr_on ` set days" using other by (meson domIff subsetI)
    show "dr_on ` set days \<subseteq> dom windows" using at_day by (meson domI image_subsetI)
  qed
  ultimately show ?thesis by blast
qed

definition on_day :: "string \<Rightarrow> ReviewTruth \<Rightarrow> ReviewDailyResult" where
  "on_day on truth = \<lparr> dr_predicate = None, dr_on = on, dr_truth = truth, dr_leaves = [] \<rparr>"

definition sample_days :: "ReviewDailyResult list" where
  "sample_days = [on_day ''2026-02-27'' ReviewTrue, on_day ''2026-02-28'' ReviewTrue, on_day ''2026-03-02'' ReviewFalse,
     on_day ''2026-03-03'' ReviewTrue]"

definition two_of_three :: ReviewTriggerPolicy where
  "two_of_three = \<lparr> tp_kind = ''rolling'', tp_count = 0, tp_window_days = 3, tp_min_hits = 2 \<rparr>"

theorem EvaluateReviewPolicyTimeline_equivalent_witness:
  "\<exists>windows w. EvaluateReviewPolicyTimeline two_of_three sample_days = Inr windows \<and> windows ''2026-03-03'' = Some w
     \<and> EvaluateReviewPolicy two_of_three ''2026-03-03'' (truths_of sample_days) = Some (Inr w)"
proof -
  have n: "ReviewTriggerPolicy_Normalize two_of_three = Inr two_of_three" by code_simp
  have d: "map (\<lambda>day. parse_day (dr_on day)) sample_days = map Some [739673, 739674, 739676, 739677]" by code_simp
  have v: "list_all (\<lambda>day. ReviewTruth_valid (dr_truth day)) sample_days" by code_simp
  have "on_day ''2026-03-03'' ReviewTrue \<in> set sample_days" by (simp add: sample_days_def)
  moreover obtain windows where w: "EvaluateReviewPolicyTimeline two_of_three sample_days = Inr windows"
      "\<forall>day \<in> set sample_days. \<exists>w. windows (dr_on day) = Some w
        \<and> EvaluateReviewPolicy two_of_three (dr_on day) (truths_of sample_days) = Some (Inr w)"
    using EvaluateReviewPolicyTimeline_equivalent [OF n d _ _ v] by auto
  ultimately obtain w where "windows (dr_on (on_day ''2026-03-03'' ReviewTrue)) = Some w"
      "EvaluateReviewPolicy two_of_three (dr_on (on_day ''2026-03-03'' ReviewTrue)) (truths_of sample_days) = Some (Inr w)" by blast
  with w(1) show ?thesis by (auto simp: on_day_def)
qed

lemma evidence_counts:
  "list_all2 evidence_for vs bs \<Longrightarrow> list_all ReviewTruth_valid vs \<Longrightarrow>
     count_list vs ReviewTrue \<le> count_list bs True \<and> count_list bs True \<le> count_list vs ReviewTrue + count_list vs ReviewUnknown"
  by (induction rule: list_all2_induct) (auto simp: evidence_for_def elim: ReviewTruth_valid.elims)

lemma evidence_extremes:
  assumes "list_all ReviewTruth_valid vs"
  shows "list_all2 evidence_for vs (map (\<lambda>v. v = ReviewTrue) vs)" "count_list (map (\<lambda>v. v = ReviewTrue) vs) True = count_list vs ReviewTrue"
    and "list_all2 evidence_for vs (map (\<lambda>v. v \<noteq> ReviewFalse) vs)"
    and "count_list (map (\<lambda>v. v \<noteq> ReviewFalse) vs) True = count_list vs ReviewTrue + count_list vs ReviewUnknown"
    and "count_list vs ReviewTrue + count_list vs ReviewFalse + count_list vs ReviewUnknown = length vs"
  using assms by (induction vs) (auto simp: evidence_for_def elim: ReviewTruth_valid.elims)

lemma policy_truth_decides:
  assumes "list_all ReviewTruth_valid vs"
  shows "policy_truth required (int (count_list vs ReviewTrue)) (int (count_list vs ReviewUnknown)) = ReviewTrue \<longleftrightarrow>
      (\<forall>bs. list_all2 evidence_for vs bs \<longrightarrow> required \<le> int (count_list bs True))"
    and "policy_truth required (int (count_list vs ReviewTrue)) (int (count_list vs ReviewUnknown)) = ReviewFalse \<longleftrightarrow>
      (\<forall>bs. list_all2 evidence_for vs bs \<longrightarrow> int (count_list bs True) < required)"
proof -
  note x = evidence_extremes [OF assms] and c = evidence_counts [OF _ assms]
  have "(\<forall>bs. list_all2 evidence_for vs bs \<longrightarrow> required \<le> int (count_list bs True)) \<longleftrightarrow> required \<le> int (count_list vs ReviewTrue)"
    using x(1,2) c by (metis of_nat_le_iff order_trans)
  then show "policy_truth required (int (count_list vs ReviewTrue)) (int (count_list vs ReviewUnknown)) = ReviewTrue \<longleftrightarrow>
      (\<forall>bs. list_all2 evidence_for vs bs \<longrightarrow> required \<le> int (count_list bs True))" by (simp add: policy_truth_def)
  have "(\<forall>bs. list_all2 evidence_for vs bs \<longrightarrow> int (count_list bs True) < required) \<longleftrightarrow>
      int (count_list vs ReviewTrue) + int (count_list vs ReviewUnknown) < required"
    using x(3,4) c by (metis of_nat_add of_nat_le_iff order_le_less_trans)
  then show "policy_truth required (int (count_list vs ReviewTrue)) (int (count_list vs ReviewUnknown)) = ReviewFalse \<longleftrightarrow>
      (\<forall>bs. list_all2 evidence_for vs bs \<longrightarrow> int (count_list bs True) < required)" by (simp add: policy_truth_def)
qed

text \<open>C10. Looking back from a day always returns, although its second loop has no bound of its own,
  and decides as much as the evidence allows and no more: the policy is triggered if and only if
  every way the unknown days may turn out reaches the required number of hits, it is refuted if and
  only if none does, the counts add up to the width of the window, and the streak is the exact
  number of hits that end on the day.\<close>

theorem EvaluateReviewPolicy_decides:
  assumes "ReviewTriggerPolicy_Normalize p = Inr q" and "policy_width q = (width, required)" and "parse_day on = Some n"
    and "finite (dom days)" and "\<And>on. ReviewTruth_valid (truth_on days on)"
  shows "\<exists>w. EvaluateReviewPolicy p on days = Some (Inr w)
    \<and> (let f = \<lambda>n. truth_on days (day_text n); vs = recent f (nat width) n in
       (pw_truth w = ReviewTrue \<longleftrightarrow> (\<forall>bs. list_all2 evidence_for vs bs \<longrightarrow> required \<le> int (count_list bs True)))
       \<and> (pw_truth w = ReviewFalse \<longleftrightarrow> (\<forall>bs. list_all2 evidence_for vs bs \<longrightarrow> int (count_list bs True) < required))
       \<and> pw_hit_count w + pw_false_count w + pw_unknown_count w = width
       \<and> run_length f n (nat (pw_consecutive_count w)))"
proof -
  let ?f = "\<lambda>n. truth_on days (day_text n)"
  let ?vs = "recent ?f (nat width) n"
  have w: "int (nat width) = width" using policy_width_normal [OF assms(1,2)] by simp
  obtain k where k: "run_length ?f n k" using run_length_exists [OF assms(4)] by blast
  have v: "list_all ReviewTruth_valid ?vs" using assms(5) by (auto simp: recent_def list_all_iff)
  have e: "EvaluateReviewPolicy p on days = Some (Inr (window_at ?f (nat width) required n k))"
    using EvaluateReviewPolicy_value [OF assms(1,2) parse_day_text(1) [OF assms(3)] refl assms(5) k] parse_day_text(2) [OF assms(3)] by simp
  show ?thesis
    unfolding e using policy_truth_decides [OF v, of required] arg_cong [OF evidence_extremes(5) [OF v], of int] w k
    by (intro exI [of _ "window_at ?f (nat width) required n k"]) (simp add: window_at_def Let_def)
qed

theorem EvaluateReviewPolicy_decides_witness:
  "\<exists>w. EvaluateReviewPolicy two_of_three ''2026-03-03'' (truths_of sample_days) = Some (Inr w)
    \<and> pw_hit_count w + pw_false_count w + pw_unknown_count w = 3"
proof -
  have n: "ReviewTriggerPolicy_Normalize two_of_three = Inr two_of_three" "policy_width two_of_three = (3, 2)" "parse_day ''2026-03-03'' = Some 739677"
    by code_simp+
  have v: "list_all (\<lambda>day. ReviewTruth_valid (dr_truth day)) sample_days" by code_simp
  have "finite (dom (truths_of sample_days))" by (simp add: truths_of_def finite_dom_map_of)
  from EvaluateReviewPolicy_decides [OF n this truths_of_valid [OF v]] show ?thesis by (auto simp: Let_def)
qed

text \<open>The zero time marks "no previous day", so after the result of 1 January of year 1 the check of the
  order is skipped: the same day is accepted twice.\<close>

theorem timeline_zero_day:
  "EvaluateReviewPolicyTimeline single_policy [on_day ''0001-01-01'' ReviewTrue, on_day ''0001-01-01'' ReviewFalse] \<noteq>
     Inl (validation ''on'' ''timeline dates must be strictly increasing'')"
proof -
  have p: "parse_day ''0001-01-01'' = Some 0" "ReviewTriggerPolicy_Normalize single_policy = Inr single_policy"
    "policy_width single_policy = (1, 1)" by code_simp+
  show ?thesis by (simp add: EvaluateReviewPolicyTimeline_def p on_day_def time_is_zero_def process_def Let_def)
qed

end
