(* ===== verification/ReviewEpisode.thy ===== *)
theory ReviewEpisode
  imports ReviewPolicy
begin

text \<open>
  Episodes and suppressions of the review component: \<^verbatim>\<open>internal/domain/review_episode.go\<close>,
  \<^verbatim>\<open>review_suppression.go\<close>, \<^verbatim>\<open>review_temporal.go\<close> and \<^verbatim>\<open>review_source_revision.go\<close>.  An episode opens on
  the first hit after the last proven miss and stays the same episode until a miss, a closed
  position or an archived rule ends it; unknown days neither open nor close one.
\<close>

section \<open>Episodes\<close>

record ReviewEpisodeIdentity =
  ei_id :: string
  ei_triggered_on :: string
  ei_first_detected_at :: go_time
  ei_acknowledged_at :: "go_time option"
  ei_resolved_at :: "go_time option"
  ei_resolved_reason :: string

record ReviewEpisodeDecision =
  ed_current :: "ReviewEpisodeIdentity option"
  ed_closed :: "ReviewEpisodeIdentity option"
  ed_opened :: bool
  ed_state :: ReviewTruth

definition policy_value_error :: err where
  "policy_value_error = validation ''policyByDay'' ''unsupported policy truth value''"

text \<open>The loop over the days: the last proven miss and the first hit after it, empty when there is none.\<close>

function scan_days :: "(string \<rightharpoonup> ReviewTruth) \<Rightarrow> int \<Rightarrow> int \<Rightarrow> string \<times> string \<Rightarrow> (string \<times> string) res" where
  "scan_days policyByDay day final (lastProvenFalse, firstTrueSinceFalse) =
     (if day \<le> final then
        let on = day_text day; state = truth_on policyByDay on in
        if \<not> ReviewTruth_valid state then Inl policy_value_error
        else scan_days policyByDay (day + 1) final
          (if state = ReviewFalse then (on, [])
           else if state = ReviewTrue \<and> firstTrueSinceFalse = [] then (lastProvenFalse, on)
           else (lastProvenFalse, firstTrueSinceFalse))
      else Inr (lastProvenFalse, firstTrueSinceFalse))"
  by pat_completeness auto

termination
  by (relation "measure (\<lambda>(policyByDay, day, final, found). nat (final + 1 - day))") auto

declare scan_days.simps [simp del]

definition existing_ok :: "int \<Rightarrow> int \<Rightarrow> ReviewEpisodeIdentity option \<Rightarrow> bool" where
  "existing_ok first final existing =
     (case existing of
        None \<Rightarrow> True
      | Some e \<Rightarrow>
          ei_id e \<noteq> [] \<and> ei_resolved_at e = None
          \<and> (case parse_day (ei_triggered_on e) of None \<Rightarrow> False | Some triggered \<Rightarrow> \<not> triggered < first \<and> \<not> final < triggered))"

definition close_reason :: "bool \<Rightarrow> bool \<Rightarrow> bool \<Rightarrow> ReviewEpisodeIdentity option \<Rightarrow> string \<Rightarrow> string" where
  "close_reason archived quantityKnown held existing lastProvenFalse =
     (if archived then ''rule_archived''
      else if quantityKnown \<and> \<not> held then ''position_closed''
      else case existing of
          None \<Rightarrow> []
        | Some e \<Rightarrow> if ei_triggered_on e \<le> lastProvenFalse then ''recovered'' else [])"

definition close_episode :: "string \<Rightarrow> go_time \<Rightarrow> ReviewEpisodeIdentity \<Rightarrow> ReviewEpisodeIdentity" where
  "close_episode reason detectedAt e = e\<lparr>ei_resolved_reason := reason, ei_resolved_at := Some detectedAt\<rparr>"

definition open_episode :: "string \<Rightarrow> string \<Rightarrow> go_time \<Rightarrow> ReviewEpisodeIdentity" where
  "open_episode nextID on detectedAt =
     \<lparr> ei_id = nextID, ei_triggered_on = on, ei_first_detected_at = detectedAt, ei_acknowledged_at = None,
       ei_resolved_at = None, ei_resolved_reason = [] \<rparr>"

definition decide_episode ::
    "ReviewTruth \<Rightarrow> bool \<Rightarrow> bool \<Rightarrow> bool \<Rightarrow> ReviewEpisodeIdentity option \<Rightarrow> string \<Rightarrow> go_time \<Rightarrow> string \<times> string
      \<Rightarrow> ReviewEpisodeDecision res" where
  "decide_episode state quantityKnown held archived existing nextID detectedAt found =
     (let (lastProvenFalse, firstTrueSinceFalse) = found;
          reason = close_reason archived quantityKnown held existing lastProvenFalse;
          closed = (case existing of None \<Rightarrow> None | Some e \<Rightarrow> if reason \<noteq> [] then Some (close_episode reason detectedAt e) else None);
          result = \<lparr> ed_current = None, ed_closed = closed, ed_opened = False, ed_state = state \<rparr>;
          retained = (if existing \<noteq> None \<and> closed = None then result\<lparr>ed_current := existing\<rparr> else result)
      in if archived \<or> \<not> quantityKnown \<or> \<not> held \<or> state \<noteq> ReviewTrue then Inr retained
         else if existing \<noteq> None \<and> closed = None then Inr retained
         else if nextID = [] \<or> firstTrueSinceFalse = []
         then Inl (validation ''nextEpisodeID'' ''a new episode needs a stable ID and a proven trigger day'')
         else Inr (result\<lparr>ed_current := Some (open_episode nextID firstTrueSinceFalse detectedAt), ed_opened := True\<rparr>))"

definition AdvanceReviewEpisode ::
    "string \<Rightarrow> string \<Rightarrow> (string \<rightharpoonup> ReviewTruth) \<Rightarrow> bool \<Rightarrow> bool \<Rightarrow> bool \<Rightarrow> ReviewEpisodeIdentity option \<Rightarrow> string \<Rightarrow> go_time
      \<Rightarrow> ReviewEpisodeDecision res" where
  "AdvanceReviewEpisode firstOn latestClosedOn policyByDay quantityKnown held archived existing nextID detectedAt =
     (case parse_day firstOn of
        None \<Rightarrow> Inl (validation ''firstOn'' ''must be a valid ISO civil date'')
      | Some first \<Rightarrow>
          (case parse_day latestClosedOn of
             None \<Rightarrow> Inl (validation ''latestClosedOn'' ''must be on or after firstOn'')
           | Some final \<Rightarrow>
               if final < first then Inl (validation ''latestClosedOn'' ''must be on or after firstOn'')
               else if time_is_zero detectedAt then Inl (validation ''detectedAt'' ''must be an actual reconciliation time'')
               else if \<not> existing_ok first final existing
               then Inl (validation ''existingEpisode'' ''needs an open identity and coverage from its trigger date'')
               else
                 let state = truth_on policyByDay latestClosedOn in
                 if \<not> ReviewTruth_valid state then Inl policy_value_error
                 else
                   res_bind (scan_days policyByDay first final ([], [])) (\<lambda>found.
                   decide_episode state quantityKnown held archived existing nextID detectedAt found)))"

section \<open>What the scan finds\<close>

definition last_miss :: "(int \<Rightarrow> ReviewTruth) \<Rightarrow> int \<Rightarrow> int \<Rightarrow> string \<Rightarrow> bool" where
  "last_miss f first final on \<longleftrightarrow>
     (on = [] \<and> (\<forall>n. first \<le> n \<and> n \<le> final \<longrightarrow> f n \<noteq> ReviewFalse))
     \<or> (\<exists>m. on = day_text m \<and> first \<le> m \<and> m \<le> final \<and> f m = ReviewFalse \<and> (\<forall>n. m < n \<and> n \<le> final \<longrightarrow> f n \<noteq> ReviewFalse))"

text \<open>A trigger day is a hit with no miss up to the end of the range, and every earlier hit has a miss in between.\<close>

definition trigger_day :: "(int \<Rightarrow> ReviewTruth) \<Rightarrow> int \<Rightarrow> int \<Rightarrow> int \<Rightarrow> bool" where
  "trigger_day f first final m \<longleftrightarrow>
     first \<le> m \<and> m \<le> final \<and> f m = ReviewTrue \<and> (\<forall>n. m \<le> n \<and> n \<le> final \<longrightarrow> f n \<noteq> ReviewFalse)
     \<and> (\<forall>n. first \<le> n \<and> n < m \<and> f n = ReviewTrue \<longrightarrow> (\<exists>j. n < j \<and> j < m \<and> f j = ReviewFalse))"

definition first_hit :: "(int \<Rightarrow> ReviewTruth) \<Rightarrow> int \<Rightarrow> int \<Rightarrow> string \<Rightarrow> bool" where
  "first_hit f first final on \<longleftrightarrow>
     (on = [] \<and> (\<forall>n. first \<le> n \<and> n \<le> final \<and> f n = ReviewTrue \<longrightarrow> (\<exists>j. n < j \<and> j \<le> final \<and> f j = ReviewFalse)))
     \<or> (\<exists>m. on = day_text m \<and> trigger_day f first final m)"

lemma day_text_nonempty [simp]: "day_text n \<noteq> []" "[] \<noteq> day_text n"
  by (simp_all add: day_text_def format_date_def split: prod.splits)

lemma last_miss_step:
  "last_miss f first (day - 1) on \<Longrightarrow> first \<le> day \<Longrightarrow> last_miss f first day (if f day = ReviewFalse then day_text day else on)"
  unfolding last_miss_def by (cases "f day = ReviewFalse") (auto, (metis zle_diff1_eq order_le_less)+)

lemma first_hit_step:
  assumes "first_hit f first (day - 1) on" and "first \<le> day"
  shows "first_hit f first day (if f day = ReviewFalse then [] else if f day = ReviewTrue \<and> on = [] then day_text day else on)"
proof (cases "f day = ReviewFalse")
  case True
  then have "n < day" if "n \<le> day" "f n = ReviewTrue" for n using that by (cases "n = day") auto
  with True show ?thesis unfolding first_hit_def by (intro disjI1) auto
next
  case False
  then have ext: "(\<forall>n. m \<le> n \<and> n \<le> day \<longrightarrow> f n \<noteq> ReviewFalse)" if "\<forall>n. m \<le> n \<and> n \<le> day - 1 \<longrightarrow> f n \<noteq> ReviewFalse" for m
    using that by (metis order_le_less zle_diff1_eq)
  from assms(1) show ?thesis unfolding first_hit_def
  proof (elim disjE exE conjE)
    assume e: "on = []" and a: "\<forall>n. first \<le> n \<and> n \<le> day - 1 \<and> f n = ReviewTrue \<longrightarrow> (\<exists>j. n < j \<and> j \<le> day - 1 \<and> f j = ReviewFalse)"
    have b: "\<exists>j. n < j \<and> j < day \<and> f j = ReviewFalse" if "first \<le> n" "n < day" "f n = ReviewTrue" for n
      using a that by (metis zle_diff1_eq)
    show "(if f day = ReviewFalse then [] else if f day = ReviewTrue \<and> on = [] then day_text day else on) = []
        \<and> (\<forall>n. first \<le> n \<and> n \<le> day \<and> f n = ReviewTrue \<longrightarrow> (\<exists>j. n < j \<and> j \<le> day \<and> f j = ReviewFalse))
      \<or> (\<exists>m. (if f day = ReviewFalse then [] else if f day = ReviewTrue \<and> on = [] then day_text day else on) = day_text m
        \<and> trigger_day f first day m)"
    proof (cases "f day = ReviewTrue")
      case True
      then have "trigger_day f first day day" using assms(2) b by (auto simp: trigger_day_def)
      with True e show ?thesis by auto
    next
      case no: False
      have "\<exists>j. n < j \<and> j \<le> day \<and> f j = ReviewFalse" if "first \<le> n" "n \<le> day" "f n = ReviewTrue" for n
        using b [of n] that no by (cases "n = day") auto
      with no False e show ?thesis by auto
    qed
  next
    fix m assume m: "on = day_text m" "trigger_day f first (day - 1) m"
    then have "trigger_day f first day m" using ext [of m] by (auto simp: trigger_day_def)
    with m(1) False show "(if f day = ReviewFalse then [] else if f day = ReviewTrue \<and> on = [] then day_text day else on) = []
        \<and> (\<forall>n. first \<le> n \<and> n \<le> day \<and> f n = ReviewTrue \<longrightarrow> (\<exists>j. n < j \<and> j \<le> day \<and> f j = ReviewFalse))
      \<or> (\<exists>m. (if f day = ReviewFalse then [] else if f day = ReviewTrue \<and> on = [] then day_text day else on) = day_text m
        \<and> trigger_day f first day m)" by auto
  qed
qed

lemma scan_days_found:
  assumes "\<And>n. f n = truth_on policyByDay (day_text n)" and "\<And>n. ReviewTruth_valid (f n)" and "first \<le> final + 1"
  shows "\<exists>miss hit. scan_days policyByDay first final ([], []) = Inr (miss, hit) \<and> last_miss f first final miss \<and> first_hit f first final hit"
proof -
  have "\<exists>miss' hit'. scan_days policyByDay day final (miss, hit) = Inr (miss', hit') \<and> last_miss f first final miss' \<and> first_hit f first final hit'"
    if "last_miss f first (day - 1) miss" "first_hit f first (day - 1) hit" "first \<le> day" "day \<le> final + 1" for day miss hit
    using that
  proof (induction "nat (final + 1 - day)" arbitrary: day miss hit)
    case 0
    then have "final = day - 1" by simp
    with 0 show ?case by (subst scan_days.simps) simp
  next
    case (Suc k)
    let ?miss = "if f day = ReviewFalse then day_text day else miss"
    let ?hit = "if f day = ReviewFalse then [] else if f day = ReviewTrue \<and> hit = [] then day_text day else hit"
    have d: "day \<le> final" using Suc.hyps(2) by simp
    have "scan_days policyByDay day final (miss, hit) = scan_days policyByDay (day + 1) final (?miss, ?hit)"
      using d assms(2) [of day] by (subst scan_days.simps) (auto simp: assms(1) Let_def)
    with Suc.hyps(1) [of "day + 1" ?miss ?hit] Suc.hyps(2) d last_miss_step [OF Suc.prems(1,3)] first_hit_step [OF Suc.prems(2,3)] Suc.prems(3)
    show ?case by simp
  qed
  moreover have "last_miss f first (first - 1) []" "first_hit f first (first - 1) []" by (auto simp: last_miss_def first_hit_def)
  ultimately show ?thesis using assms(3) by blast
qed

section \<open>Decisions\<close>

definition missed_since :: "(int \<Rightarrow> ReviewTruth) \<Rightarrow> int \<Rightarrow> ReviewEpisodeIdentity \<Rightarrow> bool" where
  "missed_since f final e \<longleftrightarrow> (\<exists>n. the (parse_day (ei_triggered_on e)) \<le> n \<and> n \<le> final \<and> f n = ReviewFalse)"

lemma miss_after:
  assumes "last_miss f first final miss" and "parse_day (ei_triggered_on e) = Some m" and "first \<le> m" and "m \<le> final"
    and "plain_day first" "plain_day final"
  shows "ei_triggered_on e \<le> miss \<longleftrightarrow> missed_since f final e"
proof -
  note t = parse_day_text [OF assms(2)]
  have ord: "day_text m \<le> day_text k \<longleftrightarrow> m \<le> k" if "first \<le> k" "k \<le> final" for k
  proof -
    have "plain_day k" using that assms(5,6) by (simp add: plain_day_def)
    from day_text_less [OF this t(1)] show ?thesis by (simp add: not_less [symmetric])
  qed
  from assms(1) show ?thesis unfolding last_miss_def
  proof (elim disjE exE conjE)
    assume "miss = []" and "\<forall>n. first \<le> n \<and> n \<le> final \<longrightarrow> f n \<noteq> ReviewFalse"
    moreover have "\<not> ei_triggered_on e \<le> []" using day_text_nonempty(1) [of m] by (simp add: t(2))
    ultimately show ?thesis using assms(2,3) by (auto simp: missed_since_def)
  next
    fix k assume "miss = day_text k" "first \<le> k" "k \<le> final" "f k = ReviewFalse" "\<forall>n. k < n \<and> n \<le> final \<longrightarrow> f n \<noteq> ReviewFalse"
    then show ?thesis using ord [of k] assms(2) t(2) unfolding missed_since_def by (metis not_less option.sel order_less_le_trans)
  qed
qed

text \<open>The reason for which an episode ends, empty when it goes on.\<close>

definition end_reason :: "(int \<Rightarrow> ReviewTruth) \<Rightarrow> int \<Rightarrow> bool \<Rightarrow> bool \<Rightarrow> bool \<Rightarrow> ReviewEpisodeIdentity \<Rightarrow> string" where
  "end_reason f final quantityKnown held archived e =
     (if archived then ''rule_archived'' else if quantityKnown \<and> \<not> held then ''position_closed''
      else if missed_since f final e then ''recovered'' else [])"

definition ended :: "(int \<Rightarrow> ReviewTruth) \<Rightarrow> int \<Rightarrow> bool \<Rightarrow> bool \<Rightarrow> bool \<Rightarrow> go_time \<Rightarrow> ReviewEpisodeIdentity option \<Rightarrow> ReviewEpisodeIdentity option" where
  "ended f final quantityKnown held archived detectedAt existing =
     (case existing of
        None \<Rightarrow> None
      | Some e \<Rightarrow>
          let reason = end_reason f final quantityKnown held archived e in
          if reason \<noteq> [] then Some (close_episode reason detectedAt e) else None)"

lemma decide_ended:
  assumes "last_miss f first final miss" and "existing_ok first final existing" and "plain_day first" "plain_day final"
  shows "(case existing of None \<Rightarrow> None | Some e \<Rightarrow>
      if close_reason archived quantityKnown held existing miss \<noteq> []
      then Some (close_episode (close_reason archived quantityKnown held existing miss) detectedAt e) else None)
    = ended f final quantityKnown held archived detectedAt existing"
proof (cases existing)
  case (Some e)
  then obtain m where m: "parse_day (ei_triggered_on e) = Some m" "first \<le> m" "m \<le> final"
    using assms(2) by (auto simp: existing_ok_def split: option.splits)
  from miss_after [OF assms(1) m assms(3,4)] Some show ?thesis by (simp add: ended_def close_reason_def end_reason_def Let_def)
qed (simp add: ended_def)

lemma decide_episode_cases:
  assumes "(case existing of None \<Rightarrow> None | Some e \<Rightarrow>
      if close_reason archived quantityKnown held existing miss \<noteq> []
      then Some (close_episode (close_reason archived quantityKnown held existing miss) detectedAt e) else None) = finished"
  shows "decide_episode state quantityKnown held archived existing nextID detectedAt (miss, hit) =
    (if \<not> archived \<and> quantityKnown \<and> held \<and> state = ReviewTrue \<and> (existing = None \<or> finished \<noteq> None)
     then if nextID = [] \<or> hit = []
       then Inl (validation ''nextEpisodeID'' ''a new episode needs a stable ID and a proven trigger day'')
       else Inr \<lparr> ed_current = Some (open_episode nextID hit detectedAt), ed_closed = finished, ed_opened = True, ed_state = state \<rparr>
     else Inr \<lparr> ed_current = (if finished = None then existing else None), ed_closed = finished, ed_opened = False, ed_state = state \<rparr>)"
proof -
  have "existing = None \<Longrightarrow> finished = None" using assms by auto
  then show ?thesis unfolding decide_episode_def Let_def prod.case assms by (cases existing; cases finished) auto
qed

section \<open>Properties\<close>

text \<open>C11. Advancing an episode over a range of days always decides, and decides by the evidence: an
  existing episode ends exactly when its rule is archived, its position is known to be closed or a
  miss was proven on or after its trigger day, and otherwise is kept unchanged, acknowledgement
  included; a new episode opens exactly when the position is held, the last day is a hit and no
  episode continues, and it is dated by the first hit after the last miss.  Unknown days do neither.\<close>

theorem AdvanceReviewEpisode_decides:
  assumes "parse_day firstOn = Some first" and "parse_day latestClosedOn = Some final" and "first \<le> final"
    and "detectedAt \<noteq> 0" and "existing_ok first final existing" and "nextID \<noteq> []"
    and "\<And>on. ReviewTruth_valid (truth_on policyByDay on)"
  shows "let f = \<lambda>n. truth_on policyByDay (day_text n);
      closed = ended f final quantityKnown held archived detectedAt existing;
      opens = (\<not> archived \<and> quantityKnown \<and> held \<and> f final = ReviewTrue \<and> (existing = None \<or> closed \<noteq> None))
    in \<exists>d. AdvanceReviewEpisode firstOn latestClosedOn policyByDay quantityKnown held archived existing nextID detectedAt = Inr d
      \<and> ed_state d = f final \<and> ed_closed d = closed \<and> ed_opened d = opens
      \<and> (if opens then \<exists>m. trigger_day f first final m \<and> ed_current d = Some (open_episode nextID (day_text m) detectedAt)
         else ed_current d = (if closed = None then existing else None))"
proof -
  let ?f = "\<lambda>n. truth_on policyByDay (day_text n)"
  let ?closed = "ended ?f final quantityKnown held archived detectedAt existing"
  note first = parse_day_text [OF assms(1)] and final = parse_day_text [OF assms(2)]
  obtain miss hit where s: "scan_days policyByDay first final ([], []) = Inr (miss, hit)"
      and miss: "last_miss ?f first final miss" and hit: "first_hit ?f first final hit"
    using scan_days_found [of ?f policyByDay first final] assms(3,7) by auto
  note c = decide_ended [OF miss assms(5) first(1) final(1), of archived quantityKnown held detectedAt]
  have found: "\<exists>m. hit = day_text m \<and> trigger_day ?f first final m" if "?f final = ReviewTrue"
    using hit that assms(3) unfolding first_hit_def by (metis linorder_not_less order_refl)
  have "AdvanceReviewEpisode firstOn latestClosedOn policyByDay quantityKnown held archived existing nextID detectedAt
      = decide_episode (?f final) quantityKnown held archived existing nextID detectedAt (miss, hit)"
    using assms(3-5,7) s final(2) by (simp add: AdvanceReviewEpisode_def assms(1,2) time_is_zero_def)
  also have "\<dots> = (if \<not> archived \<and> quantityKnown \<and> held \<and> ?f final = ReviewTrue \<and> (existing = None \<or> ?closed \<noteq> None)
     then Inr \<lparr> ed_current = Some (open_episode nextID hit detectedAt), ed_closed = ?closed, ed_opened = True, ed_state = ?f final \<rparr>
     else Inr \<lparr> ed_current = (if ?closed = None then existing else None), ed_closed = ?closed, ed_opened = False, ed_state = ?f final \<rparr>)"
    unfolding decide_episode_cases [OF c] using found assms(6) by auto
  finally show ?thesis using found by (auto simp: Let_def)
qed

definition sample_policy :: "string \<rightharpoonup> ReviewTruth" where
  "sample_policy = [''2026-03-01'' \<mapsto> ReviewTrue, ''2026-03-02'' \<mapsto> ReviewFalse, ''2026-03-04'' \<mapsto> ReviewTrue, ''2026-03-05'' \<mapsto> ReviewTrue]"

definition first_episode :: ReviewEpisodeIdentity where
  "first_episode = open_episode ''e1'' ''2026-03-01'' 5"

theorem AdvanceReviewEpisode_decides_witness:
  "AdvanceReviewEpisode ''2026-03-01'' ''2026-03-05'' sample_policy True True False (Some first_episode) ''e2'' 9
     = Inr \<lparr> ed_current = Some (open_episode ''e2'' ''2026-03-04'' 9), ed_closed = Some (close_episode ''recovered'' 9 first_episode),
             ed_opened = True, ed_state = ReviewTrue \<rparr>
   \<and> (\<exists>m. trigger_day (\<lambda>n. truth_on sample_policy (day_text n)) 739675 739679 m \<and> day_text m = ''2026-03-04'')"
proof -
  have p: "parse_day ''2026-03-01'' = Some 739675" "parse_day ''2026-03-05'' = Some 739679"
      "existing_ok 739675 739679 (Some first_episode)" by code_simp+
  have v: "ReviewTruth_valid (truth_on sample_policy on)" for on by (auto simp: truth_on_def sample_policy_def split: option.splits if_splits)
  have r: "AdvanceReviewEpisode ''2026-03-01'' ''2026-03-05'' sample_policy True True False (Some first_episode) ''e2'' 9
     = Inr \<lparr> ed_current = Some (open_episode ''e2'' ''2026-03-04'' 9), ed_closed = Some (close_episode ''recovered'' 9 first_episode),
             ed_opened = True, ed_state = ReviewTrue \<rparr>" by code_simp
  from AdvanceReviewEpisode_decides [OF p(1,2) _ _ p(3) _ v, of 9 "''e2''" True True False] r
  have "\<exists>m. trigger_day (\<lambda>n. truth_on sample_policy (day_text n)) 739675 739679 m
      \<and> open_episode ''e2'' ''2026-03-04'' 9 = open_episode ''e2'' (day_text m) 9"
    by (auto simp: Let_def split: if_splits)
  with r show ?thesis by (auto simp: open_episode_def)
qed

text \<open>
  The life of the episodes of one rule and instrument: each reconciliation advances the open episode
  under a fresh identity, whatever the evidence of that day was, and files the episode it closes.
\<close>

inductive episode_log :: "ReviewEpisodeIdentity option \<Rightarrow> ReviewEpisodeIdentity list \<Rightarrow> bool" where
  empty: "episode_log None []"
| reconcile: "episode_log current past \<Longrightarrow>
    AdvanceReviewEpisode firstOn latestClosedOn policyByDay quantityKnown held archived current nextID detectedAt = Inr d \<Longrightarrow>
    nextID \<notin> ei_id ` (set past \<union> set_option current) \<Longrightarrow>
    episode_log (ed_current d) (past @ (case ed_closed d of None \<Rightarrow> [] | Some e \<Rightarrow> [e]))"

definition close_reasons :: "string list" where
  "close_reasons = [''rule_archived'', ''position_closed'', ''recovered'']"

text \<open>What one advance does to the open episode, whatever the evidence.\<close>

lemma advance_shape:
  assumes "AdvanceReviewEpisode firstOn latestClosedOn policyByDay quantityKnown held archived existing nextID detectedAt = Inr d"
  shows "(ed_closed d = None \<and> existing \<noteq> None \<and> ed_current d = existing
      \<or> (existing = None \<longrightarrow> ed_closed d = None)
        \<and> (\<forall>e. existing = Some e \<longrightarrow> (\<exists>reason \<in> set close_reasons. ed_closed d = Some (close_episode reason detectedAt e)))
        \<and> (ed_current d = None \<or> nextID \<noteq> [] \<and> (\<exists>on. ed_current d = Some (open_episode nextID on detectedAt))))"
proof -
  from assms obtain state found where f: "decide_episode state quantityKnown held archived existing nextID detectedAt found = Inr d"
    by (auto simp: AdvanceReviewEpisode_def Let_def split: option.splits if_splits)
  obtain miss hit where p: "found = (miss, hit)" by (cases found)
  let ?r = "close_reason archived quantityKnown held existing miss"
  have r: "?r = [] \<or> ?r \<in> set close_reasons" by (auto simp: close_reason_def close_reasons_def split: option.splits)
  show ?thesis
    using f r unfolding p decide_episode_cases [OF refl] by (cases existing) (auto split: if_splits)
qed

text \<open>C12. Over any number of reconciliations, with any evidence, at most one episode is open, it is
  unresolved, every closed episode carries the time and one of the three reasons of its closing, and
  no two episodes share an identity.\<close>

theorem episode_log_invariant:
  assumes "episode_log current past"
  shows "distinct (map ei_id past @ map ei_id (case current of None \<Rightarrow> [] | Some e \<Rightarrow> [e]))
    \<and> (\<forall>e \<in> set past. ei_resolved_at e \<noteq> None \<and> ei_resolved_reason e \<in> set close_reasons)
    \<and> (\<forall>e. current = Some e \<longrightarrow> ei_id e \<noteq> [] \<and> ei_resolved_at e = None \<and> ei_resolved_reason e = [])"
  using assms
proof (induction rule: episode_log.induct)
  case (reconcile current past firstOn latestClosedOn policyByDay quantityKnown held archived nextID detectedAt d)
  from advance_shape [OF reconcile.hyps(2)] consider
      (kept) "ed_closed d = None" "ed_current d = current"
    | (ended) "current = None \<longrightarrow> ed_closed d = None"
        "\<forall>e. current = Some e \<longrightarrow> (\<exists>reason \<in> set close_reasons. ed_closed d = Some (close_episode reason detectedAt e))"
        "ed_current d = None \<or> nextID \<noteq> [] \<and> (\<exists>on. ed_current d = Some (open_episode nextID on detectedAt))"
    by argo
  then show ?case
  proof cases
    case kept
    with reconcile.IH show ?thesis by simp
  next
    case ended
    with reconcile.IH reconcile.hyps(3) show ?thesis
      by (cases current; cases "ed_current d") (auto simp: close_episode_def open_episode_def image_iff)
  qed
qed simp

theorem episode_log_invariant_witness:
  "\<exists>current past. episode_log current past \<and> current = Some (open_episode ''e2'' ''2026-03-04'' 9)
     \<and> distinct (map ei_id past @ [''e2'']) \<and> length past = 1"
proof -
  have a: "AdvanceReviewEpisode ''2026-03-01'' ''2026-03-01'' sample_policy True True False None ''e1'' 5
      = Inr \<lparr> ed_current = Some first_episode, ed_closed = None, ed_opened = True, ed_state = ReviewTrue \<rparr>" by code_simp
  have b: "AdvanceReviewEpisode ''2026-03-01'' ''2026-03-05'' sample_policy True True False (Some first_episode) ''e2'' 9
     = Inr \<lparr> ed_current = Some (open_episode ''e2'' ''2026-03-04'' 9), ed_closed = Some (close_episode ''recovered'' 9 first_episode),
             ed_opened = True, ed_state = ReviewTrue \<rparr>" by code_simp
  have "episode_log (Some first_episode) []" using episode_log.reconcile [OF episode_log.empty a] by simp
  from episode_log.reconcile [OF this b]
  have l: "episode_log (Some (open_episode ''e2'' ''2026-03-04'' 9)) [close_episode ''recovered'' 9 first_episode]"
    by (simp add: first_episode_def open_episode_def)
  from episode_log_invariant [OF l] l show ?thesis by (auto simp: open_episode_def)
qed

end
