(* ===== verification/ReviewSuppression.thy ===== *)
theory ReviewSuppression
  imports ReviewPolicy
begin

text \<open>
  Suppressions of review alerts and the calendar boundary of a review: \<^verbatim>\<open>internal/domain/review_suppression.go\<close>
  and \<^verbatim>\<open>ReviewNextCalendarBoundary\<close> of \<^verbatim>\<open>review_temporal.go\<close>.  A suppression lasts until the first civil day in
  its own time zone on which alerts show again.
\<close>

section \<open>The model\<close>

record ReviewSuppression =
  su_id :: string
  su_household_id :: HouseholdID
  su_instrument_id :: InstrumentID
  su_rule_id :: string
  su_mode :: string
  su_until_on :: string
  su_timezone :: string
  su_revision :: int
  su_created_at :: go_time
  su_updated_at :: go_time

definition local_day :: "location \<Rightarrow> go_time \<Rightarrow> int" where
  "local_day loc t = (t + loc_offset loc t * second) div day_ns"

text \<open>The choice of the resume day: none for a permanent suppression, or 7 or 30 days, or one date.\<close>

definition resume_choice_ok :: "int \<Rightarrow> string \<Rightarrow> bool" where
  "resume_choice_ok days customUntil \<longleftrightarrow>
     \<not> (((days \<noteq> 7 \<and> days \<noteq> 30) \<or> customUntil \<noteq> []) \<and> (days \<noteq> 0 \<or> customUntil = []))"

definition ReviewSuppressionUntil :: "(string \<Rightarrow> location option) \<Rightarrow> go_time \<Rightarrow> string \<Rightarrow> int \<Rightarrow> string \<Rightarrow> string res" where
  "ReviewSuppressionUntil load_location now timezone days customUntil =
     (if time_is_zero now then Inl (validation ''now'' ''an operation time is required'')
      else case load_location timezone of
        None \<Rightarrow> Inl (validation ''timezone'' ''a fixed IANA timezone is required'')
      | Some loc \<Rightarrow>
          if timezone = ''Local'' then Inl (validation ''timezone'' ''a fixed IANA timezone is required'')
          else if days = 0 \<and> customUntil = [] then Inr []
          else if \<not> resume_choice_ok days customUntil
          then Inl (validation ''untilOn'' ''choose permanent, 7/30 days, or one future date'')
          else
            let today = local_day loc now;
                until = (if days \<noteq> 0 then day_text (today + days) else customUntil)
            in res_bind (ReviewCivilCutoff load_location until timezone) (\<lambda>_.
               if until \<le> day_text today then Inl (validation ''untilOn'' ''resume day must be in the future'')
               else Inr until))"

definition suppression_matches :: "InstrumentID \<Rightarrow> string \<Rightarrow> ReviewSuppression \<Rightarrow> bool" where
  "suppression_matches instrumentID ruleID item \<longleftrightarrow>
     su_instrument_id item = instrumentID \<and> (su_rule_id item = [] \<or> su_rule_id item = ruleID)"

definition suppression_active :: "(string \<Rightarrow> location option) \<Rightarrow> go_time \<Rightarrow> ReviewSuppression \<Rightarrow> bool res" where
  "suppression_active load_location now item =
     (case load_location (su_timezone item) of
        None \<Rightarrow> Inl (validation ''timezone'' ''suppression has an invalid IANA timezone'')
      | Some loc \<Rightarrow>
          if su_timezone item = ''Local'' then Inl (validation ''timezone'' ''suppression has an invalid IANA timezone'')
          else if su_mode item = ''until_date'' then
            res_bind (ReviewCivilCutoff load_location (su_until_on item) (su_timezone item)) (\<lambda>_.
            Inr (day_text (local_day loc now) < su_until_on item))
          else if su_mode item \<noteq> ''permanent'' \<or> su_until_on item \<noteq> []
          then Inl (validation ''suppression'' ''invalid suppression mode or resume date'')
          else Inr True)"

definition stronger :: "ReviewSuppression \<Rightarrow> ReviewSuppression \<Rightarrow> bool" where
  "stronger item chosen \<longleftrightarrow>
     (su_mode item = ''permanent'' \<and> su_mode chosen \<noteq> ''permanent'')
     \<or> (su_mode item = su_mode chosen \<and> su_until_on chosen < su_until_on item)"

fun suppression_loop ::
    "(string \<Rightarrow> location option) \<Rightarrow> InstrumentID \<Rightarrow> string \<Rightarrow> go_time \<Rightarrow> ReviewSuppression list \<Rightarrow> ReviewSuppression option
      \<Rightarrow> ReviewSuppression option res" where
  "suppression_loop load_location instrumentID ruleID now [] chosen = Inr chosen"
| "suppression_loop load_location instrumentID ruleID now (item # entries) chosen =
     (if \<not> suppression_matches instrumentID ruleID item
      then suppression_loop load_location instrumentID ruleID now entries chosen
      else
        res_bind (suppression_active load_location now item) (\<lambda>active.
        suppression_loop load_location instrumentID ruleID now entries
          (if \<not> active then chosen
           else case chosen of
               None \<Rightarrow> Some item
             | Some c \<Rightarrow> if stronger item c then Some item else chosen)))"

definition ActiveReviewSuppression ::
    "(string \<Rightarrow> location option) \<Rightarrow> ReviewSuppression list \<Rightarrow> InstrumentID \<Rightarrow> string \<Rightarrow> go_time \<Rightarrow> ReviewSuppression option res" where
  "ActiveReviewSuppression load_location entries instrumentID ruleID now =
     (if time_is_zero now then Inl (validation ''now'' ''an evaluation time is required'')
      else suppression_loop load_location instrumentID ruleID now entries None)"

definition ReviewEpisodeActionable :: "bool \<Rightarrow> bool \<Rightarrow> bool \<Rightarrow> bool \<Rightarrow> ReviewTruth \<Rightarrow> ReviewSuppression option \<Rightarrow> bool" where
  "ReviewEpisodeActionable masterEnabled ruleEnabled currentHeld acknowledged policyState suppression \<longleftrightarrow>
     masterEnabled \<and> ruleEnabled \<and> currentHeld \<and> \<not> acknowledged \<and> suppression = None \<and> policyState = ReviewTrue"

text \<open>The next instant at which the civil date, or the offset, of a zone may change.\<close>

definition ReviewNextCalendarBoundary :: "(string \<Rightarrow> location option) \<Rightarrow> go_time \<Rightarrow> string \<Rightarrow> go_time res" where
  "ReviewNextCalendarBoundary load_location now timezone =
     (case load_location timezone of
        None \<Rightarrow> Inl (validation ''timezone'' ''a fixed available calendar and time are required'')
      | Some loc \<Rightarrow>
          if time_is_zero now then Inl (validation ''timezone'' ''a fixed available calendar and time are required'')
          else
            let midnight = (local_day loc now + 1) * day_ns - loc_offset loc now * second;
                zoneEnd = loc_zone_end loc now;
                next = (if \<not> time_is_zero zoneEnd \<and> zoneEnd < midnight then zoneEnd else midnight)
            in if \<not> now < next then Inl (validation ''timezone'' ''calendar interval did not advance'') else Inr next)"

section \<open>The strongest suppression\<close>

definition strength :: "ReviewSuppression \<Rightarrow> nat \<times> string" where
  "strength item = (if su_mode item = ''permanent'' then 1 else 0, su_until_on item)"

definition known_mode :: "ReviewSuppression \<Rightarrow> bool" where
  "known_mode item \<longleftrightarrow> su_mode item = ''permanent'' \<or> su_mode item = ''until_date''"

definition weaker_equal :: "ReviewSuppression \<Rightarrow> ReviewSuppression \<Rightarrow> bool" where
  "weaker_equal a b \<longleftrightarrow> fst (strength a) < fst (strength b) \<or> fst (strength a) = fst (strength b) \<and> snd (strength a) \<le> snd (strength b)"

lemma stronger_iff: "known_mode a \<Longrightarrow> known_mode b \<Longrightarrow> stronger a b \<longleftrightarrow> \<not> weaker_equal a b"
  by (auto simp: stronger_def weaker_equal_def strength_def known_mode_def)

lemma weaker_equal_trans: "weaker_equal a b \<Longrightarrow> weaker_equal b c \<Longrightarrow> weaker_equal a c"
  by (auto simp: weaker_equal_def)

lemma weaker_equal_total: "weaker_equal a b \<or> weaker_equal b a"
  by (auto simp: weaker_equal_def)

lemma weaker_equal_refl: "weaker_equal a a"
  by (simp add: weaker_equal_def)

lemma suppression_active_mode: "suppression_active load_location now item = Inr b \<Longrightarrow> known_mode item"
  by (auto simp: suppression_active_def known_mode_def split: option.splits if_splits)

definition in_force :: "(string \<Rightarrow> location option) \<Rightarrow> InstrumentID \<Rightarrow> string \<Rightarrow> go_time \<Rightarrow> ReviewSuppression \<Rightarrow> bool" where
  "in_force load_location instrumentID ruleID now item \<longleftrightarrow>
     suppression_matches instrumentID ruleID item \<and> suppression_active load_location now item = Inr True"

definition strongest :: "(ReviewSuppression \<Rightarrow> bool) \<Rightarrow> ReviewSuppression set \<Rightarrow> ReviewSuppression option \<Rightarrow> bool" where
  "strongest force S chosen \<longleftrightarrow>
     (case chosen of
        None \<Rightarrow> \<forall>item \<in> S. \<not> force item
      | Some c \<Rightarrow> c \<in> S \<and> force c \<and> (\<forall>item \<in> S. force item \<longrightarrow> weaker_equal item c))"

lemma strongest_insert:
  assumes "strongest force S chosen" and "\<And>item. force item \<Longrightarrow> known_mode item"
  shows "strongest force (insert item S)
    (if \<not> force item then chosen else case chosen of None \<Rightarrow> Some item | Some c \<Rightarrow> if stronger item c then Some item else chosen)"
proof (cases "force item")
  case True
  note k = assms(2) [OF this]
  show ?thesis
  proof (cases chosen)
    case None
    with True assms(1) show ?thesis by (auto simp: strongest_def weaker_equal_refl)
  next
    case (Some c)
    then have c: "known_mode c" using assms by (auto simp: strongest_def)
    show ?thesis
      using Some True assms(1) stronger_iff [OF k c] weaker_equal_total [of item c]
      by (auto simp: strongest_def weaker_equal_refl intro: weaker_equal_trans)
  qed
qed (use assms(1) in \<open>auto simp: strongest_def split: option.splits\<close>)

lemma suppression_loop_strongest:
  assumes "suppression_loop load_location instrumentID ruleID now entries chosen = Inr result"
    and "strongest (in_force load_location instrumentID ruleID now) S chosen"
  shows "strongest (in_force load_location instrumentID ruleID now) (S \<union> set entries) result"
  using assms
proof (induction entries arbitrary: chosen S)
  case (Cons item entries)
  let ?force = "in_force load_location instrumentID ruleID now"
  let ?chosen = "if \<not> ?force item then chosen else case chosen of None \<Rightarrow> Some item | Some c \<Rightarrow> if stronger item c then Some item else chosen"
  have "suppression_loop load_location instrumentID ruleID now entries ?chosen = Inr result"
    using Cons.prems(1) by (auto simp: in_force_def split: if_splits)
  moreover have "strongest ?force (insert item S) ?chosen"
    by (rule strongest_insert [OF Cons.prems(2)]) (auto simp: in_force_def dest: suppression_active_mode)
  ultimately have "strongest ?force (insert item S \<union> set entries) result" by (rule Cons.IH)
  then show ?case by simp
qed simp

section \<open>Between two boundaries\<close>

lemma div_below: "(x::int) < (k + 1) * d \<Longrightarrow> 0 < d \<Longrightarrow> x div d < k + 1"
proof (rule ccontr)
  assume a: "x < (k + 1) * d" "0 < d" and "\<not> x div d < k + 1"
  then have "(k + 1) * d \<le> x div d * d" by (intro mult_right_mono) simp_all
  also have "\<dots> \<le> x" using a(2) pos_mod_sign [of d x] by (simp add: minus_mod_eq_div_mult [symmetric])
  finally show False using a(1) by simp
qed

lemma local_day_between:
  assumes "loc_offset loc t = loc_offset loc now" and "now \<le> t" and "t < (local_day loc now + 1) * day_ns - loc_offset loc now * second"
  shows "local_day loc t = local_day loc now"
proof (rule antisym)
  show "local_day loc now \<le> local_day loc t" using assms(1,2) by (simp add: local_day_def zdiv_mono1)
  have "t + loc_offset loc t * second < (local_day loc now + 1) * day_ns" using assms(1,3) by simp
  then have "local_day loc t < local_day loc now + 1" unfolding local_day_def by (rule div_below) simp
  then show "local_day loc t \<le> local_day loc now" by simp
qed

lemma midnight_ahead: "now < (local_day loc now + 1) * day_ns - loc_offset loc now * second"
  using mod_div_mult_eq [of "now + loc_offset loc now * second" day_ns] pos_mod_bound [of day_ns "now + loc_offset loc now * second"]
  by (simp add: local_day_def algebra_simps)

section \<open>Properties\<close>

text \<open>C26. The suppression shown for an alert is one of the entries in force for the instrument and the
  rule at that time, no entry in force is stronger (permanent before temporary, later resume days
  before earlier ones), and none is shown only if none is in force; no entry that concerns the alert
  is malformed.\<close>

theorem ActiveReviewSuppression_strongest:
  assumes "ActiveReviewSuppression load_location entries instrumentID ruleID now = Inr result"
  shows "strongest (in_force load_location instrumentID ruleID now) (set entries) result
    \<and> (\<forall>item \<in> set entries. suppression_matches instrumentID ruleID item \<longrightarrow> suppression_active load_location now item \<in> range Inr)"
proof -
  have l: "suppression_loop load_location instrumentID ruleID now entries None = Inr result"
    using assms by (simp add: ActiveReviewSuppression_def split: if_splits)
  have "suppression_active load_location now item \<in> range Inr"
    if "suppression_loop load_location instrumentID ruleID now entries chosen = Inr result" "item \<in> set entries"
      "suppression_matches instrumentID ruleID item" for chosen item
    using that by (induction entries arbitrary: chosen) (auto split: if_splits)
  with l suppression_loop_strongest [OF l, of "{}"] show ?thesis by (auto simp: strongest_def)
qed

definition sample_suppression :: "string \<Rightarrow> string \<Rightarrow> ReviewSuppression" where
  "sample_suppression mode until =
     \<lparr> su_id = ''s'', su_household_id = ''h'', su_instrument_id = ''i'', su_rule_id = [], su_mode = mode, su_until_on = until,
       su_timezone = ''UTC'', su_revision = 1, su_created_at = 5, su_updated_at = 5 \<rparr>"

definition sample_now :: go_time where
  "sample_now = 739675 * day_ns + 7 * hour"

theorem ActiveReviewSuppression_strongest_witness:
  "\<exists>c. ActiveReviewSuppression utc_only [sample_suppression ''until_date'' ''2026-03-05'', sample_suppression ''until_date'' ''2026-03-09'']
      ''i'' ''r'' sample_now = Inr (Some c) \<and> su_until_on c = ''2026-03-09''
     \<and> weaker_equal (sample_suppression ''until_date'' ''2026-03-05'') c"
proof -
  let ?es = "[sample_suppression ''until_date'' ''2026-03-05'', sample_suppression ''until_date'' ''2026-03-09'']"
  have r: "ActiveReviewSuppression utc_only ?es ''i'' ''r'' sample_now = Inr (Some (sample_suppression ''until_date'' ''2026-03-09''))"
    and f: "in_force utc_only ''i'' ''r'' sample_now (sample_suppression ''until_date'' ''2026-03-05'')"
    by code_simp+
  from ActiveReviewSuppression_strongest [OF r] f r show ?thesis
    by (intro exI [of _ "sample_suppression ''until_date'' ''2026-03-09''"]) (simp add: strongest_def sample_suppression_def)
qed

text \<open>A resume day that is computed when a suppression is set means what it says: the suppression is
  in force at the time it is set and at every time whose civil day in its zone is before the resume
  day, and at no later time; without a resume day it is always in force.\<close>

theorem ReviewSuppressionUntil_lasts:
  assumes "ReviewSuppressionUntil load_location now timezone days customUntil = Inr until" and "load_location timezone = Some loc"
    and "su_timezone item = timezone" "su_until_on item = until" "su_mode item = (if until = [] then ''permanent'' else ''until_date'')"
    and "plain_day (local_day loc t)"
  shows "suppression_active load_location now item = Inr True
    \<and> suppression_active load_location t item = Inr (until = [] \<or> local_day loc t < the (parse_day until))
    \<and> (until = [] \<longleftrightarrow> days = 0 \<and> customUntil = [])"
proof (cases "days = 0 \<and> customUntil = []")
  case True
  then have "until = []" "timezone \<noteq> ''Local''"
    using assms(1,2) by (auto simp: ReviewSuppressionUntil_def split: if_splits)
  with True show ?thesis using assms(2-5) by (simp add: suppression_active_def)
next
  case False
  then obtain cutoff where c: "ReviewCivilCutoff load_location until timezone = Inr cutoff" and l: "timezone \<noteq> ''Local''"
      and later: "\<not> until \<le> day_text (local_day loc now)"
    using assms(1,2) by (auto simp: ReviewSuppressionUntil_def Let_def split: if_splits)
  from c obtain d where d: "parse_day until = Some d" by (auto simp: ReviewCivilCutoff_def split: option.splits)
  note t = parse_day_text [OF d]
  have ne: "until \<noteq> []" using later by auto
  have "day_text (local_day loc t) < until \<longleftrightarrow> local_day loc t < d"
    using day_text_less [OF assms(6) t(1)] by (simp add: t(2))
  with ne c l d later False show ?thesis using assms(2-5) by (simp add: suppression_active_def not_le)
qed

theorem ReviewSuppressionUntil_lasts_witness:
  "ReviewSuppressionUntil utc_only sample_now ''UTC'' 7 [] = Inr ''2026-03-08''
   \<and> suppression_active utc_only sample_now (sample_suppression ''until_date'' ''2026-03-08'') = Inr True
   \<and> suppression_active utc_only (739682 * day_ns) (sample_suppression ''until_date'' ''2026-03-08'') = Inr False"
proof -
  have r: "ReviewSuppressionUntil utc_only sample_now ''UTC'' 7 [] = Inr ''2026-03-08''"
    and d: "parse_day ''2026-03-08'' = Some 739682"
    and t: "local_day (table_location 0 []) (739682 * day_ns) = 739682" "plain_day 739682"
    by code_simp+
  have l: "utc_only ''UTC'' = Some (table_location 0 [])" by (simp add: utc_only_def)
  from ReviewSuppressionUntil_lasts [OF r l, of "sample_suppression ''until_date'' ''2026-03-08''" "739682 * day_ns"] r d t
  show ?thesis by (simp add: sample_suppression_def)
qed

text \<open>The next calendar boundary of a review exists in every zone whose intervals advance, lies ahead, and is safe: at no
  instant before it does the civil date or the offset of the zone differ from those of now.\<close>

theorem ReviewNextCalendarBoundary_stable:
  assumes "zone_intervals loc" and "load_location timezone = Some loc" and "now \<noteq> 0"
  shows "\<exists>boundary. ReviewNextCalendarBoundary load_location now timezone = Inr boundary \<and> now < boundary
    \<and> (\<forall>t. now \<le> t \<and> t < boundary \<longrightarrow> local_day loc t = local_day loc now \<and> loc_offset loc t = loc_offset loc now)"
proof -
  let ?m = "(local_day loc now + 1) * day_ns - loc_offset loc now * second" and ?z = "loc_zone_end loc now"
  let ?b = "if ?z \<noteq> 0 \<and> ?z < ?m then ?z else ?m"
  have a: "now < ?b" using midnight_ahead [of now loc] zone_intervals.advances [OF assms(1), of now] by simp
  have o: "loc_offset loc t = loc_offset loc now" if "now \<le> t" "t < ?b" for t
    using that zone_offsets.same_offset [OF zone_intervals.axioms(1) [OF assms(1)] that(1)] by (auto split: if_splits)
  have d: "local_day loc t = local_day loc now" if "now \<le> t" "t < ?b" for t
    using that local_day_between [OF o [OF that] that(1)] by (simp split: if_splits)
  have "ReviewNextCalendarBoundary load_location now timezone = Inr ?b"
    unfolding ReviewNextCalendarBoundary_def assms(2) option.case Let_def time_is_zero_def using a assms(3) by presburger
  with a d o show ?thesis by blast
qed

theorem ReviewNextCalendarBoundary_stable_witness:
  "ReviewNextCalendarBoundary (\<lambda>_. Some (table_location (- 10800) midnight_table)) (1000 * day_ns) ''Zone'' = Inr (1000 * day_ns + 3 * hour)
   \<and> local_day (table_location (- 10800) midnight_table) (1000 * day_ns + 2 * hour) = local_day (table_location (- 10800) midnight_table) (1000 * day_ns)"
proof -
  have r: "ReviewNextCalendarBoundary (\<lambda>_. Some (table_location (- 10800) midnight_table)) (1000 * day_ns) ''Zone'' = Inr (1000 * day_ns + 3 * hour)"
    by code_simp
  have n: "1000 * day_ns \<noteq> (0::int)" by simp
  obtain b where b: "ReviewNextCalendarBoundary (\<lambda>_. Some (table_location (- 10800) midnight_table)) (1000 * day_ns) ''Zone'' = Inr b"
      "\<And>t. 1000 * day_ns \<le> t \<Longrightarrow> t < b \<Longrightarrow> local_day (table_location (- 10800) midnight_table) t
         = local_day (table_location (- 10800) midnight_table) (1000 * day_ns)"
    using ReviewNextCalendarBoundary_stable [OF midnight.zone_intervals_axioms _ n, of "\<lambda>_. Some (table_location (- 10800) midnight_table)" "''Zone''"]
    by blast
  from b(1) r have "b = 1000 * day_ns + 3 * hour" by (simp only: sum.inject)
  with r b(2) [of "1000 * day_ns + 2 * hour"] show ?thesis by linarith
qed

end
