(* ===== verification/MarketDates.thy ===== *)
theory MarketDates
  imports ReviewPolicy LocalTime
begin

text \<open>
  Dates, sessions and fetching of market data: \<^verbatim>\<open>internal/domain/marketdata_clock.go\<close>, \<^verbatim>\<open>marketdata_session.go\<close>,
  \<^verbatim>\<open>marketdata_sync.go\<close> and \<^verbatim>\<open>marketdata_completeness.go\<close>.  A market date is the text of a civil day; the
  time zones of the system are the argument \<open>load_location\<close>.
\<close>

section \<open>Dates and the clock\<close>

record MarketDataClock =
  mc_now :: go_time
  mc_household_timezone :: string

definition NewMarketDataClock :: "(string \<Rightarrow> zone option) \<Rightarrow> go_time \<Rightarrow> string \<Rightarrow> MarketDataClock res" where
  "NewMarketDataClock load_location now timezone =
     (let timezone = trim_space timezone in
      if timezone = []
      then Inl (DomainError ErrHistoryTimezoneRequired ''timezone'' ''confirm a Household timezone before valuing market data'')
      else case load_location timezone of
        None \<Rightarrow> Inl (DomainError ErrHistoryTimezoneRequired ''timezone'' ''timezone must be a valid IANA timezone'')
      | Some _ \<Rightarrow>
          if time_is_zero now then Inl (validation ''now'' ''backend clock is required'')
          else Inr \<lparr> mc_now = now, mc_household_timezone = timezone \<rparr>)"

definition TodayLocal :: "(string \<Rightarrow> zone option) \<Rightarrow> MarketDataClock \<Rightarrow> string res" where
  "TodayLocal load_location c =
     (case load_location (mc_household_timezone c) of
        None \<Rightarrow> Inl (DomainError ErrHistoryTimezoneRequired ''timezone'' ''timezone must be a valid IANA timezone'')
      | Some z \<Rightarrow> Inr (local_date z (mc_now c)))"

definition ParseMarketDate :: "string \<Rightarrow> string res" where
  "ParseMarketDate value =
     (let trimmed = trim_space value in
      case parse_day trimmed of
        None \<Rightarrow> Inl (validation ''marketDate'' ''must use YYYY-MM-DD'')
      | Some parsed \<Rightarrow> if day_text parsed \<noteq> trimmed then Inl (validation ''marketDate'' ''must use YYYY-MM-DD'') else Inr trimmed)"

definition HouseholdDayCutoff :: "(string \<Rightarrow> zone option) \<Rightarrow> string \<Rightarrow> string \<Rightarrow> go_time res" where
  "HouseholdDayCutoff load_location localDate timezone =
     res_bind (ParseMarketDate localDate) (\<lambda>_.
     case parse_day localDate of
       None \<Rightarrow> Inl (validation ''localDate'' ''local date must use YYYY-MM-DD'')
     | Some parsed \<Rightarrow>
         res_bind (ResolveLocalDateTime load_location (day_text (parsed + 1)) ''00:00'' timezone) (\<lambda>nextMidnight.
         Inr (nextMidnight - millisecond)))"

definition ObservationEligible :: "go_time \<Rightarrow> go_time \<Rightarrow> bool" where
  "ObservationEligible valueEffectiveAt cutoff \<longleftrightarrow>
     \<not> (time_is_zero valueEffectiveAt \<or> time_is_zero cutoff) \<and> \<not> cutoff < valueEffectiveAt"

function dates_loop :: "int \<Rightarrow> int \<Rightarrow> string list" where
  "dates_loop cursor final = (if cursor \<le> final then day_text cursor # dates_loop (cursor + 1) final else [])"
  by pat_completeness auto

termination
  by (relation "measure (\<lambda>(cursor, final). nat (final + 1 - cursor))") auto

declare dates_loop.simps [simp del]

definition InclusiveMarketDates :: "string \<Rightarrow> string \<Rightarrow> string list res" where
  "InclusiveMarketDates start finish =
     res_bind (ParseMarketDate start) (\<lambda>startDate.
     res_bind (ParseMarketDate finish) (\<lambda>endDate.
     if endDate < startDate then Inl (validation ''dateRange'' ''start must not follow end'')
     else case parse_day startDate of
         None \<Rightarrow> Inl (validation ''dateRange'' ''start must use YYYY-MM-DD'')
       | Some cursor \<Rightarrow>
           (case parse_day endDate of
              None \<Rightarrow> Inl (validation ''dateRange'' ''end must use YYYY-MM-DD'')
            | Some final \<Rightarrow> Inr (dates_loop cursor final))))"

definition LastNInclusiveDates :: "string \<Rightarrow> int \<Rightarrow> string list res" where
  "LastNInclusiveDates finish n =
     (if n \<le> 0 then Inl (validation ''count'' ''must be positive'')
      else
        res_bind (ParseMarketDate finish) (\<lambda>endDate.
        case parse_day endDate of
          None \<Rightarrow> Inl (validation ''marketDate'' ''must use YYYY-MM-DD'')
        | Some parsed \<Rightarrow> InclusiveMarketDates (day_text (parsed - (n - 1))) endDate))"

definition DateInLastN :: "string \<Rightarrow> string \<Rightarrow> int \<Rightarrow> bool res" where
  "DateInLastN date lastFinalized n =
     res_bind (LastNInclusiveDates lastFinalized n) (\<lambda>window.
     res_bind (ParseMarketDate date) (\<lambda>date.
     Inr (list_ex (\<lambda>item. item = date) window)))"

definition endOfUTCCalendarDay :: "string \<Rightarrow> string \<Rightarrow> go_time res" where
  "endOfUTCCalendarDay dateLabel field =
     res_bind (ParseMarketDate dateLabel) (\<lambda>date.
     case parse_day date of
       None \<Rightarrow> Inl (validation field ''must use YYYY-MM-DD'')
     | Some parsed \<Rightarrow> Inr ((parsed + 1) * day_ns - millisecond))"

definition FrankfurterReferenceEligibleAt :: "string \<Rightarrow> go_time res" where
  "FrankfurterReferenceEligibleAt referenceDate = endOfUTCCalendarDay referenceDate ''referenceDate''"

section \<open>Sessions\<close>

datatype SessionKind = SessionKindRegular | SessionKindEarlyClose | SessionKindUnknown | SessionKind_other string

record SessionEvidence =
  se_kind :: SessionKind
  se_timezone :: string
  se_close_clock :: string
  se_policy :: string

record EquitySessionSchedule =
  es_timezone :: string
  es_close_clock :: string
  es_early_clock :: string
  es_policy :: string

definition us_markets :: "string list" where
  "us_markets = [''US'', ''US_EQUITY'', ''XNYS'', ''XNAS'', ''XASE'', ''ARCX'', ''BATS'', ''EDGX'', ''IEXG'', ''NYSE'', ''NASDAQ'',
     ''AMEX'', ''ARCA'', ''BZX'', ''IEX'']"

definition schedule_of :: "string \<Rightarrow> string \<Rightarrow> string \<Rightarrow> EquitySessionSchedule" where
  "schedule_of timezone clock policy = \<lparr> es_timezone = timezone, es_close_clock = clock, es_early_clock = [], es_policy = policy \<rparr>"

definition market_schedules :: "(string list \<times> EquitySessionSchedule) list" where
  "market_schedules =
     [(us_markets, (schedule_of ''America/New_York'' ''16:00'' ''us_equity_regular_close_v1'')\<lparr>es_early_clock := ''13:00''\<rparr>),
      ([''CN'', ''SSE'', ''SZSE'', ''BSE'', ''XSHG'', ''XSHE''], schedule_of ''Asia/Shanghai'' ''15:00'' ''cn_equity_regular_close_v1''),
      ([''HK'', ''HKEX'', ''XHKG''], schedule_of ''Asia/Hong_Kong'' ''16:00'' ''hk_equity_regular_close_v1''),
      ([''SG'', ''SGX'', ''XSES''], schedule_of ''Asia/Singapore'' ''17:00'' ''sg_equity_regular_close_v1''),
      ([''JP'', ''TSE'', ''XTKS''], schedule_of ''Asia/Tokyo'' ''15:30'' ''jp_equity_regular_close_v1''),
      ([''TW'', ''TWSE'', ''XTAI''], schedule_of ''Asia/Taipei'' ''13:30'' ''tw_equity_regular_close_v1''),
      ([''KR'', ''KRX'', ''XKRX''], schedule_of ''Asia/Seoul'' ''15:30'' ''kr_equity_regular_close_v1''),
      ([''AU'', ''ASX'', ''XASX''], schedule_of ''Australia/Sydney'' ''16:00'' ''au_equity_regular_close_v1''),
      ([''GB'', ''UK'', ''LSE'', ''XLON''], schedule_of ''Europe/London'' ''16:30'' ''gb_equity_regular_close_v1''),
      ([''DE'', ''XETRA'', ''XFRA''], schedule_of ''Europe/Berlin'' ''17:30'' ''de_equity_regular_close_v1''),
      ([''EURONEXT'', ''XPAR''], schedule_of ''Europe/Paris'' ''17:30'' ''eu_equity_regular_close_v1''),
      ([''CH'', ''SIX'', ''XSWX''], schedule_of ''Europe/Zurich'' ''17:30'' ''ch_equity_regular_close_v1'')]"

definition EquitySessionScheduleForMarket :: "string \<Rightarrow> EquitySessionSchedule option" where
  "EquitySessionScheduleForMarket market =
     map_option snd (find (\<lambda>(names, _). to_upper (trim_space market) \<in> set names) market_schedules)"

definition USListedEquityMarket :: "string \<Rightarrow> bool" where
  "USListedEquityMarket market \<longleftrightarrow> to_upper (trim_space market) \<in> set us_markets"

record SessionResolution =
  sr_status :: string
  sr_reason :: string
  sr_close_instant :: go_time
  sr_timestamp_basis :: string
  sr_policy :: string

definition unresolved :: "string \<Rightarrow> string \<Rightarrow> string \<Rightarrow> SessionResolution" where
  "unresolved status reason basis =
     \<lparr> sr_status = status, sr_reason = reason, sr_close_instant = 0, sr_timestamp_basis = basis, sr_policy = [] \<rparr>"

definition uncertain_session :: "string \<Rightarrow> SessionResolution" where
  "uncertain_session reason = unresolved ''uncertain'' reason ''unknown''"

text \<open>The close clock that the evidence proves, or the reason why it proves none.\<close>

definition session_clock :: "SessionKind \<Rightarrow> EquitySessionSchedule \<Rightarrow> string \<Rightarrow> string + string" where
  "session_clock kind schedule evidenceClock =
     (let clock = (if evidenceClock \<noteq> [] then evidenceClock
                   else if kind = SessionKindEarlyClose then es_early_clock schedule else es_close_clock schedule)
      in if evidenceClock = [] \<and> kind = SessionKindEarlyClose \<and> es_early_clock schedule = [] then Inl ''early_close_clock_unverified''
         else if kind = SessionKindRegular \<and> clock \<noteq> es_close_clock schedule then Inl ''session_close_clock_unverified''
         else if kind = SessionKindEarlyClose
           \<and> (es_early_clock schedule = [] \<or> clock = es_close_clock schedule \<or> clock \<noteq> es_early_clock schedule)
         then Inl ''early_close_clock_unverified''
         else Inr clock)"

definition ResolveEquitySessionClose ::
    "(string \<Rightarrow> zone option) \<Rightarrow> string \<Rightarrow> string \<Rightarrow> SessionEvidence \<Rightarrow> SessionResolution res" where
  "ResolveEquitySessionClose load_location marketDate market evidence =
     res_bind (ParseMarketDate marketDate) (\<lambda>date.
     case EquitySessionScheduleForMarket (trim_space market) of
       None \<Rightarrow> Inr (unresolved ''unsupported'' ''market_not_supported_for_session_policy'' [])
     | Some schedule \<Rightarrow>
         let kind = (if se_kind evidence = SessionKind_other [] then SessionKindUnknown else se_kind evidence) in
         if kind = SessionKindUnknown then Inr (uncertain_session ''session_timing_unknown'')
         else if kind \<noteq> SessionKindRegular \<and> kind \<noteq> SessionKindEarlyClose
         then Inr (unresolved ''unsupported'' ''session_kind_unsupported'' [])
         else
           let timezone = trim_space (se_timezone evidence) in
           if timezone \<noteq> [] \<and> timezone \<noteq> es_timezone schedule then Inr (uncertain_session ''session_timezone_mismatch'')
           else case session_clock kind schedule (trim_space (se_close_clock evidence)) of
               Inl reason \<Rightarrow> Inr (uncertain_session reason)
             | Inr clock \<Rightarrow>
                 (case ResolveLocalDateTime load_location date clock (es_timezone schedule) of
                    Inl _ \<Rightarrow> Inr (uncertain_session ''session_clock_not_resolvable'')
                  | Inr closeInstant \<Rightarrow>
                      let policy = trim_space (se_policy evidence) in
                      if policy \<noteq> [] \<and> policy \<noteq> es_policy schedule then Inr (uncertain_session ''session_policy_unverified'')
                      else Inr \<lparr> sr_status = ''mapped'', sr_reason = [], sr_close_instant = closeInstant,
                                 sr_timestamp_basis = ''session_close'', sr_policy = es_policy schedule \<rparr>))"

text \<open>
  The local date \<open>i\<close> days back: \<^verbatim>\<open>AddDate\<close> builds the same wall clock on the earlier date, which the
  zone may move when it does not exist.
\<close>

definition days_back :: "zone \<Rightarrow> go_time \<Rightarrow> nat \<Rightarrow> string" where
  "days_back z now i = local_date z (go_date z (local_wall z now - int i * day_ns))"

definition regular_evidence :: "EquitySessionSchedule \<Rightarrow> SessionEvidence" where
  "regular_evidence schedule =
     \<lparr> se_kind = SessionKindRegular, se_timezone = es_timezone schedule, se_close_clock = es_close_clock schedule,
       se_policy = es_policy schedule \<rparr>"

fun finalized_loop ::
    "(string \<Rightarrow> zone option) \<Rightarrow> zone \<Rightarrow> go_time \<Rightarrow> string \<Rightarrow> SessionEvidence \<Rightarrow> nat list \<Rightarrow> string res" where
  "finalized_loop load_location z now market evidence [] = Inl (validation ''session'' ''no finalized equity close is available'')"
| "finalized_loop load_location z now market evidence (i # rest) =
     res_bind (ResolveEquitySessionClose load_location (days_back z now i) market evidence) (\<lambda>session.
     if sr_status session = ''mapped'' \<and> sr_close_instant session < now then Inr (days_back z now i)
     else finalized_loop load_location z now market evidence rest)"

definition LastFinalizedEquityMarketDate ::
    "(string \<Rightarrow> zone option) \<Rightarrow> (string \<Rightarrow> err) \<Rightarrow> go_time \<Rightarrow> string \<Rightarrow> string res" where
  "LastFinalizedEquityMarketDate load_location load_error now market =
     (if time_is_zero now then Inl (validation ''now'' ''backend clock is required'')
      else case EquitySessionScheduleForMarket market of
        None \<Rightarrow> Inl (validation ''market'' ''market is not supported for session policy'')
      | Some schedule \<Rightarrow>
          (case load_location (es_timezone schedule) of
             None \<Rightarrow> Inl (load_error (es_timezone schedule))
           | Some z \<Rightarrow> finalized_loop load_location z now market (regular_evidence schedule) [0..<14]))"

definition LastFinalizedUSEquityMarketDate ::
    "(string \<Rightarrow> zone option) \<Rightarrow> (string \<Rightarrow> err) \<Rightarrow> go_time \<Rightarrow> string res" where
  "LastFinalizedUSEquityMarketDate load_location load_error now = LastFinalizedEquityMarketDate load_location load_error now ''US''"

section \<open>What to fetch\<close>

definition CoinGeckoProviderKey :: string where "CoinGeckoProviderKey = ''coingecko''"
definition YahooFinanceProviderKey :: string where "YahooFinanceProviderKey = ''yahoo_finance''"
definition FrankfurterProviderKey :: string where "FrankfurterProviderKey = ''frankfurter''"

record InstrumentRoute =
  ir_provider_key :: string
  ir_status :: string
  ir_reason :: string

definition route_unsupported :: "string \<Rightarrow> InstrumentRoute" where
  "route_unsupported reason = \<lparr> ir_provider_key = [], ir_status = ''unsupported'', ir_reason = reason \<rparr>"

definition route_unbound :: "string \<Rightarrow> InstrumentRoute" where
  "route_unbound provider = \<lparr> ir_provider_key = provider, ir_status = ''binding_missing'', ir_reason = ''binding_missing'' \<rparr>"

definition route_ok :: "string \<Rightarrow> InstrumentRoute" where
  "route_ok provider = \<lparr> ir_provider_key = provider, ir_status = ''ok'', ir_reason = [] \<rparr>"

definition CryptoDailyBarMarket :: "string \<Rightarrow> bool" where
  "CryptoDailyBarMarket market \<longleftrightarrow>
     to_upper (trim_space market) \<in> {''CRYPTO'', ''CCC'', ''CC'', ''COIN'', ''CRYPTOCURRENCY''}"

definition ResolveInstrumentRoute :: "string \<Rightarrow> string \<Rightarrow> string \<Rightarrow> InstrumentRoute" where
  "ResolveInstrumentRoute market preferredProvider providerSymbol =
     (let preferredProvider = to_lower (trim_space preferredProvider); providerSymbol = trim_space providerSymbol in
      if preferredProvider = CoinGeckoProviderKey then
        if \<not> CryptoDailyBarMarket market then route_unsupported ''coingecko_crypto_only''
        else if providerSymbol = [] then route_unbound preferredProvider
        else route_ok preferredProvider
      else if preferredProvider = FrankfurterProviderKey then route_unsupported ''frankfurter_is_fx_only''
      else if USListedEquityMarket market then
        if preferredProvider = [] then if providerSymbol = [] then route_unbound [] else route_ok YahooFinanceProviderKey
        else if preferredProvider = YahooFinanceProviderKey
        then if providerSymbol = [] then route_unbound preferredProvider else route_ok preferredProvider
        else route_unsupported ''provider_not_selectable''
      else if preferredProvider \<noteq> [] \<and> preferredProvider \<noteq> YahooFinanceProviderKey
      then route_unsupported ''provider_not_selectable''
      else if providerSymbol = [] \<or> preferredProvider = [] then route_unbound YahooFinanceProviderKey
      else route_ok preferredProvider)"

definition RecentNoObservationWindow :: int where "RecentNoObservationWindow = 7"
definition RecentCorrectionWindow :: int where "RecentCorrectionWindow = 3"
definition RecentNoObservationTTL :: int where "RecentNoObservationTTL = 24 * hour"
definition OlderNoObservationTTL :: int where "OlderNoObservationTTL = 30 * 24 * hour"
definition RecentCorrectionTTL :: int where "RecentCorrectionTTL = 24 * hour"

definition NoObservationExpiresAt ::
    "(string \<Rightarrow> zone option) \<Rightarrow> (string \<Rightarrow> err) \<Rightarrow> string \<Rightarrow> go_time \<Rightarrow> go_time res" where
  "NoObservationExpiresAt load_location load_error marketDate checkedAt =
     (if time_is_zero checkedAt then Inl (validation ''checkedAt'' ''checked time is required'')
      else case LastFinalizedUSEquityMarketDate load_location load_error checkedAt of
        Inl _ \<Rightarrow> Inr (checkedAt + RecentNoObservationTTL)
      | Inr lastFinalized \<Rightarrow>
          res_bind (DateInLastN marketDate lastFinalized RecentNoObservationWindow) (\<lambda>recent.
          Inr (checkedAt + (if recent then RecentNoObservationTTL else OlderNoObservationTTL))))"

definition LatestRequestDue :: "go_time \<Rightarrow> go_time \<Rightarrow> int \<Rightarrow> bool \<Rightarrow> bool" where
  "LatestRequestDue lastSuccessfulCheck now ttl force \<longleftrightarrow>
     force \<or> ttl \<le> 0 \<or> time_is_zero lastSuccessfulCheck \<or> \<not> now < lastSuccessfulCheck + ttl"

datatype HistoryFetchAction = HistoryFetch | HistorySkipExistingClose | HistorySkipNoObservation

record HistoryFetchDecision =
  hd_action :: HistoryFetchAction
  hd_reason :: string

record HistoryFetchInput =
  hf_date :: string
  hf_last_finalized :: string
  hf_now :: go_time
  hf_force_recheck :: bool
  hf_has_close :: bool
  hf_close_fetched_at :: go_time
  hf_has_no_observation :: bool
  hf_no_observation_expires_at :: go_time
  hf_no_observation_has_expiry :: bool
  hf_no_observation_checked_at :: go_time

definition decision :: "HistoryFetchAction \<Rightarrow> string \<Rightarrow> HistoryFetchDecision" where
  "decision action reason = \<lparr> hd_action = action, hd_reason = reason \<rparr>"

definition DecideHistoryFetch :: "HistoryFetchInput \<Rightarrow> HistoryFetchDecision" where
  "DecideHistoryFetch input =
     (if hf_force_recheck input then decision HistoryFetch ''force_recheck''
      else case DateInLastN (hf_date input) (hf_last_finalized input) RecentCorrectionWindow of
        Inl _ \<Rightarrow> decision HistoryFetch ''invalid_date''
      | Inr inCorrection \<Rightarrow>
          let correctionDue = (\<lambda>lastChecked. inCorrection \<and> LatestRequestDue lastChecked (hf_now input) RecentCorrectionTTL False) in
          if hf_has_close input then
            if correctionDue (hf_close_fetched_at input) then decision HistoryFetch ''recent_correction''
            else decision HistorySkipExistingClose ''existing_close''
          else if hf_has_no_observation input then
            if hf_no_observation_has_expiry input \<and> \<not> time_is_zero (hf_no_observation_expires_at input)
               \<and> \<not> hf_now input < hf_no_observation_expires_at input
            then decision HistoryFetch ''no_observation_expired''
            else if correctionDue (hf_no_observation_checked_at input) then decision HistoryFetch ''recent_correction''
            else decision HistorySkipNoObservation ''unexpired_no_observation''
          else decision HistoryFetch ''coverage_gap'')"

section \<open>Completeness of a response\<close>

record InclusiveDateRange =
  dr_start :: string
  dr_end :: string

record HistoryCompleteness =
  hc_verified_ranges :: "InclusiveDateRange list"
  hc_pending_ranges :: "InclusiveDateRange list"
  hc_uncertain_ranges :: "InclusiveDateRange list"
  hc_status :: string
  hc_reason :: string

definition date_range :: "string \<Rightarrow> string \<Rightarrow> InclusiveDateRange" where
  "date_range start finish = \<lparr> dr_start = start, dr_end = finish \<rparr>"

definition completeness ::
    "InclusiveDateRange list \<Rightarrow> InclusiveDateRange list \<Rightarrow> InclusiveDateRange list \<Rightarrow> string \<Rightarrow> string \<Rightarrow> HistoryCompleteness" where
  "completeness verified pending uncertain status reason =
     \<lparr> hc_verified_ranges = verified, hc_pending_ranges = pending, hc_uncertain_ranges = uncertain, hc_status = status,
       hc_reason = reason \<rparr>"

definition addMarketDays :: "string \<Rightarrow> int \<Rightarrow> string res" where
  "addMarketDays date days =
     res_bind (ParseMarketDate date) (\<lambda>parsed.
     case parse_day parsed of
       None \<Rightarrow> Inl (validation ''marketDate'' ''must use YYYY-MM-DD'')
     | Some value \<Rightarrow> Inr (day_text (value + days)))"

fun collapse_loop :: "string \<Rightarrow> string \<Rightarrow> string list \<Rightarrow> InclusiveDateRange list" where
  "collapse_loop start prev [] = [date_range start prev]"
| "collapse_loop start prev (date # dates) =
     (if addMarketDays prev 1 = Inr date then collapse_loop start date dates
      else date_range start prev # collapse_loop date date dates)"

fun collapseDates :: "string list \<Rightarrow> InclusiveDateRange list" where
  "collapseDates [] = []"
| "collapseDates (date # dates) = collapse_loop date date dates"

fun parse_dates :: "string list \<Rightarrow> string list res" where
  "parse_dates [] = Inr []"
| "parse_dates (date # dates) =
     res_bind (ParseMarketDate date) (\<lambda>parsed. res_bind (parse_dates dates) (\<lambda>rest. Inr (parsed # rest)))"

definition ClassifyHistoryCompleteness ::
    "string \<Rightarrow> string \<Rightarrow> string \<Rightarrow> string list \<Rightarrow> bool \<Rightarrow> bool \<Rightarrow> HistoryCompleteness res" where
  "ClassifyHistoryCompleteness requestedStart requestedEnd lastFinalized pendingDates truncated malformed =
     (if malformed then Inr (completeness [] [] [] ''invalid'' ''invalid_batch'')
      else
        res_bind (InclusiveMarketDates requestedStart requestedEnd) (\<lambda>dates.
        res_bind (parse_dates pendingDates) (\<lambda>pendingSet.
        if truncated
        then Inr (completeness [] [] [date_range requestedStart requestedEnd] ''uncertain'' ''truncated_response'')
        else if trim_space lastFinalized = []
        then Inr (completeness [] [date_range requestedStart requestedEnd] [] ''pending'' ''publication_not_ready'')
        else
          res_bind (ParseMarketDate lastFinalized) (\<lambda>finalized.
          let isPending = (\<lambda>date. date \<in> set pendingSet);
              verified = filter (\<lambda>date. \<not> isPending date \<and> date \<le> finalized) dates;
              pending = filter isPending dates;
              uncertain = filter (\<lambda>date. \<not> isPending date \<and> \<not> date \<le> finalized) dates
          in Inr (completeness (collapseDates verified) (collapseDates pending) (collapseDates uncertain) ''classified'' [])))))"

section \<open>Date arithmetic\<close>

lemma ParseMarketDate_Inr: "ParseMarketDate value = Inr date \<longleftrightarrow> date = trim_space value \<and> parse_day date \<noteq> None"
  using parse_day_text(2) by (auto simp: ParseMarketDate_def Let_def split: option.splits)

lemma trim_day_text: "plain_day n \<Longrightarrow> trim_space (day_text n) = day_text n"
proof -
  assume p: "plain_day n"
  obtain y m d where c: "civil_of_days n = (y, m, d)" by (metis surj_pair)
  note k = civil_of_days_correct [OF c] and y = plain_day_year [OF c p]
  have "valid_date y m d" using k by (simp add: valid_date_def)
  from parse_date_format(2) [OF this y] show ?thesis by (simp add: day_text_def c trim_space_graphic)
qed

lemma ParseMarketDate_day: "plain_day n \<Longrightarrow> ParseMarketDate (day_text n) = Inr (day_text n)"
  by (simp add: ParseMarketDate_Inr trim_day_text parse_day_of_text)

lemma ParseMarketDate_parsed: "parse_day (trim_space value) = Some n \<Longrightarrow> ParseMarketDate value = Inr (day_text n)"
  using parse_day_text(2) [of "trim_space value" n] by (simp add: ParseMarketDate_Inr)

lemma dates_loop_upto: "dates_loop a b = map day_text [a..b]"
proof (induction a b rule: dates_loop.induct)
  case (1 a b)
  then show ?case by (subst dates_loop.simps) (simp add: upto_rec1)
qed

lemma InclusiveMarketDates_days:
  assumes "parse_day (trim_space start) = Some a" and "parse_day (trim_space finish) = Some b"
  shows "InclusiveMarketDates start finish =
    (if b < a then Inl (validation ''dateRange'' ''start must not follow end'') else Inr (map day_text [a..b]))"
proof -
  note a = parse_day_text [OF assms(1)] and b = parse_day_text [OF assms(2)]
  show ?thesis
    using day_text_less [OF b(1) a(1)] parse_day_of_text [OF a(1)] parse_day_of_text [OF b(1)]
    by (simp add: InclusiveMarketDates_def ParseMarketDate_parsed [OF assms(1)] ParseMarketDate_parsed [OF assms(2)] dates_loop_upto)
qed

lemma DateInLastN_days:
  assumes "parse_day (trim_space date) = Some d" and "parse_day (trim_space lastFinalized) = Some l"
    and "0 < n" and "plain_day (l - (n - 1))"
  shows "DateInLastN date lastFinalized n = Inr (l - n < d \<and> d \<le> l)"
proof -
  note l = parse_day_text [OF assms(2)]
  have t: "parse_day (trim_space (day_text (l - (n - 1)))) = Some (l - (n - 1))" "parse_day (trim_space (day_text l)) = Some l"
    using assms(4) l(1) by (simp_all add: trim_day_text parse_day_of_text)
  have "LastNInclusiveDates lastFinalized n = Inr (map day_text [l - (n - 1)..l])"
    using assms(3) InclusiveMarketDates_days [OF t]
    by (simp add: LastNInclusiveDates_def ParseMarketDate_parsed [OF assms(2)] parse_day_of_text [OF l(1)])
  then show ?thesis
    by (auto simp: DateInLastN_def ParseMarketDate_parsed [OF assms(1)] list_ex_iff)
qed

section \<open>Ranges of dates\<close>

definition range_dates :: "InclusiveDateRange \<Rightarrow> string list" where
  "range_dates r = (case InclusiveMarketDates (dr_start r) (dr_end r) of Inl _ \<Rightarrow> [] | Inr dates \<Rightarrow> dates)"

lemma range_dates_days: "plain_day a \<Longrightarrow> plain_day b \<Longrightarrow> a \<le> b \<Longrightarrow> range_dates (date_range (day_text a) (day_text b)) = map day_text [a..b]"
  by (simp add: range_dates_def date_range_def InclusiveMarketDates_days trim_day_text parse_day_of_text)

lemma addMarketDays_next: "plain_day b \<Longrightarrow> addMarketDays (day_text b) 1 = Inr (day_text n) \<longleftrightarrow> n = b + 1"
  by (auto simp: addMarketDays_def ParseMarketDate_day parse_day_of_text)

lemma collapse_loop_dates:
  assumes "plain_day a" "plain_day b" "a \<le> b" and "list_all plain_day ns"
  shows "concat (map range_dates (collapse_loop (day_text a) (day_text b) (map day_text ns))) = map day_text ([a..b] @ ns)"
  using assms
proof (induction ns arbitrary: a b)
  case (Cons n ns)
  show ?case
  proof (cases "n = b + 1")
    case True
    with Cons show ?thesis by (simp add: addMarketDays_next upto_rec2 [of a "b + 1"])
  next
    case False
    with Cons show ?thesis by (simp add: addMarketDays_next range_dates_days)
  qed
qed (simp add: range_dates_days)

lemma collapseDates_dates: "list_all plain_day ns \<Longrightarrow> concat (map range_dates (collapseDates (map day_text ns))) = map day_text ns"
  by (cases ns) (simp_all add: collapse_loop_dates)

section \<open>Properties\<close>

text \<open>C27. A stored price history is fetched again exactly when the policy says so: a forced recheck, a date
  with neither a close nor a recorded omission, an omission that has expired, or one of the last three
  finalized dates whose last check is a day old.  Every other date is skipped for what is stored, and
  a close is never taken for an omission.\<close>

theorem DecideHistoryFetch_exact:
  assumes "parse_day (trim_space (hf_date input)) = Some d" and "parse_day (trim_space (hf_last_finalized input)) = Some l"
    and "plain_day (l - 2)" and "hf_now input \<noteq> 0"
  shows "let checked = (if hf_has_close input then hf_close_fetched_at input else hf_no_observation_checked_at input);
      due = (l - 3 < d \<and> d \<le> l \<and> (checked = 0 \<or> checked + 24 * hour \<le> hf_now input));
      expired = (\<not> hf_has_close input \<and> hf_no_observation_has_expiry input \<and> hf_no_observation_expires_at input \<noteq> 0
        \<and> hf_no_observation_expires_at input \<le> hf_now input);
      covered = (hf_has_close input \<or> hf_has_no_observation input)
    in hd_action (DecideHistoryFetch input) =
      (if hf_force_recheck input \<or> \<not> covered \<or> expired \<or> due then HistoryFetch
       else if hf_has_close input then HistorySkipExistingClose else HistorySkipNoObservation)"
proof -
  have w: "DateInLastN (hf_date input) (hf_last_finalized input) RecentCorrectionWindow = Inr (l - 3 < d \<and> d \<le> l)"
    using DateInLastN_days [OF assms(1,2), of 3] assms(3) by (simp add: RecentCorrectionWindow_def)
  have due: "LatestRequestDue t (hf_now input) RecentCorrectionTTL False \<longleftrightarrow> t = 0 \<or> t + 24 * hour \<le> hf_now input" for t
    by (auto simp: LatestRequestDue_def RecentCorrectionTTL_def time_is_zero_def)
  show ?thesis
    unfolding DecideHistoryFetch_def w sum.case Let_def due time_is_zero_def
    by (cases "hf_has_close input"; cases "hf_has_no_observation input") (auto simp: decision_def)
qed

definition sample_fetch :: HistoryFetchInput where
  "sample_fetch =
     \<lparr> hf_date = ''2026-03-02'', hf_last_finalized = ''2026-03-03'', hf_now = 739679 * day_ns, hf_force_recheck = False,
       hf_has_close = True, hf_close_fetched_at = 739677 * day_ns, hf_has_no_observation = False, hf_no_observation_expires_at = 0,
       hf_no_observation_has_expiry = False, hf_no_observation_checked_at = 0 \<rparr>"

theorem DecideHistoryFetch_exact_witness:
  "hd_action (DecideHistoryFetch sample_fetch) = HistoryFetch
   \<and> parse_day (trim_space (hf_date sample_fetch)) = Some 739676"
proof -
  have p: "parse_day (trim_space (hf_date sample_fetch)) = Some 739676"
    "parse_day (trim_space (hf_last_finalized sample_fetch)) = Some 739677" "plain_day (739677 - 2)" "hf_now sample_fetch \<noteq> 0"
    by code_simp+
  from DecideHistoryFetch_exact [OF p] p(1) show ?thesis by (simp add: sample_fetch_def)
qed

text \<open>C28. The classification of a response loses no date and invents none: collapsing the dates of a class
  into ranges and expanding the ranges gives the dates back, the three classes split the requested
  dates, a date is verified only if it is finalized and not pending, and uncertain only if it is
  neither.\<close>

theorem ClassifyHistoryCompleteness_splits:
  assumes "ClassifyHistoryCompleteness requestedStart requestedEnd lastFinalized pendingDates False False = Inr result"
    and "trim_space lastFinalized \<noteq> []"
  shows "\<exists>dates pending. InclusiveMarketDates requestedStart requestedEnd = Inr dates \<and> parse_dates pendingDates = Inr pending
    \<and> concat (map range_dates (hc_pending_ranges result)) = filter (\<lambda>date. date \<in> set pending) dates
    \<and> concat (map range_dates (hc_verified_ranges result)) = filter (\<lambda>date. date \<notin> set pending \<and> date \<le> trim_space lastFinalized) dates
    \<and> concat (map range_dates (hc_uncertain_ranges result)) = filter (\<lambda>date. date \<notin> set pending \<and> trim_space lastFinalized < date) dates"
proof -
  from assms obtain dates pending where d: "InclusiveMarketDates requestedStart requestedEnd = Inr dates"
      and p: "parse_dates pendingDates = Inr pending" and f: "ParseMarketDate lastFinalized = Inr (trim_space lastFinalized)"
      and r: "result = completeness (collapseDates (filter (\<lambda>date. date \<notin> set pending \<and> date \<le> trim_space lastFinalized) dates))
        (collapseDates (filter (\<lambda>date. date \<in> set pending) dates))
        (collapseDates (filter (\<lambda>date. date \<notin> set pending \<and> \<not> date \<le> trim_space lastFinalized) dates)) ''classified'' []"
    by (auto simp: ClassifyHistoryCompleteness_def ParseMarketDate_Inr)
  obtain a b where ab: "parse_day (trim_space requestedStart) = Some a" "parse_day (trim_space requestedEnd) = Some b"
    using d by (auto simp: InclusiveMarketDates_def ParseMarketDate_Inr split: if_splits)
  have ds: "dates = map day_text [a..b]" using d InclusiveMarketDates_days [OF ab] by (simp split: if_splits)
  have "plain_day a" "plain_day b" using parse_day_text(1) [OF ab(1)] parse_day_text(1) [OF ab(2)] .
  then have "list_all plain_day (filter (P \<circ> day_text) [a..b])" for P by (auto simp: list_all_iff plain_day_def)
  then have c: "concat (map range_dates (collapseDates (filter P dates))) = filter P dates" for P
    unfolding ds filter_map by (rule collapseDates_dates)
  show ?thesis
    using d p c by (intro exI [of _ dates] exI [of _ pending]) (simp add: r completeness_def not_le)
qed

theorem ClassifyHistoryCompleteness_splits_witness:
  "\<exists>result. ClassifyHistoryCompleteness ''2026-03-01'' ''2026-03-05'' ''2026-03-04'' [''2026-03-03''] False False = Inr result
    \<and> concat (map range_dates (hc_verified_ranges result)) = [''2026-03-01'', ''2026-03-02'', ''2026-03-04'']
    \<and> length (hc_verified_ranges result) = 2"
proof -
  let ?r = "completeness [date_range ''2026-03-01'' ''2026-03-02'', date_range ''2026-03-04'' ''2026-03-04'']
    [date_range ''2026-03-03'' ''2026-03-03''] [date_range ''2026-03-05'' ''2026-03-05''] ''classified'' []"
  have r: "ClassifyHistoryCompleteness ''2026-03-01'' ''2026-03-05'' ''2026-03-04'' [''2026-03-03''] False False = Inr ?r"
    and t: "trim_space ''2026-03-04'' = ''2026-03-04''"
    and d: "InclusiveMarketDates ''2026-03-01'' ''2026-03-05'' = Inr [''2026-03-01'', ''2026-03-02'', ''2026-03-03'', ''2026-03-04'', ''2026-03-05'']"
    and p: "parse_dates [''2026-03-03''] = Inr [''2026-03-03'']"
    by code_simp+
  have "filter (\<lambda>date. date \<notin> set [''2026-03-03''] \<and> date \<le> ''2026-03-04'')
      [''2026-03-01'', ''2026-03-02'', ''2026-03-03'', ''2026-03-04'', ''2026-03-05''] = [''2026-03-01'', ''2026-03-02'', ''2026-03-04'']"
    by code_simp
  with ClassifyHistoryCompleteness_splits [OF r] t d p r show ?thesis
    by (intro exI [of _ ?r]) (auto simp: completeness_def)
qed

text \<open>The last finalized session is the first of the last fourteen local dates, going back, whose regular
  close lies before now.\<close>

lemma finalized_loop_first:
  "finalized_loop load_location z now market evidence is = Inr date \<Longrightarrow>
     \<exists>pre i post s. is = pre @ i # post \<and> date = days_back z now i
       \<and> ResolveEquitySessionClose load_location date market evidence = Inr s \<and> sr_status s = ''mapped'' \<and> sr_close_instant s < now
       \<and> (\<forall>j \<in> set pre. \<exists>s. ResolveEquitySessionClose load_location (days_back z now j) market evidence = Inr s
            \<and> \<not> (sr_status s = ''mapped'' \<and> sr_close_instant s < now))"
proof (induction "is")
  case (Cons i "is")
  from Cons.prems obtain s where s: "ResolveEquitySessionClose load_location (days_back z now i) market evidence = Inr s" by auto
  show ?case
  proof (cases "sr_status s = ''mapped'' \<and> sr_close_instant s < now")
    case True
    with Cons.prems s show ?thesis by (intro exI [of _ "[]"]) auto
  next
    case False
    with Cons.prems s have "finalized_loop load_location z now market evidence is = Inr date" by auto
    from Cons.IH [OF this] obtain pre k post s' where k: "is = pre @ k # post" "date = days_back z now k"
        "ResolveEquitySessionClose load_location date market evidence = Inr s'" "sr_status s' = ''mapped''" "sr_close_instant s' < now"
        "\<forall>j \<in> set pre. \<exists>s. ResolveEquitySessionClose load_location (days_back z now j) market evidence = Inr s
            \<and> \<not> (sr_status s = ''mapped'' \<and> sr_close_instant s < now)" by blast
    with s False show ?thesis by (intro exI [of _ "i # pre"] exI [of _ k] exI [of _ post] exI [of _ s']) auto
  qed
qed simp

definition plain_schedule :: "EquitySessionSchedule \<Rightarrow> bool" where
  "plain_schedule s \<longleftrightarrow> trim_space (es_timezone s) = es_timezone s \<and> es_timezone s \<noteq> [] \<and> trim_space (es_close_clock s) = es_close_clock s
     \<and> es_close_clock s \<noteq> [] \<and> trim_space (es_policy s) = es_policy s \<and> es_policy s \<noteq> []"

lemma schedules_plain: "list_all (\<lambda>(_, s). plain_schedule s) market_schedules"
  by code_simp

lemma schedule_plain: "EquitySessionScheduleForMarket market = Some s \<Longrightarrow> plain_schedule s"
  using schedules_plain by (auto simp: EquitySessionScheduleForMarket_def find_Some_iff list_all_length)

lemma regular_close:
  assumes "EquitySessionScheduleForMarket market = Some schedule"
    and "ResolveEquitySessionClose load_location date market (regular_evidence schedule) = Inr s"
  shows "(case ResolveLocalDateTime load_location date (es_close_clock schedule) (es_timezone schedule) of
      Inl _ \<Rightarrow> sr_status s \<noteq> ''mapped''
    | Inr t \<Rightarrow> sr_status s = ''mapped'' \<and> sr_close_instant s = t)"
proof -
  have p: "plain_schedule schedule" by (rule schedule_plain [OF assms(1)])
  have m: "EquitySessionScheduleForMarket (trim_space market) = Some schedule"
    using assms(1) by (simp add: EquitySessionScheduleForMarket_def)
  have t: "ResolveLocalDateTime load_location (trim_space date) c z = ResolveLocalDateTime load_location date c z" for c z
    unfolding ResolveLocalDateTime_def trim_space_idem ..
  from assms(2) show ?thesis
    using p by (auto simp: ResolveEquitySessionClose_def ParseMarketDate_Inr m regular_evidence_def session_clock_def plain_schedule_def t
        uncertain_session_def unresolved_def Let_def split: sum.splits)
qed

text \<open>C29. The last finalized market date is final and the latest: the regular close of the market on it is an
  instant strictly before now, and on every later local date of the fourteen examined the close is not
  before now or does not exist.\<close>

theorem LastFinalizedEquityMarketDate_latest:
  assumes "LastFinalizedEquityMarketDate load_location load_error now market = Inr date"
  shows "\<exists>schedule z i t. EquitySessionScheduleForMarket market = Some schedule \<and> load_location (es_timezone schedule) = Some z
    \<and> i < 14 \<and> date = days_back z now i
    \<and> ResolveLocalDateTime load_location date (es_close_clock schedule) (es_timezone schedule) = Inr t \<and> t < now
    \<and> (\<forall>j < i. \<forall>u. ResolveLocalDateTime load_location (days_back z now j) (es_close_clock schedule) (es_timezone schedule) = Inr u
         \<longrightarrow> now \<le> u)"
proof -
  from assms obtain schedule z where m: "EquitySessionScheduleForMarket market = Some schedule" "load_location (es_timezone schedule) = Some z"
      and l: "finalized_loop load_location z now market (regular_evidence schedule) [0..<14] = Inr date"
    by (auto simp: LastFinalizedEquityMarketDate_def split: if_splits option.splits)
  from finalized_loop_first [OF l] obtain pre i post s where i: "[0..<14] = pre @ i # post" "date = days_back z now i"
      and s: "ResolveEquitySessionClose load_location date market (regular_evidence schedule) = Inr s" "sr_status s = ''mapped''" "sr_close_instant s < now"
      and pre: "\<forall>j \<in> set pre. \<exists>s. ResolveEquitySessionClose load_location (days_back z now j) market (regular_evidence schedule) = Inr s
            \<and> \<not> (sr_status s = ''mapped'' \<and> sr_close_instant s < now)" by blast
  have "length pre + Suc (length post) = 14" using arg_cong [OF i(1), of length] by simp
  then have "length pre < 14" "[0..<14] ! length pre = i" "pre = take (length pre) [0..<14]" by (simp_all add: i(1))
  then have n: "i < 14" "pre = [0..<i]" by (simp_all add: take_upt)
  obtain t where "ResolveLocalDateTime load_location date (es_close_clock schedule) (es_timezone schedule) = Inr t" "t < now"
    using regular_close [OF m(1) s(1)] s(2,3) by (auto split: sum.splits)
  moreover have "now \<le> u" if a: "j < i" "ResolveLocalDateTime load_location (days_back z now j) (es_close_clock schedule) (es_timezone schedule) = Inr u"
    for j u
  proof -
    obtain s where r: "ResolveEquitySessionClose load_location (days_back z now j) market (regular_evidence schedule) = Inr s"
        "\<not> (sr_status s = ''mapped'' \<and> sr_close_instant s < now)" using bspec [OF pre, of j] n(2) a(1) by auto
    from regular_close [OF m(1) r(1)] r(2) a(2) show ?thesis by simp
  qed
  ultimately show ?thesis using m n(1) i(2) by blast
qed

definition tokyo :: "string \<Rightarrow> zone option" where
  "tokyo name = (if name = ''Asia/Tokyo'' then Some (\<lambda>_. 32400) else None)"

lemma scan_offsets_const: "scan_offsets (\<lambda>_. k) w = [k]"
proof -
  have r: "xs \<noteq> [] \<Longrightarrow> remdups (map (\<lambda>_. k) xs) = [k]" for xs :: "int list"
    by (induction xs) (auto simp: image_constant_conv)
  show ?thesis unfolding scan_offsets_def by (rule r) simp
qed

lemma candidate_times_const:
  "candidate_times (\<lambda>_. k) wall text =
     (let label = local_wall (\<lambda>_. k) wall - local_wall (\<lambda>_. k) wall mod minute_ns
      in if wall_parts (\<lambda>_. k) (label - k * second) = text then [label - k * second] else [])"
  by (simp add: candidate_times_def scan_offsets_const Let_def)

lemma tokyo_close:
  "ResolveLocalDateTime tokyo ''2026-03-01'' ''15:30'' ''Asia/Tokyo'' = Inr (739675 * day_ns + 6 * hour + 30 * minute_ns)"
  "ResolveLocalDateTime tokyo ''2026-02-28'' ''15:30'' ''Asia/Tokyo'' = Inr (739674 * day_ns + 6 * hour + 30 * minute_ns)"
proof -
  have p: "trim_space ''Asia/Tokyo'' = ''Asia/Tokyo''" "trim_space ''2026-03-01'' = ''2026-03-01''" "trim_space ''2026-02-28'' = ''2026-02-28''"
    "trim_space ''15:30'' = ''15:30''" "parse_date ''2026-03-01'' = Some (2026, 3, 1)" "parse_date ''2026-02-28'' = Some (2026, 2, 28)"
    "parse_clock ''15:30'' = Some (15, 30)" by code_simp+
  have c: "candidate_times (\<lambda>_. 32400) (parsed_wall (\<lambda>_. 32400) (2026, 3, 1) (15, 30)) ''2026-03-01 15:30''
      = [739675 * day_ns + 6 * hour + 30 * minute_ns]"
    "candidate_times (\<lambda>_. 32400) (parsed_wall (\<lambda>_. 32400) (2026, 2, 28) (15, 30)) ''2026-02-28 15:30''
      = [739674 * day_ns + 6 * hour + 30 * minute_ns]"
    unfolding candidate_times_const by code_simp+
  show "ResolveLocalDateTime tokyo ''2026-03-01'' ''15:30'' ''Asia/Tokyo'' = Inr (739675 * day_ns + 6 * hour + 30 * minute_ns)"
    unfolding ResolveLocalDateTime_def p tokyo_def by (simp add: c(1) normalizeTime_def truncate_ms_def)
  show "ResolveLocalDateTime tokyo ''2026-02-28'' ''15:30'' ''Asia/Tokyo'' = Inr (739674 * day_ns + 6 * hour + 30 * minute_ns)"
    unfolding ResolveLocalDateTime_def p tokyo_def by (simp add: c(2) normalizeTime_def truncate_ms_def)
qed

text \<open>At three in the afternoon in Tokyo, half an hour before the close, the day before is the last final one.\<close>

theorem LastFinalizedEquityMarketDate_latest_witness:
  "LastFinalizedEquityMarketDate tokyo (\<lambda>_. timezone_required) (739675 * day_ns + 6 * hour) ''jp'' = Inr ''2026-02-28''
   \<and> (\<exists>t. ResolveLocalDateTime tokyo ''2026-02-28'' ''15:30'' ''Asia/Tokyo'' = Inr t \<and> t < 739675 * day_ns + 6 * hour)"
proof -
  let ?s = "schedule_of ''Asia/Tokyo'' ''15:30'' ''jp_equity_regular_close_v1''" and ?now = "739675 * day_ns + 6 * hour"
  have s: "EquitySessionScheduleForMarket ''jp'' = Some ?s" "EquitySessionScheduleForMarket (trim_space ''jp'') = Some ?s" by code_simp+
  have p: "ParseMarketDate ''2026-03-01'' = Inr ''2026-03-01''" "ParseMarketDate ''2026-02-28'' = Inr ''2026-02-28''"
    "trim_space ''Asia/Tokyo'' = ''Asia/Tokyo''" "trim_space ''15:30'' = ''15:30''"
    "trim_space ''jp_equity_regular_close_v1'' = ''jp_equity_regular_close_v1''" by code_simp+
  have e: "ResolveEquitySessionClose tokyo date ''jp'' (regular_evidence ?s) =
      Inr \<lparr> sr_status = ''mapped'', sr_reason = [], sr_close_instant = t, sr_timestamp_basis = ''session_close'', sr_policy = es_policy ?s \<rparr>"
    if "ParseMarketDate date = Inr date" "ResolveLocalDateTime tokyo date ''15:30'' ''Asia/Tokyo'' = Inr t" for date t
    using that p(3-5) by (simp add: ResolveEquitySessionClose_def s(2) regular_evidence_def schedule_of_def session_clock_def Let_def)
  have d: "days_back (\<lambda>_. 32400) ?now 0 = ''2026-03-01''" "days_back (\<lambda>_. 32400) ?now 1 = ''2026-02-28''" by code_simp+
  have u: "[0..<14] = 0 # 1 # [2..<14]" by (simp add: upt_rec)
  have "finalized_loop tokyo (\<lambda>_. 32400) ?now ''jp'' (regular_evidence ?s) [0..<14] = Inr ''2026-02-28''"
    unfolding u finalized_loop.simps d e [OF p(1) tokyo_close(1)] e [OF p(2) tokyo_close(2)] by simp
  then have r: "LastFinalizedEquityMarketDate tokyo (\<lambda>_. timezone_required) ?now ''jp'' = Inr ''2026-02-28''"
    unfolding LastFinalizedEquityMarketDate_def s(1) option.case
    by (simp add: tokyo_def time_is_zero_def schedule_of_def)
  from LastFinalizedEquityMarketDate_latest [OF r] s(1)
  have "\<exists>t. ResolveLocalDateTime tokyo ''2026-02-28'' ''15:30'' ''Asia/Tokyo'' = Inr t \<and> t < ?now"
    by (auto simp only: option.inject schedule_of_def EquitySessionSchedule.select_convs)
  with r show ?thesis by blast
qed

end
