(* ===== verification/QuoteSeries.thy ===== *)
theory QuoteSeries
  imports MarketDates ProductContract "HOL-Library.AList" "HOL-Library.Product_Lexorder" "HOL-Library.Multiset"
begin

text \<open>
  Price performance of an instrument: \<^verbatim>\<open>internal/domain/quote_performance.go\<close>, \<^verbatim>\<open>instrument_calendar.go\<close> and the
  series of \<^verbatim>\<open>review_daily_evidence.go\<close>.  One quote is selected per day; a window compares the latest
  quote with the last one on or before its start, if everything between is comparable; a day's close is
  carried only over closed days.
\<close>

section \<open>Quotes of a day\<close>

text \<open>The fields of \<^verbatim>\<open>InstrumentQuote\<close> that stored daily quotes add.\<close>

record 'd DailyQuote = "'d InstrumentQuote" +
  iq_observation_kind :: string
  iq_effective_date :: string
  iq_binding_revision :: int
  iq_price_basis :: string
  iq_timestamp_basis :: string
  iq_revision :: int
  iq_split_factor :: string
  iq_dividend_cash :: string

record QuotePerformanceReport =
  pr_items :: "QuotePerformance list"
  pr_unavailable_reason :: string

record InstrumentClosure =
  ic_id :: string
  ic_instrument_id :: InstrumentID
  ic_date :: string
  ic_effective_at :: go_time
  ic_timezone :: string
  ic_created_at :: go_time

record 'd ReviewDailyQuoteSeries =
  qs_points :: "'d DailyQuote list"
  qs_closures :: "InstrumentClosure list"

definition YahooRawClosePriceBasis :: string where "YahooRawClosePriceBasis = ''yahoo_close_v1''"
definition CoinGeckoDailyPriceBasis :: string where "CoinGeckoDailyPriceBasis = ''coingecko_daily_reference_v1''"

definition QuotePerformanceWindows :: "int list" where "QuotePerformanceWindows = [7, 30]"
definition QuoteReturnWindows :: "int list" where "QuoteReturnWindows = [7, 30, 90, 180, 365]"

text \<open>\<^verbatim>\<open>sort.Search\<close> of Go: the smallest index at which a predicate that stays true becomes true.\<close>

function search_loop :: "(nat \<Rightarrow> bool) \<Rightarrow> nat \<Rightarrow> nat \<Rightarrow> nat" where
  "search_loop f i j =
     (if i < j then let h = (i + j) div 2 in if f h then search_loop f i h else search_loop f (h + 1) j else i)"
  by pat_completeness auto

termination
  by (relation "measure (\<lambda>(f, i, j). j - i)") (auto simp: Let_def)

declare search_loop.simps [simp del]

definition sort_search :: "nat \<Rightarrow> (nat \<Rightarrow> bool) \<Rightarrow> nat" where
  "sort_search n f = search_loop f 0 n"

section \<open>Comparable prices\<close>

datatype quotePerformanceKind = quotePerformanceNAV | quotePerformancePrice

definition quotePerformanceMode :: "InstrumentType \<Rightarrow> quotePerformanceKind option" where
  "quotePerformanceMode t =
     (case t of
        InstrumentMutualFund \<Rightarrow> Some quotePerformanceNAV
      | InstrumentBankInvestmentProduct \<Rightarrow> Some quotePerformanceNAV
      | InstrumentType_unknown _ \<Rightarrow> None
      | _ \<Rightarrow> Some quotePerformancePrice)"

definition archivedRawCloseBasis :: "string \<Rightarrow> bool" where
  "archivedRawCloseBasis basis \<longleftrightarrow> basis = ''tiingo_raw_close_v1''"

definition performancePriceBasis :: "InstrumentType \<Rightarrow> string \<Rightarrow> bool" where
  "performancePriceBasis t basis \<longleftrightarrow>
     basis = ''agent_raw_close_v1''
     \<or> (case t of
          InstrumentStock \<Rightarrow> archivedRawCloseBasis basis \<or> basis = YahooRawClosePriceBasis
        | InstrumentETF \<Rightarrow> archivedRawCloseBasis basis \<or> basis = YahooRawClosePriceBasis
        | InstrumentPreciousMetal \<Rightarrow> basis = YahooRawClosePriceBasis
        | InstrumentCrypto \<Rightarrow> basis = CoinGeckoDailyPriceBasis \<or> basis = YahooRawClosePriceBasis
        | _ \<Rightarrow> False)"

definition DailyPriceUnit :: "InstrumentType \<Rightarrow> string \<Rightarrow> string" where
  "DailyPriceUnit t basis = (if performancePriceBasis t basis then ''raw_close'' else ''basis:'' @ basis)"

definition performanceSource :: "QuoteSourceKind \<Rightarrow> bool" where
  "performanceSource source \<longleftrightarrow> source = QuoteSourceAgent \<or> source = QuoteSourceManual \<or> source = QuoteSourceProvider"

definition performanceTimestamp :: "InstrumentType \<Rightarrow> string \<Rightarrow> bool" where
  "performanceTimestamp t basis \<longleftrightarrow>
     basis = ''date_label'' \<or> basis = ''source_timestamp'' \<or> basis = ''session_close''
     \<or> (case t of
          InstrumentPreciousMetal \<Rightarrow> basis = ''policy_derived''
        | InstrumentCrypto \<Rightarrow> basis = ''policy_derived'' \<or> basis = ''observed_publication''
        | _ \<Rightarrow> False)"

definition splitFactorOne :: "'d decimal_ops \<Rightarrow> string \<Rightarrow> bool" where
  "splitFactorOne D text = (case d_from_string D text of Inr v \<Rightarrow> d_equal D v (d_from_int D 1) | Inl _ \<Rightarrow> False)"

definition quoteAdjustmentPresent :: "'d decimal_ops \<Rightarrow> string \<Rightarrow> bool" where
  "quoteAdjustmentPresent D text =
     (if text = [] then False else case d_from_string D text of Inr v \<Rightarrow> \<not> d_is_zero D v | Inl _ \<Rightarrow> True)"

definition performanceSourceRank :: "QuoteSourceKind \<Rightarrow> int" where
  "performanceSourceRank source = (case source of QuoteSourceAgent \<Rightarrow> 3 | QuoteSourceManual \<Rightarrow> 2 | _ \<Rightarrow> 1)"

text \<open>The two tests of a quote: where it comes from, and what its price means.\<close>

definition quote_identity_ok :: "Instrument \<Rightarrow> 'd DailyQuote \<Rightarrow> bool" where
  "quote_identity_ok i q \<longleftrightarrow>
     iq_currency q = i_quote_currency i \<and> iq_binding_revision q = i_binding_revision i \<and> performanceSource (iq_source_kind q)
     \<and> performanceTimestamp (i_type i) (iq_timestamp_basis q)"

definition unsplit :: "'d decimal_ops \<Rightarrow> 'd DailyQuote \<Rightarrow> bool" where
  "unsplit D q \<longleftrightarrow> \<not> quoteAdjustmentPresent D (iq_split_factor q) \<or> splitFactorOne D (iq_split_factor q)"

definition quote_price_ok :: "'d decimal_ops \<Rightarrow> Instrument \<Rightarrow> quotePerformanceKind \<Rightarrow> 'd DailyQuote \<Rightarrow> bool" where
  "quote_price_ok D i mode q \<longleftrightarrow>
     (if mode = quotePerformanceNAV
      then d_is_positive D (u_value (iq_unit_price q)) \<and> iq_price_basis q = ''agent_unit_nav_v1''
        \<and> \<not> quoteAdjustmentPresent D (iq_dividend_cash q) \<and> unsplit D q
      else \<not> d_is_negative D (u_value (iq_unit_price q)) \<and> performancePriceBasis (i_type i) (iq_price_basis q) \<and> unsplit D q)"

section \<open>One quote per day\<close>

definition daily_close :: "'d DailyQuote \<Rightarrow> bool" where
  "daily_close q \<longleftrightarrow> \<not> Option.is_none (parse_day (iq_effective_date q)) \<and> iq_observation_kind q = ''close''"

definition replaces :: "'d DailyQuote \<Rightarrow> 'd DailyQuote \<Rightarrow> bool" where
  "replaces q old \<longleftrightarrow>
     performanceSourceRank (iq_source_kind old) < performanceSourceRank (iq_source_kind q)
     \<or> iq_source_kind q = iq_source_kind old
       \<and> (iq_revision old < iq_revision q
          \<or> iq_revision q = iq_revision old
            \<and> (iq_created_at old < iq_created_at q \<or> iq_created_at q = iq_created_at old \<and> iq_id old < iq_id q))"

definition select_daily :: "'d DailyQuote \<Rightarrow> (string \<times> 'd DailyQuote) list \<Rightarrow> (string \<times> 'd DailyQuote) list" where
  "select_daily q byDate =
     (if daily_close q
         \<and> (case map_of byDate (iq_effective_date q) of None \<Rightarrow> True | Some old \<Rightarrow> replaces q old)
      then AList.update (iq_effective_date q) q byDate else byDate)"

text \<open>The dates of the map are distinct, so sorting by date erases the order of ranging over it.\<close>

definition dailyPerformanceQuotes :: "'d DailyQuote list \<Rightarrow> 'd DailyQuote list" where
  "dailyPerformanceQuotes quotes = sort_key iq_effective_date (map snd (fold select_daily quotes []))"

section \<open>Windows\<close>

definition priceWindowPercent :: "'d decimal_ops \<Rightarrow> 'd \<Rightarrow> 'd \<Rightarrow> int \<Rightarrow> string \<times> string" where
  "priceWindowPercent D base latest elapsed =
     (let period = d_mul D (d_sub D (d_div_round D latest base 24) (d_from_int D 1)) (d_from_int D 100);
          annual = d_div_round D (d_mul D period (d_from_int D 365)) (d_from_int D elapsed) 12
      in (d_string D period, d_string D annual))"

text \<open>A date that does not parse leaves the zero time, which is day 0.\<close>

definition day_or_zero :: "string \<Rightarrow> int" where
  "day_or_zero date = (case parse_day date of Some n \<Rightarrow> n | None \<Rightarrow> 0)"

definition last_on_or_before :: "'d DailyQuote list \<Rightarrow> nat \<Rightarrow> string \<Rightarrow> int" where
  "last_on_or_before points n date = int (sort_search n (\<lambda>k. date < iq_effective_date (points ! k))) - 1"

definition window_base :: "'d DailyQuote list \<Rightarrow> nat \<Rightarrow> int \<Rightarrow> int \<Rightarrow> int" where
  "window_base points latestIndex anchor window =
     (if 0 < window then last_on_or_before points (latestIndex + 1) (day_text (anchor - window)) else 0)"

definition window_comparable :: "'d decimal_ops \<Rightarrow> Instrument \<Rightarrow> quotePerformanceKind \<Rightarrow> 'd DailyQuote list \<Rightarrow> bool" where
  "window_comparable D i mode qs \<longleftrightarrow> list_all (\<lambda>q. quote_identity_ok i q \<and> quote_price_ok D i mode q) qs"

definition project_window ::
    "'d decimal_ops \<Rightarrow> Instrument \<Rightarrow> quotePerformanceKind \<Rightarrow> 'd DailyQuote list \<Rightarrow> nat \<Rightarrow> string \<Rightarrow> string \<Rightarrow> int
     \<Rightarrow> QuotePerformance option" where
  "project_window D i mode points latestIndex anchorDate asOf window =
     (let base = window_base points latestIndex (day_or_zero anchorDate) window in
      if base < 0 then None
      else
        let first = points ! nat base; latest = points ! latestIndex in
        case CivilDaysBetween (iq_effective_date first) anchorDate of
          Inl _ \<Rightarrow> None
        | Inr elapsed \<Rightarrow>
            if 0 < elapsed \<and> d_is_positive D (u_value (iq_unit_price first))
               \<and> window_comparable D i mode (drop (nat base) (take (latestIndex + 1) points))
            then
              let (period, annual) = priceWindowPercent D (u_value (iq_unit_price first)) (u_value (iq_unit_price latest)) elapsed
              in Some
                \<lparr> qp_window_days = window, qp_baseline_on = iq_effective_date first, qp_as_of_on = asOf,
                  qp_latest_on = iq_effective_date latest, qp_elapsed_days = elapsed, qp_period_percent = period,
                  qp_annualized_percent = (if SupportsAnnualizedQuoteReturn (i_type i) then Some annual else None) \<rparr>
            else None)"

definition projectQuotePerformanceWindowsAsOf ::
    "'d decimal_ops \<Rightarrow> Instrument \<Rightarrow> 'd DailyQuote list \<Rightarrow> int \<Rightarrow> int list \<Rightarrow> string \<Rightarrow> QuotePerformance list" where
  "projectQuotePerformanceWindowsAsOf D i points latestIndex windows asOf =
     (case quotePerformanceMode (i_type i) of
        None \<Rightarrow> []
      | Some mode \<Rightarrow>
          if latestIndex < 0 \<or> int (length points) \<le> latestIndex then []
          else if latestIndex < 1 then []
          else
            let n = nat latestIndex; anchorDate = (if asOf = [] then iq_effective_date (points ! n) else asOf)
            in List.map_filter (project_window D i mode points n anchorDate asOf) windows)"

definition projectQuotePerformanceWindowsFromPoints ::
    "'d decimal_ops \<Rightarrow> Instrument \<Rightarrow> 'd DailyQuote list \<Rightarrow> int list \<Rightarrow> QuotePerformance list" where
  "projectQuotePerformanceWindowsFromPoints D i points windows =
     projectQuotePerformanceWindowsAsOf D i points (int (length points) - 1) windows []"

definition ProjectQuotePerformanceWindows ::
    "'d decimal_ops \<Rightarrow> Instrument \<Rightarrow> 'd DailyQuote list \<Rightarrow> int list \<Rightarrow> QuotePerformance list" where
  "ProjectQuotePerformanceWindows D i quotes windows =
     projectQuotePerformanceWindowsFromPoints D i (dailyPerformanceQuotes quotes) windows"

definition ProjectQuotePerformance :: "'d decimal_ops \<Rightarrow> Instrument \<Rightarrow> 'd DailyQuote list \<Rightarrow> QuotePerformance list" where
  "ProjectQuotePerformance D i quotes = ProjectQuotePerformanceWindows D i quotes QuotePerformanceWindows"

definition ProjectQuotePerformanceReportWindows ::
    "'d decimal_ops \<Rightarrow> Instrument \<Rightarrow> 'd DailyQuote list \<Rightarrow> int list \<Rightarrow> QuotePerformanceReport" where
  "ProjectQuotePerformanceReportWindows D i quotes windows =
     (let items = ProjectQuotePerformanceWindows D i quotes windows;
          report = (\<lambda>reason. \<lparr> pr_items = items, pr_unavailable_reason = reason \<rparr>);
          dates = sort (map iq_effective_date (filter daily_close quotes))
      in
      if items \<noteq> [] then report []
      else if Option.is_none (quotePerformanceMode (i_type i)) then report ''unsupported_instrument''
      else if 2 \<le> length dates
        \<and> (case CivilDaysBetween (hd dates) (last dates) of Inr elapsed \<Rightarrow> 7 \<le> elapsed | Inl _ \<Rightarrow> False)
      then report ''incomparable_daily_prices''
      else report ''insufficient_daily_history'')"

definition ProjectQuotePerformanceReport :: "'d decimal_ops \<Rightarrow> Instrument \<Rightarrow> 'd DailyQuote list \<Rightarrow> QuotePerformanceReport" where
  "ProjectQuotePerformanceReport D i quotes = ProjectQuotePerformanceReportWindows D i quotes QuotePerformanceWindows"

section \<open>Closed days\<close>

definition DefaultInstrumentClosedDate :: "InstrumentType \<Rightarrow> string \<Rightarrow> bool" where
  "DefaultInstrumentClosedDate kind date \<longleftrightarrow>
     kind \<in> {InstrumentStock, InstrumentETF, InstrumentMutualFund, InstrumentBankInvestmentProduct, InstrumentBond,
             InstrumentPreciousMetal}
     \<and> (case parse_day date of Some n \<Rightarrow> \<not> working_day n | None \<Rightarrow> False)"

definition HasInstrumentClosure :: "InstrumentID \<Rightarrow> string \<Rightarrow> InstrumentClosure list \<Rightarrow> bool" where
  "HasInstrumentClosure i date closures \<longleftrightarrow> list_ex (\<lambda>c. ic_instrument_id c = i \<and> ic_date c = date) closures"

definition InstrumentClosedCarry :: "Instrument \<Rightarrow> string \<Rightarrow> string \<Rightarrow> InstrumentClosure list \<Rightarrow> bool" where
  "InstrumentClosedCarry instrument from_on to_on closures =
     (if from_on = [] \<or> to_on = [] \<or> to_on < from_on then False
      else if from_on = to_on
      then DefaultInstrumentClosedDate (i_type instrument) to_on \<or> HasInstrumentClosure (i_id instrument) to_on closures
      else case InclusiveMarketDates from_on to_on of
        Inl _ \<Rightarrow> False
      | Inr dates \<Rightarrow>
          list_all (\<lambda>date. date = from_on \<or> DefaultInstrumentClosedDate (i_type instrument) date
            \<or> date \<in> set (map ic_date (filter (\<lambda>c. ic_instrument_id c = i_id instrument) closures))) dates)"

section \<open>The series of a review\<close>

definition NewReviewDailyQuoteSeries ::
    "InstrumentID \<Rightarrow> 'd DailyQuote list \<Rightarrow> InstrumentClosure list \<Rightarrow> 'd ReviewDailyQuoteSeries" where
  "NewReviewDailyQuoteSeries instrumentID quotes closures =
     \<lparr> qs_points = dailyPerformanceQuotes (filter (\<lambda>q. iq_instrument_id q = instrumentID) quotes), qs_closures = closures \<rparr>"

definition ResolveDailyClose ::
    "'d decimal_ops \<Rightarrow> 'd ReviewDailyQuoteSeries \<Rightarrow> Instrument \<Rightarrow> string \<Rightarrow> string + 'd DailyQuote" where
  "ResolveDailyClose D s instrument on =
     (if Option.is_none (parse_day on) then Inl ''invalid_request''
      else
        let index = last_on_or_before (qs_points s) (length (qs_points s)) on; quote = qs_points s ! nat index in
        if index < 0
           \<or> iq_effective_date quote \<noteq> on \<and> i_quote_source instrument \<noteq> QuoteSourceManual
             \<and> \<not> InstrumentClosedCarry instrument (iq_effective_date quote) on (qs_closures s)
        then Inl ''daily_close_missing''
        else case quotePerformanceMode (i_type instrument) of
          None \<Rightarrow> Inl ''daily_close_ineligible''
        | Some mode \<Rightarrow>
            if quote_identity_ok instrument quote \<and> quote_price_ok D instrument mode quote then Inr quote
            else Inl ''daily_close_ineligible'')"

definition ResolveDailyPerformance ::
    "'d decimal_ops \<Rightarrow> 'd ReviewDailyQuoteSeries \<Rightarrow> Instrument \<Rightarrow> string \<Rightarrow> int \<Rightarrow> int \<Rightarrow> string + QuotePerformance" where
  "ResolveDailyPerformance D s instrument on lookbackDays maxBaselineGapDays =
     (if Option.is_none (parse_day on) \<or> \<not> ValidQuotePeriodWindow lookbackDays \<or> lookbackDays = 0 \<or> maxBaselineGapDays < 0
      then Inl ''invalid_request''
      else case ResolveDailyClose D s instrument on of
        Inl reason \<Rightarrow> Inl reason
      | Inr _ \<Rightarrow>
          let latest = last_on_or_before (qs_points s) (length (qs_points s)) on in
          (case projectQuotePerformanceWindowsAsOf D instrument (qs_points s) latest [lookbackDays] on of
             [] \<Rightarrow> Inl ''baseline_missing_or_incomparable''
           | item # _ \<Rightarrow>
               (case CivilDaysBetween (qp_baseline_on item) (day_text (day_or_zero on - lookbackDays)) of
                  Inl _ \<Rightarrow> Inl ''baseline_too_old''
                | Inr gap \<Rightarrow> if gap < 0 \<or> maxBaselineGapDays < gap then Inl ''baseline_too_old'' else Inr item)))"

definition ResolveReviewDailyPerformance ::
    "'d decimal_ops \<Rightarrow> Instrument \<Rightarrow> 'd DailyQuote list \<Rightarrow> string \<Rightarrow> int \<Rightarrow> int \<Rightarrow> string + QuotePerformance" where
  "ResolveReviewDailyPerformance D instrument quotes on lookbackDays maxBaselineGapDays =
     ResolveDailyPerformance D (NewReviewDailyQuoteSeries (i_id instrument) quotes []) instrument on lookbackDays maxBaselineGapDays"

definition ResolveReviewDailyClose ::
    "'d decimal_ops \<Rightarrow> Instrument \<Rightarrow> 'd DailyQuote list \<Rightarrow> string \<Rightarrow> string + 'd DailyQuote" where
  "ResolveReviewDailyClose D instrument quotes on = ResolveDailyClose D (NewReviewDailyQuoteSeries (i_id instrument) quotes []) instrument on"

section \<open>The chart\<close>

record QuotePerformancePoint =
  pt_currency :: CurrencyCode
  pt_observation_kind :: string
  pt_effective_date :: string
  pt_price_basis :: string
  pt_timestamp_basis :: string
  pt_quoted_at :: go_time
  pt_value :: string
  pt_source_kind :: QuoteSourceKind
  pt_source_key :: string
  pt_delayed :: bool
  pt_break_before :: bool

record QuotePerformanceSeries =
  ps_window_days :: int
  ps_from :: string
  ps_to :: string
  ps_item :: "QuotePerformance option"
  ps_unavailable_reason :: string
  ps_points :: "QuotePerformancePoint list"

definition sameDailyPriceUnit :: "InstrumentType \<Rightarrow> quotePerformanceKind \<Rightarrow> string \<Rightarrow> string \<Rightarrow> bool" where
  "sameDailyPriceUnit t mode previous current \<longleftrightarrow>
     previous = current
     \<or> mode = quotePerformancePrice \<and> performancePriceBasis t previous \<and> performancePriceBasis t current"

definition chart_point :: "'d decimal_ops \<Rightarrow> 'd DailyQuote \<Rightarrow> bool \<Rightarrow> QuotePerformancePoint" where
  "chart_point D q break =
     \<lparr> pt_currency = iq_currency q, pt_observation_kind = iq_observation_kind q, pt_effective_date = iq_effective_date q,
       pt_price_basis = iq_price_basis q, pt_timestamp_basis = iq_timestamp_basis q, pt_quoted_at = iq_quoted_at q,
       pt_value = UnitPrice_Canonical D (iq_unit_price q), pt_source_kind = iq_source_kind q, pt_source_key = iq_source_key q,
       pt_delayed = iq_delayed q, pt_break_before = break \<rparr>"

definition ProjectQuotePerformanceSeries ::
    "'d decimal_ops \<Rightarrow> Instrument \<Rightarrow> 'd DailyQuote list \<Rightarrow> int \<Rightarrow> QuotePerformanceSeries" where
  "ProjectQuotePerformanceSeries D i quotes window =
     (let result = (\<lambda>reason. \<lparr> ps_window_days = window, ps_from = [], ps_to = [], ps_item = None, ps_unavailable_reason = reason,
                               ps_points = [] \<rparr>)
      in case quotePerformanceMode (i_type i) of
        None \<Rightarrow> result ''unsupported_instrument''
      | Some mode \<Rightarrow>
          let points = dailyPerformanceQuotes quotes in
          if points = [] then result ''insufficient_daily_history''
          else
            let latest = last points;
                base = (if 0 < window
                        then last_on_or_before points (length points) (day_text (day_or_zero (iq_effective_date latest) - window))
                        else 0);
                item = (case ProjectQuotePerformanceWindows D i quotes [window] of [] \<Rightarrow> None | item # _ \<Rightarrow> Some item);
                selected = drop (nat base) points
            in (result
                  (if \<not> Option.is_none item then []
                   else if length points < 2 \<or> base < 0 then ''insufficient_daily_history'' else ''incomparable_daily_prices''))
                 \<lparr> ps_item := item, ps_from := iq_effective_date (hd selected), ps_to := iq_effective_date latest,
                   ps_points := map (\<lambda>n. chart_point D (selected ! n)
                       (0 < n \<and> \<not> sameDailyPriceUnit (i_type i) mode (iq_price_basis (selected ! (n - 1))) (iq_price_basis (selected ! n))))
                     [0..<length selected] \<rparr>)"

section \<open>Binary search\<close>

text \<open>On a predicate that stays true, the search splits the indices.\<close>

lemma search_loop_split:
  assumes "i \<le> j" and "j \<le> n" and "\<forall>k < i. \<not> f k" and "\<forall>k. j \<le> k \<and> k < n \<longrightarrow> f k"
    and "\<forall>k l. k \<le> l \<and> l < n \<and> f k \<longrightarrow> f l"
  shows "search_loop f i j \<le> n \<and> (\<forall>k < n. f k \<longleftrightarrow> search_loop f i j \<le> k)"
  using assms
proof (induction f i j rule: search_loop.induct)
  case (1 f i j)
  note stays = 1(7) [rule_format]
  show ?case
  proof (cases "i < j")
    case False
    then have "j = i" using 1(3) by simp
    then have r: "search_loop f i j = i" by (simp add: search_loop.simps [of f i i])
    have "f k \<longleftrightarrow> i \<le> k" if "k < n" for k
      using 1(5,6) that \<open>j = i\<close> by (cases "k < i") auto
    then show ?thesis unfolding r using 1(4) \<open>j = i\<close> by blast
  next
    case True
    let ?h = "(i + j) div 2"
    have h: "i \<le> ?h" "?h < j" "?h < n" using True 1(4) by auto
    show ?thesis
    proof (cases "f ?h")
      case yes: True
      then have above: "\<forall>k. ?h \<le> k \<and> k < n \<longrightarrow> f k" using stays by blast
      have r: "search_loop f i j = search_loop f i ?h" using True yes by (subst search_loop.simps) (simp add: Let_def)
      show ?thesis unfolding r using h(3) by (intro 1(1) [OF True refl yes h(1) _ 1(5) above 1(7)]) simp
    next
      case no: False
      then have below: "\<forall>k < ?h + 1. \<not> f k" using stays h(3) by (auto simp: less_Suc_eq_le)
      have r: "search_loop f i j = search_loop f (?h + 1) j" using True no by (subst search_loop.simps) (simp add: Let_def)
      show ?thesis unfolding r using h(2) by (intro 1(2) [OF True refl no _ 1(4) below 1(6) 1(7)]) simp
    qed
  qed
qed

text \<open>Points in the order of their dates.\<close>

definition dated :: "'d DailyQuote list \<Rightarrow> bool" where
  "dated points \<longleftrightarrow> sorted_wrt (\<lambda>p q. iq_effective_date p < iq_effective_date q) points
     \<and> (\<forall>p \<in> set points. parse_day (iq_effective_date p) \<noteq> None)"

lemma last_on_or_before_split:
  assumes "dated points" and "n \<le> length points"
  shows "- 1 \<le> last_on_or_before points n d" "last_on_or_before points n d < int n"
    and "k < n \<Longrightarrow> iq_effective_date (points ! k) \<le> d \<longleftrightarrow> int k \<le> last_on_or_before points n d"
proof -
  let ?f = "\<lambda>k. d < iq_effective_date (points ! k)"
  have stays: "\<forall>k l. k \<le> l \<and> l < n \<and> ?f k \<longrightarrow> ?f l"
    using assms by (auto simp: dated_def sorted_wrt_iff_nth_less le_less intro: less_trans)
  have "sort_search n ?f \<le> n \<and> (\<forall>k < n. ?f k \<longleftrightarrow> sort_search n ?f \<le> k)"
    unfolding sort_search_def by (rule search_loop_split [OF _ _ _ _ stays]) auto
  then have r: "sort_search n ?f \<le> n" "\<forall>k < n. ?f k \<longleftrightarrow> sort_search n ?f \<le> k" by blast+
  then show "- 1 \<le> last_on_or_before points n d" "last_on_or_before points n d < int n" by (simp_all add: last_on_or_before_def)
  show "iq_effective_date (points ! k) \<le> d \<longleftrightarrow> int k \<le> last_on_or_before points n d" if "k < n"
    using r(2) that by (auto simp: last_on_or_before_def not_less [symmetric])
qed

text \<open>The last point on or before a date.\<close>

definition latest_point :: "'d DailyQuote list \<Rightarrow> string \<Rightarrow> nat \<Rightarrow> bool" where
  "latest_point points d k \<longleftrightarrow> k < length points \<and> iq_effective_date (points ! k) \<le> d
     \<and> (\<forall>l. k < l \<and> l < length points \<longrightarrow> d < iq_effective_date (points ! l))"

lemma last_on_or_before_latest:
  assumes "dated points" and "n \<le> length points" and "0 \<le> last_on_or_before points n d"
    and "\<forall>l. n \<le> l \<and> l < length points \<longrightarrow> d < iq_effective_date (points ! l)"
  shows "latest_point points d (nat (last_on_or_before points n d))"
proof -
  note split = last_on_or_before_split [OF assms(1,2)]
  define k where "k = nat (last_on_or_before points n d)"
  have k: "int k = last_on_or_before points n d" "k < n" using assms(3) split(2) [of d] by (simp_all add: k_def nat_less_iff)
  have "d < iq_effective_date (points ! l)" if l: "k < l" "l < length points" for l
  proof (cases "l < n")
    case True
    then show ?thesis using split(3) [OF True, of d] k(1) l(1) by (simp add: not_le [symmetric])
  next
    case False
    then show ?thesis using assms(4) l(2) by simp
  qed
  then show ?thesis
    unfolding k_def [symmetric] latest_point_def using k assms(2) split(3) [OF k(2), of d] by simp
qed

section \<open>The selection of a day\<close>

text \<open>Among quotes of known sources one replaces another exactly when it comes later in this order.\<close>

definition quote_rank :: "'d DailyQuote \<Rightarrow> int \<times> int \<times> go_time \<times> string" where
  "quote_rank q = (performanceSourceRank (iq_source_kind q), iq_revision q, iq_created_at q, iq_id q)"

lemma replaces_rank:
  assumes "performanceSource (iq_source_kind q)" and "performanceSource (iq_source_kind p)"
  shows "replaces q p \<longleftrightarrow> quote_rank p < quote_rank q"
  using assms by (auto simp: replaces_def quote_rank_def performanceSource_def performanceSourceRank_def less_prod_def)

definition selection :: "'d DailyQuote list \<Rightarrow> (string \<times> 'd DailyQuote) list \<Rightarrow> bool" where
  "selection quotes m \<longleftrightarrow> distinct (map fst m)
     \<and> (\<forall>(d, p) \<in> set m. iq_effective_date p = d \<and> p \<in> set quotes \<and> daily_close p)
     \<and> (\<forall>q \<in> set quotes. daily_close q \<longrightarrow> (\<exists>p. (iq_effective_date q, p) \<in> set m \<and> quote_rank q \<le> quote_rank p))"

lemma update_entry:
  "distinct (map fst al) \<Longrightarrow> (i, c) \<in> set (AList.update k v al) \<longleftrightarrow> (i = k \<and> c = v) \<or> (i \<noteq> k \<and> (i, c) \<in> set al)"
  by (induction al) (auto split: if_splits simp: image_iff)

lemma select_daily_selection:
  assumes "selection quotes m" and "\<forall>p \<in> set (quotes @ [q]). performanceSource (iq_source_kind p)"
  shows "selection (quotes @ [q]) (select_daily q m)"
proof -
  have d: "distinct (map fst m)" and known: "\<And>d p. (d, p) \<in> set m \<Longrightarrow> iq_effective_date p = d \<and> p \<in> set quotes \<and> daily_close p"
    and best: "\<And>p. p \<in> set quotes \<Longrightarrow> daily_close p \<Longrightarrow> \<exists>b. (iq_effective_date p, b) \<in> set m \<and> quote_rank p \<le> quote_rank b"
    using assms(1) by (auto simp: selection_def)
  let ?take = "daily_close q \<and> (case map_of m (iq_effective_date q) of None \<Rightarrow> True | Some old \<Rightarrow> replaces q old)"
  have entry: "map_of m (iq_effective_date q) = Some b \<longleftrightarrow> (iq_effective_date q, b) \<in> set m" for b
    using d by simp
  have rank: "replaces q b \<longleftrightarrow> quote_rank b < quote_rank q" if "(iq_effective_date q, b) \<in> set m" for b
    using known [OF that] assms(2) by (intro replaces_rank) auto
  show ?thesis
  proof (cases ?take)
    case True
    have over: "quote_rank p \<le> quote_rank q" if p: "p \<in> set quotes" "daily_close p" "iq_effective_date p = iq_effective_date q" for p
    proof -
      obtain b where b: "(iq_effective_date q, b) \<in> set m" "quote_rank p \<le> quote_rank b" using best [OF p(1,2)] p(3) by auto
      with True rank [OF b(1)] entry [of b] show ?thesis by auto
    qed
    show ?thesis
      unfolding selection_def select_daily_def if_P [OF True]
      using d known best over True by (auto simp: update_entry distinct_update) (metis order.refl)+
  next
    case False
    have "\<exists>b. (iq_effective_date q, b) \<in> set m \<and> quote_rank q \<le> quote_rank b" if close: "daily_close q"
    proof -
      obtain b where b: "map_of m (iq_effective_date q) = Some b" "\<not> replaces q b" using False close by (auto split: option.splits)
      with entry [of b] rank [of b] show ?thesis by (auto simp: not_less)
    qed
    then show ?thesis
      unfolding selection_def select_daily_def if_not_P [OF False] using d known best by fastforce
  qed
qed

lemma fold_select_daily:
  assumes "\<forall>p \<in> set quotes. performanceSource (iq_source_kind p)"
  shows "selection quotes (fold select_daily quotes [])"
  using assms
proof (induction quotes rule: rev_induct)
  case (snoc q quotes)
  then show ?case using select_daily_selection [of quotes "fold select_daily quotes []" q] by simp
qed (simp add: selection_def)

lemma sorted_distinct_key:
  "distinct (map f xs) \<Longrightarrow> sorted_wrt (\<lambda>x y. f x < f y) (sort_key f xs)"
proof -
  assume "distinct (map f xs)"
  moreover have "mset (map f (sort_key f xs)) = mset (map f xs)" by simp
  ultimately have "distinct (map f (sort_key f xs))" by (metis mset_eq_imp_distinct_iff)
  then have "sorted_wrt (<) (map f (sort_key f xs))" by (simp add: strict_sorted_iff)
  then show ?thesis by (simp add: sorted_wrt_map)
qed

lemma selection_points:
  assumes "selection quotes m"
  shows "dated (sort_key iq_effective_date (map snd m))"
proof -
  have "map iq_effective_date (map snd m) = map fst m"
    using assms by (auto simp: selection_def)
  then have "distinct (map iq_effective_date (map snd m))" using assms by (simp only: selection_def)
  moreover have "\<forall>p \<in> set (map snd m). parse_day (iq_effective_date p) \<noteq> None"
    using assms by (auto simp: selection_def daily_close_def Option.is_none_def)
  ultimately show ?thesis unfolding dated_def by (simp only: sorted_distinct_key set_sort simp_thms)
qed

section \<open>Closed days\<close>

definition closed_day :: "Instrument \<Rightarrow> InstrumentClosure list \<Rightarrow> int \<Rightarrow> bool" where
  "closed_day i closures n \<longleftrightarrow> DefaultInstrumentClosedDate (i_type i) (day_text n) \<or> HasInstrumentClosure (i_id i) (day_text n) closures"

lemma InstrumentClosedCarry_days:
  assumes "plain_day a" and "plain_day b" and "a < b"
  shows "InstrumentClosedCarry i (day_text a) (day_text b) closures \<longleftrightarrow> (\<forall>n. a < n \<and> n \<le> b \<longrightarrow> closed_day i closures n)"
proof -
  have "InclusiveMarketDates (day_text a) (day_text b) = Inr (map day_text [a..b])"
    using InclusiveMarketDates_days [of "day_text a" a "day_text b" b] assms by (simp add: trim_day_text parse_day_of_text)
  moreover have "day_text a \<noteq> []" "day_text b \<noteq> []" "\<not> day_text b < day_text a"
    using parse_day_of_text [OF assms(1)] parse_day_of_text [OF assms(2)] day_text_less [OF assms(2,1)] assms(3)
    by (auto simp: parse_day_def parse_date_def)
  moreover have "date \<in> set (map ic_date (filter (\<lambda>c. ic_instrument_id c = i_id i) closures)) \<longleftrightarrow> HasInstrumentClosure (i_id i) date closures" for date
    by (auto simp: HasInstrumentClosure_def list_ex_iff)
  ultimately have "InstrumentClosedCarry i (day_text a) (day_text b) closures \<longleftrightarrow> (\<forall>n \<in> {a..b}. n = a \<or> closed_day i closures n)"
    using assms(3) by (simp add: InstrumentClosedCarry_def closed_day_def list_all_iff del: set_map, simp)
  moreover have "(\<forall>n \<in> {a..b}. n = a \<or> P n) \<longleftrightarrow> (\<forall>n. a < n \<and> n \<le> b \<longrightarrow> P n)" for P
    by (auto simp: le_less)
  ultimately show ?thesis by simp
qed

lemma ResolveDailyClose_Inr:
  assumes "ResolveDailyClose D s i on = Inr q" and "dated (qs_points s)"
  obtains k t n mode where "parse_day on = Some t" and "latest_point (qs_points s) on k" and "q = qs_points s ! k"
    and "parse_day (iq_effective_date q) = Some n" and "n \<le> t" and "quotePerformanceMode (i_type i) = Some mode"
    and "quote_identity_ok i q" and "quote_price_ok D i mode q" and "last_on_or_before (qs_points s) (length (qs_points s)) on = int k"
    and "n = t \<or> i_quote_source i = QuoteSourceManual \<or> (\<forall>m. n < m \<and> m \<le> t \<longrightarrow> closed_day i (qs_closures s) m)"
proof -
  let ?b = "last_on_or_before (qs_points s) (length (qs_points s)) on"
  obtain t where t: "parse_day on = Some t" using assms(1) by (auto simp: ResolveDailyClose_def Option.is_none_def split: if_splits)
  have b: "0 \<le> ?b" and q: "q = qs_points s ! nat ?b"
    and carry: "iq_effective_date q = on \<or> i_quote_source i = QuoteSourceManual \<or> InstrumentClosedCarry i (iq_effective_date q) on (qs_closures s)"
    using assms(1) by (auto simp: ResolveDailyClose_def Let_def split: if_splits option.splits)
  obtain mode where mode: "quotePerformanceMode (i_type i) = Some mode" "quote_identity_ok i q" "quote_price_ok D i mode q"
    using assms(1) by (auto simp: ResolveDailyClose_def Let_def split: if_splits option.splits)
  have k: "latest_point (qs_points s) on (nat ?b)" using b by (intro last_on_or_before_latest [OF assms(2)]) auto
  then have "q \<in> set (qs_points s)" "iq_effective_date q \<le> on" by (auto simp: latest_point_def q)
  then obtain n where n: "parse_day (iq_effective_date q) = Some n" using assms(2) by (auto simp: dated_def)
  note texts = parse_day_text [OF n] parse_day_text [OF t]
  have le: "n \<le> t" using day_text_less [OF texts(3,1)] \<open>iq_effective_date q \<le> on\<close> texts(2,4) by (auto simp: not_less [symmetric])
  have "n = t \<or> i_quote_source i = QuoteSourceManual \<or> (\<forall>m. n < m \<and> m \<le> t \<longrightarrow> closed_day i (qs_closures s) m)"
    using carry le InstrumentClosedCarry_days [OF texts(1,3), of i "qs_closures s"] texts(2,4) by fastforce
  with that [OF t k q n le mode] b show thesis by simp
qed

section \<open>Windows\<close>

text \<open>The percentage is rounded once, at 24 places of the ratio.\<close>

lemma priceWindowPercent_accuracy:
  assumes "decimal_lib D" and "d_val D base \<noteq> 0" and "priceWindowPercent D base latest elapsed = (period, annual)"
  shows "\<exists>p. period = d_string D p \<and> \<bar>d_val D p - 100 * (d_val D latest / d_val D base - 1)\<bar> \<le> 50 / 10 ^ 24"
proof -
  from assms(1) have r: "decimal_round D" and a: "decimal_arith D"
    by (simp_all add: decimal_lib_def decimal_round_def decimal_scale_def)
  let ?q = "d_div_round D latest base 24"
  let ?p = "d_mul D (d_sub D ?q (d_from_int D 1)) (d_from_int D 100)"
  have "d_val D ?p = 100 * (d_val D ?q - 1)"
    using a by (simp add: decimal_arith.exact decimal_arith.val_from_int)
  moreover have "\<bar>d_val D ?q - d_val D latest / d_val D base\<bar> \<le> 1 / (2 * 10 ^ 24)"
    using decimal_round.val_div_round [OF r assms(2)] .
  moreover have "\<bar>100 * (v - 1) - 100 * (x - 1)\<bar> \<le> 100 * e" if "\<bar>v - x\<bar> \<le> e" for v x e :: rat
    using that by (simp add: abs_le_iff)
  ultimately have "\<bar>d_val D ?p - 100 * (d_val D latest / d_val D base - 1)\<bar> \<le> 100 * (1 / (2 * 10 ^ 24))" by metis
  also have "100 * (1 / (2 * 10 ^ 24)) = (50 / 10 ^ 24 :: rat)" by simp
  finally have "\<bar>d_val D ?p - 100 * (d_val D latest / d_val D base - 1)\<bar> \<le> 50 / 10 ^ 24" .
  then show ?thesis using assms(3) by (auto simp: priceWindowPercent_def Let_def)
qed

lemma project_window_Some:
  assumes "project_window D i mode points m anchorDate asOf w = Some item" and "0 < w" and "m < length points"
  defines "k \<equiv> nat (last_on_or_before points (m + 1) (day_text (day_or_zero anchorDate - w)))"
  shows "0 \<le> last_on_or_before points (m + 1) (day_text (day_or_zero anchorDate - w))"
    and "CivilDaysBetween (iq_effective_date (points ! k)) anchorDate = Inr (qp_elapsed_days item)"
    and "0 < qp_elapsed_days item" and "d_is_positive D (u_value (iq_unit_price (points ! k)))"
    and "window_comparable D i mode (drop k (take (m + 1) points))"
    and "qp_baseline_on item = iq_effective_date (points ! k)" and "qp_latest_on item = iq_effective_date (points ! m)"
    and "\<exists>annual. priceWindowPercent D (u_value (iq_unit_price (points ! k))) (u_value (iq_unit_price (points ! m))) (qp_elapsed_days item)
      = (qp_period_percent item, annual)"
  using assms(1,2) unfolding k_def
  by (auto simp: project_window_def window_base_def Let_def split: if_splits sum.splits prod.splits)

lemma window_comparable_nth:
  "window_comparable D i mode (drop k (take (m + 1) points)) \<Longrightarrow> k \<le> l \<Longrightarrow> l \<le> m \<Longrightarrow> m < length points
   \<Longrightarrow> quote_identity_ok i (points ! l) \<and> quote_price_ok D i mode (points ! l)"
proof -
  assume c: "window_comparable D i mode (drop k (take (m + 1) points))" and l: "k \<le> l" "l \<le> m" "m < length points"
  then have "points ! l = drop k (take (m + 1) points) ! (l - k)" "l - k < length (drop k (take (m + 1) points))" by auto
  then have "points ! l \<in> set (drop k (take (m + 1) points))" by (metis nth_mem)
  with c show ?thesis by (simp add: window_comparable_def list_all_iff)
qed

lemma ResolveDailyPerformance_Inr:
  assumes "ResolveDailyPerformance D s i on w gap = Inr item"
  obtains t q where "parse_day on = Some t" and "0 < w" and "ResolveDailyClose D s i on = Inr q"
    and "\<exists>rest. projectQuotePerformanceWindowsAsOf D i (qs_points s) (last_on_or_before (qs_points s) (length (qs_points s)) on) [w] on = item # rest"
    and "\<exists>g. CivilDaysBetween (qp_baseline_on item) (day_text (t - w)) = Inr g \<and> g \<le> gap"
proof -
  obtain t where t: "parse_day on = Some t" and w: "w \<in> set QuotePeriodWindows" "w \<noteq> 0"
    using assms by (auto simp: ResolveDailyPerformance_def Option.is_none_def ValidQuotePeriodWindow_def list_ex_iff split: if_splits)
  obtain q where q: "ResolveDailyClose D s i on = Inr q"
    using assms by (auto simp: ResolveDailyPerformance_def split: if_splits sum.splits)
  have "0 < w" using w by (auto simp: QuotePeriodWindows_def)
  with t q show thesis
    using assms by (intro that) (auto simp: ResolveDailyPerformance_def day_or_zero_def split: if_splits sum.splits list.splits)
qed

section \<open>Properties\<close>

text \<open>C32. Of the quotes of known sources, the daily series keeps one per day, in the order of the days:
  each of its points is a daily close of the input, and no daily close of the same day comes after it
  in the order of source, revision, creation and identity.\<close>

theorem dailyPerformanceQuotes_best:
  assumes "\<forall>q \<in> set quotes. performanceSource (iq_source_kind q)"
  shows "dated (dailyPerformanceQuotes quotes)
    \<and> (\<forall>p \<in> set (dailyPerformanceQuotes quotes). p \<in> set quotes \<and> daily_close p)
    \<and> (\<forall>q \<in> set quotes. daily_close q \<longrightarrow>
         (\<exists>p \<in> set (dailyPerformanceQuotes quotes). iq_effective_date p = iq_effective_date q \<and> quote_rank q \<le> quote_rank p))"
proof -
  let ?m = "fold select_daily quotes []"
  have m: "selection quotes ?m" by (rule fold_select_daily [OF assms])
  have "\<exists>p \<in> set (map snd ?m). iq_effective_date p = iq_effective_date q \<and> quote_rank q \<le> quote_rank p"
    if q: "q \<in> set quotes" "daily_close q" for q
  proof -
    obtain p where p: "(iq_effective_date q, p) \<in> set ?m" "quote_rank q \<le> quote_rank p" using m q by (auto simp: selection_def)
    moreover have "iq_effective_date p = iq_effective_date q" using m p(1) by (auto simp: selection_def)
    ultimately show ?thesis by force
  qed
  moreover have "\<forall>p \<in> set (map snd ?m). p \<in> set quotes \<and> daily_close p" using m by (auto simp: selection_def)
  ultimately show ?thesis unfolding dailyPerformanceQuotes_def using selection_points [OF m] by simp
qed

definition sample_quote :: "string \<Rightarrow> QuoteSourceKind \<Rightarrow> string \<Rightarrow> int \<Rightarrow> dec DailyQuote" where
  "sample_quote i source date price =
     \<lparr> iq_id = i, iq_instrument_id = ''fund'', iq_unit_price = \<lparr> u_value = Dec price 0 \<rparr>, iq_currency = ''USD'',
       iq_source_kind = source, iq_source_key = [], iq_quoted_at = 0, iq_created_at = 0, iq_delayed = False,
       iq_observation_kind = ''close'', iq_effective_date = date, iq_binding_revision = 0,
       iq_price_basis = ''agent_unit_nav_v1'', iq_timestamp_basis = ''date_label'', iq_revision = 1, iq_split_factor = [],
       iq_dividend_cash = [] \<rparr>"

definition sample_quotes :: "dec DailyQuote list" where
  "sample_quotes = [sample_quote ''c'' QuoteSourceAgent ''2026-03-06'' 110, sample_quote ''b'' QuoteSourceProvider ''2026-03-06'' 90,
     sample_quote ''a'' QuoteSourceAgent ''2026-02-27'' 100]"

lemma sample_series:
  "dailyPerformanceQuotes sample_quotes
   = [sample_quote ''a'' QuoteSourceAgent ''2026-02-27'' 100, sample_quote ''c'' QuoteSourceAgent ''2026-03-06'' 110]"
  by code_simp

theorem dailyPerformanceQuotes_best_witness:
  "list_all (\<lambda>q. performanceSource (iq_source_kind q)) sample_quotes \<and> dated (dailyPerformanceQuotes sample_quotes)
   \<and> length (dailyPerformanceQuotes sample_quotes) = 2"
proof -
  have "list_all (\<lambda>q. performanceSource (iq_source_kind q)) sample_quotes"
    by (simp add: sample_quotes_def sample_quote_def performanceSource_def)
  with dailyPerformanceQuotes_best [of sample_quotes] show ?thesis by (simp add: sample_series list_all_iff)
qed

text \<open>C31. A close resolved for a day is the last point of the series on or before it and meets the tests of
  its instrument; unless the instrument is priced by hand, every day from the one after the point to
  the day asked for is closed, so no missing trading day is filled.\<close>

theorem ResolveDailyClose_latest:
  assumes "dated (qs_points s)" and "ResolveDailyClose D s i on = Inr q"
  shows "\<exists>k t n mode. parse_day on = Some t \<and> latest_point (qs_points s) on k \<and> q = qs_points s ! k
    \<and> iq_effective_date q = day_text n \<and> n \<le> t
    \<and> quotePerformanceMode (i_type i) = Some mode \<and> quote_identity_ok i q \<and> quote_price_ok D i mode q
    \<and> (i_quote_source i = QuoteSourceManual \<or> (\<forall>m. n < m \<and> m \<le> t \<longrightarrow> closed_day i (qs_closures s) m))"
proof -
  obtain k t n mode where r: "parse_day on = Some t" "latest_point (qs_points s) on k" "q = qs_points s ! k"
    "parse_day (iq_effective_date q) = Some n" "n \<le> t" "quotePerformanceMode (i_type i) = Some mode" "quote_identity_ok i q"
    "quote_price_ok D i mode q"
    "n = t \<or> i_quote_source i = QuoteSourceManual \<or> (\<forall>m. n < m \<and> m \<le> t \<longrightarrow> closed_day i (qs_closures s) m)"
    by (rule ResolveDailyClose_Inr [OF assms(2,1)]) (rule that; assumption)
  then have "i_quote_source i = QuoteSourceManual \<or> (\<forall>m. n < m \<and> m \<le> t \<longrightarrow> closed_day i (qs_closures s) m)" by auto
  with r parse_day_text(2) [OF r(4)] show ?thesis
    by (intro exI [of _ k] exI [of _ t] exI [of _ n] exI [of _ mode]) simp
qed

definition sample_fund :: Instrument where
  "sample_fund =
     \<lparr> i_id = ''fund'', i_household_id = [], i_name = [], i_short_name = [], i_type = InstrumentMutualFund, i_metal_template = [], i_quantity_unit = [],
       i_quote_currency = ''USD'', i_symbol = None, i_market_code = None, i_country_code = None, i_isin = None, i_note = None,
       i_icon_key = None, i_sort_order = 0, i_quote_source = QuoteSourceAgent, i_provider_key = None, i_provider_symbol = None,
       i_binding_revision = 0, i_preference_observation_id = None, i_created_at = 0, i_updated_at = 0, i_archived_at = None \<rparr>"

definition sample_review :: "dec ReviewDailyQuoteSeries" where
  "sample_review = NewReviewDailyQuoteSeries ''fund'' sample_quotes []"

lemma sample_dated: "dated (qs_points sample_review)"
  by code_simp

lemma sample_resolved:
  "ResolveDailyClose ref_decimal sample_review sample_fund ''2026-03-08'' = Inr (sample_quote ''c'' QuoteSourceAgent ''2026-03-06'' 110)"
  by code_simp

theorem ResolveDailyClose_latest_witness:
  "\<exists>k t n. parse_day ''2026-03-08'' = Some t \<and> latest_point (qs_points sample_review) ''2026-03-08'' k \<and> ''2026-03-06'' = day_text n
     \<and> list_all (closed_day sample_fund []) [n + 1..t]"
proof -
  have "i_quote_source sample_fund \<noteq> QuoteSourceManual" "qs_closures sample_review = []"
    "iq_effective_date (sample_quote ''c'' QuoteSourceAgent ''2026-03-06'' 110) = ''2026-03-06''"
    by (simp_all add: sample_fund_def sample_review_def NewReviewDailyQuoteSeries_def sample_quote_def)
  moreover have "list_all P [n + 1..t] \<longleftrightarrow> (\<forall>m. n < m \<and> m \<le> t \<longrightarrow> P m)" for P and n t :: int
    by (auto simp: list_all_iff)
  ultimately show ?thesis
    using ResolveDailyClose_latest [OF sample_dated sample_resolved] by (simp only: simp_thms) blast
qed

text \<open>C30. A performance resolved for a day compares the last point on or before it with the last point on or
  before the start of the window, which is at most the allowed gap older (day counts saturate at
  106751).  Every point from one to the other is comparable in the mode of the instrument, and the percentage is that of the two
  prices up to half a unit of the 22nd place.\<close>

theorem ResolveDailyPerformance_sound:
  assumes "decimal_lib D" and "dated (qs_points s)" and "plain_day t" and "plain_day (t - w)"
    and "ResolveDailyPerformance D s i (day_text t) w gap = Inr item"
  shows "\<exists>k m b p mode. quotePerformanceMode (i_type i) = Some mode
    \<and> latest_point (qs_points s) (day_text t) m \<and> latest_point (qs_points s) (day_text (t - w)) k
    \<and> qp_baseline_on item = day_text b \<and> iq_effective_date (qs_points s ! k) = day_text b
    \<and> qp_latest_on item = iq_effective_date (qs_points s ! m)
    \<and> min (t - w - b) 106751 \<le> gap \<and> qp_elapsed_days item = min (t - b) 106751
    \<and> (\<forall>l. k \<le> l \<and> l \<le> m \<longrightarrow> quote_identity_ok i (qs_points s ! l) \<and> quote_price_ok D i mode (qs_points s ! l))
    \<and> qp_period_percent item = d_string D p
    \<and> \<bar>d_val D p - 100 * (d_val D (u_value (iq_unit_price (qs_points s ! m))) / d_val D (u_value (iq_unit_price (qs_points s ! k))) - 1)\<bar>
        \<le> 50 / 10 ^ 24"
proof -
  let ?points = "qs_points s" and ?on = "day_text t" and ?target = "day_text (t - w)"
  obtain q where w: "0 < w" and q: "ResolveDailyClose D s i ?on = Inr q"
    and items: "\<exists>rest. projectQuotePerformanceWindowsAsOf D i ?points (last_on_or_before ?points (length ?points) ?on) [w] ?on = item # rest"
    and gap: "\<exists>g. CivilDaysBetween (qp_baseline_on item) ?target = Inr g \<and> g \<le> gap"
    using ResolveDailyPerformance_Inr [OF assms(5)] parse_day_of_text [OF assms(3)] by (metis option.inject)
  obtain m mode where m: "latest_point ?points ?on m" "quotePerformanceMode (i_type i) = Some mode"
    "last_on_or_before ?points (length ?points) ?on = int m"
    using ResolveDailyClose_Inr [OF q assms(2)] by metis
  have ml: "m < length ?points" using m(1) by (simp add: latest_point_def)
  have "?on \<noteq> []" using parse_day_of_text [OF assms(3)] by (auto simp: parse_day_def parse_date_def)
  then have item: "project_window D i mode ?points m ?on ?on w = Some item"
    using items ml unfolding m(3) projectQuotePerformanceWindowsAsOf_def m(2)
    by (auto simp: Let_def List.map_filter_simps split: if_splits option.splits)
  have target: "day_or_zero ?on - w = t - w" by (simp add: day_or_zero_def parse_day_of_text [OF assms(3)])
  define k where "k = nat (last_on_or_before ?points (m + 1) ?target)"
  note pw = project_window_Some [OF item w ml, unfolded target, folded k_def]
  have "?target < ?on" using day_text_less [OF assms(4,3)] w by simp
  then have k: "latest_point ?points ?target k"
    unfolding k_def using m(1) pw(1) ml
    by (intro last_on_or_before_latest [OF assms(2)]) (auto simp: latest_point_def intro: less_trans)
  then have "?points ! k \<in> set ?points" by (simp add: latest_point_def)
  then obtain b where b: "parse_day (iq_effective_date (?points ! k)) = Some b" using assms(2) by (auto simp: dated_def)
  note bt = parse_day_text [OF b]
  have le: "b \<le> t - w" using k day_text_less [OF assms(4) bt(1)] bt(2) by (auto simp: latest_point_def not_less [symmetric])
  have days: "CivilDaysBetween (day_text b) (day_text n) = Inr (min (n - b) 106751)" if "plain_day n" "b \<le> n" for n
    using CivilDaysBetween_days [OF parseCivilTime_day_text [OF bt(1)] parseCivilTime_day_text [OF that(1)] that(2)] .
  have elapsed: "qp_elapsed_days item = min (t - b) 106751" using pw(2) days [OF assms(3)] le w bt(2) by simp
  have within: "min (t - w - b) 106751 \<le> gap" using gap days [OF assms(4) le] pw(6) bt(2) by simp
  obtain annual where percent: "priceWindowPercent D (u_value (iq_unit_price (?points ! k))) (u_value (iq_unit_price (?points ! m)))
      (qp_elapsed_days item) = (qp_period_percent item, annual)"
    using pw(8) by blast
  have "decimal_arith D" using assms(1) by (simp add: decimal_lib_def decimal_round_def decimal_scale_def)
  then have "d_val D (u_value (iq_unit_price (?points ! k))) \<noteq> 0" using pw(4) by (simp add: decimal_arith.exact)
  then obtain p where p: "qp_period_percent item = d_string D p"
    "\<bar>d_val D p - 100 * (d_val D (u_value (iq_unit_price (?points ! m))) / d_val D (u_value (iq_unit_price (?points ! k))) - 1)\<bar> \<le> 50 / 10 ^ 24"
    using priceWindowPercent_accuracy [OF assms(1) _ percent] by blast
  have "\<forall>l. k \<le> l \<and> l \<le> m \<longrightarrow> quote_identity_ok i (?points ! l) \<and> quote_price_ok D i mode (?points ! l)"
    using window_comparable_nth [OF pw(5) _ _ ml] by blast
  with m(1,2) k pw(6,7) bt(2) within elapsed p show ?thesis by (intro exI [of _ k] exI [of _ m] exI [of _ b] exI [of _ p] exI [of _ mode]) simp
qed

lemma sample_performance:
  "\<exists>item. ResolveDailyPerformance ref_decimal sample_review sample_fund ''2026-03-06'' 7 3 = Inr item \<and> qp_period_percent item = ''10''"
  by (rule exI [of _ "\<lparr> qp_window_days = 7, qp_baseline_on = ''2026-02-27'', qp_as_of_on = ''2026-03-06'', qp_latest_on = ''2026-03-06'',
      qp_elapsed_days = 7, qp_period_percent = ''10'', qp_annualized_percent = Some ''521.428571428571'' \<rparr>"]) code_simp

theorem ResolveDailyPerformance_sound_witness:
  "\<exists>item m k b. ResolveDailyPerformance ref_decimal sample_review sample_fund ''2026-03-06'' 7 3 = Inr item
     \<and> qp_period_percent item = ''10'' \<and> latest_point (qs_points sample_review) ''2026-03-06'' m
     \<and> latest_point (qs_points sample_review) ''2026-02-27'' k \<and> qp_elapsed_days item = min (739680 - b) 106751"
proof -
  have d: "day_text 739680 = ''2026-03-06''" "day_text (739680 - 7) = ''2026-02-27''" by code_simp+
  obtain item where i: "ResolveDailyPerformance ref_decimal sample_review sample_fund ''2026-03-06'' 7 3 = Inr item"
    "qp_period_percent item = ''10''" using sample_performance by blast
  have "plain_day 739680" "plain_day (739680 - 7)" by (simp_all add: plain_day_def)
  from ResolveDailyPerformance_sound [OF ref.decimal_lib_axioms sample_dated this, unfolded d, OF i(1)] i show ?thesis by blast
qed

end
