(* ===== verification/Spec2Isabelle.thy ===== *)
theory Spec2Isabelle
  imports PreviewProps LocalTime ActivityReplay UpcomingProps ReviewEpisode ReviewSuppression QuoteSeries
begin

text \<open>
  A verification development for Nestworth, a household finance program written in Go.

  \<^bold>\<open>The program.\<close>  Nestworth keeps the accounts, holdings, debts and managed products of a household.
  Its core is the package \<^verbatim>\<open>internal/domain\<close>: value types (money, quantities, prices, rates), the
  entities built from them, the ledger of changes, and the computations over them.  The application
  layer (\<^verbatim>\<open>internal/application\<close>) reads rows from SQLite, calls the domain and stores the results; the
  desktop, tool and mobile interfaces decode requests and call the application layer.  This
  development models the domain package, file by file.

  \<^bold>\<open>Foundations.\<close>
  \<^item> \<^verbatim>\<open>Prelude\<close>: results as sums (\<^term>\<open>res_bind\<close>, \<^term>\<open>map_err\<close>), decimal digits and texts.
  \<^item> \<^verbatim>\<open>GoRuntime\<close>: what the code uses of Go itself: strings as byte lists with \<^verbatim>\<open>strings.TrimSpace\<close>,
    upper and lower case and rune counts, times as nanoseconds since year 1, the Gregorian calendar,
    date texts.  \<^verbatim>\<open>Calendar\<close> proves the calendar's round trips.
  \<^item> \<^verbatim>\<open>Rounding\<close>: rounding half to even on rationals and the grids of fixed decimal places.
  \<^item> \<^verbatim>\<open>DecimalLib\<close>: the package \<^verbatim>\<open>shopspring/decimal\<close> is not part of the sources.  Its operations are the
    record \<^typ>\<open>'d decimal_ops\<close>, an argument of every definition that computes with decimals, and what
    the code relies on is the tower of locales \<^verbatim>\<open>decimal_arith\<close>, \<^verbatim>\<open>decimal_scale\<close>, \<^verbatim>\<open>decimal_round\<close>,
    \<^verbatim>\<open>decimal_lib\<close>: exact arithmetic and comparison, exponents, rounding and division, texts.
    Properties assume \<^term>\<open>decimal_lib D\<close>.  \<^verbatim>\<open>DecimalRef\<close> defines coefficients with exponents,
    \<^term>\<open>ref_decimal\<close>, and interprets the locales on it; witnesses compute with it.
  \<^item> Other surroundings are arguments too: identifiers of the UUID generator, the time zone database
    and the order of ranging over a map (\<^typ>\<open>runtime\<close>, \<^verbatim>\<open>load_location\<close>, \<^verbatim>\<open>range_order\<close>), and the
    JSON encoding that compares review rules and action targets (\<^verbatim>\<open>marshal\<close>, \<^verbatim>\<open>upcoming_codec\<close>).
  \<^item> A Go string type with constants is a datatype with one constructor per constant and one for
    every other text; pointers that may be nil are options; an error is a value of \<^typ>\<open>err\<close>.

  \<^bold>\<open>Components\<close>, each a theory with its records, operations, invariant and lemmas.
  \<^item> \<^verbatim>\<open>DomainBase\<close> (\<^verbatim>\<open>model.go\<close>): error codes, identities, names, notes, dates, currencies.
  \<^item> \<^verbatim>\<open>Money\<close> (\<^verbatim>\<open>decimal.go\<close>): Money, SignedMoney, Quantity, UnitPrice, FxRate.  Accepted exactly within
    their bounds, rounded once, texts that parse back.
  \<^item> \<^verbatim>\<open>Fx\<close> (\<^verbatim>\<open>portfolio.go\<close>, \<^verbatim>\<open>decimal.go\<close>): quotes, preferences and conversion; the decimal conversion
    agrees with the rational one, a conversion through a pivot rounds once.
  \<^item> \<^verbatim>\<open>Ownership\<close>, \<^verbatim>\<open>Accounts\<close>, \<^verbatim>\<open>Portfolio\<close> (\<^verbatim>\<open>model.go\<close>, \<^verbatim>\<open>account_type.go\<close>, \<^verbatim>\<open>institution_type.go\<close>,
    \<^verbatim>\<open>icons.go\<close>, \<^verbatim>\<open>portfolio.go\<close>, \<^verbatim>\<open>precious_metal.go\<close>, \<^verbatim>\<open>holding_groups.go\<close>): owners and shares, households,
    accounts and their legal combinations, instruments, holdings, quotes, metals.
  \<^item> \<^verbatim>\<open>CostBasis\<close> (\<^verbatim>\<open>cost_basis.go\<close>): the replay of buys, sells and adjustments into an average cost.  It is
    proved to refine the average-cost method folded in exact rationals over the events that no
    reversal withdraws: quantity, average cost, and the unit cost and gain of every sale.
  \<^item> \<^verbatim>\<open>Change\<close>, \<^verbatim>\<open>ChangeBuild\<close> (\<^verbatim>\<open>change.go\<close>): activities and effects, their application to the state, undo,
    and the twelve command builders with \<^term>\<open>PreviewChange\<close>.  \<^verbatim>\<open>Ledger\<close> gives the abstract machine that
    posts signed amounts within bounds and proves that applying effects refines it, that undoing a
    change of balances restores them, and the invariant of any history; \<^verbatim>\<open>PreviewSound\<close> and \<^verbatim>\<open>PreviewProps\<close> prove that every
    preview shows the balances its effects lead to.
  \<^item> \<^verbatim>\<open>CivilDate\<close> (\<^verbatim>\<open>civil_date.go\<close>), \<^verbatim>\<open>LocalTime\<close> (\<^verbatim>\<open>change.go\<close>): the instants of a date in a zone,
    with the error for zone data whose intervals do not advance, and the instant of a wall clock.
  \<^item> \<^verbatim>\<open>History\<close>, \<^verbatim>\<open>ActivityReplay\<close> (\<^verbatim>\<open>history.go\<close>, \<^verbatim>\<open>activity_replay.go\<close>): origin balances and the
    recomputation of recorded effects from them.
  \<^item> \<^verbatim>\<open>LiquidityCalendar\<close> (\<^verbatim>\<open>liquidity_calendar.go\<close>): date texts as days, weekdays, horizons.
  \<^item> \<^verbatim>\<open>ProductContract\<close> (\<^verbatim>\<open>product_contract.go\<close>): deposits and locked products, their validation, stored
    form, interest and forecasts.
  \<^item> \<^verbatim>\<open>Valuation\<close> (\<^verbatim>\<open>valuation.go\<close>): freshness of quotes.
  \<^item> \<^verbatim>\<open>LiquidityPolicy\<close>, \<^verbatim>\<open>LiquidityEval\<close> (\<^verbatim>\<open>liquidity.go\<close>, \<^verbatim>\<open>liquidity_precision.go\<close>,
    \<^verbatim>\<open>liquidity_evaluate.go\<close>): access policies, reservations and the evaluation of available money.
    \<^verbatim>\<open>LiquidityProps\<close> proves that the best arrived route is taken, that reservations split amounts
    without loss and that totals are cumulative over horizons in order, and shows on an example that
    a custom horizon out of order makes the evaluation fail.
  \<^item> \<^verbatim>\<open>Upcoming\<close> (\<^verbatim>\<open>upcoming_actions.go\<close>): the projection of an evaluated overview into dated actions and
    data checks.  \<^verbatim>\<open>UpcomingProps\<close> proves that it does not depend on the order of ranging over a map, that
    it calls itself partial exactly when a data check or the reason of an item (a reservation
    without a source apart) reports a gap, and that phases agree with dates.  Its keys
    are SHA-256 digests, which \<^verbatim>\<open>Sha256\<close> defines.
  \<^item> \<^verbatim>\<open>ReviewRule\<close> (\<^verbatim>\<open>review_rule_spec.go\<close>): the leaves, the predicate and the
    trigger policy of a review rule and their normalisation into a normal form (sorted, without
    duplicates, bounded in depth and size; idempotent for the trigger policy), with the check that
    the numeric conditions of an all-group on one metric, lookback, currency and mode can be
    satisfied together.
  \<^item> \<^verbatim>\<open>ReviewDaily\<close> (\<^verbatim>\<open>review_daily_policy.go\<close>, \<^verbatim>\<open>review_daily_evidence.go\<close>, \<^verbatim>\<open>marketdata_fx.go\<close>): the evidence a day admits and the truth value of a rule on it.
  \<^item> \<^verbatim>\<open>ReviewPolicy\<close> (\<^verbatim>\<open>review_daily_policy.go\<close>): when a series of daily truth values satisfies a trigger
    policy; the ring buffer of the timeline is proved equal to a reference that looks at whole windows.
  \<^item> \<^verbatim>\<open>ReviewEpisode\<close> (\<^verbatim>\<open>review_episode.go\<close>): the state machine of an episode, as a function and as an
    inductive log of advances with its invariant.
  \<^item> \<^verbatim>\<open>ReviewSuppression\<close> (\<^verbatim>\<open>review_suppression.go\<close>, \<^verbatim>\<open>review_temporal.go\<close>): the suppression in force, how
    long one lasts, and the next calendar boundary at which an evaluation can change.
  \<^item> \<^verbatim>\<open>MarketDates\<close> (\<^verbatim>\<open>marketdata_clock.go\<close>, \<^verbatim>\<open>marketdata_session.go\<close>, \<^verbatim>\<open>marketdata_sync.go\<close>,
    \<^verbatim>\<open>marketdata_completeness.go\<close>, \<^verbatim>\<open>marketdata_history_support.go\<close>): market dates that are final, which
    days of history to fetch and which of the fetched days are missing.
  \<^item> \<^verbatim>\<open>QuoteSeries\<close> (\<^verbatim>\<open>quote_performance.go\<close>, \<^verbatim>\<open>instrument_calendar.go\<close>, \<^verbatim>\<open>review_daily_evidence.go\<close>): one quote per
    day, windows of performance and the carry of a close over closed days; the binary search of Go is
    proved to split the sorted points.

  \<^bold>\<open>Loops.\<close>  A loop of the code is a recursive function with a termination proof: over the list it
  ranges over, over the offsets of a zone (each step moves a cursor forward within a window), or over
  the working days left.  The one loop that no argument bounds, the walk back over consecutive days in
  \<^term>\<open>EvaluateReviewPolicy\<close>, is a partial function into options; it is proved to return whenever the
  recorded days are finitely many, as they are in a Go map.  There is no fuel.

  \<^bold>\<open>Not modelled.\<close>  The byte level of JSON, since the codec is a library; the read models that only carry
  data to the interfaces, observations and review certificates with their hashes among them; gain
  views, reconciliation sessions and the market price oracle of the
  domain package, which are further computations of the same kind; the application services, which
  combine repositories, clocks and providers around the domain operations; SQL text and row scanning;
  the interfaces and the frontend.
\<close>

end
